(* ===== verification/GoPrelude.thy ===== *)
theory GoPrelude
  imports Main "HOL-Library.Word" "HOL-Library.List_Lexorder" "HOL-Library.Char_ord"
    "HOL-Library.Multiset"
begin

text \<open>
  Shared vocabulary of the development: the Go types the modelled packages use, the operations
  of Go's \<open>strings\<close> and \<open>time\<close> packages they call, and the generic lemmas the components share.

  Conventions.  A Go \<open>string\<close> is its sequence of bytes, a HOL \<open>string\<close>.  A \<open>time.Time\<close> is the
  number of nanoseconds since Go's zero instant (so \<open>IsZero\<close> is equality with 0) and a
  \<open>*time.Time\<close> is an option of it; \<open>time.Duration\<close> is nanoseconds.  A Go \<open>map\<close> that is only
  looked up is a HOL map; a Go \<open>map\<close> that the code ranges over is the association list of its
  entries in the order in which that \<open>range\<close> happens to visit them (Go leaves it unspecified), so a
  theorem about every such list is a theorem about every iteration order.  \<open>int\<close> and \<open>int64\<close> are
  HOL integers, with \<open>wrap64\<close> written where the code can leave the 64 bit range.
\<close>

subsection \<open>Names for Go types\<close>

type_synonym gotime = int
type_synonym duration = int
type_synonym ('k, 'v) gomap = "('k \<times> 'v) list"
type_synonym rawjson = "string option"

named_theorems go_simps \<open>evaluation of the modelled Go library operations\<close>
named_theorems inv_intros \<open>preservation of component invariants\<close>

definition well_keyed :: "('k, 'v) gomap \<Rightarrow> bool" where
  "well_keyed m \<longleftrightarrow> distinct (map fst m)"

definition nanosecond :: duration where "nanosecond = 1"
definition millisecond :: duration where "millisecond = 1000000"
definition second :: duration where "second = 1000000000"
definition minute :: duration where "minute = 60 * second"
definition hour :: duration where "hour = 60 * minute"
definition day :: duration where "day = 24 * hour"

lemma duration_values [go_simps]:
  "nanosecond = 1" "millisecond = 1000000" "second = 1000000000"
  "minute = 60000000000" "hour = 3600000000000" "day = 86400000000000"
  by (simp_all add: nanosecond_def millisecond_def second_def minute_def hour_def day_def)

subsection \<open>Integers of 64 bits\<close>

definition wrap64 :: "int \<Rightarrow> int" where
  "wrap64 x = (x + 2 ^ 63) mod 2 ^ 64 - 2 ^ 63"

definition int64_range :: "int \<Rightarrow> bool" where
  "int64_range x \<longleftrightarrow> - (2 ^ 63) \<le> x \<and> x < 2 ^ 63"

text \<open>Go's division and remainder truncate towards zero.\<close>

definition go_div :: "int \<Rightarrow> int \<Rightarrow> int" where
  "go_div a b = sgn a * sgn b * (\<bar>a\<bar> div \<bar>b\<bar>)"

definition go_mod :: "int \<Rightarrow> int \<Rightarrow> int" where
  "go_mod a b = a - b * go_div a b"

lemma wrap64_id [simp]: "int64_range x \<Longrightarrow> wrap64 x = x"
  by (simp add: wrap64_def int64_range_def mod_pos_pos_trivial)

lemma wrap64_range: "int64_range (wrap64 x)"
proof -
  have "0 \<le> (x + 2 ^ 63) mod 2 ^ 64" "(x + 2 ^ 63) mod 2 ^ 64 < (2 ^ 64 :: int)"
    by (rule pos_mod_sign, simp) (rule pos_mod_bound, simp)
  then show ?thesis
    by (simp add: wrap64_def int64_range_def)
qed

lemma go_div_nonneg [simp]: "0 \<le> a \<Longrightarrow> 0 < b \<Longrightarrow> go_div a b = a div b"
  by (cases "a = 0") (simp_all add: go_div_def)

lemma go_mod_nonneg [simp]: "0 \<le> a \<Longrightarrow> 0 < b \<Longrightarrow> go_mod a b = a mod b"
  by (simp add: go_mod_def minus_mult_div_eq_mod)

subsection \<open>Strings\<close>

fun has_prefix :: "string \<Rightarrow> string \<Rightarrow> bool" where
  "has_prefix s [] = True"
| "has_prefix [] (p # ps) = False"
| "has_prefix (c # s) (p # ps) = (c = p \<and> has_prefix s ps)"

definition has_suffix :: "string \<Rightarrow> string \<Rightarrow> bool" where
  "has_suffix s p = has_prefix (rev s) (rev p)"

fun str_contains :: "string \<Rightarrow> string \<Rightarrow> bool" where
  "str_contains [] p = (p = [])"
| "str_contains (c # s) p = (has_prefix (c # s) p \<or> str_contains s p)"

lemma has_prefix_iff: "has_prefix s p \<longleftrightarrow> (\<exists>t. s = p @ t)"
  by (induction s p rule: has_prefix.induct) auto

lemma has_suffix_iff: "has_suffix s p \<longleftrightarrow> (\<exists>t. s = t @ p)"
proof
  assume "has_suffix s p"
  then obtain t where "rev s = rev p @ t"
    by (auto simp: has_suffix_def has_prefix_iff)
  then have "s = rev t @ p"
    by (metis rev_append rev_rev_ident)
  then show "\<exists>t. s = t @ p" ..
next
  assume "\<exists>t. s = t @ p"
  then show "has_suffix s p"
    by (auto simp: has_suffix_def has_prefix_iff)
qed

lemma str_containsI: "str_contains (a @ p @ b) p"
proof (induction a)
  case Nil
  have "has_prefix (p @ b) p"
    by (auto simp only: has_prefix_iff)
  then show ?case
    by (cases "p @ b") auto
next
  case (Cons c a)
  then show ?case by simp
qed

lemma str_containsD: "str_contains s p \<Longrightarrow> \<exists>a b. s = a @ p @ b"
proof (induction s)
  case Nil
  then show ?case by simp
next
  case (Cons c s)
  then consider "has_prefix (c # s) p" | "str_contains s p"
    by auto
  then show ?case
  proof cases
    case 1
    then obtain t where "c # s = [] @ p @ t"
      by (auto simp only: has_prefix_iff append_Nil)
    then show ?thesis by blast
  next
    case 2
    then obtain a b where "c # s = (c # a) @ p @ b"
      using Cons.IH by auto
    then show ?thesis by blast
  qed
qed

lemma str_contains_iff: "str_contains s p \<longleftrightarrow> (\<exists>a b. s = a @ p @ b)"
  using str_containsI str_containsD by blast

text \<open>\<open>strings.Split\<close> on a separator of one byte, and \<open>strings.Trim\<close>, \<open>TrimLeft\<close>, \<open>TrimRight\<close> of one.\<close>

fun split_on :: "char \<Rightarrow> string \<Rightarrow> string list" where
  "split_on c [] = [[]]"
| "split_on c (d # s) =
     (if d = c then [] # split_on c s
      else (case split_on c s of [] \<Rightarrow> [[d]] | w # ws \<Rightarrow> (d # w) # ws))"

definition trim_left :: "char \<Rightarrow> string \<Rightarrow> string" where
  "trim_left c s = dropWhile (\<lambda>d. d = c) s"

definition trim_right :: "char \<Rightarrow> string \<Rightarrow> string" where
  "trim_right c s = rev (dropWhile (\<lambda>d. d = c) (rev s))"

definition trim_char :: "char \<Rightarrow> string \<Rightarrow> string" where
  "trim_char c s = trim_right c (trim_left c s)"

lemma split_on_nonempty [simp]: "split_on c s \<noteq> []"
  by (induction s) (auto split: list.splits)

subsection \<open>Lookup in association lists\<close>

lemma map_of_well_keyed: "well_keyed m \<Longrightarrow> (k, v) \<in> set m \<longleftrightarrow> map_of m k = Some v"
  by (simp add: well_keyed_def)

lemma map_of_mset_eq:
  assumes "well_keyed m" and "mset m' = mset m"
  shows "map_of m' = map_of m"
proof -
  have "mset (map fst m') = mset (map fst m)"
    using assms(2) by simp
  then have "distinct (map fst m')"
    using assms(1) mset_eq_imp_distinct_iff well_keyed_def by blast
  moreover have "set m' = set m"
    using assms(2) by (rule mset_eq_setD)
  ultimately show ?thesis
    using assms(1) by (intro map_of_inject_set [THEN iffD2]) (auto simp: well_keyed_def)
qed

end
