(* ===== verification/FlagModel.thy ===== *)
theory FlagModel
  imports GoPrelude
begin

text \<open>
  The data of \<open>server/internal/domain\<close> that the evaluation engine, the cache and the handlers share:
  \<open>flag.go\<close>, \<open>segment.go\<close>, \<open>ruleset.go\<close>, \<open>eval_context.go\<close> and \<open>errors.go\<close>.  The Go string
  enumerations (\<open>FlagType\<close>, \<open>Operator\<close>, \<open>MatchType\<close> and so on) are open types, any string can occur
  in them, so they stay strings here and their constants are abbreviations.  A slice field is a list
  (nil is the empty list); where the code tells a nil slice from an empty one, in the request types
  of the handlers, the field is an option.
\<close>

subsection \<open>JSON values and the parts of the Go library the model is parametric in\<close>

text \<open>A \<open>float64\<close> is its IEEE 754 bit pattern; \<open>encoding/json\<close> decodes every number to one.\<close>

type_synonym float64 = "64 word"

datatype json =
    JNull
  | JBool bool
  | JNum float64
  | JStr string
  | JArr "json list"
  | JObj "(string \<times> json) list"

subsection \<open>Constants of the string enumerations\<close>

abbreviation "FlagTypeBoolean \<equiv> ''boolean''"
abbreviation "FlagTypeString \<equiv> ''string''"
abbreviation "FlagTypeNumber \<equiv> ''number''"
abbreviation "FlagTypeJSON \<equiv> ''json''"
abbreviation "FlagTypeAB \<equiv> ''ab''"

abbreviation "CategoryRelease \<equiv> ''release''"
abbreviation "CategoryExperiment \<equiv> ''experiment''"
abbreviation "CategoryOps \<equiv> ''ops''"
abbreviation "CategoryPermission \<equiv> ''permission''"

abbreviation "StatusActive \<equiv> ''active''"
abbreviation "StatusRolledOut \<equiv> ''rolled_out''"
abbreviation "StatusDeprecated \<equiv> ''deprecated''"
abbreviation "StatusArchived \<equiv> ''archived''"

abbreviation "OpEquals \<equiv> ''eq''"
abbreviation "OpNotEquals \<equiv> ''neq''"
abbreviation "OpContains \<equiv> ''contains''"
abbreviation "OpStartsWith \<equiv> ''startsWith''"
abbreviation "OpEndsWith \<equiv> ''endsWith''"
abbreviation "OpIn \<equiv> ''in''"
abbreviation "OpNotIn \<equiv> ''notIn''"
abbreviation "OpGT \<equiv> ''gt''"
abbreviation "OpGTE \<equiv> ''gte''"
abbreviation "OpLT \<equiv> ''lt''"
abbreviation "OpLTE \<equiv> ''lte''"
abbreviation "OpRegex \<equiv> ''regex''"
abbreviation "OpExists \<equiv> ''exists''"

abbreviation "MatchAll \<equiv> ''all''"
abbreviation "MatchAny \<equiv> ''any''"

abbreviation "ReasonDisabled \<equiv> ''DISABLED''"
abbreviation "ReasonTargeted \<equiv> ''TARGETED''"
abbreviation "ReasonRollout \<equiv> ''ROLLOUT''"
abbreviation "ReasonFallthrough \<equiv> ''FALLTHROUGH''"
abbreviation "ReasonNotFound \<equiv> ''NOT_FOUND''"
abbreviation "ReasonPrerequisiteFailed \<equiv> ''PREREQUISITE_FAILED''"
abbreviation "ReasonMutuallyExcluded \<equiv> ''MUTUALLY_EXCLUDED''"
abbreviation "ReasonVariant \<equiv> ''VARIANT''"

subsection \<open>Flags, states, segments and rulesets\<close>

record variant =
  variant_Key :: string
  variant_Value :: rawjson
  variant_Weight :: int

record condition =
  cond_Attribute :: string
  cond_Operator :: string
  cond_Values :: "string list"

record targeting_rule =
  rule_ID :: string
  rule_Priority :: int
  rule_Description :: string
  rule_Conditions :: "condition list"
  rule_SegmentKeys :: "string list"
  rule_Percentage :: int
  rule_Value :: rawjson
  rule_MatchType :: string

record flag =
  flag_ID :: string
  flag_ProjectID :: string
  flag_OrgID :: string
  flag_Key :: string
  flag_Name :: string
  flag_Description :: string
  flag_FlagType :: string
  flag_Category :: string
  flag_Status :: string
  flag_DefaultValue :: rawjson
  flag_Tags :: "string list"
  flag_Labels :: rawjson
  flag_Protection :: rawjson
  flag_ExpiresAt :: "gotime option"
  flag_Prerequisites :: "string list"
  flag_MutualExclusionGroup :: string
  flag_CreatedAt :: gotime
  flag_UpdatedAt :: gotime

record flag_state =
  state_ID :: string
  state_FlagID :: string
  state_EnvID :: string
  state_OrgID :: string
  state_Enabled :: bool
  state_DefaultValue :: rawjson
  state_Rules :: "targeting_rule list"
  state_PercentageRollout :: int
  state_Variants :: "variant list"
  state_ScheduledEnableAt :: "gotime option"
  state_ScheduledDisableAt :: "gotime option"
  state_CreatedAt :: gotime
  state_UpdatedAt :: gotime

record segment =
  seg_ID :: string
  seg_ProjectID :: string
  seg_OrgID :: string
  seg_Key :: string
  seg_Name :: string
  seg_Description :: string
  seg_MatchType :: string
  seg_Rules :: "condition list"
  seg_Labels :: rawjson
  seg_CreatedAt :: gotime
  seg_UpdatedAt :: gotime

text \<open>
  \<open>Flags\<close> is ranged over by the engine, so it is an association list in iteration order; the other
  two maps are only looked up, but they share the representation.
\<close>

record ruleset =
  rs_Flags :: "(string, flag) gomap"
  rs_States :: "(string, flag_state) gomap"
  rs_Segments :: "(string, segment) gomap"

definition wf_ruleset :: "ruleset \<Rightarrow> bool" where
  "wf_ruleset rs \<longleftrightarrow> well_keyed (rs_Flags rs)"

text \<open>The zero values of the structs, as Go's composite literals start from.\<close>

definition zero_flag :: flag where
  "zero_flag = \<lparr>flag_ID = [], flag_ProjectID = [], flag_OrgID = [], flag_Key = [], flag_Name = [],
     flag_Description = [], flag_FlagType = [], flag_Category = [], flag_Status = [],
     flag_DefaultValue = None, flag_Tags = [], flag_Labels = None, flag_Protection = None,
     flag_ExpiresAt = None, flag_Prerequisites = [], flag_MutualExclusionGroup = [],
     flag_CreatedAt = 0, flag_UpdatedAt = 0\<rparr>"

definition zero_flag_state :: flag_state where
  "zero_flag_state = \<lparr>state_ID = [], state_FlagID = [], state_EnvID = [], state_OrgID = [],
     state_Enabled = False, state_DefaultValue = None, state_Rules = [], state_PercentageRollout = 0,
     state_Variants = [], state_ScheduledEnableAt = None, state_ScheduledDisableAt = None,
     state_CreatedAt = 0, state_UpdatedAt = 0\<rparr>"

definition zero_rule :: targeting_rule where
  "zero_rule = \<lparr>rule_ID = [], rule_Priority = 0, rule_Description = [], rule_Conditions = [],
     rule_SegmentKeys = [], rule_Percentage = 0, rule_Value = None, rule_MatchType = []\<rparr>"

definition zero_segment :: segment where
  "zero_segment = \<lparr>seg_ID = [], seg_ProjectID = [], seg_OrgID = [], seg_Key = [], seg_Name = [],
     seg_Description = [], seg_MatchType = [], seg_Rules = [], seg_Labels = None, seg_CreatedAt = 0,
     seg_UpdatedAt = 0\<rparr>"

lemmas zero_defs = zero_flag_def zero_flag_state_def zero_rule_def zero_segment_def

subsection \<open>Evaluation context and result\<close>

record eval_context =
  ctx_Key :: string
  ctx_Attributes :: "string \<rightharpoonup> json"

definition GetAttribute :: "eval_context \<Rightarrow> string \<Rightarrow> json option" where
  "GetAttribute c name = (if name = ''key'' then Some (JStr (ctx_Key c)) else ctx_Attributes c name)"

record eval_result =
  res_FlagKey :: string
  res_Value :: json
  res_Reason :: string
  res_VariantKey :: string

subsection \<open>Library parameters\<close>

text \<open>
  The operations of Go's library that the code treats as black boxes: JSON checking and decoding, decimal to
  binary conversion, formatting of values that are not strings, booleans or nil, the RE2 engine, and
  \<open>sort.Slice\<close>, which is not stable and so is only known up to \<open>sorts_rules\<close> below.
\<close>

record golib =
  go_json_valid :: "string \<Rightarrow> bool"
  go_unmarshal :: "string \<Rightarrow> json option"
  go_parse_float :: "string \<Rightarrow> float64 option"
  go_sprint :: "json \<Rightarrow> string"
  go_regexp :: "string \<Rightarrow> (string \<Rightarrow> bool) option"
  go_sort_rules :: "targeting_rule list \<Rightarrow> targeting_rule list"

text \<open>What the documentation of \<open>sort.Slice\<close> promises for the priority order.\<close>

definition sorts_rules :: "(targeting_rule list \<Rightarrow> targeting_rule list) \<Rightarrow> bool" where
  "sorts_rules srt \<longleftrightarrow>
     (\<forall>rs. mset (srt rs) = mset rs \<and> sorted (map rule_Priority (srt rs)))"

subsection \<open>Errors\<close>

record validation_error =
  ve_Field :: string
  ve_Message :: string

definition NewValidationError :: "string \<Rightarrow> string \<Rightarrow> validation_error" where
  "NewValidationError field message = \<lparr>ve_Field = field, ve_Message = message\<rparr>"

definition ve_Error :: "validation_error \<Rightarrow> string" where
  "ve_Error e = (if ve_Field e \<noteq> [] then ve_Field e @ '': '' @ ve_Message e else ve_Message e)"

text \<open>The sentinel errors of the store layer, as \<open>errors.Is\<close> tells them apart.\<close>

datatype store_error =
    ErrNotFound
  | ErrConflict
  | ErrValidation
  | ErrExpired
  | ErrInsufficientCredits int int
  | ErrInvalidCreditPack
  | ErrBearerNotFound
  | ErrBadArgument
  | ErrInternal

type_synonym 'a result = "store_error + 'a"

text \<open>Which of the calls of an operation to the database fail, by their number.\<close>

type_synonym faults = "nat \<Rightarrow> bool"

subsection \<open>Library parameters of the database\<close>

text \<open>
  \<open>pg_uuid\<close> is the input conversion of \<open>UUID\<close> columns, to the canonical text, and \<open>pg_jsonb\<close> that of
  \<open>JSONB\<close> columns, to the text the column is read back as.
\<close>

record pglib =
  pg_uuid :: "string \<Rightarrow> string option"
  pg_jsonb :: "string \<Rightarrow> string option"

text \<open>The canonical text of a \<open>UUID\<close> is read back as itself.\<close>

definition uuid_canonical :: "pglib \<Rightarrow> bool" where
  "uuid_canonical pg \<longleftrightarrow> (\<forall>s u. pg_uuid pg s = Some u \<longrightarrow> pg_uuid pg u = Some u)"

text \<open>A nullable \<open>JSONB\<close> column given a raw message.\<close>

definition pg_raw :: "pglib \<Rightarrow> rawjson \<Rightarrow> rawjson option" where
  "pg_raw pg v = (case v of None \<Rightarrow> Some None | Some s \<Rightarrow> map_option Some (pg_jsonb pg s))"

definition pg_uuid_null :: "pglib \<Rightarrow> string option \<Rightarrow> string option option" where
  "pg_uuid_null pg v = (case v of None \<Rightarrow> Some None | Some s \<Rightarrow> map_option Some (pg_uuid pg s))"

text \<open>A query for one row by an identifier.\<close>

definition by_uuid :: "bool \<Rightarrow> pglib \<Rightarrow> string \<Rightarrow> (string \<Rightarrow> 'a option) \<Rightarrow> 'a result" where
  "by_uuid fails pg s look =
     (if fails then Inl ErrInternal
      else
        (case pg_uuid pg s of
           None \<Rightarrow> Inl ErrInternal
         | Some u \<Rightarrow> (case look u of None \<Rightarrow> Inl ErrNotFound | Some x \<Rightarrow> Inr x)))"

lemma by_uuid_Inr:
  "by_uuid fails pg s look = Inr x \<longleftrightarrow> \<not> fails \<and> (\<exists>u. pg_uuid pg s = Some u \<and> look u = Some x)"
  by (auto simp: by_uuid_def split: option.splits)

end
