(* ===== verification/RuleMatch.thy ===== *)
theory RuleMatch
  imports FlagModel
begin

text \<open>
  \<open>server/internal/eval/rules.go\<close>: the operators a targeting condition can use, the registry they are
  looked up in, the regular expression cache, and the matching of one and of several conditions.
  The lemmas characterise matching by quantifiers over the conditions, show which operators are
  complementary and that the cache is transparent.
\<close>

subsection \<open>Comparison of \<open>float64\<close> values\<close>

definition f64_magnitude :: "float64 \<Rightarrow> int" where
  "f64_magnitude w = uint (take_bit 63 w)"

definition f64_is_nan :: "float64 \<Rightarrow> bool" where
  "f64_is_nan w \<longleftrightarrow> f64_magnitude w > 0x7FF0000000000000"

text \<open>Sign and magnitude order: the two zeros are equal, infinities are at the ends.\<close>

definition f64_key :: "float64 \<Rightarrow> int" where
  "f64_key w = (if bit w 63 then - f64_magnitude w else f64_magnitude w)"

definition f64_lt :: "float64 \<Rightarrow> float64 \<Rightarrow> bool" where
  "f64_lt a b \<longleftrightarrow> \<not> f64_is_nan a \<and> \<not> f64_is_nan b \<and> f64_key a < f64_key b"

definition f64_le :: "float64 \<Rightarrow> float64 \<Rightarrow> bool" where
  "f64_le a b \<longleftrightarrow> \<not> f64_is_nan a \<and> \<not> f64_is_nan b \<and> f64_key a \<le> f64_key b"

lemma f64_lt_le_complement:
  "\<not> f64_is_nan a \<Longrightarrow> \<not> f64_is_nan b \<Longrightarrow> f64_lt a b \<longleftrightarrow> \<not> f64_le b a"
  by (auto simp: f64_lt_def f64_le_def)

subsection \<open>The operators\<close>

type_synonym operator_func = "string \<Rightarrow> string list \<Rightarrow> bool"
type_synonym operator_registry = "string \<rightharpoonup> operator_func"

definition opEquals :: operator_func where
  "opEquals strVal values = (case values of [] \<Rightarrow> False | v # _ \<Rightarrow> strVal = v)"

definition opNotEquals :: operator_func where
  "opNotEquals strVal values = (case values of [] \<Rightarrow> False | v # _ \<Rightarrow> strVal \<noteq> v)"

definition opContains :: operator_func where
  "opContains strVal values = (case values of [] \<Rightarrow> False | v # _ \<Rightarrow> str_contains strVal v)"

definition opStartsWith :: operator_func where
  "opStartsWith strVal values = (case values of [] \<Rightarrow> False | v # _ \<Rightarrow> has_prefix strVal v)"

definition opEndsWith :: operator_func where
  "opEndsWith strVal values = (case values of [] \<Rightarrow> False | v # _ \<Rightarrow> has_suffix strVal v)"

fun opIn :: operator_func where
  "opIn strVal [] = False"
| "opIn strVal (v # values) = (if strVal = v then True else opIn strVal values)"

fun opNotIn :: operator_func where
  "opNotIn strVal [] = True"
| "opNotIn strVal (v # values) = (if strVal = v then False else opNotIn strVal values)"

definition numericOp :: "golib \<Rightarrow> string \<Rightarrow> string list \<Rightarrow> (float64 \<Rightarrow> float64 \<Rightarrow> bool) \<Rightarrow> bool" where
  "numericOp lib strVal values cmp =
     (case values of
        [] \<Rightarrow> False
      | v # _ \<Rightarrow>
        (case go_parse_float lib strVal of
           None \<Rightarrow> False
         | Some a \<Rightarrow>
           (case go_parse_float lib v of
              None \<Rightarrow> False
            | Some b \<Rightarrow> cmp a b)))"

definition opGT :: "golib \<Rightarrow> operator_func" where
  "opGT lib strVal values = numericOp lib strVal values (\<lambda>a b. f64_lt b a)"

definition opGTE :: "golib \<Rightarrow> operator_func" where
  "opGTE lib strVal values = numericOp lib strVal values (\<lambda>a b. f64_le b a)"

definition opLT :: "golib \<Rightarrow> operator_func" where
  "opLT lib strVal values = numericOp lib strVal values (\<lambda>a b. f64_lt a b)"

definition opLTE :: "golib \<Rightarrow> operator_func" where
  "opLTE lib strVal values = numericOp lib strVal values (\<lambda>a b. f64_le a b)"

text \<open>
  The process wide cache of compiled patterns.  A pattern that does not compile is not cached.  The
  cache only ever holds what the compiler returns (\<open>coherent_cache\<close>), so the registry uses
  \<open>opRegex\<close>, stated over the compiler, for the code's \<open>opRegex_cached\<close>: \<open>opRegex_cached_eq\<close> is the proof
  that going through the cache is the same.
\<close>

type_synonym regex_cache = "string \<rightharpoonup> (string \<Rightarrow> bool)"

definition getCachedRegex ::
    "golib \<Rightarrow> regex_cache \<Rightarrow> string \<Rightarrow> (string \<Rightarrow> bool) option \<times> regex_cache" where
  "getCachedRegex lib cache pattern =
     (case cache pattern of
        Some re \<Rightarrow> (Some re, cache)
      | None \<Rightarrow>
        (case go_regexp lib pattern of
           None \<Rightarrow> (None, cache)
         | Some re \<Rightarrow> (Some re, cache(pattern \<mapsto> re))))"

definition opRegex :: "golib \<Rightarrow> operator_func" where
  "opRegex lib strVal values =
     (case values of
        [] \<Rightarrow> False
      | v # _ \<Rightarrow> (case go_regexp lib v of None \<Rightarrow> False | Some re \<Rightarrow> re strVal))"

definition opRegex_cached ::
    "golib \<Rightarrow> regex_cache \<Rightarrow> string \<Rightarrow> string list \<Rightarrow> bool \<times> regex_cache" where
  "opRegex_cached lib cache strVal values =
     (case values of
        [] \<Rightarrow> (False, cache)
      | v # _ \<Rightarrow>
        (case getCachedRegex lib cache v of
           (None, cache') \<Rightarrow> (False, cache')
         | (Some re, cache') \<Rightarrow> (re strVal, cache')))"

definition operatorRegistry :: "golib \<Rightarrow> operator_registry" where
  "operatorRegistry lib = map_of
     [(OpEquals, opEquals), (OpNotEquals, opNotEquals), (OpContains, opContains),
      (OpStartsWith, opStartsWith), (OpEndsWith, opEndsWith), (OpIn, opIn), (OpNotIn, opNotIn),
      (OpGT, opGT lib), (OpGTE, opGTE lib), (OpLT, opLT lib), (OpLTE, opLTE lib),
      (OpRegex, opRegex lib)]"

definition RegisterOperator ::
    "string \<Rightarrow> operator_func \<Rightarrow> operator_registry \<Rightarrow> operator_registry" where
  "RegisterOperator op fn reg = reg(op \<mapsto> fn)"

subsection \<open>Matching\<close>

text \<open>\<open>fmt.Sprintf("%v", v)\<close>; the library parameter is asked for numbers, arrays and objects only.\<close>

fun sprintv :: "golib \<Rightarrow> json \<Rightarrow> string" where
  "sprintv lib JNull = ''<nil>''"
| "sprintv lib (JBool True) = ''true''"
| "sprintv lib (JBool False) = ''false''"
| "sprintv lib (JStr s) = s"
| "sprintv lib v = go_sprint lib v"

definition MatchCondition :: "golib \<Rightarrow> operator_registry \<Rightarrow> condition \<Rightarrow> eval_context \<Rightarrow> bool" where
  "MatchCondition lib reg cond ctx =
     (case GetAttribute ctx (cond_Attribute cond) of
        None \<Rightarrow>
          cond_Operator cond = OpExists \<and>
          (case cond_Values cond of [] \<Rightarrow> False | v # _ \<Rightarrow> v = ''false'')
      | Some attrVal \<Rightarrow>
          (if cond_Operator cond = OpExists
           then (case cond_Values cond of [] \<Rightarrow> True | v # _ \<Rightarrow> v \<noteq> ''false'')
           else
             (case reg (cond_Operator cond) of
                None \<Rightarrow> False
              | Some fn \<Rightarrow> fn (sprintv lib attrVal) (cond_Values cond))))"

fun match_loop ::
    "golib \<Rightarrow> operator_registry \<Rightarrow> condition list \<Rightarrow> eval_context \<Rightarrow> string \<Rightarrow> bool" where
  "match_loop lib reg [] ctx matchType = (matchType = MatchAll)"
| "match_loop lib reg (cond # conds) ctx matchType =
     (let matched = MatchCondition lib reg cond ctx
      in if matchType = MatchAny \<and> matched then True
         else if matchType = MatchAll \<and> \<not> matched then False
         else match_loop lib reg conds ctx matchType)"

definition MatchConditions ::
    "golib \<Rightarrow> operator_registry \<Rightarrow> condition list \<Rightarrow> eval_context \<Rightarrow> string \<Rightarrow> bool" where
  "MatchConditions lib reg conditions ctx matchType =
     (if conditions = [] then True else match_loop lib reg conditions ctx matchType)"

subsection \<open>Operators: laws\<close>

lemma opIn_iff [simp]: "opIn s vs \<longleftrightarrow> s \<in> set vs"
  by (induction vs) auto

lemma opNotIn_iff [simp]: "opNotIn s vs \<longleftrightarrow> s \<notin> set vs"
  by (induction vs) auto

lemma opNotEquals_complement: "vs \<noteq> [] \<Longrightarrow> opNotEquals s vs \<longleftrightarrow> \<not> opEquals s vs"
  by (cases vs) (simp_all add: opNotEquals_def opEquals_def)

definition coherent_cache :: "golib \<Rightarrow> regex_cache \<Rightarrow> bool" where
  "coherent_cache lib cache \<longleftrightarrow> cache \<subseteq>\<^sub>m go_regexp lib"

lemma coherent_cache_empty [simp]: "coherent_cache lib Map.empty"
  by (simp add: coherent_cache_def)

lemma getCachedRegex_transparent:
  assumes "coherent_cache lib cache"
  shows "fst (getCachedRegex lib cache p) = go_regexp lib p"
    and "coherent_cache lib (snd (getCachedRegex lib cache p))"
proof -
  have *: "cache p = Some re \<Longrightarrow> go_regexp lib p = Some re" for re
    using assms by (auto simp: coherent_cache_def map_le_def dom_def)
  show "fst (getCachedRegex lib cache p) = go_regexp lib p"
    by (auto simp: getCachedRegex_def * split: option.splits)
  show "coherent_cache lib (snd (getCachedRegex lib cache p))"
    using assms by (auto simp: getCachedRegex_def coherent_cache_def map_le_def split: option.splits)
qed

lemma opRegex_cached_eq:
  assumes "coherent_cache lib cache"
  shows "fst (opRegex_cached lib cache s vs) = opRegex lib s vs"
    and "coherent_cache lib (snd (opRegex_cached lib cache s vs))"
  using assms getCachedRegex_transparent [OF assms]
  by (auto simp: opRegex_cached_def opRegex_def split: list.splits option.splits prod.splits)
    (metis fst_conv option.distinct(1) option.inject snd_conv)+

subsection \<open>Matching: laws\<close>

lemma match_loop_iff:
  "match_loop lib reg conds ctx mt \<longleftrightarrow>
     (if mt = MatchAll then \<forall>c\<in>set conds. MatchCondition lib reg c ctx
      else if mt = MatchAny then \<exists>c\<in>set conds. MatchCondition lib reg c ctx
      else False)"
  by (induction conds) (auto simp: Let_def)

lemma MatchConditions_iff:
  "MatchConditions lib reg conds ctx mt \<longleftrightarrow>
     conds = [] \<or>
     (if mt = MatchAll then \<forall>c\<in>set conds. MatchCondition lib reg c ctx
      else mt = MatchAny \<and> (\<exists>c\<in>set conds. MatchCondition lib reg c ctx))"
  by (auto simp: MatchConditions_def match_loop_iff)

lemma MatchConditions_set_cong:
  "set cs = set cs' \<Longrightarrow> MatchConditions lib reg cs ctx mt = MatchConditions lib reg cs' ctx mt"
  by (cases "cs = []"; cases "cs' = []") (auto simp: MatchConditions_iff)

lemma MatchCondition_missing:
  "GetAttribute ctx (cond_Attribute c) = None \<Longrightarrow> cond_Operator c \<noteq> OpExists \<Longrightarrow>
   \<not> MatchCondition lib reg c ctx"
  by (simp add: MatchCondition_def)

end
