(* ===== verification/Murmur.thy ===== *)
theory Murmur
  imports GoPrelude
begin

unbundle bit_operations_syntax

text \<open>
  \<open>server/internal/eval/hash.go\<close>: the 32 bit MurmurHash3 and the bucket a user falls into.
  \<open>uint32\<close> is \<open>32 word\<close>, whose arithmetic wraps as Go's does.  The lemmas show that the
  finalisation and the block step are bijections (the inverses are written out), which gives the
  absence of collisions the consistent hashing relies on, and the range of a bucket.
\<close>

type_synonym u32 = "32 word"

definition byte_of :: "char \<Rightarrow> u32" where
  "byte_of c = of_nat (of_char c)"

definition bytes_of :: "string \<Rightarrow> u32 list" where
  "bytes_of s = map byte_of s"

definition rotl32 :: "u32 \<Rightarrow> nat \<Rightarrow> u32" where
  "rotl32 x r = push_bit r x OR drop_bit (32 - r) x"

definition c1 :: u32 where "c1 = 0xcc9e2d51"
definition c2 :: u32 where "c2 = 0x1b873593"

definition scramble :: "u32 \<Rightarrow> u32" where
  "scramble k1 = rotl32 (k1 * c1) 15 * c2"

definition block_word :: "u32 \<Rightarrow> u32 \<Rightarrow> u32 \<Rightarrow> u32 \<Rightarrow> u32" where
  "block_word a b c d = a OR push_bit 8 b OR push_bit 16 c OR push_bit 24 d"

definition mix_block :: "u32 \<Rightarrow> u32 \<Rightarrow> u32" where
  "mix_block h1 k1 = rotl32 (h1 XOR scramble k1) 13 * 5 + 0xe6546b64"

text \<open>The loop over the four byte blocks; what is left over is the tail.\<close>

fun murmur_body :: "u32 \<Rightarrow> u32 list \<Rightarrow> u32 \<times> u32 list" where
  "murmur_body h1 (a # b # c # d # rest) = murmur_body (mix_block h1 (block_word a b c d)) rest"
| "murmur_body h1 tail = (h1, tail)"

text \<open>The \<open>switch len(tail)\<close> with its fallthroughs: an empty tail leaves \<open>h1\<close> alone.\<close>

fun murmur_tail :: "u32 \<Rightarrow> u32 list \<Rightarrow> u32" where
  "murmur_tail h1 [t0] = h1 XOR scramble t0"
| "murmur_tail h1 [t0, t1] = h1 XOR scramble (push_bit 8 t1 XOR t0)"
| "murmur_tail h1 [t0, t1, t2] = h1 XOR scramble (push_bit 16 t2 XOR push_bit 8 t1 XOR t0)"
| "murmur_tail h1 _ = h1"

definition fmix32 :: "u32 \<Rightarrow> u32" where
  "fmix32 h =
     (let h = h XOR drop_bit 16 h;
          h = h * 0x85ebca6b;
          h = h XOR drop_bit 13 h;
          h = h * 0xc2b2ae35
      in h XOR drop_bit 16 h)"

definition murmurHash3 :: "string \<Rightarrow> u32 \<Rightarrow> u32" where
  "murmurHash3 key seed =
     (let data = bytes_of key;
          (h1, tail) = murmur_body seed data;
          h1 = murmur_tail h1 tail;
          h1 = h1 XOR of_nat (length data)
      in fmix32 h1)"

definition BucketUser :: "string \<Rightarrow> string \<Rightarrow> int" where
  "BucketUser flagKey userKey =
     uint (murmurHash3 (flagKey @ ''.'' @ userKey) 0 mod 10000)"

subsection \<open>The bucket\<close>

lemma BucketUser_range [simp]:
  "0 \<le> BucketUser flagKey userKey" "BucketUser flagKey userKey < 10000"
proof -
  show "0 \<le> BucketUser flagKey userKey"
    by (simp add: BucketUser_def)
  have "BucketUser flagKey userKey = uint (murmurHash3 (flagKey @ ''.'' @ userKey) 0) mod 10000"
    by (simp add: BucketUser_def uint_mod)
  then show "BucketUser flagKey userKey < 10000" by simp
qed

lemmas BucketUser_bounds = BucketUser_range

lemma BucketUser_lt_full [simp]: "10000 \<le> p \<Longrightarrow> BucketUser flagKey userKey < p"
  using BucketUser_range(2) [of flagKey userKey] by linarith

subsection \<open>The steps are bijections\<close>

lemma xorshift_inverse:
  fixes h :: u32
  shows "16 \<le> n \<Longrightarrow> (let g = h XOR drop_bit n h in g XOR drop_bit n g) = h"
  by (auto simp: Let_def bit_eq_iff bit_simps)

lemma xorshift13_inverse:
  fixes h :: u32
  shows "(let g = h XOR drop_bit 13 h in g XOR drop_bit 13 g XOR drop_bit 26 g) = h"
  by (auto simp: Let_def bit_eq_iff bit_simps)

lemma mult_odd_inj:
  fixes x y c d :: u32
  assumes "c * d = 1" and "x * c = y * c"
  shows "x = y"
proof -
  have "x * (c * d) = y * (c * d)"
    using assms(2) by (simp flip: mult.assoc)
  then show ?thesis by (simp add: assms(1))
qed

lemma rotl32_back:
  "rotl32 (rotl32 x 13) 19 = x" "rotl32 (rotl32 x 15) 17 = x"
proof -
  show "rotl32 (rotl32 x 13) 19 = x"
    by (rule bit_eqI) (auto simp: rotl32_def bit_simps)
  show "rotl32 (rotl32 x 15) 17 = x"
    by (rule bit_eqI) (auto simp: rotl32_def bit_simps)
qed

lemma rotl32_inj [simp]:
  "rotl32 x 13 = rotl32 y 13 \<longleftrightarrow> x = y" "rotl32 x 15 = rotl32 y 15 \<longleftrightarrow> x = y"
  by (metis rotl32_back)+

lemma scramble_inj [simp]: "scramble x = scramble y \<longleftrightarrow> x = y"
proof
  assume "scramble x = scramble y"
  then have "rotl32 (x * c1) 15 * c2 = rotl32 (y * c1) 15 * c2"
    by (simp add: scramble_def)
  then have "x * c1 = y * c1"
    using mult_odd_inj [of c2 "0x56ed309b" "rotl32 (x * c1) 15" "rotl32 (y * c1) 15"]
    by (simp add: c2_def)
  then show "x = y"
    using mult_odd_inj [of c1 "0xdee13bb1" x y] by (simp add: c1_def)
qed simp

lemma xor_cancel [simp]:
  fixes a b c :: u32
  shows "a XOR c = b XOR c \<longleftrightarrow> a = b" "c XOR a = c XOR b \<longleftrightarrow> a = b"
  by (auto simp: bit_eq_iff bit_simps)

lemma mix_block_inj_seed [simp]: "mix_block h k = mix_block h' k \<longleftrightarrow> h = h'"
proof
  assume "mix_block h k = mix_block h' k"
  then have "rotl32 (h XOR scramble k) 13 * 5 = rotl32 (h' XOR scramble k) 13 * 5"
    by (simp add: mix_block_def)
  then have "h XOR scramble k = h' XOR scramble k"
    using mult_odd_inj [of 5 "0xcccccccd"] by force
  then show "h = h'" by simp
qed simp

lemma mix_block_inj_block [simp]: "mix_block h k = mix_block h k' \<longleftrightarrow> k = k'"
proof
  assume "mix_block h k = mix_block h k'"
  then have "rotl32 (h XOR scramble k) 13 * 5 = rotl32 (h XOR scramble k') 13 * 5"
    by (simp add: mix_block_def)
  then have "h XOR scramble k = h XOR scramble k'"
    using mult_odd_inj [of 5 "0xcccccccd"] by force
  then show "k = k'" by simp
qed simp

lemma xorshift_inj [simp]:
  fixes x y :: u32
  shows "x XOR drop_bit 16 x = y XOR drop_bit 16 y \<longleftrightarrow> x = y"
    and "x XOR drop_bit 13 x = y XOR drop_bit 13 y \<longleftrightarrow> x = y"
  using xorshift_inverse [of 16] xorshift13_inverse by (metis order_refl)+

lemma fmix32_inj [simp]: "fmix32 x = fmix32 y \<longleftrightarrow> x = y"
proof
  assume "fmix32 x = fmix32 y"
  then have "x XOR drop_bit 16 x = y XOR drop_bit 16 y"
    unfolding fmix32_def Let_def xorshift_inj
    by (auto dest!: mult_odd_inj [of "0xc2b2ae35" "0x7ed1b41d", rotated]
      mult_odd_inj [of "0x85ebca6b" "0xa5cb9243", rotated])
  then show "x = y" by simp
qed simp

subsection \<open>Absence of collisions\<close>

lemma bytes_of_simps [simp]:
  "bytes_of [] = []" "bytes_of (c # s) = byte_of c # bytes_of s"
  "bytes_of (s @ t) = bytes_of s @ bytes_of t" "length (bytes_of s) = length s"
  by (simp_all add: bytes_of_def)

lemma murmur_body_inj:
  "fst (murmur_body h data) = fst (murmur_body h' data) \<longleftrightarrow> h = h'"
  "snd (murmur_body h data) = snd (murmur_body h' data)"
  by (induction h data arbitrary: h' rule: murmur_body.induct) simp_all

lemma murmur_tail_inj [simp]: "murmur_tail h t = murmur_tail h' t \<longleftrightarrow> h = h'"
  by (cases "(h, t)" rule: murmur_tail.cases) simp_all

lemma murmurHash3_unfold:
  "murmurHash3 key seed =
     fmix32 (murmur_tail (fst (murmur_body seed (bytes_of key))) (snd (murmur_body seed (bytes_of key)))
             XOR of_nat (length key))"
  by (simp add: murmurHash3_def Let_def case_prod_beta)

lemma unat_byte_of: "unat (byte_of c) = of_char c"
proof -
  have "(of_char c :: nat) = of_char c mod 256"
    by simp
  then have "(of_char c :: nat) < 256"
    by (metis mod_less_divisor zero_less_numeral)
  then have "(of_char c :: nat) mod 4294967296 = of_char c"
    by (intro mod_less) linarith
  then show ?thesis
    by (simp add: byte_of_def unat_of_nat)
qed

lemma byte_of_inj [simp]: "byte_of c = byte_of d \<longleftrightarrow> c = d"
  by (metis unat_byte_of of_char_eq_iff)

lemma take_bit_byte_of: "take_bit 8 (byte_of c) = byte_of c"
proof -
  have "(of_char c :: nat) = take_bit 8 (of_char c)"
    by (simp add: take_bit_eq_mod)
  then show ?thesis
    by (metis byte_of_def take_bit_of_nat)
qed

lemma block_word_parts:
  fixes a b c d :: u32
  assumes "take_bit 8 a = a" "take_bit 8 b = b" "take_bit 8 c = c" "take_bit 8 d = d"
  shows "take_bit 8 (block_word a b c d) = a"
    and "take_bit 8 (drop_bit 8 (block_word a b c d)) = b"
    and "take_bit 8 (drop_bit 16 (block_word a b c d)) = c"
    and "take_bit 8 (drop_bit 24 (block_word a b c d)) = d"
proof -
  have byte: "\<not> bit w n" if "take_bit 8 w = w" "8 \<le> n" for w :: u32 and n
    using that by (metis bit_take_bit_iff not_le)
  show "take_bit 8 (block_word a b c d) = a"
    using byte [OF assms(1)]
    by (intro bit_word_eqI) (auto simp: block_word_def bit_simps not_le intro: ccontr)
  show "take_bit 8 (drop_bit 8 (block_word a b c d)) = b"
    using byte [OF assms(1)] byte [OF assms(2)]
    by (intro bit_word_eqI) (auto simp: block_word_def bit_simps not_le intro: ccontr)
  show "take_bit 8 (drop_bit 16 (block_word a b c d)) = c"
    using byte [OF assms(1)] byte [OF assms(2)] byte [OF assms(3)]
    by (intro bit_word_eqI) (auto simp: block_word_def bit_simps not_le intro: ccontr)
  show "take_bit 8 (drop_bit 24 (block_word a b c d)) = d"
    using byte [OF assms(1)] byte [OF assms(2)] byte [OF assms(3)] byte [OF assms(4)]
    by (intro bit_word_eqI) (auto simp: block_word_def bit_simps not_le intro: ccontr)
qed

lemma block_word_inj:
  assumes "block_word (byte_of a) (byte_of b) (byte_of c) (byte_of d) =
           block_word (byte_of a') (byte_of b') (byte_of c') (byte_of d')"
  shows "[a, b, c, d] = [a', b', c', d']"
proof -
  note parts = block_word_parts [OF take_bit_byte_of take_bit_byte_of take_bit_byte_of take_bit_byte_of]
  have "byte_of a = byte_of a'" "byte_of b = byte_of b'" "byte_of c = byte_of c'" "byte_of d = byte_of d'"
    using assms parts by metis+
  then show ?thesis by simp
qed

text \<open>Reading a prefix of whole blocks first does not change what the loop computes.\<close>

lemma murmur_body_append:
  "4 dvd length xs \<Longrightarrow> murmur_body h (xs @ ys) = murmur_body (fst (murmur_body h xs)) ys"
proof (induction h xs rule: murmur_body.induct)
  case (1 h a b c d rest)
  then have "4 dvd length rest" by simp presburger
  with 1 show ?case by simp
qed (simp_all add: dvd_eq_mod_eq_0 mod_Suc)

lemma murmur_body_block_inj:
  assumes "length x = 4" "length y = 4"
    and "fst (murmur_body h (bytes_of x @ s)) = fst (murmur_body h (bytes_of y @ s))"
  shows "x = y"
proof -
  obtain a b c d where x: "x = [a, b, c, d]"
    using assms(1) by (auto simp: numeral_eq_Suc length_Suc_conv)
  obtain a' b' c' d' where y: "y = [a', b', c', d']"
    using assms(2) by (auto simp: numeral_eq_Suc length_Suc_conv)
  have "block_word (byte_of a) (byte_of b) (byte_of c) (byte_of d) =
        block_word (byte_of a') (byte_of b') (byte_of c') (byte_of d')"
    using assms(3) by (simp add: x y murmur_body_inj)
  then show ?thesis
    using block_word_inj x y by blast
qed

text \<open>
  Two keys that differ only inside one aligned four byte block never collide, whatever surrounds
  the block and whatever the seed: the whole hash is injective in each of its blocks.
\<close>

theorem murmurHash3_block_injective:
  assumes "4 dvd length p" and "length x = 4" and "length y = 4"
  shows "murmurHash3 (p @ x @ s) seed = murmurHash3 (p @ y @ s) seed \<longleftrightarrow> x = y"
proof
  let ?h = "fst (murmur_body seed (bytes_of p))"
  assume "murmurHash3 (p @ x @ s) seed = murmurHash3 (p @ y @ s) seed"
  moreover have "snd (murmur_body ?h (bytes_of x @ bytes_of s)) = snd (murmur_body ?h (bytes_of y @ bytes_of s))"
  proof -
    have "snd (murmur_body h (bytes_of z @ t)) = snd (murmur_body h' t)" if "length z = 4" for h h' z t
      using that murmur_body_append [of "bytes_of z" h t] murmur_body_inj(2) by force
    then show ?thesis using assms(2,3) by metis
  qed
  ultimately have "fst (murmur_body ?h (bytes_of x @ bytes_of s)) = fst (murmur_body ?h (bytes_of y @ bytes_of s))"
    using assms by (simp add: murmurHash3_unfold murmur_body_append)
  with assms(2,3) show "x = y" by (rule murmur_body_block_inj)
qed simp

theorem murmurHash3_block_injective_witness:
  "murmurHash3 (''flag'' @ ''.use'' @ ''r-1'') 0 \<noteq> murmurHash3 (''flag'' @ ''.usr'' @ ''r-1'') 0"
  using murmurHash3_block_injective [of "''flag''" "''.use''" "''.usr''" "''r-1''" 0]
  by (simp add: dvd_eq_mod_eq_0 mod_Suc)

end
