(* ===== verification/EvalEngine.thy ===== *)
theory EvalEngine
  imports RuleMatch Murmur "HOL-Library.Product_Lexorder"
begin

text \<open>
  \<open>server/internal/eval/engine.go\<close>: evaluation of one flag and of all flags of a ruleset.
  \<open>evaluate\<close> is the Go function of that name, with the map of visited flags, which the code shares by
  reference between a flag and its prerequisites, passed in and out.  The recursion through the
  prerequisites is cut by that map; termination is proved, so \<open>evaluate\<close> is a total function.
  The instant \<open>time.Now()\<close> is a parameter, read once for an evaluation.
\<close>

subsection \<open>Results\<close>

definition parseJSONValue :: "golib \<Rightarrow> rawjson \<Rightarrow> json" where
  "parseJSONValue lib raw =
     (case raw of
        None \<Rightarrow> JNull
      | Some s \<Rightarrow> (case go_unmarshal lib s of None \<Rightarrow> JNull | Some v \<Rightarrow> v))"

definition mk_result :: "string \<Rightarrow> json \<Rightarrow> string \<Rightarrow> eval_result" where
  "mk_result k v reason =
     \<lparr>res_FlagKey = k, res_Value = v, res_Reason = reason, res_VariantKey = []\<rparr>"

lemma mk_result_simps [simp]:
  "res_FlagKey (mk_result k v r) = k" "res_Value (mk_result k v r) = v"
  "res_Reason (mk_result k v r) = r" "res_VariantKey (mk_result k v r) = []"
  by (simp_all add: mk_result_def)

subsection \<open>Rules\<close>

fun segment_loop :: "golib \<Rightarrow> string list \<Rightarrow> eval_context \<Rightarrow> ruleset \<Rightarrow> bool" where
  "segment_loop lib [] ctx rs = False"
| "segment_loop lib (segKey # ks) ctx rs =
     (case map_of (rs_Segments rs) segKey of
        None \<Rightarrow> segment_loop lib ks ctx rs
      | Some seg \<Rightarrow>
          if MatchConditions lib (operatorRegistry lib) (seg_Rules seg) ctx (seg_MatchType seg)
          then True else segment_loop lib ks ctx rs)"

definition matchRule :: "golib \<Rightarrow> targeting_rule \<Rightarrow> eval_context \<Rightarrow> ruleset \<Rightarrow> bool" where
  "matchRule lib rule ctx rs =
     (if rule_SegmentKeys rule \<noteq> [] \<and> \<not> segment_loop lib (rule_SegmentKeys rule) ctx rs then False
      else if rule_Conditions rule \<noteq> [] then
        (let matchType = (if rule_MatchType rule = [] then MatchAll else rule_MatchType rule)
         in MatchConditions lib (operatorRegistry lib) (rule_Conditions rule) ctx matchType)
      else True)"

text \<open>The loop over the rules in priority order: the result of the rule that decides, if one does.\<close>

fun rule_loop ::
    "golib \<Rightarrow> string \<Rightarrow> targeting_rule list \<Rightarrow> eval_context \<Rightarrow> ruleset \<Rightarrow> eval_result option" where
  "rule_loop lib flagKey [] ctx rs = None"
| "rule_loop lib flagKey (rule # rules) ctx rs =
     (if matchRule lib rule ctx rs then
        (if 10000 \<le> rule_Percentage rule then
           Some (mk_result flagKey (parseJSONValue lib (rule_Value rule)) ReasonTargeted)
         else if 0 < rule_Percentage rule \<and>
                 BucketUser flagKey (ctx_Key ctx) < rule_Percentage rule then
           Some (mk_result flagKey (parseJSONValue lib (rule_Value rule)) ReasonRollout)
         else rule_loop lib flagKey rules ctx rs)
      else rule_loop lib flagKey rules ctx rs)"

subsection \<open>Variants\<close>

text \<open>\<open>cumulative += v.Weight\<close> in 64 bits; the last variant is the fallback of the loop.\<close>

fun variant_loop :: "variant list \<Rightarrow> int \<Rightarrow> int \<Rightarrow> variant option" where
  "variant_loop [] bucket cumulative = None"
| "variant_loop (v # vs) bucket cumulative =
     (let cumulative = wrap64 (cumulative + variant_Weight v)
      in if bucket < cumulative then Some v else variant_loop vs bucket cumulative)"

definition variant_result :: "golib \<Rightarrow> string \<Rightarrow> variant \<Rightarrow> eval_result" where
  "variant_result lib flagKey v =
     \<lparr>res_FlagKey = flagKey, res_Value = parseJSONValue lib (variant_Value v),
      res_Reason = ReasonVariant, res_VariantKey = variant_Key v\<rparr>"

definition evaluateVariant :: "golib \<Rightarrow> string \<Rightarrow> eval_context \<Rightarrow> variant list \<Rightarrow> eval_result" where
  "evaluateVariant lib flagKey ctx variants =
     (case variant_loop variants (BucketUser flagKey (ctx_Key ctx)) 0 of
        Some v \<Rightarrow> variant_result lib flagKey v
      | None \<Rightarrow> variant_result lib flagKey (last variants))"

subsection \<open>Mutual exclusion groups\<close>

text \<open>The loop over \<open>ruleset.Flags\<close>, in the order of the list, with the best key and bucket so far.\<close>

fun mutex_loop ::
    "string \<Rightarrow> string \<Rightarrow> eval_context \<Rightarrow> ruleset \<Rightarrow> (string \<times> flag) list \<Rightarrow> string \<Rightarrow> int \<Rightarrow> string" where
  "mutex_loop flagKey grp ctx rs [] winnerKey winnerBucket = winnerKey"
| "mutex_loop flagKey grp ctx rs ((key, f) # fs) winnerKey winnerBucket =
     (if key = flagKey \<or> flag_MutualExclusionGroup f \<noteq> grp
      then mutex_loop flagKey grp ctx rs fs winnerKey winnerBucket
      else
        (case map_of (rs_States rs) key of
           None \<Rightarrow> mutex_loop flagKey grp ctx rs fs winnerKey winnerBucket
         | Some st \<Rightarrow>
             if \<not> state_Enabled st
             then mutex_loop flagKey grp ctx rs fs winnerKey winnerBucket
             else
               (let bucket = BucketUser key (ctx_Key ctx)
                in if bucket < winnerBucket \<or> bucket = winnerBucket \<and> key < winnerKey
                   then mutex_loop flagKey grp ctx rs fs key bucket
                   else mutex_loop flagKey grp ctx rs fs winnerKey winnerBucket)))"

definition winsMutexGroup :: "string \<Rightarrow> string \<Rightarrow> eval_context \<Rightarrow> ruleset \<Rightarrow> bool" where
  "winsMutexGroup flagKey grp ctx rs \<longleftrightarrow>
     mutex_loop flagKey grp ctx rs (rs_Flags rs) flagKey (BucketUser flagKey (ctx_Key ctx)) = flagKey"

subsection \<open>Evaluation of one flag\<close>

definition flag_expired :: "gotime \<Rightarrow> flag \<Rightarrow> bool" where
  "flag_expired now f = (case flag_ExpiresAt f of None \<Rightarrow> False | Some t \<Rightarrow> t \<noteq> 0 \<and> t < now)"

text \<open>The returns before the prerequisites are looked at, and what they return.\<close>

definition evaluate_gate ::
    "golib \<Rightarrow> gotime \<Rightarrow> eval_context \<Rightarrow> ruleset \<Rightarrow> string \<Rightarrow> eval_result option" where
  "evaluate_gate lib now ctx rs flagKey =
     (case map_of (rs_Flags rs) flagKey of
        None \<Rightarrow> Some (mk_result flagKey JNull ReasonNotFound)
      | Some flag \<Rightarrow>
        (let off = (\<lambda>reason. Some (mk_result flagKey (parseJSONValue lib (flag_DefaultValue flag)) reason))
         in if flag_expired now flag then off ReasonDisabled
            else
              (case map_of (rs_States rs) flagKey of
                 None \<Rightarrow> off ReasonDisabled
               | Some st \<Rightarrow>
                   if \<not> state_Enabled st then off ReasonDisabled
                   else if flag_MutualExclusionGroup flag \<noteq> [] \<and>
                           \<not> winsMutexGroup flagKey (flag_MutualExclusionGroup flag) ctx rs
                   then off ReasonMutuallyExcluded
                   else None)))"

text \<open>The part after the prerequisites: rules, default rollout, variants, fallthrough.\<close>

definition evaluate_on ::
    "golib \<Rightarrow> eval_context \<Rightarrow> ruleset \<Rightarrow> string \<Rightarrow> flag \<Rightarrow> flag_state \<Rightarrow> eval_result" where
  "evaluate_on lib ctx rs flagKey flag st =
     (case rule_loop lib flagKey (go_sort_rules lib (state_Rules st)) ctx rs of
        Some r \<Rightarrow> r
      | None \<Rightarrow>
        (let defaultVal = (if state_DefaultValue st = None then flag_DefaultValue flag
                           else state_DefaultValue st)
         in if 0 < state_PercentageRollout st then
              (if BucketUser flagKey (ctx_Key ctx) < state_PercentageRollout st
               then mk_result flagKey (parseJSONValue lib defaultVal) ReasonRollout
               else mk_result flagKey (parseJSONValue lib (flag_DefaultValue flag)) ReasonFallthrough)
            else if flag_FlagType flag = FlagTypeAB \<and> state_Variants st \<noteq> []
            then evaluateVariant lib flagKey ctx (state_Variants st)
            else mk_result flagKey (parseJSONValue lib defaultVal) ReasonFallthrough))"

text \<open>Whether the result of a prerequisite fails the flag that requires it.\<close>

definition prereq_fails :: "eval_result \<Rightarrow> bool" where
  "prereq_fails r \<longleftrightarrow>
     res_Reason r = ReasonNotFound \<or> res_Reason r = ReasonDisabled \<or> res_Value r = JBool False"

text \<open>
  \<open>evaluate_prereqs\<close> is the loop over \<open>flag.Prerequisites\<close>; its first component says whether it
  returned \<open>PREREQUISITE_FAILED\<close>.  The visited map is a list: only membership is ever asked.
\<close>

function evaluate ::
      "golib \<Rightarrow> gotime \<Rightarrow> eval_context \<Rightarrow> ruleset \<Rightarrow> string \<Rightarrow> string list \<Rightarrow> eval_result \<times> string list"
  and evaluate_prereqs ::
      "golib \<Rightarrow> gotime \<Rightarrow> eval_context \<Rightarrow> ruleset \<Rightarrow> string list \<Rightarrow> string list \<Rightarrow> bool \<times> string list"
where
  "evaluate lib now ctx rs flagKey visited =
     (case evaluate_gate lib now ctx rs flagKey of
        Some r \<Rightarrow> (r, visited)
      | None \<Rightarrow>
        (case (map_of (rs_Flags rs) flagKey, map_of (rs_States rs) flagKey) of
           (Some flag, Some st) \<Rightarrow>
             (if flag_Prerequisites flag = [] then (evaluate_on lib ctx rs flagKey flag st, visited)
              else
                (case evaluate_prereqs lib now ctx rs (flag_Prerequisites flag) (flagKey # visited) of
                   (True, visited') \<Rightarrow>
                     (mk_result flagKey (parseJSONValue lib (flag_DefaultValue flag))
                        ReasonPrerequisiteFailed, visited')
                 | (False, visited') \<Rightarrow> (evaluate_on lib ctx rs flagKey flag st, visited')))
         | _ \<Rightarrow> (mk_result flagKey JNull ReasonNotFound, visited)))"
| "evaluate_prereqs lib now ctx rs [] visited = (False, visited)"
| "evaluate_prereqs lib now ctx rs (p # ps) visited =
     (if p \<in> set visited then (True, visited)
      else
        (case evaluate lib now ctx rs p visited of
           (r, visited') \<Rightarrow>
             if prereq_fails r then (True, visited')
             else evaluate_prereqs lib now ctx rs ps visited'))"
  by pat_completeness auto

text \<open>
  Termination.  The map of visited flags only grows, which the partial induction rule shows before
  the recursion is known to end; a call either adds a flag with prerequisites that was not in it, or
  leaves it as it was and goes down in the list of prerequisites.
\<close>

definition prereq_keys :: "ruleset \<Rightarrow> string set" where
  "prereq_keys rs =
     {k. \<exists>f. map_of (rs_Flags rs) k = Some f \<and> flag_Prerequisites f \<noteq> []}"

lemma finite_prereq_keys: "finite (prereq_keys rs)"
  by (rule finite_subset [OF _ finite_dom_map_of [of "rs_Flags rs"]]) (auto simp: prereq_keys_def)

definition prereq_count :: "ruleset \<Rightarrow> string \<Rightarrow> nat" where
  "prereq_count rs k =
     (case map_of (rs_Flags rs) k of None \<Rightarrow> 0 | Some f \<Rightarrow> length (flag_Prerequisites f))"

lemma visited_grows_partial:
  "evaluate_evaluate_prereqs_dom (Inl (lib, now, ctx, rs, k, v)) \<Longrightarrow>
     set v \<subseteq> set (snd (evaluate lib now ctx rs k v))"
  "evaluate_evaluate_prereqs_dom (Inr (lib, now, ctx, rs, ps, v)) \<Longrightarrow>
     set v \<subseteq> set (snd (evaluate_prereqs lib now ctx rs ps v))"
proof (induction rule: evaluate_evaluate_prereqs.pinduct)
  case (1 lib now ctx rs k v)
  then show ?case
    by (fastforce simp: evaluate.psimps split: option.splits prod.splits bool.splits)
next
  case (2 lib now ctx rs v)
  then show ?case by (simp add: evaluate_prereqs.psimps)
next
  case (3 lib now ctx rs p ps v)
  then show ?case
    by (fastforce simp: evaluate_prereqs.psimps split: prod.splits if_splits)
qed

definition evaluate_measure ::
    "(golib \<times> gotime \<times> eval_context \<times> ruleset \<times> string \<times> string list) +
     (golib \<times> gotime \<times> eval_context \<times> ruleset \<times> string list \<times> string list) \<Rightarrow> nat \<times> nat" where
  "evaluate_measure c =
     (case c of
        Inl (lib, now, ctx, rs, k, v) \<Rightarrow>
          (card (prereq_keys rs - set v),
           if k \<in> set v then Suc (Suc (prereq_count rs k)) else 0)
      | Inr (lib, now, ctx, rs, ps, v) \<Rightarrow> (card (prereq_keys rs - set v), Suc (length ps)))"

lemma card_diff_visited_mono:
  "set v \<subseteq> set v' \<Longrightarrow> card (prereq_keys rs - set v') \<le> card (prereq_keys rs - set v)"
  by (intro card_mono) (auto simp: finite_prereq_keys)

lemma card_diff_visit:
  "k \<in> prereq_keys rs \<Longrightarrow> k \<notin> set v \<Longrightarrow>
   card (prereq_keys rs - set (k # v)) < card (prereq_keys rs - set v)"
  by (intro psubset_card_mono) (auto simp: finite_prereq_keys)

termination evaluate
proof (relation "inv_image (less_than <*lex*> less_than) evaluate_measure", goal_cases)
  case 1
  show ?case by auto
next
  case (2 lib now ctx rs k v a b f st)
  then have k: "map_of (rs_Flags rs) k = Some f" "flag_Prerequisites f \<noteq> []"
    by auto
  then have "k \<in> prereq_keys rs" "prereq_count rs k = length (flag_Prerequisites f)"
    by (auto simp: prereq_keys_def prereq_count_def)
  then show ?case
    using card_diff_visit [of k rs v] card_diff_visited_mono [of v "k # v" rs]
    by (auto simp: evaluate_measure_def insert_absorb)
next
  case (3 lib now ctx rs p ps v)
  then show ?case by (simp add: evaluate_measure_def)
next
  case (4 lib now ctx rs p ps v r v')
  then have "set v \<subseteq> set v'"
    using visited_grows_partial(1) [of lib now ctx rs p v] by (metis snd_conv)
  then have "card (prereq_keys rs - set v') \<le> card (prereq_keys rs - set v)"
    by (rule card_diff_visited_mono)
  then show ?case by (auto simp: evaluate_measure_def)
qed

lemma visited_grows:
  "set v \<subseteq> set (snd (evaluate lib now ctx rs k v))"
  "set v \<subseteq> set (snd (evaluate_prereqs lib now ctx rs ps v))"
proof (induction lib now ctx rs k v and lib now ctx rs ps v rule: evaluate_evaluate_prereqs.induct)
  case (1 lib now ctx rs k v)
  then show ?case
    by (fastforce split: option.splits prod.splits bool.splits)
next
  case (3 lib now ctx rs p ps v)
  then show ?case
    by (fastforce simp del: evaluate.simps split: prod.splits if_splits)
qed simp_all

declare evaluate.simps [simp del]

text \<open>The exported entry points.\<close>

definition Evaluate ::
    "golib \<Rightarrow> gotime \<Rightarrow> string \<Rightarrow> eval_context \<Rightarrow> ruleset \<Rightarrow> eval_result" where
  "Evaluate lib now flagKey ctx rs = fst (evaluate lib now ctx rs flagKey [])"

definition EvaluateAll ::
    "golib \<Rightarrow> gotime \<Rightarrow> eval_context \<Rightarrow> ruleset \<Rightarrow> (string, eval_result) gomap" where
  "EvaluateAll lib now ctx rs =
     map (\<lambda>(key, f). (key, Evaluate lib now key ctx rs)) (rs_Flags rs)"

subsection \<open>Segments and rules: laws\<close>

lemma segment_loop_iff:
  "segment_loop lib ks ctx rs \<longleftrightarrow>
     (\<exists>k\<in>set ks. \<exists>seg. map_of (rs_Segments rs) k = Some seg \<and>
        MatchConditions lib (operatorRegistry lib) (seg_Rules seg) ctx (seg_MatchType seg))"
  by (induction ks) (auto split: option.splits)

definition rule_decides :: "golib \<Rightarrow> string \<Rightarrow> eval_context \<Rightarrow> ruleset \<Rightarrow> targeting_rule \<Rightarrow> bool" where
  "rule_decides lib k ctx rs r \<longleftrightarrow>
     matchRule lib r ctx rs \<and> (10000 \<le> rule_Percentage r \<or> BucketUser k (ctx_Key ctx) < rule_Percentage r)"

definition rule_result :: "golib \<Rightarrow> string \<Rightarrow> targeting_rule \<Rightarrow> eval_result" where
  "rule_result lib k r =
     mk_result k (parseJSONValue lib (rule_Value r))
       (if 10000 \<le> rule_Percentage r then ReasonTargeted else ReasonRollout)"

text \<open>The loop over the rules finds the first rule that decides; the guard on a percentage of 0 is
  implied by the range of the bucket.\<close>

lemma rule_loop_find:
  "rule_loop lib k rules ctx rs =
     map_option (rule_result lib k) (List.find (rule_decides lib k ctx rs) rules)"
proof (induction rules)
  case Nil
  show ?case by simp
next
  case (Cons r rules)
  have "0 < rule_Percentage r" if "BucketUser k (ctx_Key ctx) < rule_Percentage r"
    using that BucketUser_range(1) [of k "ctx_Key ctx"] by linarith
  then show ?case
    using Cons.IH by (auto simp: rule_decides_def rule_result_def)
qed

subsection \<open>Variants: laws\<close>

definition weights_ok :: "variant list \<Rightarrow> bool" where
  "weights_ok vs \<longleftrightarrow> (\<forall>v\<in>set vs. 0 \<le> variant_Weight v) \<and> sum_list (map variant_Weight vs) \<le> 10000"

text \<open>The cumulative sums cut the buckets into consecutive intervals, one per variant.\<close>

lemma variant_loop_interval:
  assumes "\<forall>v\<in>set vs. 0 \<le> variant_Weight v" "0 \<le> c" "c + sum_list (map variant_Weight vs) \<le> 10000"
    and "i < length vs" "c + sum_list (map variant_Weight (take i vs)) \<le> b"
    and "b < c + sum_list (map variant_Weight (take (Suc i) vs))"
  shows "variant_loop vs b c = Some (vs ! i)"
  using assms
proof (induction vs arbitrary: c i)
  case Nil
  then show ?case by simp
next
  case (Cons v vs)
  have nonneg: "0 \<le> sum_list (map variant_Weight vs)" "0 \<le> sum_list (map variant_Weight (take j vs))" for j
    using Cons.prems(1) by (auto intro!: sum_list_nonneg) (metis in_set_takeD)
  have w: "wrap64 (c + variant_Weight v) = c + variant_Weight v"
    using Cons.prems(1-3) nonneg(1) by (intro wrap64_id) (auto simp: int64_range_def)
  show ?case
  proof (cases i)
    case 0
    then show ?thesis using Cons.prems w by (simp add: Let_def)
  next
    case (Suc j)
    have "variant_loop vs b (c + variant_Weight v) = Some (vs ! j)"
      using Cons.prems Suc by (intro Cons.IH) auto
    moreover have "\<not> b < c + variant_Weight v"
      using Cons.prems(5) Suc nonneg(2) [of j] by simp
    ultimately show ?thesis using w Suc by (simp add: Let_def)
  qed
qed

subsection \<open>Mutual exclusion: laws\<close>

definition mutex_candidates :: "string \<Rightarrow> ruleset \<Rightarrow> string set" where
  "mutex_candidates grp rs =
     {k. \<exists>f st. (k, f) \<in> set (rs_Flags rs) \<and> flag_MutualExclusionGroup f = grp \<and>
            map_of (rs_States rs) k = Some st \<and> state_Enabled st}"

lemma finite_mutex_candidates: "finite (mutex_candidates grp rs)"
  by (rule finite_subset [of _ "fst ` set (rs_Flags rs)"]) (force simp: mutex_candidates_def)+

definition mutex_rank :: "eval_context \<Rightarrow> string \<Rightarrow> int \<times> string" where
  "mutex_rank ctx k = (BucketUser k (ctx_Key ctx), k)"

lemma inj_mutex_rank: "mutex_rank ctx k = mutex_rank ctx k' \<longleftrightarrow> k = k'"
  by (auto simp: mutex_rank_def)

definition mutex_list :: "string \<Rightarrow> string \<Rightarrow> ruleset \<Rightarrow> (string \<times> flag) list \<Rightarrow> string list" where
  "mutex_list k grp rs fs =
     map fst (filter (\<lambda>(key, f). key \<noteq> k \<and> flag_MutualExclusionGroup f = grp \<and>
        (\<exists>st. map_of (rs_States rs) key = Some st \<and> state_Enabled st)) fs)"

lemma mutex_loop_fold:
  "mutex_loop k grp ctx rs fs w (BucketUser w (ctx_Key ctx)) =
     snd (fold min (map (mutex_rank ctx) (mutex_list k grp rs fs)) (mutex_rank ctx w))"
proof (induction fs arbitrary: w)
  case Nil
  then show ?case by (simp add: mutex_list_def mutex_rank_def)
next
  case (Cons e fs)
  obtain key f where e: "e = (key, f)" by (cases e)
  show ?case
  proof (cases "key \<noteq> k \<and> flag_MutualExclusionGroup f = grp \<and>
        (\<exists>st. map_of (rs_States rs) key = Some st \<and> state_Enabled st)")
    case False
    then have "mutex_list k grp rs (e # fs) = mutex_list k grp rs fs"
      by (auto simp: mutex_list_def e)
    moreover have "mutex_loop k grp ctx rs (e # fs) w b = mutex_loop k grp ctx rs fs w b" for b
      using False by (auto simp: e split: option.splits)
    ultimately show ?thesis using Cons.IH by simp
  next
    case True
    then have "mutex_list k grp rs (e # fs) = key # mutex_list k grp rs fs"
      by (auto simp: mutex_list_def e)
    with True show ?thesis
      using Cons.IH [of key] Cons.IH [of w]
      by (auto simp: e Let_def mutex_rank_def min_def less_eq_prod_def)
  qed
qed

lemma set_mutex_list:
  "set (mutex_list k grp rs (rs_Flags rs)) = mutex_candidates grp rs - {k}"
  by (force simp: mutex_list_def mutex_candidates_def)

lemma winsMutexGroup_iff:
  "winsMutexGroup k grp ctx rs \<longleftrightarrow>
     (\<forall>c\<in>mutex_candidates grp rs - {k}. mutex_rank ctx k < mutex_rank ctx c)"
proof -
  let ?M = "insert (mutex_rank ctx k) (mutex_rank ctx ` (mutex_candidates grp rs - {k}))"
  have fin: "finite (mutex_rank ctx ` (mutex_candidates grp rs - {k}))"
    by (simp add: finite_mutex_candidates)
  have "winsMutexGroup k grp ctx rs \<longleftrightarrow> snd (Min ?M) = k"
    unfolding winsMutexGroup_def mutex_loop_fold Min.set_eq_fold [symmetric]
    by (simp only: list.set set_map set_mutex_list)
  also have "\<dots> \<longleftrightarrow> Min ?M = mutex_rank ctx k"
    using Min_in [of ?M] fin by (auto simp: mutex_rank_def)
  also have "\<dots> \<longleftrightarrow> (\<forall>c\<in>mutex_candidates grp rs - {k}. mutex_rank ctx k \<le> mutex_rank ctx c)"
    using fin by (auto simp: Min_eq_iff)
  also have "\<dots> \<longleftrightarrow> (\<forall>c\<in>mutex_candidates grp rs - {k}. mutex_rank ctx k < mutex_rank ctx c)"
    by (auto simp: order.strict_iff_order inj_mutex_rank)
  finally show ?thesis .
qed

end
