(* ===== verification/EvalSort.thy ===== *)
theory EvalSort
  imports EvalEngine
begin

text \<open>
  The interface to \<open>sort.Slice\<close>, which the engine calls to put the rules in priority order, and what of
  an evaluation depends on it.  \<open>sort.Slice\<close> is not stable: the locale \<open>rule_sorter\<close> assumes only that
  it returns a permutation with ascending priorities.  It is interpreted on the insertion sort of
  the HOL library.  The second half shows that an evaluation does not depend on the order in which
  Go iterates over the map of flags.
\<close>

lemma find_sorted:
  "List.find P xs = Some x \<Longrightarrow> sorted (map f xs) \<Longrightarrow>
     x \<in> set xs \<and> P x \<and> (\<forall>y\<in>set xs. P y \<longrightarrow> f x \<le> f y)"
  by (induction xs) (auto split: if_splits)

locale rule_sorter =
  fixes srt :: "targeting_rule list \<Rightarrow> targeting_rule list"
  assumes srt_perm: "mset (srt rules) = mset rules"
    and srt_sorted: "sorted (map rule_Priority (srt rules))"
begin

lemma srt_set: "set (srt rules) = set rules"
  using srt_perm by (metis set_mset_mset)

lemma srt_find_None: "List.find P (srt rules) = None \<longleftrightarrow> (\<forall>r\<in>set rules. \<not> P r)"
  by (auto simp: find_None_iff srt_set)

lemma srt_find_least:
  "List.find P (srt rules) = Some r \<Longrightarrow>
     r \<in> set rules \<and> P r \<and> (\<forall>r'\<in>set rules. P r' \<longrightarrow> rule_Priority r \<le> rule_Priority r')"
  using find_sorted [OF _ srt_sorted, of P rules r] by (simp add: srt_set)

lemma srt_unique:
  assumes "distinct (map rule_Priority rules)"
  shows "srt rules = sort_key rule_Priority rules"
proof (rule map_inj_on)
  have "map rule_Priority (srt rules) = sort (map rule_Priority rules)"
    by (rule properties_for_sort [symmetric]) (simp_all add: srt_perm srt_sorted)
  moreover have "map rule_Priority (sort_key rule_Priority rules) = sort (map rule_Priority rules)"
    by (rule properties_for_sort [symmetric]) simp_all
  ultimately show "map rule_Priority (srt rules) = map rule_Priority (sort_key rule_Priority rules)"
    by simp
  show "inj_on rule_Priority (set (srt rules) \<union> set (sort_key rule_Priority rules))"
    using assms by (simp add: srt_set distinct_map)
qed

end

lemma sorts_rules_sorter: "sorts_rules srt \<longleftrightarrow> rule_sorter srt"
  by (auto simp: sorts_rules_def rule_sorter_def)

interpretation insertion: rule_sorter "sort_key rule_Priority"
  by unfold_locales simp_all

subsection \<open>The rule that decides\<close>

lemma rule_loop_sorted_Some:
  assumes "sorts_rules (go_sort_rules lib)"
    and "rule_loop lib k (go_sort_rules lib rules) ctx rs = Some res"
  shows "\<exists>r\<in>set rules. rule_decides lib k ctx rs r \<and> res = rule_result lib k r \<and>
           (\<forall>r'\<in>set rules. rule_decides lib k ctx rs r' \<longrightarrow> rule_Priority r \<le> rule_Priority r')"
proof -
  obtain r where "List.find (rule_decides lib k ctx rs) (go_sort_rules lib rules) = Some r"
      and "res = rule_result lib k r"
    using assms(2) by (auto simp: rule_loop_find)
  then show ?thesis
    using rule_sorter.srt_find_least [OF assms(1) [unfolded sorts_rules_sorter]] by blast
qed

lemma rule_loop_sorted_None:
  assumes "sorts_rules (go_sort_rules lib)"
  shows "rule_loop lib k (go_sort_rules lib rules) ctx rs = None \<longleftrightarrow>
           (\<forall>r\<in>set rules. \<not> rule_decides lib k ctx rs r)"
  by (simp add: rule_loop_find rule_sorter.srt_find_None [OF assms [unfolded sorts_rules_sorter]])

subsection \<open>Rulesets that differ in iteration order only\<close>

definition same_ruleset :: "ruleset \<Rightarrow> ruleset \<Rightarrow> bool" where
  "same_ruleset rs rs' \<longleftrightarrow>
     map_of (rs_Flags rs) = map_of (rs_Flags rs') \<and> set (rs_Flags rs) = set (rs_Flags rs') \<and>
     map_of (rs_States rs) = map_of (rs_States rs') \<and>
     map_of (rs_Segments rs) = map_of (rs_Segments rs')"

lemma same_ruleset_permute:
  assumes "well_keyed (rs_Flags rs)" "mset (rs_Flags rs') = mset (rs_Flags rs)"
    and "rs_States rs' = rs_States rs" "rs_Segments rs' = rs_Segments rs"
  shows "same_ruleset rs rs'"
  using assms map_of_mset_eq [OF assms(1,2)] mset_eq_setD [OF assms(2)]
  by (simp add: same_ruleset_def)

definition distinct_priorities :: "ruleset \<Rightarrow> bool" where
  "distinct_priorities rs \<longleftrightarrow>
     (\<forall>k st. map_of (rs_States rs) k = Some st \<longrightarrow> distinct (map rule_Priority (state_Rules st)))"

text \<open>Two libraries that agree on everything but the sorting of rules.\<close>

definition same_but_sort :: "golib \<Rightarrow> golib \<Rightarrow> bool" where
  "same_but_sort lib lib' \<longleftrightarrow>
     (\<exists>srt. lib' = lib\<lparr>go_sort_rules := srt\<rparr> \<and> sorts_rules srt) \<and> sorts_rules (go_sort_rules lib)"

lemma same_but_sort_eqs:
  assumes "same_but_sort lib lib'"
  shows "parseJSONValue lib' raw = parseJSONValue lib raw"
    and "operatorRegistry lib' = operatorRegistry lib"
    and "MatchConditions lib' reg cs ctx mt = MatchConditions lib reg cs ctx mt"
proof -
  obtain srt where lib': "lib' = lib\<lparr>go_sort_rules := srt\<rparr>"
    using assms by (auto simp: same_but_sort_def)
  show "parseJSONValue lib' raw = parseJSONValue lib raw"
    by (simp add: lib' parseJSONValue_def split: option.split)
  have "numericOp lib' = numericOp lib" "opRegex lib' = opRegex lib"
    by (auto simp: lib' numericOp_def opRegex_def fun_eq_iff split: list.split option.split)
  then show "operatorRegistry lib' = operatorRegistry lib"
    by (simp add: operatorRegistry_def opGT_def [abs_def] opGTE_def [abs_def] opLT_def [abs_def]
        opLTE_def [abs_def])
  have "sprintv lib' v = sprintv lib v" for v
    by (cases "(lib, v)" rule: sprintv.cases) (simp_all add: lib')
  then have "MatchCondition lib' reg c ctx = MatchCondition lib reg c ctx" for c
    by (simp add: MatchCondition_def split: option.split)
  then show "MatchConditions lib' reg cs ctx mt = MatchConditions lib reg cs ctx mt"
    by (simp add: MatchConditions_iff)
qed

lemma same_but_sort_sorted:
  assumes "same_but_sort lib lib'" "distinct (map rule_Priority rules)"
  shows "go_sort_rules lib' rules = go_sort_rules lib rules"
proof -
  have "sorts_rules (go_sort_rules lib')" "sorts_rules (go_sort_rules lib)"
    using assms(1) by (auto simp: same_but_sort_def)
  then show ?thesis
    by (simp add: sorts_rules_sorter rule_sorter.srt_unique [OF _ assms(2)])
qed

lemma evaluate_on_same:
  assumes "same_ruleset rs rs'" "same_but_sort lib lib'" "distinct (map rule_Priority (state_Rules st))"
  shows "evaluate_on lib' ctx rs' k f st = evaluate_on lib ctx rs k f st"
proof -
  note eqs = same_but_sort_eqs [OF assms(2)]
  have seg: "segment_loop lib' ks ctx rs' = segment_loop lib ks ctx rs" for ks
    using assms(1) by (simp add: segment_loop_iff same_ruleset_def eqs)
  have "matchRule lib' r ctx rs' = matchRule lib r ctx rs" for r
    by (simp add: matchRule_def seg eqs Let_def)
  then have "rule_decides lib' k ctx rs' = rule_decides lib k ctx rs"
    by (simp add: rule_decides_def fun_eq_iff)
  moreover have "rule_result lib' k = rule_result lib k"
    by (simp add: rule_result_def fun_eq_iff eqs)
  moreover have "evaluateVariant lib' k ctx vs = evaluateVariant lib k ctx vs" for vs
    by (simp add: evaluateVariant_def variant_result_def eqs split: option.split)
  ultimately show ?thesis
    by (simp add: evaluate_on_def rule_loop_find same_but_sort_sorted [OF assms(2,3)] eqs Let_def
        split: option.split)
qed

lemma evaluate_gate_same:
  assumes "same_ruleset rs rs'" "same_but_sort lib lib'"
  shows "evaluate_gate lib' now ctx rs' k = evaluate_gate lib now ctx rs k"
proof -
  have "mutex_candidates grp rs' = mutex_candidates grp rs" for grp
    using assms(1) by (simp add: mutex_candidates_def same_ruleset_def)
  then have "winsMutexGroup k grp ctx rs' = winsMutexGroup k grp ctx rs" for grp
    by (simp add: winsMutexGroup_iff)
  then show ?thesis
    using assms(1)
    by (simp add: evaluate_gate_def same_ruleset_def same_but_sort_eqs [OF assms(2)] Let_def
        split: option.split)
qed

lemma evaluate_same:
  assumes "same_ruleset rs rs'" "same_but_sort lib lib'" "distinct_priorities rs"
  shows "evaluate lib' now ctx rs' k v = evaluate lib now ctx rs k v"
    and "evaluate_prereqs lib' now ctx rs' ps v = evaluate_prereqs lib now ctx rs ps v"
  using assms
proof (induction lib now ctx rs k v and lib now ctx rs ps v rule: evaluate_evaluate_prereqs.induct)
  case (1 lib now ctx rs k v)
  note eqs = evaluate_gate_same [OF 1(2,3)] same_but_sort_eqs(1) [OF 1(3)]
  have maps: "map_of (rs_Flags rs') = map_of (rs_Flags rs)" "map_of (rs_States rs') = map_of (rs_States rs)"
    using 1(2) by (simp_all add: same_ruleset_def)
  have on: "evaluate_on lib' ctx rs' k f st = evaluate_on lib ctx rs k f st"
    if "map_of (rs_States rs) k = Some st" for f st
    using that 1(4) by (intro evaluate_on_same [OF 1(2,3)]) (auto simp: distinct_priorities_def)
  show ?case
  proof (cases "evaluate_gate lib now ctx rs k")
    case None
    then obtain f st where fs: "map_of (rs_Flags rs) k = Some f" "map_of (rs_States rs) k = Some st"
      by (auto simp: evaluate_gate_def Let_def split: option.splits if_splits)
    show ?thesis
      using 1(1) [OF None _ fs] 1(2-4)
      by (simp add: evaluate.simps [of lib'] evaluate.simps [of lib] None fs maps eqs on
          split: prod.splits bool.splits)
  qed (simp add: evaluate.simps [of lib'] evaluate.simps [of lib] eqs)
next
  case (3 lib now ctx rs p ps v)
  show ?case
    using 3 by (auto split: prod.splits)
qed simp_all

end
