(* ===== verification/EvalMiddleware.thy ===== *)
theory EvalMiddleware
  imports EvalEngine
begin

text \<open>
  \<open>server/internal/eval/middleware.go\<close>: the \<open>Evaluator\<close> interface, the two built-in decorators and
  \<open>Chain\<close>.  An evaluator threads the list of observations (metric records and log lines, newest last)
  that its decorators make.  The locale \<open>observer\<close> is the contract of a decorator that only watches;
  it is interpreted on both built-in ones.
\<close>

datatype observation =
    MetricRecorded string string string
  | FlagEvaluatedLog string string json string
  | BulkEvaluationLog string nat

record evaluator =
  ev_Evaluate ::
    "string \<Rightarrow> eval_context \<Rightarrow> ruleset \<Rightarrow> observation list \<Rightarrow> eval_result \<times> observation list"
  ev_EvaluateAll ::
    "eval_context \<Rightarrow> ruleset \<Rightarrow> observation list \<Rightarrow> (string, eval_result) gomap \<times> observation list"

type_synonym eval_middleware = "evaluator \<Rightarrow> evaluator"

definition engine :: "golib \<Rightarrow> gotime \<Rightarrow> evaluator" where
  "engine lib now =
     \<lparr>ev_Evaluate = (\<lambda>k ctx rs obs. (Evaluate lib now k ctx rs, obs)),
      ev_EvaluateAll = (\<lambda>ctx rs obs. (EvaluateAll lib now ctx rs, obs))\<rparr>"

definition metrics_Evaluate where
  "metrics_Evaluate (base :: evaluator) envID k ctx rs obs =
     (case ev_Evaluate base k ctx rs obs of
        (res, obs) \<Rightarrow> (res, obs @ [MetricRecorded k envID (res_Reason res)]))"

definition metrics_EvaluateAll where
  "metrics_EvaluateAll (base :: evaluator) envID ctx rs obs =
     (case ev_EvaluateAll base ctx rs obs of
        (results, obs) \<Rightarrow>
          (results, obs @ map (\<lambda>(k, v). MetricRecorded k envID (res_Reason v)) results))"

definition WithMetrics :: "string \<Rightarrow> eval_middleware" where
  "WithMetrics envID base =
     \<lparr>ev_Evaluate = metrics_Evaluate base envID, ev_EvaluateAll = metrics_EvaluateAll base envID\<rparr>"

definition logging_Evaluate where
  "logging_Evaluate (base :: evaluator) k ctx rs obs =
     (case ev_Evaluate base k ctx rs obs of
        (res, obs) \<Rightarrow> (res, obs @ [FlagEvaluatedLog k (ctx_Key ctx) (res_Value res) (res_Reason res)]))"

definition logging_EvaluateAll where
  "logging_EvaluateAll (base :: evaluator) ctx rs obs =
     (case ev_EvaluateAll base ctx rs obs of
        (results, obs) \<Rightarrow> (results, obs @ [BulkEvaluationLog (ctx_Key ctx) (length results)]))"

definition WithLogging :: eval_middleware where
  "WithLogging base =
     \<lparr>ev_Evaluate = logging_Evaluate base, ev_EvaluateAll = logging_EvaluateAll base\<rparr>"

text \<open>\<open>for i := len(mws) - 1; i >= 0; i--\<close>: the first middleware ends up outermost.\<close>

fun Chain :: "evaluator \<Rightarrow> eval_middleware list \<Rightarrow> evaluator" where
  "Chain base [] = base"
| "Chain base (mw # mws) = mw (Chain base mws)"

subsection \<open>Decorators that only observe\<close>

text \<open>Same answers, and the observations only grow.\<close>

definition observes :: "evaluator \<Rightarrow> evaluator \<Rightarrow> bool" where
  "observes e base \<longleftrightarrow>
     (\<forall>k ctx rs obs. fst (ev_Evaluate e k ctx rs obs) = fst (ev_Evaluate base k ctx rs obs) \<and>
        (\<exists>new. snd (ev_Evaluate e k ctx rs obs) = snd (ev_Evaluate base k ctx rs obs) @ new)) \<and>
     (\<forall>ctx rs obs. fst (ev_EvaluateAll e ctx rs obs) = fst (ev_EvaluateAll base ctx rs obs) \<and>
        (\<exists>new. snd (ev_EvaluateAll e ctx rs obs) = snd (ev_EvaluateAll base ctx rs obs) @ new))"

locale observer =
  fixes mw :: eval_middleware
  assumes mw_observes: "observes (mw e) e"

lemma observes_refl: "observes e e"
  by (simp add: observes_def)

lemma observes_trans: "observes e f \<Longrightarrow> observes f g \<Longrightarrow> observes e g"
  unfolding observes_def by (metis append_assoc)

interpretation metrics: observer "WithMetrics envID"
  by unfold_locales
    (auto simp: observes_def WithMetrics_def metrics_Evaluate_def metrics_EvaluateAll_def
      split: prod.splits)

interpretation logging: observer WithLogging
  by unfold_locales
    (auto simp: observes_def WithLogging_def logging_Evaluate_def logging_EvaluateAll_def
      split: prod.splits)

definition built_in :: "eval_middleware \<Rightarrow> bool" where
  "built_in mw \<longleftrightarrow> mw = WithLogging \<or> (\<exists>envID. mw = WithMetrics envID)"

lemma Chain_observes: "list_all built_in mws \<Longrightarrow> observes (Chain base mws) base"
proof (induction mws)
  case Nil
  then show ?case by (simp add: observes_refl)
next
  case (Cons mw mws)
  then have "observes (mw (Chain base mws)) (Chain base mws)"
    using metrics.mw_observes logging.mw_observes by (auto simp: built_in_def)
  with Cons show ?case
    using observes_trans by auto
qed

text \<open>
  Whatever built-in middlewares wrap the engine, in whatever order, the answers are the engine's:
  logging and metrics never change an evaluation.
\<close>

theorem Chain_transparent:
  assumes "list_all built_in mws"
  shows "fst (ev_Evaluate (Chain (engine lib now) mws) k ctx rs obs) = Evaluate lib now k ctx rs \<and>
         fst (ev_EvaluateAll (Chain (engine lib now) mws) ctx rs obs) = EvaluateAll lib now ctx rs"
  using Chain_observes [OF assms, of "engine lib now"] by (simp add: observes_def engine_def)

theorem Chain_transparent_witness:
  "\<forall>lib now k ctx rs obs.
     fst (ev_Evaluate (Chain (engine lib now) [WithLogging, WithMetrics ''env'', WithLogging]) k ctx rs obs) =
     Evaluate lib now k ctx rs"
  using Chain_transparent [of "[WithLogging, WithMetrics ''env'', WithLogging]"]
  by (simp add: built_in_def) blast

end
