(* ===== verification/EvalProps.thy ===== *)
theory EvalProps
  imports EvalSort EvalMiddleware
begin

text \<open>
  What an evaluation promises: which reasons it can give, what dominates what, that one flag of a
  mutual exclusion group is on, that the answer does not depend on map iteration or on the sorting
  routine, that rollouts are sticky, that variants get their share of the buckets, and what a flag's
  prerequisites decide.  \<open>demo_lib\<close> is the concrete library of the witnesses.
\<close>

subsection \<open>A concrete library\<close>

fun demo_unmarshal :: "string \<Rightarrow> json option" where
  "demo_unmarshal s =
     (if s = ''true'' then Some (JBool True) else if s = ''false'' then Some (JBool False)
      else if s = ''null'' then Some JNull else Some (JStr s))"

definition demo_lib :: golib where
  "demo_lib = \<lparr>go_json_valid = (\<lambda>s. s \<noteq> []), go_unmarshal = demo_unmarshal, go_parse_float = (\<lambda>s. None), go_sprint = (\<lambda>v. []),
     go_regexp = (\<lambda>p. None), go_sort_rules = sort_key rule_Priority\<rparr>"

lemma demo_lib_sorts: "sorts_rules (go_sort_rules demo_lib)"
  by (simp add: demo_lib_def sorts_rules_def)

definition anyone :: eval_context where
  "anyone = \<lparr>ctx_Key = ''user-1'', ctx_Attributes = Map.empty\<rparr>"

definition on_flag :: "string \<Rightarrow> string list \<Rightarrow> string \<times> flag" where
  "on_flag k ps = (k, zero_flag\<lparr>flag_Key := k, flag_FlagType := FlagTypeBoolean,
     flag_DefaultValue := Some ''false'', flag_Prerequisites := ps\<rparr>)"

definition on_state :: "string \<Rightarrow> string \<times> flag_state" where
  "on_state k = (k, zero_flag_state\<lparr>state_Enabled := True, state_DefaultValue := Some ''true''\<rparr>)"

subsection \<open>Reasons\<close>

lemma evaluate_on_shape:
  "res_FlagKey (evaluate_on lib ctx rs k f st) = k \<and>
   res_Reason (evaluate_on lib ctx rs k f st) \<in>
     {ReasonTargeted, ReasonRollout, ReasonVariant, ReasonFallthrough}"
  by (auto simp: evaluate_on_def rule_loop_find rule_result_def evaluateVariant_def
      variant_result_def Let_def split: option.splits)

lemma evaluate_gate_None:
  "evaluate_gate lib now ctx rs k = None \<longleftrightarrow>
     (\<exists>f st. map_of (rs_Flags rs) k = Some f \<and> map_of (rs_States rs) k = Some st \<and>
        \<not> flag_expired now f \<and> state_Enabled st \<and>
        (flag_MutualExclusionGroup f = [] \<or> winsMutexGroup k (flag_MutualExclusionGroup f) ctx rs))"
  by (auto simp: evaluate_gate_def Let_def split: option.splits if_splits)

lemma evaluate_gate_Some:
  "evaluate_gate lib now ctx rs k = Some r \<Longrightarrow>
     res_FlagKey r = k \<and> res_VariantKey r = [] \<and>
     (map_of (rs_Flags rs) k = None \<and> r = mk_result k JNull ReasonNotFound \<or>
      (\<exists>f. map_of (rs_Flags rs) k = Some f \<and>
         res_Reason r \<in> {ReasonDisabled, ReasonMutuallyExcluded} \<and>
         res_Value r = parseJSONValue lib (flag_DefaultValue f)))"
  by (auto simp: evaluate_gate_def Let_def split: option.splits if_splits)

text \<open>What \<open>Evaluate\<close> returns once the gate is passed.\<close>

lemma Evaluate_open:
  assumes "map_of (rs_Flags rs) k = Some f" "map_of (rs_States rs) k = Some st"
    and "evaluate_gate lib now ctx rs k = None"
  shows "Evaluate lib now k ctx rs =
           (if flag_Prerequisites f \<noteq> [] \<and>
               fst (evaluate_prereqs lib now ctx rs (flag_Prerequisites f) [k])
            then mk_result k (parseJSONValue lib (flag_DefaultValue f)) ReasonPrerequisiteFailed
            else evaluate_on lib ctx rs k f st)"
  using assms by (auto simp: Evaluate_def evaluate.simps [of lib now ctx rs k] split: prod.splits bool.splits)

lemma Evaluate_closed:
  "evaluate_gate lib now ctx rs k = Some r \<Longrightarrow> Evaluate lib now k ctx rs = r"
  by (simp add: Evaluate_def evaluate.simps [of lib now ctx rs k])

lemma Evaluate_cases:
  obtains r where "evaluate_gate lib now ctx rs k = Some r" "Evaluate lib now k ctx rs = r"
  | f st where "map_of (rs_Flags rs) k = Some f" "map_of (rs_States rs) k = Some st"
      "evaluate_gate lib now ctx rs k = None"
      "Evaluate lib now k ctx rs =
         mk_result k (parseJSONValue lib (flag_DefaultValue f)) ReasonPrerequisiteFailed"
  | f st where "map_of (rs_Flags rs) k = Some f" "map_of (rs_States rs) k = Some st"
      "evaluate_gate lib now ctx rs k = None"
      "Evaluate lib now k ctx rs = evaluate_on lib ctx rs k f st"
proof (cases "evaluate_gate lib now ctx rs k")
  case None
  then obtain f st where fs: "map_of (rs_Flags rs) k = Some f" "map_of (rs_States rs) k = Some st"
    unfolding evaluate_gate_None by blast
  show ?thesis
    using Evaluate_open [OF fs None] that(2) [OF fs None] that(3) [OF fs None] by metis
qed (use that(1) Evaluate_closed in blast)

text \<open>
  An evaluation always answers, for the flag it was asked, with one of the eight documented
  reasons, and the reason is \<open>NOT_FOUND\<close> exactly when the ruleset has no such flag.
\<close>

theorem Evaluate_reason:
  "res_FlagKey (Evaluate lib now k ctx rs) = k \<and>
   res_Reason (Evaluate lib now k ctx rs) \<in>
     {ReasonNotFound, ReasonDisabled, ReasonMutuallyExcluded, ReasonPrerequisiteFailed,
      ReasonTargeted, ReasonRollout, ReasonVariant, ReasonFallthrough} \<and>
   (res_Reason (Evaluate lib now k ctx rs) = ReasonNotFound \<longleftrightarrow> map_of (rs_Flags rs) k = None)"
proof (cases rule: Evaluate_cases [of lib now ctx rs k])
  case (1 r)
  then show ?thesis using evaluate_gate_Some [OF 1(1)] by auto
next
  case (2 f st)
  then show ?thesis by simp
next
  case (3 f st)
  then show ?thesis using evaluate_on_shape [of lib ctx rs k f st] by auto
qed

text \<open>
  The kill switch dominates.  A flag that is expired, or has no enabled state, answers its default
  value with \<open>DISABLED\<close>, whatever its rules, rollout, variants, prerequisites and group say.
\<close>

theorem Evaluate_disabled:
  assumes "map_of (rs_Flags rs) k = Some f"
    and "flag_expired now f \<or> map_of (rs_States rs) k = None \<or>
         \<not> state_Enabled (the (map_of (rs_States rs) k))"
  shows "Evaluate lib now k ctx rs =
           mk_result k (parseJSONValue lib (flag_DefaultValue f)) ReasonDisabled"
  by (rule Evaluate_closed) (use assms in \<open>auto simp: evaluate_gate_def split: option.splits\<close>)

theorem Evaluate_disabled_witness:
  "Evaluate demo_lib 10 ''a'' anyone
     \<lparr>rs_Flags = [(''a'', (snd (on_flag ''a'' []))\<lparr>flag_ExpiresAt := Some 5\<rparr>)],
      rs_States = [on_state ''a''], rs_Segments = []\<rparr> =
   mk_result ''a'' (JBool False) ReasonDisabled"
  by (subst Evaluate_disabled, simp)
    (simp_all add: on_flag_def on_state_def flag_expired_def parseJSONValue_def demo_lib_def)

subsection \<open>Mutual exclusion\<close>

text \<open>
  C1: among the enabled flags of a mutual exclusion group exactly one wins for a given user, so two
  experiments of one group never run on the same user and the group is never left without a winner.
\<close>

theorem mutex_exactly_one_winner:
  assumes "mutex_candidates grp rs \<noteq> {}"
  shows "\<exists>!k. k \<in> mutex_candidates grp rs \<and> winsMutexGroup k grp ctx rs"
proof -
  let ?M = "mutex_rank ctx ` mutex_candidates grp rs"
  have M: "finite ?M" "?M \<noteq> {}"
    using assms finite_mutex_candidates by auto
  obtain k where k: "k \<in> mutex_candidates grp rs" "mutex_rank ctx k = Min ?M"
    using Min_in [OF M] by auto
  have "mutex_rank ctx k < mutex_rank ctx c" if "c \<in> mutex_candidates grp rs - {k}" for c
    using that k M by (auto simp: order.strict_iff_order inj_mutex_rank intro: Min_le)
  then have wins: "winsMutexGroup k grp ctx rs"
    by (simp add: winsMutexGroup_iff)
  show ?thesis
  proof (rule ex1I [of _ k])
    show "k \<in> mutex_candidates grp rs \<and> winsMutexGroup k grp ctx rs"
      using k(1) wins by simp
    show "k' = k" if "k' \<in> mutex_candidates grp rs \<and> winsMutexGroup k' grp ctx rs" for k'
    proof (rule ccontr)
      assume "k' \<noteq> k"
      then have "mutex_rank ctx k < mutex_rank ctx k'" "mutex_rank ctx k' < mutex_rank ctx k"
        using that k(1) wins by (auto simp: winsMutexGroup_iff)
      then show False by simp
    qed
  qed
qed

definition mutex_demo :: ruleset where
  "mutex_demo = \<lparr>rs_Flags =
       [(''x'', zero_flag\<lparr>flag_MutualExclusionGroup := ''g''\<rparr>),
        (''y'', zero_flag\<lparr>flag_MutualExclusionGroup := ''g''\<rparr>)],
     rs_States = [on_state ''x'', on_state ''y''], rs_Segments = []\<rparr>"

theorem mutex_exactly_one_winner_witness:
  "\<exists>!k. k \<in> mutex_candidates ''g'' mutex_demo \<and> winsMutexGroup k ''g'' anyone mutex_demo"
  by (rule mutex_exactly_one_winner)
    (auto simp: mutex_candidates_def mutex_demo_def on_state_def zero_flag_def)

text \<open>
  C6: an evaluation is deterministic although the code iterates over a Go map and sorts with the
  unstable \<open>sort.Slice\<close>: neither the iteration order of the flags nor the choice of sorting routine
  can be seen in the result, provided the rules of a state have distinct priorities.
\<close>

theorem Evaluate_deterministic:
  assumes "wf_ruleset rs" and "mset (rs_Flags rs') = mset (rs_Flags rs)"
    and "rs_States rs' = rs_States rs" and "rs_Segments rs' = rs_Segments rs"
    and "distinct_priorities rs" and "same_but_sort lib lib'"
  shows "Evaluate lib' now k ctx rs' = Evaluate lib now k ctx rs"
  unfolding Evaluate_def
  by (rule arg_cong [where f = fst], rule evaluate_same(1) [OF _ assms(6,5)],
      rule same_ruleset_permute [OF assms(1) [unfolded wf_ruleset_def] assms(2-4)])

theorem Evaluate_deterministic_witness:
  "\<forall>now k ctx. Evaluate demo_lib now k ctx (mutex_demo\<lparr>rs_Flags := rev (rs_Flags mutex_demo)\<rparr>) =
     Evaluate demo_lib now k ctx mutex_demo"
proof (intro allI, rule Evaluate_deterministic)
  show "same_but_sort demo_lib demo_lib"
    unfolding same_but_sort_def
    by (intro conjI exI [of _ "go_sort_rules demo_lib"]) (simp_all add: demo_lib_sorts)
qed (auto simp: mutex_demo_def wf_ruleset_def well_keyed_def distinct_priorities_def on_state_def
      zero_flag_state_def split: if_splits)

subsection \<open>Rules, rollouts and variants\<close>

text \<open>The instant, the group and the prerequisites let the flag through: what is left is \<open>evaluate_on\<close>.\<close>

definition passes :: "golib \<Rightarrow> gotime \<Rightarrow> eval_context \<Rightarrow> ruleset \<Rightarrow> string \<Rightarrow> bool" where
  "passes lib now ctx rs k \<longleftrightarrow>
     evaluate_gate lib now ctx rs k = None \<and>
     (\<exists>f. map_of (rs_Flags rs) k = Some f \<and>
        \<not> fst (evaluate_prereqs lib now ctx rs (flag_Prerequisites f) [k]))"

lemma Evaluate_passes:
  assumes "passes lib now ctx rs k" "map_of (rs_Flags rs) k = Some f" "map_of (rs_States rs) k = Some st"
  shows "Evaluate lib now k ctx rs = evaluate_on lib ctx rs k f st"
  using assms by (auto simp: passes_def Evaluate_open)

text \<open>
  C12: first match wins, in priority order.  When a rule decides, the answer is the one of a deciding
  rule with the lowest priority number among all rules of the state, for any sorting routine that
  meets its documentation; when none does, no rule contributes.
\<close>

theorem Evaluate_lowest_priority_rule:
  assumes "sorts_rules (go_sort_rules lib)" and "passes lib now ctx rs k"
    and "map_of (rs_Flags rs) k = Some f" and "map_of (rs_States rs) k = Some st"
    and "r \<in> set (state_Rules st)" and "rule_decides lib k ctx rs r"
  shows "\<exists>r0\<in>set (state_Rules st). rule_decides lib k ctx rs r0 \<and>
           (\<forall>r'\<in>set (state_Rules st). rule_decides lib k ctx rs r' \<longrightarrow>
              rule_Priority r0 \<le> rule_Priority r') \<and>
           Evaluate lib now k ctx rs = rule_result lib k r0"
proof -
  obtain res where "rule_loop lib k (go_sort_rules lib (state_Rules st)) ctx rs = Some res"
    using rule_loop_sorted_None [OF assms(1)] assms(5,6) by blast
  with rule_loop_sorted_Some [OF assms(1) this] show ?thesis
    by (auto simp: Evaluate_passes [OF assms(2-4)] evaluate_on_def)
qed

definition rule_demo :: ruleset where
  "rule_demo = \<lparr>rs_Flags = [on_flag ''a'' []],
     rs_States = [(''a'', (snd (on_state ''a''))\<lparr>state_Rules :=
       [zero_rule\<lparr>rule_Priority := 2, rule_Percentage := 10000, rule_Value := Some ''late''\<rparr>,
        zero_rule\<lparr>rule_Priority := 1, rule_Percentage := 10000, rule_Value := Some ''early''\<rparr>]\<rparr>)],
     rs_Segments = []\<rparr>"

lemma gate_open_ungrouped:
  "map_of (rs_Flags rs) k = Some f \<Longrightarrow> map_of (rs_States rs) k = Some st \<Longrightarrow> state_Enabled st \<Longrightarrow>
   flag_ExpiresAt f = None \<Longrightarrow> flag_MutualExclusionGroup f = [] \<Longrightarrow>
   evaluate_gate lib now ctx rs k = None"
  by (simp add: evaluate_gate_None flag_expired_def)

lemma passes_simple:
  assumes "map_of (rs_Flags rs) k = Some f" "map_of (rs_States rs) k = Some st" "state_Enabled st"
    and "flag_ExpiresAt f = None" "flag_MutualExclusionGroup f = []" "flag_Prerequisites f = []"
  shows "passes lib now ctx rs k"
  using gate_open_ungrouped [OF assms(1-5)] assms(1,6) by (simp add: passes_def)

theorem Evaluate_lowest_priority_rule_witness:
  "\<exists>r0\<in>set (state_Rules (snd (hd (rs_States rule_demo)))).
     rule_decides demo_lib ''a'' anyone rule_demo r0 \<and>
     (\<forall>r'\<in>set (state_Rules (snd (hd (rs_States rule_demo)))).
        rule_decides demo_lib ''a'' anyone rule_demo r' \<longrightarrow> rule_Priority r0 \<le> rule_Priority r') \<and>
     Evaluate demo_lib 0 ''a'' anyone rule_demo = rule_result demo_lib ''a'' r0"
proof (rule Evaluate_lowest_priority_rule [OF demo_lib_sorts, of _ _ _ _ "snd (on_flag ''a'' [])" _
        "state_Rules (snd (hd (rs_States rule_demo))) ! 0"])
  show "passes demo_lib 0 anyone rule_demo ''a''"
    by (rule passes_simple [of _ _ "snd (on_flag ''a'' [])" "snd (hd (rs_States rule_demo))"])
      (simp_all add: rule_demo_def on_flag_def on_state_def zero_flag_def)
qed (simp_all add: rule_demo_def on_flag_def on_state_def rule_decides_def matchRule_def zero_rule_def)

text \<open>
  C17: rollouts are sticky.  Raising the default percentage of a flag never takes the rolled out value
  away from a user that has it: every user in at \<open>p\<close> basis points is in at any larger percentage.
\<close>

theorem rollout_sticky:
  assumes "res_Reason (evaluate_on lib ctx rs k f (st\<lparr>state_PercentageRollout := p\<rparr>)) = ReasonRollout"
    and "p \<le> q"
  shows "evaluate_on lib ctx rs k f (st\<lparr>state_PercentageRollout := q\<rparr>) =
         evaluate_on lib ctx rs k f (st\<lparr>state_PercentageRollout := p\<rparr>)"
proof (cases "rule_loop lib k (go_sort_rules lib (state_Rules st)) ctx rs")
  case None
  have "\<not> BucketUser k (ctx_Key ctx) < p" if "p \<le> 0"
    using that BucketUser_range(1) [of k "ctx_Key ctx"] by linarith
  with None assms show ?thesis
    by (auto simp: evaluate_on_def Let_def evaluateVariant_def variant_result_def
        split: if_splits option.splits)
qed (simp add: evaluate_on_def)

theorem rollout_sticky_witness:
  "res_Reason (evaluate_on demo_lib anyone rule_demo ''b'' zero_flag
     (zero_flag_state\<lparr>state_PercentageRollout := 20000\<rparr>)) = ReasonRollout"
proof -
  have "evaluate_on demo_lib anyone rule_demo ''b'' zero_flag
          (zero_flag_state\<lparr>state_PercentageRollout := 20000\<rparr>) =
        evaluate_on demo_lib anyone rule_demo ''b'' zero_flag
          (zero_flag_state\<lparr>state_PercentageRollout := 10000\<rparr>)"
    by (rule rollout_sticky) (simp_all add: evaluate_on_def demo_lib_def zero_flag_state_def)
  then show ?thesis
    by (simp add: evaluate_on_def demo_lib_def zero_flag_state_def)
qed

text \<open>
  Every variant of an A/B flag gets exactly the share of its weight.  When the weights are not
  negative and sum to at most 10000, the buckets that are assigned the \<open>i\<close>-th variant by its own
  interval are \<open>weight\<close> many, the intervals are disjoint, and a user in it gets that variant.
\<close>

definition variant_start :: "variant list \<Rightarrow> nat \<Rightarrow> int" where
  "variant_start vs i = sum_list (map variant_Weight (take i vs))"

theorem variant_share:
  assumes "weights_ok vs" and "i < length vs"
    and "BucketUser k (ctx_Key ctx) \<in> {variant_start vs i ..< variant_start vs (Suc i)}"
  shows "evaluateVariant lib k ctx vs = variant_result lib k (vs ! i) \<and>
         int (card {variant_start vs i ..< variant_start vs (Suc i)}) = variant_Weight (vs ! i)"
proof -
  have "0 \<le> variant_Weight (vs ! i)"
    using assms(1,2) by (simp add: weights_ok_def)
  then have "int (card {variant_start vs i ..< variant_start vs (Suc i)}) = variant_Weight (vs ! i)"
    using assms(2) by (simp add: variant_start_def take_Suc_conv_app_nth)
  moreover have "variant_loop vs (BucketUser k (ctx_Key ctx)) 0 = Some (vs ! i)"
    using assms by (intro variant_loop_interval) (auto simp: weights_ok_def variant_start_def)
  ultimately show ?thesis by (simp add: evaluateVariant_def)
qed

theorem variant_share_witness:
  "evaluateVariant demo_lib ''ab'' anyone
     [\<lparr>variant_Key = ''all'', variant_Value = None, variant_Weight = 10000\<rparr>] =
   variant_result demo_lib ''ab'' \<lparr>variant_Key = ''all'', variant_Value = None, variant_Weight = 10000\<rparr>"
  using variant_share [of "[\<lparr>variant_Key = ''all'', variant_Value = None, variant_Weight = 10000\<rparr>]"
      0 "''ab''" anyone demo_lib]
  by (simp add: weights_ok_def variant_start_def)

subsection \<open>Prerequisites\<close>

lemma evaluate_prereqs_passed:
  "evaluate_prereqs lib now ctx rs ps v = (False, v') \<Longrightarrow> p \<in> set ps \<Longrightarrow>
     \<exists>w. set v \<subseteq> set w \<and> p \<notin> set w \<and> \<not> prereq_fails (fst (evaluate lib now ctx rs p w))"
proof (induction ps arbitrary: v)
  case Nil
  then show ?case by simp
next
  case (Cons q ps)
  obtain r w where e: "evaluate lib now ctx rs q v = (r, w)" by force
  have grows: "set v \<subseteq> set w"
    using visited_grows(1) [of v lib now ctx rs q] e by simp
  from Cons.prems(1) e have q: "q \<notin> set v" "\<not> prereq_fails r"
      "evaluate_prereqs lib now ctx rs ps w = (False, v')"
    by (auto split: if_splits)
  show ?case
  proof (cases "p = q")
    case True
    then show ?thesis using q(1,2) e by (intro exI [of _ v]) simp
  next
    case False
    then have "p \<in> set ps" using Cons.prems(2) by simp
    from Cons.IH [OF q(3) this] grows show ?thesis by (meson subset_trans)
  qed
qed

text \<open>The reasons of a flag that is served, rather than forced to its default.\<close>

definition served :: "eval_result \<Rightarrow> bool" where
  "served r \<longleftrightarrow> res_Reason r \<in> {ReasonTargeted, ReasonRollout, ReasonVariant, ReasonFallthrough}"

text \<open>
  C9: a flag is served only if each flag it requires is another flag that exists, has not expired and is
  enabled in the same environment: turning a prerequisite off turns off what depends on it.
\<close>

theorem Evaluate_served_prerequisites:
  assumes "served (Evaluate lib now k ctx rs)" and "map_of (rs_Flags rs) k = Some f"
    and "p \<in> set (flag_Prerequisites f)"
  shows "p \<noteq> k \<and> (\<exists>f' st'. map_of (rs_Flags rs) p = Some f' \<and> \<not> flag_expired now f' \<and>
           map_of (rs_States rs) p = Some st' \<and> state_Enabled st')"
proof (cases rule: Evaluate_cases [of lib now ctx rs k])
  case (1 r)
  then show ?thesis using evaluate_gate_Some [OF 1(1)] assms(1) by (auto simp: served_def)
next
  case (2 f' st)
  then show ?thesis using assms(1) by (simp add: served_def)
next
  case (3 f' st)
  have "\<not> fst (evaluate_prereqs lib now ctx rs (flag_Prerequisites f) [k])"
    using Evaluate_open [OF 3(1-3)] assms by (auto simp: served_def 3(1) split: if_splits)
  then obtain v' where "evaluate_prereqs lib now ctx rs (flag_Prerequisites f) [k] = (False, v')"
    by (metis prod.collapse)
  from evaluate_prereqs_passed [OF this assms(3)] obtain w where
    w: "set [k] \<subseteq> set w" "p \<notin> set w" "\<not> prereq_fails (fst (evaluate lib now ctx rs p w))"
    by blast
  then have "res_Reason (fst (evaluate lib now ctx rs p w)) \<notin> {ReasonNotFound, ReasonDisabled}"
    by (simp add: prereq_fails_def)
  then show ?thesis
    using w(1,2) by (auto simp: evaluate.simps [of lib now ctx rs p] evaluate_gate_def Let_def
        split: option.splits if_splits)
qed

definition chain_demo :: ruleset where
  "chain_demo = \<lparr>rs_Flags = [on_flag ''a'' [''b''], on_flag ''b'' []],
     rs_States = [on_state ''a'', on_state ''b''], rs_Segments = []\<rparr>"

lemmas demo_eval_simps =
  Evaluate_def evaluate.simps evaluate_gate_def evaluate_on_def on_flag_def on_state_def zero_flag_def
  zero_flag_state_def demo_lib_def flag_expired_def prereq_fails_def parseJSONValue_def Let_def

lemma chain_demo_served: "served (Evaluate demo_lib 0 ''a'' anyone chain_demo)"
  by (simp add: chain_demo_def demo_eval_simps served_def)

theorem Evaluate_served_prerequisites_witness:
  "\<exists>f' st'. map_of (rs_Flags chain_demo) ''b'' = Some f' \<and> \<not> flag_expired 0 f' \<and>
     map_of (rs_States chain_demo) ''b'' = Some st' \<and> state_Enabled st'"
  using Evaluate_served_prerequisites [OF chain_demo_served, of "snd (on_flag ''a'' [''b''])" "''b''"]
  by (simp add: chain_demo_def on_flag_def)

text \<open>
  A set of flags each of which requires a flag of the set, such as the flags of a cycle and those that
  lead into it, all of them off by default.
\<close>

definition prereq_trap :: "golib \<Rightarrow> ruleset \<Rightarrow> string set \<Rightarrow> bool" where
  "prereq_trap lib rs S \<longleftrightarrow>
     (\<forall>k\<in>S. \<exists>f. map_of (rs_Flags rs) k = Some f \<and> set (flag_Prerequisites f) \<inter> S \<noteq> {} \<and>
        parseJSONValue lib (flag_DefaultValue f) = JBool False)"

lemma prereq_trap_evaluate:
  "prereq_trap lib rs S \<Longrightarrow> k \<in> S \<Longrightarrow>
     prereq_fails (fst (evaluate lib now ctx rs k v)) \<and> \<not> served (fst (evaluate lib now ctx rs k v))"
  "prereq_trap lib rs S \<Longrightarrow> set ps \<inter> S \<noteq> {} \<Longrightarrow> fst (evaluate_prereqs lib now ctx rs ps v)"
proof (induction lib now ctx rs k v and lib now ctx rs ps v rule: evaluate_evaluate_prereqs.induct)
  case (1 lib now ctx rs k v)
  obtain f where f: "map_of (rs_Flags rs) k = Some f" "set (flag_Prerequisites f) \<inter> S \<noteq> {}"
      "parseJSONValue lib (flag_DefaultValue f) = JBool False"
    using 1(2,3) unfolding prereq_trap_def by blast
  show ?case
  proof (cases "evaluate_gate lib now ctx rs k")
    case (Some r)
    then show ?thesis
      using evaluate_gate_Some [OF Some] f by (auto simp: evaluate.simps prereq_fails_def served_def)
  next
    case None
    then obtain st where st: "map_of (rs_States rs) k = Some st"
      by (auto simp: evaluate_gate_None)
    have "flag_Prerequisites f \<noteq> []" using f(2) by auto
    then have "fst (evaluate_prereqs lib now ctx rs (flag_Prerequisites f) (k # v))"
      using 1(1) [OF None refl] f st 1(2) by simp
    then show ?thesis
      using f st None \<open>flag_Prerequisites f \<noteq> []\<close>
      by (auto simp: evaluate.simps [of lib now ctx rs k] prereq_fails_def served_def
          split: prod.splits bool.splits)
  qed
next
  case (3 lib now ctx rs p ps v)
  show ?case
  proof (cases "p \<in> set v \<or> p \<in> S")
    case True
    then show ?thesis using 3(1) 3(3) by (auto split: prod.splits)
  next
    case False
    then have "set ps \<inter> S \<noteq> {}" using 3(4) by auto
    then show ?thesis using False 3(2) 3(3) by (auto split: prod.splits)
  qed
qed simp_all

text \<open>
  C10: flags that require each other in a circle, directly or through other flags, and flags that depend on
  the circle, are never served to any user if the default value of each of them is the JSON \<open>false\<close>; the
  recursion still ends.  With other defaults they can be served (\<open>cycle_with_true_default_served\<close>).
\<close>

theorem prerequisite_cycle_never_served:
  assumes "prereq_trap lib rs S" and "k \<in> S"
  shows "\<not> served (Evaluate lib now k ctx rs) \<and> res_Value (Evaluate lib now k ctx rs) = JBool False"
proof
  show "\<not> served (Evaluate lib now k ctx rs)"
    using prereq_trap_evaluate(1) [OF assms] by (simp add: Evaluate_def)
  obtain f where f: "map_of (rs_Flags rs) k = Some f" "parseJSONValue lib (flag_DefaultValue f) = JBool False"
    using assms by (auto simp: prereq_trap_def)
  show "res_Value (Evaluate lib now k ctx rs) = JBool False"
  proof (cases rule: Evaluate_cases [of lib now ctx rs k])
    case (1 r)
    then show ?thesis using evaluate_gate_Some [OF 1(1)] f by auto
  next
    case (2 f' st)
    then show ?thesis using f by simp
  next
    case (3 f' st)
    then show ?thesis
      using \<open>\<not> served (Evaluate lib now k ctx rs)\<close> evaluate_on_shape [of lib ctx rs k f' st]
      by (simp add: served_def)
  qed
qed

definition cycle_demo :: ruleset where
  "cycle_demo = \<lparr>rs_Flags = [on_flag ''a'' [''b''], on_flag ''b'' [''a''], on_flag ''c'' [''a'']],
     rs_States = [on_state ''a'', on_state ''b'', on_state ''c''], rs_Segments = []\<rparr>"

theorem prerequisite_cycle_never_served_witness:
  "\<forall>now ctx. \<not> served (Evaluate demo_lib now ''c'' ctx cycle_demo)"
proof (intro allI)
  have "prereq_trap demo_lib cycle_demo {''a'', ''b'', ''c''}"
    by (simp add: prereq_trap_def cycle_demo_def on_flag_def parseJSONValue_def demo_lib_def)
  from prerequisite_cycle_never_served [OF this]
  show "\<not> served (Evaluate demo_lib now ''c'' ctx cycle_demo)" for now ctx by simp
qed

text \<open>
  The condition on the defaults is needed.  A prerequisite that itself answers \<open>PREREQUISITE_FAILED\<close>
  counts as on unless the value it falls back to is \<open>false\<close>: with \<open>true\<close> as default both flags of a circle
  are served.
\<close>

definition true_default :: "string \<times> flag \<Rightarrow> string \<times> flag" where
  "true_default e = (fst e, (snd e)\<lparr>flag_DefaultValue := Some ''true''\<rparr>)"

lemma cycle_with_true_default_served:
  fixes rs :: ruleset
  defines "rs \<equiv> \<lparr>rs_Flags = [true_default (on_flag ''a'' [''b'']), true_default (on_flag ''b'' [''a''])],
     rs_States = [on_state ''a'', on_state ''b''], rs_Segments = []\<rparr>"
  shows "served (Evaluate demo_lib 0 ''a'' anyone rs)" "served (Evaluate demo_lib 0 ''b'' anyone rs)"
  by (simp_all add: rs_def true_default_def demo_eval_simps served_def)

definition diamond_demo :: ruleset where
  "diamond_demo = \<lparr>rs_Flags =
       [on_flag ''top'' [''l'', ''r''], on_flag ''l'' [''base''], on_flag ''r'' [''base''],
        on_flag ''base'' [''root''], on_flag ''root'' []],
     rs_States = [on_state ''top'', on_state ''l'', on_state ''r'', on_state ''base'', on_state ''root''],
     rs_Segments = []\<rparr>"

text \<open>
  The map of visited flags is shared by the prerequisites of a flag and never cleared, so a flag
  reached twice without any cycle counts as one: \<open>top\<close> requires \<open>l\<close> and \<open>r\<close>, both of which are on for
  the user, and yet \<open>top\<close> answers \<open>PREREQUISITE_FAILED\<close>, because \<open>l\<close> and \<open>r\<close> share the prerequisite
  \<open>base\<close>.
\<close>

theorem diamond_prerequisite_fails:
  "res_Reason (Evaluate demo_lib 0 ''top'' anyone diamond_demo) = ReasonPrerequisiteFailed \<and>
   Evaluate demo_lib 0 ''l'' anyone diamond_demo = mk_result ''l'' (JBool True) ReasonFallthrough \<and>
   Evaluate demo_lib 0 ''r'' anyone diamond_demo = mk_result ''r'' (JBool True) ReasonFallthrough"
  by (simp add: diamond_demo_def demo_eval_simps)

end
