(* ===== verification/Validation.thy ===== *)
theory Validation
  imports EvalProps
begin

text \<open>
  \<open>server/internal/domain/validate.go\<close>: field validation of flags, segments and flag states.  A
  validator returns the first error as \<open>Some\<close> and \<open>None\<close> for Go's \<open>nil\<close>.  The lemmas give each validator
  a declarative meaning and connect the validated data to the evaluation engine.
\<close>

subsection \<open>Enumerations and keys\<close>

definition lower_or_digit :: "char \<Rightarrow> bool" where
  "lower_or_digit c \<longleftrightarrow> CHR ''a'' \<le> c \<and> c \<le> CHR ''z'' \<or> CHR ''0'' \<le> c \<and> c \<le> CHR ''9''"

text \<open>The pattern \<open>^[a-z0-9][a-z0-9_-]{0,127}$\<close>.\<close>

definition FlagKeyRe :: "string \<Rightarrow> bool" where
  "FlagKeyRe s =
     (case s of
        [] \<Rightarrow> False
      | c # cs \<Rightarrow> lower_or_digit c \<and> length cs \<le> 127 \<and>
          list_all (\<lambda>d. lower_or_digit d \<or> d = CHR ''_'' \<or> d = CHR ''-'') cs)"

definition ValidFlagTypes :: "string list" where
  "ValidFlagTypes = [FlagTypeBoolean, FlagTypeString, FlagTypeNumber, FlagTypeJSON, FlagTypeAB]"

definition FlagType_IsValid :: "string \<Rightarrow> bool" where
  "FlagType_IsValid ft \<longleftrightarrow> ft \<in> set ValidFlagTypes"

definition validFlagCategories :: "string list" where
  "validFlagCategories = [CategoryRelease, CategoryExperiment, CategoryOps, CategoryPermission]"

definition FlagCategory_IsValid :: "string \<Rightarrow> bool" where
  "FlagCategory_IsValid fc \<longleftrightarrow> fc \<in> set validFlagCategories"

definition validFlagStatuses :: "string list" where
  "validFlagStatuses = [StatusActive, StatusRolledOut, StatusDeprecated, StatusArchived]"

definition FlagStatus_IsValid :: "string \<Rightarrow> bool" where
  "FlagStatus_IsValid fs \<longleftrightarrow> fs \<in> set validFlagStatuses"

definition validOperators :: "string list" where
  "validOperators = [OpEquals, OpNotEquals, OpContains, OpStartsWith, OpEndsWith, OpIn, OpNotIn,
     OpGT, OpGTE, OpLT, OpLTE, OpRegex, OpExists]"

definition Operator_IsValid :: "string \<Rightarrow> bool" where
  "Operator_IsValid op \<longleftrightarrow> op \<in> set validOperators"

definition validMatchTypes :: "string list" where
  "validMatchTypes = [MatchAll, MatchAny]"

definition MatchType_IsValid :: "string \<Rightarrow> bool" where
  "MatchType_IsValid mt \<longleftrightarrow> mt \<in> set validMatchTypes"

subsection \<open>Flags\<close>

abbreviation verr :: "string \<Rightarrow> string \<Rightarrow> validation_error option" where
  "verr field message \<equiv> Some (NewValidationError field message)"

definition validateDefaultValueType :: "golib \<Rightarrow> string \<Rightarrow> string \<Rightarrow> validation_error option" where
  "validateDefaultValueType lib ft raw =
     (case go_unmarshal lib raw of
        None \<Rightarrow> verr ''default_value'' ''must be valid JSON''
      | Some v \<Rightarrow>
        (if ft = FlagTypeBoolean then
           (case v of JBool b \<Rightarrow> None
            | _ \<Rightarrow> verr ''default_value'' ''must be a boolean for boolean flags'')
         else if ft = FlagTypeString then
           (case v of JStr s \<Rightarrow> None
            | _ \<Rightarrow> verr ''default_value'' ''must be a string for string flags'')
         else if ft = FlagTypeNumber then
           (case v of JNum n \<Rightarrow> None
            | _ \<Rightarrow> verr ''default_value'' ''must be a number for number flags'')
         else if ft = FlagTypeJSON then
           (case v of JObj fs \<Rightarrow> None | JArr vs \<Rightarrow> None
            | _ \<Rightarrow> verr ''default_value'' ''must be an object or array for json flags'')
         else None))"

definition Flag_Validate :: "golib \<Rightarrow> flag \<Rightarrow> validation_error option" where
  "Flag_Validate lib f =
     (if flag_Key f = [] then verr ''key'' ''is required''
      else if \<not> FlagKeyRe (flag_Key f)
      then verr ''key'' ''must match pattern: lowercase alphanumeric, hyphens, underscores (max 128 chars)''
      else if flag_Name f = [] then verr ''name'' ''is required''
      else if 255 < length (flag_Name f) then verr ''name'' ''must be at most 255 characters''
      else if 2000 < length (flag_Description f)
      then verr ''description'' ''must be at most 2000 characters''
      else if flag_FlagType f \<noteq> [] \<and> \<not> FlagType_IsValid (flag_FlagType f)
      then verr ''flag_type'' ''must be boolean, string, number, json, or ab''
      else if flag_Category f \<noteq> [] \<and> \<not> FlagCategory_IsValid (flag_Category f)
      then verr ''category'' ''must be release, experiment, ops, or permission''
      else if flag_Status f \<noteq> [] \<and> \<not> FlagStatus_IsValid (flag_Status f)
      then verr ''status'' ''must be active, rolled_out, deprecated, or archived''
      else
        (case flag_DefaultValue f of
           None \<Rightarrow> None
         | Some raw \<Rightarrow>
           (if \<not> go_json_valid lib raw then verr ''default_value'' ''must be valid JSON''
            else if flag_FlagType f \<noteq> [] then validateDefaultValueType lib (flag_FlagType f) raw
            else None)))"

subsection \<open>Conditions and segments\<close>

definition Condition_Validate :: "condition \<Rightarrow> validation_error option" where
  "Condition_Validate c =
     (if cond_Attribute c = [] then verr ''attribute'' ''is required''
      else if \<not> Operator_IsValid (cond_Operator c)
      then verr ''operator'' (''unrecognized operator: '' @ cond_Operator c)
      else None)"

text \<open>\<open>string(rune(n))\<close>: the UTF-8 encoding of a code point, with U+FFFD for what is none.\<close>

definition rune_string :: "nat \<Rightarrow> string" where
  "rune_string n =
     (let n = (if 0x110000 \<le> n \<or> 0xD800 \<le> n \<and> n < 0xE000 then 0xFFFD else n)
      in if n < 0x80 then [char_of n]
         else if n < 0x800 then [char_of (0xC0 + n div 64), char_of (0x80 + n mod 64)]
         else if n < 0x10000
         then [char_of (0xE0 + n div 4096), char_of (0x80 + n div 64 mod 64), char_of (0x80 + n mod 64)]
         else [char_of (0xF0 + n div 262144), char_of (0x80 + n div 4096 mod 64),
               char_of (0x80 + n div 64 mod 64), char_of (0x80 + n mod 64)])"

definition itoa :: "nat \<Rightarrow> string" where
  "itoa i =
     (if i < 10 then rune_string (48 + i)
      else rune_string (48 + i div 10) @ rune_string (48 + i mod 10))"

fun seg_rules_loop :: "nat \<Rightarrow> condition list \<Rightarrow> validation_error option" where
  "seg_rules_loop i [] = None"
| "seg_rules_loop i (c # cs) =
     (case Condition_Validate c of
        Some ve \<Rightarrow> verr (''rules['' @ itoa i @ ''].'' @ ve_Field ve) (ve_Message ve)
      | None \<Rightarrow> seg_rules_loop (Suc i) cs)"

definition Segment_Validate :: "segment \<Rightarrow> validation_error option" where
  "Segment_Validate s =
     (if seg_Key s = [] then verr ''key'' ''is required''
      else if \<not> FlagKeyRe (seg_Key s)
      then verr ''key'' ''must match pattern: lowercase alphanumeric, hyphens, underscores (max 128 chars)''
      else if seg_Name s = [] then verr ''name'' ''is required''
      else if 255 < length (seg_Name s) then verr ''name'' ''must be at most 255 characters''
      else if seg_MatchType s \<noteq> [] \<and> \<not> MatchType_IsValid (seg_MatchType s)
      then verr ''match_type'' (''must be '' @ [CHR 0x27] @ ''all'' @ [CHR 0x27] @ '' or '' @
             [CHR 0x27] @ ''any'' @ [CHR 0x27])
      else seg_rules_loop 0 (seg_Rules s))"

subsection \<open>Variants and flag states\<close>

definition Variant_Validate :: "variant \<Rightarrow> validation_error option" where
  "Variant_Validate v =
     (if variant_Key v = [] then verr ''variant.key'' ''is required''
      else if variant_Weight v < 0 then verr ''variant.weight'' ''must be non-negative''
      else None)"

fun weights_loop :: "variant list \<Rightarrow> int \<Rightarrow> validation_error + int" where
  "weights_loop [] totalWeight = Inr totalWeight"
| "weights_loop (v # vs) totalWeight =
     (case Variant_Validate v of
        Some ve \<Rightarrow> Inl ve
      | None \<Rightarrow> weights_loop vs (wrap64 (totalWeight + variant_Weight v)))"

definition FlagState_Validate :: "flag_state \<Rightarrow> validation_error option" where
  "FlagState_Validate fs =
     (if state_FlagID fs = [] then verr ''flag_id'' ''is required''
      else if state_EnvID fs = [] then verr ''env_id'' ''is required''
      else if state_PercentageRollout fs < 0 \<or> 10000 < state_PercentageRollout fs
      then verr ''percentage_rollout'' ''must be between 0 and 10000''
      else
        (case weights_loop (state_Variants fs) 0 of
           Inl ve \<Rightarrow> Some ve
         | Inr totalWeight \<Rightarrow>
             if state_Variants fs \<noteq> [] \<and> totalWeight \<noteq> 10000
             then verr ''variants'' ''weights must sum to 10000'' else None))"

subsection \<open>What validated means\<close>

definition json_kind_ok :: "string \<Rightarrow> json \<Rightarrow> bool" where
  "json_kind_ok ft v \<longleftrightarrow>
     (ft = FlagTypeBoolean \<longrightarrow> (\<exists>b. v = JBool b)) \<and>
     (ft = FlagTypeString \<longrightarrow> (\<exists>s. v = JStr s)) \<and>
     (ft = FlagTypeNumber \<longrightarrow> (\<exists>n. v = JNum n)) \<and>
     (ft = FlagTypeJSON \<longrightarrow> (\<exists>fs. v = JObj fs) \<or> (\<exists>vs. v = JArr vs))"

lemma validateDefaultValueType_None:
  "validateDefaultValueType lib ft raw = None \<longleftrightarrow>
     (\<exists>v. go_unmarshal lib raw = Some v \<and> json_kind_ok ft v)"
  by (auto simp: validateDefaultValueType_def json_kind_ok_def split: option.splits json.splits if_splits)

definition flag_fields_ok :: "flag \<Rightarrow> bool" where
  "flag_fields_ok f \<longleftrightarrow>
     FlagKeyRe (flag_Key f) \<and> flag_Name f \<noteq> [] \<and> length (flag_Name f) \<le> 255 \<and>
     length (flag_Description f) \<le> 2000 \<and>
     flag_FlagType f \<in> insert [] (set ValidFlagTypes) \<and>
     flag_Category f \<in> insert [] (set validFlagCategories) \<and>
     flag_Status f \<in> insert [] (set validFlagStatuses)"

text \<open>
  C39: \<open>Flag.Validate\<close> accepts a flag exactly when its key, name, description and enumerations are well
  formed and its default value, if there is one, is JSON of the kind the flag type asks for; so the
  default of an accepted boolean flag is what evaluation parses to a boolean.
\<close>

theorem Flag_Validate_iff:
  "Flag_Validate lib f = None \<longleftrightarrow>
     flag_fields_ok f \<and>
     (flag_DefaultValue f = None \<or>
      (\<exists>raw. flag_DefaultValue f = Some raw \<and> go_json_valid lib raw \<and>
         (flag_FlagType f = [] \<or>
          (\<exists>v. go_unmarshal lib raw = Some v \<and> json_kind_ok (flag_FlagType f) v))))"
proof -
  have key: "FlagKeyRe s \<Longrightarrow> s \<noteq> []" for s
    by (auto simp: FlagKeyRe_def)
  show ?thesis
    by (auto simp: Flag_Validate_def flag_fields_ok_def validateDefaultValueType_None
        FlagType_IsValid_def FlagCategory_IsValid_def FlagStatus_IsValid_def not_less
        dest: key split: option.splits if_splits)
qed

lemma weights_loop_Inr:
  "weights_loop vs t = Inr tot \<Longrightarrow>
     (\<forall>v\<in>set vs. variant_Key v \<noteq> [] \<and> 0 \<le> variant_Weight v) \<and>
     (0 \<le> t \<longrightarrow> t + sum_list (map variant_Weight vs) < 2 ^ 63 \<longrightarrow>
        tot = t + sum_list (map variant_Weight vs))"
proof (induction vs arbitrary: t)
  case Nil
  then show ?case by simp
next
  case (Cons v vs)
  have v: "variant_Key v \<noteq> []" "0 \<le> variant_Weight v"
      "weights_loop vs (wrap64 (t + variant_Weight v)) = Inr tot"
    using Cons.prems by (auto simp: Variant_Validate_def split: if_splits)
  note IH = Cons.IH [OF v(3)]
  have "0 \<le> sum_list (map variant_Weight vs)"
    using IH by (auto intro!: sum_list_nonneg)
  then have "wrap64 (t + variant_Weight v) = t + variant_Weight v"
    if "0 \<le> t" "t + sum_list (map variant_Weight (v # vs)) < 2 ^ 63"
    using that v(2) by (intro wrap64_id) (auto simp: int64_range_def)
  with IH v show ?case by auto
qed

lemma FlagState_Validate_weights:
  assumes "FlagState_Validate st = None" "state_Variants st \<noteq> []"
    and "sum_list (map variant_Weight (state_Variants st)) < 2 ^ 63"
  shows "weights_ok (state_Variants st)"
    and "sum_list (map variant_Weight (state_Variants st)) = 10000"
proof -
  have loop: "weights_loop (state_Variants st) 0 = Inr 10000"
    using assms(1,2) by (auto simp: FlagState_Validate_def split: if_splits sum.splits)
  show "sum_list (map variant_Weight (state_Variants st)) = 10000"
    using weights_loop_Inr [OF loop] assms(3) by simp
  then show "weights_ok (state_Variants st)"
    using weights_loop_Inr [OF loop] by (simp add: weights_ok_def)
qed

lemma weight_interval_exists:
  fixes vs :: "variant list"
  assumes "0 \<le> b" "b < sum_list (map variant_Weight vs)"
  shows "\<exists>i<length vs. variant_start vs i \<le> b \<and> b < variant_start vs (Suc i)"
proof -
  let ?P = "\<lambda>i. b < variant_start vs i"
  have "?P (length vs)" using assms(2) by (simp add: variant_start_def)
  then obtain n where n: "?P n" "\<forall>m<n. \<not> ?P m" "n \<le> length vs"
    using exists_least_iff [of ?P] by (metis not_le)
  moreover have "n \<noteq> 0" using n(1) assms(1) by (auto simp: variant_start_def intro!: Nat.gr0I)
  then obtain i where "n = Suc i" by (cases n) auto
  ultimately show ?thesis by (intro exI [of _ i]) auto
qed

text \<open>
  C18: validation is what the A/B assignment needs.  In a flag state that \<open>FlagState.Validate\<close> accepts the
  weights are a partition of the 10000 buckets, so every user is assigned the variant in whose interval
  the user's bucket lies and the fallback to the last variant is never taken.  The bound on the sum
  excludes the weights whose 64 bit sum wraps around.
\<close>

theorem validated_variants_partition:
  assumes "FlagState_Validate st = None" and "state_Variants st \<noteq> []"
    and "sum_list (map variant_Weight (state_Variants st)) < 2 ^ 63"
  shows "\<exists>i<length (state_Variants st).
           BucketUser k (ctx_Key ctx) \<in>
             {variant_start (state_Variants st) i ..< variant_start (state_Variants st) (Suc i)} \<and>
           evaluateVariant lib k ctx (state_Variants st) = variant_result lib k (state_Variants st ! i)"
proof -
  note w = FlagState_Validate_weights [OF assms]
  obtain i where i: "i < length (state_Variants st)"
      "BucketUser k (ctx_Key ctx) \<in>
         {variant_start (state_Variants st) i ..< variant_start (state_Variants st) (Suc i)}"
    using weight_interval_exists [of "BucketUser k (ctx_Key ctx)" "state_Variants st"] w(2)
    by auto
  have "variant_loop (state_Variants st) (BucketUser k (ctx_Key ctx)) 0 = Some (state_Variants st ! i)"
    using w(1) i by (intro variant_loop_interval) (auto simp: weights_ok_def variant_start_def)
  with i show ?thesis by (auto simp: evaluateVariant_def)
qed

definition ab_state :: flag_state where
  "ab_state = zero_flag_state\<lparr>state_FlagID := ''f'', state_EnvID := ''e'',
     state_Variants := [\<lparr>variant_Key = ''a'', variant_Value = None, variant_Weight = 4000\<rparr>,
                        \<lparr>variant_Key = ''b'', variant_Value = None, variant_Weight = 6000\<rparr>]\<rparr>"

theorem validated_variants_partition_witness:
  "\<exists>i<2. evaluateVariant demo_lib ''k'' anyone (state_Variants ab_state) =
           variant_result demo_lib ''k'' (state_Variants ab_state ! i)"
proof -
  have "FlagState_Validate ab_state = None" "state_Variants ab_state \<noteq> []"
    "sum_list (map variant_Weight (state_Variants ab_state)) < 2 ^ 63" "length (state_Variants ab_state) = 2"
    by (simp_all add: ab_state_def FlagState_Validate_def zero_flag_state_def Variant_Validate_def
        wrap64_def)
  with validated_variants_partition [of ab_state "''k''" anyone demo_lib] show ?thesis
    by auto
qed

text \<open>
  A segment without a match type passes validation, but the engine, which defaults the match type of
  a rule and not that of a segment, never matches it once it has a condition.
\<close>

theorem segment_without_match_type:
  "Segment_Validate (s\<lparr>seg_MatchType := []\<rparr>) = Segment_Validate (s\<lparr>seg_MatchType := MatchAll\<rparr>) \<and>
   (MatchConditions lib reg (seg_Rules s) ctx [] \<longleftrightarrow> seg_Rules s = [])"
  by (auto simp: Segment_Validate_def MatchType_IsValid_def validMatchTypes_def MatchConditions_iff)

end
