(* ===== verification/HttpModel.thy ===== *)
theory HttpModel
  imports FlagModel
begin

text \<open>
  Requests as the middlewares and handlers see them: the parts of \<open>http.Request\<close> they read and the
  values the authentication middleware puts into the request context.  A middleware either hands a
  (possibly extended) request on or answers it; \<open>and_then\<close> is the nesting of handlers, and the locale
  \<open>passive_gate\<close> the contract of a middleware that never touches the request.
\<close>

abbreviation "MethodGet \<equiv> ''GET''"
abbreviation "MethodHead \<equiv> ''HEAD''"
abbreviation "MethodPost \<equiv> ''POST''"
abbreviation "MethodPut \<equiv> ''PUT''"
abbreviation "MethodPatch \<equiv> ''PATCH''"
abbreviation "MethodDelete \<equiv> ''DELETE''"
abbreviation "MethodOptions \<equiv> ''OPTIONS''"

abbreviation "StatusOK \<equiv> 200 :: nat"
abbreviation "StatusCreated \<equiv> 201 :: nat"
abbreviation "StatusNoContent \<equiv> 204 :: nat"
abbreviation "StatusBadRequest \<equiv> 400 :: nat"
abbreviation "StatusUnauthorized \<equiv> 401 :: nat"
abbreviation "StatusPaymentRequired \<equiv> 402 :: nat"
abbreviation "StatusForbidden \<equiv> 403 :: nat"
abbreviation "StatusNotFound \<equiv> 404 :: nat"
abbreviation "StatusConflict \<equiv> 409 :: nat"
abbreviation "StatusUnsupportedMediaType \<equiv> 415 :: nat"
abbreviation "StatusUnprocessableEntity \<equiv> 422 :: nat"
abbreviation "StatusTooManyRequests \<equiv> 429 :: nat"
abbreviation "StatusInternalServerError \<equiv> 500 :: nat"
abbreviation "StatusServiceUnavailable \<equiv> 503 :: nat"

record auth_claims =
  cl_UserID :: string
  cl_OrgID :: string
  cl_Role :: string
  cl_Email :: string
  cl_DataRegion :: string
  cl_ID :: string

record license_claims =
  lc_LicenseID :: string
  lc_CustomerName :: string
  lc_CustomerID :: string
  lc_Plan :: string
  lc_MaxSeats :: int
  lc_MaxProjects :: int
  lc_Features :: "string list"
  lc_IssuedAt :: gotime
  lc_ExpiresAt :: gotime

text \<open>\<open>req_Header h\<close> is \<open>Header.Get(h)\<close>, empty for a missing header.\<close>

record http_request =
  req_Method :: string
  req_Path :: string
  req_RemoteAddr :: string
  req_Header :: "string \<Rightarrow> string"
  req_URLParams :: "(string \<times> string) list"
  req_Claims :: "auth_claims option"
  req_License :: "license_claims option"

text \<open>The context getters of \<open>auth.go\<close>: \<open>JWTAuth\<close> sets all of them from the claims or none.\<close>

definition GetUserID :: "http_request \<Rightarrow> string" where
  "GetUserID r = (case req_Claims r of None \<Rightarrow> [] | Some c \<Rightarrow> cl_UserID c)"

definition GetOrgID :: "http_request \<Rightarrow> string" where
  "GetOrgID r = (case req_Claims r of None \<Rightarrow> [] | Some c \<Rightarrow> cl_OrgID c)"

definition GetRole :: "http_request \<Rightarrow> string" where
  "GetRole r = (case req_Claims r of None \<Rightarrow> [] | Some c \<Rightarrow> cl_Role c)"

definition GetClaims :: "http_request \<Rightarrow> auth_claims option" where
  "GetClaims r = req_Claims r"

definition GetDataRegion :: "http_request \<Rightarrow> string" where
  "GetDataRegion r = (case req_Claims r of None \<Rightarrow> [] | Some c \<Rightarrow> cl_DataRegion c)"

lemmas ctx_getters = GetUserID_def GetOrgID_def GetRole_def GetClaims_def GetDataRegion_def

text \<open>\<open>chi.URLParam\<close> searches the route parameters from the last to the first.\<close>

definition URLParam :: "http_request \<Rightarrow> string \<Rightarrow> string" where
  "URLParam r key = (case map_of (rev (req_URLParams r)) key of None \<Rightarrow> [] | Some v \<Rightarrow> v)"

datatype gate = Next http_request | Reject nat string

type_synonym http_middleware = "http_request \<Rightarrow> gate"

definition passes_gate :: "gate \<Rightarrow> bool" where
  "passes_gate g \<longleftrightarrow> (\<exists>r. g = Next r)"

lemma passes_gate_simps [simp]: "passes_gate (Next r)" "\<not> passes_gate (Reject c m)"
  by (auto simp: passes_gate_def)

definition and_then :: "http_middleware \<Rightarrow> http_middleware \<Rightarrow> http_middleware" where
  "and_then g h r = (case g r of Next r' \<Rightarrow> h r' | Reject c m \<Rightarrow> Reject c m)"

locale passive_gate =
  fixes g :: http_middleware
  assumes unchanged: "g r = Next r' \<Longrightarrow> r' = r"
begin

text \<open>Passive gates can be reordered as far as the requests that pass are concerned.\<close>

lemma passes_iff: "passes_gate (g r) \<longleftrightarrow> g r = Next r"
  using unchanged by (auto simp: passes_gate_def)

lemma and_then_passes:
  "passes_gate (and_then g h r) \<longleftrightarrow> passes_gate (g r) \<and> passes_gate (h r)"
  using unchanged by (cases "g r") (auto simp: and_then_def)

lemma and_then_commute:
  assumes "passive_gate h"
  shows "and_then g h r = Next r' \<longleftrightarrow> and_then h g r = Next r'"
proof -
  have hh: "h r = Next r'' \<Longrightarrow> r'' = r" for r''
    using assms by (simp add: passive_gate_def)
  show ?thesis
    using unchanged [of r] hh by (cases "g r"; cases "h r") (auto simp: and_then_def)
qed

end

end
