(* ===== verification/OpsAccess.thy ===== *)
theory OpsAccess
  imports GoPrelude
begin

text \<open>
  \<open>server/internal/domain/ops_permissions.go\<close>: the role based access control of the operations portal.
  \<open>rolePermissions\<close> is the table of the source, row by row; a role is any string, an unknown one has no
  permissions.  \<open>time.Parse(time.RFC3339, _)\<close> is the parameter \<open>parse\<close> and \<open>time.Now()\<close> the parameter
  \<open>now\<close>.
\<close>

subsection \<open>Names\<close>

abbreviation "ResourceEnvironment \<equiv> ''environment''"
abbreviation "ResourceCustomer \<equiv> ''customer''"
abbreviation "ResourceLicense \<equiv> ''license''"
abbreviation "ResourceCost \<equiv> ''cost''"
abbreviation "ResourceAuditLog \<equiv> ''audit_log''"
abbreviation "ResourceOpsUser \<equiv> ''ops_user''"
abbreviation "ResourceSandbox \<equiv> ''sandbox''"
abbreviation "ResourceDebugMode \<equiv> ''debug_mode''"
abbreviation "ResourceSSHAccess \<equiv> ''ssh_access''"
abbreviation "ResourceBilling \<equiv> ''billing''"

abbreviation "ActionCreate \<equiv> ''create''"
abbreviation "ActionRead \<equiv> ''read''"
abbreviation "ActionUpdate \<equiv> ''update''"
abbreviation "ActionDelete \<equiv> ''delete''"
abbreviation "ActionExecute \<equiv> ''execute''"
abbreviation "ActionExport \<equiv> ''export''"

abbreviation "ConditionOwnSandboxOnly \<equiv> ''own_sandbox_only''"
abbreviation "ConditionTemporaryDebug \<equiv> ''temporary_debug''"
abbreviation "ConditionPerfEnvAutoDelete \<equiv> ''perf_env_auto_delete''"
abbreviation "ConditionSandboxAutoExpire \<equiv> ''sandbox_auto_expire''"
abbreviation "ConditionCostViewInternalOnly \<equiv> ''cost_view_internal_only''"

abbreviation "OpsRoleFounder \<equiv> ''founder''"
abbreviation "OpsRoleEngineer \<equiv> ''engineer''"
abbreviation "OpsRoleCustomerSuccess \<equiv> ''customer_success''"
abbreviation "OpsRoleDemoTeam \<equiv> ''demo_team''"
abbreviation "OpsRoleFinance \<equiv> ''finance''"
abbreviation "OpsRoleQA \<equiv> ''qa''"
abbreviation "OpsRolePerfTester \<equiv> ''perf_tester''"
abbreviation "OpsRoleSales \<equiv> ''sales''"
abbreviation "OpsRoleSupport \<equiv> ''support''"

record permission =
  perm_Resource :: string
  perm_Action :: string
  perm_Condition :: string

definition perm :: "string \<Rightarrow> string \<Rightarrow> string \<Rightarrow> permission" where
  "perm r a c = \<lparr>perm_Resource = r, perm_Action = a, perm_Condition = c\<rparr>"

subsection \<open>The table\<close>

definition permissionsFounder :: "permission list" where
  "permissionsFounder =
     [perm ResourceEnvironment ActionCreate [],
      perm ResourceEnvironment ActionRead [],
      perm ResourceEnvironment ActionUpdate [],
      perm ResourceEnvironment ActionDelete [],
      perm ResourceEnvironment ActionExecute [],
      perm ResourceCustomer ActionRead [],
      perm ResourceCustomer ActionUpdate [],
      perm ResourceCustomer ActionCreate [],
      perm ResourceLicense ActionCreate [],
      perm ResourceLicense ActionRead [],
      perm ResourceLicense ActionUpdate [],
      perm ResourceLicense ActionDelete [],
      perm ResourceCost ActionRead [],
      perm ResourceCost ActionExport [],
      perm ResourceAuditLog ActionRead [],
      perm ResourceAuditLog ActionExport [],
      perm ResourceOpsUser ActionCreate [],
      perm ResourceOpsUser ActionRead [],
      perm ResourceOpsUser ActionUpdate [],
      perm ResourceOpsUser ActionDelete [],
      perm ResourceSandbox ActionCreate [],
      perm ResourceSandbox ActionRead [],
      perm ResourceSandbox ActionDelete [],
      perm ResourceDebugMode ActionExecute [],
      perm ResourceSSHAccess ActionExecute [],
      perm ResourceBilling ActionRead [],
      perm ResourceBilling ActionUpdate []]"

definition permissionsEngineer :: "permission list" where
  "permissionsEngineer =
     [perm ResourceEnvironment ActionCreate [],
      perm ResourceEnvironment ActionRead [],
      perm ResourceEnvironment ActionUpdate [],
      perm ResourceEnvironment ActionDelete [],
      perm ResourceEnvironment ActionExecute [],
      perm ResourceCustomer ActionRead [],
      perm ResourceCustomer ActionCreate [],
      perm ResourceLicense ActionRead [],
      perm ResourceLicense ActionUpdate [],
      perm ResourceCost ActionRead [],
      perm ResourceAuditLog ActionRead [],
      perm ResourceSandbox ActionCreate [],
      perm ResourceSandbox ActionRead [],
      perm ResourceSandbox ActionDelete [],
      perm ResourceDebugMode ActionExecute [],
      perm ResourceSSHAccess ActionExecute []]"

definition permissionsCustomerSuccess :: "permission list" where
  "permissionsCustomerSuccess =
     [perm ResourceEnvironment ActionRead [],
      perm ResourceCustomer ActionRead [],
      perm ResourceAuditLog ActionRead [],
      perm ResourceDebugMode ActionExecute ConditionTemporaryDebug]"

definition permissionsDemoTeam :: "permission list" where
  "permissionsDemoTeam =
     [perm ResourceSandbox ActionCreate [],
      perm ResourceSandbox ActionRead [],
      perm ResourceSandbox ActionDelete ConditionOwnSandboxOnly,
      perm ResourceEnvironment ActionRead []]"

definition permissionsFinance :: "permission list" where
  "permissionsFinance =
     [perm ResourceCost ActionRead [],
      perm ResourceCost ActionExport [],
      perm ResourceCustomer ActionRead [],
      perm ResourceBilling ActionRead []]"

definition permissionsQA :: "permission list" where
  "permissionsQA =
     [perm ResourceEnvironment ActionRead [],
      perm ResourceSandbox ActionCreate [],
      perm ResourceSandbox ActionRead [],
      perm ResourceSandbox ActionDelete ConditionOwnSandboxOnly,
      perm ResourceAuditLog ActionRead []]"

definition permissionsPerfTester :: "permission list" where
  "permissionsPerfTester =
     [perm ResourceEnvironment ActionCreate [],
      perm ResourceEnvironment ActionRead [],
      perm ResourceEnvironment ActionDelete ConditionOwnSandboxOnly,
      perm ResourceAuditLog ActionRead []]"

definition permissionsSales :: "permission list" where
  "permissionsSales =
     [perm ResourceEnvironment ActionRead [],
      perm ResourceCustomer ActionRead []]"

definition permissionsSupport :: "permission list" where
  "permissionsSupport =
     [perm ResourceEnvironment ActionRead [],
      perm ResourceAuditLog ActionRead [],
      perm ResourceDebugMode ActionExecute ConditionTemporaryDebug]"

definition rolePermissions :: "(string \<times> permission list) list" where
  "rolePermissions =
     [(OpsRoleFounder, permissionsFounder),
      (OpsRoleEngineer, permissionsEngineer),
      (OpsRoleCustomerSuccess, permissionsCustomerSuccess),
      (OpsRoleDemoTeam, permissionsDemoTeam),
      (OpsRoleFinance, permissionsFinance),
      (OpsRoleQA, permissionsQA),
      (OpsRolePerfTester, permissionsPerfTester),
      (OpsRoleSales, permissionsSales),
      (OpsRoleSupport, permissionsSupport)]"

lemmas role_tables =
  permissionsFounder_def
  permissionsEngineer_def
  permissionsCustomerSuccess_def
  permissionsDemoTeam_def
  permissionsFinance_def
  permissionsQA_def
  permissionsPerfTester_def
  permissionsSales_def
  permissionsSupport_def

subsection \<open>The check\<close>

record permission_context =
  pc_IsOwner :: bool
  pc_DebugEnabledUntil :: string
  pc_SandboxCount :: int
  pc_MaxSandboxes :: int
  pc_UserID :: string
  pc_ResourceID :: string

type_synonym time_parser = "string \<Rightarrow> gotime option"

definition evaluateCondition ::
    "time_parser \<Rightarrow> gotime \<Rightarrow> string \<Rightarrow> permission_context option \<Rightarrow> bool" where
  "evaluateCondition parse now condition context =
     (case context of
        None \<Rightarrow> False
      | Some pc \<Rightarrow>
        (if condition = ConditionOwnSandboxOnly then pc_IsOwner pc
         else if condition = ConditionTemporaryDebug then
           (if pc_DebugEnabledUntil pc = [] then False
            else
              (case parse (pc_DebugEnabledUntil pc) of
                 None \<Rightarrow> False
               | Some enabledUntil \<Rightarrow> enabledUntil \<noteq> 0 \<and> now < enabledUntil))
         else condition = ConditionSandboxAutoExpire))"

fun permission_loop ::
    "time_parser \<Rightarrow> gotime \<Rightarrow> permission list \<Rightarrow> string \<Rightarrow> string \<Rightarrow> permission_context option \<Rightarrow> bool" where
  "permission_loop parse now [] resource action context = False"
| "permission_loop parse now (p # ps) resource action context =
     (if perm_Resource p = resource \<and> perm_Action p = action then
        (if perm_Condition p \<noteq> [] then evaluateCondition parse now (perm_Condition p) context else True)
      else permission_loop parse now ps resource action context)"

definition HasPermission ::
    "time_parser \<Rightarrow> gotime \<Rightarrow> string \<Rightarrow> string \<Rightarrow> string \<Rightarrow> permission_context option \<Rightarrow> bool" where
  "HasPermission parse now role resource action context =
     (case map_of rolePermissions role of
        None \<Rightarrow> False
      | Some permissions \<Rightarrow> permission_loop parse now permissions resource action context)"


definition CanCreate where
  "CanCreate parse now role resource context =
     HasPermission parse now role resource ActionCreate context"

definition CanRead where
  "CanRead parse now role resource context =
     HasPermission parse now role resource ActionRead context"

definition CanUpdate where
  "CanUpdate parse now role resource context =
     HasPermission parse now role resource ActionUpdate context"

definition CanDelete where
  "CanDelete parse now role resource context =
     HasPermission parse now role resource ActionDelete context"

definition CanExecute where
  "CanExecute parse now role resource context =
     HasPermission parse now role resource ActionExecute context"

definition CanExport where
  "CanExport parse now role resource context =
     HasPermission parse now role resource ActionExport context"

definition GetPermissionsForRole :: "string \<Rightarrow> permission list" where
  "GetPermissionsForRole role =
     (case map_of rolePermissions role of None \<Rightarrow> [] | Some ps \<Rightarrow> ps)"

definition IsValidRole :: "string \<Rightarrow> bool" where
  "IsValidRole role \<longleftrightarrow> map_of rolePermissions role \<noteq> None"

subsection \<open>Laws\<close>

definition perm_pair :: "permission \<Rightarrow> string \<times> string" where
  "perm_pair p = (perm_Resource p, perm_Action p)"

lemma permission_loop_iff:
  "distinct (map perm_pair ps) \<Longrightarrow>
   permission_loop parse now ps resource action context \<longleftrightarrow>
     (\<exists>p\<in>set ps. perm_pair p = (resource, action) \<and>
        (perm_Condition p = [] \<or> evaluateCondition parse now (perm_Condition p) context))"
  by (induction ps) (force simp: perm_pair_def image_iff)+

text \<open>No role lists a resource and action twice, so the first match of the loop is the only one.\<close>

lemma rolePermissions_distinct:
  "\<forall>(role, ps) \<in> set rolePermissions. distinct (map perm_pair ps)"
  by (simp add: rolePermissions_def role_tables perm_def perm_pair_def)

lemma HasPermission_iff:
  "HasPermission parse now role resource action context \<longleftrightarrow>
     (\<exists>p\<in>set (GetPermissionsForRole role). perm_pair p = (resource, action) \<and>
        (perm_Condition p = [] \<or> evaluateCondition parse now (perm_Condition p) context))"
proof (cases "map_of rolePermissions role")
  case None
  then show ?thesis by (simp add: HasPermission_def GetPermissionsForRole_def)
next
  case (Some ps)
  then have "distinct (map perm_pair ps)"
    using rolePermissions_distinct map_of_SomeD by fastforce
  with Some show ?thesis
    by (simp add: HasPermission_def GetPermissionsForRole_def permission_loop_iff)
qed

text \<open>A fact about every row of the table is checked row by row.\<close>

definition all_rows :: "(string \<Rightarrow> permission \<Rightarrow> bool) \<Rightarrow> bool" where
  "all_rows P \<longleftrightarrow> list_all (\<lambda>(role, ps). list_all (P role) ps) rolePermissions"

lemma all_rowsD:
  assumes "all_rows P" "p \<in> set (GetPermissionsForRole role)"
  shows "P role p"
proof -
  obtain ps where "map_of rolePermissions role = Some ps" "p \<in> set ps"
    using assms(2) unfolding GetPermissionsForRole_def
    by (cases "map_of rolePermissions role") auto
  then have "(role, ps) \<in> set rolePermissions" "p \<in> set ps"
    by (auto dest: map_of_SomeD)
  with assms(1) show ?thesis
    by (fastforce simp: all_rows_def list_all_iff)
qed

lemma founder_rows:
  "all_rows (\<lambda>role p. role = OpsRoleFounder \<or>
     perm_Resource p \<noteq> ResourceOpsUser \<and>
     \<not> (perm_Resource p = ResourceLicense \<and> perm_Action p \<in> {ActionCreate, ActionDelete}) \<and>
     \<not> (perm_Resource p = ResourceBilling \<and> perm_Action p = ActionUpdate))"
  by code_simp

lemma conditional_rows:
  "all_rows (\<lambda>role p. role = OpsRoleFounder \<or> role = OpsRoleEngineer \<or>
     (perm_Resource p = ResourceDebugMode \<longrightarrow> perm_Condition p = ConditionTemporaryDebug) \<and>
     (perm_Resource p = ResourceSandbox \<and> perm_Action p = ActionDelete \<longrightarrow>
        perm_Condition p = ConditionOwnSandboxOnly))"
  by code_simp

definition unconditional :: "string \<Rightarrow> string \<Rightarrow> string \<Rightarrow> bool" where
  "unconditional role resource action \<longleftrightarrow>
     perm resource action [] \<in> set (GetPermissionsForRole role)"

text \<open>
  Only the founder role can manage operations users and issue or revoke licenses: in no context, at
  no time, does any other role, known or not, pass the check for creating, changing or deleting an
  operations user, or for creating or deleting a license.
\<close>

theorem founder_only:
  "HasPermission parse now role ResourceOpsUser action context \<or>
   HasPermission parse now role ResourceLicense ActionCreate context \<or>
   HasPermission parse now role ResourceLicense ActionDelete context \<or>
   HasPermission parse now role ResourceBilling ActionUpdate context \<Longrightarrow> role = OpsRoleFounder"
  using all_rowsD [OF founder_rows, of _ role] by (auto simp: HasPermission_iff perm_pair_def)

theorem founder_only_witness:
  "HasPermission (\<lambda>s. None) 0 ''founder'' ResourceOpsUser ActionDelete None \<and> ''founder'' = OpsRoleFounder"
proof
  show h: "HasPermission (\<lambda>s. None) 0 ''founder'' ResourceOpsUser ActionDelete None"
    by (simp add: HasPermission_iff GetPermissionsForRole_def rolePermissions_def role_tables perm_def
        perm_pair_def)
  show "''founder'' = OpsRoleFounder"
    by (rule founder_only [OF disjI1 [OF h]])
qed

text \<open>
  Debug access outside the founder and engineer roles is temporary: whoever else may execute on the
  debug mode resource presents a deadline that parses, is not zero and is still in the future, and no one
  but a founder or an engineer deletes a sandbox that is not their own.
\<close>

theorem conditional_access:
  assumes "role \<noteq> OpsRoleFounder" and "role \<noteq> OpsRoleEngineer"
  shows "(HasPermission parse now role ResourceDebugMode ActionExecute context \<longrightarrow>
            (\<exists>pc t. context = Some pc \<and> parse (pc_DebugEnabledUntil pc) = Some t \<and> now < t)) \<and>
         (HasPermission parse now role ResourceSandbox ActionDelete context \<longrightarrow>
            (\<exists>pc. context = Some pc \<and> pc_IsOwner pc))"
proof (intro conjI impI)
  assume "HasPermission parse now role ResourceDebugMode ActionExecute context"
  then obtain p where "p \<in> set (GetPermissionsForRole role)" "perm_Resource p = ResourceDebugMode"
      "perm_Condition p = [] \<or> evaluateCondition parse now (perm_Condition p) context"
    by (auto simp: HasPermission_iff perm_pair_def)
  with all_rowsD [OF conditional_rows this(1)] assms
  have "evaluateCondition parse now ConditionTemporaryDebug context" by auto
  then show "\<exists>pc t. context = Some pc \<and> parse (pc_DebugEnabledUntil pc) = Some t \<and> now < t"
    by (auto simp: evaluateCondition_def split: if_splits option.splits)
next
  assume "HasPermission parse now role ResourceSandbox ActionDelete context"
  then obtain p where "p \<in> set (GetPermissionsForRole role)" "perm_Resource p = ResourceSandbox"
      "perm_Action p = ActionDelete"
      "perm_Condition p = [] \<or> evaluateCondition parse now (perm_Condition p) context"
    by (auto simp: HasPermission_iff perm_pair_def)
  with all_rowsD [OF conditional_rows this(1)] assms
  have "evaluateCondition parse now ConditionOwnSandboxOnly context" by auto
  then show "\<exists>pc. context = Some pc \<and> pc_IsOwner pc"
    by (auto simp: evaluateCondition_def split: option.splits)
qed

theorem conditional_access_witness:
  "\<not> HasPermission (\<lambda>s. Some 5) 7 OpsRoleSupport ResourceDebugMode ActionExecute
       (Some \<lparr>pc_IsOwner = True, pc_DebugEnabledUntil = ''2026'', pc_SandboxCount = 0,
          pc_MaxSandboxes = 0, pc_UserID = [], pc_ResourceID = []\<rparr>)"
  using conditional_access [of OpsRoleSupport "\<lambda>s. Some 5" 7
      "Some \<lparr>pc_IsOwner = True, pc_DebugEnabledUntil = ''2026'', pc_SandboxCount = 0,
          pc_MaxSandboxes = 0, pc_UserID = [], pc_ResourceID = []\<rparr>"]
  by auto

end
