(* ===== verification/Plans.thy ===== *)
theory Plans
  imports GoPrelude
begin

text \<open>
  \<open>server/internal/domain/features.go\<close> and the plan limits of \<open>subscription.go\<close>: which plan includes which
  gated feature, and the resource caps of each plan.  \<open>PlanFeatures\<close> and \<open>AllFeatures\<close> range over the Go
  map of features, so they take the order of that iteration as an argument.
\<close>

abbreviation "PlanTrial \<equiv> ''trial''"
abbreviation "PlanFree \<equiv> ''free''"
abbreviation "PlanPro \<equiv> ''pro''"
abbreviation "PlanEnterprise \<equiv> ''enterprise''"

abbreviation "FeatureApprovals \<equiv> ''approvals''"
abbreviation "FeatureWebhooks \<equiv> ''webhooks''"
abbreviation "FeatureScheduling \<equiv> ''scheduling''"
abbreviation "FeatureAuditExport \<equiv> ''audit_export''"
abbreviation "FeatureSSO \<equiv> ''sso''"
abbreviation "FeatureSCIM \<equiv> ''scim''"
abbreviation "FeatureIPAllowlist \<equiv> ''ip_allowlist''"
abbreviation "FeatureCustomRoles \<equiv> ''custom_roles''"
abbreviation "FeatureMFA \<equiv> ''mfa''"
abbreviation "FeatureDataExport \<equiv> ''data_export''"

text \<open>A lookup of a missing key of a \<open>map[string]int\<close> gives 0.\<close>

definition planRank :: "string \<Rightarrow> int" where
  "planRank plan =
     (case map_of [(PlanFree, 0), (PlanTrial, 2), (PlanPro, 2), (PlanEnterprise, 3)] plan of
        None \<Rightarrow> 0 | Some r \<Rightarrow> r)"

definition featureMinPlan :: "(string \<times> string) list" where
  "featureMinPlan =
     [(FeatureApprovals, PlanPro), (FeatureWebhooks, PlanPro), (FeatureScheduling, PlanPro),
      (FeatureAuditExport, PlanPro), (FeatureMFA, PlanPro), (FeatureDataExport, PlanPro),
      (FeatureSSO, PlanEnterprise), (FeatureSCIM, PlanEnterprise),
      (FeatureIPAllowlist, PlanEnterprise), (FeatureCustomRoles, PlanEnterprise)]"

definition IsFeatureEnabled :: "string \<Rightarrow> string \<Rightarrow> bool" where
  "IsFeatureEnabled plan feature =
     (case map_of featureMinPlan feature of
        None \<Rightarrow> True
      | Some required \<Rightarrow> planRank required \<le> planRank plan)"

definition FeatureMinPlanName :: "string \<Rightarrow> string" where
  "FeatureMinPlanName feature =
     (case map_of featureMinPlan feature of Some p \<Rightarrow> p | None \<Rightarrow> PlanFree)"

fun plan_features_loop :: "(string \<times> string) list \<Rightarrow> int \<Rightarrow> string list \<Rightarrow> string list" where
  "plan_features_loop [] rank features = features"
| "plan_features_loop ((f, minPlan) # m) rank features =
     (if planRank minPlan \<le> rank then plan_features_loop m rank (features @ [f])
      else plan_features_loop m rank features)"

definition PlanFeatures :: "(string \<times> string) list \<Rightarrow> string \<Rightarrow> string list" where
  "PlanFeatures order plan = sort (plan_features_loop order (planRank plan) [])"

definition AllFeatures :: "(string \<times> string) list \<Rightarrow> string \<rightharpoonup> string" where
  "AllFeatures order = foldl (\<lambda>result (f, p). result(f \<mapsto> p)) Map.empty order"

subsection \<open>Resource caps\<close>

record plan_limits =
  Seats :: int
  Projects :: int
  Environments :: int

definition unlimited :: plan_limits where
  "unlimited = \<lparr>Seats = - 1, Projects = - 1, Environments = - 1\<rparr>"

text \<open>
  The argument is the outcome of \<open>Pricing()\<close>: \<open>None\<close> for an error, otherwise the limits of the plans in the
  loaded configuration.
\<close>

definition GetPlanDefaults :: "(string \<rightharpoonup> plan_limits) option \<Rightarrow> string \<rightharpoonup> plan_limits" where
  "GetPlanDefaults pricing =
     (let defaults = [PlanTrial \<mapsto> unlimited, PlanPro \<mapsto> unlimited, PlanEnterprise \<mapsto> unlimited]
      in case pricing of
           None \<Rightarrow> defaults
         | Some plans \<Rightarrow>
           (case plans PlanFree of
              Some l \<Rightarrow> defaults(PlanFree \<mapsto> l)
            | None \<Rightarrow> defaults(PlanFree \<mapsto> \<lparr>Seats = 3, Projects = 1, Environments = 3\<rparr>)))"

subsection \<open>Laws\<close>

lemma plan_features_loop_filter:
  "plan_features_loop m rank acc = acc @ map fst (filter (\<lambda>(f, p). planRank p \<le> rank) m)"
  by (induction m arbitrary: acc) auto

lemma featureMinPlan_distinct: "distinct (map fst featureMinPlan)"
  by (simp add: featureMinPlan_def)

lemma PlanFeatures_set:
  assumes "mset order = mset featureMinPlan"
  shows "set (PlanFeatures order plan) =
           {f \<in> fst ` set featureMinPlan. IsFeatureEnabled plan f}"
proof -
  have "set order = set featureMinPlan"
    using assms by (rule mset_eq_setD)
  then have "set (PlanFeatures order plan) =
      {f. \<exists>p. (f, p) \<in> set featureMinPlan \<and> planRank p \<le> planRank plan}"
    by (auto simp: PlanFeatures_def plan_features_loop_filter image_iff)
  also have "\<dots> = {f \<in> fst ` set featureMinPlan. IsFeatureEnabled plan f}"
    using featureMinPlan_distinct by (force simp: IsFeatureEnabled_def image_iff)
  finally show ?thesis .
qed

text \<open>
  The feature list shown to a customer is exactly what the gate enforces: whatever order Go iterates
  over the feature table in, \<open>PlanFeatures\<close> returns the same sorted list without duplicates, and a gated
  feature is in it exactly when \<open>IsFeatureEnabled\<close> lets the plan use it.
\<close>

theorem PlanFeatures_enforced:
  assumes "mset order = mset featureMinPlan"
  shows "PlanFeatures order plan = PlanFeatures featureMinPlan plan \<and>
         sorted (PlanFeatures order plan) \<and> distinct (PlanFeatures order plan) \<and>
         set (PlanFeatures order plan) = {f \<in> fst ` set featureMinPlan. IsFeatureEnabled plan f}"
proof (intro conjI)
  have m: "mset (map fst (filter (\<lambda>(f, p). planRank p \<le> planRank plan) order)) =
           mset (map fst (filter (\<lambda>(f, p). planRank p \<le> planRank plan) featureMinPlan))"
    using assms by (simp add: mset_filter)
  then show "PlanFeatures order plan = PlanFeatures featureMinPlan plan"
    unfolding PlanFeatures_def plan_features_loop_filter
    by (intro properties_for_sort) simp_all
  have "distinct (map fst order)"
    using assms featureMinPlan_distinct mset_eq_imp_distinct_iff [of "map fst order" "map fst featureMinPlan"]
    by simp
  then show "distinct (PlanFeatures order plan)"
    by (simp add: PlanFeatures_def plan_features_loop_filter distinct_map inj_on_def)
  show "set (PlanFeatures order plan) = {f \<in> fst ` set featureMinPlan. IsFeatureEnabled plan f}"
    by (rule PlanFeatures_set [OF assms])
qed (simp add: PlanFeatures_def)

theorem PlanFeatures_enforced_witness:
  "PlanFeatures (rev featureMinPlan) PlanPro = PlanFeatures featureMinPlan PlanPro"
  using PlanFeatures_enforced [of "rev featureMinPlan" PlanPro] by simp

lemma IsFeatureEnabled_mono:
  "planRank p \<le> planRank q \<Longrightarrow> IsFeatureEnabled p f \<Longrightarrow> IsFeatureEnabled q f"
  by (auto simp: IsFeatureEnabled_def split: option.splits)

end
