(* ===== verification/Access.thy ===== *)
theory Access
  imports HttpModel OpsAccess Plans
begin

text \<open>
  The access middlewares of \<open>server/internal/api/middleware\<close>: authentication (\<open>auth.go\<close>), roles
  (\<open>rbac.go\<close>), per environment permissions (\<open>envperm.go\<close>), plan gates (\<open>featuregate.go\<close>, \<open>tier.go\<close>,
  \<open>trial.go\<close>), the IP allowlist (\<open>ipallowlist.go\<close>) and the gates of the operations portal
  (\<open>domain_gate.go\<close>, \<open>ops_permissions.go\<close>).  Each is a function of the request and of what the stores it
  reads answer; a store answers \<open>Inl\<close> an error or \<open>Inr\<close> the value, so every theorem covers the faults.
\<close>

subsection \<open>What the stores answer\<close>

record organization =
  org_ID :: string
  org_Plan :: string
  org_PlanSeatsLimit :: int
  org_PlanProjectsLimit :: int
  org_PlanEnvironmentsLimit :: int
  org_TrialExpiresAt :: "gotime option"
  org_DeletedAt :: "gotime option"

record env_permission =
  ep_EnvID :: string
  ep_CanToggle :: bool
  ep_CanEditRules :: bool

record ops_user =
  ou_UserID :: string
  ou_OpsRole :: string
  ou_IsActive :: bool

type_synonym 'a answer = "store_error + 'a"

subsection \<open>Authentication\<close>

datatype token_error = ErrTokenExpired | ErrTokenInvalid

text \<open>\<open>strings.SplitN(header, " ", 2)\<close>: the two parts, if there is a space.\<close>

definition split2 :: "string \<Rightarrow> (string \<times> string) option" where
  "split2 s =
     (case dropWhile (\<lambda>c. c \<noteq> CHR '' '') s of
        [] \<Rightarrow> None
      | _ # rest \<Rightarrow> Some (takeWhile (\<lambda>c. c \<noteq> CHR '' '') s, rest))"

text \<open>\<open>revoked\<close> is \<open>None\<close> when no revocation checker is configured.\<close>

definition JWTAuth ::
    "(string \<Rightarrow> token_error + auth_claims) \<Rightarrow> (string \<Rightarrow> bool answer) option \<Rightarrow> http_middleware" where
  "JWTAuth validate revoker r =
     (if req_Method r = MethodOptions then Next r
      else
        (let header = req_Header r ''Authorization''
         in if header = [] then Reject StatusUnauthorized ''missing authorization header''
            else
              (case split2 header of
                 None \<Rightarrow> Reject StatusUnauthorized ''invalid authorization format''
               | Some (scheme, token) \<Rightarrow>
                 (if scheme \<noteq> ''Bearer''
                  then Reject StatusUnauthorized ''invalid authorization format''
                  else
                    (case validate token of
                       Inl ErrTokenExpired \<Rightarrow> Reject StatusUnauthorized ''token_expired''
                     | Inl _ \<Rightarrow> Reject StatusUnauthorized ''invalid or expired token''
                     | Inr claims \<Rightarrow>
                       (if cl_ID claims \<noteq> [] \<and>
                           (case revoker of None \<Rightarrow> False | Some f \<Rightarrow> f (cl_ID claims) = Inr True)
                        then Reject StatusUnauthorized ''token has been revoked''
                        else Next (r\<lparr>req_Claims := Some claims\<rparr>)))))))"

subsection \<open>Roles and environment permissions\<close>

abbreviation "RoleOwner \<equiv> ''owner''"
abbreviation "RoleAdmin \<equiv> ''admin''"
abbreviation "RoleDeveloper \<equiv> ''developer''"
abbreviation "RoleViewer \<equiv> ''viewer''"

definition RequireRole :: "string list \<Rightarrow> http_middleware" where
  "RequireRole allowed r =
     (if GetRole r \<in> set allowed then Next r else Reject StatusForbidden ''insufficient permissions'')"

fun env_perm_loop :: "env_permission list \<Rightarrow> string \<Rightarrow> string \<Rightarrow> bool" where
  "env_perm_loop [] envID permission = False"
| "env_perm_loop (p # ps) envID permission =
     (if ep_EnvID p = envID then
        (if permission = ''can_toggle'' then ep_CanToggle p
         else if permission = ''can_edit_rules'' then ep_CanEditRules p
         else env_perm_loop ps envID permission)
      else env_perm_loop ps envID permission)"

definition CheckEnvPermission ::
    "(string \<Rightarrow> string \<Rightarrow> string answer) \<Rightarrow> (string \<Rightarrow> env_permission list answer) \<Rightarrow>
     http_request \<Rightarrow> string \<Rightarrow> string \<Rightarrow> string \<Rightarrow> string \<Rightarrow> bool" where
  "CheckEnvPermission getMember listPerms r orgID userID envID permission =
     (if GetRole r = RoleOwner \<or> GetRole r = RoleAdmin then True
      else
        (case getMember orgID userID of
           Inl e \<Rightarrow> False
         | Inr memberID \<Rightarrow>
           (case listPerms memberID of
              Inl e \<Rightarrow> False
            | Inr perms \<Rightarrow> env_perm_loop perms envID permission)))"

subsection \<open>Plans\<close>

definition FeatureGate ::
    "string \<Rightarrow> (string \<Rightarrow> organization answer) \<Rightarrow> http_middleware" where
  "FeatureGate feature getOrg r =
     (let minPlan = FeatureMinPlanName feature; orgID = GetOrgID r
      in if orgID = [] then Next r
         else
           (case getOrg orgID of
              Inl e \<Rightarrow> Next r
            | Inr org \<Rightarrow>
              (if \<not> IsFeatureEnabled (org_Plan org) feature
               then Reject StatusPaymentRequired
                 (''This feature requires the '' @ minPlan @ '' plan. Upgrade to unlock '' @ feature @ ''.'')
               else Next r)))"

definition isExactProjectCreate :: "string \<Rightarrow> bool" where
  "isExactProjectCreate path \<longleftrightarrow> trim_right CHR ''/'' path = ''/v1/projects''"

definition matchRoute :: "string \<Rightarrow> string \<Rightarrow> bool" where
  "matchRoute path route \<longleftrightarrow> trim_right CHR ''/'' path = route"

definition path_parts :: "string \<Rightarrow> string list" where
  "path_parts path = split_on CHR ''/'' (trim_char CHR ''/'' path)"

definition matchRoutePattern :: "string \<Rightarrow> string \<Rightarrow> bool" where
  "matchRoutePattern path pattern =
     (let pathParts = path_parts path; patParts = path_parts pattern
      in if length pathParts \<noteq> length patParts then False
         else list_all2 (\<lambda>part p. p = ''*'' \<or> part = p) pathParts patParts)"

definition extractSegment :: "string \<Rightarrow> nat \<Rightarrow> string" where
  "extractSegment path index =
     (let parts = path_parts path in if index < length parts then parts ! index else [])"

definition tierError :: "string \<Rightarrow> gate" where
  "tierError resource =
     Reject StatusPaymentRequired (''Plan limit reached. Upgrade to Pro for unlimited '' @ resource @ ''.'')"

text \<open>A listing that fails counts as an empty one: the code drops the error.\<close>

definition listed :: "'a list answer \<Rightarrow> int" where
  "listed a = (case a of Inl e \<Rightarrow> 0 | Inr xs \<Rightarrow> int (length xs))"

record tier_store =
  ts_GetOrganization :: "string \<Rightarrow> organization answer"
  ts_ListProjects :: "string \<Rightarrow> string list answer"
  ts_ListEnvironments :: "string \<Rightarrow> string list answer"
  ts_ListOrgMembers :: "string \<Rightarrow> string list answer"

definition tier_check :: "http_request \<Rightarrow> int \<Rightarrow> int \<Rightarrow> string \<Rightarrow> gate" where
  "tier_check r limit n resource = (if 0 \<le> limit \<and> limit \<le> n then tierError resource else Next r)"

definition TierEnforce :: "tier_store \<Rightarrow> http_middleware" where
  "TierEnforce store r =
     (let orgID = GetOrgID r; path = req_Path r
      in if req_Method r \<noteq> MethodPost \<or> orgID = [] then Next r
         else if isExactProjectCreate path then
           (case ts_GetOrganization store orgID of
              Inl e \<Rightarrow> Next r
            | Inr org \<Rightarrow>
                tier_check r (org_PlanProjectsLimit org) (listed (ts_ListProjects store orgID)) ''projects'')
         else if matchRoutePattern path ''/v1/projects/*/environments'' then
           (case ts_GetOrganization store orgID of
              Inl e \<Rightarrow> Next r
            | Inr org \<Rightarrow>
                tier_check r (org_PlanEnvironmentsLimit org)
                  (listed (ts_ListEnvironments store (extractSegment path 2))) ''environments'')
         else if matchRoute path ''/v1/members/invite'' \<or>
                 matchRoutePattern path ''/v1/organizations/*/members'' then
           (case ts_GetOrganization store orgID of
              Inl e \<Rightarrow> Next r
            | Inr org \<Rightarrow>
                tier_check r (org_PlanSeatsLimit org) (listed (ts_ListOrgMembers store orgID)) ''seats'')
         else Next r)"

text \<open>
  \<open>TrialExpiry\<close> may write.  Its store is a state with the two operations of the interface \<open>TrialStore\<close>:
  \<open>getOrg\<close> answers what is stored, \<open>downgrade\<close> gives the state after a call, failed or not (the outcome is
  only logged).  The store of the program and its laws are in \<open>Accounts\<close>.
\<close>

definition TrialExpiry ::
    "gotime \<Rightarrow> (string \<Rightarrow> 'db \<Rightarrow> 'o organization_scheme answer) \<Rightarrow> (string \<Rightarrow> 'db \<Rightarrow> 'db) \<Rightarrow> http_request \<Rightarrow> 'db \<Rightarrow>
     gate \<times> 'db" where
  "TrialExpiry now getOrg downgrade r db =
     (let orgID = GetOrgID r
      in if orgID = [] then (Next r, db)
         else
           (case getOrg orgID db of
              Inl e \<Rightarrow> (Next r, db)
            | Inr org \<Rightarrow>
              (if org_DeletedAt org \<noteq> None
               then (Reject StatusForbidden
                       ''This account has been deactivated. Contact support to restore it.'', db)
               else if org_Plan org = PlanTrial \<and>
                       (case org_TrialExpiresAt org of None \<Rightarrow> False | Some t \<Rightarrow> t < now)
               then (Next r, downgrade orgID db)
               else (Next r, db))))"

subsection \<open>IP allowlist\<close>

text \<open>
  \<open>parse\<close> is \<open>net.ParseIP\<close>, \<open>contains cidr ip\<close> is \<open>None\<close> when \<open>net.ParseCIDR\<close> rejects the range, and
  \<open>host\<close> is the host part \<open>net.SplitHostPort\<close> finds, if it finds one.
\<close>

record 'ip netlib =
  net_host :: "string \<Rightarrow> string option"
  net_parse :: "string \<Rightarrow> 'ip option"
  net_contains :: "string \<Rightarrow> 'ip \<Rightarrow> bool option"

definition extractIP :: "'ip netlib \<Rightarrow> string \<Rightarrow> string" where
  "extractIP net addr = (case net_host net addr of None \<Rightarrow> addr | Some h \<Rightarrow> h)"

fun cidr_loop :: "'ip netlib \<Rightarrow> string list \<Rightarrow> 'ip \<Rightarrow> bool" where
  "cidr_loop net [] ip = False"
| "cidr_loop net (cidr # cidrs) ip =
     (case net_contains net cidr ip of
        None \<Rightarrow> cidr_loop net cidrs ip
      | Some inside \<Rightarrow> if inside then True else cidr_loop net cidrs ip)"

definition IPAllowlist ::
    "'ip netlib \<Rightarrow> (string \<Rightarrow> (bool \<times> string list) answer) \<Rightarrow> http_middleware" where
  "IPAllowlist net getList r =
     (if GetOrgID r = [] then Next r
      else
        (case getList (GetOrgID r) of
           Inl e \<Rightarrow> Next r
         | Inr (enabled, cidrs) \<Rightarrow>
           (if \<not> enabled \<or> cidrs = [] then Next r
            else
              (case net_parse net (extractIP net (req_RemoteAddr r)) of
                 None \<Rightarrow> Next r
               | Some ip \<Rightarrow>
                   if cidr_loop net cidrs ip then Next r
                   else Reject StatusForbidden ''IP address not in allowlist''))))"

subsection \<open>Laws\<close>

lemma env_perm_loop_granted:
  "env_perm_loop ps envID permission \<Longrightarrow>
     \<exists>p\<in>set ps. ep_EnvID p = envID \<and>
       (permission = ''can_toggle'' \<and> ep_CanToggle p \<or> permission = ''can_edit_rules'' \<and> ep_CanEditRules p)"
  by (induction ps) (auto split: if_splits)

text \<open>
  Environment permissions are denied by default.  A caller that is neither owner nor admin passes the
  check only if the membership and its permissions could be read and one of the rows is for that
  environment and grants that permission; a store failure never opens an environment.
\<close>

theorem CheckEnvPermission_deny_by_default:
  assumes "CheckEnvPermission getMember listPerms r orgID userID envID permission"
    and "GetRole r \<notin> {RoleOwner, RoleAdmin}"
  shows "\<exists>memberID perms p. getMember orgID userID = Inr memberID \<and> listPerms memberID = Inr perms \<and>
           p \<in> set perms \<and> ep_EnvID p = envID \<and>
           (permission = ''can_toggle'' \<and> ep_CanToggle p \<or>
            permission = ''can_edit_rules'' \<and> ep_CanEditRules p)"
  using assms by (auto simp: CheckEnvPermission_def split: sum.splits dest!: env_perm_loop_granted)

definition demo_request :: "string \<Rightarrow> http_request" where
  "demo_request role = \<lparr>req_Method = MethodPost, req_Path = ''/v1/projects'', req_RemoteAddr = [],
     req_Header = (\<lambda>h. []), req_URLParams = [],
     req_Claims = Some \<lparr>cl_UserID = ''u'', cl_OrgID = ''o'', cl_Role = role, cl_Email = [],
       cl_DataRegion = [], cl_ID = []\<rparr>, req_License = None\<rparr>"

theorem CheckEnvPermission_deny_by_default_witness:
  "\<exists>p. p \<in> {\<lparr>ep_EnvID = ''e'', ep_CanToggle = True, ep_CanEditRules = False\<rparr>} \<and> ep_CanToggle p"
  using CheckEnvPermission_deny_by_default [of "\<lambda>o' u. Inr ''m''"
      "\<lambda>m. Inr [\<lparr>ep_EnvID = ''e'', ep_CanToggle = True, ep_CanEditRules = False\<rparr>]"
      "demo_request RoleViewer" "''o''" "''u''" "''e''" "''can_toggle''"]
  by (simp add: CheckEnvPermission_def demo_request_def ctx_getters)

text \<open>
  Creating a project behind the gate: the list grows by one when the request passes.
\<close>

definition create_project :: "organization \<Rightarrow> http_request \<Rightarrow> string \<Rightarrow> string list \<Rightarrow> string list" where
  "create_project org r newID projects =
     (case TierEnforce \<lparr>ts_GetOrganization = (\<lambda>k. Inr org), ts_ListProjects = (\<lambda>k. Inr projects),
             ts_ListEnvironments = (\<lambda>k. Inr []), ts_ListOrgMembers = (\<lambda>k. Inr [])\<rparr> r of
        Next r' \<Rightarrow> newID # projects
      | Reject c m \<Rightarrow> projects)"

lemma create_project_bound:
  assumes "GetOrgID r \<noteq> []" "req_Method r = MethodPost" "isExactProjectCreate (req_Path r)"
    and "0 \<le> org_PlanProjectsLimit org" "int (length projects) \<le> org_PlanProjectsLimit org"
  shows "int (length (create_project org r newID projects)) \<le> org_PlanProjectsLimit org"
  using assms
  by (auto simp: create_project_def TierEnforce_def tier_check_def tierError_def listed_def split: gate.splits)

text \<open>
  A plan's project cap holds.  Starting within the cap, no sequence of project creations that go
  through \<open>TierEnforce\<close> one after the other, and whose reads succeed, ever exceeds it; one that would is
  answered 402.
\<close>

theorem TierEnforce_caps_projects:
  assumes "GetOrgID r \<noteq> []" and "req_Method r = MethodPost" and "isExactProjectCreate (req_Path r)"
    and "0 \<le> org_PlanProjectsLimit org" and "int (length projects) \<le> org_PlanProjectsLimit org"
  shows "int (length (fold (create_project org r) newIDs projects)) \<le> org_PlanProjectsLimit org"
  using assms(5)
proof (induction newIDs arbitrary: projects)
  case Nil
  then show ?case by simp
next
  case (Cons k ks)
  show ?case
    using Cons.IH [OF create_project_bound [OF assms(1-4) Cons.prems]] by simp
qed

definition free_org :: organization where
  "free_org = \<lparr>org_ID = ''o'', org_Plan = PlanFree, org_PlanSeatsLimit = 3, org_PlanProjectsLimit = 1,
     org_PlanEnvironmentsLimit = 2, org_TrialExpiresAt = None, org_DeletedAt = None\<rparr>"

theorem TierEnforce_caps_projects_witness:
  "length (fold (create_project free_org (demo_request RoleOwner)) [''a'', ''b'', ''c''] []) \<le> 1"
  using TierEnforce_caps_projects [of "demo_request RoleOwner" free_org "[]" "[''a'', ''b'', ''c'']"]
  by (simp add: demo_request_def ctx_getters free_org_def isExactProjectCreate_def trim_right_def)

end
