(* ===== verification/OpsGates.thy ===== *)
theory OpsGates
  imports Access
begin

text \<open>
  The gates of the operations portal: \<open>domain_gate.go\<close> and \<open>ops_permissions.go\<close> of
  \<open>server/internal/api/middleware\<close>, which guard routes with the permission table of \<open>OpsAccess\<close>.
\<close>

subsection \<open>\<open>domain_gate.go\<close>\<close>

text \<open>\<open>lower\<close> is \<open>strings.ToLower\<close>; the variable \<open>OPS_ALLOWED_DOMAIN\<close> is empty when it is not set.\<close>

definition RequireDomain ::
    "(string \<Rightarrow> string) \<Rightarrow> string \<Rightarrow> string \<Rightarrow> string option \<Rightarrow> http_middleware" where
  "RequireDomain lower envDomain allowed ctxEmail r =
     (if envDomain = ''*'' then Next r
      else
        (let allowed = (if envDomain \<noteq> [] then envDomain else allowed)
         in case GetClaims r of
              None \<Rightarrow> Reject StatusUnauthorized ''unauthorized''
            | Some claims \<Rightarrow>
              (let email = (if cl_Email claims = [] then (case ctxEmail of None \<Rightarrow> [] | Some e \<Rightarrow> e)
                            else cl_Email claims)
               in if email = []
                  then Reject StatusForbidden ''access restricted to authorized domain''
                  else if \<not> has_suffix (lower email) (''@'' @ lower allowed)
                  then Reject StatusForbidden ''access restricted to authorized domain''
                  else Next r)))"

definition roleLevel :: "string \<Rightarrow> int" where
  "roleLevel role =
     (case map_of [(''finance'', 1), (''customer_success'', 2), (''demo_team'', 3), (''engineer'', 4),
                   (''founder'', 5)] role of None \<Rightarrow> 0 | Some n \<Rightarrow> n)"

text \<open>The store answers \<open>Inr None\<close> for a nil user without an error.\<close>

definition RequireOpsRole ::
    "string \<Rightarrow> (string \<Rightarrow> ops_user option answer) \<Rightarrow> http_middleware" where
  "RequireOpsRole minRole getOpsUser r =
     (let minLevel = (if roleLevel minRole = 0 then 1 else roleLevel minRole); userID = GetUserID r
      in if userID = [] then Reject StatusUnauthorized ''unauthorized''
         else
           (case getOpsUser userID of
              Inl e \<Rightarrow> Reject StatusForbidden ''access denied''
            | Inr None \<Rightarrow> Reject StatusForbidden ''access denied''
            | Inr (Some u) \<Rightarrow>
              (if \<not> ou_IsActive u then Reject StatusForbidden ''access denied''
               else if roleLevel (ou_OpsRole u) < minLevel
               then Reject StatusForbidden ''insufficient permissions''
               else Next r)))"

subsection \<open>\<open>ops_permissions.go\<close>\<close>

definition determineResourceFromRoute :: "string \<Rightarrow> string" where
  "determineResourceFromRoute path =
     (let env = str_contains path ''/environments/''
      in if has_suffix path ''/debug'' \<or> env \<and> str_contains path ''/debug'' then ResourceDebugMode
         else if has_suffix path ''/restart'' \<or> env \<and> str_contains path ''/restart'' then ResourceSSHAccess
         else if has_suffix path ''/maintenance'' \<or> env \<and> str_contains path ''/maintenance''
         then ResourceEnvironment
         else if str_contains path ''/environments/provision'' then ResourceEnvironment
         else if str_contains path ''/environments/decommission'' then ResourceEnvironment
         else if str_contains path ''/environments'' then ResourceEnvironment
         else if str_contains path ''/financial/costs'' \<or> str_contains path ''/financial/summary''
         then ResourceCost
         else if has_prefix path ''/api/v1/ops/customers'' then ResourceCustomer
         else if str_contains path ''/licenses'' then ResourceLicense
         else if str_contains path ''/audit'' then ResourceAuditLog
         else if has_prefix path ''/api/v1/ops/users'' then ResourceOpsUser
         else if str_contains path ''/sandboxes'' then ResourceSandbox
         else if str_contains path ''/billing'' then ResourceBilling
         else [])"

definition determineActionFromMethod :: "string \<Rightarrow> string" where
  "determineActionFromMethod m =
     (if m = MethodGet \<or> m = MethodHead then ActionRead
      else if m = MethodPost then ActionCreate
      else if m = MethodPut \<or> m = MethodPatch then ActionUpdate
      else if m = MethodDelete then ActionDelete
      else ActionRead)"

fun first_id_param :: "(string \<times> string) list \<Rightarrow> string option" where
  "first_id_param [] = None"
| "first_id_param ((key, v) # ps) =
     (if key = ''id'' \<or> key = ''resource_id'' \<or> has_suffix key ''_id'' then Some v
      else first_id_param ps)"

fun first_param :: "http_request \<Rightarrow> string list \<Rightarrow> string" where
  "first_param r [] = []"
| "first_param r (key # keys) = (if URLParam r key \<noteq> [] then URLParam r key else first_param r keys)"

definition extractResourceID :: "http_request \<Rightarrow> string \<Rightarrow> string" where
  "extractResourceID r resource =
     (case first_id_param (req_URLParams r) of
        Some v \<Rightarrow> v
      | None \<Rightarrow>
        (if resource = ResourceEnvironment then first_param r [''id'', ''vps_id'']
         else if resource = ResourceCustomer then first_param r [''org_id'']
         else if resource = ResourceLicense then first_param r [''id'', ''org_id'']
         else if resource = ResourceSandbox then first_param r [''id'']
         else if resource = ResourceOpsUser then first_param r [''id'']
         else []))"

text \<open>The context the middleware builds: a user and a resource id, every other field zero.\<close>

definition basic_context :: "http_request \<Rightarrow> auth_claims \<Rightarrow> string \<Rightarrow> permission_context" where
  "basic_context r claims resource =
     \<lparr>pc_IsOwner = False, pc_DebugEnabledUntil = [], pc_SandboxCount = 0, pc_MaxSandboxes = 0,
      pc_UserID = cl_UserID claims, pc_ResourceID = extractResourceID r resource\<rparr>"

definition ops_role_check :: "http_request \<Rightarrow> (auth_claims \<Rightarrow> gate) \<Rightarrow> gate" where
  "ops_role_check r cont =
     (case GetClaims r of
        None \<Rightarrow> Reject StatusUnauthorized ''unauthorized''
      | Some claims \<Rightarrow>
        (if cl_Role claims = [] then Reject StatusForbidden ''access denied: no ops role''
         else if \<not> IsValidRole (cl_Role claims) then Reject StatusForbidden ''access denied: invalid role''
         else cont claims))"

definition OpsPermission :: "time_parser \<Rightarrow> gotime \<Rightarrow> string \<Rightarrow> string \<Rightarrow> http_middleware" where
  "OpsPermission parse now resource action r =
     ops_role_check r (\<lambda>claims.
       if HasPermission parse now (cl_Role claims) resource action (Some (basic_context r claims resource))
       then Next r else Reject StatusForbidden ''insufficient permissions'')"

definition OpsAutoPermission :: "time_parser \<Rightarrow> gotime \<Rightarrow> http_middleware" where
  "OpsAutoPermission parse now r =
     ops_role_check r (\<lambda>claims.
       let resource = determineResourceFromRoute (req_Path r)
       in if resource = [] then Next r
          else if HasPermission parse now (cl_Role claims) resource
                    (determineActionFromMethod (req_Method r)) (Some (basic_context r claims resource))
          then Next r else Reject StatusForbidden ''insufficient permissions'')"

definition RequireOpsRead where "RequireOpsRead parse now resource = OpsPermission parse now resource ActionRead"
definition RequireOpsCreate where "RequireOpsCreate parse now resource = OpsPermission parse now resource ActionCreate"
definition RequireOpsUpdate where "RequireOpsUpdate parse now resource = OpsPermission parse now resource ActionUpdate"
definition RequireOpsDelete where "RequireOpsDelete parse now resource = OpsPermission parse now resource ActionDelete"
definition RequireOpsExecute where "RequireOpsExecute parse now resource = OpsPermission parse now resource ActionExecute"
definition RequireOpsExport where "RequireOpsExport parse now resource = OpsPermission parse now resource ActionExport"

subsection \<open>Laws\<close>

interpretation ops_permission: passive_gate "OpsPermission parse now resource action"
  by unfold_locales
    (auto simp: OpsPermission_def ops_role_check_def Let_def split: option.splits if_splits)

interpretation ops_auto: passive_gate "OpsAutoPermission parse now"
  by unfold_locales
    (auto simp: OpsAutoPermission_def ops_role_check_def Let_def split: option.splits if_splits)

interpretation require_role: passive_gate "RequireRole allowed"
  by unfold_locales (auto simp: RequireRole_def split: if_splits)

interpretation feature_gate: passive_gate "FeatureGate feature getOrg"
  by unfold_locales (auto simp: FeatureGate_def Let_def split: sum.splits if_splits)

interpretation tier_enforce: passive_gate "TierEnforce store"
  by unfold_locales
    (auto simp: TierEnforce_def tier_check_def tierError_def Let_def split: sum.splits if_splits)

interpretation ip_allowlist: passive_gate "IPAllowlist net getList"
  by unfold_locales (auto simp: IPAllowlist_def split: sum.splits prod.splits option.splits if_splits)

interpretation ops_role: passive_gate "RequireOpsRole minRole getOpsUser"
  by unfold_locales
    (auto simp: RequireOpsRole_def Let_def split: sum.splits option.splits if_splits)

lemma IsValidRole_nonempty: "IsValidRole role \<Longrightarrow> role \<noteq> []"
  by (auto simp: IsValidRole_def rolePermissions_def)

text \<open>No condition holds in the context the middleware builds, except the one that always does.\<close>

lemma basic_context_condition:
  "evaluateCondition parse now c (Some (basic_context r claims resource)) \<longleftrightarrow>
     c = ConditionSandboxAutoExpire"
  by (auto simp: evaluateCondition_def basic_context_def)

lemma no_auto_expire_rows: "all_rows (\<lambda>role p. perm_Condition p \<noteq> ConditionSandboxAutoExpire)"
  by code_simp

lemma HasPermission_basic:
  "HasPermission parse now role resource action (Some (basic_context r claims res)) \<longleftrightarrow>
     perm resource action [] \<in> set (GetPermissionsForRole role)"
proof -
  have *: "perm_pair p = (resource, action) \<and> perm_Condition p = [] \<longleftrightarrow> p = perm resource action []" for p
    by (cases p) (auto simp: perm_pair_def perm_def)
  then have "(\<exists>p\<in>S. perm_pair p = (resource, action) \<and> perm_Condition p = []) \<longleftrightarrow>
               perm resource action [] \<in> S" for S
    by auto
  moreover have "perm_Condition p \<noteq> ConditionSandboxAutoExpire"
    if "p \<in> set (GetPermissionsForRole role)" for p
    using all_rowsD [OF no_auto_expire_rows that] .
  ultimately show ?thesis
    unfolding HasPermission_iff basic_context_condition by blast
qed

text \<open>
  The portal gate passes a request exactly when it carries claims of a known role whose table row
  grants the action on the resource without a condition.  The middleware fills in neither ownership nor a
  debug deadline, so the conditional grants of the table (deleting one's own sandbox, temporary debug
  access) never let a request through.
\<close>

theorem OpsPermission_unconditional_only:
  "passes_gate (OpsPermission parse now resource action r) \<longleftrightarrow>
     (\<exists>claims. req_Claims r = Some claims \<and> unconditional (cl_Role claims) resource action)"
proof (cases "req_Claims r")
  case None
  then show ?thesis by (simp add: OpsPermission_def ops_role_check_def ctx_getters)
next
  case (Some claims)
  have "IsValidRole (cl_Role claims)" if "unconditional (cl_Role claims) resource action"
    using that by (cases "map_of rolePermissions (cl_Role claims)")
      (simp_all add: unconditional_def GetPermissionsForRole_def IsValidRole_def)
  with Some IsValidRole_nonempty [of "cl_Role claims"] show ?thesis
    by (auto simp: OpsPermission_def ops_role_check_def ctx_getters HasPermission_basic unconditional_def)
qed

end
