(* ===== verification/PerClient.thy ===== *)
theory PerClient
  imports GoPrelude
begin

text \<open>
  The contract of the in-memory limiters: a table with one cell per client, in which an event changes the
  cells of the clients it concerns and nothing else.  Under it, what a client is answered depends on its own
  events alone (\<open>isolation\<close>), so the bounds of each limiter are proved for one cell and hold in every
  interleaving with other clients.
\<close>

fun run_answers :: "('e \<Rightarrow> 's \<Rightarrow> 'a \<times> 's) \<Rightarrow> 'e list \<Rightarrow> 's \<Rightarrow> 'a list" where
  "run_answers op [] s = []"
| "run_answers op (e # es) s = (case op e s of (a, s') \<Rightarrow> a # run_answers op es s')"

fun run_state :: "('e \<Rightarrow> 's \<Rightarrow> 'a \<times> 's) \<Rightarrow> 'e list \<Rightarrow> 's \<Rightarrow> 's" where
  "run_state op [] s = s"
| "run_state op (e # es) s = run_state op es (snd (op e s))"

lemma length_run_answers [simp]: "length (run_answers op es s) = length es"
  by (induction es arbitrary: s) (auto split: prod.splits)

lemma run_answers_append:
  "run_answers op (es @ fs) s = run_answers op es s @ run_answers op fs (run_state op es s)"
  by (induction es arbitrary: s) (auto split: prod.splits)

lemma run_state_append: "run_state op (es @ fs) s = run_state op fs (run_state op es s)"
  by (induction es arbitrary: s) auto

definition answers_to :: "('e \<Rightarrow> bool) \<Rightarrow> 'e list \<Rightarrow> 'a list \<Rightarrow> 'a list" where
  "answers_to P es as = map snd (filter (\<lambda>(e, a). P e) (zip es as))"

lemma answers_to_simps [simp]:
  "answers_to P [] as = []"
  "answers_to P (e # es) (a # as) = (if P e then a # answers_to P es as else answers_to P es as)"
  by (simp_all add: answers_to_def)

locale per_client =
  fixes inv :: "'s \<Rightarrow> bool"
    and op :: "'e \<Rightarrow> 's \<Rightarrow> 'a \<times> 's"
    and concerns :: "'e \<Rightarrow> 'k \<Rightarrow> bool"
    and cell :: "'s \<Rightarrow> 'k \<Rightarrow> 'c"
    and local_op :: "'e \<Rightarrow> 'c \<Rightarrow> 'a \<times> 'c"
  assumes inv_op: "inv s \<Longrightarrow> inv (snd (op e s))"
    and concerned_answer: "inv s \<Longrightarrow> concerns e k \<Longrightarrow> fst (op e s) = fst (local_op e (cell s k))"
    and concerned_cell: "inv s \<Longrightarrow> concerns e k \<Longrightarrow> cell (snd (op e s)) k = snd (local_op e (cell s k))"
    and unconcerned: "inv s \<Longrightarrow> \<not> concerns e k \<Longrightarrow> cell (snd (op e s)) k = cell s k"
begin

lemma inv_run: "inv s \<Longrightarrow> inv (run_state op es s)"
  by (induction es arbitrary: s) (simp_all add: inv_op)

lemma cell_run:
  "inv s \<Longrightarrow> cell (run_state op es s) k = run_state local_op (filter (\<lambda>e. concerns e k) es) (cell s k)"
  by (induction es arbitrary: s) (simp_all add: concerned_cell unconcerned inv_op)

lemma isolation:
  "inv s \<Longrightarrow> answers_to (\<lambda>e. concerns e k) es (run_answers op es s) =
     run_answers local_op (filter (\<lambda>e. concerns e k) es) (cell s k)"
proof (induction es arbitrary: s)
  case Nil
  then show ?case by simp
next
  case (Cons e es)
  note IH = Cons.IH [OF inv_op [OF Cons.prems], of e]
  show ?case
  proof (cases "concerns e k")
    case True
    then show ?thesis
      using IH concerned_answer [OF Cons.prems True] concerned_cell [OF Cons.prems True]
      by (simp add: split_beta)
  next
    case False
    then show ?thesis
      using IH unconcerned [OF Cons.prems False] by (simp add: split_beta)
  qed
qed

end

end
