(* ===== verification/RateLimit.thy ===== *)
theory RateLimit
  imports Access PerClient
begin

text \<open>
  \<open>server/internal/api/middleware/ratelimit.go\<close>: the in-memory limiters of the management API.  The three
  middlewares keep the same table of visitors and differ in the key of the client, the limit of the request
  and the headers; \<open>rl_allow\<close> is the critical section between \<open>Lock\<close> and \<open>Unlock\<close> they share, \<open>rl_cleanup\<close>
  the one of the ticker goroutine.  \<open>local_allow\<close> is what the section does to one visitor: the interpretation
  of \<open>per_client\<close> reduces every statement about a client to it.  Counters are assumed to stay below
  \<open>2\<^sup>6\<^sup>3\<close>.
\<close>

subsection \<open>The table of visitors\<close>

record visitor =
  v_count :: int
  v_resetAt :: gotime

type_synonym visitors = "string \<rightharpoonup> visitor"

definition AgentEvalRateLimit :: int where "AgentEvalRateLimit = 50000"
definition AgentManagementLimit :: int where "AgentManagementLimit = 10"

definition tierLimits :: "string \<rightharpoonup> int" where
  "tierLimits = map_of [(PlanFree, 100), (PlanTrial, 500), (PlanPro, 500), (PlanEnterprise, 2000)]"

record rl_outcome =
  rl_allowed :: bool
  rl_remaining :: int
  rl_resetAt :: gotime
  rl_retryAfter :: "int option"

definition rl_allow ::
    "duration \<Rightarrow> int \<Rightarrow> gotime \<Rightarrow> string \<Rightarrow> visitors \<Rightarrow> rl_outcome \<times> visitors" where
  "rl_allow window limit now key visitors =
     (let fresh = (\<lparr>rl_allowed = True, rl_remaining = limit - 1, rl_resetAt = now + window,
                    rl_retryAfter = None\<rparr>,
                   visitors(key \<mapsto> \<lparr>v_count = 1, v_resetAt = now + window\<rparr>))
      in case visitors key of
           None \<Rightarrow> fresh
         | Some v \<Rightarrow>
           (if v_resetAt v < now then fresh
            else
              (let v' = v\<lparr>v_count := v_count v + 1\<rparr>;
                   remaining = max 0 (limit - v_count v')
               in if limit < v_count v'
                  then (\<lparr>rl_allowed = False, rl_remaining = 0, rl_resetAt = v_resetAt v,
                         rl_retryAfter = Some (go_div (v_resetAt v - now) second + 1)\<rparr>,
                        visitors(key \<mapsto> v'))
                  else (\<lparr>rl_allowed = True, rl_remaining = remaining, rl_resetAt = v_resetAt v,
                         rl_retryAfter = None\<rparr>, visitors(key \<mapsto> v')))))"

text \<open>\<open>for k, v := range rl.visitors\<close> with a deletion of every expired visitor: the order is immaterial.\<close>

definition rl_cleanup :: "gotime \<Rightarrow> visitors \<Rightarrow> visitors" where
  "rl_cleanup now visitors =
     (\<lambda>k. case visitors k of None \<Rightarrow> None | Some v \<Rightarrow> if v_resetAt v < now then None else Some v)"

subsection \<open>The middlewares\<close>

text \<open>The answer of a limiter: the rate limit headers and whether the request goes on or is refused.\<close>

record rl_response =
  rr_gate :: gate
  rr_Limit :: int
  rr_Remaining :: int
  rr_ResetUnix :: int
  rr_RetryAfter :: "int option"
  rr_AgentLimited :: bool

text \<open>\<open>Time.Unix\<close>: whole seconds since 1970; Go's zero instant is the first of January of year 1.\<close>

definition unix_epoch :: gotime where
  "unix_epoch = 62135596800 * second"

definition unix_seconds :: "gotime \<Rightarrow> int" where
  "unix_seconds t = (t - unix_epoch) div second"

definition respond :: "http_request \<Rightarrow> int \<Rightarrow> string \<Rightarrow> bool \<Rightarrow> rl_outcome \<Rightarrow> rl_response" where
  "respond r limit message agent out =
     \<lparr>rr_gate = (if rl_allowed out then Next r else Reject StatusTooManyRequests message),
      rr_Limit = limit, rr_Remaining = rl_remaining out, rr_ResetUnix = unix_seconds (rl_resetAt out),
      rr_RetryAfter = rl_retryAfter out, rr_AgentLimited = agent\<rparr>"

definition client_key :: "http_request \<Rightarrow> string" where
  "client_key r =
     (let apiKey = req_Header r ''X-API-Key''
      in if apiKey \<noteq> [] then take (min 12 (length apiKey)) apiKey else req_RemoteAddr r)"

definition RateLimit :: "int \<Rightarrow> gotime \<Rightarrow> http_request \<Rightarrow> visitors \<Rightarrow> rl_response \<times> visitors" where
  "RateLimit requestsPerMinute now r visitors =
     (case rl_allow minute requestsPerMinute now (client_key r) visitors of
        (out, visitors') \<Rightarrow> (respond r requestsPerMinute ''rate limit exceeded'' False out, visitors'))"

definition tier_limit :: "(string \<Rightarrow> organization answer) \<Rightarrow> string \<Rightarrow> int" where
  "tier_limit getOrg orgID =
     (let limit = the (tierLimits PlanFree)
      in if orgID = [] then limit
         else
           (case getOrg orgID of
              Inl e \<Rightarrow> limit
            | Inr org \<Rightarrow> (case tierLimits (org_Plan org) of None \<Rightarrow> limit | Some l \<Rightarrow> l)))"

definition TierRateLimit ::
    "(string \<Rightarrow> organization answer) \<Rightarrow> gotime \<Rightarrow> http_request \<Rightarrow> visitors \<Rightarrow> rl_response \<times> visitors" where
  "TierRateLimit getOrg now r visitors =
     (let orgID = GetOrgID r;
          limit = tier_limit getOrg orgID;
          key = (if orgID = [] then req_RemoteAddr r else orgID)
      in case rl_allow minute limit now key visitors of
           (out, visitors') \<Rightarrow> (respond r limit ''rate limit exceeded'' False out, visitors'))"

definition agent_key :: "http_request \<Rightarrow> string" where
  "agent_key r = (if req_Header r ''X-Agent-Key'' = [] then req_RemoteAddr r else req_Header r ''X-Agent-Key'')"

definition AgentRateLimit :: "int \<Rightarrow> gotime \<Rightarrow> http_request \<Rightarrow> visitors \<Rightarrow> rl_response \<times> visitors" where
  "AgentRateLimit requestsPerMinute now r visitors =
     (case rl_allow minute requestsPerMinute now (agent_key r) visitors of
        (out, visitors') \<Rightarrow> (respond r requestsPerMinute ''agent rate limit exceeded'' True out, visitors'))"

subsection \<open>Events on the table\<close>

datatype rl_event = Request gotime string | Tick gotime

fun ev_time :: "rl_event \<Rightarrow> gotime" where
  "ev_time (Request t k) = t"
| "ev_time (Tick t) = t"

fun rl_event_step :: "duration \<Rightarrow> int \<Rightarrow> rl_event \<Rightarrow> visitors \<Rightarrow> bool \<times> visitors" where
  "rl_event_step window limit (Request now key) vs =
     (case rl_allow window limit now key vs of (out, vs') \<Rightarrow> (rl_allowed out, vs'))"
| "rl_event_step window limit (Tick now) vs = (False, rl_cleanup now vs)"

fun rl_concerns :: "rl_event \<Rightarrow> string \<Rightarrow> bool" where
  "rl_concerns (Request t key) k \<longleftrightarrow> key = k"
| "rl_concerns (Tick t) k \<longleftrightarrow> True"

text \<open>What an event does to one visitor.\<close>

fun local_allow :: "duration \<Rightarrow> int \<Rightarrow> rl_event \<Rightarrow> visitor option \<Rightarrow> bool \<times> visitor option" where
  "local_allow window limit (Request now key) c =
     (case c of
        None \<Rightarrow> (True, Some \<lparr>v_count = 1, v_resetAt = now + window\<rparr>)
      | Some v \<Rightarrow>
        (if v_resetAt v < now then (True, Some \<lparr>v_count = 1, v_resetAt = now + window\<rparr>)
         else (v_count v + 1 \<le> limit, Some (v\<lparr>v_count := v_count v + 1\<rparr>))))"
| "local_allow window limit (Tick now) c =
     (False, case c of None \<Rightarrow> None | Some v \<Rightarrow> if v_resetAt v < now then None else Some v)"

interpretation visitors: per_client "\<lambda>_. True" "rl_event_step window limit" rl_concerns "\<lambda>vs k. vs k"
  "local_allow window limit"
proof
  fix e k and vs :: visitors
  show True ..
  show "rl_concerns e k \<Longrightarrow> fst (rl_event_step window limit e vs) = fst (local_allow window limit e (vs k))"
    by (cases e) (auto simp: rl_allow_def Let_def split: option.splits)
  show "rl_concerns e k \<Longrightarrow> snd (rl_event_step window limit e vs) k = snd (local_allow window limit e (vs k))"
    by (cases e) (auto simp: rl_allow_def rl_cleanup_def Let_def split: option.splits)
  show "\<not> rl_concerns e k \<Longrightarrow> snd (rl_event_step window limit e vs) k = vs k"
    by (cases e) (auto simp: rl_allow_def Let_def split: option.splits)
qed

subsection \<open>Bounds\<close>

definition allowed :: "bool list \<Rightarrow> nat" where
  "allowed as = length (filter (\<lambda>a. a) as)"

lemma allowed_simps [simp]:
  "allowed [] = 0" "allowed (a # as) = (if a then Suc (allowed as) else allowed as)"
  by (simp_all add: allowed_def)

lemma allowed_append [simp]: "allowed (as @ bs) = allowed as + allowed bs"
  by (simp add: allowed_def)

definition requests :: "rl_event list \<Rightarrow> nat" where
  "requests es = length (filter (\<lambda>e. \<exists>t k. e = Request t k) es)"

lemma requests_simps [simp]:
  "requests [] = 0" "requests (Request t k # es) = Suc (requests es)" "requests (Tick t # es) = requests es"
  by (simp_all add: requests_def)

text \<open>Within its window a visitor is neither reset nor cleaned up, and passes up to the limit.\<close>

lemma local_window:
  assumes "\<forall>e\<in>set es. ev_time e \<le> R" "0 \<le> n"
  shows "allowed (run_answers (local_allow window limit) es (Some \<lparr>v_count = n, v_resetAt = R\<rparr>)) =
           min (requests es) (nat (limit - n))"
  using assms
proof (induction es arbitrary: n)
  case Nil
  then show ?case by simp
next
  case (Cons e es)
  show ?case
  proof (cases e)
    case (Request t k)
    then show ?thesis using Cons.IH [of "n + 1"] Cons.prems by auto
  next
    case (Tick t)
    then show ?thesis using Cons.IH [of n] Cons.prems by auto
  qed
qed

text \<open>A visitor whose window is over, or that is unknown, starts a window at its first request.\<close>

definition window_over :: "gotime \<Rightarrow> visitor option \<Rightarrow> bool" where
  "window_over t c \<longleftrightarrow> (case c of None \<Rightarrow> True | Some v \<Rightarrow> v_resetAt v < t)"

lemma local_fresh:
  assumes "\<forall>e\<in>set es. t0 \<le> ev_time e \<and> ev_time e \<le> t0 + window" "window_over t0 c" "1 \<le> limit" "0 \<le> window"
  shows "allowed (run_answers (local_allow window limit) es c) = min (requests es) (nat limit)"
  using assms
proof (induction es arbitrary: c)
  case Nil
  then show ?case by simp
next
  case (Cons e es)
  show ?case
  proof (cases e)
    case (Request t k)
    have in_window: "\<forall>e\<in>set es. ev_time e \<le> t + window"
      using Cons.prems(1) Request by force
    have "local_allow window limit e c = (True, Some \<lparr>v_count = 1, v_resetAt = t + window\<rparr>)"
      using Request Cons.prems(1,2) by (auto simp: window_over_def split: option.splits)
    then show ?thesis
      using local_window [OF in_window, of 1 window limit] Cons.prems(3) Request by auto
  next
    case (Tick t)
    then have "local_allow window limit e c = (False, None)"
      using Cons.prems(1,2) by (auto simp: window_over_def split: option.splits)
    moreover have "window_over t0 None" by (simp add: window_over_def)
    ultimately show ?thesis using Cons.IH [of None] Cons.prems Tick by simp
  qed
qed

fun sorted_events :: "rl_event list \<Rightarrow> bool" where
  "sorted_events [] \<longleftrightarrow> True"
| "sorted_events (e # es) \<longleftrightarrow> (\<forall>e'\<in>set es. ev_time e \<le> ev_time e') \<and> sorted_events es"

lemma sorted_events_filter: "sorted_events es \<Longrightarrow> sorted_events (filter P es)"
  by (induction es) auto

lemma sorted_events_dropWhile: "sorted_events es \<Longrightarrow> sorted_events (dropWhile P es)"
  by (induction es) auto

lemma dropWhile_head: "dropWhile P xs = y # ys \<Longrightarrow> \<not> P y"
  by (induction xs) (auto split: if_splits)

text \<open>In any stretch of one window a client can meet at most one reset, so at most twice the limit.\<close>

lemma local_twice:
  assumes "sorted_events es" "\<forall>e\<in>set es. t0 \<le> ev_time e \<and> ev_time e \<le> t0 + window"
    and "case c of None \<Rightarrow> True | Some v \<Rightarrow> 0 \<le> v_count v" "1 \<le> limit" "0 \<le> window"
  shows "allowed (run_answers (local_allow window limit) es c) \<le> 2 * nat limit"
proof (cases c)
  case None
  then show ?thesis
    using local_fresh [OF assms(2) _ assms(4,5), of c] by (simp add: window_over_def)
next
  case (Some v)
  define early where "early = takeWhile (\<lambda>e. ev_time e \<le> v_resetAt v) es"
  define late where "late = dropWhile (\<lambda>e. ev_time e \<le> v_resetAt v) es"
  have es: "es = early @ late" by (simp add: early_def late_def)
  have in_window: "\<forall>e\<in>set early. ev_time e \<le> v_resetAt v"
    by (auto simp: early_def dest: set_takeWhileD)
  have eta: "\<lparr>v_count = v_count v, v_resetAt = v_resetAt v\<rparr> = v" by simp
  have e_bound: "allowed (run_answers (local_allow window limit) early (Some v)) \<le> nat limit"
    using local_window [OF in_window, of "v_count v" window limit] assms(3) Some
    by (simp add: eta)
  have l_bound: "allowed (run_answers (local_allow window limit) late c') \<le> nat limit"
    if c': "c' = None \<or> (\<exists>n. c' = Some \<lparr>v_count = n, v_resetAt = v_resetAt v\<rparr>)" for c'
  proof (cases late)
    case Nil
    then show ?thesis by simp
  next
    case (Cons e rest)
    have after: "\<not> ev_time e \<le> v_resetAt v"
      using Cons unfolding late_def by (rule dropWhile_head)
    have "sorted_events late"
      unfolding late_def by (rule sorted_events_dropWhile [OF assms(1)])
    then have "\<forall>e'\<in>set late. v_resetAt v + 1 \<le> ev_time e'"
      using after Cons by fastforce
    moreover have "\<forall>e'\<in>set late. t0 \<le> ev_time e' \<and> ev_time e' \<le> t0 + window"
      using assms(2) es by simp
    ultimately have "\<forall>e'\<in>set late. max t0 (v_resetAt v + 1) \<le> ev_time e' \<and>
        ev_time e' \<le> max t0 (v_resetAt v + 1) + window"
      by fastforce
    from local_fresh [OF this _ assms(4,5), of c'] c' show ?thesis
      by (auto simp: window_over_def)
  qed
  have mid: "run_state (local_allow window limit) early (Some v) = None \<or>
      (\<exists>n. run_state (local_allow window limit) early (Some v) = Some \<lparr>v_count = n, v_resetAt = v_resetAt v\<rparr>)"
  proof -
    have "\<exists>n. run_state (local_allow window limit) xs (Some \<lparr>v_count = m, v_resetAt = R\<rparr>) =
            Some \<lparr>v_count = n, v_resetAt = R\<rparr>" if "\<forall>e\<in>set xs. ev_time e \<le> R" for xs m R
      using that
    proof (induction xs arbitrary: m)
      case (Cons e xs)
      then show ?case by (cases e) auto
    qed simp
    from this [OF in_window, of "v_count v"] show ?thesis
      by (simp add: eta)
  qed
  from e_bound l_bound [OF mid] show ?thesis
    by (simp add: es run_answers_append Some)
qed

text \<open>The answers to the requests of one client in a run of the whole table.\<close>

definition client_answers ::
    "duration \<Rightarrow> int \<Rightarrow> string \<Rightarrow> rl_event list \<Rightarrow> visitors \<Rightarrow> bool list" where
  "client_answers window limit k es vs =
     answers_to (\<lambda>e. rl_concerns e k) es (run_answers (rl_event_step window limit) es vs)"

lemma client_answers_local:
  "client_answers window limit k es vs =
     run_answers (local_allow window limit) (filter (\<lambda>e. rl_concerns e k) es) (vs k)"
  unfolding client_answers_def by (rule visitors.isolation) simp

definition requests_by :: "string \<Rightarrow> rl_event list \<Rightarrow> nat" where
  "requests_by k es = length (filter (\<lambda>e. \<exists>t. e = Request t k) es)"

lemma requests_concerned: "requests (filter (\<lambda>e. rl_concerns e k) es) = requests_by k es"
proof (induction es)
  case (Cons e es)
  then show ?case by (cases e) (auto simp: requests_by_def)
qed (simp add: requests_by_def)

text \<open>
  C21: within one window a client gets exactly what it asks for up to its limit.  However many other clients
  there are and whenever the cleanup runs, of the requests a client makes from \<open>t0\<close> on, when its last
  window is over, to the end of the window, the first \<open>limit\<close> pass and the rest are refused.
\<close>

theorem rate_limit_window_exact:
  assumes "\<forall>e\<in>set es. t0 \<le> ev_time e \<and> ev_time e \<le> t0 + window" and "window_over t0 (vs k)"
    and "1 \<le> limit" and "0 \<le> window"
  shows "allowed (client_answers window limit k es vs) = min (requests_by k es) (nat limit)"
  using local_fresh [of "filter (\<lambda>e. rl_concerns e k) es" t0 window "vs k" limit] assms
  by (simp add: client_answers_local requests_concerned)

theorem rate_limit_window_exact_witness:
  "allowed (client_answers minute 2 ''a''
     [Request 0 ''a'', Request 1 ''b'', Request 2 ''a'', Tick 3, Request 4 ''a''] Map.empty) = 2"
  using rate_limit_window_exact [of "[Request 0 ''a'', Request 1 ''b'', Request 2 ''a'', Tick 3, Request 4 ''a'']"
      0 minute Map.empty "''a''" 2]
  by (simp add: window_over_def requests_by_def go_simps)

text \<open>
  The limiter counts in fixed windows, so what is guaranteed for an arbitrary stretch of one window is
  twice the limit, not the limit: no client ever gets more than that, from any state of the table.
\<close>

theorem rate_limit_twice_bound:
  assumes "sorted_events es" and "\<forall>e\<in>set es. t0 \<le> ev_time e \<and> ev_time e \<le> t0 + window"
    and "\<forall>v\<in>ran vs. 0 \<le> v_count v" and "1 \<le> limit" and "0 \<le> window"
  shows "allowed (client_answers window limit k es vs) \<le> 2 * nat limit"
  unfolding client_answers_local
proof (rule local_twice [OF _ _ _ assms(4,5)])
  show "sorted_events (filter (\<lambda>e. rl_concerns e k) es)"
    by (rule sorted_events_filter [OF assms(1)])
  show "\<forall>e\<in>set (filter (\<lambda>e. rl_concerns e k) es). t0 \<le> ev_time e \<and> ev_time e \<le> t0 + window"
    using assms(2) by simp
  show "case vs k of None \<Rightarrow> True | Some v \<Rightarrow> 0 \<le> v_count v"
    using assms(3) by (auto simp: ran_def split: option.splits)
qed

text \<open>And the bound is met: two nanoseconds can see twice the limit.\<close>

definition boundary_burst :: "rl_event list" where
  "boundary_burst = [Request minute ''a'', Request minute ''a'', Request (minute + 1) ''a'',
     Request (minute + 1) ''a'', Request (minute + 1) ''a'']"

definition after_first :: visitors where
  "after_first = [''a'' \<mapsto> \<lparr>v_count = 0, v_resetAt = minute\<rparr>]"

theorem rate_limit_twice_bound_witness:
  "allowed (client_answers minute 2 ''a'' boundary_burst after_first) \<le> 4 \<and>
   allowed (client_answers minute 2 ''a'' boundary_burst after_first) = 4"
proof
  show "allowed (client_answers minute 2 ''a'' boundary_burst after_first) \<le> 4"
    using rate_limit_twice_bound [of boundary_burst minute minute after_first 2 "''a''"]
    by (simp add: boundary_burst_def after_first_def go_simps)
  show "allowed (client_answers minute 2 ''a'' boundary_burst after_first) = 4"
    by (simp add: client_answers_local boundary_burst_def after_first_def go_simps)
qed

end
