(* ===== verification/RouterLimits.thy ===== *)
theory RouterLimits
  imports HttpModel PerClient "HOL-Library.AList"
begin

text \<open>
  The global router, \<open>deploy/global-router/security.go\<close> and the parts of \<open>router.go\<close> that configure and
  route: the per IP sliding window limiter with its eviction and cleanup, the limiter of concurrent
  connections, the token check of operations domains, and the helpers of the middleware chain.  The table of
  requests is an association list in the order Go happens to iterate over the map.  Taking the front of an
  empty list is a panic in Go, the answer \<open>None\<close> here.
\<close>

subsection \<open>Sliding window limiter\<close>

record limiter_config =
  lim_limit :: int
  lim_window :: duration
  lim_maxIPs :: int

type_synonym request_table = "(string, gotime list) gomap"

record rate_answer =
  ra_allowed :: bool
  ra_remaining :: int
  ra_reset :: gotime
  ra_retryAfter :: duration

text \<open>One pass over the table: drop the empty lists, find the address whose first request is the oldest.\<close>

fun evict_scan ::
    "request_table \<Rightarrow> (string \<times> gotime) option \<Rightarrow> (string \<times> gotime) option \<times> request_table" where
  "evict_scan [] oldest = (oldest, [])"
| "evict_scan ((ipKey, ipList) # m) oldest =
     (case ipList of
        [] \<Rightarrow> evict_scan m oldest
      | t # _ \<Rightarrow>
        (let oldest' = (case oldest of None \<Rightarrow> Some (ipKey, t)
                        | Some (ip, t') \<Rightarrow> if t < t' then Some (ipKey, t) else oldest)
         in case evict_scan m oldest' of (res, m') \<Rightarrow> (res, (ipKey, ipList) # m')))"

definition evict :: "request_table \<Rightarrow> request_table" where
  "evict m =
     (case evict_scan m None of
        (None, m') \<Rightarrow> m'
      | (Some (ip, t), m') \<Rightarrow> if ip \<noteq> [] then AList.delete ip m' else m')"

definition ip_list :: "request_table \<Rightarrow> string \<Rightarrow> gotime list" where
  "ip_list m ip = (case map_of m ip of None \<Rightarrow> [] | Some l \<Rightarrow> l)"

definition Allow ::
    "limiter_config \<Rightarrow> gotime \<Rightarrow> string \<Rightarrow> request_table \<Rightarrow> (rate_answer \<times> request_table) option" where
  "Allow rl now ip requests =
     (let windowStart = now - lim_window rl;
          reset = now + lim_window rl;
          l = dropWhile (\<lambda>t. t < windowStart) (ip_list requests ip)
      in if lim_limit rl \<le> int (length l) then
           (case l of
              [] \<Rightarrow> None
            | oldest # _ \<Rightarrow>
                Some (\<lparr>ra_allowed = False, ra_remaining = 0, ra_reset = reset,
                       ra_retryAfter = lim_window rl - (now - oldest)\<rparr>, AList.update ip l requests))
         else
           (let l' = l @ [now];
                requests' = AList.update ip l' requests;
                answer = \<lparr>ra_allowed = True, ra_remaining = lim_limit rl - int (length l'),
                          ra_reset = reset, ra_retryAfter = 0\<rparr>
            in Some (answer,
                 if 0 < lim_maxIPs rl \<and> lim_maxIPs rl < int (length requests') then evict requests'
                 else requests')))"

definition CleanupLoop :: "limiter_config \<Rightarrow> gotime \<Rightarrow> request_table \<Rightarrow> request_table" where
  "CleanupLoop rl now requests =
     filter (\<lambda>(ip, l). l \<noteq> [] \<and> \<not> hd l < now - 2 * lim_window rl) requests"

subsection \<open>Concurrent connections\<close>

type_synonym conn_table = "string \<rightharpoonup> int"

definition conns_of :: "conn_table \<Rightarrow> string \<Rightarrow> int" where
  "conns_of conns ip = (case conns ip of None \<Rightarrow> 0 | Some n \<Rightarrow> n)"

definition Acquire :: "int \<Rightarrow> string \<Rightarrow> conn_table \<Rightarrow> bool \<times> conn_table" where
  "Acquire max_conns ip conns =
     (if max_conns \<le> conns_of conns ip then (False, conns)
      else (True, conns(ip \<mapsto> conns_of conns ip + 1)))"

definition Release :: "string \<Rightarrow> conn_table \<Rightarrow> conn_table" where
  "Release ip conns =
     (let n = conns_of conns ip - 1 in if n \<le> 0 then conns(ip := None) else conns(ip \<mapsto> n))"

text \<open>
  \<open>connLimitMiddleware\<close> around handlers that take time: a request enters if it acquires a slot, is refused
  otherwise, and releases the slot when its handler returns.  \<open>inflight\<close> counts the handlers that run.
\<close>

inductive conn_step :: "int \<Rightarrow> conn_table \<times> (string \<Rightarrow> nat) \<Rightarrow> conn_table \<times> (string \<Rightarrow> nat) \<Rightarrow> bool"
  for max_conns where
  enter: "Acquire max_conns ip conns = (True, conns') \<Longrightarrow>
    conn_step max_conns (conns, inflight) (conns', inflight(ip := Suc (inflight ip)))"
| refuse: "Acquire max_conns ip conns = (False, conns') \<Longrightarrow>
    conn_step max_conns (conns, inflight) (conns', inflight)"
| leave: "0 < inflight ip \<Longrightarrow>
    conn_step max_conns (conns, inflight) (Release ip conns, inflight(ip := inflight ip - 1))"

inductive_cases conn_stepE: "conn_step max_conns s s'"

subsection \<open>Operations token\<close>

text \<open>\<open>sha\<close> is the hexadecimal SHA-256 of a token, \<open>fold_eq\<close> is \<open>strings.EqualFold\<close>.\<close>

definition opsAuth ::
    "(string \<Rightarrow> string) \<Rightarrow> (string \<Rightarrow> string \<Rightarrow> bool) \<Rightarrow> string \<Rightarrow> http_middleware" where
  "opsAuth sha fold_eq tokenHash r =
     (let authHeader = req_Header r ''Authorization''
      in if tokenHash = [] then Reject StatusUnauthorized ''ops authentication not configured''
         else if authHeader = [] then Reject StatusUnauthorized ''missing Authorization header''
         else if \<not> has_prefix authHeader ''Bearer ''
         then Reject StatusUnauthorized ''invalid Authorization header format, expected Bearer token''
         else
           (let token = drop 7 authHeader
            in if token = [] then Reject StatusUnauthorized ''empty bearer token''
               else if \<not> fold_eq (sha token) tokenHash then Reject StatusUnauthorized ''unauthorized''
               else Next r))"

subsection \<open>Helpers\<close>

definition staticAssetExtensions :: "string list" where
  "staticAssetExtensions = [''.js'', ''.css'', ''.png'', ''.jpg'', ''.jpeg'', ''.gif'', ''.ico'', ''.svg'',
     ''.woff'', ''.woff2'', ''.ttf'', ''.eot'', ''.webp'', ''.avif'', ''.json'', ''.txt'', ''.xml'', ''.map'',
     ''.pdf'']"

definition isStaticAsset :: "(string \<Rightarrow> string) \<Rightarrow> string \<Rightarrow> bool" where
  "isStaticAsset to_lower path =
     (let lower = to_lower path
      in list_ex (\<lambda>ext. has_suffix lower ext) staticAssetExtensions \<or>
         str_contains lower ''/_next/'' \<or> str_contains lower ''/assets/'' \<or> str_contains lower ''/static/'')"

definition isMethodAllowed :: "string \<Rightarrow> bool" where
  "isMethodAllowed m \<longleftrightarrow>
     m \<in> set [MethodGet, MethodHead, MethodPost, MethodPut, MethodPatch, MethodDelete, MethodOptions]"

definition badUserAgents :: "string list" where
  "badUserAgents = [''nikto'', ''nmap'', ''gobuster'', ''dirbuster'', ''wfuzz'', ''sqlmap'', ''acunetix'',
     ''nessus'', ''openvas'', ''burpsuite'', ''zap'']"

definition isBadUserAgent :: "(string \<Rightarrow> string) \<Rightarrow> string \<Rightarrow> bool" where
  "isBadUserAgent to_lower ua = list_ex (\<lambda>bad. str_contains (to_lower ua) bad) badUserAgents"

text \<open>\<open>strings.TrimSpace\<close> is the parameter \<open>trim\<close>.\<close>

definition isInspectableContentType :: "(string \<Rightarrow> string) \<Rightarrow> string \<Rightarrow> bool" where
  "isInspectableContentType trim ct =
     (let ct = (if CHR '';'' \<in> set ct then trim (takeWhile (\<lambda>c. c \<noteq> CHR '';'') ct) else ct)
      in ct = ''application/json'' \<or> ct = ''application/x-www-form-urlencoded'' \<or> ct = ''text/plain'')"

text \<open>The three patterns of the firewall are parameters; \<open>body\<close> is \<open>None\<close> when reading it fails.\<close>

record waf =
  waf_sqli :: "string \<Rightarrow> bool"
  waf_xss :: "string \<Rightarrow> bool"
  waf_traversal :: "string \<Rightarrow> bool"
  waf_lower :: "string \<Rightarrow> string"
  waf_trim :: "string \<Rightarrow> string"

definition inspectBody :: "waf \<Rightarrow> string \<Rightarrow> int \<Rightarrow> string option \<Rightarrow> bool" where
  "inspectBody f contentType contentLength body =
     (if \<not> isInspectableContentType (waf_trim f) contentType then True
      else if 65536 < contentLength then True
      else
        (case body of
           None \<Rightarrow> False
         | Some s \<Rightarrow> \<not> (waf_sqli f s \<or> waf_xss f s \<or> waf_traversal f s)))"

definition wafMiddleware :: "waf \<Rightarrow> int \<Rightarrow> string option \<Rightarrow> string \<Rightarrow> http_request \<Rightarrow> gate" where
  "wafMiddleware f contentLength body uri r =
     (let ua = req_Header r ''User-Agent''
      in if \<not> isMethodAllowed (req_Method r) then Reject 405 ''405 Method Not Allowed''
         else if ua \<noteq> [] \<and> isBadUserAgent (waf_lower f) ua then Reject StatusForbidden ''403 Forbidden''
         else if \<not> inspectBody f (req_Header r ''Content-Type'') contentLength body
         then Reject StatusForbidden ''403 Forbidden''
         else if waf_sqli f uri then Reject StatusForbidden ''403 Forbidden''
         else if waf_traversal f uri then Reject StatusForbidden ''403 Forbidden''
         else if waf_xss f uri then Reject StatusForbidden ''403 Forbidden''
         else Next r)"

definition router_extractIP :: "(string \<Rightarrow> string) \<Rightarrow> (string \<Rightarrow> string) \<Rightarrow> http_request \<Rightarrow> string" where
  "router_extractIP trim split_host r =
     (let xff = req_Header r ''X-Forwarded-For''; xri = req_Header r ''X-Real-IP''
      in if xff \<noteq> [] then trim (hd (split_on CHR '','' xff))
         else if xri \<noteq> [] then xri
         else split_host (req_RemoteAddr r))"

definition stripPort :: "string \<Rightarrow> string" where
  "stripPort host = takeWhile (\<lambda>c. c \<noteq> CHR '':'') host"

subsection \<open>Configuration and routing\<close>

text \<open>Go's loop over the digits, with 64 bit wrap-around; 0 falls back to 100.\<close>

definition is_digit :: "char \<Rightarrow> bool" where
  "is_digit c \<longleftrightarrow> CHR ''0'' \<le> c \<and> c \<le> CHR ''9''"

fun atoi_loop :: "string \<Rightarrow> int \<Rightarrow> int" where
  "atoi_loop [] n = n"
| "atoi_loop (c # cs) n =
     (if is_digit c then atoi_loop cs (wrap64 (n * 10 + (int (of_char c) - 48))) else n)"

definition atoi :: "string \<Rightarrow> int" where
  "atoi s = (let n = atoi_loop s 0 in if n = 0 then 100 else n)"

definition parseRateLimit :: "string \<Rightarrow> int \<times> duration" where
  "parseRateLimit s =
     (case dropWhile (\<lambda>c. c \<noteq> CHR ''/'') s of
        [] \<Rightarrow> (100, minute)
      | _ # unit \<Rightarrow>
        (let n = atoi (takeWhile (\<lambda>c. c \<noteq> CHR ''/'') s)
         in if unit = ''min'' then (n, minute)
            else if unit = ''sec'' \<or> unit = ''s'' then (n, second)
            else (n, minute)))"

record route_domain =
  dom_Name :: string
  dom_Type :: string
  dom_Auth :: string

datatype route =
    HealthRoute
  | MetricsRoute
  | StaticRoute string
  | ProxyRoute string
  | RouteError nat
  | AuthRejected

fun domain_loop ::
    "(http_request \<Rightarrow> gate) \<Rightarrow> route_domain list \<Rightarrow> string \<Rightarrow> http_request \<Rightarrow> route" where
  "domain_loop auth [] host r = RouteError 404"
| "domain_loop auth (d # ds) host r =
     (if dom_Name d = host then
        (if dom_Type d = ''static'' \<or> dom_Type d = ''proxy'' then
           (if dom_Auth d = ''ops'' \<and> \<not> passes_gate (auth r) then AuthRejected
            else if dom_Type d = ''static'' then StaticRoute (dom_Name d) else ProxyRoute (dom_Name d))
         else RouteError 502)
      else domain_loop auth ds host r)"

definition ServeHTTP ::
    "(http_request \<Rightarrow> gate) \<Rightarrow> route_domain list \<Rightarrow> string \<Rightarrow> http_request \<Rightarrow> route" where
  "ServeHTTP auth domains hostHeader r =
     (if req_Path r = ''/ops/health'' then HealthRoute
      else if req_Path r = ''/ops/metrics'' then MetricsRoute
      else domain_loop auth domains (stripPort hostHeader) r)"

text \<open>\<open>rateLimitMiddleware\<close>: the limiter of the domain, or the default one.\<close>

definition rateLimitMiddleware ::
    "(string \<Rightarrow> string) \<Rightarrow> limiter_config \<Rightarrow> gotime \<Rightarrow> string \<Rightarrow> http_request \<Rightarrow> request_table \<Rightarrow>
     (gate \<times> request_table) option" where
  "rateLimitMiddleware to_lower rl now ip r requests =
     (if isStaticAsset to_lower (req_Path r) then Some (Next r, requests)
      else
        (case Allow rl now ip requests of
           None \<Rightarrow> None
         | Some (a, requests') \<Rightarrow>
             Some (if ra_allowed a then Next r else Reject StatusTooManyRequests ''429 Too Many Requests'',
                   requests')))"

end
