(* ===== verification/RouterLaws.thy ===== *)
theory RouterLaws
  imports RouterLimits
begin

text \<open>
  What the router's limiters guarantee: no stretch of one window holds more than \<open>limit\<close> admitted requests
  of an address, and as many again each time the full table forgets it, whatever the other addresses and the
  cleanup do; concurrent
  connections stay within the maximum; and the configured limits are positive, which the limiter needs.
\<close>

subsection \<open>One address\<close>

datatype router_event = Ask gotime string | Sweep gotime

fun re_time :: "router_event \<Rightarrow> gotime" where
  "re_time (Ask t ip) = t"
| "re_time (Sweep t) = t"

fun re_concerns :: "router_event \<Rightarrow> string \<Rightarrow> bool" where
  "re_concerns (Ask t ip) k \<longleftrightarrow> ip = k"
| "re_concerns (Sweep t) k \<longleftrightarrow> True"

text \<open>The answer of a request; a request that panics gets none and leaves the table as it was.\<close>

fun router_op :: "limiter_config \<Rightarrow> router_event \<Rightarrow> request_table \<Rightarrow> bool option \<times> request_table" where
  "router_op rl (Ask now ip) m =
     (case Allow rl now ip m of None \<Rightarrow> (None, m) | Some (a, m') \<Rightarrow> (Some (ra_allowed a), m'))"
| "router_op rl (Sweep now) m = (None, CleanupLoop rl now m)"

fun local_router :: "limiter_config \<Rightarrow> router_event \<Rightarrow> gotime list \<Rightarrow> bool option \<times> gotime list" where
  "local_router rl (Ask now ip) c =
     (let l = dropWhile (\<lambda>t. t < now - lim_window rl) c
      in if lim_limit rl \<le> int (length l)
         then (case l of [] \<Rightarrow> (None, c) | _ \<Rightarrow> (Some False, l))
         else (Some True, l @ [now]))"
| "local_router rl (Sweep now) c =
     (None, if c \<noteq> [] \<and> \<not> hd c < now - 2 * lim_window rl then c else [])"

lemma ip_list_update: "ip_list (AList.update k l m) j = (if j = k then l else ip_list m j)"
  by (simp add: ip_list_def update_conv')

lemma ip_list_filter:
  "well_keyed m \<Longrightarrow> \<not> P (k, []) \<Longrightarrow>
     ip_list (filter P m) k = (if P (k, ip_list m k) then ip_list m k else [])"
proof (induction m)
  case Nil
  then show ?case by (simp add: ip_list_def)
next
  case (Cons e m)
  obtain ip l where e: "e = (ip, l)" by force
  have wk: "well_keyed m" "ip \<notin> fst ` set m"
    using Cons.prems(1) by (simp_all add: well_keyed_def e)
  have none: "map_of (filter P m) ip = None"
    using wk(2) by (auto simp: map_of_eq_None_iff)
  show ?case
  proof (cases "k = ip")
    case True
    then show ?thesis using none Cons.prems by (auto simp: ip_list_def e)
  next
    case False
    then show ?thesis using Cons.IH [OF wk(1) Cons.prems(2)] by (simp add: ip_list_def e)
  qed
qed

lemma well_keyed_update: "well_keyed m \<Longrightarrow> well_keyed (AList.update k v m)"
  by (simp add: well_keyed_def distinct_update)

lemma well_keyed_filter: "well_keyed m \<Longrightarrow> well_keyed (filter P m)"
  by (simp add: well_keyed_def distinct_map_filter)

text \<open>A pass over the table forgets at most an address: every list stays as it is or becomes empty.\<close>

lemma evict_scan_table:
  "well_keyed m \<Longrightarrow> snd (evict_scan m oldest) = filter (\<lambda>e. snd e \<noteq> []) m"
proof (induction m oldest rule: evict_scan.induct)
  case (2 k l m oldest)
  from 2(3) have "well_keyed m" by (simp add: well_keyed_def)
  with 2(1,2) show ?case by (cases l) (simp_all add: Let_def split_beta)
qed simp

lemma evict_keeps:
  assumes "well_keyed m"
  shows "well_keyed (evict m)" "ip_list (evict m) k \<noteq> [] \<Longrightarrow> ip_list (evict m) k = ip_list m k"
proof -
  let ?m = "filter (\<lambda>e. snd e \<noteq> []) m"
  have wk: "well_keyed ?m" by (rule well_keyed_filter [OF assms])
  have keep: "ip_list ?m k = ip_list m k"
    using ip_list_filter [where P = "\<lambda>e. snd e \<noteq> []", OF assms] by (simp split: if_splits)
  obtain res where scan: "evict_scan m None = (res, ?m)"
    using evict_scan_table [OF assms, of None] by (metis prod.collapse)
  have del: "ip_list (AList.delete ip ?m) k = (if k = ip then [] else ip_list ?m k)" for ip
    by (simp add: ip_list_def delete_conv')
  show "well_keyed (evict m)"
    using wk by (auto simp: evict_def scan well_keyed_def distinct_delete split: option.split)
  show "ip_list (evict m) k \<noteq> [] \<Longrightarrow> ip_list (evict m) k = ip_list m k"
    by (auto simp: evict_def scan keep del split: option.splits if_splits)
qed

lemma Allow_step:
  assumes "well_keyed m"
  shows "well_keyed (snd (router_op rl (Ask now ip) m))"
    and "fst (router_op rl (Ask now ip) m) = fst (local_router rl (Ask now ip) (ip_list m ip))"
    and "ip_list (snd (router_op rl (Ask now ip) m)) k \<noteq> [] \<Longrightarrow>
      ip_list (snd (router_op rl (Ask now ip) m)) k =
        (if k = ip then snd (local_router rl (Ask now ip) (ip_list m ip)) else ip_list m k)"
proof -
  let ?l = "dropWhile (\<lambda>t. t < now - lim_window rl) (ip_list m ip)"
  let ?full = "\<lambda>r. 0 < lim_maxIPs rl \<and> lim_maxIPs rl < int (length r)"
  have wk: "well_keyed (AList.update ip l m)" for l
    by (rule well_keyed_update [OF assms])
  consider (panic) "lim_limit rl \<le> int (length ?l)" "?l = []"
    | (refuse) x xs where "lim_limit rl \<le> int (length ?l)" "?l = x # xs"
    | (admit) "\<not> lim_limit rl \<le> int (length ?l)"
    by (cases ?l) blast+
  then have "well_keyed (snd (router_op rl (Ask now ip) m)) \<and>
    fst (router_op rl (Ask now ip) m) = fst (local_router rl (Ask now ip) (ip_list m ip)) \<and>
    (ip_list (snd (router_op rl (Ask now ip) m)) k \<noteq> [] \<longrightarrow>
      ip_list (snd (router_op rl (Ask now ip) m)) k =
        (if k = ip then snd (local_router rl (Ask now ip) (ip_list m ip)) else ip_list m k))"
  proof cases
    case panic
    then have "router_op rl (Ask now ip) m = (None, m)"
      "local_router rl (Ask now ip) (ip_list m ip) = (None, ip_list m ip)"
      by (simp_all add: Allow_def Let_def del: dropWhile_eq_Nil_conv)
    then show ?thesis using assms by simp
  next
    case refuse
    then have "router_op rl (Ask now ip) m = (Some False, AList.update ip ?l m)"
      "local_router rl (Ask now ip) (ip_list m ip) = (Some False, ?l)"
      by (simp_all add: Allow_def Let_def)
    then show ?thesis using wk by (simp add: ip_list_update)
  next
    case admit
    let ?r = "AList.update ip (?l @ [now]) m"
    have eqs: "router_op rl (Ask now ip) m = (Some True, if ?full ?r then evict ?r else ?r)"
      "local_router rl (Ask now ip) (ip_list m ip) = (Some True, ?l @ [now])"
      using admit by (simp_all add: Allow_def Let_def)
    show ?thesis
      unfolding eqs fst_conv snd_conv
      using evict_keeps [OF wk [of "?l @ [now]"]] wk by (auto simp: ip_list_update)
  qed
  then show "well_keyed (snd (router_op rl (Ask now ip) m))"
    "fst (router_op rl (Ask now ip) m) = fst (local_router rl (Ask now ip) (ip_list m ip))"
    "ip_list (snd (router_op rl (Ask now ip) m)) k \<noteq> [] \<Longrightarrow>
      ip_list (snd (router_op rl (Ask now ip) m)) k =
        (if k = ip then snd (local_router rl (Ask now ip) (ip_list m ip)) else ip_list m k)"
    by blast+
qed

lemma Sweep_step:
  assumes "well_keyed m"
  shows "well_keyed (snd (router_op rl (Sweep now) m))"
    and "ip_list (snd (router_op rl (Sweep now) m)) k = snd (local_router rl (Sweep now) (ip_list m k))"
  by (simp_all add: CleanupLoop_def ip_list_filter [OF assms] well_keyed_filter [OF assms])

subsection \<open>The window\<close>

text \<open>Any \<open>L + 1\<close> consecutive admissions span more than a window.\<close>

definition spaced :: "nat \<Rightarrow> duration \<Rightarrow> gotime list \<Rightarrow> bool" where
  "spaced L w h \<longleftrightarrow> (\<forall>i. i + L < length h \<longrightarrow> h ! i + w < h ! (i + L))"

text \<open>
  \<open>h\<close> is everything admitted so far, \<open>c\<close> the list the limiter keeps: what it dropped is older than a window.
\<close>

definition window_inv :: "nat \<Rightarrow> duration \<Rightarrow> gotime \<Rightarrow> gotime list \<Rightarrow> gotime list \<Rightarrow> bool" where
  "window_inv L w now h c \<longleftrightarrow>
     (\<exists>d. h = d @ c \<and> (\<forall>x\<in>set d. x < now - w)) \<and> (\<forall>x\<in>set c. x \<le> hd c + w) \<and>
     sorted h \<and> (\<forall>x\<in>set h. x \<le> now) \<and> spaced L w h"

lemma window_inv_later:
  assumes "window_inv L w now h c" "now \<le> now'"
  shows "window_inv L w now' h c"
proof -
  obtain d where "h = d @ c" "\<forall>x\<in>set d. x < now - w"
    using assms(1) by (auto simp: window_inv_def)
  then have "\<exists>d. h = d @ c \<and> (\<forall>x\<in>set d. x < now' - w)"
    using assms(2) by (intro exI [of _ d]) auto
  moreover have "\<forall>x\<in>set h. x \<le> now'"
    using assms by (auto simp: window_inv_def)
  ultimately show ?thesis using assms(1) by (simp add: window_inv_def)
qed

lemma window_inv_trim:
  assumes "window_inv L w now h c" "0 \<le> w"
  shows "window_inv L w now h (dropWhile (\<lambda>t. t < now - w) c)"
proof -
  let ?l = "dropWhile (\<lambda>t. t < now - w) c" and ?t = "takeWhile (\<lambda>t. t < now - w) c"
  obtain d where d: "h = d @ c" "\<forall>x\<in>set d. x < now - w"
    using assms(1) by (auto simp: window_inv_def)
  have "h = (d @ ?t) @ ?l" using d(1) by simp
  moreover have "\<forall>x\<in>set (d @ ?t). x < now - w"
    using d(2) by (auto dest: set_takeWhileD)
  ultimately have "\<exists>d. h = d @ ?l \<and> (\<forall>x\<in>set d. x < now - w)" by blast
  moreover have "\<forall>x\<in>set ?l. x \<le> hd ?l + w"
  proof
    fix x assume x: "x \<in> set ?l"
    then have "?l \<noteq> []" by (metis emptyE list.set(1))
    then have "\<not> hd ?l < now - w" by (rule hd_dropWhile)
    moreover have "x \<le> now"
      using x d(1) assms(1) by (auto simp: window_inv_def dest: set_dropWhileD)
    ultimately show "x \<le> hd ?l + w" by simp
  qed
  ultimately show ?thesis using assms(1) by (simp add: window_inv_def)
qed

lemma window_inv_admit:
  assumes inv: "window_inv L w now h c" and "0 \<le> w" "0 < L" "length c < L"
    and fresh: "\<forall>x\<in>set c. now - w \<le> x"
  shows "window_inv L w now (h @ [now]) (c @ [now])"
proof -
  obtain d where d: "h = d @ c" "\<forall>x\<in>set d. x < now - w"
    using inv by (auto simp: window_inv_def)
  have bounds: "sorted h" "\<forall>x\<in>set h. x \<le> now" "spaced L w h"
    using inv by (simp_all add: window_inv_def)
  have "spaced L w (h @ [now])"
    unfolding spaced_def
  proof (intro allI impI)
    fix i assume i: "i + L < length (h @ [now])"
    show "(h @ [now]) ! i + w < (h @ [now]) ! (i + L)"
    proof (cases "i + L < length h")
      case True
      then show ?thesis using bounds(3) \<open>0 < L\<close> by (simp add: spaced_def nth_append)
    next
      case False
      then have "i + L = length h" using i by simp
      then have "i < length d" using d(1) \<open>length c < L\<close> by simp
      then have "(h @ [now]) ! i < now - w"
        using d by (simp add: nth_append)
      then show ?thesis using \<open>i + L = length h\<close> by simp
    qed
  qed
  moreover have "\<forall>x\<in>set (c @ [now]). x \<le> hd (c @ [now]) + w"
  proof
    fix x assume x: "x \<in> set (c @ [now])"
    have "now - w \<le> hd (c @ [now])"
      using fresh \<open>0 \<le> w\<close> by (cases c) auto
    moreover have "x \<le> now" using x bounds(2) d(1) by auto
    ultimately show "x \<le> hd (c @ [now]) + w" by simp
  qed
  moreover have "sorted (h @ [now])"
    using bounds by (simp add: sorted_append)
  ultimately show ?thesis
    using d bounds(2) unfolding window_inv_def by (intro conjI exI [of _ d]) auto
qed

lemma window_inv_sweep:
  assumes "window_inv L w now h c" "0 \<le> w" and that: "lim_window rl = w"
  shows "window_inv L w now h (snd (local_router rl (Sweep now) c))"
proof (cases "c \<noteq> [] \<and> \<not> hd c < now - 2 * w")
  case True
  then show ?thesis using assms that by simp
next
  case False
  obtain d where d: "h = d @ c" "\<forall>x\<in>set d. x < now - w"
    using assms(1) by (auto simp: window_inv_def)
  have "\<forall>x\<in>set c. x < now - w"
    using assms(1) False by (cases c) (fastforce simp: window_inv_def)+
  then have "window_inv L w now h []"
    using d assms(1) unfolding window_inv_def by (intro conjI exI [of _ h]) auto
  then show ?thesis using False that by auto
qed

fun admitted :: "router_event list \<Rightarrow> bool option list \<Rightarrow> gotime list" where
  "admitted (Ask t ip # es) (Some True # as) = t # admitted es as"
| "admitted (e # es) (a # as) = admitted es as"
| "admitted es as = []"

fun re_sorted :: "gotime \<Rightarrow> router_event list \<Rightarrow> bool" where
  "re_sorted t [] \<longleftrightarrow> True"
| "re_sorted t (e # es) \<longleftrightarrow> t \<le> re_time e \<and> re_sorted (re_time e) es"

lemma re_sorted_earlier: "re_sorted t es \<Longrightarrow> t' \<le> t \<Longrightarrow> re_sorted t' es"
  by (cases es) auto

lemma re_sorted_filter: "re_sorted t es \<Longrightarrow> re_sorted t (filter P es)"
proof (induction es arbitrary: t)
  case (Cons e es)
  then show ?case using re_sorted_earlier [of "re_time e" "filter P es" t] by auto
qed simp

lemma local_router_ask:
  assumes "0 \<le> lim_window rl" "1 \<le> lim_limit rl"
    and "window_inv (nat (lim_limit rl)) (lim_window rl) t h c"
    and "local_router rl (Ask t ip) c = (a, c')"
  shows "a \<noteq> None" "c' \<noteq> []"
    "window_inv (nat (lim_limit rl)) (lim_window rl) t (if a = Some True then h @ [t] else h) c'"
proof -
  let ?l = "dropWhile (\<lambda>x. x < t - lim_window rl) c"
  note trim = window_inv_trim [OF assms(3,1)]
  have "a \<noteq> None \<and> c' \<noteq> [] \<and>
    window_inv (nat (lim_limit rl)) (lim_window rl) t (if a = Some True then h @ [t] else h) c'"
  proof (cases "lim_limit rl \<le> int (length ?l)")
    case True
    then obtain x xs where "?l = x # xs"
      using assms(2) by (cases ?l) auto
    then show ?thesis using True trim assms(4) by auto
  next
    case False
    have "sorted ?l"
      using assms(3) by (auto simp: window_inv_def sorted_append intro: sorted_dropWhile)
    then have "\<forall>x\<in>set ?l. t - lim_window rl \<le> x"
      using hd_dropWhile [of "\<lambda>x. x < t - lim_window rl" c]
      by (cases ?l) (auto simp del: dropWhile_eq_Nil_conv)
    then have "window_inv (nat (lim_limit rl)) (lim_window rl) t (h @ [t]) (?l @ [t])"
      using False assms(2) by (intro window_inv_admit [OF trim assms(1)]) auto
    then show ?thesis using False assms(4) by auto
  qed
  then show "a \<noteq> None" "c' \<noteq> []"
    "window_inv (nat (lim_limit rl)) (lim_window rl) t (if a = Some True then h @ [t] else h) c'"
    by blast+
qed

lemma drop_drop_nth:
  "j < length (drop L (drop n h)) \<Longrightarrow> n + j + L < length h \<and> drop L (drop n h) ! j = h ! (n + j + L)"
  by (simp add: add.commute add.left_commute)

text \<open>In a sorted list whose entries are spaced, a window holds at most \<open>L\<close> of them.\<close>

lemma spaced_window:
  assumes "sorted h" "spaced L w h"
  shows "length (filter (\<lambda>x. t \<le> x \<and> x \<le> t + w) h) \<le> L"
proof -
  let ?P = "\<lambda>x. t \<le> x \<and> x \<le> t + w"
  let ?n = "length (takeWhile (\<lambda>x. x < t) h)"
  have split: "h = take ?n h @ take L (drop ?n h) @ drop L (drop ?n h)"
    by (simp only: append_take_drop_id)
  have early: "filter ?P (take ?n h) = []"
  proof -
    have "take ?n h = takeWhile (\<lambda>x. x < t) h" by (metis takeWhile_eq_take)
    then show ?thesis by (auto simp: filter_empty_conv dest: set_takeWhileD)
  qed
  have "\<not> ?P x" if mem: "x \<in> set (drop L (drop ?n h))" for x
  proof -
    obtain j where j: "j < length (drop L (drop ?n h))" "x = drop L (drop ?n h) ! j"
      using mem unfolding in_set_conv_nth by blast
    note nth = drop_drop_nth [OF j(1)]
    have idx: "?n + j + L < length h" "x = h ! (?n + j + L)"
      by (rule conjunct1 [OF nth], rule trans [OF j(2) conjunct2 [OF nth]])
    have "t \<le> h ! ?n"
      using nth_length_takeWhile [of "\<lambda>x. x < t" h] idx(1) by auto
    also have "h ! ?n \<le> h ! (?n + j)"
      using assms(1) idx(1) by (intro sorted_nth_mono) auto
    finally have "t + w < x"
      using assms(2) idx by (force simp: spaced_def)
    then show ?thesis by simp
  qed
  then have late: "filter ?P (drop L (drop ?n h)) = []"
    by (simp add: filter_empty_conv)
  have "filter ?P h = filter ?P (take L (drop ?n h))"
    by (subst split) (simp only: filter_append early late append_Nil append_Nil2)
  then show ?thesis
    by (metis le_trans length_filter_le length_take min.cobounded2)
qed

definition admitted_to :: "limiter_config \<Rightarrow> string \<Rightarrow> router_event list \<Rightarrow> request_table \<Rightarrow> gotime list" where
  "admitted_to rl ip es m =
     admitted (filter (\<lambda>e. re_concerns e ip) es)
       (answers_to (\<lambda>e. re_concerns e ip) es (run_answers (router_op rl) es m))"

lemma admitted_to_simps:
  "admitted_to rl ip [] m = []"
  "admitted_to rl ip (Sweep t # es) m = admitted_to rl ip es (snd (router_op rl (Sweep t) m))"
  "admitted_to rl ip (Ask t ip' # es) m =
     (if ip' = ip \<and> fst (router_op rl (Ask t ip') m) = Some True then [t] else []) @
     admitted_to rl ip es (snd (router_op rl (Ask t ip') m))"
  by (auto simp: admitted_to_def split_beta simp del: router_op.simps)
    (cases "fst (router_op rl (Ask t ip') m)"; auto)+

text \<open>
  How often a run forgets an address: requests, its own or others', after which the list that the limiter
  had for it is gone.
\<close>

fun evictions :: "limiter_config \<Rightarrow> string \<Rightarrow> router_event list \<Rightarrow> request_table \<Rightarrow> nat" where
  "evictions rl ip [] m = 0"
| "evictions rl ip (Sweep t # es) m = evictions rl ip es (snd (router_op rl (Sweep t) m))"
| "evictions rl ip (Ask t ip' # es) m =
     (let m' = snd (router_op rl (Ask t ip') m)
      in (if (ip' = ip \<or> ip_list m ip \<noteq> []) \<and> ip_list m' ip = [] then 1 else 0) + evictions rl ip es m')"

lemma window_count:
  assumes "0 \<le> lim_window rl" "1 \<le> lim_limit rl"
    and "window_inv (nat (lim_limit rl)) (lim_window rl) now h (ip_list m ip)"
    and "well_keyed m" "re_sorted now es"
  shows "length (filter (\<lambda>x. t \<le> x \<and> x \<le> t + lim_window rl) (h @ admitted_to rl ip es m))
    \<le> nat (lim_limit rl) * Suc (evictions rl ip es m)"
  using assms(3-5)
proof (induction es arbitrary: now h m)
  case Nil
  then show ?case
    using spaced_window [of h "nat (lim_limit rl)" "lim_window rl" t]
    by (simp add: admitted_to_simps window_inv_def)
next
  case (Cons e es)
  let ?P = "\<lambda>x. t \<le> x \<and> x \<le> t + lim_window rl"
  let ?L = "nat (lim_limit rl)"
  let ?m' = "snd (router_op rl e m)"
  note IH = Cons.IH [where m = ?m' and now = "re_time e"]
  have rest: "re_sorted (re_time e) es" using Cons.prems(3) by simp
  have now: "window_inv ?L (lim_window rl) (re_time e) h (ip_list m ip)"
    using window_inv_later [OF Cons.prems(1)] Cons.prems(3) by simp
  show ?case
  proof (cases e)
    case (Sweep s)
    have "window_inv ?L (lim_window rl) (re_time e) h (ip_list ?m' ip)"
      using window_inv_sweep [OF now assms(1) refl] Sweep_step(2) [OF Cons.prems(2)] Sweep by simp
    from IH [OF this _ rest] show ?thesis
      using Sweep_step(1) [OF Cons.prems(2)] Sweep
      by (simp add: admitted_to_simps del: router_op.simps)
  next
    case (Ask s ip')
    note step = Allow_step [OF Cons.prems(2), of rl s ip', folded Ask]
    define h' where "h' = (if ip' = ip \<and> fst (router_op rl e m) = Some True then h @ [s] else h)"
    define c' where "c' = (if ip = ip' then snd (local_router rl e (ip_list m ip)) else ip_list m ip)"
    have inv: "window_inv ?L (lim_window rl) (re_time e) h' c'"
      and own: "ip' = ip \<Longrightarrow> c' \<noteq> []"
      using local_router_ask [OF assms(1,2) now [unfolded Ask re_time.simps] prod.collapse [symmetric], of ip']
        now step(2) by (auto simp: h'_def c'_def Ask simp del: router_op.simps local_router.simps)
    have run: "h @ admitted_to rl ip (e # es) m = h' @ admitted_to rl ip es ?m'"
      by (auto simp: h'_def Ask admitted_to_simps simp del: router_op.simps)
    show ?thesis
    proof (cases "ip_list ?m' ip = c'")
      case True
      have "?L * Suc (evictions rl ip es ?m') \<le> ?L * Suc (evictions rl ip (e # es) m)"
        by (simp add: Ask Let_def del: router_op.simps)
      with IH [of h'] inv step(1) rest True show ?thesis
        unfolding run by (metis le_trans)
    next
      case False
      then have gone: "ip_list ?m' ip = []" and "c' \<noteq> []"
        using step(3) [of ip]
        by (cases "ip' = ip"; auto simp: c'_def simp del: router_op.simps local_router.simps)+
      then have "ip' = ip \<or> ip_list m ip \<noteq> []" by (auto simp: c'_def)
      then have count: "evictions rl ip (e # es) m = Suc (evictions rl ip es ?m')"
        using gone by (simp add: Ask Let_def del: router_op.simps)
      have "window_inv ?L (lim_window rl) (re_time e) [] (ip_list ?m' ip)"
        by (simp add: gone window_inv_def spaced_def)
      from IH [OF this step(1) rest]
      have "length (filter ?P (admitted_to rl ip es ?m')) \<le> ?L * Suc (evictions rl ip es ?m')"
        by simp
      moreover have "length (filter ?P h') \<le> ?L"
        using inv by (intro spaced_window) (auto simp: window_inv_def)
      ultimately show ?thesis
        unfolding run count by simp
    qed
  qed
qed

text \<open>
  C8: the router's limiter is a sliding window.  In any run from the empty table with a clock that does
  not go back, whatever other addresses send and whenever stale entries are swept, a closed interval as
  long as the window contains at most \<open>limit\<close> admitted requests of an address; each time the full table
  forgets the address (\<open>maxIPs\<close>) gives it at most \<open>limit\<close> more.
\<close>

theorem sliding_window_bound:
  assumes "0 \<le> lim_window rl" and "1 \<le> lim_limit rl" and "re_sorted t0 es"
  shows "length (filter (\<lambda>x. t \<le> x \<and> x \<le> t + lim_window rl) (admitted_to rl ip es []))
    \<le> nat (lim_limit rl) * (1 + evictions rl ip es [])"
  using window_count [OF assms(1,2), of t0 "[]" "[]" ip es t] assms(3)
  by (simp add: window_inv_def spaced_def well_keyed_def ip_list_def)

definition router_demo :: "router_event list" where
  "router_demo = [Ask 1 ''a'', Ask 2 ''b'', Ask 5 ''a'', Ask 6 ''a'', Sweep 7, Ask 12 ''a'', Ask 14 ''a'']"

lemma router_demo_evictions: "evictions \<lparr>lim_limit = 2, lim_window = 10, lim_maxIPs = 9\<rparr> ''a'' router_demo [] = 0"
  by (simp add: router_demo_def Allow_def ip_list_def CleanupLoop_def)

theorem sliding_window_bound_witness:
  "length (filter (\<lambda>x. 5 \<le> x \<and> x \<le> 15)
     (admitted_to \<lparr>lim_limit = 2, lim_window = 10, lim_maxIPs = 9\<rparr> ''a'' router_demo [])) \<le> 2"
  using sliding_window_bound [of "\<lparr>lim_limit = 2, lim_window = 10, lim_maxIPs = 9\<rparr>" 0 router_demo 5 "''a''"]
  by (simp add: router_demo_evictions) (simp add: router_demo_def)

text \<open>
  The table forgets the address whose first request is the oldest, so a client can have its quota renewed
  by sending from other addresses: here three requests pass in a window that allows one.
\<close>

lemma eviction_renews_quota:
  "admitted_to \<lparr>lim_limit = 1, lim_window = 10, lim_maxIPs = 1\<rparr> ''a''
     [Ask 1 ''a'', Ask 2 ''b'', Ask 3 ''a'', Ask 4 ''b'', Ask 5 ''a''] [] = [1, 3, 5]"
  by (simp add: admitted_to_def Allow_def ip_list_def evict_def Let_def)

subsection \<open>Connections\<close>

definition conn_inv :: "int \<Rightarrow> conn_table \<times> (string \<Rightarrow> nat) \<Rightarrow> bool" where
  "conn_inv max_conns s \<longleftrightarrow>
     (\<forall>ip. conns_of (fst s) ip = int (snd s ip) \<and> int (snd s ip) \<le> max_conns)"

lemma conn_inv_step [inv_intros]:
  "conn_step max_conns s s' \<Longrightarrow> conn_inv max_conns s \<Longrightarrow> conn_inv max_conns s'"
proof (induction rule: conn_step.induct)
  case (enter ip conns conns' inflight)
  then show ?case by (auto simp: conn_inv_def Acquire_def conns_of_def split: if_splits)
next
  case (refuse ip conns conns' inflight)
  then show ?case by (auto simp: Acquire_def split: if_splits)
next
  case (leave inflight ip conns)
  then have "conns_of conns ip = int (inflight ip)" by (simp add: conn_inv_def)
  then have "conns_of (Release ip conns) j = (if j = ip then int (inflight ip) - 1 else conns_of conns j)" for j
    using leave.hyps by (auto simp: Release_def Let_def conns_of_def)
  then have release: "conns_of (Release ip conns) j =
      (if j = ip then int (inflight ip) - 1 else conns_of conns j)" for j
    by simp
  show ?case
    unfolding conn_inv_def
  proof
    fix j
    have "conns_of conns j = int (inflight j) \<and> int (inflight j) \<le> max_conns"
      using leave.prems by (simp add: conn_inv_def)
    then show "conns_of (fst (Release ip conns, inflight(ip := inflight ip - 1))) j =
        int (snd (Release ip conns, inflight(ip := inflight ip - 1)) j) \<and>
        int (snd (Release ip conns, inflight(ip := inflight ip - 1)) j) \<le> max_conns"
      using release [of j] leave.hyps by auto
  qed
qed

text \<open>
  The limit on concurrent connections is exact.  In every reachable state the table counts, for every
  address, the handlers that are running for it, and never more than the maximum.
\<close>

theorem connections_exact:
  assumes "(conn_step max_conns)\<^sup>*\<^sup>* (Map.empty, \<lambda>ip. 0) (conns, inflight)" and "0 \<le> max_conns"
  shows "conns_of conns ip = int (inflight ip) \<and> int (inflight ip) \<le> max_conns"
proof -
  have "conn_inv max_conns (Map.empty, \<lambda>ip. 0)"
    using assms(2) by (simp add: conn_inv_def conns_of_def)
  with assms(1) have "conn_inv max_conns (conns, inflight)"
    by (induction rule: rtranclp_induct) (auto intro: inv_intros)
  then show ?thesis by (simp add: conn_inv_def)
qed

theorem connections_exact_witness:
  "int (((\<lambda>ip. 0)(''a'' := Suc 0)) ''a'') \<le> (1::int)"
proof -
  have "conn_step 1 (Map.empty, \<lambda>ip. 0) ([''a'' \<mapsto> 1], (\<lambda>ip. 0)(''a'' := Suc 0))"
    using conn_step.enter [of 1 "''a''" Map.empty "[''a'' \<mapsto> 1]" "\<lambda>ip. 0"]
    by (simp add: Acquire_def conns_of_def)
  from connections_exact [OF r_into_rtranclp [where r = "conn_step 1", OF this], of "''a''"] show ?thesis by simp
qed

end
