(* ===== verification/Credits.thy ===== *)
theory Credits
  imports FlagModel Plans
begin

text \<open>
  The pre-paid credit ledger: \<open>server/internal/domain/credits.go\<close> and
  \<open>server/internal/store/postgres/credit_store.go\<close> over the tables of migration 102.  The tables are the
  record \<open>credit_db\<close>; each SQL statement of the source is a function on it.  Every call to the database can
  fail: \<open>flt n\<close> says whether the \<open>n\<close>-th call of the operation does.  A transaction that is rolled back leaves
  the tables as they were; the error of a commit does not tell whether it took effect, so both outcomes
  are modelled.  Reads outside the transaction take the tables as they were then (\<open>seen\<close>, \<open>chk\<close>), which
  covers every interleaving with other transactions.
\<close>

subsection \<open>Tables\<close>

record cost_bearer =
  cb_ID :: string
  cb_DisplayName :: string
  cb_Description :: string
  cb_UnitName :: string
  cb_FreeUnits :: int
  cb_ProUnits :: int

record credit_pack =
  pack_ID :: string
  pack_BearerID :: string
  pack_Name :: string
  pack_Credits :: int
  pack_PricePaise :: int
  pack_IsActive :: bool

record credit_balance =
  bal_OrgID :: string
  bal_BearerID :: string
  bal_Balance :: int
  bal_LifetimeUsed :: int
  bal_UpdatedAt :: gotime

record credit_purchase =
  pur_ID :: string
  pur_OrgID :: string
  pur_PackID :: string
  pur_BearerID :: string
  pur_Credits :: int
  pur_PricePaise :: int
  pur_PurchasedAt :: gotime

record credit_consumption =
  con_ID :: string
  con_OrgID :: string
  con_BearerID :: string
  con_Operation :: string
  con_Credits :: int
  con_Metadata :: "(string \<times> json) list"
  con_IdempotencyKey :: string
  con_ConsumedAt :: gotime

record credit_grant =
  gr_OrgID :: string
  gr_BearerID :: string
  gr_PeriodStart :: int
  gr_Credits :: int

type_synonym org_bearer = "string \<times> string"

record credit_db =
  db_Bearers :: "cost_bearer list"
  db_Packs :: "credit_pack list"
  db_Balances :: "org_bearer \<rightharpoonup> credit_balance"
  db_Purchases :: "credit_purchase list"
  db_Consumptions :: "credit_consumption list"
  db_Grants :: "credit_grant list"

subsection \<open>Statements\<close>

text \<open>The columns are \<open>INT\<close>: a value outside 32 bits is an error of the statement.\<close>

definition int32 :: "int \<Rightarrow> bool" where
  "int32 x \<longleftrightarrow> - (2 ^ 31) \<le> x \<and> x < 2 ^ 31"

text \<open>\<open>UPDATE credit_balances SET balance = balance - $3 ... WHERE ... AND balance >= $3 RETURNING balance\<close>.\<close>

definition sql_deduct ::
    "bool \<Rightarrow> gotime \<Rightarrow> org_bearer \<Rightarrow> int \<Rightarrow> credit_db \<Rightarrow> (int \<times> credit_db) option result" where
  "sql_deduct fails now k n db =
     (if fails \<or> \<not> int32 n then Inl ErrInternal
      else
        (case db_Balances db k of
           None \<Rightarrow> Inr None
         | Some b \<Rightarrow>
           (if bal_Balance b < n then Inr None
            else if \<not> int32 (bal_LifetimeUsed b + n) then Inl ErrInternal
            else Inr (Some (bal_Balance b - n,
                   db\<lparr>db_Balances := (db_Balances db)(k \<mapsto>
                     b\<lparr>bal_Balance := bal_Balance b - n, bal_LifetimeUsed := bal_LifetimeUsed b + n,
                       bal_UpdatedAt := now\<rparr>)\<rparr>)))))"

text \<open>\<open>INSERT INTO credit_balances ... ON CONFLICT ... DO UPDATE SET balance = credit_balances.balance + $3\<close>.\<close>

definition sql_add_balance ::
    "bool \<Rightarrow> gotime \<Rightarrow> org_bearer \<Rightarrow> int \<Rightarrow> credit_db \<Rightarrow> credit_db result" where
  "sql_add_balance fails now k n db =
     (if fails \<or> \<not> int32 n then Inl ErrInternal
      else
        (case db_Balances db k of
           None \<Rightarrow> Inr (db\<lparr>db_Balances := (db_Balances db)(k \<mapsto>
                     \<lparr>bal_OrgID = fst k, bal_BearerID = snd k, bal_Balance = n, bal_LifetimeUsed = 0,
                      bal_UpdatedAt = now\<rparr>)\<rparr>)
         | Some b \<Rightarrow>
           (if \<not> int32 (bal_Balance b + n) then Inl ErrInternal
            else Inr (db\<lparr>db_Balances := (db_Balances db)(k \<mapsto>
                   b\<lparr>bal_Balance := bal_Balance b + n, bal_UpdatedAt := now\<rparr>)\<rparr>))))"

datatype sql_insert = InsertOk credit_db | UniqueViolation | InsertError

text \<open>The primary key and the unique index on organization and idempotency key; the index is partial on
  \<open>IS NOT NULL\<close>, and the code inserts the empty string, not NULL, when there is no key.\<close>

definition sql_insert_consumption :: "bool \<Rightarrow> credit_consumption \<Rightarrow> credit_db \<Rightarrow> sql_insert" where
  "sql_insert_consumption fails c db =
     (if fails then InsertError
      else if \<exists>c'\<in>set (db_Consumptions db). con_ID c' = con_ID c \<or>
                con_OrgID c' = con_OrgID c \<and> con_IdempotencyKey c' = con_IdempotencyKey c
      then UniqueViolation
      else InsertOk (db\<lparr>db_Consumptions := c # db_Consumptions db\<rparr>))"

definition sql_insert_purchase :: "bool \<Rightarrow> credit_purchase \<Rightarrow> credit_db \<Rightarrow> credit_db result" where
  "sql_insert_purchase fails p db =
     (if fails \<or> (\<exists>p'\<in>set (db_Purchases db). pur_ID p' = pur_ID p) then Inl ErrInternal
      else Inr (db\<lparr>db_Purchases := p # db_Purchases db\<rparr>))"

text \<open>\<open>INSERT INTO monthly_credit_grants ... ON CONFLICT DO NOTHING\<close>: the flag is \<open>RowsAffected() > 0\<close>.\<close>

definition sql_insert_grant :: "bool \<Rightarrow> credit_grant \<Rightarrow> credit_db \<Rightarrow> (bool \<times> credit_db) result" where
  "sql_insert_grant fails g db =
     (if fails \<or> \<not> int32 (gr_Credits g) then Inl ErrInternal
      else if \<exists>g'\<in>set (db_Grants db). gr_OrgID g' = gr_OrgID g \<and> gr_BearerID g' = gr_BearerID g \<and>
                gr_PeriodStart g' = gr_PeriodStart g
      then Inr (False, db)
      else Inr (True, db\<lparr>db_Grants := g # db_Grants db\<rparr>))"

subsection \<open>Reads\<close>

definition ListCostBearers :: "bool \<Rightarrow> credit_db \<Rightarrow> cost_bearer list result" where
  "ListCostBearers fails db = (if fails then Inl ErrInternal else Inr (sort_key cb_ID (db_Bearers db)))"

definition GetCostBearer :: "bool \<Rightarrow> credit_db \<Rightarrow> string \<Rightarrow> cost_bearer result" where
  "GetCostBearer fails db bearerID =
     (if fails then Inl ErrInternal
      else (case List.find (\<lambda>b. cb_ID b = bearerID) (db_Bearers db) of
              None \<Rightarrow> Inl ErrBearerNotFound | Some b \<Rightarrow> Inr b))"

definition ListCreditPacks :: "bool \<Rightarrow> credit_db \<Rightarrow> string \<Rightarrow> credit_pack list result" where
  "ListCreditPacks fails db bearerID =
     (if fails then Inl ErrInternal
      else Inr (sort_key pack_Credits
             (filter (\<lambda>p. pack_BearerID p = bearerID \<and> pack_IsActive p) (db_Packs db))))"

definition GetCreditPack :: "bool \<Rightarrow> credit_db \<Rightarrow> string \<Rightarrow> credit_pack result" where
  "GetCreditPack fails db packID =
     (if fails then Inl ErrInternal
      else (case List.find (\<lambda>p. pack_ID p = packID \<and> pack_IsActive p) (db_Packs db) of
              None \<Rightarrow> Inl ErrInvalidCreditPack | Some p \<Rightarrow> Inr p))"

definition GetCreditBalance :: "bool \<Rightarrow> gotime \<Rightarrow> credit_db \<Rightarrow> org_bearer \<Rightarrow> credit_balance result" where
  "GetCreditBalance fails now db k =
     (if fails then Inl ErrInternal
      else (case db_Balances db k of
              None \<Rightarrow> Inr \<lparr>bal_OrgID = fst k, bal_BearerID = snd k, bal_Balance = 0,
                          bal_LifetimeUsed = 0, bal_UpdatedAt = now\<rparr>
            | Some b \<Rightarrow> Inr b))"

text \<open>The rows of an organization, in the order of the bearers that have one.\<close>

definition ListCreditBalances :: "bool \<Rightarrow> credit_db \<Rightarrow> string \<Rightarrow> credit_balance list result" where
  "ListCreditBalances fails db orgID =
     (if fails then Inl ErrInternal
      else Inr (List.map_filter (\<lambda>b. db_Balances db (orgID, cb_ID b)) (sort_key cb_ID (db_Bearers db))))"

text \<open>\<open>ORDER BY ... DESC LIMIT $l OFFSET $o\<close>, with the default limit; a negative offset is an SQL error.\<close>

definition page_desc :: "('a \<Rightarrow> gotime) \<Rightarrow> int \<Rightarrow> int \<Rightarrow> 'a list \<Rightarrow> 'a list result" where
  "page_desc at limit offset rows =
     (let limit = (if limit \<le> 0 then 50 else limit)
      in if offset < 0 then Inl ErrInternal
         else Inr (take (nat limit) (drop (nat offset) (rev (sort_key at rows)))))"

definition ListCreditPurchases ::
    "bool \<Rightarrow> credit_db \<Rightarrow> string \<Rightarrow> int \<Rightarrow> int \<Rightarrow> credit_purchase list result" where
  "ListCreditPurchases fails db orgID limit offset =
     (if fails then Inl ErrInternal
      else page_desc pur_PurchasedAt limit offset (filter (\<lambda>p. pur_OrgID p = orgID) (db_Purchases db)))"

definition ListCreditConsumptions ::
    "bool \<Rightarrow> credit_db \<Rightarrow> string \<Rightarrow> string \<Rightarrow> int \<Rightarrow> int \<Rightarrow> credit_consumption list result" where
  "ListCreditConsumptions fails db orgID bearerID limit offset =
     (if fails then Inl ErrInternal
      else page_desc con_ConsumedAt limit offset
        (filter (\<lambda>c. con_OrgID c = orgID \<and> (bearerID = [] \<or> con_BearerID c = bearerID))
           (db_Consumptions db)))"

definition lookupIdempotentConsumption :: "bool \<Rightarrow> credit_db \<Rightarrow> string \<Rightarrow> string \<Rightarrow> int result" where
  "lookupIdempotentConsumption fails db orgID key =
     (if fails then Inl ErrInternal
      else if \<exists>c\<in>set (db_Consumptions db). con_OrgID c = orgID \<and> con_IdempotencyKey c = key
      then Inr (- 1) else Inl ErrNotFound)"

subsection \<open>Operations\<close>

text \<open>
  The end of a transaction that started on \<open>db\<close> and would leave \<open>db'\<close>.  A statement that failed has
  aborted it, and then PostgreSQL answers the commit with a rollback, which the driver reports as an error.
\<close>

definition tx_commit :: "faults \<Rightarrow> nat \<Rightarrow> bool \<Rightarrow> credit_db \<Rightarrow> credit_db \<Rightarrow> bool \<times> credit_db" where
  "tx_commit flt n aborted db db' =
     (if aborted \<or> flt n then (False, db) else if flt (Suc n) then (False, db') else (True, db'))"

definition ConsumeCredits ::
    "faults \<Rightarrow> credit_db \<Rightarrow> credit_db \<Rightarrow> gotime \<Rightarrow> string \<Rightarrow> string \<Rightarrow> string \<Rightarrow> int \<Rightarrow> string \<Rightarrow>
     (string \<times> json) list \<Rightarrow> string \<Rightarrow> credit_db \<Rightarrow> int result \<times> credit_db" where
  "ConsumeCredits flt seen chk now newID orgID bearerID credits operation metadata key db =
     (if credits \<le> 0 then (Inl ErrBadArgument, db)
      else if key \<noteq> [] \<and> lookupIdempotentConsumption (flt 0) seen orgID key = Inr (- 1)
      then (Inr (- 1), db)
      else if flt 1 then (Inl ErrInternal, db)
      else
        (case sql_deduct (flt 2) now (orgID, bearerID) credits db of
           Inl e \<Rightarrow> (Inl ErrInternal, db)
         | Inr None \<Rightarrow>
           (case GetCreditBalance (flt 3) now chk (orgID, bearerID) of
              Inl e \<Rightarrow> (Inl ErrInternal, db)
            | Inr bal \<Rightarrow>
              (if bal_Balance bal < credits
               then (Inl (ErrInsufficientCredits credits (bal_Balance bal)), db)
               else if flt 4 then (Inl ErrInternal, db)
               else (Inl (ErrInsufficientCredits credits 0), db)))
         | Inr (Some (newBalance, db1)) \<Rightarrow>
           (let c = \<lparr>con_ID = newID, con_OrgID = orgID, con_BearerID = bearerID,
                     con_Operation = operation, con_Credits = credits, con_Metadata = metadata,
                     con_IdempotencyKey = key, con_ConsumedAt = now\<rparr>;
                commit = (\<lambda>aborted db2.
                  case tx_commit flt 6 aborted db db2 of
                    (True, db') \<Rightarrow> (Inr newBalance, db')
                  | (False, db') \<Rightarrow> (Inl ErrInternal, db'))
            in case sql_insert_consumption (flt 5) c db1 of
                 InsertError \<Rightarrow> (Inl ErrInternal, db)
               | UniqueViolation \<Rightarrow> commit True db1
               | InsertOk db2 \<Rightarrow> commit False db2)))"

definition PurchaseCredits ::
    "faults \<Rightarrow> credit_db \<Rightarrow> gotime \<Rightarrow> string \<Rightarrow> string \<Rightarrow> string \<Rightarrow> credit_db \<Rightarrow>
     credit_purchase result \<times> credit_db" where
  "PurchaseCredits flt seen now newID orgID packID db =
     (case GetCreditPack (flt 0) seen packID of
        Inl e \<Rightarrow> (Inl e, db)
      | Inr pack \<Rightarrow>
        (if \<not> pack_IsActive pack then (Inl ErrInvalidCreditPack, db)
         else if flt 1 then (Inl ErrInternal, db)
         else
           (let p = \<lparr>pur_ID = newID, pur_OrgID = orgID, pur_PackID = packID,
                     pur_BearerID = pack_BearerID pack, pur_Credits = pack_Credits pack,
                     pur_PricePaise = pack_PricePaise pack, pur_PurchasedAt = now\<rparr>
            in case sql_insert_purchase (flt 2) p db of
                 Inl e \<Rightarrow> (Inl ErrInternal, db)
               | Inr db1 \<Rightarrow>
                 (case sql_add_balance (flt 3) now (orgID, pack_BearerID pack) (pack_Credits pack) db1 of
                    Inl e \<Rightarrow> (Inl ErrInternal, db)
                  | Inr db2 \<Rightarrow>
                    (case tx_commit flt 4 False db db2 of
                       (True, db') \<Rightarrow> (Inr p, db')
                     | (False, db') \<Rightarrow> (Inl ErrInternal, db'))))))"

definition monthly_units :: "string \<Rightarrow> cost_bearer \<Rightarrow> int" where
  "monthly_units plan bearer =
     (if plan = PlanFree then cb_FreeUnits bearer
      else if plan = PlanPro then cb_ProUnits bearer
      else if plan = PlanEnterprise then 10000
      else cb_FreeUnits bearer)"

text \<open>The statements of this loop are not in a transaction: what ran before an error stays.\<close>

fun grant_loop ::
    "faults \<Rightarrow> nat \<Rightarrow> gotime \<Rightarrow> string \<Rightarrow> string \<Rightarrow> gotime \<Rightarrow> cost_bearer list \<Rightarrow> credit_db \<Rightarrow>
     unit result \<times> credit_db" where
  "grant_loop flt n now orgID plan periodStart [] db = (Inr (), db)"
| "grant_loop flt n now orgID plan periodStart (bearer # bearers) db =
     (let credits = monthly_units plan bearer
      in if credits \<le> 0 then grant_loop flt n now orgID plan periodStart bearers db
         else
           (let g = \<lparr>gr_OrgID = orgID, gr_BearerID = cb_ID bearer, gr_PeriodStart = periodStart div day,
                     gr_Credits = credits\<rparr>
            in case sql_insert_grant (flt n) g db of
                 Inl e \<Rightarrow> (Inl ErrInternal, db)
               | Inr (inserted, db1) \<Rightarrow>
                 (if \<not> inserted then grant_loop flt (Suc n) now orgID plan periodStart bearers db1
                  else
                    (case sql_add_balance (flt (Suc n)) now (orgID, cb_ID bearer) credits db1 of
                       Inl e \<Rightarrow> (Inl ErrInternal, db1)
                     | Inr db2 \<Rightarrow>
                         grant_loop flt (Suc (Suc n)) now orgID plan periodStart bearers db2))))"

definition GrantMonthlyCredits ::
    "faults \<Rightarrow> gotime \<Rightarrow> string \<Rightarrow> string \<Rightarrow> gotime \<Rightarrow> credit_db \<Rightarrow> unit result \<times> credit_db" where
  "GrantMonthlyCredits flt now orgID plan periodStart db =
     (case ListCostBearers (flt 0) db of
        Inl e \<Rightarrow> (Inl ErrInternal, db)
      | Inr bearers \<Rightarrow> grant_loop flt 1 now orgID plan periodStart bearers db)"

end
