(* ===== verification/CreditLaws.thy ===== *)
theory CreditLaws
  imports Credits
begin

text \<open>
  What the credit ledger keeps.  The locale \<open>credit_ledger\<close> is its contract for clients: every step moves
  credits without creating any; the bound on what can be spent follows for every run.  It is interpreted
  on the operations of the store with arbitrary faults.  Then: the exact accounting of the operations that
  report success, idempotency keys, and the two places where credits get lost or calls get refused.
\<close>

subsection \<open>The contract\<close>

locale credit_ledger =
  fixes step :: "'db \<Rightarrow> 'db \<Rightarrow> bool"
    and balance credited used :: "'db \<Rightarrow> 'k \<Rightarrow> int"
  assumes used_grows: "step db db' \<Longrightarrow> used db k \<le> used db' k"
    and stays_nonneg: "step db db' \<Longrightarrow> 0 \<le> balance db k \<Longrightarrow> 0 \<le> balance db' k"
    and no_gain: "step db db' \<Longrightarrow>
      balance db' k + used db' k - credited db' k \<le> balance db k + used db k - credited db k"
begin

definition sound :: "'db \<Rightarrow> bool" where
  "sound db \<longleftrightarrow> (\<forall>k. 0 \<le> balance db k \<and> balance db k + used db k \<le> credited db k)"

lemma sound_step:
  assumes "step db db'" "sound db"
  shows "sound db'"
  unfolding sound_def
proof
  fix k
  have "0 \<le> balance db k" "balance db k + used db k \<le> credited db k"
    using assms(2) by (simp_all add: sound_def)
  then show "0 \<le> balance db' k \<and> balance db' k + used db' k \<le> credited db' k"
    using stays_nonneg [OF assms(1)] no_gain [OF assms(1), of k] by auto
qed

lemma sound_run: "step\<^sup>*\<^sup>* db db' \<Longrightarrow> sound db \<Longrightarrow> sound db'"
  by (induction rule: rtranclp_induct) (auto intro: sound_step)

lemma never_overspent:
  assumes "step\<^sup>*\<^sup>* db db'" "sound db"
  shows "0 \<le> balance db' k \<and> balance db' k + used db' k \<le> credited db' k \<and> used db k \<le> used db' k"
proof -
  have "used db k \<le> used db' k"
    using assms(1)
  proof (induction rule: rtranclp_induct)
    case (step y z)
    then show ?case using used_grows [of y z k] by linarith
  qed simp
  with sound_run [OF assms] show ?thesis by (simp add: sound_def)
qed

end

subsection \<open>Sums over the tables\<close>

definition balance_of :: "credit_db \<Rightarrow> org_bearer \<Rightarrow> int" where
  "balance_of db k = (case db_Balances db k of None \<Rightarrow> 0 | Some b \<Rightarrow> bal_Balance b)"

definition used_of :: "credit_db \<Rightarrow> org_bearer \<Rightarrow> int" where
  "used_of db k =
     sum_list (map con_Credits (filter (\<lambda>c. (con_OrgID c, con_BearerID c) = k) (db_Consumptions db)))"

definition credited_of :: "credit_db \<Rightarrow> org_bearer \<Rightarrow> int" where
  "credited_of db k =
     sum_list (map pur_Credits (filter (\<lambda>p. (pur_OrgID p, pur_BearerID p) = k) (db_Purchases db))) +
     sum_list (map gr_Credits (filter (\<lambda>g. (gr_OrgID g, gr_BearerID g) = k) (db_Grants db)))"

lemmas ledger_defs = balance_of_def used_of_def credited_of_def

text \<open>What a key has neither used nor left.\<close>

definition surplus :: "credit_db \<Rightarrow> org_bearer \<Rightarrow> int" where
  "surplus db k = balance_of db k + used_of db k - credited_of db k"

subsection \<open>What each statement does to the sums\<close>

lemma sql_deduct_sums:
  assumes "sql_deduct f now k n db = Inr (Some (b, db'))"
  shows "balance_of db' j = balance_of db j - (if j = k then n else 0)" "used_of db' j = used_of db j"
    "credited_of db' j = credited_of db j" "b = balance_of db' k" "n \<le> balance_of db k"
    "db_Consumptions db' = db_Consumptions db" "db_Purchases db' = db_Purchases db"
    "db_Grants db' = db_Grants db"
  using assms by (auto simp: sql_deduct_def ledger_defs split: if_splits option.splits)

lemma sql_add_balance_sums:
  assumes "sql_add_balance f now k n db = Inr db'"
  shows "balance_of db' j = balance_of db j + (if j = k then n else 0)" "used_of db' j = used_of db j"
    "credited_of db' j = credited_of db j" "db_Consumptions db' = db_Consumptions db"
  using assms by (auto simp: sql_add_balance_def ledger_defs split: if_splits option.splits)

lemma sql_insert_consumption_sums:
  assumes "sql_insert_consumption f c db = InsertOk db'"
  shows "balance_of db' j = balance_of db j" "credited_of db' j = credited_of db j"
    "used_of db' j = used_of db j + (if j = (con_OrgID c, con_BearerID c) then con_Credits c else 0)"
    "db_Consumptions db' = c # db_Consumptions db"
  using assms by (auto simp: sql_insert_consumption_def ledger_defs split: if_splits)

lemma sql_insert_purchase_sums:
  assumes "sql_insert_purchase f p db = Inr db'"
  shows "balance_of db' j = balance_of db j" "used_of db' j = used_of db j"
    "credited_of db' j = credited_of db j + (if j = (pur_OrgID p, pur_BearerID p) then pur_Credits p else 0)"
    "db_Consumptions db' = db_Consumptions db"
  using assms by (auto simp: sql_insert_purchase_def ledger_defs split: if_splits)

lemma sql_insert_grant_sums:
  assumes "sql_insert_grant f g db = Inr (ins, db')"
  shows "balance_of db' j = balance_of db j" "used_of db' j = used_of db j"
    "credited_of db' j = credited_of db j +
       (if ins \<and> j = (gr_OrgID g, gr_BearerID g) then gr_Credits g else 0)"
    "db_Consumptions db' = db_Consumptions db"
  using assms by (auto simp: sql_insert_grant_def ledger_defs split: if_splits)

subsection \<open>What each operation does to the sums\<close>

text \<open>The consumption of \<open>n\<close> credits, recorded under \<open>key\<close>.\<close>

definition consumed :: "string \<Rightarrow> string \<Rightarrow> int \<Rightarrow> string \<Rightarrow> credit_db \<Rightarrow> credit_db \<Rightarrow> bool" where
  "consumed org bearer n key db db' \<longleftrightarrow>
     0 < n \<and> n \<le> balance_of db (org, bearer) \<and>
     (\<forall>j. balance_of db' j = balance_of db j - (if j = (org, bearer) then n else 0) \<and>
        used_of db' j = used_of db j + (if j = (org, bearer) then n else 0) \<and>
        credited_of db' j = credited_of db j) \<and>
     (\<exists>c. con_OrgID c = org \<and> con_IdempotencyKey c = key \<and> db_Consumptions db' = c # db_Consumptions db)"

lemma consumedD:
  assumes "consumed org bearer n key db db'"
  shows "used_of db k \<le> used_of db' k" "0 \<le> balance_of db k \<Longrightarrow> 0 \<le> balance_of db' k"
    "surplus db' k = surplus db k" "set (db_Consumptions db) \<subseteq> set (db_Consumptions db')"
proof -
  have "balance_of db' k = balance_of db k - (if k = (org, bearer) then n else 0)"
       "used_of db' k = used_of db k + (if k = (org, bearer) then n else 0)"
       "credited_of db' k = credited_of db k" "0 < n" "n \<le> balance_of db (org, bearer)"
    using assms unfolding consumed_def by blast+
  then show "used_of db k \<le> used_of db' k" "0 \<le> balance_of db k \<Longrightarrow> 0 \<le> balance_of db' k"
      "surplus db' k = surplus db k"
    by (auto simp: surplus_def)
  show "set (db_Consumptions db) \<subseteq> set (db_Consumptions db')"
    using assms unfolding consumed_def by auto
qed

lemma ConsumeCredits_cases:
  assumes "ConsumeCredits flt seen chk now newID org bearer n op meta key db = (res, db')"
  shows "db' = db \<and> (\<forall>b. res = Inr b \<longrightarrow> b = - 1) \<or>
     consumed org bearer n key db db' \<and> (\<forall>b. res = Inr b \<longrightarrow> b = balance_of db' (org, bearer))"
proof (cases "\<exists>b db1. sql_deduct (flt 2) now (org, bearer) n db = Inr (Some (b, db1))")
  case False
  then show ?thesis
    using assms by (auto simp: ConsumeCredits_def split: if_splits sum.splits option.splits prod.splits)
next
  case True
  then obtain b db1 where d: "sql_deduct (flt 2) now (org, bearer) n db = Inr (Some (b, db1))"
    by blast
  let ?c = "\<lparr>con_ID = newID, con_OrgID = org, con_BearerID = bearer, con_Operation = op,
     con_Credits = n, con_Metadata = meta, con_IdempotencyKey = key, con_ConsumedAt = now\<rparr>"
  note s = sql_deduct_sums [OF d]
  show ?thesis
  proof (cases "sql_insert_consumption (flt 5) ?c db1")
    case (InsertOk db2)
    note i = sql_insert_consumption_sums [OF InsertOk]
    have after: "consumed org bearer n key db db2" if "\<not> n \<le> 0"
      unfolding consumed_def using i s that by (auto intro!: exI [of _ ?c])
    have b: "b = balance_of db2 (org, bearer)"
      using s(4) i(1) by simp
    show ?thesis
    proof (cases "n \<le> 0")
      case True
      then show ?thesis using assms by (auto simp: ConsumeCredits_def)
    next
      case False
      then show ?thesis
        using assms d InsertOk after [OF False] b
        by (simp add: ConsumeCredits_def tx_commit_def Let_def split: if_splits) auto
    qed
  qed (use assms d in \<open>auto simp: ConsumeCredits_def tx_commit_def Let_def split: if_splits\<close>)
qed

text \<open>
  What an operation that may credit does to one key: it uses nothing, and it adds to the balance at most
  what it records as credited.
\<close>

definition credits_only :: "credit_db \<Rightarrow> credit_db \<Rightarrow> bool" where
  "credits_only db db' \<longleftrightarrow>
     db_Consumptions db' = db_Consumptions db \<and>
     (\<forall>j. used_of db' j = used_of db j \<and> balance_of db j \<le> balance_of db' j \<and>
        surplus db' j \<le> surplus db j)"

lemma credits_onlyD:
  assumes "credits_only db db'"
  shows "used_of db' k = used_of db k" "balance_of db k \<le> balance_of db' k"
    "surplus db' k \<le> surplus db k" "db_Consumptions db' = db_Consumptions db"
  using assms unfolding credits_only_def by blast+

lemma credits_only_refl [simp]: "credits_only db db"
  by (simp add: credits_only_def)

lemma credits_only_trans: "credits_only db db' \<Longrightarrow> credits_only db' db'' \<Longrightarrow> credits_only db db''"
  unfolding credits_only_def by (metis order_trans)

definition catalogue_ok :: "credit_db \<Rightarrow> bool" where
  "catalogue_ok db \<longleftrightarrow> (\<forall>p\<in>set (db_Packs db). 0 \<le> pack_Credits p)"

lemma GetCreditPack_in:
  "GetCreditPack f db packID = Inr p \<Longrightarrow> p \<in> set (db_Packs db) \<and> pack_ID p = packID"
  by (auto simp: GetCreditPack_def find_Some_iff split: if_splits option.splits)

lemma PurchaseCredits_cases:
  assumes "PurchaseCredits flt seen now newID org packID db = (res, db')"
  shows "db' = db \<and> (\<exists>e. res = Inl e) \<or>
     (\<exists>pack. pack \<in> set (db_Packs seen) \<and> db_Consumptions db' = db_Consumptions db \<and>
        (\<forall>j. used_of db' j = used_of db j \<and>
           balance_of db' j = balance_of db j + (if j = (org, pack_BearerID pack) then pack_Credits pack else 0) \<and>
           credited_of db' j = credited_of db j + (if j = (org, pack_BearerID pack) then pack_Credits pack else 0)))"
proof (cases "GetCreditPack (flt 0) seen packID")
  case (Inl e)
  then show ?thesis using assms by (auto simp: PurchaseCredits_def)
next
  case (Inr pack)
  have pack: "pack \<in> set (db_Packs seen)"
    using GetCreditPack_in [OF Inr] by simp
  let ?p = "\<lparr>pur_ID = newID, pur_OrgID = org, pur_PackID = packID, pur_BearerID = pack_BearerID pack,
     pur_Credits = pack_Credits pack, pur_PricePaise = pack_PricePaise pack, pur_PurchasedAt = now\<rparr>"
  show ?thesis
  proof (cases "\<exists>db1 db2. sql_insert_purchase (flt 2) ?p db = Inr db1 \<and>
      sql_add_balance (flt 3) now (org, pack_BearerID pack) (pack_Credits pack) db1 = Inr db2")
    case False
    then show ?thesis
      using assms Inr by (auto simp: PurchaseCredits_def Let_def split: if_splits sum.splits)
  next
    case True
    then obtain db1 db2 where i: "sql_insert_purchase (flt 2) ?p db = Inr db1"
        and a: "sql_add_balance (flt 3) now (org, pack_BearerID pack) (pack_Credits pack) db1 = Inr db2"
      by blast
    have "db' = db \<and> (\<exists>e. res = Inl e) \<or> db' = db2"
      using assms Inr i a
      by (auto simp: PurchaseCredits_def Let_def tx_commit_def split: if_splits)
    then show ?thesis
      using pack sql_insert_purchase_sums [OF i] sql_add_balance_sums [OF a] by auto
  qed
qed

lemma PurchaseCredits_credits_only:
  assumes "PurchaseCredits flt seen now newID org packID db = (res, db')" "catalogue_ok seen"
  shows "credits_only db db'"
  using PurchaseCredits_cases [OF assms(1)] assms(2)
  by (auto simp: credits_only_def surplus_def catalogue_ok_def)

lemma grant_loop_credits_only:
  "grant_loop flt n now org plan start bs db = (res, db') \<Longrightarrow>
     credits_only db db' \<and> (res = Inr () \<longrightarrow> (\<forall>j. surplus db' j = surplus db j))"
proof (induction flt n now org plan start bs db rule: grant_loop.induct)
  case (1 flt n now org plan start db)
  then show ?case by simp
next
  case (2 flt n now org plan start bearer bs db)
  let ?u = "monthly_units plan bearer"
  let ?g = "\<lparr>gr_OrgID = org, gr_BearerID = cb_ID bearer, gr_PeriodStart = start div day, gr_Credits = ?u\<rparr>"
  have split: "(\<exists>e. x = Inl e) \<or> (\<exists>db1. x = Inr (False, db1)) \<or> (\<exists>db1. x = Inr (True, db1))"
    for x :: "(bool \<times> credit_db) result"
    by (cases x) auto
  consider (skip) "?u \<le> 0" | (err) e where "\<not> ?u \<le> 0" "sql_insert_grant (flt n) ?g db = Inl e"
    | (dup) db1 where "\<not> ?u \<le> 0" "sql_insert_grant (flt n) ?g db = Inr (False, db1)"
    | (ins) db1 where "\<not> ?u \<le> 0" "sql_insert_grant (flt n) ?g db = Inr (True, db1)"
    using split [of "sql_insert_grant (flt n) ?g db"] by blast
  then show ?case
  proof cases
    case skip
    then show ?thesis using 2(1)[OF refl skip] 2(4) by simp
  next
    case err
    then show ?thesis using 2(4) by simp
  next
    case dup
    then have "db1 = db" by (auto simp: sql_insert_grant_def split: if_splits)
    then show ?thesis using dup 2(2)[OF refl dup(1) refl dup(2) refl] 2(4) by simp
  next
    case ins
    note i = sql_insert_grant_sums [OF ins(2)]
    show ?thesis
    proof (cases "sql_add_balance (flt (Suc n)) now (org, cb_ID bearer) ?u db1")
      case (Inl e)
      then have "res = Inl ErrInternal" "db' = db1" using ins 2(4) by auto
      then show ?thesis using i ins(1) by (auto simp: credits_only_def surplus_def)
    next
      case (Inr db2)
      have step: "credits_only db db2 \<and> (\<forall>j. surplus db2 j = surplus db j)"
        using i sql_add_balance_sums [OF Inr] ins(1) by (auto simp: credits_only_def surplus_def)
      have rest: "grant_loop flt (Suc (Suc n)) now org plan start bs db2 = (res, db')"
        using ins Inr 2(4) by simp
      then show ?thesis
        using 2(3)[OF refl ins(1) refl ins(2) refl _ Inr] step credits_only_trans by auto
    qed
  qed
qed

lemma GrantMonthlyCredits_credits_only:
  "GrantMonthlyCredits flt now org plan start db = (res, db') \<Longrightarrow>
     credits_only db db' \<and> (res = Inr () \<longrightarrow> (\<forall>j. surplus db' j = surplus db j))"
  by (auto simp: GrantMonthlyCredits_def split: sum.splits dest: grant_loop_credits_only)

subsection \<open>Runs\<close>

text \<open>One operation of the store, with any faults, any views of the reads outside the transaction.\<close>

inductive credit_step :: "credit_db \<Rightarrow> credit_db \<Rightarrow> bool" where
  consume: "ConsumeCredits flt seen chk now newID org bearer n op meta key db = (res, db') \<Longrightarrow>
    credit_step db db'"
| purchase: "catalogue_ok seen \<Longrightarrow>
    PurchaseCredits flt seen now newID org packID db = (pres, db') \<Longrightarrow> credit_step db db'"
| grant: "GrantMonthlyCredits flt now org plan start db = (gres, db') \<Longrightarrow> credit_step db db'"

inductive_cases credit_stepE: "credit_step db db'"

lemma credit_step_cases:
  assumes "credit_step db db'"
  shows "credits_only db db' \<or> (\<exists>org bearer n key. consumed org bearer n key db db')"
  using assms
proof (cases rule: credit_step.cases)
  case consume
  then show ?thesis using ConsumeCredits_cases by fastforce
next
  case purchase
  then show ?thesis using PurchaseCredits_credits_only by blast
next
  case grant
  then show ?thesis using GrantMonthlyCredits_credits_only by blast
qed

interpretation ledger: credit_ledger credit_step balance_of credited_of used_of
proof
  fix db db' k
  assume step: "credit_step db db'"
  show "used_of db k \<le> used_of db' k"
    using credit_step_cases [OF step] credits_onlyD(1) [of db db' k] consumedD(1) [of _ _ _ _ db db' k]
    by fastforce
  show "0 \<le> balance_of db' k" if "0 \<le> balance_of db k"
    using credit_step_cases [OF step] that credits_onlyD(2) [of db db' k] consumedD(2) [of _ _ _ _ db db' k]
    by fastforce
  show "balance_of db' k + used_of db' k - credited_of db' k
      \<le> balance_of db k + used_of db k - credited_of db k"
    unfolding surplus_def [symmetric]
    using credit_step_cases [OF step] credits_onlyD(3) [of db db' k] consumedD(3) [of _ _ _ _ db db' k]
    by fastforce
qed

definition fresh_ledger :: "credit_db \<Rightarrow> bool" where
  "fresh_ledger db \<longleftrightarrow> db_Balances db = Map.empty \<and> db_Purchases db = [] \<and>
     db_Consumptions db = [] \<and> db_Grants db = []"

lemma fresh_ledger_sound: "fresh_ledger db \<Longrightarrow> ledger.sound db"
  by (simp add: ledger.sound_def fresh_ledger_def ledger_defs)

text \<open>
  C2: no organization can spend credits it was not given.  From empty tables, after any sequence of
  consumptions, purchases and monthly grants, with any database faults and any interleaving of the reads,
  every balance is non-negative and what was used plus what is left is at most what was purchased and granted.
\<close>

theorem credits_never_overspent:
  assumes "fresh_ledger db" and "credit_step\<^sup>*\<^sup>* db db'"
  shows "0 \<le> balance_of db' k \<and> used_of db' k + balance_of db' k \<le> credited_of db' k"
  using ledger.never_overspent [OF assms(2) fresh_ledger_sound [OF assms(1)]] by (simp add: add.commute)

definition empty_db :: credit_db where
  "empty_db = \<lparr>db_Bearers = [\<lparr>cb_ID = ''ai'', cb_DisplayName = [], cb_Description = [], cb_UnitName = [],
       cb_FreeUnits = 5, cb_ProUnits = 50\<rparr>], db_Packs = [], db_Balances = Map.empty, db_Purchases = [],
     db_Consumptions = [], db_Grants = []\<rparr>"

definition granted_db :: credit_db where
  "granted_db = snd (GrantMonthlyCredits (\<lambda>n. False) 1 ''o'' PlanFree 0 empty_db)"

definition consumed_db :: credit_db where
  "consumed_db = snd (ConsumeCredits (\<lambda>n. False) granted_db granted_db 2 ''c1'' ''o'' ''ai'' 3 ''scan'' [] ''k'' granted_db)"

lemmas credit_demo = empty_db_def granted_db_def consumed_db_def GrantMonthlyCredits_def ListCostBearers_def
  monthly_units_def sql_insert_grant_def sql_add_balance_def int32_def ConsumeCredits_def tx_commit_def
  sql_deduct_def sql_insert_consumption_def lookupIdempotentConsumption_def Let_def

lemma demo_run: "credit_step\<^sup>*\<^sup>* empty_db consumed_db"
proof -
  have "credit_step empty_db granted_db"
    by (rule credit_step.grant) (simp add: granted_db_def prod_eq_iff)
  moreover have "credit_step granted_db consumed_db"
    unfolding consumed_db_def by (rule credit_step.consume [OF prod.collapse [symmetric]])
  ultimately show ?thesis by (rule converse_rtranclp_into_rtranclp [OF _ r_into_rtranclp])
qed

theorem credits_never_overspent_witness:
  "fresh_ledger empty_db \<and> 0 \<le> balance_of consumed_db (''o'', ''ai'') \<and>
   used_of consumed_db (''o'', ''ai'') + balance_of consumed_db (''o'', ''ai'') \<le>
     credited_of consumed_db (''o'', ''ai'')"
proof -
  have "fresh_ledger empty_db" by (simp add: fresh_ledger_def empty_db_def)
  with credits_never_overspent [OF this demo_run] show ?thesis by blast
qed

text \<open>
  C11: the books balance.  A consumption or a purchase, whether it succeeds, is refused or fails anywhere,
  and a monthly grant that succeeds, leave what an organization has plus what it used minus what it was
  given exactly as it was: no credit appears or disappears.
\<close>

theorem credits_conserved:
  "surplus (snd (ConsumeCredits flt seen chk now newID org bearer n op meta key db)) k = surplus db k \<and>
   surplus (snd (PurchaseCredits flt seen now newID org packID db)) k = surplus db k \<and>
   (fst (GrantMonthlyCredits flt now org plan start db) = Inr () \<longrightarrow>
      surplus (snd (GrantMonthlyCredits flt now org plan start db)) k = surplus db k)"
proof (intro conjI impI)
  show "surplus (snd (ConsumeCredits flt seen chk now newID org bearer n op meta key db)) k = surplus db k"
    using ConsumeCredits_cases [OF prod.collapse [symmetric], of flt seen chk now newID org bearer n op meta key db]
    by (auto dest: consumedD(3))
  show "surplus (snd (PurchaseCredits flt seen now newID org packID db)) k = surplus db k"
    using PurchaseCredits_cases [OF prod.collapse [symmetric], of flt seen now newID org packID db]
    by (cases k) (auto simp: surplus_def)
  assume "fst (GrantMonthlyCredits flt now org plan start db) = Inr ()"
  then show "surplus (snd (GrantMonthlyCredits flt now org plan start db)) k = surplus db k"
    using GrantMonthlyCredits_credits_only by (metis prod.collapse)
qed

theorem credits_conserved_witness:
  "surplus (snd (GrantMonthlyCredits (\<lambda>n. False) 1 ''o'' PlanFree 0 empty_db)) (''o'', ''ai'') =
   surplus empty_db (''o'', ''ai'')"
proof -
  have "fst (GrantMonthlyCredits (\<lambda>n. False) 1 ''o'' PlanFree 0 empty_db) = Inr ()"
    by (simp add: credit_demo)
  then show ?thesis
    using credits_conserved [of "\<lambda>n. False" empty_db empty_db 1 "[]" "''o''" "[]" 1 "[]" "[]" "[]"
        empty_db "(''o'', ''ai'')" "[]" PlanFree 0] by blast
qed

subsection \<open>Idempotency keys\<close>

definition key_used :: "string \<Rightarrow> string \<Rightarrow> credit_db \<Rightarrow> bool" where
  "key_used org key db \<longleftrightarrow>
     (\<exists>c\<in>set (db_Consumptions db). con_OrgID c = org \<and> con_IdempotencyKey c = key)"

lemma consume_used_key:
  assumes "key_used org key db"
  shows "snd (ConsumeCredits flt seen chk now newID org bearer n op meta key db) = db"
proof (rule ccontr)
  let ?r = "ConsumeCredits flt seen chk now newID org bearer n op meta key db"
  assume ne: "snd ?r \<noteq> db"
  obtain b db1 where d: "sql_deduct (flt 2) now (org, bearer) n db = Inr (Some (b, db1))"
    using ne by (auto simp: ConsumeCredits_def split: if_splits sum.splits option.splits)
  have "\<exists>c'\<in>set (db_Consumptions db1). con_OrgID c' = org \<and> con_IdempotencyKey c' = key"
    using assms sql_deduct_sums(6) [OF d] by (simp add: key_used_def)
  then show False
    using ne d by (auto simp: ConsumeCredits_def sql_insert_consumption_def tx_commit_def Let_def
        split: if_splits)
qed

text \<open>Only a lookup that found the key answers without an error; the unique index stops every other call.\<close>

lemma consume_used_key_answer:
  assumes "key_used org key db"
    and "fst (ConsumeCredits flt seen chk now newID org bearer n op meta key db) = Inr b"
  shows "b = - 1 \<and> key \<noteq> [] \<and> lookupIdempotentConsumption (flt 0) seen org key = Inr (- 1)"
proof -
  have "\<exists>c'\<in>set (db_Consumptions db1). con_OrgID c' = org \<and> con_IdempotencyKey c' = key"
    if "sql_deduct (flt 2) now (org, bearer) n db = Inr (Some (v, db1))" for v db1
    using assms(1) sql_deduct_sums(6) [OF that] by (simp add: key_used_def)
  then show ?thesis
    using assms(2)
    by (fastforce simp: ConsumeCredits_def sql_insert_consumption_def tx_commit_def Let_def
        split: if_splits sum.splits option.splits)
qed

lemma consumptions_kept:
  assumes "credit_step db db'"
  shows "set (db_Consumptions db) \<subseteq> set (db_Consumptions db')"
  using credit_step_cases [OF assms] by (auto dest: consumedD(4) credits_onlyD(4))

lemma key_used_kept: "credit_step\<^sup>*\<^sup>* db db' \<Longrightarrow> key_used org key db \<Longrightarrow> key_used org key db'"
  by (induction rule: rtranclp_induct) (auto simp: key_used_def dest: consumptions_kept)

text \<open>
  C7: an idempotency key is charged at most once.  Once a consumption under a key took effect, even if the
  caller was told it failed, then whatever happens in between, no later consumption of the organization
  under that key, for any bearer and amount, with any faults, and even if its own lookup ran before the
  first one was visible, changes the tables.  It is answered with the placeholder \<open>-1\<close> if its lookup found
  the key and with an error otherwise: the unique violation aborts the transaction, so nothing of it is
  committed, although the comment at \<open>credit_store.go:230\<close> says that its update is.
\<close>

theorem idempotency_key_charged_once:
  assumes "ConsumeCredits flt seen chk now newID org bearer n op meta key db = (res, db1)" and "db1 \<noteq> db"
    and "credit_step\<^sup>*\<^sup>* db1 db2"
  shows "snd (ConsumeCredits flt' seen' chk' now' newID' org bearer' n' op' meta' key db2) = db2 \<and>
    (\<forall>b. fst (ConsumeCredits flt' seen' chk' now' newID' org bearer' n' op' meta' key db2) = Inr b \<longrightarrow>
       b = - 1 \<and> key \<noteq> [] \<and> lookupIdempotentConsumption (flt' 0) seen' org key = Inr (- 1))"
proof -
  have "key_used org key db1"
    using ConsumeCredits_cases [OF assms(1)] assms(2) by (auto simp: consumed_def key_used_def)
  then have used: "key_used org key db2" by (rule key_used_kept [OF assms(3)])
  show ?thesis
    by (intro conjI [OF consume_used_key [OF used]] allI impI) (rule consume_used_key_answer [OF used])
qed

lemma consumed_db_ne: "consumed_db \<noteq> granted_db"
proof -
  have "length (db_Consumptions consumed_db) = 1" "length (db_Consumptions granted_db) = 0"
    by (simp_all add: credit_demo)
  then show ?thesis by auto
qed

theorem idempotency_key_charged_once_witness:
  "snd (ConsumeCredits (\<lambda>n. False) granted_db granted_db 9 ''c2'' ''o'' ''ai'' 2 ''scan'' [] ''k'' consumed_db) =
   consumed_db"
  by (rule idempotency_key_charged_once [OF prod.collapse [symmetric] _ rtranclp.rtrancl_refl,
        of "\<lambda>n. False" granted_db granted_db 2 "''c1''" "''o''" "''ai''" 3 "''scan''" "[]" "''k''" granted_db,
        folded consumed_db_def, OF consumed_db_ne, THEN conjunct1])

text \<open>
  Calls without an idempotency key are not exempt from that: the empty key is stored as a value, not
  as NULL, so after the first consumption of an organization without a key every further one is refused,
  whatever the balance.
\<close>

theorem second_keyless_consumption_refused:
  assumes "key_used org [] db"
  shows "\<exists>e. ConsumeCredits flt seen chk now newID org bearer n op meta [] db = (Inl e, db)"
  using consume_used_key [OF assms] consume_used_key_answer [OF assms]
  by (metis prod.collapse sum.exhaust)

theorem second_keyless_consumption_refused_witness:
  "\<exists>e. ConsumeCredits (\<lambda>n. False) granted_db granted_db 9 ''c2'' ''o'' ''ai'' 1 ''scan'' [] []
         (snd (ConsumeCredits (\<lambda>n. False) granted_db granted_db 2 ''c1'' ''o'' ''ai'' 3 ''scan'' [] [] granted_db)) =
       (Inl e, snd (ConsumeCredits (\<lambda>n. False) granted_db granted_db 2 ''c1'' ''o'' ''ai'' 3 ''scan'' [] [] granted_db))"
  by (rule second_keyless_consumption_refused) (simp add: key_used_def credit_demo)

subsection \<open>Monthly grants\<close>

definition grant_recorded :: "string \<Rightarrow> int \<Rightarrow> cost_bearer \<Rightarrow> credit_db \<Rightarrow> bool" where
  "grant_recorded org d bearer db \<longleftrightarrow>
     (\<exists>g\<in>set (db_Grants db). gr_OrgID g = org \<and> gr_BearerID g = cb_ID bearer \<and> gr_PeriodStart g = d)"

lemma sql_insert_grant_recorded:
  assumes "sql_insert_grant f \<lparr>gr_OrgID = org, gr_BearerID = cb_ID bearer, gr_PeriodStart = d,
             gr_Credits = u\<rparr> db = Inr (ins, db')"
  shows "grant_recorded org d bearer db'" "set (db_Grants db) \<subseteq> set (db_Grants db')"
    "ins \<longleftrightarrow> \<not> grant_recorded org d bearer db" "\<not> ins \<Longrightarrow> db' = db" "db_Bearers db' = db_Bearers db"
  using assms by (auto simp: sql_insert_grant_def grant_recorded_def split: if_splits)

lemma sql_add_balance_grants:
  "sql_add_balance f now k n db = Inr db' \<Longrightarrow>
     db_Grants db' = db_Grants db \<and> db_Bearers db' = db_Bearers db"
  by (auto simp: sql_add_balance_def split: if_splits option.splits)

lemma grant_loop_recorded:
  "grant_loop flt n now org plan start bs db = (Inr (), db') \<Longrightarrow>
     db_Bearers db' = db_Bearers db \<and> set (db_Grants db) \<subseteq> set (db_Grants db') \<and>
     (\<forall>b\<in>set bs. 0 < monthly_units plan b \<longrightarrow> grant_recorded org (start div day) b db')"
proof (induction flt n now org plan start bs db rule: grant_loop.induct)
  case (1 flt n now org plan start db)
  then show ?case by simp
next
  case (2 flt n now org plan start bearer bs db)
  let ?g = "\<lparr>gr_OrgID = org, gr_BearerID = cb_ID bearer, gr_PeriodStart = start div day,
     gr_Credits = monthly_units plan bearer\<rparr>"
  show ?case
  proof (cases "monthly_units plan bearer \<le> 0")
    case True
    then show ?thesis using 2(1)[OF refl True] 2(4) by auto
  next
    case pos: False
    then obtain ins db1 where g: "sql_insert_grant (flt n) ?g db = Inr (ins, db1)"
      using 2(4) by (cases "sql_insert_grant (flt n) ?g db") auto
    note rec = sql_insert_grant_recorded [OF g]
    have mono: "grant_recorded org (start div day) bearer d'" if "set (db_Grants db1) \<subseteq> set (db_Grants d')" for d'
      using rec(1) that by (auto simp: grant_recorded_def)
    show ?thesis
    proof (cases ins)
      case False
      then have rest: "grant_loop flt (Suc n) now org plan start bs db1 = (Inr (), db')"
        using 2(4) pos g by simp
      from 2(2)[OF refl pos refl g refl False rest] rec(2,5) mono [of db'] show ?thesis
        by auto
    next
      case True
      then obtain db2 where a: "sql_add_balance (flt (Suc n)) now (org, cb_ID bearer) (monthly_units plan bearer) db1 = Inr db2"
        using 2(4) pos g
        by (cases "sql_add_balance (flt (Suc n)) now (org, cb_ID bearer) (monthly_units plan bearer) db1") auto
      have rest: "grant_loop flt (Suc (Suc n)) now org plan start bs db2 = (Inr (), db')"
        using 2(4) pos g a True by simp
      have "\<not> \<not> ins" using True by simp
      from 2(3)[OF refl pos refl g refl this a rest] rec(2,5) mono [of db'] sql_add_balance_grants [OF a]
      show ?thesis by auto
    qed
  qed
qed

lemma grant_loop_again:
  "(\<forall>b\<in>set bs. 0 < monthly_units plan b \<longrightarrow> grant_recorded org (start div day) b db) \<Longrightarrow>
     snd (grant_loop flt n now org plan start bs db) = db"
proof (induction bs arbitrary: n)
  case Nil
  then show ?case by simp
next
  case (Cons bearer bs)
  let ?g = "\<lparr>gr_OrgID = org, gr_BearerID = cb_ID bearer, gr_PeriodStart = start div day,
     gr_Credits = monthly_units plan bearer\<rparr>"
  have "(\<exists>e. sql_insert_grant f ?g db = Inl e) \<or> sql_insert_grant f ?g db = Inr (False, db)"
    if "0 < monthly_units plan bearer" for f
    using Cons.prems that by (auto simp: sql_insert_grant_def grant_recorded_def)
  then have new: "(\<exists>e. sql_insert_grant (flt n) ?g db = Inl e) \<or>
      sql_insert_grant (flt n) ?g db = Inr (False, db)" if "\<not> monthly_units plan bearer \<le> 0"
    using that by simp
  have rest: "snd (grant_loop flt m now org plan start bs db) = db" for m
    using Cons.IH Cons.prems by simp
  show ?case
  proof (cases "monthly_units plan bearer \<le> 0")
    case True
    then show ?thesis using rest by simp
  next
    case False
    with new [OF False] rest show ?thesis by auto
  qed
qed

text \<open>
  C22: a monthly grant is given once per period.  After a grant that succeeded, granting the same plan to
  the same organization for any instant of the same day leaves the tables alone, however often it is
  repeated and whatever faults occur.
\<close>

theorem monthly_grant_once:
  assumes "GrantMonthlyCredits flt now org plan start db = (Inr (), db')"
    and "start' div day = start div day"
  shows "snd (GrantMonthlyCredits flt' now' org plan start' db') = db'"
proof -
  have loop: "grant_loop flt 1 now org plan start (sort_key cb_ID (db_Bearers db)) db = (Inr (), db')"
    using assms(1) by (auto simp: GrantMonthlyCredits_def ListCostBearers_def split: if_splits)
  have "\<forall>b\<in>set (db_Bearers db'). 0 < monthly_units plan b \<longrightarrow>
          grant_recorded org (start' div day) b db'"
    using grant_loop_recorded [OF loop] assms(2) by auto
  then show ?thesis
    by (simp add: GrantMonthlyCredits_def ListCostBearers_def grant_loop_again)
qed

theorem monthly_grant_once_witness:
  "snd (GrantMonthlyCredits (\<lambda>n. False) 8 ''o'' PlanFree 7 granted_db) = granted_db"
proof (rule monthly_grant_once)
  show "GrantMonthlyCredits (\<lambda>n. False) 1 ''o'' PlanFree 0 empty_db = (Inr (), granted_db)"
    by (simp add: credit_demo)
  show "7 div day = 0 div day" by (simp add: go_simps)
qed

text \<open>
  The grant record and the balance are not written in one transaction.  If the balance update fails,
  the period counts as granted, no retry with working database ever pays it out, and the credits of that
  month are lost.
\<close>

theorem monthly_grant_fault_loses_credits:
  "let db' = snd (GrantMonthlyCredits (\<lambda>n. n = 2) 1 ''o'' PlanFree 0 empty_db)
   in credited_of db' (''o'', ''ai'') = 5 \<and> balance_of db' (''o'', ''ai'') = 0 \<and>
      GrantMonthlyCredits (\<lambda>n. False) 2 ''o'' PlanFree 0 db' = (Inr (), db')"
  by (simp add: credit_demo ledger_defs)

end
