(* ===== verification/AuditLog.thy ===== *)
theory AuditLog
  imports FlagModel
begin

text \<open>
  The audit trail: \<open>server/internal/domain/audit.go\<close> and \<open>CreateAuditEntry\<close>, \<open>GetLastAuditHash\<close> and
  \<open>PurgeAuditEntries\<close> of \<open>store/postgres/store.go\<close> over the table \<open>audit_logs\<close>.  HMAC-SHA-512 and the
  printing of times are parameters.  The table is a list, newest row first.
\<close>

record audit_entry =
  au_ID :: string
  au_OrgID :: string
  au_ProjectID :: "string option"
  au_ActorID :: "string option"
  au_ActorType :: string
  au_Action :: string
  au_ResourceType :: string
  au_ResourceID :: "string option"
  au_BeforeState :: rawjson
  au_AfterState :: rawjson
  au_Metadata :: rawjson
  au_IPAddress :: string
  au_UserAgent :: string
  au_IntegrityHash :: string
  au_CreatedAt :: gotime

definition zero_audit_entry :: audit_entry where
  "zero_audit_entry = \<lparr>au_ID = [], au_OrgID = [], au_ProjectID = None, au_ActorID = None,
     au_ActorType = [], au_Action = [], au_ResourceType = [], au_ResourceID = None,
     au_BeforeState = None, au_AfterState = None, au_Metadata = None, au_IPAddress = [],
     au_UserAgent = [], au_IntegrityHash = [], au_CreatedAt = 0\<rparr>"

text \<open>\<open>mac_hmac key message\<close> is the hexadecimal HMAC, \<open>mac_time\<close> prints a time as RFC 3339 with nanoseconds.\<close>

record maclib =
  mac_hmac :: "string \<Rightarrow> string \<Rightarrow> string"
  mac_time :: "gotime \<Rightarrow> string"

definition raw_bytes :: "string option \<Rightarrow> string" where
  "raw_bytes v = (case v of None \<Rightarrow> [] | Some s \<Rightarrow> s)"

definition audit_message :: "maclib \<Rightarrow> string \<Rightarrow> audit_entry \<Rightarrow> string" where
  "audit_message m previousHash e =
     previousHash @ au_OrgID e @ au_Action e @ au_ResourceType e @ raw_bytes (au_ResourceID e) @
     raw_bytes (au_ActorID e) @ raw_bytes (au_BeforeState e) @ raw_bytes (au_AfterState e) @
     mac_time m (au_CreatedAt e)"

definition ComputeIntegrityHash :: "maclib \<Rightarrow> audit_entry \<Rightarrow> string \<Rightarrow> string \<Rightarrow> string" where
  "ComputeIntegrityHash m e previousHash keyMaterial =
     mac_hmac m keyMaterial (audit_message m previousHash e)"

text \<open>\<open>ORDER BY created_at DESC LIMIT 1\<close>; of rows of the same time the newest.\<close>

fun latest_entry :: "audit_entry list \<Rightarrow> audit_entry option" where
  "latest_entry [] = None"
| "latest_entry (e # es) =
     (case latest_entry es of
        None \<Rightarrow> Some e
      | Some e' \<Rightarrow> Some (if au_CreatedAt e < au_CreatedAt e' then e' else e))"

definition last_hash :: "audit_entry list \<Rightarrow> string \<Rightarrow> string" where
  "last_hash log u =
     (case latest_entry (filter (\<lambda>e. au_OrgID e = u) log) of
        None \<Rightarrow> [] | Some e \<Rightarrow> au_IntegrityHash e)"

definition GetLastAuditHash :: "bool \<Rightarrow> pglib \<Rightarrow> string \<Rightarrow> audit_entry list \<Rightarrow> string" where
  "GetLastAuditHash fails pg orgID log =
     (if fails then [] else case pg_uuid pg orgID of None \<Rightarrow> [] | Some u \<Rightarrow> last_hash log u)"

text \<open>
  The row an entry becomes: identifiers canonical, JSON as the column gives it back, and \<open>created_at\<close> the
  default of the column, the start of the transaction on the clock of the database, not the time that was
  hashed.  \<open>orgs\<close> and \<open>projects\<close> are the identifiers the foreign keys refer to.
\<close>

definition audit_row ::
    "pglib \<Rightarrow> string list \<Rightarrow> string list \<Rightarrow> gotime \<Rightarrow> string \<Rightarrow> audit_entry \<Rightarrow> audit_entry option" where
  "audit_row pg orgs projects dbnow newID e =
     (case (pg_uuid pg (au_OrgID e), pg_uuid_null pg (au_ProjectID e), pg_uuid_null pg (au_ActorID e),
            pg_uuid_null pg (au_ResourceID e), pg_raw pg (au_BeforeState e), pg_raw pg (au_AfterState e),
            pg_raw pg (au_Metadata e)) of
        (Some org, Some project, Some actor, Some resource, Some before, Some after, Some metadata) \<Rightarrow>
          (if org \<in> set orgs \<and> (\<forall>p. project = Some p \<longrightarrow> p \<in> set projects) \<and>
              au_ActorType e \<in> {''user'', ''api_key''}
           then Some (e\<lparr>au_ID := newID, au_OrgID := org, au_ProjectID := project, au_ActorID := actor,
                  au_ResourceID := resource, au_BeforeState := before, au_AfterState := after,
                  au_Metadata := metadata, au_CreatedAt := dbnow\<rparr>)
           else None)
      | _ \<Rightarrow> None)"

definition CreateAuditEntry ::
    "maclib \<Rightarrow> string \<Rightarrow> faults \<Rightarrow> pglib \<Rightarrow> string list \<Rightarrow> string list \<Rightarrow> gotime \<Rightarrow> gotime \<Rightarrow> string \<Rightarrow>
     audit_entry \<Rightarrow> audit_entry list \<Rightarrow> unit result \<times> audit_entry list" where
  "CreateAuditEntry m key flt pg orgs projects now dbnow newID entry log =
     (if flt 0 then (Inl ErrInternal, log)
      else
        (case pg_uuid pg (au_OrgID entry) of
           None \<Rightarrow> (Inl ErrInternal, log)
         | Some u \<Rightarrow>
           (if flt 1 then (Inl ErrInternal, log)
            else
              (let e1 = entry\<lparr>au_CreatedAt := now\<rparr>;
                   e2 = e1\<lparr>au_IntegrityHash := ComputeIntegrityHash m e1 (last_hash log u) key\<rparr>
               in if flt 2 then (Inl ErrInternal, log)
                  else
                    (case audit_row pg orgs projects dbnow newID e2 of
                       None \<Rightarrow> (Inl ErrInternal, log)
                     | Some row \<Rightarrow>
                       (if flt 3 then (Inl ErrInternal, log)
                        else if flt 4 then (Inl ErrInternal, row # log)
                        else (Inr (), row # log)))))))"

definition PurgeAuditEntries :: "bool \<Rightarrow> gotime \<Rightarrow> audit_entry list \<Rightarrow> int result \<times> audit_entry list" where
  "PurgeAuditEntries fails olderThan log =
     (if fails then (Inl ErrInternal, log)
      else (Inr (int (length (filter (\<lambda>e. au_CreatedAt e < olderThan) log))),
            filter (\<lambda>e. \<not> au_CreatedAt e < olderThan) log))"

subsection \<open>Laws\<close>

lemma latest_entry_None [simp]: "latest_entry es = None \<longleftrightarrow> es = []"
  by (cases es) (auto split: option.splits)

lemma latest_entry_Some:
  "latest_entry es = Some e \<Longrightarrow> e \<in> set es \<and> (\<forall>e'\<in>set es. au_CreatedAt e' \<le> au_CreatedAt e)"
proof (induction es arbitrary: e)
  case (Cons a es)
  show ?case
  proof (cases "latest_entry es")
    case None
    with Cons.prems show ?thesis by simp
  next
    case (Some e')
    with Cons.IH [OF Some] Cons.prems show ?thesis by (auto split: if_splits)
  qed
qed simp

lemma audit_row_fields:
  assumes "audit_row pg orgs projects dbnow newID e = Some row"
  shows "au_Action row = au_Action e" "au_IntegrityHash row = au_IntegrityHash e"
    "au_CreatedAt row = dbnow" "pg_uuid pg (au_OrgID e) = Some (au_OrgID row)" "au_OrgID row \<in> set orgs"
    "au_ActorType row = au_ActorType e" "au_ActorType e \<in> {''user'', ''api_key''}" "au_ID row = newID"
    "au_ResourceType row = au_ResourceType e"
    "pg_raw pg (au_BeforeState e) = Some (au_BeforeState row)"
    "pg_raw pg (au_AfterState e) = Some (au_AfterState row)"
  using assms by (auto simp: audit_row_def simp del: if_split split: option.splits if_split_asm)

lemma CreateAuditEntry_cases:
  "(\<exists>r. CreateAuditEntry m key flt pg orgs projects now dbnow newID e log = (r, log) \<and> r \<noteq> Inr ()) \<or>
   (\<exists>r row. CreateAuditEntry m key flt pg orgs projects now dbnow newID e log = (r, row # log) \<and>
      audit_row pg orgs projects dbnow newID
        (e\<lparr>au_CreatedAt := now, au_IntegrityHash := ComputeIntegrityHash m (e\<lparr>au_CreatedAt := now\<rparr>)
            (last_hash log (au_OrgID row)) key\<rparr>) = Some row)"
  by (auto simp: CreateAuditEntry_def Let_def split: option.splits) (frule audit_row_fields(4), simp)+

text \<open>The trail only grows, and by at most one row, whatever fails.\<close>

lemma CreateAuditEntry_grows:
  "snd (CreateAuditEntry m key flt pg orgs projects now dbnow newID e log) = log \<or>
   (\<exists>row. snd (CreateAuditEntry m key flt pg orgs projects now dbnow newID e log) = row # log)"
  using CreateAuditEntry_cases [of m key flt pg orgs projects now dbnow newID e log] by auto

text \<open>A row verifies if the hash recomputed from it and the previous hash is the one it carries.\<close>

definition row_verifies :: "maclib \<Rightarrow> string \<Rightarrow> string \<Rightarrow> audit_entry \<Rightarrow> bool" where
  "row_verifies m key previousHash row \<longleftrightarrow> ComputeIntegrityHash m row previousHash key = au_IntegrityHash row"

text \<open>
  The integrity hash of an audit entry cannot be recomputed from the row that was stored.  The hash
  covers the time of the server, but \<open>created_at\<close> is not among the inserted columns and gets the time of
  the database: even for an entry whose identifiers are canonical and which has no snapshots, the
  stored row verifies only if both clocks print the same instant, to the nanosecond.
\<close>

theorem audit_row_verifies_iff:
  assumes "CreateAuditEntry m key flt pg orgs projects now dbnow newID e log = (Inr (), row # log)"
    and "\<And>x y. mac_hmac m key x = mac_hmac m key y \<Longrightarrow> x = y"
    and "au_OrgID row = au_OrgID e" "au_ResourceID row = au_ResourceID e" "au_ActorID row = au_ActorID e"
    and "au_BeforeState e = None" "au_AfterState e = None"
  shows "row_verifies m key (last_hash log (au_OrgID row)) row \<longleftrightarrow> mac_time m now = mac_time m dbnow"
proof -
  let ?e2 = "e\<lparr>au_CreatedAt := now, au_IntegrityHash := ComputeIntegrityHash m (e\<lparr>au_CreatedAt := now\<rparr>)
            (last_hash log (au_OrgID row)) key\<rparr>"
  have row: "audit_row pg orgs projects dbnow newID ?e2 = Some row"
    using CreateAuditEntry_cases [of m key flt pg orgs projects now dbnow newID e log] assms(1) by auto
  have snaps: "au_BeforeState row = None" "au_AfterState row = None"
      "au_ResourceType row = au_ResourceType e"
    using audit_row_fields(9-11) [OF row] assms(6,7) by (simp_all add: pg_raw_def)
  have "row_verifies m key (last_hash log (au_OrgID row)) row \<longleftrightarrow>
      mac_hmac m key (audit_message m (last_hash log (au_OrgID row)) row) =
      mac_hmac m key (audit_message m (last_hash log (au_OrgID row)) (e\<lparr>au_CreatedAt := now\<rparr>))"
    using audit_row_fields [OF row] by (simp add: row_verifies_def ComputeIntegrityHash_def)
  also have "\<dots> \<longleftrightarrow> audit_message m (last_hash log (au_OrgID row)) row =
      audit_message m (last_hash log (au_OrgID row)) (e\<lparr>au_CreatedAt := now\<rparr>)"
    using assms(2) by metis
  also have "\<dots> \<longleftrightarrow> mac_time m dbnow = mac_time m now"
    using audit_row_fields [OF row] snaps assms(3-7) by (simp add: audit_message_def)
  finally show ?thesis by auto
qed

definition demo_mac :: maclib where
  "demo_mac = \<lparr>mac_hmac = (\<lambda>k msg. k @ msg), mac_time = (\<lambda>t. replicate (nat t) CHR ''x'')\<rparr>"

definition demo_pg :: pglib where
  "demo_pg = \<lparr>pg_uuid = (\<lambda>s. if s = [] then None else Some s),
     pg_jsonb = (\<lambda>s. if s = [] then None else Some s)\<rparr>"

definition demo_audit :: audit_entry where
  "demo_audit = zero_audit_entry\<lparr>au_OrgID := ''o'', au_ActorType := ''user'', au_Action := ''flag.created'',
     au_ResourceType := ''flag''\<rparr>"

theorem audit_row_verifies_iff_witness:
  "\<exists>row. CreateAuditEntry demo_mac ''k'' (\<lambda>n. False) demo_pg [''o''] [] 5 7 ''1'' demo_audit [] =
     (Inr (), [row]) \<and> \<not> row_verifies demo_mac ''k'' [] row"
proof -
  let ?run = "CreateAuditEntry demo_mac ''k'' (\<lambda>n. False) demo_pg [''o''] [] 5 7 ''1'' demo_audit []"
  obtain row where row: "?run = (Inr (), [row])"
    and same: "au_OrgID row = au_OrgID demo_audit" "au_ResourceID row = au_ResourceID demo_audit"
      "au_ActorID row = au_ActorID demo_audit"
    by (simp add: CreateAuditEntry_def Let_def demo_pg_def demo_audit_def zero_audit_entry_def audit_row_def
        pg_uuid_null_def pg_raw_def)
  have "row_verifies demo_mac ''k'' (last_hash [] (au_OrgID row)) row \<longleftrightarrow>
      mac_time demo_mac 5 = mac_time demo_mac 7"
    by (rule audit_row_verifies_iff [OF row _ same])
      (simp_all add: demo_mac_def demo_audit_def zero_audit_entry_def)
  then show ?thesis
    using row by (intro exI [of _ row]) (simp add: demo_mac_def last_hash_def)
qed

end
