(* ===== verification/FlagStore.thy ===== *)
theory FlagStore
  imports AuditLog EvalEngine
begin

text \<open>
  The tables of projects, environments, flags, flag states, segments and flag versions and the operations
  of \<open>store/postgres/store.go\<close> on them, with the constraints and triggers of the migrations: unique
  keys, checks, foreign keys with their cascades, \<open>notify_flag_change\<close> on flag states (migration 1) and
  \<open>increment_flag_version\<close> on flags (migration 88).  A statement is a function on the record \<open>flag_db\<close>; it
  fails when \<open>fails\<close> says so (lost connections, lengths of text columns) or a constraint does.  Rows are
  in insertion order, and \<open>fdb_Changes\<close> are the notifications sent so far.
\<close>

record project =
  prj_ID :: string
  prj_OrgID :: string
  prj_Name :: string
  prj_Slug :: string
  prj_CreatedAt :: gotime
  prj_UpdatedAt :: gotime

record environment =
  env_ID :: string
  env_ProjectID :: string
  env_OrgID :: string
  env_Name :: string
  env_Slug :: string
  env_Color :: string
  env_CreatedAt :: gotime
  env_UpdatedAt :: gotime

text \<open>The snapshot of a flag that the trigger writes.\<close>

record flag_config =
  fc_Key :: string
  fc_Name :: string
  fc_Description :: string
  fc_FlagType :: string
  fc_DefaultValue :: rawjson
  fc_Tags :: "string list"
  fc_ExpiresAt :: "gotime option"

record flag_version =
  fv_FlagID :: string
  fv_Version :: nat
  fv_Config :: flag_config
  fv_PreviousConfig :: "flag_config option"
  fv_ChangedBy :: "string option"
  fv_ChangeReason :: "string option"

record flag_change =
  ch_FlagID :: string
  ch_EnvID :: string
  ch_Action :: string

record flag_db =
  fdb_Orgs :: "string list"
  fdb_Projects :: "project list"
  fdb_Envs :: "environment list"
  fdb_Flags :: "flag list"
  fdb_States :: "flag_state list"
  fdb_Segments :: "segment list"
  fdb_Versions :: "flag_version list"
  fdb_Audit :: "audit_entry list"
  fdb_Changes :: "flag_change list"

subsection \<open>Projects and environments\<close>

definition GetProject :: "bool \<Rightarrow> pglib \<Rightarrow> string \<Rightarrow> flag_db \<Rightarrow> project result" where
  "GetProject fails pg i db = by_uuid fails pg i (\<lambda>u. find (\<lambda>p. prj_ID p = u) (fdb_Projects db))"

definition GetEnvironment :: "bool \<Rightarrow> pglib \<Rightarrow> string \<Rightarrow> flag_db \<Rightarrow> environment result" where
  "GetEnvironment fails pg i db = by_uuid fails pg i (\<lambda>u. find (\<lambda>e. env_ID e = u) (fdb_Envs db))"

definition ResolveOrgIDByEnvID :: "bool \<Rightarrow> pglib \<Rightarrow> string \<Rightarrow> flag_db \<Rightarrow> string result" where
  "ResolveOrgIDByEnvID fails pg i db =
     by_uuid fails pg i (\<lambda>u.
       case find (\<lambda>e. env_ID e = u) (fdb_Envs db) of
         None \<Rightarrow> None
       | Some e \<Rightarrow> map_option prj_OrgID (find (\<lambda>p. prj_ID p = env_ProjectID e) (fdb_Projects db)))"

subsection \<open>Flags\<close>

text \<open>The columns of the queries for one flag leave out \<open>labels\<close> and \<open>protection\<close>.\<close>

definition flag_columns :: "flag \<Rightarrow> flag" where
  "flag_columns f = f\<lparr>flag_Labels := None, flag_Protection := None\<rparr>"

definition flag_checks :: "flag \<Rightarrow> bool" where
  "flag_checks f \<longleftrightarrow>
     flag_FlagType f \<in> {FlagTypeBoolean, FlagTypeString, FlagTypeNumber, FlagTypeJSON, FlagTypeAB} \<and>
     flag_Category f \<in> {CategoryRelease, CategoryExperiment, CategoryOps, CategoryPermission} \<and>
     flag_Status f \<in> {StatusActive, StatusRolledOut, StatusDeprecated, StatusArchived}"

definition CreateFlag ::
    "bool \<Rightarrow> pglib \<Rightarrow> gotime \<Rightarrow> string \<Rightarrow> flag \<Rightarrow> flag_db \<Rightarrow> flag result \<times> flag_db" where
  "CreateFlag fails pg now newID f db =
     (let f1 = f\<lparr>flag_Category := (if flag_Category f = [] then CategoryRelease else flag_Category f),
                 flag_Status := (if flag_Status f = [] then StatusActive else flag_Status f)\<rparr>
      in if fails then (Inl ErrInternal, db)
         else
           (case (pg_uuid pg (flag_ProjectID f), pg_uuid pg (flag_OrgID f), pg_raw pg (flag_DefaultValue f)) of
              (Some p, Some org, Some (Some v)) \<Rightarrow>
                (if \<not> flag_checks f1 then (Inl ErrInternal, db)
                 else if \<exists>g\<in>set (fdb_Flags db). flag_ID g = newID \<or>
                           flag_ProjectID g = p \<and> flag_Key g = flag_Key f
                 then (Inl ErrConflict, db)
                 else if p \<notin> prj_ID ` set (fdb_Projects db) \<or> org \<notin> set (fdb_Orgs db)
                 then (Inl ErrInternal, db)
                 else
                   (let created = f1\<lparr>flag_ID := newID, flag_CreatedAt := now, flag_UpdatedAt := now\<rparr>;
                        row = created\<lparr>flag_ProjectID := p, flag_OrgID := org, flag_DefaultValue := Some v,
                                flag_Labels := Some ''{}'', flag_Protection := Some ''{\"delete\": false}''\<rparr>
                    in (Inr created, db\<lparr>fdb_Flags := fdb_Flags db @ [row]\<rparr>)))
            | _ \<Rightarrow> (Inl ErrInternal, db)))"

definition GetFlag :: "bool \<Rightarrow> pglib \<Rightarrow> string \<Rightarrow> string \<Rightarrow> flag_db \<Rightarrow> flag result" where
  "GetFlag fails pg projectID key db =
     by_uuid fails pg projectID
       (\<lambda>u. map_option flag_columns (find (\<lambda>f. flag_ProjectID f = u \<and> flag_Key f = key) (fdb_Flags db)))"

text \<open>\<open>ORDER BY created_at\<close>; rows of the same time keep their order.\<close>

definition ListFlags :: "bool \<Rightarrow> pglib \<Rightarrow> string \<Rightarrow> flag_db \<Rightarrow> flag list result" where
  "ListFlags fails pg projectID db =
     by_uuid fails pg projectID
       (\<lambda>u. Some (map flag_columns
          (sort_key flag_CreatedAt (filter (\<lambda>f. flag_ProjectID f = u) (fdb_Flags db)))))"

text \<open>
  \<open>has_labels\<close> is the containment test of \<open>JSONB\<close> and \<open>order\<close> the \<open>ORDER BY\<close> of a column and a direction,
  whose collation the code leaves to the database.
\<close>

definition ListFlagsWithFilter ::
    "(string \<Rightarrow> rawjson \<Rightarrow> bool) \<Rightarrow> golib \<Rightarrow> bool \<Rightarrow> pglib \<Rightarrow> string \<Rightarrow> string \<Rightarrow> string \<Rightarrow> flag_db \<Rightarrow>
     flag list result" where
  "ListFlagsWithFilter has_labels lib fails pg orgID projectID labelSelector db =
     (if labelSelector = [] then ListFlags fails pg projectID db
      else if \<not> go_json_valid lib labelSelector then Inl ErrInternal
      else
        (case (pg_uuid pg orgID, pg_jsonb pg labelSelector) of
           (Some org, Some sel) \<Rightarrow>
             by_uuid fails pg projectID
               (\<lambda>u. Some (map (\<lambda>f. f\<lparr>flag_Protection := None\<rparr>)
                  (sort_key flag_CreatedAt
                    (filter (\<lambda>f. flag_OrgID f = org \<and> flag_ProjectID f = u \<and> has_labels sel (flag_Labels f))
                      (fdb_Flags db)))))
         | _ \<Rightarrow> Inl ErrInternal))"

definition ListFlagsSorted ::
    "(string \<Rightarrow> string \<Rightarrow> flag list \<Rightarrow> flag list) \<Rightarrow> bool \<Rightarrow> pglib \<Rightarrow> string \<Rightarrow> string \<Rightarrow> string \<Rightarrow> flag_db \<Rightarrow>
     flag list result" where
  "ListFlagsSorted order fails pg projectID sortField sortDir db =
     (let field = (if sortField \<in> {''key'', ''name'', ''created_at'', ''updated_at'', ''status''}
                   then sortField else ''created_at'');
          dir = (if sortDir = ''ASC'' \<or> sortDir = ''asc'' then ''ASC'' else ''DESC'')
      in by_uuid fails pg projectID
           (\<lambda>u. Some (map flag_columns
              (order field dir (filter (\<lambda>f. flag_ProjectID f = u) (fdb_Flags db))))))"

definition config_of :: "flag \<Rightarrow> flag_config" where
  "config_of f = \<lparr>fc_Key = flag_Key f, fc_Name = flag_Name f, fc_Description = flag_Description f,
     fc_FlagType = flag_FlagType f, fc_DefaultValue = flag_DefaultValue f, fc_Tags = flag_Tags f,
     fc_ExpiresAt = flag_ExpiresAt f\<rparr>"

definition max_version :: "string \<Rightarrow> flag_version list \<Rightarrow> nat" where
  "max_version i vs = foldr (\<lambda>v n. if fv_FlagID v = i then max (fv_Version v) n else n) vs 0"

text \<open>The trigger \<open>increment_flag_version\<close>, after the update of a row.\<close>

definition increment_flag_version :: "flag \<Rightarrow> flag \<Rightarrow> flag_db \<Rightarrow> flag_db" where
  "increment_flag_version old new db =
     db\<lparr>fdb_Versions := fdb_Versions db @
          [\<lparr>fv_FlagID = flag_ID new, fv_Version = Suc (max_version (flag_ID new) (fdb_Versions db)),
            fv_Config = config_of new, fv_PreviousConfig = Some (config_of old), fv_ChangedBy = None,
            fv_ChangeReason = None\<rparr>]\<rparr>"

text \<open>\<open>UPDATE flags SET ... WHERE id = u\<close>: no row is no error; the checks only see the rows updated.\<close>

definition sql_update_flag :: "string \<Rightarrow> (flag \<Rightarrow> flag) \<Rightarrow> flag_db \<Rightarrow> unit result \<times> flag_db" where
  "sql_update_flag u upd db =
     (case find (\<lambda>f. flag_ID f = u) (fdb_Flags db) of
        None \<Rightarrow> (Inr (), db)
      | Some old \<Rightarrow>
        (if \<not> flag_checks (upd old) \<or> flag_DefaultValue (upd old) = None then (Inl ErrInternal, db)
         else (Inr (), increment_flag_version old (upd old)
                 (db\<lparr>fdb_Flags := map (\<lambda>f. if flag_ID f = u then upd f else f) (fdb_Flags db)\<rparr>))))"

definition UpdateFlag :: "bool \<Rightarrow> pglib \<Rightarrow> gotime \<Rightarrow> flag \<Rightarrow> flag_db \<Rightarrow> unit result \<times> flag_db" where
  "UpdateFlag fails pg now f db =
     (if fails then (Inl ErrInternal, db)
      else
        (case (pg_uuid pg (flag_ID f), pg_raw pg (flag_DefaultValue f)) of
           (Some u, Some v) \<Rightarrow>
             sql_update_flag u
               (\<lambda>old. old\<lparr>flag_Name := flag_Name f, flag_Description := flag_Description f,
                  flag_DefaultValue := v, flag_Tags := flag_Tags f, flag_ExpiresAt := flag_ExpiresAt f,
                  flag_Prerequisites := flag_Prerequisites f,
                  flag_MutualExclusionGroup := flag_MutualExclusionGroup f,
                  flag_Category := flag_Category f, flag_Status := flag_Status f,
                  flag_UpdatedAt := now\<rparr>) db
         | _ \<Rightarrow> (Inl ErrInternal, db)))"

definition state_change :: "string \<Rightarrow> flag_state \<Rightarrow> flag_change" where
  "state_change action st = \<lparr>ch_FlagID = state_FlagID st, ch_EnvID = state_EnvID st, ch_Action = action\<rparr>"

text \<open>\<open>DELETE FROM flags\<close> with its cascade to states, whose trigger notifies, and to versions.\<close>

definition DeleteFlag :: "bool \<Rightarrow> pglib \<Rightarrow> string \<Rightarrow> flag_db \<Rightarrow> unit result \<times> flag_db" where
  "DeleteFlag fails pg i db =
     (if fails then (Inl ErrInternal, db)
      else
        (case pg_uuid pg i of
           None \<Rightarrow> (Inl ErrInternal, db)
         | Some u \<Rightarrow>
           (if u \<notin> flag_ID ` set (fdb_Flags db) then (Inr (), db)
            else
              (Inr (), db\<lparr>fdb_Flags := filter (\<lambda>f. flag_ID f \<noteq> u) (fdb_Flags db),
                 fdb_States := filter (\<lambda>st. state_FlagID st \<noteq> u) (fdb_States db),
                 fdb_Versions := filter (\<lambda>v. fv_FlagID v \<noteq> u) (fdb_Versions db),
                 fdb_Changes := fdb_Changes db @
                   map (state_change ''DELETE'') (filter (\<lambda>st. state_FlagID st = u) (fdb_States db))\<rparr>))))"

subsection \<open>Flag versions\<close>

definition ListFlagVersions ::
    "bool \<Rightarrow> pglib \<Rightarrow> string \<Rightarrow> nat \<Rightarrow> nat \<Rightarrow> flag_db \<Rightarrow> flag_version list result" where
  "ListFlagVersions fails pg flagID limit offset db =
     by_uuid fails pg flagID (\<lambda>u. Some (take limit (drop offset
       (rev (sort_key fv_Version (filter (\<lambda>v. fv_FlagID v = u) (fdb_Versions db)))))))"

definition GetFlagVersion :: "bool \<Rightarrow> pglib \<Rightarrow> string \<Rightarrow> int \<Rightarrow> flag_db \<Rightarrow> flag_version result" where
  "GetFlagVersion fails pg flagID version db =
     by_uuid fails pg flagID
       (\<lambda>u. find (\<lambda>v. fv_FlagID v = u \<and> int (fv_Version v) = version) (fdb_Versions db))"

text \<open>
  \<open>json.Unmarshal\<close> of the snapshot into a struct whose \<open>DefaultValue\<close> is a Go string: any JSON value but a
  string or null is an error.
\<close>

definition config_default :: "golib \<Rightarrow> rawjson \<Rightarrow> string option" where
  "config_default lib raw =
     (case raw of
        None \<Rightarrow> Some []
      | Some s \<Rightarrow>
        (case go_unmarshal lib s of
           Some (JStr v) \<Rightarrow> Some v
         | Some JNull \<Rightarrow> Some []
         | _ \<Rightarrow> None))"

text \<open>
  The string is then the text of the parameter of a \<open>JSONB\<close> column.  The two statements are not in a
  transaction.  \<open>changed_by\<close> is a text here; that it must name a user is one of the reasons of \<open>flt 2\<close>.
\<close>

definition RollbackFlagToVersion ::
    "golib \<Rightarrow> faults \<Rightarrow> pglib \<Rightarrow> gotime \<Rightarrow> string \<Rightarrow> int \<Rightarrow> string \<Rightarrow> string \<Rightarrow> flag_db \<Rightarrow>
     unit result \<times> flag_db" where
  "RollbackFlagToVersion lib flt pg now flagID version userID reason db =
     (case GetFlagVersion (flt 0) pg flagID version db of
        Inl e \<Rightarrow> (Inl e, db)
      | Inr target \<Rightarrow>
        (let c = fv_Config target
         in case config_default lib (fc_DefaultValue c) of
              None \<Rightarrow> (Inl ErrInternal, db)
            | Some text \<Rightarrow>
              (if flt 1 then (Inl ErrInternal, db)
               else
                 (case (pg_uuid pg flagID, pg_jsonb pg text) of
                    (Some u, Some v) \<Rightarrow>
                      (case sql_update_flag u
                              (\<lambda>old. old\<lparr>flag_Name := fc_Name c, flag_Description := fc_Description c,
                                 flag_FlagType := fc_FlagType c, flag_DefaultValue := Some v,
                                 flag_Tags := fc_Tags c, flag_ExpiresAt := fc_ExpiresAt c,
                                 flag_UpdatedAt := now\<rparr>) db of
                         (Inl e, db1) \<Rightarrow> (Inl ErrInternal, db)
                       | (Inr _, db1) \<Rightarrow>
                         (if flt 2 then (Inl ErrInternal, db1)
                          else (Inr (), db1\<lparr>fdb_Versions :=
                            map (\<lambda>v. if fv_FlagID v = u \<and> fv_Version v = max_version u (fdb_Versions db1)
                                    then v\<lparr>fv_ChangedBy := Some userID, fv_ChangeReason := Some reason\<rparr>
                                    else v) (fdb_Versions db1)\<rparr>)))
                  | _ \<Rightarrow> (Inl ErrInternal, db)))))"

subsection \<open>Flag states\<close>

text \<open>Rules and variants are stored as JSON: a raw value that is missing comes back as \<open>null\<close>.\<close>

definition stored_value :: "pglib \<Rightarrow> rawjson \<Rightarrow> rawjson option" where
  "stored_value pg v = map_option Some (pg_jsonb pg (case v of None \<Rightarrow> ''null'' | Some s \<Rightarrow> s))"

fun stored_rules :: "pglib \<Rightarrow> targeting_rule list \<Rightarrow> targeting_rule list option" where
  "stored_rules pg [] = Some []"
| "stored_rules pg (r # rs) =
     (case (stored_value pg (rule_Value r), stored_rules pg rs) of
        (Some v, Some rs') \<Rightarrow> Some (r\<lparr>rule_Value := v\<rparr> # rs')
      | _ \<Rightarrow> None)"

fun stored_variants :: "pglib \<Rightarrow> variant list \<Rightarrow> variant list option" where
  "stored_variants pg [] = Some []"
| "stored_variants pg (v # vs) =
     (case (stored_value pg (variant_Value v), stored_variants pg vs) of
        (Some x, Some vs') \<Rightarrow> Some (v\<lparr>variant_Value := x\<rparr> # vs')
      | _ \<Rightarrow> None)"

text \<open>The parameters of the upsert as the columns take them.\<close>

definition state_row :: "pglib \<Rightarrow> flag_state \<Rightarrow> flag_state option" where
  "state_row pg st =
     (case (pg_uuid pg (state_FlagID st), pg_uuid pg (state_EnvID st), pg_uuid pg (state_OrgID st),
            pg_raw pg (state_DefaultValue st), stored_rules pg (state_Rules st),
            stored_variants pg (state_Variants st)) of
        (Some f, Some e, Some org, Some v, Some rules, Some variants) \<Rightarrow>
          (if 0 \<le> state_PercentageRollout st \<and> state_PercentageRollout st \<le> 10000
           then Some (st\<lparr>state_FlagID := f, state_EnvID := e, state_OrgID := org, state_DefaultValue := v,
                  state_Rules := rules, state_Variants := variants\<rparr>)
           else None)
      | _ \<Rightarrow> None)"

definition state_at :: "string \<Rightarrow> string \<Rightarrow> flag_state \<Rightarrow> bool" where
  "state_at f e st \<longleftrightarrow> state_FlagID st = f \<and> state_EnvID st = e"

text \<open>
  \<open>INSERT ... ON CONFLICT (flag_id, env_id) DO UPDATE\<close>: the update keeps the identifier, the organization and
  the creation time of the row, and does not look at the foreign keys again.
\<close>

definition UpsertFlagState ::
    "bool \<Rightarrow> pglib \<Rightarrow> gotime \<Rightarrow> string \<Rightarrow> flag_state \<Rightarrow> flag_db \<Rightarrow> flag_state result \<times> flag_db" where
  "UpsertFlagState fails pg now newID st db =
     (if fails then (Inl ErrInternal, db)
      else
        (case state_row pg st of
           None \<Rightarrow> (Inl ErrInternal, db)
         | Some r \<Rightarrow>
           (case find (state_at (state_FlagID r) (state_EnvID r)) (fdb_States db) of
              Some old \<Rightarrow>
                (let row = r\<lparr>state_ID := state_ID old, state_OrgID := state_OrgID old,
                             state_CreatedAt := state_CreatedAt old, state_UpdatedAt := now\<rparr>
                 in (Inr (st\<lparr>state_ID := state_ID old, state_CreatedAt := state_CreatedAt old,
                             state_UpdatedAt := now\<rparr>),
                     db\<lparr>fdb_States := map (\<lambda>s. if state_at (state_FlagID r) (state_EnvID r) s then row else s)
                                       (fdb_States db),
                        fdb_Changes := fdb_Changes db @ [state_change ''UPDATE'' row]\<rparr>))
            | None \<Rightarrow>
                (if state_FlagID r \<notin> flag_ID ` set (fdb_Flags db) \<or>
                    state_EnvID r \<notin> env_ID ` set (fdb_Envs db) \<or> state_OrgID r \<notin> set (fdb_Orgs db) \<or>
                    newID \<in> state_ID ` set (fdb_States db)
                 then (Inl ErrInternal, db)
                 else
                   (let row = r\<lparr>state_ID := newID, state_CreatedAt := now, state_UpdatedAt := now\<rparr>
                    in (Inr (st\<lparr>state_ID := newID, state_CreatedAt := now, state_UpdatedAt := now\<rparr>),
                        db\<lparr>fdb_States := fdb_States db @ [row],
                           fdb_Changes := fdb_Changes db @ [state_change ''INSERT'' row]\<rparr>))))))"

definition GetFlagState :: "bool \<Rightarrow> pglib \<Rightarrow> string \<Rightarrow> string \<Rightarrow> flag_db \<Rightarrow> flag_state result" where
  "GetFlagState fails pg flagID envID db =
     (case pg_uuid pg envID of
        None \<Rightarrow> Inl ErrInternal
      | Some e \<Rightarrow> by_uuid fails pg flagID (\<lambda>f. find (state_at f e) (fdb_States db)))"

definition ListFlagStatesByEnv :: "bool \<Rightarrow> pglib \<Rightarrow> string \<Rightarrow> flag_db \<Rightarrow> flag_state list result" where
  "ListFlagStatesByEnv fails pg envID db =
     by_uuid fails pg envID (\<lambda>e. Some (filter (\<lambda>st. state_EnvID st = e) (fdb_States db)))"

definition due :: "gotime \<Rightarrow> gotime option \<Rightarrow> bool" where
  "due before t = (case t of None \<Rightarrow> False | Some x \<Rightarrow> x \<le> before)"

definition ListPendingSchedules :: "bool \<Rightarrow> gotime \<Rightarrow> flag_db \<Rightarrow> flag_state list result" where
  "ListPendingSchedules fails before db =
     (if fails then Inl ErrInternal
      else Inr (filter (\<lambda>st. due before (state_ScheduledEnableAt st) \<or> due before (state_ScheduledDisableAt st))
                  (fdb_States db)))"

subsection \<open>Segments and rulesets\<close>

definition ListSegments :: "bool \<Rightarrow> pglib \<Rightarrow> string \<Rightarrow> flag_db \<Rightarrow> segment list result" where
  "ListSegments fails pg projectID db =
     by_uuid fails pg projectID
       (\<lambda>u. Some (map (\<lambda>g. g\<lparr>seg_Labels := None\<rparr>)
          (sort_key seg_CreatedAt (filter (\<lambda>g. seg_ProjectID g = u) (fdb_Segments db)))))"

definition UpdateSegment :: "bool \<Rightarrow> pglib \<Rightarrow> gotime \<Rightarrow> segment \<Rightarrow> flag_db \<Rightarrow> unit result \<times> flag_db" where
  "UpdateSegment fails pg now g db =
     (if fails then (Inl ErrInternal, db)
      else
        (case pg_uuid pg (seg_ID g) of
           None \<Rightarrow> (Inl ErrInternal, db)
         | Some u \<Rightarrow>
           (if u \<in> seg_ID ` set (fdb_Segments db) \<and> seg_MatchType g \<notin> {MatchAll, MatchAny}
            then (Inl ErrInternal, db)
            else (Inr (), db\<lparr>fdb_Segments := map (\<lambda>s. if seg_ID s = u
                    then s\<lparr>seg_Name := seg_Name g, seg_Description := seg_Description g,
                           seg_MatchType := seg_MatchType g, seg_Rules := seg_Rules g,
                           seg_UpdatedAt := now\<rparr> else s) (fdb_Segments db)\<rparr>))))"

definition LoadRuleset ::
    "faults \<Rightarrow> pglib \<Rightarrow> string \<Rightarrow> string \<Rightarrow> flag_db \<Rightarrow> (flag list \<times> flag_state list \<times> segment list) result" where
  "LoadRuleset flt pg projectID envID db =
     (case ListFlags (flt 0) pg projectID db of
        Inl e \<Rightarrow> Inl ErrInternal
      | Inr flags \<Rightarrow>
        (if flt 1 then Inl ErrInternal
         else
           (case (pg_uuid pg projectID, pg_uuid pg envID) of
              (Some p, Some e) \<Rightarrow>
                (case ListSegments (flt 2) pg projectID db of
                   Inl err \<Rightarrow> Inl ErrInternal
                 | Inr segments \<Rightarrow>
                     Inr (flags,
                       filter (\<lambda>st. state_EnvID st = e \<and>
                         (\<exists>f\<in>set (fdb_Flags db). flag_ID f = state_FlagID st \<and> flag_ProjectID f = p))
                         (fdb_States db),
                       segments))
            | _ \<Rightarrow> Inl ErrInternal)))"

end
