(* ===== verification/Paging.thy ===== *)
theory Paging
  imports GoPrelude
begin

text \<open>
  Pagination and sorting of lists: \<open>server/internal/api/dto/pagination.go\<close>.  The query string of a request
  is the function \<open>query\<close>, empty for a missing parameter.
\<close>

subsection \<open>strconv.Atoi, its error ignored\<close>

definition go_digit :: "char \<Rightarrow> bool" where
  "go_digit c \<longleftrightarrow> 48 \<le> (of_char c :: nat) \<and> (of_char c :: nat) \<le> 57"

text \<open>\<open>ParseUint\<close> in base 10: it stops at the first digit that leaves 64 bits.\<close>

fun parse_uint :: "string \<Rightarrow> int \<Rightarrow> int option" where
  "parse_uint [] n = Some n"
| "parse_uint (c # cs) n =
     (if go_digit c then
        (let n' = n * 10 + (of_char c - 48)
         in if 2 ^ 64 - 1 < n' then Some (2 ^ 64 - 1) else parse_uint cs n')
      else None)"

definition atoi_unsigned :: "string \<Rightarrow> int option" where
  "atoi_unsigned s = (if s = [] then None else parse_uint s 0)"

definition atoi_clamp :: "int \<Rightarrow> bool \<Rightarrow> string \<Rightarrow> int" where
  "atoi_clamp bound negative cs =
     (case atoi_unsigned cs of None \<Rightarrow> 0 | Some n \<Rightarrow> if negative then - min n bound else min n bound)"

definition go_atoi :: "string \<Rightarrow> int" where
  "go_atoi s =
     (if s \<noteq> [] \<and> hd s = CHR ''-'' then atoi_clamp (2 ^ 63) True (tl s)
      else if s \<noteq> [] \<and> hd s = CHR ''+'' then atoi_clamp (2 ^ 63 - 1) False (tl s)
      else atoi_clamp (2 ^ 63 - 1) False s)"

text \<open>With the error: \<open>None\<close> for text that is no number or does not fit 64 bits.\<close>

definition go_atoi_ok :: "string \<Rightarrow> int option" where
  "go_atoi_ok s =
     (if s \<noteq> [] \<and> hd s = CHR ''-''
      then (case atoi_unsigned (tl s) of None \<Rightarrow> None | Some n \<Rightarrow> if n \<le> 2 ^ 63 then Some (- n) else None)
      else
        (case atoi_unsigned (if s \<noteq> [] \<and> hd s = CHR ''+'' then tl s else s) of
           None \<Rightarrow> None | Some n \<Rightarrow> if n < 2 ^ 63 then Some n else None))"

fun decimal :: "nat \<Rightarrow> string" where
  "decimal n = (if n < 10 then [char_of (48 + n)] else decimal (n div 10) @ [char_of (48 + n mod 10)])"

declare decimal.simps [simp del]

definition go_itoa :: "int \<Rightarrow> string" where
  "go_itoa n = (if n < 0 then CHR ''-'' # decimal (nat (- n)) else decimal (nat n))"

subsection \<open>Parameters\<close>

abbreviation "DefaultLimit \<equiv> 50 :: int"
abbreviation "MaxLimit \<equiv> 100 :: int"

record pagination_params =
  pp_Limit :: int
  pp_Offset :: int

definition ParsePagination :: "(string \<Rightarrow> string) \<Rightarrow> pagination_params" where
  "ParsePagination query =
     (let limit = go_atoi (query ''limit''); offset = go_atoi (query ''offset'');
          limit = (if limit \<le> 0 then DefaultLimit else limit);
          limit = (if MaxLimit < limit then MaxLimit else limit);
          offset = (if offset < 0 then 0 else offset)
      in \<lparr>pp_Limit = limit, pp_Offset = offset\<rparr>)"

definition allowedSortFields :: "(string \<times> string list) list" where
  "allowedSortFields =
    [(''flags'', [''key'', ''name'', ''created_at'', ''updated_at'', ''status'']),
     (''segments'', [''key'', ''name'', ''created_at'', ''updated_at'']),
     (''environments'', [''name'', ''created_at'', ''updated_at'']),
     (''projects'', [''name'', ''created_at'', ''updated_at'']),
     (''api_keys'', [''name'', ''created_at'', ''last_used_at'']),
     (''webhooks'', [''name'', ''created_at'', ''updated_at'']),
     (''approvals'', [''created_at'', ''updated_at'', ''status'']),
     (''audit'', [''created_at'', ''action'', ''resource_type'']),
     (''members'', [''created_at'', ''name'', ''email'', ''role''])]"

text \<open>The part before the first colon and, if there is one, the part after it.\<close>

fun splitSort :: "string \<Rightarrow> string \<times> string option" where
  "splitSort [] = ([], None)"
| "splitSort (c # cs) =
     (if c = CHR '':'' then ([], Some cs)
      else case splitSort cs of (a, b) \<Rightarrow> (c # a, b))"

definition ParseSort :: "(string \<Rightarrow> string) \<Rightarrow> string \<Rightarrow> string \<times> string" where
  "ParseSort query resourceType =
     (let raw = query ''sort''
      in if raw = [] then (''created_at'', ''DESC'')
         else
           (case splitSort raw of
              (field, d) \<Rightarrow>
                (let dir = (if d = Some ''desc'' \<or> d = Some ''DESC'' then ''DESC'' else ''ASC'')
                 in case map_of allowedSortFields resourceType of
                      None \<Rightarrow> (''created_at'', ''DESC'')
                    | Some allowed \<Rightarrow>
                        if field \<in> set allowed then (field, dir) else (''created_at'', ''DESC''))))"

subsection \<open>Pages\<close>

record 'a paginated_response =
  pr_Data :: "'a list"
  pr_Total :: int
  pr_Limit :: int
  pr_Offset :: int
  pr_HasMore :: bool
  pr_Page :: int
  pr_LastPage :: int

text \<open>
  \<open>math.Ceil\<close> of the \<open>float64\<close> quotient is the ceiling of the exact one as long as the total times the limit
  stays below \<open>2 ^ 52\<close>, far above the length of a list in memory for limits up to \<open>MaxLimit\<close>.
\<close>

definition NewPaginatedResponse :: "'a list \<Rightarrow> int \<Rightarrow> int \<Rightarrow> int \<Rightarrow> 'a paginated_response" where
  "NewPaginatedResponse items entries limit offset =
     \<lparr>pr_Data = items, pr_Total = entries, pr_Limit = limit, pr_Offset = offset,
      pr_HasMore = (offset + int (length items) < entries),
      pr_Page = (if 0 < limit then offset div limit + 1 else 0),
      pr_LastPage = (if 0 < limit \<and> 0 < entries then (entries + limit - 1) div limit else 0)\<rparr>"

definition Paginate :: "'a list \<Rightarrow> pagination_params \<Rightarrow> 'a list \<times> int" where
  "Paginate items p =
     (let entries = int (length items)
      in if entries \<le> pp_Offset p then ([], entries)
         else
           (let stop = (if entries < pp_Offset p + pp_Limit p then entries else pp_Offset p + pp_Limit p)
            in (drop (nat (pp_Offset p)) (take (nat stop) items), entries)))"

definition page_of :: "'a list \<Rightarrow> int \<Rightarrow> int \<Rightarrow> 'a paginated_response" where
  "page_of items limit offset =
     (case Paginate items \<lparr>pp_Limit = limit, pp_Offset = offset\<rparr> of
        (page, entries) \<Rightarrow> NewPaginatedResponse page entries limit offset)"

subsection \<open>Laws\<close>

lemma parse_uint_bounds:
  "parse_uint s n = Some k \<Longrightarrow> 0 \<le> n \<Longrightarrow> n \<le> 2 ^ 64 - 1 \<Longrightarrow> 0 \<le> k \<and> k \<le> 2 ^ 64 - 1"
proof (induction s arbitrary: n)
  case (Cons c cs)
  define n' :: int where "n' = n * 10 + (of_char c - 48)"
  have d: "go_digit c"
    using Cons.prems(1) by (simp split: if_splits)
  then have "(48::nat) \<le> of_char c" by (simp add: go_digit_def)
  then have "int 48 \<le> int (of_char c)" by (simp only: of_nat_le_iff)
  then have "(48::int) \<le> of_char c" by (simp only: of_nat_of_char of_nat_numeral)
  then have pos: "0 \<le> n'"
    using Cons.prems(2) by (simp add: n'_def)
  show ?case
  proof (cases "2 ^ 64 - 1 < n'")
    case True
    with Cons.prems(1) d show ?thesis by (simp add: n'_def Let_def)
  next
    case False
    then have "parse_uint cs n' = Some k"
      using Cons.prems(1) d by (simp add: n'_def Let_def)
    from Cons.IH [OF this pos] False show ?thesis by simp
  qed
qed simp

lemma atoi_clamp_bounds:
  assumes "0 \<le> bound"
  shows "- bound \<le> atoi_clamp bound negative cs" "atoi_clamp bound negative cs \<le> bound"
proof -
  have "0 \<le> n" if "atoi_unsigned cs = Some n" for n
    using that parse_uint_bounds [of cs 0 n] by (simp add: atoi_unsigned_def split: if_splits)
  then show "- bound \<le> atoi_clamp bound negative cs" "atoi_clamp bound negative cs \<le> bound"
    using assms by (auto simp: atoi_clamp_def split: option.split)
qed

lemma go_atoi_int64: "- (2 ^ 63) \<le> go_atoi s \<and> go_atoi s < 2 ^ 63"
proof -
  have "atoi_clamp (2 ^ 63) True cs \<le> 0" for cs
    using parse_uint_bounds [of cs 0]
    by (auto simp: atoi_clamp_def atoi_unsigned_def split: option.split)
  then have "atoi_clamp (2 ^ 63) True cs < 2 ^ 63" for cs
    by (rule order.strict_trans1) simp
  moreover have "- (2 ^ 63) \<le> atoi_clamp (2 ^ 63) True cs" for cs
    by (rule atoi_clamp_bounds) simp
  moreover have "- (2 ^ 63) \<le> atoi_clamp (2 ^ 63 - 1) False cs \<and> atoi_clamp (2 ^ 63 - 1) False cs < 2 ^ 63" for cs
    using atoi_clamp_bounds [of "2 ^ 63 - 1" False cs] by simp
  ultimately show ?thesis
    by (simp only: go_atoi_def split: if_split) blast
qed

lemma ParsePagination_bounds:
  "1 \<le> pp_Limit (ParsePagination query)" "pp_Limit (ParsePagination query) \<le> MaxLimit"
  "0 \<le> pp_Offset (ParsePagination query)"
  by (auto simp: ParsePagination_def Let_def)

lemma ParseSort_allowed:
  "fst (ParseSort query resourceType) = ''created_at'' \<or>
   (\<exists>allowed. map_of allowedSortFields resourceType = Some allowed \<and>
      fst (ParseSort query resourceType) \<in> set allowed)"
  "snd (ParseSort query resourceType) \<in> {''ASC'', ''DESC''}"
  by (auto simp: ParseSort_def Let_def split: prod.splits option.splits)

lemma Paginate_take_drop:
  assumes "0 \<le> offset" "0 \<le> limit"
  shows "fst (Paginate items \<lparr>pp_Limit = limit, pp_Offset = offset\<rparr>) =
    take (nat limit) (drop (nat offset) items)"
  using assms
  by (auto simp: Paginate_def Let_def take_drop nat_add_distrib add.commute nat_le_iff)

text \<open>Fetching pages as a client does: from an offset on, as long as the answer says there is more.\<close>

fun fetch_all :: "nat \<Rightarrow> 'a list \<Rightarrow> int \<Rightarrow> int \<Rightarrow> 'a list option" where
  "fetch_all 0 items limit offset = None"
| "fetch_all (Suc fuel) items limit offset =
     (let p = page_of items limit offset
      in if pr_HasMore p then map_option (append (pr_Data p)) (fetch_all fuel items limit (offset + limit))
         else Some (pr_Data p))"


lemma page_of_data:
  "0 \<le> offset \<Longrightarrow> 0 \<le> limit \<Longrightarrow>
     pr_Data (page_of items limit offset) = take (nat limit) (drop (nat offset) items)"
  using Paginate_take_drop [of offset limit items]
  by (simp add: page_of_def NewPaginatedResponse_def case_prod_beta)

lemma page_of_has_more:
  assumes "0 \<le> offset" "1 \<le> limit"
  shows "pr_HasMore (page_of items limit offset) \<longleftrightarrow> offset + limit < int (length items)"
proof -
  have "snd (Paginate items \<lparr>pp_Limit = limit, pp_Offset = offset\<rparr>) = int (length items)"
    by (simp add: Paginate_def Let_def)
  then have "pr_HasMore (page_of items limit offset) \<longleftrightarrow>
      offset + int (length (pr_Data (page_of items limit offset))) < int (length items)"
    by (simp add: page_of_def NewPaginatedResponse_def case_prod_beta)
  then show ?thesis
    using assms by (auto simp: page_of_data)
qed

lemma fetch_all_from:
  assumes "0 \<le> offset" "1 \<le> limit" "nat (int (length items) - offset) < fuel"
  shows "fetch_all fuel items limit offset = Some (drop (nat offset) items)"
  using assms
proof (induction fuel arbitrary: offset)
  case (Suc fuel)
  note page = page_of_data [of offset limit items] page_of_has_more [of offset limit items]
  show ?case
  proof (cases "offset + limit < int (length items)")
    case True
    with Suc have "fetch_all fuel items limit (offset + limit) = Some (drop (nat (offset + limit)) items)"
      by (intro Suc.IH) auto
    moreover have "nat (offset + limit) = nat limit + nat offset"
      using Suc.prems by (simp add: nat_add_distrib)
    ultimately show ?thesis
      using True Suc.prems page by (simp add: Let_def flip: drop_drop)
  next
    case False
    then have "length (drop (nat offset) items) \<le> nat limit"
      using Suc.prems by auto
    with False Suc.prems page show ?thesis by (simp add: Let_def)
  qed
qed simp

text \<open>
  C16: following a paginated list to its end returns every item exactly once and in order, whatever limit was
  asked for: the fetches end after at most one page per item.
\<close>

theorem pages_complete:
  "fetch_all (Suc (length items)) items (pp_Limit (ParsePagination query)) 0 = Some items"
  using fetch_all_from [of 0 "pp_Limit (ParsePagination query)" items "Suc (length items)"]
    ParsePagination_bounds(1) [of query] by simp

end
