(* ===== verification/FlagHandlers.thy ===== *)
theory FlagHandlers
  imports FlagStore Access Validation Paging
begin

text \<open>
  The handlers of \<open>server/internal/api/handlers/flags.go\<close> and \<open>flag_history.go\<close> with the ownership checks of
  \<open>orgguard.go\<close>.  A handler takes the faults of its calls to the store in the order it makes them, the
  request, the decoded body (\<open>None\<close> if \<open>DecodeJSON\<close> fails) and the tables, and gives the response and the
  tables it leaves.  It runs between the writes of other requests.  The events and log lines are left out.
\<close>

text \<open>What a handler takes from its surroundings.\<close>

record api_env =
  ae_lib :: golib
  ae_pg :: pglib
  ae_mac :: maclib
  ae_auditKey :: string
  ae_now :: gotime
  ae_dbnow :: gotime
  ae_newID :: "nat \<Rightarrow> string"
  ae_flagJSON :: "flag \<Rightarrow> string"
  ae_stateJSON :: "flag_state option \<Rightarrow> string"
  ae_parseTime :: "string \<Rightarrow> gotime option"
  ae_getMember :: "string \<Rightarrow> string \<Rightarrow> string answer"
  ae_listPerms :: "string \<Rightarrow> env_permission list answer"
  ae_labels :: "string \<Rightarrow> rawjson \<Rightarrow> bool"
  ae_order :: "string \<Rightarrow> string \<Rightarrow> flag list \<Rightarrow> flag list"

datatype 'a response = Answer nat 'a | Refuse nat string

definition refused :: "'a response \<Rightarrow> bool" where
  "refused resp = (case resp of Answer _ _ \<Rightarrow> False | Refuse _ _ \<Rightarrow> True)"

lemma refused_simps [simp]: "\<not> refused (Answer c a)" "refused (Refuse c m)"
  by (simp_all add: refused_def)

subsection \<open>Ownership\<close>

definition verifyProjectOwnership ::
    "bool \<Rightarrow> pglib \<Rightarrow> http_request \<Rightarrow> flag_db \<Rightarrow> (nat \<times> string) + project" where
  "verifyProjectOwnership fails pg r db =
     (let projectID = URLParam r ''projectID''
      in if projectID = [] then Inl (StatusBadRequest, ''project ID is required'')
         else
           (case GetProject fails pg projectID db of
              Inl e \<Rightarrow> Inl (StatusNotFound, ''project not found'')
            | Inr project \<Rightarrow>
                if prj_OrgID project \<noteq> GetOrgID r then Inl (StatusNotFound, ''project not found'')
                else Inr project))"

definition verifyEnvironmentOwnership ::
    "faults \<Rightarrow> pglib \<Rightarrow> http_request \<Rightarrow> flag_db \<Rightarrow> (nat \<times> string) + environment" where
  "verifyEnvironmentOwnership flt pg r db =
     (let envID = URLParam r ''envID''
      in if envID = [] then Inl (StatusBadRequest, ''environment ID is required'')
         else
           (case GetEnvironment (flt 0) pg envID db of
              Inl e \<Rightarrow> Inl (StatusNotFound, ''environment not found'')
            | Inr env \<Rightarrow>
              (case GetProject (flt 1) pg (env_ProjectID env) db of
                 Inl e \<Rightarrow> Inl (StatusNotFound, ''environment not found'')
               | Inr project \<Rightarrow>
                   if prj_OrgID project \<noteq> GetOrgID r then Inl (StatusNotFound, ''environment not found'')
                   else Inr env)))"

text \<open>The result of the audit write is ignored by every handler; \<open>n\<close> is its first call.\<close>

definition write_audit :: "api_env \<Rightarrow> faults \<Rightarrow> nat \<Rightarrow> audit_entry \<Rightarrow> flag_db \<Rightarrow> flag_db" where
  "write_audit env flt n entry db =
     db\<lparr>fdb_Audit := snd (CreateAuditEntry (ae_mac env) (ae_auditKey env) (\<lambda>i. flt (n + i)) (ae_pg env)
         (fdb_Orgs db) (map prj_ID (fdb_Projects db)) (ae_now env) (ae_dbnow env) (ae_newID env n)
         entry (fdb_Audit db))\<rparr>"

definition user_entry ::
    "http_request \<Rightarrow> string \<Rightarrow> string \<Rightarrow> string \<Rightarrow> rawjson \<Rightarrow> rawjson \<Rightarrow> audit_entry" where
  "user_entry r projectID action resourceID before after =
     zero_audit_entry\<lparr>au_OrgID := GetOrgID r, au_ProjectID := Some projectID,
       au_ActorID := Some (GetUserID r), au_ActorType := ''user'', au_Action := action,
       au_ResourceType := ''flag'', au_ResourceID := Some resourceID, au_BeforeState := before,
       au_AfterState := after, au_IPAddress := req_RemoteAddr r,
       au_UserAgent := req_Header r ''User-Agent''\<rparr>"

subsection \<open>Flags\<close>

record create_flag_request =
  cfr_Key :: string
  cfr_Name :: string
  cfr_Description :: string
  cfr_FlagType :: string
  cfr_Category :: string
  cfr_Status :: string
  cfr_DefaultValue :: rawjson
  cfr_Tags :: "string list option"
  cfr_Prerequisites :: "string list option"
  cfr_MutualExclusionGroup :: string

definition defaultValueForType :: "string \<Rightarrow> string" where
  "defaultValueForType ft =
     (if ft = FlagTypeString then [CHR 0x22, CHR 0x22]
      else if ft = FlagTypeNumber then ''0''
      else if ft = FlagTypeJSON then ''{}''
      else ''false'')"

definition slice :: "'a list option \<Rightarrow> 'a list" where
  "slice xs = (case xs of None \<Rightarrow> [] | Some ys \<Rightarrow> ys)"

definition requested_flag :: "http_request \<Rightarrow> create_flag_request \<Rightarrow> flag" where
  "requested_flag r req =
     (let flagType = (if cfr_FlagType req = [] then FlagTypeBoolean else cfr_FlagType req)
      in zero_flag\<lparr>flag_ProjectID := URLParam r ''projectID'', flag_OrgID := GetOrgID r,
           flag_Key := cfr_Key req, flag_Name := cfr_Name req, flag_Description := cfr_Description req,
           flag_FlagType := flagType,
           flag_Category := (if cfr_Category req = [] then CategoryRelease else cfr_Category req),
           flag_Status := (if cfr_Status req = [] then StatusActive else cfr_Status req),
           flag_DefaultValue := (if cfr_DefaultValue req = None then Some (defaultValueForType flagType)
                                 else cfr_DefaultValue req),
           flag_Tags := slice (cfr_Tags req), flag_Prerequisites := slice (cfr_Prerequisites req),
           flag_MutualExclusionGroup := cfr_MutualExclusionGroup req\<rparr>)"

definition Flag_Create ::
    "api_env \<Rightarrow> faults \<Rightarrow> http_request \<Rightarrow> create_flag_request option \<Rightarrow> flag_db \<Rightarrow> flag response \<times> flag_db" where
  "Flag_Create env flt r body db =
     (case verifyProjectOwnership (flt 0) (ae_pg env) r db of
        Inl (c, msg) \<Rightarrow> (Refuse c msg, db)
      | Inr project \<Rightarrow>
        (case body of
           None \<Rightarrow> (Refuse StatusBadRequest ''invalid request body'', db)
         | Some req \<Rightarrow>
           (let flag = requested_flag r req
            in case Flag_Validate (ae_lib env) flag of
                 Some ve \<Rightarrow> (Refuse StatusBadRequest (ve_Error ve), db)
               | None \<Rightarrow>
                 (case CreateFlag (flt 1) (ae_pg env) (ae_dbnow env) (ae_newID env 1) flag db of
                    (Inl ErrConflict, db1) \<Rightarrow>
                      (Refuse StatusConflict ''flag key already exists in this project'', db1)
                  | (Inl e, db1) \<Rightarrow> (Refuse StatusInternalServerError ''failed to create flag'', db1)
                  | (Inr f, db1) \<Rightarrow>
                      (Answer StatusCreated f,
                       write_audit env flt 2 (user_entry r (URLParam r ''projectID'') ''flag.created''
                         (flag_ID f) None (Some (ae_flagJSON env f))) db1)))))"

definition get_flag_error :: "store_error \<Rightarrow> 'a response" where
  "get_flag_error e =
     (if e = ErrNotFound then Refuse StatusNotFound ''flag not found''
      else Refuse StatusInternalServerError ''failed to get flag'')"

definition Flag_Get :: "api_env \<Rightarrow> faults \<Rightarrow> http_request \<Rightarrow> flag_db \<Rightarrow> flag response" where
  "Flag_Get env flt r db =
     (case verifyProjectOwnership (flt 0) (ae_pg env) r db of
        Inl (c, msg) \<Rightarrow> Refuse c msg
      | Inr project \<Rightarrow>
        (case GetFlag (flt 1) (ae_pg env) (URLParam r ''projectID'') (URLParam r ''flagKey'') db of
           Inl e \<Rightarrow> get_flag_error e
         | Inr flag \<Rightarrow> Answer StatusOK flag))"

text \<open>
  The fields of a flag a request overwrites.  The condition on the exclusion group is a tautology in the
  source, so the group is always overwritten.
\<close>

definition updated_flag :: "create_flag_request \<Rightarrow> flag \<Rightarrow> flag" where
  "updated_flag req flag =
     flag\<lparr>flag_Name := (if cfr_Name req \<noteq> [] then cfr_Name req else flag_Name flag),
       flag_Description := (if cfr_Description req \<noteq> [] then cfr_Description req else flag_Description flag),
       flag_DefaultValue := (if cfr_DefaultValue req \<noteq> None then cfr_DefaultValue req
                             else flag_DefaultValue flag),
       flag_Tags := (case cfr_Tags req of None \<Rightarrow> flag_Tags flag | Some ts \<Rightarrow> ts),
       flag_Prerequisites := (case cfr_Prerequisites req of None \<Rightarrow> flag_Prerequisites flag | Some ps \<Rightarrow> ps),
       flag_MutualExclusionGroup := cfr_MutualExclusionGroup req,
       flag_Category := (if cfr_Category req \<noteq> [] then cfr_Category req else flag_Category flag),
       flag_Status := (if cfr_Status req \<noteq> [] then cfr_Status req else flag_Status flag)\<rparr>"

definition Flag_Update ::
    "api_env \<Rightarrow> faults \<Rightarrow> http_request \<Rightarrow> create_flag_request option \<Rightarrow> flag_db \<Rightarrow> flag response \<times> flag_db" where
  "Flag_Update env flt r body db =
     (case verifyProjectOwnership (flt 0) (ae_pg env) r db of
        Inl (c, msg) \<Rightarrow> (Refuse c msg, db)
      | Inr project \<Rightarrow>
        (case GetFlag (flt 1) (ae_pg env) (URLParam r ''projectID'') (URLParam r ''flagKey'') db of
           Inl e \<Rightarrow> (get_flag_error e, db)
         | Inr flag \<Rightarrow>
           (case body of
              None \<Rightarrow> (Refuse StatusBadRequest ''invalid request body'', db)
            | Some req \<Rightarrow>
              (if cfr_Category req \<noteq> [] \<and> \<not> FlagCategory_IsValid (cfr_Category req)
               then (Refuse StatusBadRequest ''category: must be release, experiment, ops, or permission'', db)
               else if cfr_Status req \<noteq> [] \<and> \<not> FlagStatus_IsValid (cfr_Status req)
               then (Refuse StatusBadRequest
                       ''status: must be active, rolled_out, deprecated, or archived'', db)
               else
                 (let flag' = updated_flag req flag
                  in case UpdateFlag (flt 2) (ae_pg env) (ae_dbnow env) flag' db of
                       (Inl e, db1) \<Rightarrow> (Refuse StatusInternalServerError ''failed to update flag'', db1)
                     | (Inr _, db1) \<Rightarrow>
                         (Answer StatusOK flag',
                          write_audit env flt 3 (user_entry r (URLParam r ''projectID'') ''flag.updated''
                            (flag_ID flag) (Some (ae_flagJSON env flag)) (Some (ae_flagJSON env flag')))
                            db1))))))"

definition Flag_Delete ::
    "api_env \<Rightarrow> faults \<Rightarrow> http_request \<Rightarrow> flag_db \<Rightarrow> unit response \<times> flag_db" where
  "Flag_Delete env flt r db =
     (case verifyProjectOwnership (flt 0) (ae_pg env) r db of
        Inl (c, msg) \<Rightarrow> (Refuse c msg, db)
      | Inr project \<Rightarrow>
        (case GetFlag (flt 1) (ae_pg env) (URLParam r ''projectID'') (URLParam r ''flagKey'') db of
           Inl e \<Rightarrow> (get_flag_error e, db)
         | Inr flag \<Rightarrow>
           (case DeleteFlag (flt 2) (ae_pg env) (flag_ID flag) db of
              (Inl e, db1) \<Rightarrow> (Refuse StatusInternalServerError ''failed to delete flag'', db1)
            | (Inr _, db1) \<Rightarrow>
                (Answer StatusNoContent (),
                 write_audit env flt 3 (user_entry r (URLParam r ''projectID'') ''flag.deleted''
                   (flag_ID flag) (Some (ae_flagJSON env flag)) None) db1))))"

text \<open>
  The list: \<open>query\<close> is the query string.  The ownership of the project is checked only on the nested route;
  on the flat one the project comes from the query.
\<close>

definition Flag_List ::
    "api_env \<Rightarrow> faults \<Rightarrow> http_request \<Rightarrow> (string \<Rightarrow> string) \<Rightarrow> flag_db \<Rightarrow>
     flag paginated_response response" where
  "Flag_List env flt r query db =
     (let nested = URLParam r ''projectID'';
          projectID = (if nested = [] then query ''project_id'' else nested)
      in if projectID = [] then Refuse StatusBadRequest ''project_id is required''
         else
           (case if nested = [] then None
                 else (case verifyProjectOwnership (flt 0) (ae_pg env) r db of Inl e \<Rightarrow> Some e | Inr p \<Rightarrow> None) of
              Some (c, msg) \<Rightarrow> Refuse c msg
            | None \<Rightarrow>
              (let selector = query ''label_selector'';
                   found =
                     (if selector \<noteq> []
                      then ListFlagsWithFilter (ae_labels env) (ae_lib env) (flt 1) (ae_pg env) (GetOrgID r)
                             projectID selector db
                      else
                        (case ParseSort query ''flags'' of
                           (sortField, sortDir) \<Rightarrow>
                             if sortField \<noteq> ''created_at'' \<or> sortDir \<noteq> ''DESC''
                             then ListFlagsSorted (ae_order env) (flt 1) (ae_pg env) projectID sortField sortDir db
                             else ListFlags (flt 1) (ae_pg env) projectID db))
               in case found of
                    Inl e \<Rightarrow> Refuse StatusInternalServerError ''failed to list flags''
                  | Inr flags \<Rightarrow>
                    (let p = ParsePagination query
                     in case Paginate flags p of
                          (page, n) \<Rightarrow>
                            Answer StatusOK (NewPaginatedResponse page n (pp_Limit p) (pp_Offset p))))))"

subsection \<open>Flag history\<close>

record rollback_request =
  rbr_Version :: int
  rbr_Reason :: string

text \<open>The history handlers read the project from the route and never look at its organization.\<close>

definition History_ListVersions ::
    "api_env \<Rightarrow> faults \<Rightarrow> http_request \<Rightarrow> (string \<Rightarrow> string) \<Rightarrow> flag_db \<Rightarrow> flag_version list response" where
  "History_ListVersions env flt r query db =
     (let limit = (case go_atoi_ok (query ''limit'') of
                     None \<Rightarrow> 50 | Some l \<Rightarrow> if 0 < l \<and> l \<le> 100 then l else 50);
          offset = (case go_atoi_ok (query ''offset'') of
                      None \<Rightarrow> 0 | Some k \<Rightarrow> if 0 \<le> k then k else 0)
      in case GetFlag (flt 0) (ae_pg env) (URLParam r ''projectID'') (URLParam r ''flagKey'') db of
           Inl e \<Rightarrow> get_flag_error e
         | Inr flag \<Rightarrow>
           (case ListFlagVersions (flt 1) (ae_pg env) (flag_ID flag) (nat limit) (nat offset) db of
              Inl e \<Rightarrow> Refuse StatusInternalServerError ''failed to list flag versions''
            | Inr versions \<Rightarrow> Answer StatusOK versions))"

definition History_GetVersion ::
    "api_env \<Rightarrow> faults \<Rightarrow> http_request \<Rightarrow> flag_db \<Rightarrow> flag_version response" where
  "History_GetVersion env flt r db =
     (case go_atoi_ok (URLParam r ''version'') of
        None \<Rightarrow> Refuse StatusBadRequest ''invalid version number''
      | Some version \<Rightarrow>
         if version < 1 then Refuse StatusBadRequest ''invalid version number''
         else
           (case GetFlag (flt 0) (ae_pg env) (URLParam r ''projectID'') (URLParam r ''flagKey'') db of
              Inl e \<Rightarrow> get_flag_error e
            | Inr flag \<Rightarrow>
              (case GetFlagVersion (flt 1) (ae_pg env) (flag_ID flag) version db of
                 Inl ErrNotFound \<Rightarrow> Refuse StatusNotFound ''version not found''
               | Inl e \<Rightarrow> Refuse StatusInternalServerError ''failed to get flag version''
               | Inr v \<Rightarrow> Answer StatusOK v)))"

definition History_Rollback ::
    "api_env \<Rightarrow> faults \<Rightarrow> http_request \<Rightarrow> rollback_request option \<Rightarrow> flag_db \<Rightarrow> int response \<times> flag_db" where
  "History_Rollback env flt r body db =
     (case body of
        None \<Rightarrow> (Refuse StatusBadRequest ''invalid request body'', db)
      | Some req \<Rightarrow>
        (if rbr_Version req < 1 then (Refuse StatusBadRequest ''version must be >= 1'', db)
         else
           (case GetFlag (flt 0) (ae_pg env) (URLParam r ''projectID'') (URLParam r ''flagKey'') db of
              Inl e \<Rightarrow> (get_flag_error e, db)
            | Inr flag \<Rightarrow>
              (let reason = (if rbr_Reason req = []
                             then ''Rollback to version '' @ go_itoa (rbr_Version req) else rbr_Reason req)
               in case RollbackFlagToVersion (ae_lib env) (\<lambda>i. flt (Suc i)) (ae_pg env) (ae_dbnow env)
                         (flag_ID flag) (rbr_Version req) (GetUserID r) reason db of
                    (Inl ErrNotFound, db1) \<Rightarrow> (Refuse StatusNotFound ''version not found'', db1)
                  | (Inl e, db1) \<Rightarrow> (Refuse StatusInternalServerError ''failed to rollback flag'', db1)
                  | (Inr _, db1) \<Rightarrow> (Answer StatusOK (rbr_Version req), db1)))))"

end
