(* ===== verification/StateHandlers.thy ===== *)
theory StateHandlers
  imports FlagHandlers
begin

text \<open>
  The second half of \<open>server/internal/api/handlers/flags.go\<close>: the state of a flag in an environment, its
  update, promotion, kill switch, comparison and synchronisation of environments.
\<close>

definition env_permitted :: "api_env \<Rightarrow> http_request \<Rightarrow> string \<Rightarrow> string \<Rightarrow> bool" where
  "env_permitted env r envID permission =
     CheckEnvPermission (ae_getMember env) (ae_listPerms env) r (GetOrgID r) (GetUserID r) envID permission"

abbreviation "flag_not_found \<equiv> Refuse StatusNotFound ''flag not found''"

subsection \<open>Updating a state\<close>

record update_state_request =
  usr_Enabled :: "bool option"
  usr_DefaultValue :: rawjson
  usr_Rules :: "targeting_rule list option"
  usr_PercentageRollout :: "int option"
  usr_Variants :: "variant list option"
  usr_ScheduledEnableAt :: "string option"
  usr_ScheduledDisableAt :: "string option"

definition or_else :: "'a option \<Rightarrow> 'a \<Rightarrow> 'a" where
  "or_else x y = (case x of None \<Rightarrow> y | Some v \<Rightarrow> v)"

text \<open>A schedule of a request: missing keeps the current one, empty clears it; \<open>None\<close> is a parse error.\<close>

definition parse_schedule :: "api_env \<Rightarrow> gotime option \<Rightarrow> string option \<Rightarrow> gotime option option" where
  "parse_schedule env current req =
     (case req of
        None \<Rightarrow> Some current
      | Some s \<Rightarrow> if s = [] then Some None else map_option Some (ae_parseTime env s))"

definition updated_state ::
    "api_env \<Rightarrow> update_state_request \<Rightarrow> flag_state \<Rightarrow> (nat \<times> string) + flag_state" where
  "updated_state env req st =
     (case parse_schedule env (state_ScheduledEnableAt st) (usr_ScheduledEnableAt req) of
        None \<Rightarrow> Inl (StatusBadRequest, ''invalid scheduled_enable_at format (use RFC3339)'')
      | Some enableAt \<Rightarrow>
        (case parse_schedule env (state_ScheduledDisableAt st) (usr_ScheduledDisableAt req) of
           None \<Rightarrow> Inl (StatusBadRequest, ''invalid scheduled_disable_at format (use RFC3339)'')
         | Some disableAt \<Rightarrow>
             Inr (st\<lparr>state_Enabled := or_else (usr_Enabled req) (state_Enabled st),
                    state_DefaultValue := (if usr_DefaultValue req \<noteq> None then usr_DefaultValue req
                                           else state_DefaultValue st),
                    state_Rules := or_else (usr_Rules req) (state_Rules st),
                    state_PercentageRollout := or_else (usr_PercentageRollout req) (state_PercentageRollout st),
                    state_Variants := or_else (usr_Variants req) (state_Variants st),
                    state_ScheduledEnableAt := enableAt, state_ScheduledDisableAt := disableAt\<rparr>)))"

definition edits_rules :: "update_state_request \<Rightarrow> bool" where
  "edits_rules req \<longleftrightarrow>
     usr_Rules req \<noteq> None \<or> usr_PercentageRollout req \<noteq> None \<or> usr_Variants req \<noteq> None"

definition fresh_state :: "http_request \<Rightarrow> flag \<Rightarrow> string \<Rightarrow> flag_state" where
  "fresh_state r flag envID =
     zero_flag_state\<lparr>state_FlagID := flag_ID flag, state_EnvID := envID, state_OrgID := GetOrgID r\<rparr>"

text \<open>
  An existing state is updated in place, and \<open>beforeState\<close> is marshalled from the same pointer after the
  update: the audit entry of an update carries the new state twice.
\<close>

definition Flag_UpdateState ::
    "api_env \<Rightarrow> faults \<Rightarrow> http_request \<Rightarrow> update_state_request option \<Rightarrow> flag_db \<Rightarrow>
     flag_state response \<times> flag_db" where
  "Flag_UpdateState env flt r body db =
     (let projectID = URLParam r ''projectID''; envID = URLParam r ''envID''
      in case verifyProjectOwnership (flt 0) (ae_pg env) r db of
        Inl (c, msg) \<Rightarrow> (Refuse c msg, db)
      | Inr project \<Rightarrow>
        (case GetFlag (flt 1) (ae_pg env) projectID (URLParam r ''flagKey'') db of
           Inl e \<Rightarrow> (flag_not_found, db)
         | Inr flag \<Rightarrow>
           (case body of
              None \<Rightarrow> (Refuse StatusBadRequest ''invalid request body'', db)
            | Some req \<Rightarrow>
              (if usr_Enabled req \<noteq> None \<and> \<not> env_permitted env r envID ''can_toggle''
               then (Refuse StatusForbidden
                       ''you do not have permission to toggle flags in this environment'', db)
               else if edits_rules req \<and> \<not> env_permitted env r envID ''can_edit_rules''
               then (Refuse StatusForbidden
                       ''you do not have permission to edit rules in this environment'', db)
               else
                 (let existing = GetFlagState (flt 2) (ae_pg env) (flag_ID flag) envID db;
                      state = (case existing of Inr st \<Rightarrow> st | Inl e \<Rightarrow> fresh_state r flag envID)
                  in case updated_state env req state of
                       Inl (c, msg) \<Rightarrow> (Refuse c msg, db)
                     | Inr state' \<Rightarrow>
                       (let before = ae_stateJSON env (case existing of Inr st \<Rightarrow> Some state' | Inl e \<Rightarrow> None)
                        in case UpsertFlagState (flt 3) (ae_pg env) (ae_dbnow env) (ae_newID env 3) state' db of
                             (Inl e, db1) \<Rightarrow>
                               (Refuse StatusInternalServerError ''failed to update flag state'', db1)
                           | (Inr st, db1) \<Rightarrow>
                               (Answer StatusOK st,
                                write_audit env flt 4 (user_entry r projectID ''flag.state_updated''
                                  (flag_ID flag) (Some before) (Some (ae_stateJSON env (Some st))))
                                  db1)))))))"

subsection \<open>Promotion\<close>

record promote_request =
  pmr_SourceEnvID :: string
  pmr_TargetEnvID :: string

text \<open>The copy leaves out the variants and the schedules of the source.\<close>

definition promoted_state :: "http_request \<Rightarrow> flag \<Rightarrow> string \<Rightarrow> flag_state \<Rightarrow> flag_state result \<Rightarrow> flag_state" where
  "promoted_state r flag targetEnv source existing =
     (let target = (fresh_state r flag targetEnv)\<lparr>state_Enabled := state_Enabled source,
            state_DefaultValue := state_DefaultValue source, state_Rules := state_Rules source,
            state_PercentageRollout := state_PercentageRollout source\<rparr>
      in case existing of
           Inl e \<Rightarrow> target
         | Inr st \<Rightarrow> target\<lparr>state_ID := state_ID st, state_OrgID := state_OrgID st\<rparr>)"

definition Flag_Promote ::
    "api_env \<Rightarrow> faults \<Rightarrow> http_request \<Rightarrow> promote_request option \<Rightarrow> flag_db \<Rightarrow>
     flag_state response \<times> flag_db" where
  "Flag_Promote env flt r body db =
     (let projectID = URLParam r ''projectID''
      in case verifyProjectOwnership (flt 0) (ae_pg env) r db of
        Inl (c, msg) \<Rightarrow> (Refuse c msg, db)
      | Inr project \<Rightarrow>
        (case GetFlag (flt 1) (ae_pg env) projectID (URLParam r ''flagKey'') db of
           Inl e \<Rightarrow> (flag_not_found, db)
         | Inr flag \<Rightarrow>
           (case body of
              None \<Rightarrow> (Refuse StatusBadRequest ''invalid request body'', db)
            | Some req \<Rightarrow>
              (if pmr_SourceEnvID req = [] \<or> pmr_TargetEnvID req = []
               then (Refuse StatusBadRequest ''source_env_id and target_env_id are required'', db)
               else if pmr_SourceEnvID req = pmr_TargetEnvID req
               then (Refuse StatusBadRequest ''source and target environments must differ'', db)
               else if \<not> env_permitted env r (pmr_TargetEnvID req) ''can_edit_rules''
               then (Refuse StatusForbidden
                       ''you do not have permission to modify flags in the target environment'', db)
               else
                 (case GetFlagState (flt 2) (ae_pg env) (flag_ID flag) (pmr_SourceEnvID req) db of
                    Inl e \<Rightarrow> (Refuse StatusNotFound ''source flag state not found'', db)
                  | Inr source \<Rightarrow>
                    (let existing = GetFlagState (flt 3) (ae_pg env) (flag_ID flag) (pmr_TargetEnvID req) db;
                         before = (case existing of Inl e \<Rightarrow> None
                                   | Inr st \<Rightarrow> Some (ae_stateJSON env (Some st)));
                         target = promoted_state r flag (pmr_TargetEnvID req) source existing
                     in case UpsertFlagState (flt 4) (ae_pg env) (ae_dbnow env) (ae_newID env 4) target db of
                          (Inl e, db1) \<Rightarrow>
                            (Refuse StatusInternalServerError ''failed to promote flag state'', db1)
                        | (Inr st, db1) \<Rightarrow>
                            (Answer StatusOK st,
                             write_audit env flt 5 (user_entry r projectID ''flag.promoted''
                               (flag_ID flag) before (Some (ae_stateJSON env (Some st)))) db1)))))))"

subsection \<open>Kill switch\<close>

definition Flag_Kill ::
    "api_env \<Rightarrow> faults \<Rightarrow> http_request \<Rightarrow> string option \<Rightarrow> flag_db \<Rightarrow> flag_state response \<times> flag_db" where
  "Flag_Kill env flt r body db =
     (let projectID = URLParam r ''projectID''
      in case verifyProjectOwnership (flt 0) (ae_pg env) r db of
        Inl (c, msg) \<Rightarrow> (Refuse c msg, db)
      | Inr project \<Rightarrow>
        (case GetFlag (flt 1) (ae_pg env) projectID (URLParam r ''flagKey'') db of
           Inl e \<Rightarrow> (flag_not_found, db)
         | Inr flag \<Rightarrow>
           (if body = None \<or> body = Some [] then (Refuse StatusBadRequest ''env_id is required'', db)
            else
              (let envID = the body
               in if \<not> env_permitted env r envID ''can_toggle''
                  then (Refuse StatusForbidden
                          ''you do not have permission to toggle flags in this environment'', db)
                  else
                    (let state = (case GetFlagState (flt 2) (ae_pg env) (flag_ID flag) envID db of
                                    Inr st \<Rightarrow> st | Inl e \<Rightarrow> fresh_state r flag envID);
                         before = ae_stateJSON env (Some state)
                     in case UpsertFlagState (flt 3) (ae_pg env) (ae_dbnow env) (ae_newID env 3)
                               (state\<lparr>state_Enabled := False\<rparr>) db of
                          (Inl e, db1) \<Rightarrow> (Refuse StatusInternalServerError ''failed to disable flag'', db1)
                        | (Inr st, db1) \<Rightarrow>
                            (Answer StatusOK st,
                             write_audit env flt 4 (user_entry r projectID ''flag.killed''
                               (flag_ID flag) (Some before) (Some (ae_stateJSON env (Some st)))) db1))))))"

subsection \<open>Comparing environments\<close>

record env_diff =
  ed_FlagKey :: string
  ed_SourceEnabled :: "bool option"
  ed_TargetEnabled :: "bool option"
  ed_SourceRollout :: "int option"
  ed_TargetRollout :: "int option"
  ed_SourceRules :: nat
  ed_TargetRules :: nat
  ed_Differences :: "string list"

record env_comparison =
  ec_Total :: nat
  ec_DiffCount :: nat
  ec_Diffs :: "env_diff list"

text \<open>\<open>flt i\<close> of the \<open>i\<close>-th flag; the map is filled in the order of the flags.\<close>

fun stateMap ::
    "faults \<Rightarrow> pglib \<Rightarrow> flag list \<Rightarrow> string \<Rightarrow> flag_db \<Rightarrow> (string \<rightharpoonup> flag_state) \<Rightarrow> (string \<rightharpoonup> flag_state)" where
  "stateMap flt pg [] envID db m = m"
| "stateMap flt pg (f # fs) envID db m =
     stateMap (\<lambda>i. flt (Suc i)) pg fs envID db
       (case GetFlagState (flt 0) pg (flag_ID f) envID db of
          Inl e \<Rightarrow> m | Inr st \<Rightarrow> m(flag_Key f \<mapsto> st))"

definition state_differences :: "flag_state option \<Rightarrow> flag_state option \<Rightarrow> string list" where
  "state_differences src tgt =
     (case (src, tgt) of
        (None, None) \<Rightarrow> []
      | (None, Some t) \<Rightarrow> [''target_only'']
      | (Some s, None) \<Rightarrow> [''source_only'']
      | (Some s, Some t) \<Rightarrow>
          (if state_Enabled s \<noteq> state_Enabled t then [''enabled''] else []) @
          (if state_PercentageRollout s \<noteq> state_PercentageRollout t then [''rollout''] else []) @
          (if length (state_Rules s) \<noteq> length (state_Rules t) then [''rules''] else []) @
          (if raw_bytes (state_DefaultValue s) \<noteq> raw_bytes (state_DefaultValue t)
           then [''default_value''] else []))"

definition env_diff_of :: "string \<Rightarrow> flag_state option \<Rightarrow> flag_state option \<Rightarrow> env_diff" where
  "env_diff_of key src tgt =
     \<lparr>ed_FlagKey = key, ed_SourceEnabled = map_option state_Enabled src,
      ed_TargetEnabled = map_option state_Enabled tgt,
      ed_SourceRollout = map_option state_PercentageRollout src,
      ed_TargetRollout = map_option state_PercentageRollout tgt,
      ed_SourceRules = (case src of None \<Rightarrow> 0 | Some s \<Rightarrow> length (state_Rules s)),
      ed_TargetRules = (case tgt of None \<Rightarrow> 0 | Some t \<Rightarrow> length (state_Rules t)),
      ed_Differences = state_differences src tgt\<rparr>"

definition CompareEnvironments ::
    "api_env \<Rightarrow> faults \<Rightarrow> http_request \<Rightarrow> (string \<Rightarrow> string) \<Rightarrow> flag_db \<Rightarrow> env_comparison response" where
  "CompareEnvironments env flt r query db =
     (let pg = ae_pg env; projectID = URLParam r ''projectID'';
          sourceEnvID = query ''source_env_id''; targetEnvID = query ''target_env_id''
      in case verifyProjectOwnership (flt 0) pg r db of
           Inl (c, msg) \<Rightarrow> Refuse c msg
         | Inr project \<Rightarrow>
           (if sourceEnvID = [] \<or> targetEnvID = []
            then Refuse StatusBadRequest ''source_env_id and target_env_id query params are required''
            else if sourceEnvID = targetEnvID
            then Refuse StatusBadRequest ''source and target environments must differ''
            else
              (case ListFlags (flt 1) pg projectID db of
                 Inl e \<Rightarrow> Refuse StatusInternalServerError ''failed to list flags''
               | Inr flags \<Rightarrow>
                 (let src = stateMap (\<lambda>i. flt (2 + i)) pg flags sourceEnvID db Map.empty;
                      tgt = stateMap (\<lambda>i. flt (2 + length flags + i)) pg flags targetEnvID db Map.empty;
                      diffs = filter (\<lambda>d. ed_Differences d \<noteq> [])
                        (map (\<lambda>f. env_diff_of (flag_Key f) (src (flag_Key f)) (tgt (flag_Key f))) flags)
                  in Answer StatusOK
                       \<lparr>ec_Total = length flags, ec_DiffCount = length diffs, ec_Diffs = diffs\<rparr>))))"

subsection \<open>Synchronising environments\<close>

record sync_request =
  syr_SourceEnvID :: string
  syr_TargetEnvID :: string
  syr_FlagKeys :: "string list"

definition synced_state :: "flag \<Rightarrow> string \<Rightarrow> flag_state \<Rightarrow> flag_state result \<Rightarrow> flag_state" where
  "synced_state flag targetEnv source existing =
     (let target = zero_flag_state\<lparr>state_FlagID := flag_ID flag, state_EnvID := targetEnv,
            state_OrgID := state_OrgID source, state_Enabled := state_Enabled source,
            state_DefaultValue := state_DefaultValue source, state_Rules := state_Rules source,
            state_PercentageRollout := state_PercentageRollout source,
            state_Variants := state_Variants source\<rparr>
      in case existing of
           Inl e \<Rightarrow> target
         | Inr st \<Rightarrow> target\<lparr>state_ID := state_ID st, state_OrgID := state_OrgID st\<rparr>)"

text \<open>One key: whether it was synced, and the tables; its calls are \<open>flt 0\<close> to \<open>flt 3\<close> and the audit write.\<close>

definition sync_one ::
    "api_env \<Rightarrow> faults \<Rightarrow> http_request \<Rightarrow> sync_request \<Rightarrow> string \<Rightarrow> flag_db \<Rightarrow> bool \<times> flag_db" where
  "sync_one env flt r req key db =
     (let pg = ae_pg env; projectID = URLParam r ''projectID''
      in case GetFlag (flt 0) pg projectID key db of
           Inl e \<Rightarrow> (False, db)
         | Inr flag \<Rightarrow>
           (case GetFlagState (flt 1) pg (flag_ID flag) (syr_SourceEnvID req) db of
              Inl e \<Rightarrow> (False, db)
            | Inr source \<Rightarrow>
              (let existing = GetFlagState (flt 2) pg (flag_ID flag) (syr_TargetEnvID req) db;
                   target = synced_state flag (syr_TargetEnvID req) source existing
               in case UpsertFlagState (flt 3) pg (ae_dbnow env) (ae_newID env 3) target db of
                    (Inl e, db1) \<Rightarrow> (False, db1)
                  | (Inr st, db1) \<Rightarrow>
                      (True, write_audit env flt 4 (user_entry r projectID ''flag.synced'' (flag_ID flag)
                         None (Some (ae_stateJSON env (Some st)))) db1))))"

definition later_env :: "api_env \<Rightarrow> api_env" where
  "later_env env = env\<lparr>ae_newID := (\<lambda>i. ae_newID env (i + 10))\<rparr>"

fun sync_loop ::
    "api_env \<Rightarrow> faults \<Rightarrow> http_request \<Rightarrow> sync_request \<Rightarrow> string list \<Rightarrow> flag_db \<Rightarrow> nat \<times> flag_db" where
  "sync_loop env flt r req [] db = (0, db)"
| "sync_loop env flt r req (key # keys) db =
     (case sync_one env flt r req key db of
        (ok, db1) \<Rightarrow>
          (case sync_loop (later_env env) (\<lambda>i. flt (i + 10)) r req keys db1 of
             (n, db2) \<Rightarrow> ((if ok then Suc n else n), db2)))"

definition SyncEnvironments ::
    "api_env \<Rightarrow> faults \<Rightarrow> http_request \<Rightarrow> sync_request option \<Rightarrow> flag_db \<Rightarrow> (nat \<times> nat) response \<times> flag_db" where
  "SyncEnvironments env flt r body db =
     (case verifyProjectOwnership (flt 0) (ae_pg env) r db of
        Inl (c, msg) \<Rightarrow> (Refuse c msg, db)
      | Inr project \<Rightarrow>
        (case body of
           None \<Rightarrow> (Refuse StatusBadRequest ''invalid request body'', db)
         | Some req \<Rightarrow>
           (if syr_SourceEnvID req = [] \<or> syr_TargetEnvID req = [] \<or> syr_FlagKeys req = []
            then (Refuse StatusBadRequest ''source_env_id, target_env_id, and flag_keys are required'', db)
            else if syr_SourceEnvID req = syr_TargetEnvID req
            then (Refuse StatusBadRequest ''source and target environments must differ'', db)
            else
              (case sync_loop env (\<lambda>i. flt (Suc i)) r req (syr_FlagKeys req) db of
                 (synced, db1) \<Rightarrow> (Answer StatusOK (synced, length (syr_FlagKeys req)), db1)))))"

subsection \<open>Reading states\<close>

definition Flag_GetState :: "api_env \<Rightarrow> faults \<Rightarrow> http_request \<Rightarrow> flag_db \<Rightarrow> flag_state response" where
  "Flag_GetState env flt r db =
     (case verifyProjectOwnership (flt 0) (ae_pg env) r db of
        Inl (c, msg) \<Rightarrow> Refuse c msg
      | Inr project \<Rightarrow>
        (case GetFlag (flt 1) (ae_pg env) (URLParam r ''projectID'') (URLParam r ''flagKey'') db of
           Inl e \<Rightarrow> flag_not_found
         | Inr flag \<Rightarrow>
           (case GetFlagState (flt 2) (ae_pg env) (flag_ID flag) (URLParam r ''envID'') db of
              Inl e \<Rightarrow> Answer StatusOK (zero_flag_state\<lparr>state_FlagID := flag_ID flag,
                         state_EnvID := URLParam r ''envID''\<rparr>)
            | Inr st \<Rightarrow> Answer StatusOK st)))"

definition ListFlagStates ::
    "api_env \<Rightarrow> faults \<Rightarrow> http_request \<Rightarrow> flag_db \<Rightarrow> flag_state paginated_response response" where
  "ListFlagStates env flt r db =
     (case verifyProjectOwnership (flt 0) (ae_pg env) r db of
        Inl (c, msg) \<Rightarrow> Refuse c msg
      | Inr project \<Rightarrow>
        (case ListFlagStatesByEnv (flt 1) (ae_pg env) (URLParam r ''envID'') db of
           Inl e \<Rightarrow> Refuse StatusInternalServerError ''failed to list flag states''
         | Inr states \<Rightarrow>
             Answer StatusOK (NewPaginatedResponse states (int (length states)) (int (length states)) 0)))"

end
