(* ===== verification/FlagLaws.thy ===== *)
theory FlagLaws
  imports StateHandlers
begin

text \<open>
  The laws of the flag tables and what the handlers promise over them.  The locale \<open>state_table\<close> is the
  contract of an upsert that every writer of flag states (handlers, approvals, scheduler) relies on; it is
  interpreted on the table of the model.  \<open>flag_db_ok\<close> are the keys of the schema, and \<open>tenant_view\<close> what an
  organization sees of the tables.
\<close>

subsection \<open>The contract of the state table\<close>

text \<open>What a state says about the behaviour of its flag.\<close>

definition settings_of ::
    "flag_state \<Rightarrow> bool \<times> rawjson \<times> targeting_rule list \<times> int \<times> variant list \<times> gotime option \<times> gotime option" where
  "settings_of st = (state_Enabled st, state_DefaultValue st, state_Rules st, state_PercentageRollout st,
     state_Variants st, state_ScheduledEnableAt st, state_ScheduledDisableAt st)"

locale state_table =
  fixes norm :: "flag_state \<Rightarrow> flag_state option"
    and upsert :: "bool \<Rightarrow> gotime \<Rightarrow> string \<Rightarrow> flag_state \<Rightarrow> 'db \<Rightarrow> flag_state result \<times> 'db"
    and lookup :: "string \<Rightarrow> string \<Rightarrow> 'db \<Rightarrow> flag_state option"
  assumes norm_enabled: "norm st = Some r \<Longrightarrow> state_Enabled r = state_Enabled st"
    and upsert_error: "upsert fails now i st db = (Inl err, db') \<Longrightarrow> db' = db"
    and upsert_here: "upsert fails now i st db = (Inr st', db') \<Longrightarrow>
      \<exists>r row. norm st = Some r \<and> lookup (state_FlagID r) (state_EnvID r) db' = Some row \<and>
        settings_of row = settings_of r \<and> settings_of st' = settings_of st"
    and upsert_elsewhere: "upsert fails now i st db = (res, db') \<Longrightarrow>
      (\<And>r. norm st = Some r \<Longrightarrow> \<not> (state_FlagID r = f \<and> state_EnvID r = e)) \<Longrightarrow>
      lookup f e db' = lookup f e db"
begin

text \<open>A run of upserts, whatever fails of it, leaves every row alone that none of them names.\<close>

fun upserts :: "(bool \<times> gotime \<times> string \<times> flag_state) list \<Rightarrow> 'db \<Rightarrow> 'db" where
  "upserts [] db = db"
| "upserts ((fails, now, i, st) # ups) db = upserts ups (snd (upsert fails now i st db))"

lemma upserts_elsewhere:
  assumes "\<And>fails now i st r. (fails, now, i, st) \<in> set ups \<Longrightarrow> norm st = Some r \<Longrightarrow>
      \<not> (state_FlagID r = f \<and> state_EnvID r = e)"
  shows "lookup f e (upserts ups db) = lookup f e db"
  using assms
proof (induction ups db rule: upserts.induct)
  case (2 fails now i st ups db)
  obtain res db' where "upsert fails now i st db = (res, db')" by (cases "upsert fails now i st db")
  then have "lookup f e (snd (upsert fails now i st db)) = lookup f e db"
    using upsert_elsewhere 2(2) by (metis list.set_intros(1) snd_conv)
  then show ?case
    using 2(1) 2(2) by (metis list.set_intros(2) upserts.simps(2))
qed simp

text \<open>A successful upsert of a state that is off leaves a row that is off.\<close>

lemma upsert_disabled:
  assumes "upsert fails now i st db = (Inr st', db')" "\<not> state_Enabled st"
  shows "\<exists>r row. norm st = Some r \<and> lookup (state_FlagID r) (state_EnvID r) db' = Some row \<and>
    \<not> state_Enabled row"
  using upsert_here [OF assms(1)] assms(2) norm_enabled by (fastforce simp: settings_of_def)

end

lemma state_row_fields:
  assumes "state_row pg st = Some r"
  shows "pg_uuid pg (state_FlagID st) = Some (state_FlagID r)"
    "pg_uuid pg (state_EnvID st) = Some (state_EnvID r)"
    "pg_uuid pg (state_OrgID st) = Some (state_OrgID r)"
    "state_Enabled r = state_Enabled st"
    "state_PercentageRollout r = state_PercentageRollout st"
    "state_ScheduledEnableAt r = state_ScheduledEnableAt st"
    "state_ScheduledDisableAt r = state_ScheduledDisableAt st"
    "stored_rules pg (state_Rules st) = Some (state_Rules r)"
    "stored_variants pg (state_Variants st) = Some (state_Variants r)"
    "pg_raw pg (state_DefaultValue st) = Some (state_DefaultValue r)"
    "0 \<le> state_PercentageRollout st" "state_PercentageRollout st \<le> 10000"
  using assms by (auto simp: state_row_def split: option.splits if_split_asm)

lemma find_map_update:
  "find P xs = Some x \<Longrightarrow> P y \<Longrightarrow> find P (map (\<lambda>s. if P s then y else s) xs) = Some y"
  by (induction xs) (auto split: if_splits)

lemma find_map_other:
  "(\<And>s. P s \<Longrightarrow> \<not> Q s) \<Longrightarrow> \<not> Q y \<Longrightarrow> find Q (map (\<lambda>s. if P s then y else s) xs) = find Q xs"
  by (induction xs) auto

lemma find_append: "find P (xs @ ys) = (case find P xs of None \<Rightarrow> find P ys | Some x \<Rightarrow> Some x)"
  by (induction xs) auto

definition lookup_state :: "string \<Rightarrow> string \<Rightarrow> flag_db \<Rightarrow> flag_state option" where
  "lookup_state f e db = find (state_at f e) (fdb_States db)"

text \<open>The two ways an upsert succeeds.\<close>

lemma UpsertFlagState_cases:
  assumes "UpsertFlagState fails pg now i st db = (res, db')"
  obtains (failed) err where "res = Inl err" "db' = db"
  | (updated) r old where "state_row pg st = Some r"
      "find (state_at (state_FlagID r) (state_EnvID r)) (fdb_States db) = Some old"
      "res = Inr (st\<lparr>state_ID := state_ID old, state_CreatedAt := state_CreatedAt old, state_UpdatedAt := now\<rparr>)"
      "db' = db\<lparr>fdb_States := map (\<lambda>s. if state_at (state_FlagID r) (state_EnvID r) s
           then r\<lparr>state_ID := state_ID old, state_OrgID := state_OrgID old,
                  state_CreatedAt := state_CreatedAt old, state_UpdatedAt := now\<rparr> else s) (fdb_States db),
         fdb_Changes := fdb_Changes db @ [state_change ''UPDATE'' r]\<rparr>"
  | (inserted) r where "state_row pg st = Some r"
      "find (state_at (state_FlagID r) (state_EnvID r)) (fdb_States db) = None"
      "state_FlagID r \<in> flag_ID ` set (fdb_Flags db)" "state_EnvID r \<in> env_ID ` set (fdb_Envs db)"
      "i \<notin> state_ID ` set (fdb_States db)"
      "res = Inr (st\<lparr>state_ID := i, state_CreatedAt := now, state_UpdatedAt := now\<rparr>)"
      "db' = db\<lparr>fdb_States := fdb_States db @
           [r\<lparr>state_ID := i, state_CreatedAt := now, state_UpdatedAt := now\<rparr>],
         fdb_Changes := fdb_Changes db @ [state_change ''INSERT'' r]\<rparr>"
proof (cases "fails \<or> state_row pg st = None")
  case True
  then show ?thesis
    using assms failed by (auto simp: UpsertFlagState_def split: if_split_asm option.split_asm)
next
  case False
  then obtain r where r: "state_row pg st = Some r" and f: "\<not> fails" by auto
  show ?thesis
  proof (cases "find (state_at (state_FlagID r) (state_EnvID r)) (fdb_States db)")
    case (Some old)
    then show ?thesis
      using assms r f by (intro updated [OF r Some]) (auto simp: UpsertFlagState_def Let_def state_change_def)
  next
    case None
    show ?thesis
    proof (cases "state_FlagID r \<notin> flag_ID ` set (fdb_Flags db) \<or>
        state_EnvID r \<notin> env_ID ` set (fdb_Envs db) \<or> state_OrgID r \<notin> set (fdb_Orgs db) \<or>
        i \<in> state_ID ` set (fdb_States db)")
      case True
      then show ?thesis
        using assms r f None by (intro failed [of ErrInternal]) (auto simp: UpsertFlagState_def)
    next
      case False
      then show ?thesis
        using assms r f None
        by (intro inserted [OF r None]) (auto simp: UpsertFlagState_def Let_def state_change_def)
    qed
  qed
qed

interpretation states: state_table "state_row pg" "\<lambda>fails. UpsertFlagState fails pg" lookup_state
  for pg
proof
  fix st r
  assume "state_row pg st = Some r"
  then show "state_Enabled r = state_Enabled st" by (rule state_row_fields)
next
  fix fails now i st db e db'
  assume "UpsertFlagState fails pg now i st db = (Inl e, db')"
  then show "db' = db" by (cases rule: UpsertFlagState_cases) auto
next
  fix fails now i st db st' db'
  assume "UpsertFlagState fails pg now i st db = (Inr st', db')"
  then show "\<exists>r row. state_row pg st = Some r \<and> lookup_state (state_FlagID r) (state_EnvID r) db' = Some row \<and>
      settings_of row = settings_of r \<and> settings_of st' = settings_of st"
  proof (cases rule: UpsertFlagState_cases)
    case (updated r old)
    have "state_at (state_FlagID r) (state_EnvID r) (r\<lparr>state_ID := state_ID old,
        state_OrgID := state_OrgID old, state_CreatedAt := state_CreatedAt old, state_UpdatedAt := now\<rparr>)"
      by (simp add: state_at_def)
    from find_map_update [where P = "state_at (state_FlagID r) (state_EnvID r)", OF updated(2) this] updated
    show ?thesis by (simp add: lookup_state_def settings_of_def)
  next
    case (inserted r)
    then show ?thesis
      by (simp add: lookup_state_def find_append state_at_def settings_of_def)
  qed simp
next
  fix fails now i st db res db' f e
  assume up: "UpsertFlagState fails pg now i st db = (res, db')"
    and other: "\<And>r. state_row pg st = Some r \<Longrightarrow> \<not> (state_FlagID r = f \<and> state_EnvID r = e)"
  from up show "lookup_state f e db' = lookup_state f e db"
  proof (cases rule: UpsertFlagState_cases)
    case (updated r old)
    with other [of r] show ?thesis
      by (simp add: lookup_state_def) (rule find_map_other, auto simp: state_at_def)
  next
    case (inserted r)
    with other [of r] show ?thesis
      by (auto simp: lookup_state_def find_append state_at_def split: option.split)
  qed simp
qed

subsection \<open>Keys of the schema and tenants\<close>

definition flag_keys_ok :: "pglib \<Rightarrow> flag_db \<Rightarrow> bool" where
  "flag_keys_ok pg db \<longleftrightarrow>
     distinct (map prj_ID (fdb_Projects db)) \<and> distinct (map flag_ID (fdb_Flags db)) \<and>
     distinct (map (\<lambda>f. (flag_ProjectID f, flag_Key f)) (fdb_Flags db)) \<and>
     (\<forall>f\<in>set (fdb_Flags db). pg_uuid pg (flag_ID f) = Some (flag_ID f) \<and>
        flag_ProjectID f \<in> prj_ID ` set (fdb_Projects db))"

definition state_keys :: "flag_db \<Rightarrow> (string \<times> string) list" where
  "state_keys db = map (\<lambda>s. (state_FlagID s, state_EnvID s)) (fdb_States db)"

definition state_keys_ok :: "flag_db \<Rightarrow> bool" where
  "state_keys_ok db \<longleftrightarrow>
     distinct (state_keys db) \<and>
     set (state_keys db) \<subseteq> flag_ID ` set (fdb_Flags db) \<times> env_ID ` set (fdb_Envs db)"

definition flag_db_ok :: "pglib \<Rightarrow> flag_db \<Rightarrow> bool" where
  "flag_db_ok pg db \<longleftrightarrow> flag_keys_ok pg db \<and> state_keys_ok db"

definition owned_by :: "string \<Rightarrow> flag_db \<Rightarrow> string \<Rightarrow> bool" where
  "owned_by org db projectID \<longleftrightarrow>
     (\<exists>p\<in>set (fdb_Projects db). prj_ID p = projectID \<and> prj_OrgID p = org)"

definition flags_of :: "string \<Rightarrow> flag_db \<Rightarrow> flag list" where
  "flags_of org db = filter (\<lambda>f. owned_by org db (flag_ProjectID f)) (fdb_Flags db)"

text \<open>The flags of an organization with their states and versions.\<close>

definition tenant_view :: "string \<Rightarrow> flag_db \<Rightarrow> flag list \<times> flag_state list \<times> flag_version list" where
  "tenant_view org db =
     (flags_of org db,
      filter (\<lambda>s. state_FlagID s \<in> flag_ID ` set (flags_of org db)) (fdb_States db),
      filter (\<lambda>v. fv_FlagID v \<in> flag_ID ` set (flags_of org db)) (fdb_Versions db))"

text \<open>A change that keeps the keys and does not show to an organization.\<close>

definition hidden_from :: "string \<Rightarrow> pglib \<Rightarrow> flag_db \<Rightarrow> flag_db \<Rightarrow> bool" where
  "hidden_from org pg db db' \<longleftrightarrow>
     tenant_view org db' = tenant_view org db \<and> flag_db_ok pg db' \<and>
     fdb_Projects db' = fdb_Projects db \<and> fdb_Envs db' = fdb_Envs db"

lemma hidden_refl: "flag_db_ok pg db \<Longrightarrow> hidden_from org pg db db"
  by (simp add: hidden_from_def)

lemma hidden_trans: "hidden_from org pg db db1 \<Longrightarrow> hidden_from org pg db1 db2 \<Longrightarrow> hidden_from org pg db db2"
  by (simp add: hidden_from_def)

lemma write_audit_keeps [simp]:
  "fdb_Flags (write_audit env flt n e db) = fdb_Flags db"
  "fdb_States (write_audit env flt n e db) = fdb_States db"
  "fdb_Projects (write_audit env flt n e db) = fdb_Projects db"
  "fdb_Envs (write_audit env flt n e db) = fdb_Envs db"
  "fdb_Versions (write_audit env flt n e db) = fdb_Versions db"
  "fdb_Segments (write_audit env flt n e db) = fdb_Segments db"
  "fdb_Changes (write_audit env flt n e db) = fdb_Changes db"
  "fdb_Orgs (write_audit env flt n e db) = fdb_Orgs db"
  by (simp_all add: write_audit_def)

lemma lookup_state_write_audit [simp]: "lookup_state f e (write_audit env flt n a db) = lookup_state f e db"
  by (simp add: lookup_state_def)

lemma tenant_view_cong:
  "fdb_Flags db' = fdb_Flags db \<Longrightarrow> fdb_States db' = fdb_States db \<Longrightarrow> fdb_Versions db' = fdb_Versions db \<Longrightarrow>
   fdb_Projects db' = fdb_Projects db \<Longrightarrow> tenant_view org db' = tenant_view org db"
  by (simp add: tenant_view_def flags_of_def owned_by_def)

lemma flag_db_ok_cong:
  "fdb_Flags db' = fdb_Flags db \<Longrightarrow> fdb_States db' = fdb_States db \<Longrightarrow>
   fdb_Projects db' = fdb_Projects db \<Longrightarrow> fdb_Envs db' = fdb_Envs db \<Longrightarrow> flag_db_ok pg db' = flag_db_ok pg db"
  by (simp add: flag_db_ok_def flag_keys_ok_def state_keys_ok_def state_keys_def)

lemma hidden_audit: "hidden_from org pg db db' \<Longrightarrow> hidden_from org pg db (write_audit env flt n e db')"
  using tenant_view_cong [of "write_audit env flt n e db'" db' org]
    flag_db_ok_cong [of "write_audit env flt n e db'" db' pg]
  by (simp add: hidden_from_def)

lemma lookup_state_Some:
  "lookup_state f e db = Some s \<Longrightarrow> s \<in> set (fdb_States db) \<and> state_FlagID s = f \<and> state_EnvID s = e"
  by (auto simp: lookup_state_def state_at_def find_Some_iff)

lemma lookup_state_None:
  "lookup_state f e db = None \<Longrightarrow> s \<in> set (fdb_States db) \<Longrightarrow> (state_FlagID s, state_EnvID s) \<noteq> (f, e)"
  by (auto simp: lookup_state_def state_at_def find_None_iff)

lemma filter_map_if:
  "(\<And>s. P s \<Longrightarrow> \<not> Q s \<and> \<not> Q (g s)) \<Longrightarrow> filter Q (map (\<lambda>s. if P s then g s else s) xs) = filter Q xs"
  by (induction xs) auto

lemma upsert_keys:
  assumes ok: "flag_db_ok pg db" and up: "UpsertFlagState fails pg now i st db = (res, db')"
  shows "flag_db_ok pg db'"
  using up
proof (cases rule: UpsertFlagState_cases)
  case failed
  then show ?thesis using ok by simp
next
  case (updated r old)
  have "state_keys db' = state_keys db"
    by (auto simp: updated(4) state_at_def state_keys_def)
  then show ?thesis
    using ok by (simp add: flag_db_ok_def flag_keys_ok_def state_keys_ok_def updated(4))
next
  case (inserted r)
  have "(state_FlagID r, state_EnvID r) \<notin> set (state_keys db)"
    using inserted(2) lookup_state_None [of "state_FlagID r" "state_EnvID r" db]
    by (force simp: state_keys_def lookup_state_def)
  moreover have "state_keys db' = state_keys db @ [(state_FlagID r, state_EnvID r)]"
    by (simp add: state_keys_def inserted(7))
  ultimately show ?thesis
    using ok inserted(3,4) by (simp add: flag_db_ok_def flag_keys_ok_def state_keys_ok_def inserted(7))
qed

lemma hidden_upsert:
  assumes ok: "flag_db_ok pg db" and up: "UpsertFlagState fails pg now i st db = (res, db')"
    and foreign: "\<And>u. pg_uuid pg (state_FlagID st) = Some u \<Longrightarrow> u \<notin> flag_ID ` set (flags_of org db)"
  shows "hidden_from org pg db db'"
  using up
proof (cases rule: UpsertFlagState_cases)
  case failed
  then show ?thesis using ok by (simp add: hidden_from_def)
next
  case (updated r old)
  have r: "state_FlagID r \<notin> flag_ID ` set (flags_of org db)"
    using foreign state_row_fields(1) [OF updated(1)] by simp
  let ?g = "\<lambda>s. r\<lparr>state_ID := state_ID old, state_OrgID := state_OrgID old,
       state_CreatedAt := state_CreatedAt old, state_UpdatedAt := now\<rparr>"
  have "filter (\<lambda>s. state_FlagID s \<in> flag_ID ` set (flags_of org db)) (fdb_States db') =
      filter (\<lambda>s. state_FlagID s \<in> flag_ID ` set (flags_of org db)) (fdb_States db)"
    using filter_map_if [where P = "state_at (state_FlagID r) (state_EnvID r)" and g = ?g
        and Q = "\<lambda>s. state_FlagID s \<in> flag_ID ` set (flags_of org db)" and xs = "fdb_States db"] r
    by (simp add: updated(4) state_at_def cong: if_cong)
  then show ?thesis
    using upsert_keys [OF ok up]
    by (simp add: hidden_from_def tenant_view_def flags_of_def owned_by_def updated(4))
next
  case (inserted r)
  have "state_FlagID r \<notin> flag_ID ` set (flags_of org db)"
    using foreign state_row_fields(1) [OF inserted(1)] by simp
  then show ?thesis
    using upsert_keys [OF ok up]
    by (simp add: hidden_from_def tenant_view_def flags_of_def owned_by_def inserted(7))
qed

lemma owned_by_unique:
  "flag_keys_ok pg db \<Longrightarrow> owned_by a db p \<Longrightarrow> owned_by b db p \<Longrightarrow> a = b"
  by (auto simp: owned_by_def flag_keys_ok_def distinct_map inj_on_def)

text \<open>A flag of one organization has an identifier no flag of another has.\<close>

lemma foreign_flag:
  assumes "flag_keys_ok pg db" "f \<in> set (fdb_Flags db)" "owned_by a db (flag_ProjectID f)" "a \<noteq> b"
  shows "flag_ID f \<notin> flag_ID ` set (flags_of b db)"
proof
  assume "flag_ID f \<in> flag_ID ` set (flags_of b db)"
  then obtain g where g: "g \<in> set (fdb_Flags db)" "owned_by b db (flag_ProjectID g)" "flag_ID g = flag_ID f"
    by (auto simp: flags_of_def)
  then have "g = f"
    using assms(1,2) by (auto simp: flag_keys_ok_def distinct_map inj_on_def)
  then show False
    using owned_by_unique [OF assms(1,3)] g(2) assms(4) by auto
qed

lemma find_SomeD: "find P xs = Some x \<Longrightarrow> x \<in> set xs \<and> P x"
  by (auto simp: find_Some_iff)

lemma map_update_keys:
  "(\<And>f. k (upd f) = k f) \<Longrightarrow> map k (map (\<lambda>f. if P f then upd f else f) xs) = map k xs"
  by (induction xs) auto

lemma filter_map_member:
  "(\<And>s. s \<in> set xs \<Longrightarrow> P s \<Longrightarrow> \<not> Q s \<and> \<not> Q (g s)) \<Longrightarrow>
     filter Q (map (\<lambda>s. if P s then g s else s) xs) = filter Q xs"
  by (induction xs) auto

lemma hidden_update:
  assumes ok: "flag_db_ok pg db" and up: "sql_update_flag u upd db = (res, db')"
    and foreign: "u \<notin> flag_ID ` set (flags_of org db)"
    and keeps: "\<And>f. flag_ID (upd f) = flag_ID f" "\<And>f. flag_ProjectID (upd f) = flag_ProjectID f"
      "\<And>f. flag_Key (upd f) = flag_Key f"
  shows "hidden_from org pg db db'"
proof (cases "db' = db")
  case True
  then show ?thesis using ok by (simp add: hidden_refl)
next
  case False
  then obtain old where old: "find (\<lambda>f. flag_ID f = u) (fdb_Flags db) = Some old"
    and db': "db' = increment_flag_version old (upd old)
      (db\<lparr>fdb_Flags := map (\<lambda>f. if flag_ID f = u then upd f else f) (fdb_Flags db)\<rparr>)"
    using up by (auto simp: sql_update_flag_def split: option.splits if_splits)
  have u: "flag_ID old = u" using find_SomeD [OF old] by simp
  let ?k = "\<lambda>f. (flag_ID f, flag_ProjectID f, flag_Key f)"
  have keys: "map ?k (fdb_Flags db') = map ?k (fdb_Flags db)"
    using map_update_keys [of ?k upd "\<lambda>f. flag_ID f = u" "fdb_Flags db"] keeps
    by (simp add: db' increment_flag_version_def)
  have same: "map g (fdb_Flags db') = map g (fdb_Flags db)" if "\<And>f. g f = h (?k f)" for g :: "flag \<Rightarrow> 'b" and h
  proof -
    have "g = h \<circ> ?k" using that by (simp add: fun_eq_iff)
    then show ?thesis using arg_cong [OF keys, of "map h"] by simp
  qed
  note ids = same [of flag_ID fst, simplified] and prjs = same [of flag_ProjectID "fst \<circ> snd", simplified]
    and pks = same [of "\<lambda>f. (flag_ProjectID f, flag_Key f)" snd, simplified]
  have sets: "flag_ID ` set (fdb_Flags db') = flag_ID ` set (fdb_Flags db)"
      "flag_ProjectID ` set (fdb_Flags db') = flag_ProjectID ` set (fdb_Flags db)"
    using arg_cong [OF ids, of set] arg_cong [OF prjs, of set] by simp_all
  have rest: "fdb_Projects db' = fdb_Projects db" "fdb_Envs db' = fdb_Envs db" "fdb_States db' = fdb_States db"
    by (simp_all add: db' increment_flag_version_def)
  have flags: "flags_of org db' = flags_of org db"
  proof -
    have "filter (\<lambda>f. owned_by org db (flag_ProjectID f))
        (map (\<lambda>f. if flag_ID f = u then upd f else f) (fdb_Flags db)) = flags_of org db"
      using foreign keeps by (auto simp: flags_of_def intro!: filter_map_member)
    then show ?thesis
      by (simp add: flags_of_def owned_by_def db' increment_flag_version_def)
  qed
  have "flag_keys_ok pg db'"
  proof -
    have "pg_uuid pg i = Some i" if "i \<in> flag_ID ` set (fdb_Flags db)" for i
      using ok that by (auto simp: flag_db_ok_def flag_keys_ok_def)
    then have "\<forall>f\<in>set (fdb_Flags db'). pg_uuid pg (flag_ID f) = Some (flag_ID f)"
      using sets(1) by blast
    moreover have "flag_ProjectID ` set (fdb_Flags db') \<subseteq> prj_ID ` set (fdb_Projects db)"
      unfolding sets(2) using ok by (auto simp: flag_db_ok_def flag_keys_ok_def)
    ultimately show ?thesis
      using ok by (simp add: flag_db_ok_def flag_keys_ok_def ids pks rest image_subset_iff)
  qed
  moreover have "state_keys_ok db'"
    using ok by (simp add: flag_db_ok_def state_keys_ok_def state_keys_def rest sets)
  ultimately show ?thesis
    using foreign u flags
    by (simp add: hidden_from_def tenant_view_def rest flag_db_ok_def db' increment_flag_version_def keeps)
qed

lemma hidden_delete:
  assumes ok: "flag_db_ok pg db" and del: "DeleteFlag fails pg i db = (res, db')"
    and foreign: "\<And>u. pg_uuid pg i = Some u \<Longrightarrow> u \<notin> flag_ID ` set (flags_of org db)"
  shows "hidden_from org pg db db'"
proof (cases "db' = db")
  case True
  then show ?thesis using ok by (simp add: hidden_refl)
next
  case False
  then obtain u where u: "pg_uuid pg i = Some u"
    and db': "fdb_Flags db' = filter (\<lambda>f. flag_ID f \<noteq> u) (fdb_Flags db)"
      "fdb_States db' = filter (\<lambda>st. state_FlagID st \<noteq> u) (fdb_States db)"
      "fdb_Versions db' = filter (\<lambda>v. fv_FlagID v \<noteq> u) (fdb_Versions db)"
      "fdb_Projects db' = fdb_Projects db" "fdb_Envs db' = fdb_Envs db"
    using del by (auto simp: DeleteFlag_def split: option.splits if_splits)
  have flags: "flags_of org db' = flags_of org db"
    using foreign [OF u] by (auto simp: flags_of_def owned_by_def db' intro!: filter_cong)
  have "flag_keys_ok pg db'"
    using ok by (auto simp: flag_db_ok_def flag_keys_ok_def db' intro: distinct_map_filter)
  moreover have "state_keys_ok db'"
    using ok by (auto simp: flag_db_ok_def state_keys_ok_def state_keys_def db' intro: distinct_map_filter)
  ultimately show ?thesis
    using foreign [OF u] flags
    by (auto simp: hidden_from_def tenant_view_def db' flag_db_ok_def intro!: filter_cong)
qed

lemma CreateFlag_row:
  assumes "CreateFlag fails pg now i f db = (res, db')" "db' \<noteq> db"
  shows "\<exists>p. pg_uuid pg (flag_ProjectID f) = Some p \<and> p \<in> prj_ID ` set (fdb_Projects db) \<and>
    flag_ID (last (fdb_Flags db')) = i \<and> flag_ProjectID (last (fdb_Flags db')) = p \<and>
    flag_Key (last (fdb_Flags db')) = flag_Key f \<and>
    (\<forall>g\<in>set (fdb_Flags db). flag_ID g \<noteq> i \<and> \<not> (flag_ProjectID g = p \<and> flag_Key g = flag_Key f)) \<and>
    db' = db\<lparr>fdb_Flags := fdb_Flags db @ [last (fdb_Flags db')]\<rparr>"
  using assms by (auto simp: CreateFlag_def Let_def simp del: if_split split: option.splits if_split_asm)

lemma hidden_create:
  assumes ok: "flag_db_ok pg db" and cr: "CreateFlag fails pg now i f db = (res, db')"
    and newid: "pg_uuid pg i = Some i"
    and foreign: "\<And>u. pg_uuid pg (flag_ProjectID f) = Some u \<Longrightarrow> \<not> owned_by org db u"
  shows "hidden_from org pg db db'"
proof (cases "db' = db")
  case True
  then show ?thesis using ok by (simp add: hidden_refl)
next
  case False
  define row where "row = last (fdb_Flags db')"
  obtain p where p: "pg_uuid pg (flag_ProjectID f) = Some p" "p \<in> prj_ID ` set (fdb_Projects db)"
    and row: "flag_ID row = i" "flag_ProjectID row = p" "flag_Key row = flag_Key f"
    and fresh: "\<forall>g\<in>set (fdb_Flags db). flag_ID g \<noteq> i \<and> \<not> (flag_ProjectID g = p \<and> flag_Key g = flag_Key f)"
    and db': "db' = db\<lparr>fdb_Flags := fdb_Flags db @ [row]\<rparr>"
    using CreateFlag_row [OF cr False] unfolding row_def by blast
  have flags: "flags_of org db' = flags_of org db"
    using foreign [OF p(1)] row by (simp add: flags_of_def owned_by_def db')
  have "flag_keys_ok pg db'"
    using ok newid p fresh row by (auto simp: flag_db_ok_def flag_keys_ok_def db')
  moreover have "state_keys_ok db'"
    using ok by (auto simp: flag_db_ok_def state_keys_ok_def state_keys_def db')
  ultimately show ?thesis
    using flags by (simp add: hidden_from_def tenant_view_def flag_db_ok_def db')
qed

end
