(* ===== verification/FlagIsolation.thy ===== *)
theory FlagIsolation
  imports FlagLaws
begin

text \<open>
  Isolation of tenants.  \<open>flag_call\<close> are the writing handlers of flags and states behind the ownership
  check; no sequence of their calls by other organizations shows in the \<open>tenant_view\<close> of an organization.
  The history handlers and the flat list have no such check, and the theorems at the end show it.
\<close>

lemma verifyProjectOwnership_Inr:
  "verifyProjectOwnership fails pg r db = Inr p \<Longrightarrow>
     \<exists>u. pg_uuid pg (URLParam r ''projectID'') = Some u \<and> owned_by (GetOrgID r) db u"
  by (auto simp: verifyProjectOwnership_def GetProject_def by_uuid_Inr owned_by_def Let_def
      split: if_splits sum.splits dest!: find_SomeD)

lemma GetFlag_Inr:
  "GetFlag fails pg i key db = Inr f \<Longrightarrow>
     \<exists>u g. pg_uuid pg i = Some u \<and> g \<in> set (fdb_Flags db) \<and> flag_ProjectID g = u \<and> flag_Key g = key \<and>
       f = flag_columns g"
  by (auto simp: GetFlag_def by_uuid_Inr dest!: find_SomeD)

lemma flag_columns_simps [simp]:
  "flag_ID (flag_columns f) = flag_ID f" "flag_ProjectID (flag_columns f) = flag_ProjectID f"
  "flag_Key (flag_columns f) = flag_Key f" "flag_DefaultValue (flag_columns f) = flag_DefaultValue f"
  by (simp_all add: flag_columns_def)

text \<open>A flag found under an owned project is none of another organization.\<close>

lemma own_flag_foreign:
  assumes "flag_keys_ok pg db" "pg_uuid pg projectID = Some u" "owned_by a db u"
    and "GetFlag fails pg projectID key db = Inr f" "a \<noteq> b"
  shows "pg_uuid pg (flag_ID f) = Some (flag_ID f)" "flag_ID f \<notin> flag_ID ` set (flags_of b db)"
proof -
  obtain g where g: "g \<in> set (fdb_Flags db)" "flag_ProjectID g = u" "f = flag_columns g"
    using GetFlag_Inr [OF assms(4)] assms(2) by auto
  show "pg_uuid pg (flag_ID f) = Some (flag_ID f)"
    using assms(1) g by (auto simp: flag_keys_ok_def)
  show "flag_ID f \<notin> flag_ID ` set (flags_of b db)"
    using foreign_flag [OF assms(1) g(1), of a b] assms(3,5) g by simp
qed

lemma hidden_UpdateFlag:
  assumes "flag_db_ok pg db" "UpdateFlag fails pg now f db = (res, db')"
    and "\<And>u. pg_uuid pg (flag_ID f) = Some u \<Longrightarrow> u \<notin> flag_ID ` set (flags_of org db)"
  shows "hidden_from org pg db db'"
  using assms by (auto simp: UpdateFlag_def hidden_refl split: if_splits option.splits elim!: hidden_update)

lemma updated_state_ID [simp]:
  "updated_state env req st = Inr st' \<Longrightarrow> state_FlagID st' = state_FlagID st"
  by (auto simp: updated_state_def split: option.splits)

lemma GetFlagState_Inr:
  "GetFlagState fails pg f e db = Inr st \<Longrightarrow>
     \<exists>u v. pg_uuid pg f = Some u \<and> pg_uuid pg e = Some v \<and> lookup_state u v db = Some st"
  by (auto simp: GetFlagState_def by_uuid_Inr lookup_state_def split: option.splits)

lemma GetFlagState_ID:
  "GetFlagState fails pg f e db = Inr st \<Longrightarrow> pg_uuid pg f = Some f \<Longrightarrow> state_FlagID st = f"
  by (auto dest!: GetFlagState_Inr lookup_state_Some)

lemma fresh_state_ID [simp]: "state_FlagID (fresh_state r f e) = flag_ID f"
  by (simp add: fresh_state_def zero_flag_state_def)

lemma promoted_state_ID [simp]: "state_FlagID (promoted_state r f e src ex) = flag_ID f"
  by (simp add: promoted_state_def Let_def split: sum.split)

lemma synced_state_ID [simp]: "state_FlagID (synced_state f e src ex) = flag_ID f"
  by (simp add: synced_state_def Let_def zero_flag_state_def split: sum.split)

subsection \<open>The writing handlers\<close>

datatype flag_call =
    CallCreate "create_flag_request option"
  | CallUpdate "create_flag_request option"
  | CallDelete
  | CallUpdateState "update_state_request option"
  | CallPromote "promote_request option"
  | CallKill "string option"
  | CallSync "sync_request option"

fun run_call :: "api_env \<Rightarrow> faults \<Rightarrow> http_request \<Rightarrow> flag_call \<Rightarrow> flag_db \<Rightarrow> flag_db" where
  "run_call env flt r (CallCreate body) db = snd (Flag_Create env flt r body db)"
| "run_call env flt r (CallUpdate body) db = snd (Flag_Update env flt r body db)"
| "run_call env flt r CallDelete db = snd (Flag_Delete env flt r db)"
| "run_call env flt r (CallUpdateState body) db = snd (Flag_UpdateState env flt r body db)"
| "run_call env flt r (CallPromote body) db = snd (Flag_Promote env flt r body db)"
| "run_call env flt r (CallKill body) db = snd (Flag_Kill env flt r body db)"
| "run_call env flt r (CallSync body) db = snd (SyncEnvironments env flt r body db)"

text \<open>A request of an organization other than \<open>org\<close> on tables in order.\<close>

definition foreign_request :: "string \<Rightarrow> api_env \<Rightarrow> http_request \<Rightarrow> flag_db \<Rightarrow> bool" where
  "foreign_request org env r db \<longleftrightarrow>
     flag_db_ok (ae_pg env) db \<and> (\<forall>n. pg_uuid (ae_pg env) (ae_newID env n) = Some (ae_newID env n)) \<and>
     GetOrgID r \<noteq> org"

lemma foreign_request_ok: "foreign_request org env r db \<Longrightarrow> flag_db_ok (ae_pg env) db"
  by (simp add: foreign_request_def)

lemma own_flag:
  assumes F: "foreign_request org env r db"
    and v: "verifyProjectOwnership fails (ae_pg env) r db = Inr p"
    and g: "GetFlag fails' (ae_pg env) (URLParam r ''projectID'') key db = Inr f"
  shows "pg_uuid (ae_pg env) (flag_ID f) = Some (flag_ID f)" "flag_ID f \<notin> flag_ID ` set (flags_of org db)"
proof -
  obtain u where u: "pg_uuid (ae_pg env) (URLParam r ''projectID'') = Some u" "owned_by (GetOrgID r) db u"
    using verifyProjectOwnership_Inr [OF v] by auto
  have "flag_keys_ok (ae_pg env) db" "GetOrgID r \<noteq> org"
    using F by (simp_all add: flag_db_ok_def foreign_request_def)
  from own_flag_foreign [OF this(1) u g this(2)]
  show "pg_uuid (ae_pg env) (flag_ID f) = Some (flag_ID f)" "flag_ID f \<notin> flag_ID ` set (flags_of org db)"
    by simp_all
qed

lemma own_state_ID:
  assumes "foreign_request org env r db"
    and "verifyProjectOwnership fails (ae_pg env) r db = Inr p"
    and "GetFlag fails' (ae_pg env) (URLParam r ''projectID'') key db = Inr f"
    and "GetFlagState fails'' (ae_pg env) (flag_ID f) e db = Inr st"
  shows "state_FlagID st = flag_ID f"
  using GetFlagState_ID [OF assms(4) own_flag(1) [OF assms(1-3)]] .

lemma hidden_Create:
  assumes F: "foreign_request org env r db"
  shows "hidden_from org (ae_pg env) db (snd (Flag_Create env flt r body db))"
proof -
  have "hidden_from org (ae_pg env) db db1"
    if "verifyProjectOwnership (flt 0) (ae_pg env) r db = Inr p"
      "CreateFlag (flt 1) (ae_pg env) now (ae_newID env 1) (requested_flag r req) db = (res, db1)"
    for p now req res db1
  proof (rule hidden_create [OF foreign_request_ok [OF F] that(2)])
    show "pg_uuid (ae_pg env) (ae_newID env 1) = Some (ae_newID env 1)"
      using F by (simp add: foreign_request_def)
  next
    fix u
    assume "pg_uuid (ae_pg env) (flag_ProjectID (requested_flag r req)) = Some u"
    then have "pg_uuid (ae_pg env) (URLParam r ''projectID'') = Some u"
      by (simp add: requested_flag_def Let_def)
    then have "owned_by (GetOrgID r) db u"
      using verifyProjectOwnership_Inr [OF that(1)] by auto
    then show "\<not> owned_by org db u"
      using owned_by_unique F by (auto simp: flag_db_ok_def foreign_request_def)
  qed
  then show ?thesis
    using foreign_request_ok [OF F] F by (auto simp: Flag_Create_def Let_def hidden_refl intro: hidden_audit
        split: sum.splits option.splits prod.splits store_error.splits)
qed

lemma hidden_Update:
  assumes F: "foreign_request org env r db"
  shows "hidden_from org (ae_pg env) db (snd (Flag_Update env flt r body db))"
proof -
  have "hidden_from org (ae_pg env) db db1"
    if "verifyProjectOwnership (flt 0) (ae_pg env) r db = Inr p"
      "GetFlag (flt 1) (ae_pg env) (URLParam r ''projectID'') (URLParam r ''flagKey'') db = Inr f"
      "UpdateFlag (flt 2) (ae_pg env) now (updated_flag req f) db = (res, db1)"
    for p f now req res db1
    using own_flag [OF F that(1,2)] by (intro hidden_UpdateFlag [OF foreign_request_ok [OF F] that(3)]) (simp add: updated_flag_def)
  then show ?thesis
    using foreign_request_ok [OF F] F by (auto simp: Flag_Update_def Let_def hidden_refl intro: hidden_audit
        split: sum.splits option.splits prod.splits)
qed

lemma hidden_Delete:
  assumes F: "foreign_request org env r db"
  shows "hidden_from org (ae_pg env) db (snd (Flag_Delete env flt r db))"
proof -
  have "hidden_from org (ae_pg env) db db1"
    if "verifyProjectOwnership (flt 0) (ae_pg env) r db = Inr p"
      "GetFlag (flt 1) (ae_pg env) (URLParam r ''projectID'') (URLParam r ''flagKey'') db = Inr f"
      "DeleteFlag (flt 2) (ae_pg env) (flag_ID f) db = (res, db1)" for p f res db1
    using own_flag [OF F that(1,2)] by (intro hidden_delete [OF foreign_request_ok [OF F] that(3)]) simp
  then show ?thesis
    using foreign_request_ok [OF F] F by (auto simp: Flag_Delete_def Let_def hidden_refl intro: hidden_audit
        split: sum.splits prod.splits)
qed

text \<open>Every write of a state goes to the flag that was found under the owned project.\<close>

lemma hidden_state_write:
  assumes F: "foreign_request org env r db"
    and "verifyProjectOwnership fails (ae_pg env) r db = Inr p"
    and "GetFlag fails' (ae_pg env) (URLParam r ''projectID'') key db = Inr f"
    and "UpsertFlagState fails'' (ae_pg env) now i st db = (res, db1)" "state_FlagID st = flag_ID f"
  shows "hidden_from org (ae_pg env) db db1"
  using own_flag [OF assms(1-3)] assms(5) by (intro hidden_upsert [OF foreign_request_ok [OF F] assms(4)]) simp

lemma updated_own_state:
  "updated_state env' req st = Inr st' \<Longrightarrow> state_FlagID st = k \<Longrightarrow> state_FlagID st' = k"
  by simp

lemma hidden_UpdateState:
  assumes F: "foreign_request org env r db"
  shows "hidden_from org (ae_pg env) db (snd (Flag_UpdateState env flt r body db))"
  using foreign_request_ok [OF F] F by (simp add: Flag_UpdateState_def Let_def hidden_refl split: sum.split option.split prod.split)
    (auto intro!: hidden_audit hidden_state_write intro: own_state_ID updated_own_state)

lemma hidden_Promote:
  assumes F: "foreign_request org env r db"
  shows "hidden_from org (ae_pg env) db (snd (Flag_Promote env flt r body db))"
  using foreign_request_ok [OF F] F by (simp add: Flag_Promote_def Let_def hidden_refl split: sum.split option.split prod.split)
    (auto intro!: hidden_audit hidden_state_write)

lemma hidden_Kill:
  assumes F: "foreign_request org env r db"
  shows "hidden_from org (ae_pg env) db (snd (Flag_Kill env flt r body db))"
  using foreign_request_ok [OF F] F by (simp add: Flag_Kill_def Let_def hidden_refl split: sum.split option.split prod.split)
    (auto intro!: hidden_audit hidden_state_write intro: own_state_ID)

lemma hidden_sync_one:
  assumes "flag_db_ok (ae_pg env) db" "pg_uuid (ae_pg env) (URLParam r ''projectID'') = Some u"
    and "owned_by (GetOrgID r) db u" "GetOrgID r \<noteq> org"
  shows "hidden_from org (ae_pg env) db (snd (sync_one env flt r req key db))"
proof -
  have "hidden_from org (ae_pg env) db db1"
    if "GetFlag (flt 0) (ae_pg env) (URLParam r ''projectID'') key db = Inr f"
      "UpsertFlagState fails (ae_pg env) now i st db = (res, db1)" "state_FlagID st = flag_ID f"
    for f fails now i st res db1
  proof (rule hidden_upsert [OF assms(1) that(2)])
    fix v
    assume "pg_uuid (ae_pg env) (state_FlagID st) = Some v"
    then show "v \<notin> flag_ID ` set (flags_of org db)"
      using own_flag_foreign [OF _ assms(2,3) that(1) assms(4)] assms(1) that(3)
      by (simp add: flag_db_ok_def)
  qed
  then show ?thesis
    using assms(1) by (simp add: sync_one_def Let_def hidden_refl split: sum.split prod.split)
      (auto intro!: hidden_audit)
qed

lemma hidden_sync_loop:
  assumes "flag_db_ok (ae_pg env) db" "pg_uuid (ae_pg env) (URLParam r ''projectID'') = Some u"
    and "owned_by (GetOrgID r) db u" "GetOrgID r \<noteq> org"
  shows "hidden_from org (ae_pg env) db (snd (sync_loop env flt r req keys db))"
  using assms
proof (induction keys arbitrary: env flt db)
  case Nil
  then show ?case by (simp add: hidden_refl)
next
  case (Cons key keys)
  define db1 where "db1 = snd (sync_one env flt r req key db)"
  have 1: "hidden_from org (ae_pg env) db db1"
    unfolding db1_def using Cons.prems by (rule hidden_sync_one)
  have "ae_pg (later_env env) = ae_pg env" by (simp add: later_env_def)
  moreover have "owned_by (GetOrgID r) db1 u"
    using 1 Cons.prems(3) by (simp add: hidden_from_def owned_by_def)
  ultimately have "hidden_from org (ae_pg env) db1
      (snd (sync_loop (later_env env) (\<lambda>i. flt (i + 10)) r req keys db1))"
    using Cons.IH [of "later_env env" db1] 1 Cons.prems by (simp add: hidden_from_def)
  from hidden_trans [OF 1 this] show ?case
    by (simp add: db1_def case_prod_beta)
qed

lemma hidden_Sync:
  assumes F: "foreign_request org env r db"
  shows "hidden_from org (ae_pg env) db (snd (SyncEnvironments env flt r body db))"
proof -
  have "hidden_from org (ae_pg env) db (snd (sync_loop env flt' r req keys db))"
    if "verifyProjectOwnership (flt 0) (ae_pg env) r db = Inr p" for p flt' req keys
    using verifyProjectOwnership_Inr [OF that] F hidden_sync_loop unfolding foreign_request_def by blast
  then show ?thesis
    using foreign_request_ok [OF F] by (simp add: SyncEnvironments_def hidden_refl split: sum.split option.split prod.split)
      (metis snd_conv)
qed

lemma hidden_run_call:
  "foreign_request org env r db \<Longrightarrow> hidden_from org (ae_pg env) db (run_call env flt r call db)"
  by (cases call) (simp_all add: hidden_Create hidden_Update hidden_Delete hidden_UpdateState
      hidden_Promote hidden_Kill hidden_Sync)

text \<open>A sequence of requests, each with its surroundings, its faults and its call.\<close>

fun run_calls ::
    "(api_env \<times> faults \<times> http_request \<times> flag_call) list \<Rightarrow> flag_db \<Rightarrow> flag_db" where
  "run_calls [] db = db"
| "run_calls ((env, flt, r, call) # calls) db = run_calls calls (run_call env flt r call db)"

text \<open>
  C4: tenants are isolated.  Whatever sequence of creations, updates, deletions, state updates, promotions,
  kills and synchronisations other organizations request, with whatever bodies, route parameters, roles
  and database faults, the flags of an organization, their states and their versions stay as they are,
  and the keys of the schema stay in order.
\<close>

theorem tenants_isolated:
  assumes "flag_db_ok pg db"
    and "\<forall>(env, flt, r, call)\<in>set calls. ae_pg env = pg \<and> GetOrgID r \<noteq> org \<and>
      (\<forall>n. pg_uuid pg (ae_newID env n) = Some (ae_newID env n))"
  shows "tenant_view org (run_calls calls db) = tenant_view org db \<and> flag_db_ok pg (run_calls calls db)"
proof -
  have "hidden_from org pg db (run_calls calls db)"
    using assms
  proof (induction calls db rule: run_calls.induct)
    case (1 db)
    then show ?case by (simp add: hidden_refl)
  next
    case (2 env flt r call calls db)
    then have pg: "ae_pg env = pg" by simp
    have "foreign_request org env r db"
      using 2(2,3) by (auto simp: foreign_request_def)
    then have 1: "hidden_from org pg db (run_call env flt r call db)"
      using hidden_run_call pg by metis
    then have "hidden_from org pg (run_call env flt r call db) (run_calls calls (run_call env flt r call db))"
      using 2(1,3) by (simp add: hidden_from_def)
    with 1 show ?case by (simp add: hidden_trans)
  qed
  then show ?thesis by (simp add: hidden_from_def)
qed

end
