(* ===== verification/RulesetCache.thy ===== *)
theory RulesetCache
  imports FlagIsolation "HOL-Library.AList"
begin

text \<open>
  The cache of rulesets of \<open>server/internal/store/cache/inmemory.go\<close>: it is filled on a miss, an entry is
  dropped when the database notifies a change of a flag state of its environment, and nothing else
  drops it.  The first part is the component; the second puts it beside the tables as a transition
  system, in which loads, writes and notifications interleave.
\<close>

subsection \<open>Building a ruleset\<close>

definition key_by :: "('a \<Rightarrow> 'k) \<Rightarrow> 'a list \<Rightarrow> ('k, 'a) gomap" where
  "key_by k xs = foldl (\<lambda>m x. AList.update (k x) x m) [] xs"

definition flagIDToKey :: "flag list \<Rightarrow> (string \<rightharpoonup> string)" where
  "flagIDToKey flags = foldl (\<lambda>m f. m(flag_ID f \<mapsto> flag_Key f)) Map.empty flags"

definition key_states :: "(string \<rightharpoonup> string) \<Rightarrow> flag_state list \<Rightarrow> (string, flag_state) gomap" where
  "key_states ids states =
     foldl (\<lambda>m s. case ids (state_FlagID s) of None \<Rightarrow> m | Some key \<Rightarrow> AList.update key s m) [] states"

definition build_ruleset :: "flag list \<Rightarrow> flag_state list \<Rightarrow> segment list \<Rightarrow> ruleset" where
  "build_ruleset flags states segments =
     \<lparr>rs_Flags = key_by flag_Key flags, rs_States = key_states (flagIDToKey flags) states,
      rs_Segments = key_by seg_Key segments\<rparr>"

type_synonym cache = "string \<rightharpoonup> ruleset"

definition GetRuleset :: "cache \<Rightarrow> string \<Rightarrow> ruleset option" where
  "GetRuleset c envID = c envID"

definition Cache_LoadRuleset ::
    "faults \<Rightarrow> pglib \<Rightarrow> string \<Rightarrow> string \<Rightarrow> flag_db \<Rightarrow> cache \<Rightarrow> ruleset result \<times> cache" where
  "Cache_LoadRuleset flt pg projectID envID db c =
     (case LoadRuleset flt pg projectID envID db of
        Inl e \<Rightarrow> (Inl e, c)
      | Inr (flags, states, segments) \<Rightarrow>
          (let rs = build_ruleset flags states segments in (Inr rs, c(envID \<mapsto> rs))))"

definition RulesetCount :: "cache \<Rightarrow> nat" where
  "RulesetCount c = card (dom c)"

text \<open>
  The callback of \<open>StartListening\<close>, on a payload that may not parse: the entry is dropped first, then the
  environment is announced to the connected clients and to the webhooks.
\<close>

definition on_notification ::
    "flag_change option \<Rightarrow> cache \<Rightarrow> cache \<times> (string \<times> flag_change) list" where
  "on_notification payload c =
     (case payload of
        None \<Rightarrow> (c, [])
      | Some ch \<Rightarrow> (c(ch_EnvID ch := None), [(ch_EnvID ch, ch)]))"

subsection \<open>What a ruleset holds\<close>

lemma key_by_snoc: "key_by k (xs @ [x]) = AList.update (k x) x (key_by k xs)"
  by (simp add: key_by_def)

lemma key_by_last:
  "map_of (key_by k xs) i = (case find (\<lambda>x. k x = i) (rev xs) of None \<Rightarrow> None | Some x \<Rightarrow> Some x)"
  by (induction xs rule: rev_induct) (simp_all add: key_by_def update_conv')

lemma key_by_well_keyed: "well_keyed (key_by k xs)"
  by (induction xs rule: rev_induct) (auto simp: key_by_snoc well_keyed_def distinct_update key_by_def)

lemma find_unique:
  "x \<in> set xs \<Longrightarrow> P x \<Longrightarrow> (\<And>y. y \<in> set xs \<Longrightarrow> P y \<Longrightarrow> y = x) \<Longrightarrow> find P xs = Some x"
proof (induction xs)
  case (Cons a xs)
  show ?case
  proof (cases "P a")
    case True
    with Cons.prems(3) [of a] show ?thesis by simp
  next
    case False
    with Cons.prems Cons.IH show ?thesis by (metis find.simps(2) set_ConsD list.set_intros(2))
  qed
qed simp

lemma find_rev_unique:
  "distinct (map k xs) \<Longrightarrow> x \<in> set xs \<Longrightarrow> find (\<lambda>y. k y = k x) (rev xs) = Some x"
  by (rule find_unique) (auto simp: distinct_map inj_on_def)

lemma key_by_unique: "distinct (map k xs) \<Longrightarrow> x \<in> set xs \<Longrightarrow> map_of (key_by k xs) (k x) = Some x"
  by (simp add: key_by_last find_rev_unique)

lemma flagIDToKey_unique:
  assumes "distinct (map flag_ID fs)"
  shows "flagIDToKey fs i = Some key \<longleftrightarrow> (\<exists>f\<in>set fs. flag_ID f = i \<and> flag_Key f = key)"
  using assms
  by (induction fs rule: rev_induct) (auto simp: flagIDToKey_def image_iff)

lemma key_states_mem:
  "map_of (key_states ids sts) key = Some s \<Longrightarrow> s \<in> set sts \<and> ids (state_FlagID s) = Some key"
  by (induction sts rule: rev_induct)
    (auto simp: key_states_def update_conv' split: option.splits if_splits)

lemma key_states_cong:
  "(\<And>s. s \<in> set sts \<Longrightarrow> ids (state_FlagID s) = ids' (state_FlagID s)) \<Longrightarrow>
     key_states ids sts = key_states ids' sts"
  by (induction sts rule: rev_induct) (simp_all add: key_states_def)

subsection \<open>Loading from the tables\<close>

text \<open>The states of an environment whose flags are of a project, the second query of \<open>LoadRuleset\<close>.\<close>

definition states_at :: "string \<Rightarrow> string \<Rightarrow> flag_db \<Rightarrow> flag_state list" where
  "states_at p e db =
     filter (\<lambda>st. state_EnvID st = e \<and>
       (\<exists>f\<in>set (fdb_Flags db). flag_ID f = state_FlagID st \<and> flag_ProjectID f = p)) (fdb_States db)"

definition project_flags :: "string \<Rightarrow> flag_db \<Rightarrow> flag list" where
  "project_flags p db =
     map flag_columns (sort_key flag_CreatedAt (filter (\<lambda>f. flag_ProjectID f = p) (fdb_Flags db)))"

lemma LoadRuleset_Inr:
  "LoadRuleset flt pg projectID envID db = Inr (flags, states, segs) \<Longrightarrow>
     \<exists>p e. pg_uuid pg projectID = Some p \<and> pg_uuid pg envID = Some e \<and> flags = project_flags p db \<and>
       states = states_at p e db"
  by (auto simp: LoadRuleset_def ListFlags_def by_uuid_Inr states_at_def project_flags_def
      split: sum.splits option.splits if_splits)

lemma set_project_flags:
  "set (project_flags p db) = flag_columns ` {f \<in> set (fdb_Flags db). flag_ProjectID f = p}"
  by (auto simp: project_flags_def)

lemma distinct_map_sort:
  "distinct (map g (sort_key k xs)) \<longleftrightarrow> distinct (map g xs)"
  by (metis distinct_map distinct_sort set_sort)

lemma project_flags_distinct:
  assumes "flag_keys_ok pg db"
  shows "distinct (map flag_Key (project_flags p db))" "distinct (map flag_ID (project_flags p db))"
proof -
  let ?fs = "filter (\<lambda>f. flag_ProjectID f = p) (fdb_Flags db)"
  have "distinct (map (\<lambda>f. (flag_ProjectID f, flag_Key f)) ?fs)" "distinct (map flag_ID ?fs)"
    using assms by (auto simp: flag_keys_ok_def intro: distinct_map_filter)
  then have "distinct (map flag_Key ?fs)" "distinct (map flag_ID ?fs)"
    by (auto simp: distinct_map inj_on_def)
  then show "distinct (map flag_Key (project_flags p db))" "distinct (map flag_ID (project_flags p db))"
    by (simp_all add: project_flags_def o_def distinct_map_sort)
qed

lemma loaded_flag:
  assumes "flag_keys_ok pg db" "f \<in> set (fdb_Flags db)" "flag_ProjectID f = p"
  shows "map_of (rs_Flags (build_ruleset (project_flags p db) sts segs)) (flag_Key f) = Some (flag_columns f)"
proof -
  have "flag_columns f \<in> set (project_flags p db)"
    using assms by (auto simp: set_project_flags)
  from key_by_unique [OF project_flags_distinct(1) [OF assms(1)] this] show ?thesis
    by (simp add: build_ruleset_def)
qed

text \<open>The state a ruleset holds for a key is the row of the flag with that key.\<close>

lemma loaded_state:
  assumes "flag_keys_ok pg db"
    and "map_of (rs_States (build_ruleset (project_flags p db) (states_at p e db) segs)) key = Some st"
    and "f \<in> set (fdb_Flags db)" "flag_ProjectID f = p" "flag_Key f = key"
  shows "st \<in> set (fdb_States db)" "state_FlagID st = flag_ID f" "state_EnvID st = e"
proof -
  have st: "st \<in> set (states_at p e db)" "flagIDToKey (project_flags p db) (state_FlagID st) = Some key"
    using key_states_mem assms(2) by (fastforce simp: build_ruleset_def)+
  then show "st \<in> set (fdb_States db)" "state_EnvID st = e"
    by (auto simp: states_at_def)
  obtain g where g: "g \<in> set (fdb_Flags db)" "flag_ProjectID g = p" "flag_ID g = state_FlagID st" "flag_Key g = key"
    using st(2) flagIDToKey_unique [OF project_flags_distinct(2) [OF assms(1)]]
    by (auto simp: set_project_flags)
  then have "g = f"
    using assms by (auto simp: flag_keys_ok_def distinct_map inj_on_def)
  with g show "state_FlagID st = flag_ID f" by simp
qed

end
