(* ===== verification/FlagProps.thy ===== *)
theory FlagProps
  imports RulesetCache EvalProps
begin

text \<open>
  What the handlers of flags promise end to end: the kill switch down to the evaluation, the round trip of
  a created flag, what promotion and synchronisation copy, and where history and lists leave their tenant.
\<close>

subsection \<open>Kill switch\<close>

lemma Flag_Kill_Answer:
  assumes "Flag_Kill env flt r (Some envID) db = (Answer c st, db')"
  obtains p f st0 db1 where
    "verifyProjectOwnership (flt 0) (ae_pg env) r db = Inr p"
    "GetFlag (flt 1) (ae_pg env) (URLParam r ''projectID'') (URLParam r ''flagKey'') db = Inr f"
    "st0 = (case GetFlagState (flt 2) (ae_pg env) (flag_ID f) envID db of
       Inr st \<Rightarrow> st | Inl e \<Rightarrow> fresh_state r f envID)"
    "UpsertFlagState (flt 3) (ae_pg env) (ae_dbnow env) (ae_newID env 3) (st0\<lparr>state_Enabled := False\<rparr>) db =
       (Inr st, db1)"
    "\<exists>n e. db' = write_audit env flt n e db1"
proof -
  obtain p where p: "verifyProjectOwnership (flt 0) (ae_pg env) r db = Inr p"
    using assms by (cases "verifyProjectOwnership (flt 0) (ae_pg env) r db") (auto simp: Flag_Kill_def)
  obtain f where f: "GetFlag (flt 1) (ae_pg env) (URLParam r ''projectID'') (URLParam r ''flagKey'') db = Inr f"
    using assms p by (cases "GetFlag (flt 1) (ae_pg env) (URLParam r ''projectID'') (URLParam r ''flagKey'') db")
      (auto simp: Flag_Kill_def)
  have ok: "envID \<noteq> []" "env_permitted env r envID ''can_toggle''"
    using assms p f by (auto simp: Flag_Kill_def Let_def split: if_splits)
  define st0 where "st0 = (case GetFlagState (flt 2) (ae_pg env) (flag_ID f) envID db of
       Inr st \<Rightarrow> st | Inl e \<Rightarrow> fresh_state r f envID)"
  obtain res db1 where up: "UpsertFlagState (flt 3) (ae_pg env) (ae_dbnow env) (ae_newID env 3)
      (st0\<lparr>state_Enabled := False\<rparr>) db = (res, db1)"
    by (rule prod.exhaust)
  have "res = Inr st \<and> (\<exists>n e. db' = write_audit env flt n e db1)"
    using assms p f ok up by (cases res) (auto simp: Flag_Kill_def Let_def simp flip: st0_def)
  with that [OF p f st0_def] up show ?thesis by blast
qed

lemma state_of_flag_row:
  assumes "uuid_canonical pg" "pg_uuid pg (flag_ID f) = Some (flag_ID f)" "pg_uuid pg envID = Some e"
    and "st0 = (case GetFlagState fails pg (flag_ID f) envID db of
       Inr st \<Rightarrow> st | Inl err \<Rightarrow> fresh_state r f envID)"
  shows "pg_uuid pg (state_FlagID st0) = Some (flag_ID f)" "pg_uuid pg (state_EnvID st0) = Some e"
  using assms
  by (auto simp: fresh_state_def zero_flag_state_def uuid_canonical_def split: sum.splits
      dest!: GetFlagState_Inr lookup_state_Some)

lemma upsert_announced:
  assumes "UpsertFlagState fails pg now i st db = (Inr st', db')" "state_row pg st = Some r"
  shows "\<exists>action. fdb_Changes db' = fdb_Changes db @ [state_change action r]"
  using assms(1) by (cases rule: UpsertFlagState_cases) (use assms(2) in auto)

lemma upsert_keeps_flags:
  "UpsertFlagState fails pg now i st db = (res, db') \<Longrightarrow>
     fdb_Flags db' = fdb_Flags db \<and> fdb_Projects db' = fdb_Projects db \<and> fdb_Envs db' = fdb_Envs db"
  by (erule UpsertFlagState_cases) auto

lemma state_keys_unique:
  "state_keys_ok db \<Longrightarrow> s \<in> set (fdb_States db) \<Longrightarrow> t \<in> set (fdb_States db) \<Longrightarrow>
     state_FlagID s = state_FlagID t \<Longrightarrow> state_EnvID s = state_EnvID t \<Longrightarrow> s = t"
  by (auto simp: state_keys_ok_def state_keys_def distinct_map inj_on_def)

text \<open>A flag whose row is off evaluates to \<open>DISABLED\<close> on any ruleset loaded from the tables.\<close>

lemma disabled_row_disables:
  assumes keys: "flag_db_ok pg db" and f: "f \<in> set (fdb_Flags db)"
    and proj: "pg_uuid pg projectID = Some (flag_ProjectID f)" and e: "pg_uuid pg envID = Some e"
    and row: "lookup_state (flag_ID f) e db = Some row" "\<not> state_Enabled row"
    and load: "LoadRuleset flt pg projectID envID db = Inr (flags, sts, segs)"
  shows "Evaluate lib now (flag_Key f) ctx (build_ruleset flags sts segs) =
    mk_result (flag_Key f) (parseJSONValue lib (flag_DefaultValue f)) ReasonDisabled"
proof -
  let ?p = "flag_ProjectID f"
  let ?rs = "build_ruleset (project_flags ?p db) (states_at ?p e db) segs"
  have ok: "flag_keys_ok pg db" "state_keys_ok db" using keys by (simp_all add: flag_db_ok_def)
  have rs: "build_ruleset flags sts segs = ?rs"
    using LoadRuleset_Inr [OF load] proj e by auto
  have flag: "map_of (rs_Flags ?rs) (flag_Key f) = Some (flag_columns f)"
    using ok(1) f by (rule loaded_flag) simp
  have "\<not> state_Enabled s" if "map_of (rs_States ?rs) (flag_Key f) = Some s" for s
    using loaded_state [OF ok(1) that f] lookup_state_Some [OF row(1)] row(2)
      state_keys_unique [OF ok(2), of s row] by simp
  then have "evaluate_gate lib now ctx ?rs (flag_Key f) =
      Some (mk_result (flag_Key f) (parseJSONValue lib (flag_DefaultValue f)) ReasonDisabled)"
    using flag by (auto simp: evaluate_gate_def split: option.split)
  then show ?thesis
    unfolding rs by (rule Evaluate_closed)
qed

text \<open>What a kill leaves behind.\<close>

lemma kill_row:
  assumes "flag_db_ok (ae_pg env) db" "uuid_canonical (ae_pg env)"
    and "Flag_Kill env flt r (Some envID) db = (Answer c st, db')" "pg_uuid (ae_pg env) envID = Some e"
  obtains g row ch where "g \<in> set (fdb_Flags db)" "flag_Key g = URLParam r ''flagKey''"
    "pg_uuid (ae_pg env) (URLParam r ''projectID'') = Some (flag_ProjectID g)"
    "lookup_state (flag_ID g) e db' = Some row" "\<not> state_Enabled row"
    "fdb_Flags db' = fdb_Flags db" "flag_db_ok (ae_pg env) db'"
    "fdb_Changes db' = fdb_Changes db @ [ch]" "ch_EnvID ch = e"
proof -
  let ?pg = "ae_pg env"
  obtain p f st0 db1 n a where
    k: "verifyProjectOwnership (flt 0) ?pg r db = Inr p"
      "GetFlag (flt 1) ?pg (URLParam r ''projectID'') (URLParam r ''flagKey'') db = Inr f"
      "st0 = (case GetFlagState (flt 2) ?pg (flag_ID f) envID db of
         Inr st \<Rightarrow> st | Inl e \<Rightarrow> fresh_state r f envID)"
      "UpsertFlagState (flt 3) ?pg (ae_dbnow env) (ae_newID env 3) (st0\<lparr>state_Enabled := False\<rparr>) db =
         (Inr st, db1)"
    and db': "db' = write_audit env flt n a db1"
    by (rule Flag_Kill_Answer [OF assms(3)]) blast
  obtain g where g: "pg_uuid ?pg (URLParam r ''projectID'') = Some (flag_ProjectID g)" "g \<in> set (fdb_Flags db)"
      "flag_Key g = URLParam r ''flagKey''" "f = flag_columns g"
    using GetFlag_Inr [OF k(2)] by auto
  have "pg_uuid ?pg (flag_ID f) = Some (flag_ID f)"
    using assms(1) g by (auto simp: flag_db_ok_def flag_keys_ok_def)
  note st0 = state_of_flag_row [OF assms(2) this assms(4) k(3)]
  obtain row0 row where row: "state_row ?pg (st0\<lparr>state_Enabled := False\<rparr>) = Some row0"
      "lookup_state (state_FlagID row0) (state_EnvID row0) db1 = Some row" "\<not> state_Enabled row"
    using states.upsert_disabled [OF k(4)] by auto
  have ids: "state_FlagID row0 = flag_ID g" "state_EnvID row0 = e"
    using state_row_fields(1,2) [OF row(1)] st0 g(4) by auto
  have same: "fdb_Flags db1 = fdb_Flags db" using upsert_keeps_flags [OF k(4)] by simp
  have ok: "flag_db_ok ?pg db'"
    using upsert_keys [OF assms(1) k(4)] flag_db_ok_cong [of db' db1] by (simp add: db')
  obtain ch where ch: "fdb_Changes db' = fdb_Changes db @ [ch]" "ch_EnvID ch = e"
    using upsert_announced [OF k(4) row(1)] ids by (auto simp: db' state_change_def)
  have "lookup_state (flag_ID g) e db' = Some row" "fdb_Flags db' = fdb_Flags db"
    using row(2) ids same by (simp_all add: db')
  with that g ch ok row(3) show ?thesis by blast
qed

text \<open>
  C5: the kill switch works end to end.  Once \<open>Kill\<close> has answered with success, every ruleset of that
  environment loaded from the tables evaluates the flag to its default with reason \<open>DISABLED\<close>, for every
  user and whatever the rules, rollouts and schedules of the flag are, and the change was announced, so
  the cached ruleset of the environment is dropped.
\<close>

theorem kill_switch_effective:
  assumes "flag_db_ok (ae_pg env) db" "uuid_canonical (ae_pg env)"
    and "Flag_Kill env flt r (Some envID) db = (Answer c st, db')"
    and "LoadRuleset flt' (ae_pg env) (URLParam r ''projectID'') envID db' = Inr (flags, sts, segs)"
  shows "res_Reason (Evaluate lib now (URLParam r ''flagKey'') ctx (build_ruleset flags sts segs)) =
      ReasonDisabled \<and>
    (\<exists>ch e. fdb_Changes db' = fdb_Changes db @ [ch] \<and> pg_uuid (ae_pg env) envID = Some e \<and> ch_EnvID ch = e)"
proof -
  obtain e where e: "pg_uuid (ae_pg env) envID = Some e"
    using LoadRuleset_Inr [OF assms(4)] by auto
  obtain g row ch where g: "g \<in> set (fdb_Flags db)" "flag_Key g = URLParam r ''flagKey''"
      "pg_uuid (ae_pg env) (URLParam r ''projectID'') = Some (flag_ProjectID g)"
    and row: "lookup_state (flag_ID g) e db' = Some row" "\<not> state_Enabled row"
    and db': "fdb_Flags db' = fdb_Flags db" "flag_db_ok (ae_pg env) db'"
      "fdb_Changes db' = fdb_Changes db @ [ch]" "ch_EnvID ch = e"
    by (rule kill_row [OF assms(1-3) e])
  have "Evaluate lib now (flag_Key g) ctx (build_ruleset flags sts segs) =
      mk_result (flag_Key g) (parseJSONValue lib (flag_DefaultValue g)) ReasonDisabled"
    using disabled_row_disables [OF db'(2) _ g(3) e row assms(4)] g(1) db'(1) by simp
  then show ?thesis
    using e g(2) db'(3,4) by (simp add: mk_result_def)
qed

subsection \<open>A demonstration database\<close>

definition demo_project :: project where
  "demo_project = \<lparr>prj_ID = ''p'', prj_OrgID = ''o'', prj_Name = ''P'', prj_Slug = ''p'',
     prj_CreatedAt = 0, prj_UpdatedAt = 0\<rparr>"

definition demo_environment :: "string \<Rightarrow> environment" where
  "demo_environment i = \<lparr>env_ID = i, env_ProjectID = ''p'', env_OrgID = ''o'', env_Name = i,
     env_Slug = i, env_Color = [], env_CreatedAt = 0, env_UpdatedAt = 0\<rparr>"

definition demo_flag :: flag where
  "demo_flag = zero_flag\<lparr>flag_ID := ''f'', flag_ProjectID := ''p'', flag_OrgID := ''o'', flag_Key := ''k'',
     flag_Name := ''n'', flag_FlagType := FlagTypeBoolean, flag_Category := CategoryRelease,
     flag_Status := StatusActive, flag_DefaultValue := Some ''false''\<rparr>"

definition demo_state :: "string \<Rightarrow> flag_state" where
  "demo_state e = zero_flag_state\<lparr>state_ID := ''s'', state_FlagID := ''f'', state_EnvID := e,
     state_OrgID := ''o'', state_Enabled := True\<rparr>"

definition demo_db :: flag_db where
  "demo_db = \<lparr>fdb_Orgs = [''o''], fdb_Projects = [demo_project],
     fdb_Envs = [demo_environment ''e'', demo_environment ''d''], fdb_Flags = [demo_flag],
     fdb_States = [demo_state ''e''], fdb_Segments = [], fdb_Versions = [], fdb_Audit = [], fdb_Changes = []\<rparr>"

definition demo_env :: api_env where
  "demo_env = \<lparr>ae_lib = demo_lib, ae_pg = demo_pg, ae_mac = demo_mac, ae_auditKey = [], ae_now = 1,
     ae_dbnow = 1, ae_newID = (\<lambda>n. CHR ''i'' # replicate n CHR ''i''), ae_flagJSON = (\<lambda>f. ''{}''),
     ae_stateJSON = (\<lambda>st. ''{}''), ae_parseTime = (\<lambda>s. None), ae_getMember = (\<lambda>a b. Inl ErrNotFound),
     ae_listPerms = (\<lambda>m. Inr []), ae_labels = (\<lambda>s l. False), ae_order = (\<lambda>f d xs. xs)\<rparr>"

definition demo_call :: "string \<Rightarrow> string \<Rightarrow> http_request" where
  "demo_call org role = (demo_request role)\<lparr>req_URLParams := [(''projectID'', ''p''), (''flagKey'', ''k'')],
     req_Claims := Some \<lparr>cl_UserID = ''u'', cl_OrgID = org, cl_Role = role, cl_Email = [],
       cl_DataRegion = [], cl_ID = []\<rparr>\<rparr>"

lemmas demo_defs = demo_project_def demo_environment_def demo_flag_def demo_state_def demo_db_def
  demo_env_def demo_call_def demo_request_def demo_pg_def zero_flag_def zero_flag_state_def

lemma demo_db_ok: "flag_db_ok demo_pg demo_db"
  by (simp add: flag_db_ok_def flag_keys_ok_def state_keys_ok_def state_keys_def demo_defs)

lemma demo_canonical: "uuid_canonical demo_pg"
  by (simp add: uuid_canonical_def demo_pg_def)

lemmas run_defs = Let_def verifyProjectOwnership_def GetProject_def by_uuid_def URLParam_def GetOrgID_def
  GetUserID_def GetRole_def GetFlag_def flag_columns_def GetFlagState_def state_at_def UpsertFlagState_def
  state_row_def pg_raw_def env_permitted_def CheckEnvPermission_def demo_defs

lemma demo_kill:
  "\<exists>st db'. Flag_Kill demo_env (\<lambda>n. False) (demo_call ''o'' RoleOwner) (Some ''e'') demo_db =
     (Answer StatusOK st, db') \<and>
   (\<exists>flags sts segs. LoadRuleset (\<lambda>n. False) demo_pg ''p'' ''e'' db' = Inr (flags, sts, segs))"
  by (simp add: Flag_Kill_def run_defs write_audit_def LoadRuleset_def ListFlags_def ListSegments_def)

theorem kill_switch_effective_witness:
  "\<exists>flags sts segs. \<forall>ctx.
     res_Reason (Evaluate demo_lib 0 ''k'' ctx (build_ruleset flags sts segs)) = ReasonDisabled"
proof -
  obtain st db' flags sts segs where
    k: "Flag_Kill demo_env (\<lambda>n. False) (demo_call ''o'' RoleOwner) (Some ''e'') demo_db = (Answer StatusOK st, db')"
    and l: "LoadRuleset (\<lambda>n. False) demo_pg ''p'' ''e'' db' = Inr (flags, sts, segs)"
    using demo_kill by blast
  have env: "ae_pg demo_env = demo_pg" "URLParam (demo_call ''o'' RoleOwner) ''projectID'' = ''p''"
      "URLParam (demo_call ''o'' RoleOwner) ''flagKey'' = ''k''"
    by (simp_all add: demo_env_def demo_call_def URLParam_def)
  have "res_Reason (Evaluate demo_lib 0 ''k'' ctx (build_ruleset flags sts segs)) = ReasonDisabled" for ctx
    using kill_switch_effective [OF _ _ k, unfolded env, OF demo_db_ok demo_canonical l] by blast
  then show ?thesis by blast
qed

theorem tenants_isolated_witness:
  "tenant_view ''o'' (run_calls
      [(demo_env, \<lambda>n. False, demo_call ''x'' RoleOwner, CallKill (Some ''e'')),
       (demo_env, \<lambda>n. n = 3, demo_call ''x'' RoleOwner, CallDelete)] demo_db) =
     tenant_view ''o'' demo_db"
  by (rule tenants_isolated [THEN conjunct1, OF demo_db_ok])
    (simp add: demo_env_def demo_call_def GetOrgID_def demo_pg_def)

subsection \<open>Creating and reading back\<close>

lemma CreateFlag_Inr:
  assumes "CreateFlag fails pg now i f db = (Inr f', db')"
  shows "\<exists>p org v. pg_uuid pg (flag_ProjectID f) = Some p \<and> pg_uuid pg (flag_OrgID f) = Some org \<and>
    pg_raw pg (flag_DefaultValue f) = Some (Some v) \<and> flag_DefaultValue f' = flag_DefaultValue f \<and>
    flag_Key f' = flag_Key f \<and>
    find (\<lambda>g. flag_ProjectID g = p \<and> flag_Key g = flag_Key f) (fdb_Flags db) = None \<and>
    fdb_Projects db' = fdb_Projects db \<and>
    fdb_Flags db' = fdb_Flags db @ [f'\<lparr>flag_ProjectID := p, flag_OrgID := org, flag_DefaultValue := Some v,
      flag_Labels := Some ''{}'', flag_Protection := Some ''{\"delete\": false}''\<rparr>]"
  using assms by (auto simp: CreateFlag_def Let_def find_None_iff simp del: if_split
      split: option.splits if_split_asm)

lemma Flag_Create_Answer:
  assumes "Flag_Create env flt r (Some req) db = (Answer c f, db')"
  obtains p db1 n a where "verifyProjectOwnership (flt 0) (ae_pg env) r db = Inr p"
    "Flag_Validate (ae_lib env) (requested_flag r req) = None"
    "CreateFlag (flt 1) (ae_pg env) (ae_dbnow env) (ae_newID env 1) (requested_flag r req) db = (Inr f, db1)"
    "db' = write_audit env flt n a db1"
  using assms by (auto simp: Flag_Create_def Let_def split: sum.splits option.splits prod.splits store_error.splits)

text \<open>
  C14: a created flag is read back.  After \<open>Create\<close> has answered with success, \<open>Get\<close> under the same project
  and the requested key answers with the created flag, its identifiers in canonical form and its default
  value as the JSON column gives it back; the creation itself has validated it.
\<close>

theorem create_then_get:
  assumes "Flag_Create env flt r (Some req) db = (Answer c f, db')"
    and "\<not> flt' 0" "\<not> flt' 1" "URLParam r' ''projectID'' = URLParam r ''projectID''"
    and "URLParam r' ''flagKey'' = cfr_Key req" "GetOrgID r' = GetOrgID r"
  shows "\<exists>p org v. Flag_Get env flt' r' db' = Answer StatusOK
      (f\<lparr>flag_ProjectID := p, flag_OrgID := org, flag_DefaultValue := Some v, flag_Labels := None,
         flag_Protection := None\<rparr>) \<and>
    pg_uuid (ae_pg env) (URLParam r ''projectID'') = Some p \<and>
    pg_uuid (ae_pg env) (GetOrgID r) = Some org \<and>
    pg_raw (ae_pg env) (flag_DefaultValue f) = Some (Some v) \<and>
    Flag_Validate (ae_lib env) (requested_flag r req) = None"
proof -
  obtain prj db1 n a where
    own: "verifyProjectOwnership (flt 0) (ae_pg env) r db = Inr prj"
    and val: "Flag_Validate (ae_lib env) (requested_flag r req) = None"
    and cr: "CreateFlag (flt 1) (ae_pg env) (ae_dbnow env) (ae_newID env 1) (requested_flag r req) db = (Inr f, db1)"
    and db': "db' = write_audit env flt n a db1"
    by (rule Flag_Create_Answer [OF assms(1)])
  have req: "flag_ProjectID (requested_flag r req) = URLParam r ''projectID''"
      "flag_OrgID (requested_flag r req) = GetOrgID r" "flag_Key (requested_flag r req) = cfr_Key req"
    by (simp_all add: requested_flag_def Let_def)
  obtain p org v where
    ids: "pg_uuid (ae_pg env) (URLParam r ''projectID'') = Some p" "pg_uuid (ae_pg env) (GetOrgID r) = Some org"
      "pg_raw (ae_pg env) (flag_DefaultValue f) = Some (Some v)" "flag_Key f = cfr_Key req"
    and none: "find (\<lambda>g. flag_ProjectID g = p \<and> flag_Key g = cfr_Key req) (fdb_Flags db) = None"
    and flags: "fdb_Flags db1 = fdb_Flags db @ [f\<lparr>flag_ProjectID := p, flag_OrgID := org,
      flag_DefaultValue := Some v, flag_Labels := Some ''{}'', flag_Protection := Some ''{\"delete\": false}''\<rparr>]"
      "fdb_Projects db1 = fdb_Projects db"
    using CreateFlag_Inr [OF cr] unfolding req by auto
  have "verifyProjectOwnership (flt' 0) (ae_pg env) r' db' = Inr prj"
    using own assms(2,4,6) flags(2)
    by (auto simp: verifyProjectOwnership_def GetProject_def by_uuid_def db' Let_def split: if_splits option.splits)
  moreover have "GetFlag (flt' 1) (ae_pg env) (URLParam r ''projectID'') (cfr_Key req) db' =
      Inr (f\<lparr>flag_ProjectID := p, flag_OrgID := org, flag_DefaultValue := Some v, flag_Labels := None,
         flag_Protection := None\<rparr>)"
    using assms(3) none ids(1,4)
    by (simp add: GetFlag_def by_uuid_def db' flags find_append flag_columns_def)
  ultimately have "Flag_Get env flt' r' db' = Answer StatusOK
      (f\<lparr>flag_ProjectID := p, flag_OrgID := org, flag_DefaultValue := Some v, flag_Labels := None,
         flag_Protection := None\<rparr>)"
    using assms(4,5) by (simp add: Flag_Get_def)
  with ids(1-3) val show ?thesis by blast
qed

end
