(* ===== verification/HistoryLaws.thy ===== *)
theory HistoryLaws
  imports FlagProps
begin

text \<open>
  Versions of flags: what the history routes show to other organizations, and which versions a rollback can
  restore.  The theory also reads a created flag back on the demonstration database.
\<close>

subsection \<open>A creation\<close>

definition demo_wish :: "string \<Rightarrow> create_flag_request" where
  "demo_wish key = \<lparr>cfr_Key = key, cfr_Name = ''n'', cfr_Description = [], cfr_FlagType = [], cfr_Category = [],
     cfr_Status = [], cfr_DefaultValue = None, cfr_Tags = None, cfr_Prerequisites = None,
     cfr_MutualExclusionGroup = []\<rparr>"

lemma demo_wish_valid: "Flag_Validate demo_lib (requested_flag (demo_call ''o'' RoleOwner) (demo_wish ''kk'')) = None"
  by (simp add: Flag_Validate_def requested_flag_def demo_wish_def FlagKeyRe_def lower_or_digit_def
      zero_flag_def FlagType_IsValid_def ValidFlagTypes_def FlagCategory_IsValid_def FlagStatus_IsValid_def
      validateDefaultValueType_def demo_lib_def defaultValueForType_def slice_def
      validFlagStatuses_def validFlagCategories_def)

theorem create_then_get_witness:
  "\<exists>f db' g. Flag_Create demo_env (\<lambda>n. False) (demo_call ''o'' RoleOwner) (Some (demo_wish ''kk'')) demo_db =
     (Answer StatusCreated f, db') \<and>
   Flag_Get demo_env (\<lambda>n. False)
     (demo_call ''o'' RoleOwner\<lparr>req_URLParams := [(''projectID'', ''p''), (''flagKey'', ''kk'')]\<rparr>) db' =
     Answer StatusOK g \<and> flag_DefaultValue g = Some ''false''"
proof -
  have "\<exists>f db'. Flag_Create demo_env (\<lambda>n. False) (demo_call ''o'' RoleOwner) (Some (demo_wish ''kk'')) demo_db =
      (Answer StatusCreated f, db') \<and> flag_DefaultValue f = Some ''false''"
    using demo_wish_valid
    by (simp add: Flag_Create_def CreateFlag_def run_defs write_audit_def requested_flag_def demo_wish_def flag_checks_def
        defaultValueForType_def slice_def validFlagStatuses_def validFlagCategories_def)
  then obtain f db' where
    c: "Flag_Create demo_env (\<lambda>n. False) (demo_call ''o'' RoleOwner) (Some (demo_wish ''kk'')) demo_db =
      (Answer StatusCreated f, db')" "flag_DefaultValue f = Some ''false''"
    by blast
  show ?thesis
    using create_then_get [OF c(1), of "\<lambda>n. False"
        "demo_call ''o'' RoleOwner\<lparr>req_URLParams := [(''projectID'', ''p''), (''flagKey'', ''kk'')]\<rparr>"] c
    by (simp add: run_defs demo_wish_def)
qed

subsection \<open>Reading versions\<close>

text \<open>
  The history of a flag is open to every organization.  The routes of a flag refuse a caller of another
  organization than the project's with 404, whatever the request; the route of its versions answers the
  same caller with any version of the flag, its default value included.
\<close>

theorem history_ignores_tenant:
  assumes "prj \<in> set (fdb_Projects db)" "distinct (map prj_ID (fdb_Projects db))" "prj_OrgID prj \<noteq> GetOrgID r"
    and "pg_uuid (ae_pg env) (URLParam r ''projectID'') = Some (prj_ID prj)"
    and "f \<in> set (fdb_Flags db)" "flag_ProjectID f = prj_ID prj" "flag_Key f = URLParam r ''flagKey''"
    and "flag_keys_ok (ae_pg env) db"
    and "v \<in> set (fdb_Versions db)" "distinct (map (\<lambda>v. (fv_FlagID v, fv_Version v)) (fdb_Versions db))"
    and "fv_FlagID v = flag_ID f" "go_atoi_ok (URLParam r ''version'') = Some (int (fv_Version v))"
    and "1 \<le> fv_Version v" "URLParam r ''projectID'' \<noteq> []"
  shows "Flag_Get env (\<lambda>n. False) r db = Refuse StatusNotFound ''project not found'' \<and>
    History_GetVersion env (\<lambda>n. False) r db = Answer StatusOK v"
proof
  have "find (\<lambda>p. prj_ID p = prj_ID prj) (fdb_Projects db) = Some prj"
    by (rule find_unique) (use assms(1,2) in \<open>auto simp: distinct_map inj_on_def\<close>)
  then show "Flag_Get env (\<lambda>n. False) r db = Refuse StatusNotFound ''project not found''"
    using assms(3,4,14) by (auto simp: Flag_Get_def verifyProjectOwnership_def GetProject_def by_uuid_def Let_def)
  have "find (\<lambda>g. flag_ProjectID g = prj_ID prj \<and> flag_Key g = URLParam r ''flagKey'') (fdb_Flags db) = Some f"
    by (rule find_unique) (use assms(5-8) in \<open>auto simp: flag_keys_ok_def distinct_map inj_on_def\<close>)
  then have flag: "GetFlag False (ae_pg env) (URLParam r ''projectID'') (URLParam r ''flagKey'') db = Inr (flag_columns f)"
    using assms(4) by (simp add: GetFlag_def by_uuid_def)
  have "find (\<lambda>w. fv_FlagID w = flag_ID f \<and> int (fv_Version w) = int (fv_Version v)) (fdb_Versions db) = Some v"
    by (rule find_unique) (use assms(9-11) in \<open>auto simp: distinct_map inj_on_def\<close>)
  moreover have "pg_uuid (ae_pg env) (flag_ID f) = Some (flag_ID f)"
    using assms(5,8) by (simp add: flag_keys_ok_def)
  ultimately show "History_GetVersion env (\<lambda>n. False) r db = Answer StatusOK v"
    using flag assms(12,13) by (simp add: History_GetVersion_def GetFlagVersion_def by_uuid_def)
qed

subsection \<open>Rolling back\<close>

lemma validated_not_string:
  assumes "validateDefaultValueType lib ft raw = None" "ft \<in> {FlagTypeBoolean, FlagTypeNumber, FlagTypeJSON}"
  shows "config_default lib (Some raw) = None"
  using assms by (auto simp: validateDefaultValueType_def config_default_def split: option.splits json.splits if_splits)

text \<open>
  A version of a boolean, number or JSON flag cannot be restored.  Whatever valid default value of those
  types the version has, the rollback answers 500 and changes nothing, since the store reads the
  value into a string.
\<close>

theorem rollback_refuses_typed_defaults:
  assumes "1 \<le> rbr_Version req"
    and "GetFlag False (ae_pg env) (URLParam r ''projectID'') (URLParam r ''flagKey'') db = Inr f"
    and "GetFlagVersion False (ae_pg env) (flag_ID f) (rbr_Version req) db = Inr v"
    and "fc_DefaultValue (fv_Config v) = Some raw" "validateDefaultValueType (ae_lib env) ft raw = None"
    and "ft \<in> {FlagTypeBoolean, FlagTypeNumber, FlagTypeJSON}"
  shows "History_Rollback env (\<lambda>n. False) r (Some req) db =
    (Refuse StatusInternalServerError ''failed to rollback flag'', db)"
  using assms(1-4) validated_not_string [OF assms(5,6)]
  by (simp add: History_Rollback_def RollbackFlagToVersion_def Let_def)

definition demo_version :: flag_version where
  "demo_version = \<lparr>fv_FlagID = ''f'', fv_Version = 1,
     fv_Config = \<lparr>fc_Key = ''k'', fc_Name = ''n'', fc_Description = [], fc_FlagType = FlagTypeBoolean,
       fc_DefaultValue = Some ''true'', fc_Tags = [], fc_ExpiresAt = None\<rparr>,
     fv_PreviousConfig = None, fv_ChangedBy = None, fv_ChangeReason = None\<rparr>"

abbreviation "versioned_db \<equiv> demo_db\<lparr>fdb_Versions := [demo_version]\<rparr>"

definition version_call :: "string \<Rightarrow> http_request" where
  "version_call org = (demo_call org RoleViewer)
     \<lparr>req_URLParams := [(''projectID'', ''p''), (''flagKey'', ''k''), (''version'', ''1'')]\<rparr>"

theorem history_ignores_tenant_witness:
  "GetOrgID (version_call ''x'') = ''x'' \<and> prj_OrgID demo_project = ''o'' \<and>
   Flag_Get demo_env (\<lambda>n. False) (version_call ''x'') versioned_db = Refuse StatusNotFound ''project not found'' \<and>
   History_GetVersion demo_env (\<lambda>n. False) (version_call ''x'') versioned_db = Answer StatusOK demo_version"
proof -
  have "go_atoi_ok ''1'' = Some 1" by code_simp
  then show ?thesis
    using history_ignores_tenant [of demo_project versioned_db "version_call ''x''" demo_env demo_flag demo_version]
    by (simp add: version_call_def demo_version_def flag_keys_ok_def run_defs)
qed

theorem rollback_refuses_typed_defaults_witness:
  "History_Rollback demo_env (\<lambda>n. False) (version_call ''o'') (Some \<lparr>rbr_Version = 1, rbr_Reason = []\<rparr>) versioned_db =
     (Refuse StatusInternalServerError ''failed to rollback flag'', versioned_db)"
  by (rule rollback_refuses_typed_defaults [where v = demo_version and f = "flag_columns demo_flag" and
        raw = "''true''" and ft = FlagTypeBoolean])
    (simp_all add: version_call_def demo_version_def run_defs GetFlagVersion_def validateDefaultValueType_def demo_lib_def)

end
