(* ===== verification/CacheLaws.thy ===== *)
theory CacheLaws
  imports HistoryLaws
begin

text \<open>
  The cache beside the tables: a transition system in which the writing handlers commit, the database
  delivers its notifications in order, and an evaluation server fills its cache.  When a load is atomic the
  cached states of an environment are those of the tables unless a notification for it is on its way; when
  a load stores what it read before a change, or the change is one of a flag itself, they are not.
\<close>

subsection \<open>Announced changes\<close>

text \<open>
  \<open>db'\<close> extends the notifications of \<open>db\<close> by some with the operation of the trigger as their action, and every
  state that differs is announced.
\<close>

definition trigger_actions :: "string set" where
  "trigger_actions = {''INSERT'', ''UPDATE'', ''DELETE''}"

definition announced :: "flag_db \<Rightarrow> flag_db \<Rightarrow> bool" where
  "announced db db' \<longleftrightarrow>
     (\<exists>new. fdb_Changes db' = fdb_Changes db @ new \<and> ch_Action ` set new \<subseteq> trigger_actions \<and>
        (\<forall>f e. e \<notin> ch_EnvID ` set new \<longrightarrow> lookup_state f e db' = lookup_state f e db))"

lemma announcedI:
  "fdb_Changes db' = fdb_Changes db @ new \<Longrightarrow> ch_Action ` set new \<subseteq> trigger_actions \<Longrightarrow>
     (\<And>f e. e \<notin> ch_EnvID ` set new \<Longrightarrow> lookup_state f e db' = lookup_state f e db) \<Longrightarrow> announced db db'"
  unfolding announced_def by blast

lemma announced_refl [simp]: "announced db db"
  by (rule announcedI [of _ _ "[]"]) simp_all

lemma announced_trans:
  assumes "announced db db1" "announced db1 db2"
  shows "announced db db2"
proof -
  obtain new where 1: "fdb_Changes db1 = fdb_Changes db @ new" "ch_Action ` set new \<subseteq> trigger_actions"
      "\<forall>f e. e \<notin> ch_EnvID ` set new \<longrightarrow> lookup_state f e db1 = lookup_state f e db"
    using assms(1) unfolding announced_def by (elim exE conjE) (rule that)
  obtain new' where 2: "fdb_Changes db2 = fdb_Changes db1 @ new'" "ch_Action ` set new' \<subseteq> trigger_actions"
      "\<forall>f e. e \<notin> ch_EnvID ` set new' \<longrightarrow> lookup_state f e db2 = lookup_state f e db1"
    using assms(2) unfolding announced_def by (elim exE conjE) (rule that)
  show ?thesis
  proof (rule announcedI [of _ _ "new @ new'"])
    show "lookup_state f e db2 = lookup_state f e db" if "e \<notin> ch_EnvID ` set (new @ new')" for f e
      using 1(3) 2(3) that by (auto simp: image_Un)
  qed (use 1(1,2) 2(1,2) in \<open>simp_all add: image_Un\<close>)
qed

lemma announced_same:
  "fdb_Changes db' = fdb_Changes db \<Longrightarrow> fdb_States db' = fdb_States db \<Longrightarrow> announced db db'"
  by (rule announcedI [of _ _ "[]"]) (simp_all add: lookup_state_def)

lemma announced_audit [simp]: "announced db (write_audit env flt n e db') = announced db db'"
  by (simp add: announced_def)

lemma announced_upsert:
  assumes "UpsertFlagState fails pg now i st db = (res, db')"
  shows "announced db db'"
proof (cases "db' = db")
  case False
  obtain r ch where r: "state_row pg st = Some r" "fdb_Changes db' = fdb_Changes db @ [ch]"
      "ch_EnvID ch = state_EnvID r" "ch_Action ch \<in> trigger_actions"
    using assms
  proof (cases rule: UpsertFlagState_cases)
    case (updated r old)
    then show ?thesis by (intro that [of r "state_change ''UPDATE'' r"]) (simp_all add: state_change_def trigger_actions_def)
  next
    case (inserted r)
    then show ?thesis by (intro that [of r "state_change ''INSERT'' r"]) (simp_all add: state_change_def trigger_actions_def)
  qed (use False in simp)
  show ?thesis
  proof (rule announcedI [OF r(2)])
    show "ch_Action ` set [ch] \<subseteq> trigger_actions" using r(4) by simp
  next
    fix f e
    assume "e \<notin> ch_EnvID ` set [ch]"
    then show "lookup_state f e db' = lookup_state f e db"
      by (intro states.upsert_elsewhere [OF assms]) (use r in auto)
  qed
qed simp

lemma announced_CreateFlag:
  assumes "CreateFlag fails pg now i f db = (res, db')"
  shows "announced db db'"
proof (cases "db' = db")
  case False
  then obtain fs where "db' = db\<lparr>fdb_Flags := fs\<rparr>"
    using CreateFlag_row [OF assms] by blast
  then show ?thesis by (simp add: announced_same)
qed simp

lemma announced_UpdateFlag: "UpdateFlag fails pg now f db = (res, db') \<Longrightarrow> announced db db'"
  by (rule announced_same)
    (auto simp: UpdateFlag_def sql_update_flag_def increment_flag_version_def split: if_splits option.splits)

lemma find_filter_other: "(\<And>x. P x \<Longrightarrow> Q x) \<Longrightarrow> find P (filter Q xs) = find P xs"
  by (induction xs) auto

lemma announced_DeleteFlag:
  assumes "DeleteFlag fails pg i db = (res, db')"
  shows "announced db db'"
proof (cases "db' = db")
  case False
  then obtain u where
    ch: "fdb_Changes db' = fdb_Changes db @
      map (state_change ''DELETE'') (filter (\<lambda>st. state_FlagID st = u) (fdb_States db))"
    and st: "fdb_States db' = filter (\<lambda>st. state_FlagID st \<noteq> u) (fdb_States db)"
    using assms by (auto simp: DeleteFlag_def split: if_splits option.splits)
  have "e \<in> ch_EnvID ` set (map (state_change ''DELETE'') (filter (\<lambda>st. state_FlagID st = u) (fdb_States db)))"
    if d: "lookup_state f e db' \<noteq> lookup_state f e db" for f e
  proof -
    have f: "f = u"
    proof (rule ccontr)
      assume "f \<noteq> u"
      then have "lookup_state f e db' = lookup_state f e db"
        unfolding lookup_state_def st by (intro find_filter_other) (auto simp: state_at_def)
      with d show False by simp
    qed
    then have "lookup_state f e db' = None"
      by (auto simp: lookup_state_def st find_None_iff state_at_def)
    with d obtain s where "lookup_state f e db = Some s" by (cases "lookup_state f e db") auto
    from lookup_state_Some [OF this] f show ?thesis
      by (force simp: state_change_def)
  qed
  then show ?thesis
    by (intro announcedI [OF ch]) (auto simp: state_change_def trigger_actions_def)
qed simp

text \<open>The handlers announce every state they change.\<close>

lemmas announced_writes = announced_upsert announced_CreateFlag announced_UpdateFlag announced_DeleteFlag

lemma announced_sync_one: "announced db (snd (sync_one env flt r req key db))"
  by (auto simp: sync_one_def Let_def dest!: announced_writes split: sum.split prod.split)

lemma announced_sync_loop: "announced db (snd (sync_loop env flt r req keys db))"
proof (induction keys arbitrary: env flt db)
  case (Cons key keys)
  show ?case
    using announced_trans [OF announced_sync_one Cons.IH] by (simp add: case_prod_beta)
qed simp

lemma announced_Create: "announced db (snd (Flag_Create env flt r body db))"
  by (auto simp: Flag_Create_def Let_def dest!: announced_writes
      split: sum.splits option.splits prod.splits store_error.splits)

lemma announced_Update: "announced db (snd (Flag_Update env flt r body db))"
  by (auto simp: Flag_Update_def Let_def dest!: announced_writes split: sum.splits option.splits prod.splits)

lemma announced_Delete: "announced db (snd (Flag_Delete env flt r db))"
  by (auto simp: Flag_Delete_def Let_def dest!: announced_writes split: sum.splits option.splits prod.splits)

lemma announced_UpdateState: "announced db (snd (Flag_UpdateState env flt r body db))"
  by (simp add: Flag_UpdateState_def Let_def split: sum.split option.split prod.split)
    (auto dest!: announced_writes)

lemma announced_Promote: "announced db (snd (Flag_Promote env flt r body db))"
  by (simp add: Flag_Promote_def Let_def split: sum.split option.split prod.split)
    (auto dest!: announced_writes)

lemma announced_Kill: "announced db (snd (Flag_Kill env flt r body db))"
  by (simp add: Flag_Kill_def Let_def split: sum.split option.split prod.split)
    (auto dest!: announced_writes)

lemma announced_Sync: "announced db (snd (SyncEnvironments env flt r body db))"
proof -
  have "announced db db1" if "sync_loop env flt' r req keys db = (res, db1)" for flt' req keys res db1
    using announced_sync_loop [of db env flt' r req keys] that by simp
  then show ?thesis
    by (simp add: SyncEnvironments_def split: sum.split option.split prod.split)
qed

lemma announced_run_call: "announced db (run_call env flt r call db)"
  by (cases call) (simp_all add: announced_Create announced_Update announced_Delete announced_UpdateState
      announced_Promote announced_Kill announced_Sync)

subsection \<open>Coherence\<close>

text \<open>The state a ruleset holds for each of its flags is the row of the table.\<close>

definition coherent :: "string \<Rightarrow> ruleset \<Rightarrow> flag_db \<Rightarrow> bool" where
  "coherent e rs db \<longleftrightarrow>
     (\<forall>key f. map_of (rs_Flags rs) key = Some f \<longrightarrow>
        map_of (rs_States rs) key = lookup_state (flag_ID f) e db)"

lemma key_states_unique:
  assumes "st \<in> set sts" "ids (state_FlagID st) = Some key"
    and "\<And>s. s \<in> set sts \<Longrightarrow> ids (state_FlagID s) = Some key \<Longrightarrow> s = st"
  shows "map_of (key_states ids sts) key = Some st"
  using assms
proof (induction sts rule: rev_induct)
  case (snoc s sts)
  show ?case
  proof (cases "ids (state_FlagID s) = Some key")
    case True
    then show ?thesis using snoc.prems(3) [of s] by (simp add: key_states_def update_conv')
  next
    case False
    then have "st \<in> set sts" using snoc.prems(1,2) by auto
    then have "map_of (key_states ids sts) key = Some st"
    proof (rule snoc.IH [OF _ snoc.prems(2)])
      show "x = st" if "x \<in> set sts" "ids (state_FlagID x) = Some key" for x
        by (rule snoc.prems(3)) (use that in simp_all)
    qed
    with False show ?thesis
      by (simp add: key_states_def update_conv' split: option.split)
  qed
qed simp

lemma loaded_coherent:
  assumes ok: "flag_db_ok pg db" and l: "LoadRuleset flt pg projectID envID db = Inr (flags, sts, segs)"
    and e: "pg_uuid pg envID = Some e"
  shows "coherent e (build_ruleset flags sts segs) db"
  unfolding coherent_def
proof (intro allI impI)
  fix key f
  assume f: "map_of (rs_Flags (build_ruleset flags sts segs)) key = Some f"
  have keys: "flag_keys_ok pg db" "state_keys_ok db" using ok by (simp_all add: flag_db_ok_def)
  obtain p where p: "flags = project_flags p db" "sts = states_at p e db"
    using LoadRuleset_Inr [OF l] e by auto
  have "f \<in> set flags" "flag_Key f = key"
    using f by (auto simp: build_ruleset_def key_by_last find_Some_iff rev_nth split: option.splits)
  then obtain g where g: "g \<in> set (fdb_Flags db)" "flag_ProjectID g = p" "f = flag_columns g" "flag_Key g = key"
    by (auto simp: p set_project_flags)
  have ids: "flagIDToKey flags (flag_ID h) = Some (flag_Key h)"
    if "h \<in> set (fdb_Flags db)" "flag_ProjectID h = p" for h
    using flagIDToKey_unique [OF project_flags_distinct(2) [OF keys(1)]] that by (auto simp: p set_project_flags)
  show "map_of (rs_States (build_ruleset flags sts segs)) key = lookup_state (flag_ID f) e db"
  proof (cases "lookup_state (flag_ID f) e db")
    case None
    have False if s: "map_of (rs_States (build_ruleset flags sts segs)) key = Some s" for s
      using loaded_state [OF keys(1) s [unfolded p] g(1,2,4)] lookup_state_None [OF None] g(3) by auto
    with None show ?thesis by (cases "map_of (rs_States (build_ruleset flags sts segs)) key") auto
  next
    case (Some st)
    note st = lookup_state_Some [OF Some]
    have "map_of (key_states (flagIDToKey flags) sts) key = Some st"
    proof (rule key_states_unique)
      show "st \<in> set sts" using st g by (auto simp: p states_at_def)
      show "flagIDToKey flags (state_FlagID st) = Some key" using st g ids by simp
    next
      fix s
      assume s: "s \<in> set sts" "flagIDToKey flags (state_FlagID s) = Some key"
      then obtain h where h: "h \<in> set (fdb_Flags db)" "flag_ProjectID h = p" "flag_ID h = state_FlagID s"
          "s \<in> set (fdb_States db)" "state_EnvID s = e"
        by (auto simp: p states_at_def)
      then have "flag_Key h = key" using ids [of h] s(2) by simp
      with h g keys(1) have "h = g" by (auto simp: flag_keys_ok_def distinct_map inj_on_def)
      with h st g keys(2) show "s = st"
        by (auto simp: state_keys_ok_def state_keys_def distinct_map inj_on_def)
    qed
    with Some show ?thesis by (simp add: build_ruleset_def)
  qed
qed

subsection \<open>Writers, notifications and loads\<close>

record cache_world =
  cw_db :: flag_db
  cw_cache :: cache
  cw_pending :: "flag_change list"

text \<open>Identifiers of environments reach the cache as the database gives them.\<close>

inductive cache_step :: "pglib \<Rightarrow> cache_world \<Rightarrow> cache_world \<Rightarrow> bool" for pg where
  commit: "ae_pg env = pg \<Longrightarrow> (\<forall>n. pg_uuid pg (ae_newID env n) = Some (ae_newID env n)) \<Longrightarrow>
     db = run_call env flt r call (cw_db w) \<Longrightarrow>
     cache_step pg w (w\<lparr>cw_db := db,
       cw_pending := cw_pending w @ drop (length (fdb_Changes (cw_db w))) (fdb_Changes db)\<rparr>)"
| load: "pg_uuid pg envID = Some envID \<Longrightarrow>
     Cache_LoadRuleset flt pg projectID envID (cw_db w) (cw_cache w) = (res, c) \<Longrightarrow>
     cache_step pg w (w\<lparr>cw_cache := c\<rparr>)"
| deliver: "cw_pending w = ch # rest \<Longrightarrow>
     cache_step pg w (w\<lparr>cw_cache := fst (on_notification (Some ch) (cw_cache w)), cw_pending := rest\<rparr>)"

abbreviation cache_steps where
  "cache_steps pg \<equiv> (cache_step pg)\<^sup>*\<^sup>*"

definition cache_inv :: "pglib \<Rightarrow> cache_world \<Rightarrow> bool" where
  "cache_inv pg w \<longleftrightarrow> flag_db_ok pg (cw_db w) \<and>
     (\<forall>e rs. cw_cache w e = Some rs \<longrightarrow> e \<notin> ch_EnvID ` set (cw_pending w) \<longrightarrow> coherent e rs (cw_db w))"

lemma run_call_keys:
  assumes "flag_db_ok (ae_pg env) db" "\<forall>n. pg_uuid (ae_pg env) (ae_newID env n) = Some (ae_newID env n)"
  shows "flag_db_ok (ae_pg env) (run_call env flt r call db)"
proof -
  have "foreign_request (CHR ''x'' # GetOrgID r) env r db"
    using assms by (simp add: foreign_request_def)
  from hidden_run_call [OF this] show ?thesis by (simp add: hidden_from_def)
qed

lemma cache_step_inv:
  assumes "cache_step pg w w'" "cache_inv pg w"
  shows "cache_inv pg w'"
  using assms(1)
proof cases
  case (commit env db flt r call)
  obtain new where new: "fdb_Changes db = fdb_Changes (cw_db w) @ new"
      "\<forall>f e. e \<notin> ch_EnvID ` set new \<longrightarrow> lookup_state f e db = lookup_state f e (cw_db w)"
    using announced_run_call [of "cw_db w" env flt r call] commit(4) unfolding announced_def
    by (elim exE conjE) (rule that, simp_all)
  have "flag_db_ok pg db"
    using run_call_keys [of env "cw_db w" flt r call] assms(2) commit by (simp add: cache_inv_def)
  moreover have "coherent e rs db"
    if "cw_cache w e = Some rs" "e \<notin> ch_EnvID ` set (cw_pending w)" "e \<notin> ch_EnvID ` set new" for e rs
    using assms(2) that new(2) by (simp add: cache_inv_def coherent_def)
  ultimately show ?thesis
    using new(1) by (auto simp: commit(1) cache_inv_def image_Un)
next
  case (load envID flt projectID res c)
  show ?thesis
  proof (cases "LoadRuleset flt pg projectID envID (cw_db w)")
    case (Inl e)
    then show ?thesis using load assms(2) by (auto simp: Cache_LoadRuleset_def)
  next
    case (Inr q)
    then obtain flags sts segs where q: "LoadRuleset flt pg projectID envID (cw_db w) = Inr (flags, sts, segs)"
      by (cases q) auto
    have "coherent envID (build_ruleset flags sts segs) (cw_db w)"
      using loaded_coherent [OF _ q load(2)] assms(2) by (simp add: cache_inv_def)
    then show ?thesis
      using q load(1,3) assms(2) by (auto simp: Cache_LoadRuleset_def cache_inv_def Let_def split: if_splits)
  qed
next
  case (deliver ch rest)
  then show ?thesis
    using assms(2) by (auto simp: cache_inv_def on_notification_def split: if_splits)
qed

text \<open>
  C13: the cache is coherent.  From an empty cache, after any interleaving of calls of the writing handlers
  with any faults, atomic loads and deliveries of notifications, the states cached for an environment are
  exactly the rows of its flags, unless a notification for the environment is still on its way.
\<close>

theorem cache_coherent:
  assumes "cache_steps pg \<lparr>cw_db = db, cw_cache = Map.empty, cw_pending = []\<rparr> w" "flag_db_ok pg db"
    and "GetRuleset (cw_cache w) e = Some rs" "e \<notin> ch_EnvID ` set (cw_pending w)"
    and "map_of (rs_Flags rs) key = Some f"
  shows "map_of (rs_States rs) key = lookup_state (flag_ID f) e (cw_db w)"
proof -
  have "cache_inv pg w"
    using assms(1)
  proof (induction rule: rtranclp_induct)
    case base
    then show ?case using assms(2) by (simp add: cache_inv_def)
  qed (rule cache_step_inv)
  then show ?thesis
    using assms(3-5) by (simp add: cache_inv_def coherent_def GetRuleset_def)
qed

subsection \<open>Loads that are not atomic\<close>

text \<open>
  A load can outlive the kill switch.  A load reads the tables and stores its ruleset later; when a kill
  commits in between, the notification of the kill is delivered before the store and drops nothing that
  stays: afterwards nothing is on its way and the cache holds the ruleset in which the killed flag is still
  on, until the next change of a state of the environment.
\<close>

theorem stale_load_survives_kill:
  assumes "flag_db_ok (ae_pg env) db" "uuid_canonical (ae_pg env)" "pg_uuid (ae_pg env) envID = Some envID"
    and "LoadRuleset flt (ae_pg env) (URLParam r ''projectID'') envID db = Inr (flags, sts, segs)"
    and "map_of (rs_States (build_ruleset flags sts segs)) (URLParam r ''flagKey'') = Some old" "state_Enabled old"
    and "Flag_Kill env flt' r (Some envID) db = (Answer c st, db')"
  shows "\<exists>ch f row. fdb_Changes db' = fdb_Changes db @ [ch] \<and>
    GetRuleset ((fst (on_notification (Some ch) cache))(envID \<mapsto> build_ruleset flags sts segs)) envID =
      Some (build_ruleset flags sts segs) \<and>
    map_of (rs_Flags (build_ruleset flags sts segs)) (URLParam r ''flagKey'') = Some f \<and>
    lookup_state (flag_ID f) envID db' = Some row \<and> \<not> state_Enabled row \<and>
    map_of (rs_States (build_ruleset flags sts segs)) (URLParam r ''flagKey'') \<noteq> Some row"
proof -
  obtain g row ch where g: "g \<in> set (fdb_Flags db)" "flag_Key g = URLParam r ''flagKey''"
      "pg_uuid (ae_pg env) (URLParam r ''projectID'') = Some (flag_ProjectID g)"
    and row: "lookup_state (flag_ID g) envID db' = Some row" "\<not> state_Enabled row"
    and ch: "fdb_Changes db' = fdb_Changes db @ [ch]"
    by (rule kill_row [OF assms(1,2,7,3)])
  have "map_of (rs_Flags (build_ruleset flags sts segs)) (flag_Key g) = Some (flag_columns g)"
    using LoadRuleset_Inr [OF assms(4)] g(1,3) loaded_flag [of "ae_pg env" db g] assms(1)
    by (auto simp: flag_db_ok_def)
  moreover have "GetRuleset ((fst (on_notification (Some ch) cache))(envID \<mapsto> build_ruleset flags sts segs)) envID =
      Some (build_ruleset flags sts segs)"
    by (simp add: GetRuleset_def)
  moreover have "Some old \<noteq> Some row" using assms(6) row(2) by auto
  ultimately show ?thesis
    using ch g(2) row assms(5) by (intro exI [of _ ch] exI [of _ "flag_columns g"] exI [of _ row]) simp
qed

subsection \<open>Changes of flags\<close>

lemma UpdateFlag_silent: "fdb_Changes (snd (UpdateFlag fails pg now f db)) = fdb_Changes db"
  by (simp add: UpdateFlag_def sql_update_flag_def increment_flag_version_def split: option.split)

lemma CreateFlag_silent: "fdb_Changes (snd (CreateFlag fails pg now i f db)) = fdb_Changes db"
  by (simp add: CreateFlag_def Let_def split: option.split)

lemma UpdateSegment_silent: "fdb_Changes (snd (UpdateSegment fails pg now g db)) = fdb_Changes db"
  by (simp add: UpdateSegment_def split: option.split)

definition is_flag_write :: "flag_call \<Rightarrow> bool" where
  "is_flag_write call \<longleftrightarrow> (case call of CallCreate b \<Rightarrow> True | CallUpdate b \<Rightarrow> True | _ \<Rightarrow> False)"

lemma flag_write_silent: "is_flag_write call \<Longrightarrow> fdb_Changes (run_call env flt r call db) = fdb_Changes db"
proof (cases call)
  case (CallCreate body)
  have "fdb_Changes db1 = fdb_Changes db" if "CreateFlag (flt 1) pg now i f db = (res, db1)" for pg now i f res db1
    using CreateFlag_silent [of "flt 1" pg now i f db] that by simp
  then show ?thesis
    unfolding CallCreate by (auto simp: Flag_Create_def Let_def split: sum.split option.split prod.split store_error.split)
next
  case (CallUpdate body)
  have "fdb_Changes db1 = fdb_Changes db" if "UpdateFlag (flt 2) pg now f db = (res, db1)" for pg now f res db1
    using UpdateFlag_silent [of "flt 2" pg now f db] that by simp
  then show ?thesis
    unfolding CallUpdate by (auto simp: Flag_Update_def Let_def split: sum.split option.split prod.split)
qed (simp_all add: is_flag_write_def)

text \<open>
  Creations and updates of flags never reach a cache.  Whatever sequence of them is requested, with
  whatever faults, no notification is added: a cached ruleset keeps its old flags, with their default
  values, expiry times, prerequisites and exclusion groups, until a state of its environment changes.
\<close>

theorem flag_writes_not_announced:
  assumes "\<forall>(env, flt, r, call)\<in>set calls. is_flag_write call"
  shows "fdb_Changes (run_calls calls db) = fdb_Changes db"
  using assms
  by (induction calls db rule: run_calls.induct) (simp_all add: flag_write_silent)

subsection \<open>Runs\<close>

abbreviation "demo_rs \<equiv> build_ruleset [flag_columns demo_flag] [demo_state ''e''] []"

lemma demo_load: "LoadRuleset (\<lambda>n. False) demo_pg ''p'' ''e'' demo_db = Inr ([flag_columns demo_flag], [demo_state ''e''], [])"
  by (simp add: LoadRuleset_def ListFlags_def ListSegments_def by_uuid_def demo_defs)

lemma demo_rs_maps:
  "map_of (rs_Flags demo_rs) ''k'' = Some (flag_columns demo_flag)"
  "map_of (rs_States demo_rs) ''k'' = Some (demo_state ''e'')"
  by (simp_all add: build_ruleset_def key_by_def key_states_def flagIDToKey_def flag_columns_def demo_flag_def
      demo_state_def)

theorem cache_coherent_witness:
  "\<exists>w. cache_steps demo_pg \<lparr>cw_db = demo_db, cw_cache = Map.empty, cw_pending = []\<rparr> w \<and>
     GetRuleset (cw_cache w) ''e'' = Some demo_rs \<and>
     map_of (rs_States demo_rs) ''k'' = lookup_state (flag_ID (flag_columns demo_flag)) ''e'' (cw_db w)"
proof -
  let ?w = "\<lparr>cw_db = demo_db, cw_cache = [''e'' \<mapsto> demo_rs], cw_pending = []\<rparr>"
  have pg: "pg_uuid demo_pg ''e'' = Some ''e''" by (simp add: demo_pg_def)
  have "cache_step demo_pg \<lparr>cw_db = demo_db, cw_cache = Map.empty, cw_pending = []\<rparr> ?w"
    using cache_step.load [of demo_pg "''e''" "\<lambda>n. False" "''p''"
        "\<lparr>cw_db = demo_db, cw_cache = Map.empty, cw_pending = []\<rparr>"]
    by (simp add: Cache_LoadRuleset_def demo_load Let_def pg)
  then have run: "cache_steps demo_pg \<lparr>cw_db = demo_db, cw_cache = Map.empty, cw_pending = []\<rparr> ?w" by blast
  have "map_of (rs_States demo_rs) ''k'' = lookup_state (flag_ID (flag_columns demo_flag)) ''e'' (cw_db ?w)"
    by (rule cache_coherent [OF run demo_db_ok _ _ demo_rs_maps(1)]) (simp_all add: GetRuleset_def)
  with run show ?thesis by (intro exI [of _ ?w]) (simp add: GetRuleset_def)
qed

theorem stale_load_survives_kill_witness:
  "\<exists>st db' ch row. Flag_Kill demo_env (\<lambda>n. False) (demo_call ''o'' RoleOwner) (Some ''e'') demo_db =
     (Answer StatusOK st, db') \<and>
   GetRuleset ((fst (on_notification (Some ch) Map.empty))(''e'' \<mapsto> demo_rs)) ''e'' = Some demo_rs \<and>
   lookup_state ''f'' ''e'' db' = Some row \<and> \<not> state_Enabled row \<and> map_of (rs_States demo_rs) ''k'' \<noteq> Some row"
proof -
  obtain st db' where k: "Flag_Kill demo_env (\<lambda>n. False) (demo_call ''o'' RoleOwner) (Some ''e'') demo_db =
      (Answer StatusOK st, db')"
    using demo_kill by blast
  have env: "ae_pg demo_env = demo_pg" "URLParam (demo_call ''o'' RoleOwner) ''projectID'' = ''p''"
      "URLParam (demo_call ''o'' RoleOwner) ''flagKey'' = ''k''" "pg_uuid demo_pg ''e'' = Some ''e''"
      "flag_ID (flag_columns demo_flag) = ''f''" "state_Enabled (demo_state ''e'')"
    by (simp_all add: demo_env_def demo_call_def URLParam_def demo_pg_def demo_flag_def demo_state_def)
  show ?thesis
    using stale_load_survives_kill [OF _ _ _ _ _ _ k, unfolded env, OF demo_db_ok demo_canonical refl demo_load
        demo_rs_maps(2) env(6), of Map.empty] k demo_rs_maps env(5)
    by auto
qed

theorem flag_writes_not_announced_witness:
  "fdb_Changes (run_calls
     [(demo_env, \<lambda>n. False, demo_call ''o'' RoleOwner, CallUpdate (Some (demo_wish ''k''))),
      (demo_env, \<lambda>n. False, demo_call ''o'' RoleOwner, CallCreate (Some (demo_wish ''kk'')))] demo_db) = []"
  by (subst flag_writes_not_announced) (simp_all add: is_flag_write_def demo_db_def)

end
