(* ===== verification/Schedules.thy ===== *)
theory Schedules
  imports CacheLaws
begin

text \<open>
  The scheduler of \<open>server/internal/scheduler/scheduler.go\<close>: a tick reads the states whose schedule is due
  and writes them back one by one, each followed by an audit entry.  The tick is split after its read, as
  other writers commit in between: \<open>tick_pending\<close> is the part that writes.
\<close>

subsection \<open>Ticks\<close>

text \<open>The state after its schedules, and whether one of them was due.\<close>

definition apply_schedule :: "gotime \<Rightarrow> flag_state \<Rightarrow> flag_state \<times> bool" where
  "apply_schedule now fs =
     (let fs1 = (if due now (state_ScheduledEnableAt fs)
                 then fs\<lparr>state_Enabled := True, state_ScheduledEnableAt := None\<rparr> else fs);
          fs2 = (if due now (state_ScheduledDisableAt fs1)
                 then fs1\<lparr>state_Enabled := False, state_ScheduledDisableAt := None\<rparr> else fs1)
      in (fs2, due now (state_ScheduledEnableAt fs) \<or> due now (state_ScheduledDisableAt fs1)))"

definition scheduled_entry :: "flag_state \<Rightarrow> audit_entry" where
  "scheduled_entry fs = zero_audit_entry\<lparr>au_OrgID := [], au_ActorID := Some ''system'', au_ActorType := ''system'',
     au_Action := ''flag.scheduled_toggle'', au_ResourceType := ''flag'', au_ResourceID := Some (state_FlagID fs)\<rparr>"

text \<open>Each state has its ten faults; a failed write leaves the schedule for the next tick.\<close>

fun tick_pending :: "api_env \<Rightarrow> faults \<Rightarrow> gotime \<Rightarrow> flag_state list \<Rightarrow> flag_db \<Rightarrow> flag_db" where
  "tick_pending env flt now [] db = db"
| "tick_pending env flt now (fs # rest) db =
     (case apply_schedule now fs of
        (fs', changed) \<Rightarrow>
          if \<not> changed then tick_pending (later_env env) (\<lambda>i. flt (i + 10)) now rest db
          else
            (case UpsertFlagState (flt 0) (ae_pg env) (ae_dbnow env) (ae_newID env 0) fs' db of
               (Inl e, db1) \<Rightarrow> tick_pending (later_env env) (\<lambda>i. flt (i + 10)) now rest db1
             | (Inr st, db1) \<Rightarrow> tick_pending (later_env env) (\<lambda>i. flt (i + 10)) now rest
                 (write_audit env flt 1 (scheduled_entry st) db1)))"

text \<open>\<open>acquired\<close> is the answer of the advisory lock, none for an error.\<close>

definition tick :: "api_env \<Rightarrow> faults \<Rightarrow> bool option \<Rightarrow> flag_db \<Rightarrow> flag_db" where
  "tick env flt acquired db =
     (if acquired = Some True then
        (case ListPendingSchedules (flt 0) (ae_now env) db of
           Inl e \<Rightarrow> db
         | Inr pending \<Rightarrow> tick_pending env (\<lambda>i. flt (Suc i)) (ae_now env) pending db)
      else db)"

text \<open>The hourly jobs run on every tick whose number is a multiple of the ticks of an hour.\<close>

definition ticksPerHour :: "int \<Rightarrow> int" where
  "ticksPerHour interval = (let n = go_div 3600000000000 interval in if n < 1 then 1 else n)"

definition cleanup_due :: "int \<Rightarrow> int \<Rightarrow> bool" where
  "cleanup_due interval cleanupTicker \<longleftrightarrow> cleanupTicker mod ticksPerHour interval = 0"

subsection \<open>No trace in the audit log\<close>

lemma system_entry_refused: "audit_row pg orgs projects dbnow i (e\<lparr>au_ActorType := ''system''\<rparr>) = None"
  by (simp add: audit_row_def split: option.split)

lemma scheduled_entry_dropped: "fdb_Audit (write_audit env flt n (scheduled_entry fs) db) = fdb_Audit db"
proof -
  have "audit_row pg orgs projects dbnow i (e\<lparr>au_IntegrityHash := h\<rparr>) = None"
    if "au_ActorType e = ''system''" for pg orgs projects dbnow i e h
    using that by (simp add: audit_row_def split: option.split)
  then show ?thesis
    by (simp add: write_audit_def CreateAuditEntry_def Let_def scheduled_entry_def split: option.split)
qed

lemma upsert_keeps_audit:
  "UpsertFlagState fails pg now i st db = (res, db') \<Longrightarrow> fdb_Audit db' = fdb_Audit db"
  by (erule UpsertFlagState_cases) auto

text \<open>
  Scheduled changes leave no trace in the audit log.  The entry of a tick has the actor type
  \<open>system\<close>, which the table refuses: whatever is due, whatever fails and whatever the schedule changes,
  a tick writes no audit entry.
\<close>

theorem scheduled_changes_unaudited: "fdb_Audit (tick env flt acquired db) = fdb_Audit db"
proof -
  have "fdb_Audit (tick_pending env flt now pending db) = fdb_Audit db" for flt now pending
    by (induction env flt now pending db rule: tick_pending.induct)
      (auto simp: scheduled_entry_dropped upsert_keeps_audit split: prod.split sum.split)
  then show ?thesis by (simp add: tick_def split: sum.split)
qed

subsection \<open>What a tick writes\<close>

text \<open>Rows of the table: writing one back changes nothing of its settings.\<close>

definition stored_row :: "pglib \<Rightarrow> flag_state \<Rightarrow> bool" where
  "stored_row pg st \<longleftrightarrow> state_row pg st = Some st"

lemma apply_schedule_fields [simp]:
  "state_FlagID (fst (apply_schedule now st)) = state_FlagID st"
  "state_EnvID (fst (apply_schedule now st)) = state_EnvID st"
  "state_ID (fst (apply_schedule now st)) = state_ID st"
  "state_OrgID (fst (apply_schedule now st)) = state_OrgID st"
  "state_CreatedAt (fst (apply_schedule now st)) = state_CreatedAt st"
  by (simp_all add: apply_schedule_def Let_def)

lemma stored_row_schedule:
  assumes "stored_row pg st"
  shows "stored_row pg (fst (apply_schedule now st))"
proof -
  have "state_row pg (s\<lparr>state_Enabled := b, state_ScheduledEnableAt := t, state_ScheduledDisableAt := u\<rparr>) =
      map_option (\<lambda>r. r\<lparr>state_Enabled := b, state_ScheduledEnableAt := t, state_ScheduledDisableAt := u\<rparr>)
        (state_row pg s)" for s b t u
    by (auto simp: state_row_def split: option.splits)
  moreover have "\<exists>b t u. fst (apply_schedule now st) =
      st\<lparr>state_Enabled := b, state_ScheduledEnableAt := t, state_ScheduledDisableAt := u\<rparr>"
    by (rule exI [of _ "state_Enabled (fst (apply_schedule now st))"],
        rule exI [of _ "state_ScheduledEnableAt (fst (apply_schedule now st))"],
        rule exI [of _ "state_ScheduledDisableAt (fst (apply_schedule now st))"])
      (cases st, simp add: apply_schedule_def Let_def)
  ultimately show ?thesis
    using assms by (auto simp: stored_row_def)
qed

lemma apply_schedule_idle: "\<not> snd (apply_schedule now st) \<Longrightarrow> fst (apply_schedule now st) = st"
  by (auto simp: apply_schedule_def Let_def split: if_splits)

lemma schedule_due:
  "snd (apply_schedule now st) \<longleftrightarrow> due now (state_ScheduledEnableAt st) \<or> due now (state_ScheduledDisableAt st)"
  by (simp add: apply_schedule_def Let_def)

lemma schedule_not_due:
  "\<not> due now (state_ScheduledEnableAt (fst (apply_schedule now st)))"
  "\<not> due now (state_ScheduledDisableAt (fst (apply_schedule now st)))"
  by (simp_all add: apply_schedule_def Let_def) (simp_all add: due_def)

text \<open>One write of a tick: its row, and no other, if the write succeeds.\<close>

lemma upsert_over_row:
  assumes "stored_row pg st" "lookup_state (state_FlagID st) (state_EnvID st) db = Some old"
  obtains st' db' where "UpsertFlagState False pg now i st db = (Inr st', db')"
    "\<And>f e. lookup_state f e db' = (if f = state_FlagID st \<and> e = state_EnvID st
       then Some (st\<lparr>state_ID := state_ID old, state_OrgID := state_OrgID old,
         state_CreatedAt := state_CreatedAt old, state_UpdatedAt := now\<rparr>) else lookup_state f e db)"
proof -
  let ?P = "state_at (state_FlagID st) (state_EnvID st)"
  let ?row = "st\<lparr>state_ID := state_ID old, state_OrgID := state_OrgID old,
         state_CreatedAt := state_CreatedAt old, state_UpdatedAt := now\<rparr>"
  obtain st' db' where up: "UpsertFlagState False pg now i st db = (Inr st', db')"
    and states: "fdb_States db' = map (\<lambda>s. if ?P s then ?row else s) (fdb_States db)"
    using assms by (auto simp: UpsertFlagState_def stored_row_def lookup_state_def Let_def)
  have here: "lookup_state (state_FlagID st) (state_EnvID st) db' = Some ?row"
    using find_map_update [of ?P "fdb_States db" old ?row] assms(2)
    by (simp add: lookup_state_def states state_at_def)
  have there: "lookup_state f e db' = lookup_state f e db" if "\<not> (f = state_FlagID st \<and> e = state_EnvID st)" for f e
    by (rule states.upsert_elsewhere [OF up]) (use assms(1) that in \<open>auto simp: stored_row_def\<close>)
  show ?thesis
    by (rule that [OF up]) (use here there in auto)
qed

lemma later_env_same [simp]:
  "ae_pg (later_env env) = ae_pg env" "ae_dbnow (later_env env) = ae_dbnow env"
  by (simp_all add: later_env_def)

abbreviation "row_key st \<equiv> (state_FlagID st, state_EnvID st)"

text \<open>States that are not in the list keep their rows, those in it get the row the list asks for.\<close>

lemma tick_pending_elsewhere:
  "\<forall>p\<in>set pending. stored_row (ae_pg env) p \<and> row_key p \<noteq> (f, e) \<Longrightarrow>
     lookup_state f e (tick_pending env flt now pending db) = lookup_state f e db"
proof (induction env flt now pending db rule: tick_pending.induct)
  case (2 env flt now fs rest db)
  obtain fs' changed where a: "apply_schedule now fs = (fs', changed)" by (rule prod.exhaust)
  have fs': "stored_row (ae_pg env) fs'" "row_key fs' \<noteq> (f, e)"
    using 2(4) stored_row_schedule [of "ae_pg env" fs now] apply_schedule_fields(1,2) [of now fs] a by auto
  obtain res db1 where up: "UpsertFlagState (flt 0) (ae_pg env) (ae_dbnow env) (ae_newID env 0) fs' db = (res, db1)"
    by (rule prod.exhaust)
  have "lookup_state f e db1 = lookup_state f e db"
    by (rule states.upsert_elsewhere [OF up]) (use fs' in \<open>auto simp: stored_row_def\<close>)
  with 2 a up show ?case by (cases res) auto
qed simp

lemma tick_pending_here:
  assumes "p \<in> set pending" "distinct (map row_key pending)" "\<forall>q\<in>set pending. stored_row (ae_pg env) q"
    and "\<forall>q\<in>set pending. snd (apply_schedule now q)" "lookup_state (state_FlagID p) (state_EnvID p) db = Some old"
  shows "lookup_state (state_FlagID p) (state_EnvID p) (tick_pending env (\<lambda>n. False) now pending db) =
    Some ((fst (apply_schedule now p))\<lparr>state_ID := state_ID old, state_OrgID := state_OrgID old,
      state_CreatedAt := state_CreatedAt old, state_UpdatedAt := ae_dbnow env\<rparr>)"
  using assms
proof (induction pending arbitrary: env db)
  case (Cons q pending)
  let ?f = "state_FlagID p" and ?e = "state_EnvID p"
  define q' where "q' = fst (apply_schedule now q)"
  have a: "apply_schedule now q = (q', True)"
    using Cons.prems(4) by (simp add: q'_def prod_eq_iff)
  have q': "stored_row (ae_pg env) q'" "state_FlagID q' = state_FlagID q" "state_EnvID q' = state_EnvID q"
    using Cons.prems(3) stored_row_schedule by (simp_all add: q'_def)
  obtain res db1 where up: "UpsertFlagState False (ae_pg env) (ae_dbnow env) (ae_newID env 0) q' db = (res, db1)"
    by (rule prod.exhaust)
  obtain db2 where db2: "tick_pending env (\<lambda>n. False) now (q # pending) db =
      tick_pending (later_env env) (\<lambda>n. False) now pending db2"
    and same: "\<And>f e. lookup_state f e db2 = lookup_state f e db1"
    using a up by (cases res) auto
  show ?case
  proof (cases "p = q")
    case True
    have "lookup_state ?f ?e db1 = Some (q'\<lparr>state_ID := state_ID old, state_OrgID := state_OrgID old,
        state_CreatedAt := state_CreatedAt old, state_UpdatedAt := ae_dbnow env\<rparr>)"
    proof -
      have old: "lookup_state (state_FlagID q') (state_EnvID q') db = Some old"
        using q'(2,3) True Cons.prems(5) by simp
      show ?thesis
        by (rule upsert_over_row [OF q'(1) old, of "ae_dbnow env" "ae_newID env 0"]) (use up q'(2,3) True in simp)
    qed
    moreover have "lookup_state ?f ?e (tick_pending (later_env env) (\<lambda>n. False) now pending db2) =
        lookup_state ?f ?e db2"
    proof (rule tick_pending_elsewhere, intro ballI conjI)
      fix r
      assume r: "r \<in> set pending"
      show "stored_row (ae_pg (later_env env)) r" using Cons.prems(3) r by simp
      have "row_key q \<notin> row_key ` set pending" using Cons.prems(2) by simp
      then show "row_key r \<noteq> (?f, ?e)" using imageI [OF r, of row_key] True by (simp del: image_eqI) metis
    qed
    ultimately show ?thesis using db2 same True by (simp add: q'_def)
  next
    case False
    then have p: "p \<in> set pending" using Cons.prems(1) by simp
    have "row_key q \<notin> row_key ` set pending" using Cons.prems(2) by simp
    then have keys: "\<not> (state_FlagID q = state_FlagID p \<and> state_EnvID q = state_EnvID p)"
      using imageI [OF p, of row_key] by (simp del: image_eqI) metis
    have "lookup_state ?f ?e db1 = lookup_state ?f ?e db"
    proof (rule states.upsert_elsewhere [OF up])
      fix r
      assume "state_row (ae_pg env) q' = Some r"
      then have "r = q'" using q'(1) by (simp add: stored_row_def)
      then show "\<not> (state_FlagID r = ?f \<and> state_EnvID r = ?e)" using q'(2,3) keys by simp
    qed
    with Cons.IH [OF p, of "later_env env" db2] Cons.prems(2-5) db2 same show ?thesis by simp
  qed
qed simp

text \<open>
  C19: a tick does exactly what is due.  With the lock and without faults, on tables in order, every state
  whose enabling or disabling time has come is written with these times cleared and with the
  switch they ask for, disabling last, and no other state changes.
\<close>

theorem tick_exact:
  assumes "\<forall>st\<in>set (fdb_States db). stored_row (ae_pg env) st" "state_keys_ok db"
  shows "lookup_state f e (tick env (\<lambda>n. False) (Some True) db) =
    map_option (\<lambda>st. if snd (apply_schedule (ae_now env) st)
       then (fst (apply_schedule (ae_now env) st))\<lparr>state_UpdatedAt := ae_dbnow env\<rparr> else st) (lookup_state f e db)"
proof -
  define now where "now = ae_now env"
  define pending where "pending = filter (\<lambda>st. snd (apply_schedule now st)) (fdb_States db)"
  have t: "tick env (\<lambda>n. False) (Some True) db = tick_pending env (\<lambda>n. False) now pending db"
    by (simp add: tick_def ListPendingSchedules_def pending_def now_def schedule_due)
  have keys: "distinct (map row_key pending)"
    using assms(2) unfolding pending_def state_keys_ok_def state_keys_def by (blast intro: distinct_map_filter)
  have stored: "\<forall>q\<in>set pending. stored_row (ae_pg env) q" and due: "\<forall>q\<in>set pending. snd (apply_schedule now q)"
    using assms(1) by (simp_all add: pending_def)
  show ?thesis
  proof (cases "lookup_state f e db")
    case None
    have "lookup_state f e (tick_pending env (\<lambda>n. False) now pending db) = lookup_state f e db"
      by (rule tick_pending_elsewhere) (use stored lookup_state_None [OF None] in \<open>simp add: pending_def\<close>)
    with None t show ?thesis by simp
  next
    case (Some st)
    note st = lookup_state_Some [OF Some]
    show ?thesis
    proof (cases "snd (apply_schedule now st)")
      case True
      then have "st \<in> set pending" using st by (simp add: pending_def)
      from tick_pending_here [OF this keys stored due, of db st] Some st True t show ?thesis
        by (simp add: now_def [symmetric])
    next
      case False
      have "row_key p \<noteq> (f, e)" if "p \<in> set pending" for p
        using that False st state_keys_unique [OF assms(2), of p st] by (auto simp: pending_def)
      then have "lookup_state f e (tick_pending env (\<lambda>n. False) now pending db) = lookup_state f e db"
        by (intro tick_pending_elsewhere) (use stored in blast)
      with Some False t show ?thesis by (simp add: now_def)
    qed
  qed
qed

text \<open>
  A tick overwrites what happened since it read.  Whatever the other components wrote to a due state
  between the read of the tick and its write, the row ends with the settings of the read with its
  schedule applied: a kill, a new rollout or new targeting rules are lost.
\<close>

theorem tick_overwrites:
  assumes "ListPendingSchedules False now db = Inr pending" "p \<in> set pending" "state_keys_ok db"
    and "\<forall>st\<in>set (fdb_States db). stored_row (ae_pg env) st"
    and "lookup_state (state_FlagID p) (state_EnvID p) db' = Some written"
  shows "\<exists>row. lookup_state (state_FlagID p) (state_EnvID p) (tick_pending env (\<lambda>n. False) now pending db') = Some row \<and>
    settings_of row = settings_of (fst (apply_schedule now p))"
proof -
  have pending: "pending = filter (\<lambda>st. snd (apply_schedule now st)) (fdb_States db)"
    using assms(1) by (simp add: ListPendingSchedules_def schedule_due)
  have "distinct (map row_key pending)"
    using assms(3) unfolding pending state_keys_ok_def state_keys_def by (blast intro: distinct_map_filter)
  moreover have "\<forall>q\<in>set pending. stored_row (ae_pg env) q" "\<forall>q\<in>set pending. snd (apply_schedule now q)"
    using assms(4) unfolding pending by simp_all
  ultimately have "lookup_state (state_FlagID p) (state_EnvID p) (tick_pending env (\<lambda>n. False) now pending db') =
      Some ((fst (apply_schedule now p))\<lparr>state_ID := state_ID written, state_OrgID := state_OrgID written,
        state_CreatedAt := state_CreatedAt written, state_UpdatedAt := ae_dbnow env\<rparr>)"
    by (intro tick_pending_here [OF assms(2)] assms(5))
  then show ?thesis
    by (intro exI conjI, assumption) (simp add: settings_of_def)
qed

subsection \<open>Runs\<close>

definition timed_state :: flag_state where
  "timed_state = (demo_state ''e'')\<lparr>state_Enabled := False, state_ScheduledEnableAt := Some 1\<rparr>"

abbreviation "timed_db \<equiv> demo_db\<lparr>fdb_States := [timed_state]\<rparr>"

lemma timed_stored: "stored_row demo_pg timed_state"
  by (simp add: stored_row_def state_row_def timed_state_def pg_raw_def demo_defs)

lemma timed_keys: "state_keys_ok timed_db"
  by (simp add: state_keys_ok_def state_keys_def timed_state_def demo_defs)

lemma timed_apply:
  "apply_schedule 1 timed_state = (timed_state\<lparr>state_Enabled := True, state_ScheduledEnableAt := None\<rparr>, True)"
  by (simp add: apply_schedule_def timed_state_def due_def demo_state_def zero_flag_state_def)

lemma timed_lookup: "lookup_state ''f'' ''e'' timed_db = Some timed_state"
  by (simp add: lookup_state_def state_at_def timed_state_def demo_state_def)

theorem tick_exact_witness:
  "\<exists>row. lookup_state ''f'' ''e'' (tick demo_env (\<lambda>n. False) (Some True) timed_db) = Some row \<and> state_Enabled row"
proof -
  have "lookup_state ''f'' ''e'' (tick demo_env (\<lambda>n. False) (Some True) timed_db) =
      Some (timed_state\<lparr>state_Enabled := True, state_ScheduledEnableAt := None, state_UpdatedAt := ae_dbnow demo_env\<rparr>)"
  proof (subst tick_exact)
    show "\<forall>st\<in>set (fdb_States timed_db). stored_row (ae_pg demo_env) st"
      using timed_stored by (simp add: demo_env_def)
    have "ae_now demo_env = 1" by (simp add: demo_env_def)
    then show "map_option (\<lambda>st. if snd (apply_schedule (ae_now demo_env) st)
       then (fst (apply_schedule (ae_now demo_env) st))\<lparr>state_UpdatedAt := ae_dbnow demo_env\<rparr> else st)
         (lookup_state ''f'' ''e'' timed_db) =
      Some (timed_state\<lparr>state_Enabled := True, state_ScheduledEnableAt := None, state_UpdatedAt := ae_dbnow demo_env\<rparr>)"
      by (simp add: timed_apply timed_lookup)
  qed (rule timed_keys)
  then show ?thesis by simp
qed

text \<open>The state is killed after the tick has read it, and is on after the tick.\<close>

theorem tick_overwrites_witness:
  "\<exists>st killed row. Flag_Kill demo_env (\<lambda>n. False) (demo_call ''o'' RoleOwner) (Some ''e'') timed_db =
     (Answer StatusOK st, killed) \<and> \<not> state_Enabled st \<and>
   lookup_state ''f'' ''e'' (tick_pending demo_env (\<lambda>n. False) 1 [timed_state] killed) = Some row \<and> state_Enabled row"
proof -
  obtain st killed where k: "Flag_Kill demo_env (\<lambda>n. False) (demo_call ''o'' RoleOwner) (Some ''e'') timed_db =
      (Answer StatusOK st, killed)" "\<not> state_Enabled st"
    by (simp add: Flag_Kill_def run_defs timed_state_def)
  have pg: "ae_pg demo_env = demo_pg" "pg_uuid demo_pg ''e'' = Some ''e''"
      "URLParam (demo_call ''o'' RoleOwner) ''flagKey'' = ''k''"
    by (simp_all add: demo_env_def demo_pg_def demo_call_def URLParam_def)
  have "flag_db_ok demo_pg timed_db"
    using timed_keys demo_db_ok by (simp add: flag_db_ok_def flag_keys_ok_def)
  from kill_row [OF _ _ k(1), unfolded pg(1), OF this demo_canonical pg(2)]
  obtain g row where g: "g \<in> set (fdb_Flags timed_db)" "lookup_state (flag_ID g) ''e'' killed = Some row" by blast
  have ids: "state_FlagID timed_state = ''f''" "state_EnvID timed_state = ''e''"
    by (simp_all add: timed_state_def demo_state_def)
  have written: "lookup_state (state_FlagID timed_state) (state_EnvID timed_state) killed = Some row"
    using g ids by (simp add: demo_db_def demo_flag_def)
  have pending: "ListPendingSchedules False 1 timed_db = Inr [timed_state]"
    by (simp add: ListPendingSchedules_def timed_state_def due_def)
  have "\<exists>row. lookup_state ''f'' ''e'' (tick_pending demo_env (\<lambda>n. False) 1 [timed_state] killed) = Some row \<and>
      settings_of row = settings_of (fst (apply_schedule 1 timed_state))"
    using tick_overwrites [OF pending _ timed_keys _ written, of demo_env] timed_stored ids pg(1) by simp
  then obtain row' where
    "lookup_state ''f'' ''e'' (tick_pending demo_env (\<lambda>n. False) 1 [timed_state] killed) = Some row'" "state_Enabled row'"
    by (auto simp: timed_apply settings_of_def)
  with k show ?thesis by blast
qed

end
