(* ===== verification/Approvals.thy ===== *)
theory Approvals
  imports FlagProps
begin

text \<open>
  Change requests that a second person approves: \<open>server/internal/domain/approval.go\<close>, the handlers of
  \<open>api/handlers/approval.go\<close> and their statements in \<open>store/postgres/store.go\<close>.  The requests are a list
  beside the tables of flags, oldest first.  A review reads the request, decides and writes without a
  transaction, so \<open>review_loaded\<close> is the part after the read, on tables others may have changed.
\<close>

abbreviation "ApprovalPending \<equiv> ''pending''"
abbreviation "ApprovalApproved \<equiv> ''approved''"
abbreviation "ApprovalRejected \<equiv> ''rejected''"
abbreviation "ApprovalApplied \<equiv> ''applied''"

record approval_request =
  ar_ID :: string
  ar_OrgID :: string
  ar_RequestorID :: string
  ar_FlagID :: string
  ar_EnvID :: string
  ar_ChangeType :: string
  ar_Payload :: rawjson
  ar_Status :: string
  ar_ReviewerID :: "string option"
  ar_ReviewNote :: string
  ar_ReviewedAt :: "gotime option"
  ar_CreatedAt :: gotime
  ar_UpdatedAt :: gotime

type_synonym approvals = "approval_request list"

subsection \<open>Statements\<close>

text \<open>
  The foreign keys to users are among the reasons for \<open>fails\<close>.  A nil payload is the SQL null the column
  refuses.
\<close>

definition CreateApprovalRequest ::
    "bool \<Rightarrow> pglib \<Rightarrow> gotime \<Rightarrow> string \<Rightarrow> flag_db \<Rightarrow> approval_request \<Rightarrow> approvals \<Rightarrow>
     approval_request result \<times> approvals" where
  "CreateApprovalRequest fails pg now newID db ar apps =
     (if fails then (Inl ErrInternal, apps)
      else
        (case (pg_uuid pg (ar_OrgID ar), pg_uuid pg (ar_RequestorID ar), pg_uuid pg (ar_FlagID ar),
               pg_uuid pg (ar_EnvID ar), pg_raw pg (ar_Payload ar)) of
           (Some org, Some requestor, Some f, Some e, Some (Some payload)) \<Rightarrow>
             (if org \<notin> set (fdb_Orgs db) \<or> f \<notin> flag_ID ` set (fdb_Flags db) \<or>
                 e \<notin> env_ID ` set (fdb_Envs db) \<or> newID \<in> ar_ID ` set apps
              then (Inl ErrInternal, apps)
              else
                (let ar' = ar\<lparr>ar_ID := newID, ar_CreatedAt := now, ar_UpdatedAt := now\<rparr>
                 in (Inr ar', apps @ [ar'\<lparr>ar_OrgID := org, ar_RequestorID := requestor, ar_FlagID := f,
                       ar_EnvID := e, ar_Payload := Some payload, ar_ReviewerID := None,
                       ar_ReviewNote := [], ar_ReviewedAt := None\<rparr>])))
         | _ \<Rightarrow> (Inl ErrInternal, apps)))"

definition GetApprovalRequest :: "bool \<Rightarrow> pglib \<Rightarrow> string \<Rightarrow> approvals \<Rightarrow> approval_request result" where
  "GetApprovalRequest fails pg i apps = by_uuid fails pg i (\<lambda>u. find (\<lambda>a. ar_ID a = u) apps)"

definition matching_approvals :: "string \<Rightarrow> string \<Rightarrow> approvals \<Rightarrow> approvals" where
  "matching_approvals org status apps =
     filter (\<lambda>a. ar_OrgID a = org \<and> (status = [] \<or> ar_Status a = status)) apps"

definition ListApprovalRequests ::
    "bool \<Rightarrow> pglib \<Rightarrow> string \<Rightarrow> string \<Rightarrow> int \<Rightarrow> int \<Rightarrow> approvals \<Rightarrow> approvals result" where
  "ListApprovalRequests fails pg orgID status limit offset apps =
     by_uuid fails pg orgID (\<lambda>org. Some (take (nat limit) (drop (nat offset)
       (rev (sort_key ar_CreatedAt (matching_approvals org status apps))))))"

definition CountApprovalRequests :: "bool \<Rightarrow> pglib \<Rightarrow> string \<Rightarrow> string \<Rightarrow> approvals \<Rightarrow> int result" where
  "CountApprovalRequests fails pg orgID status apps =
     by_uuid fails pg orgID (\<lambda>org. Some (int (length (matching_approvals org status apps))))"

text \<open>\<open>UPDATE approval_requests ... WHERE id = $5\<close>: the status of the row is not looked at.\<close>

definition UpdateApprovalRequest ::
    "bool \<Rightarrow> pglib \<Rightarrow> gotime \<Rightarrow> approval_request \<Rightarrow> approvals \<Rightarrow> unit result \<times> approvals" where
  "UpdateApprovalRequest fails pg now ar apps =
     (if fails then (Inl ErrInternal, apps)
      else
        (case (pg_uuid pg (ar_ID ar), pg_uuid_null pg (ar_ReviewerID ar)) of
           (Some u, Some reviewer) \<Rightarrow>
             (Inr (), map (\<lambda>a. if ar_ID a = u
                then a\<lparr>ar_Status := ar_Status ar, ar_ReviewerID := reviewer, ar_ReviewNote := ar_ReviewNote ar,
                       ar_ReviewedAt := ar_ReviewedAt ar, ar_UpdatedAt := now\<rparr> else a) apps)
         | _ \<Rightarrow> (Inl ErrInternal, apps)))"

subsection \<open>Handlers\<close>

definition verifyApprovalOwnership ::
    "bool \<Rightarrow> pglib \<Rightarrow> http_request \<Rightarrow> approvals \<Rightarrow> (nat \<times> string) + approval_request" where
  "verifyApprovalOwnership fails pg r apps =
     (let approvalID = URLParam r ''approvalID''
      in if approvalID = [] then Inl (StatusBadRequest, ''approval ID is required'')
         else
           (case GetApprovalRequest fails pg approvalID apps of
              Inl e \<Rightarrow> Inl (StatusNotFound, ''approval request not found'')
            | Inr ar \<Rightarrow>
                if ar_OrgID ar \<noteq> GetOrgID r then Inl (StatusNotFound, ''approval request not found'')
                else Inr ar))"

record create_approval_request =
  car_FlagID :: string
  car_EnvID :: string
  car_ChangeType :: string
  car_Payload :: rawjson

definition requested_approval :: "http_request \<Rightarrow> create_approval_request \<Rightarrow> approval_request" where
  "requested_approval r req =
     \<lparr>ar_ID = [], ar_OrgID = GetOrgID r, ar_RequestorID = GetUserID r, ar_FlagID = car_FlagID req,
      ar_EnvID = car_EnvID req, ar_ChangeType = car_ChangeType req, ar_Payload = car_Payload req,
      ar_Status = ApprovalPending, ar_ReviewerID = None, ar_ReviewNote = [], ar_ReviewedAt = None,
      ar_CreatedAt = 0, ar_UpdatedAt = 0\<rparr>"

definition Approval_Create ::
    "api_env \<Rightarrow> faults \<Rightarrow> http_request \<Rightarrow> create_approval_request option \<Rightarrow> flag_db \<Rightarrow> approvals \<Rightarrow>
     approval_request response \<times> approvals" where
  "Approval_Create env flt r body db apps =
     (case body of
        None \<Rightarrow> (Refuse StatusBadRequest ''invalid request body'', apps)
      | Some req \<Rightarrow>
        (if car_FlagID req = [] \<or> car_EnvID req = [] \<or> car_ChangeType req = []
         then (Refuse StatusBadRequest ''flag_id, env_id, and change_type are required'', apps)
         else
           (case CreateApprovalRequest (flt 0) (ae_pg env) (ae_dbnow env) (ae_newID env 0) db
                   (requested_approval r req) apps of
              (Inl e, apps1) \<Rightarrow> (Refuse StatusInternalServerError ''failed to create approval request'', apps1)
            | (Inr ar, apps1) \<Rightarrow> (Answer StatusCreated ar, apps1))))"

definition Approval_List ::
    "api_env \<Rightarrow> faults \<Rightarrow> http_request \<Rightarrow> (string \<Rightarrow> string) \<Rightarrow> approvals \<Rightarrow>
     approval_request paginated_response response" where
  "Approval_List env flt r query apps =
     (let status = query ''status''; p = ParsePagination query
      in case ListApprovalRequests (flt 0) (ae_pg env) (GetOrgID r) status (pp_Limit p) (pp_Offset p) apps of
           Inl e \<Rightarrow> Refuse StatusInternalServerError ''failed to list approvals''
         | Inr results \<Rightarrow>
           (case CountApprovalRequests (flt 1) (ae_pg env) (GetOrgID r) status apps of
              Inl e \<Rightarrow> Refuse StatusInternalServerError ''failed to count approvals''
            | Inr n \<Rightarrow> Answer StatusOK (NewPaginatedResponse results n (pp_Limit p) (pp_Offset p))))"

definition Approval_Get :: "api_env \<Rightarrow> faults \<Rightarrow> http_request \<Rightarrow> approvals \<Rightarrow> approval_request response" where
  "Approval_Get env flt r apps =
     (case verifyApprovalOwnership (flt 0) (ae_pg env) r apps of
        Inl (c, msg) \<Rightarrow> Refuse c msg
      | Inr ar \<Rightarrow> Answer StatusOK ar)"

text \<open>\<open>decode\<close> is \<open>json.Unmarshal\<close> into a flag state.  The organization of the state is the one of the payload.\<close>

definition applyChange ::
    "(rawjson \<Rightarrow> flag_state option) \<Rightarrow> api_env \<Rightarrow> faults \<Rightarrow> http_request \<Rightarrow> approval_request \<Rightarrow> flag_db \<Rightarrow>
     unit result \<times> flag_db" where
  "applyChange decode env flt r ar db =
     (case decode (ar_Payload ar) of
        None \<Rightarrow> (Inl ErrInternal, db)
      | Some payload \<Rightarrow>
        (let state = payload\<lparr>state_FlagID := ar_FlagID ar, state_EnvID := ar_EnvID ar\<rparr>;
             state = (case GetFlagState (flt 0) (ae_pg env) (ar_FlagID ar) (ar_EnvID ar) db of
                        Inl e \<Rightarrow> state | Inr existing \<Rightarrow> state\<lparr>state_ID := state_ID existing\<rparr>)
         in case UpsertFlagState (flt 1) (ae_pg env) (ae_dbnow env) (ae_newID env 1) state db of
              (Inl e, db1) \<Rightarrow> (Inl e, db1)
            | (Inr st, db1) \<Rightarrow>
                (Inr (),
                 write_audit env flt 2 (zero_audit_entry\<lparr>au_OrgID := GetOrgID r,
                   au_ActorID := Some (GetUserID r), au_ActorType := ''user'',
                   au_Action := ''flag.approved_change_applied'', au_ResourceType := ''flag'',
                   au_ResourceID := Some (ar_FlagID ar),
                   au_AfterState := Some (ae_stateJSON env (Some st))\<rparr>) db1)))"

record review_request =
  rvr_Action :: string
  rvr_Note :: string

definition review_loaded ::
    "(rawjson \<Rightarrow> flag_state option) \<Rightarrow> api_env \<Rightarrow> faults \<Rightarrow> http_request \<Rightarrow> review_request option \<Rightarrow>
     approval_request \<Rightarrow> flag_db \<Rightarrow> approvals \<Rightarrow> approval_request response \<times> flag_db \<times> approvals" where
  "review_loaded decode env flt r body ar db apps =
     (let userID = GetUserID r
      in if ar_Status ar \<noteq> ApprovalPending then (Refuse StatusConflict ''request is no longer pending'', db, apps)
         else if ar_RequestorID ar = userID then (Refuse StatusForbidden ''cannot review your own request'', db, apps)
         else
           (case body of
              None \<Rightarrow> (Refuse StatusBadRequest ''invalid request body'', db, apps)
            | Some req \<Rightarrow>
              (if rvr_Action req \<notin> {''approve'', ''reject''}
               then (Refuse StatusBadRequest (''action must be 'approve' or 'reject'' @ [CHR 0x27]), db, apps)
               else
                 (let ar1 = ar\<lparr>ar_ReviewerID := Some userID, ar_ReviewNote := rvr_Note req,
                              ar_ReviewedAt := Some (ae_now env),
                              ar_Status := (if rvr_Action req = ''approve'' then ApprovalApproved
                                            else ApprovalRejected)\<rparr>
                  in case UpdateApprovalRequest (flt 0) (ae_pg env) (ae_dbnow env) ar1 apps of
                       (Inl e, apps1) \<Rightarrow>
                         (Refuse StatusInternalServerError ''failed to update approval'', db, apps1)
                     | (Inr _, apps1) \<Rightarrow>
                       (if ar_Status ar1 \<noteq> ApprovalApproved then (Answer StatusOK ar1, db, apps1)
                        else
                          (case applyChange decode env (\<lambda>i. flt (2 + i)) r ar1 db of
                             (Inl e, db1) \<Rightarrow> (Answer StatusOK ar1, db1, apps1)
                           | (Inr _, db1) \<Rightarrow>
                             (let ar2 = ar1\<lparr>ar_Status := ApprovalApplied\<rparr>
                              in (Answer StatusOK ar2, db1,
                                  snd (UpdateApprovalRequest (flt 1) (ae_pg env) (ae_dbnow env) ar2 apps1)))))))))"

definition Approval_Review ::
    "(rawjson \<Rightarrow> flag_state option) \<Rightarrow> api_env \<Rightarrow> faults \<Rightarrow> http_request \<Rightarrow> review_request option \<Rightarrow>
     flag_db \<Rightarrow> approvals \<Rightarrow> approval_request response \<times> flag_db \<times> approvals" where
  "Approval_Review decode env flt r body db apps =
     (case verifyApprovalOwnership (flt 0) (ae_pg env) r apps of
        Inl (c, msg) \<Rightarrow> (Refuse c msg, db, apps)
      | Inr ar \<Rightarrow> review_loaded decode env (\<lambda>i. flt (Suc i)) r body ar db apps)"

end
