(* ===== verification/ApprovalLaws.thy ===== *)
theory ApprovalLaws
  imports Approvals
begin

text \<open>
  Approvals as a transition system.  A configuration holds the tables and the reviews that have read their
  request and not yet written; writers of other components change the flag tables in between.  The four
  eyes principle is an invariant of it; that a review is not atomic, that the flag of a request is never
  compared with the organization and that a payload must carry the organization are shown on runs.
\<close>

record approval_config =
  ac_db :: flag_db
  ac_apps :: approvals
  ac_loads :: "(http_request \<times> approval_request) list"

text \<open>Users and new identifiers are canonical, as the token and the database give them.\<close>

definition canonical_request :: "pglib \<Rightarrow> http_request \<Rightarrow> bool" where
  "canonical_request pg r \<longleftrightarrow> pg_uuid pg (GetUserID r) = Some (GetUserID r)"

inductive approval_step ::
    "(rawjson \<Rightarrow> flag_state option) \<Rightarrow> pglib \<Rightarrow> approval_config \<Rightarrow> approval_config \<Rightarrow> bool"
  for decode pg where
  create: "ae_pg env = pg \<Longrightarrow> canonical_request pg r \<Longrightarrow>
     Approval_Create env flt r body (ac_db c) (ac_apps c) = (resp, apps) \<Longrightarrow>
     approval_step decode pg c (c\<lparr>ac_apps := apps\<rparr>)"
| load: "canonical_request pg r \<Longrightarrow> verifyApprovalOwnership fails pg r (ac_apps c) = Inr ar \<Longrightarrow>
     approval_step decode pg c (c\<lparr>ac_loads := (r, ar) # ac_loads c\<rparr>)"
| review: "ae_pg env = pg \<Longrightarrow> (r, ar) \<in> set (ac_loads c) \<Longrightarrow>
     review_loaded decode env flt r body ar (ac_db c) (ac_apps c) = (resp, db, apps) \<Longrightarrow>
     approval_step decode pg c (c\<lparr>ac_db := db, ac_apps := apps\<rparr>)"
| others: "approval_step decode pg c (c\<lparr>ac_db := db\<rparr>)"

abbreviation approval_steps where
  "approval_steps decode pg \<equiv> (approval_step decode pg)\<^sup>*\<^sup>*"

definition reviewed_by_other :: "approval_request \<Rightarrow> bool" where
  "reviewed_by_other a \<longleftrightarrow>
     ar_Status a = ApprovalPending \<or>
     ar_Status a \<in> {ApprovalApproved, ApprovalRejected, ApprovalApplied} \<and>
     (\<exists>u. ar_ReviewerID a = Some u \<and> u \<noteq> ar_RequestorID a)"

text \<open>Every row is reviewed by another, and a loaded request agrees with the row it was read from.\<close>

definition load_ok :: "pglib \<Rightarrow> approvals \<Rightarrow> http_request \<Rightarrow> approval_request \<Rightarrow> bool" where
  "load_ok pg apps r ar \<longleftrightarrow>
     canonical_request pg r \<and> pg_uuid pg (ar_ID ar) = Some (ar_ID ar) \<and> ar_ID ar \<in> ar_ID ` set apps \<and>
     (\<forall>a\<in>set apps. ar_ID a = ar_ID ar \<longrightarrow> ar_RequestorID a = ar_RequestorID ar)"

definition approval_inv :: "pglib \<Rightarrow> approval_config \<Rightarrow> bool" where
  "approval_inv pg c \<longleftrightarrow>
     distinct (map ar_ID (ac_apps c)) \<and> (\<forall>a\<in>set (ac_apps c). reviewed_by_other a) \<and>
     (\<forall>q\<in>set (ac_loads c). load_ok pg (ac_apps c) (fst q) (snd q))"

lemma CreateApprovalRequest_apps:
  assumes "CreateApprovalRequest fails pg now i db ar apps = (res, apps')"
  shows "apps' = apps \<or> (\<exists>a. apps' = apps @ [a] \<and> ar_ID a = i \<and> ar_Status a = ar_Status ar \<and>
    i \<notin> ar_ID ` set apps)"
  using assms by (auto simp: CreateApprovalRequest_def Let_def split: if_splits option.splits)

lemma Approval_Create_apps:
  assumes "Approval_Create env flt r body db apps = (resp, apps')"
  shows "apps' = apps \<or> (\<exists>a. apps' = apps @ [a] \<and> ar_Status a = ApprovalPending \<and>
    ar_ID a \<notin> ar_ID ` set apps)"
  using assms by (auto simp: Approval_Create_def requested_approval_def split: option.splits if_splits prod.splits
      sum.splits dest!: CreateApprovalRequest_apps)

text \<open>An update of a row by a reviewer keeps identifiers and requesters.\<close>

lemma UpdateApprovalRequest_apps:
  assumes "UpdateApprovalRequest fails pg now ar apps = (res, apps')"
  shows "map (\<lambda>a. (ar_ID a, ar_RequestorID a)) apps' = map (\<lambda>a. (ar_ID a, ar_RequestorID a)) apps"
  using assms by (auto simp: UpdateApprovalRequest_def split: if_splits option.splits)

lemma UpdateApprovalRequest_reviewed:
  assumes "UpdateApprovalRequest fails pg now ar apps = (res, apps')"
    and "\<forall>a\<in>set apps. reviewed_by_other a"
    and "pg_uuid pg (ar_ID ar) = Some (ar_ID ar)" "ar_ReviewerID ar = Some u" "pg_uuid pg u = Some u"
    and "\<forall>a\<in>set apps. ar_ID a = ar_ID ar \<longrightarrow> ar_RequestorID a \<noteq> u"
    and "ar_Status ar \<in> {ApprovalApproved, ApprovalRejected, ApprovalApplied}"
  shows "\<forall>a\<in>set apps'. reviewed_by_other a"
proof (cases fails)
  case True
  then show ?thesis using assms(1,2) by (simp add: UpdateApprovalRequest_def)
next
  case False
  have "reviewed_by_other (if ar_ID a = ar_ID ar
      then a\<lparr>ar_Status := ar_Status ar, ar_ReviewerID := Some u, ar_ReviewNote := ar_ReviewNote ar,
             ar_ReviewedAt := ar_ReviewedAt ar, ar_UpdatedAt := now\<rparr> else a)" if "a \<in> set apps" for a
    using that assms(2,6,7) by (auto simp: reviewed_by_other_def)
  moreover have "apps' = map (\<lambda>a. if ar_ID a = ar_ID ar
      then a\<lparr>ar_Status := ar_Status ar, ar_ReviewerID := Some u, ar_ReviewNote := ar_ReviewNote ar,
             ar_ReviewedAt := ar_ReviewedAt ar, ar_UpdatedAt := now\<rparr> else a) apps"
    using False assms(1,3-5) by (simp add: UpdateApprovalRequest_def pg_uuid_null_def)
  ultimately show ?thesis by (simp only: list.set_map) blast
qed

lemma same_rows:
  assumes "map (\<lambda>a. (ar_ID a, ar_RequestorID a)) apps' = map (\<lambda>a. (ar_ID a, ar_RequestorID a)) apps"
  shows "ar_ID ` set apps' = ar_ID ` set apps"
    "(\<forall>a\<in>set apps'. ar_ID a = i \<longrightarrow> P (ar_RequestorID a)) \<longleftrightarrow> (\<forall>a\<in>set apps. ar_ID a = i \<longrightarrow> P (ar_RequestorID a))"
proof -
  have s: "(\<lambda>a. (ar_ID a, ar_RequestorID a)) ` set apps' = (\<lambda>a. (ar_ID a, ar_RequestorID a)) ` set apps"
    using arg_cong [OF assms, of set] by simp
  have "fst ` (\<lambda>a. (ar_ID a, ar_RequestorID a)) ` set xs = ar_ID ` set xs" for xs
    by (simp add: image_image)
  then show "ar_ID ` set apps' = ar_ID ` set apps"
    using s by metis
  have eq: "(\<forall>a\<in>set xs. ar_ID a = i \<longrightarrow> P (ar_RequestorID a)) \<longleftrightarrow>
      (\<forall>q\<in>(\<lambda>a. (ar_ID a, ar_RequestorID a)) ` set xs. fst q = i \<longrightarrow> P (snd q))" for xs
    by simp
  show "(\<forall>a\<in>set apps'. ar_ID a = i \<longrightarrow> P (ar_RequestorID a)) \<longleftrightarrow>
      (\<forall>a\<in>set apps. ar_ID a = i \<longrightarrow> P (ar_RequestorID a))"
    by (simp only: eq [of apps'] eq [of apps] s)
qed

lemma review_loaded_updates:
  assumes "review_loaded decode env flt r body ar db apps = (resp, db', apps')"
  shows "apps' = apps \<or> (\<exists>msg status res apps1. status \<in> {ApprovalApproved, ApprovalRejected} \<and>
    UpdateApprovalRequest (flt 0) (ae_pg env) (ae_dbnow env)
      (ar\<lparr>ar_ReviewerID := Some (GetUserID r), ar_ReviewNote := msg, ar_ReviewedAt := Some (ae_now env),
         ar_Status := status\<rparr>) apps = (res, apps1) \<and>
    (apps' = apps1 \<or> apps' = snd (UpdateApprovalRequest (flt 1) (ae_pg env) (ae_dbnow env)
      (ar\<lparr>ar_ReviewerID := Some (GetUserID r), ar_ReviewNote := msg, ar_ReviewedAt := Some (ae_now env),
         ar_Status := ApprovalApplied\<rparr>) apps1)))"
proof (cases "ar_Status ar = ApprovalPending \<and> ar_RequestorID ar \<noteq> GetUserID r \<and> body \<noteq> None \<and>
    rvr_Action (the body) \<in> {''approve'', ''reject''}")
  case False
  then show ?thesis
    using assms by (auto simp: review_loaded_def Let_def split: if_splits option.splits)
next
  case True
  then obtain req where body: "body = Some req" by auto
  define status where "status = (if rvr_Action req = ''approve'' then ApprovalApproved else ApprovalRejected)"
  define ar1 where "ar1 = ar\<lparr>ar_ReviewerID := Some (GetUserID r), ar_ReviewNote := rvr_Note req,
      ar_ReviewedAt := Some (ae_now env), ar_Status := status\<rparr>"
  obtain res apps1 where up: "UpdateApprovalRequest (flt 0) (ae_pg env) (ae_dbnow env) ar1 apps = (res, apps1)"
    by (rule prod.exhaust)
  have "apps' = apps1 \<or> apps' = snd (UpdateApprovalRequest (flt 1) (ae_pg env) (ae_dbnow env)
      (ar1\<lparr>ar_Status := ApprovalApplied\<rparr>) apps1)"
    using assms True up body
    by (simp add: review_loaded_def Let_def flip: status_def ar1_def split: sum.splits if_splits prod.splits)
  then show ?thesis
    using up by (intro disjI2 exI [of _ "rvr_Note req"] exI [of _ status] exI [of _ res] exI [of _ apps1])
      (auto simp: ar1_def status_def)
qed

text \<open>What a review writes to the requests: at most two updates by a user who is not the requester.\<close>

lemma review_loaded_apps:
  assumes "review_loaded decode env flt r body ar db apps = (resp, db', apps')"
    and inv: "\<forall>a\<in>set apps. reviewed_by_other a"
    and ids: "pg_uuid (ae_pg env) (ar_ID ar) = Some (ar_ID ar)" "canonical_request (ae_pg env) r"
    and req: "\<forall>a\<in>set apps. ar_ID a = ar_ID ar \<longrightarrow> ar_RequestorID a = ar_RequestorID ar"
  shows "(\<forall>a\<in>set apps'. reviewed_by_other a) \<and>
    map (\<lambda>a. (ar_ID a, ar_RequestorID a)) apps' = map (\<lambda>a. (ar_ID a, ar_RequestorID a)) apps"
proof (cases "apps' = apps")
  case True
  then show ?thesis using inv by simp
next
  case False
  let ?reviewed = "\<lambda>msg status. ar\<lparr>ar_ReviewerID := Some (GetUserID r), ar_ReviewNote := msg,
      ar_ReviewedAt := Some (ae_now env), ar_Status := status\<rparr>"
  have other: "ar_RequestorID ar \<noteq> GetUserID r"
    using assms(1) False by (auto simp: review_loaded_def Let_def split: if_splits)
  obtain msg status where status: "status \<in> {ApprovalApproved, ApprovalRejected}"
    and cases: "\<exists>res apps1. UpdateApprovalRequest (flt 0) (ae_pg env) (ae_dbnow env)
        (?reviewed msg status) apps = (res, apps1) \<and>
      (apps' = apps1 \<or> apps' = snd (UpdateApprovalRequest (flt 1) (ae_pg env) (ae_dbnow env)
        (?reviewed msg ApprovalApplied) apps1))"
    using review_loaded_updates [OF assms(1)] False by blast
  then obtain res apps1 where
    up: "UpdateApprovalRequest (flt 0) (ae_pg env) (ae_dbnow env) (?reviewed msg status) apps = (res, apps1)"
    and up': "apps' = apps1 \<or> apps' = snd (UpdateApprovalRequest (flt 1) (ae_pg env) (ae_dbnow env)
        (?reviewed msg ApprovalApplied) apps1)"
    by blast
  have user: "pg_uuid (ae_pg env) (GetUserID r) = Some (GetUserID r)"
    using ids(2) by (simp add: canonical_request_def)
  have "\<forall>a\<in>set apps. ar_ID a = ar_ID ar \<longrightarrow> ar_RequestorID a \<noteq> GetUserID r"
    using req other by auto
  moreover note rows1 = UpdateApprovalRequest_apps [OF up]
  ultimately have 1: "\<forall>a\<in>set apps1. reviewed_by_other a"
      "\<forall>a\<in>set apps1. ar_ID a = ar_ID ar \<longrightarrow> ar_RequestorID a \<noteq> GetUserID r"
    using UpdateApprovalRequest_reviewed [OF up inv, of "GetUserID r"] user ids(1) status
      same_rows(2) [OF rows1, of "ar_ID ar" "\<lambda>q. q \<noteq> GetUserID r"] by auto
  show ?thesis
  proof (cases "apps' = apps1")
    case True
    with 1 rows1 show ?thesis by simp
  next
    case False
    obtain res2 where up2: "UpdateApprovalRequest (flt 1) (ae_pg env) (ae_dbnow env)
        (?reviewed msg ApprovalApplied) apps1 = (res2, apps')"
      using up' False by (metis prod.collapse)
    show ?thesis
      using UpdateApprovalRequest_reviewed [OF up2 1(1), of "GetUserID r"] user ids(1) 1(2)
        UpdateApprovalRequest_apps [OF up2] rows1 by simp
  qed
qed

text \<open>The invariant, step by step.\<close>

lemma inv_create:
  assumes "Approval_Create env flt r body db (ac_apps c) = (resp, apps)" "approval_inv pg c"
  shows "approval_inv pg (c\<lparr>ac_apps := apps\<rparr>)"
  using Approval_Create_apps [OF assms(1)]
proof
  assume "apps = ac_apps c"
  with assms(2) show ?thesis by (simp add: approval_inv_def)
next
  assume "\<exists>a. apps = ac_apps c @ [a] \<and> ar_Status a = ApprovalPending \<and> ar_ID a \<notin> ar_ID ` set (ac_apps c)"
  then obtain a where a: "apps = ac_apps c @ [a]" "ar_Status a = ApprovalPending"
      "ar_ID a \<notin> ar_ID ` set (ac_apps c)" by blast
  have "reviewed_by_other a" using a(2) by (simp add: reviewed_by_other_def)
  moreover have "load_ok pg apps r ar" if "load_ok pg (ac_apps c) r ar" for r ar
    using that a(3) by (auto simp: load_ok_def a(1))
  ultimately show ?thesis
    using assms(2) a(3) by (simp add: approval_inv_def a(1))
qed

lemma inv_load:
  assumes "uuid_canonical pg" "canonical_request pg r"
    and "verifyApprovalOwnership fails pg r (ac_apps c) = Inr ar" "approval_inv pg c"
  shows "approval_inv pg (c\<lparr>ac_loads := (r, ar) # ac_loads c\<rparr>)"
proof -
  have "ar \<in> set (ac_apps c) \<and> pg_uuid pg (ar_ID ar) = Some (ar_ID ar)"
    using assms(1,3)
    by (auto simp: verifyApprovalOwnership_def GetApprovalRequest_def by_uuid_Inr Let_def uuid_canonical_def
        split: if_splits sum.splits dest!: find_SomeD)
  moreover have "ar_RequestorID a = ar_RequestorID ar"
    if "a \<in> set (ac_apps c)" "ar \<in> set (ac_apps c)" "ar_ID a = ar_ID ar" for a
    using that assms(4) by (auto simp: approval_inv_def distinct_map inj_on_def)
  ultimately have "load_ok pg (ac_apps c) r ar"
    using assms(2) unfolding load_ok_def by blast
  then show ?thesis
    using assms(4) by (simp add: approval_inv_def)
qed

lemma inv_review:
  assumes "(r, ar) \<in> set (ac_loads c)" "approval_inv (ae_pg env) c"
    and "review_loaded decode env flt r body ar (ac_db c) (ac_apps c) = (resp, db, apps)"
  shows "approval_inv (ae_pg env) (c\<lparr>ac_db := db, ac_apps := apps\<rparr>)"
proof -
  have load: "pg_uuid (ae_pg env) (ar_ID ar) = Some (ar_ID ar)" "canonical_request (ae_pg env) r"
      "\<forall>a\<in>set (ac_apps c). ar_ID a = ar_ID ar \<longrightarrow> ar_RequestorID a = ar_RequestorID ar"
    and inv: "\<forall>a\<in>set (ac_apps c). reviewed_by_other a"
    using assms(1,2) by (fastforce simp: approval_inv_def load_ok_def)+
  from review_loaded_apps [OF assms(3) inv load]
  have 1: "\<forall>a\<in>set apps. reviewed_by_other a"
    and rows: "map (\<lambda>a. (ar_ID a, ar_RequestorID a)) apps = map (\<lambda>a. (ar_ID a, ar_RequestorID a)) (ac_apps c)"
    by simp_all
  have "map ar_ID apps = map ar_ID (ac_apps c)"
    using arg_cong [OF rows, of "map fst"] by (simp add: o_def)
  moreover have "load_ok (ae_pg env) apps q a = load_ok (ae_pg env) (ac_apps c) q a" for q a
    using same_rows(1) [OF rows] same_rows(2) [OF rows, of "ar_ID a" "\<lambda>x. x = ar_RequestorID a"]
    by (simp add: load_ok_def)
  ultimately show ?thesis
    using assms(2) 1 by (simp add: approval_inv_def)
qed

lemma approval_steps_inv:
  assumes "approval_steps decode pg c c'" "uuid_canonical pg" "approval_inv pg c"
  shows "approval_inv pg c'"
  using assms(1)
proof (induction rule: rtranclp_induct)
  case base
  show ?case by (rule assms(3))
next
  case (step y z)
  have "approval_inv pg (y\<lparr>ac_db := db\<rparr>)" for db
    using step(3) by (simp add: approval_inv_def)
  with step(2,3) show ?case
    by (cases rule: approval_step.cases) (auto intro: inv_create inv_load [OF assms(2)] inv_review)
qed

text \<open>
  C3: the four eyes principle.  However requests, loads and reviews of any number of users interleave, and
  whatever the other components do to the flag tables and the database fails, a request that is approved,
  rejected or applied has a reviewer who is not its requester.
\<close>

theorem approvals_four_eyes:
  assumes "approval_steps decode pg \<lparr>ac_db = db, ac_apps = [], ac_loads = []\<rparr> c" "uuid_canonical pg"
    and "a \<in> set (ac_apps c)" "ar_Status a \<noteq> ApprovalPending"
  shows "\<exists>u. ar_ReviewerID a = Some u \<and> u \<noteq> ar_RequestorID a"
proof -
  have "approval_inv pg \<lparr>ac_db = db, ac_apps = [], ac_loads = []\<rparr>"
    by (simp add: approval_inv_def)
  from approval_steps_inv [OF assms(1,2) this] show ?thesis
    using assms(3,4) by (auto simp: approval_inv_def reviewed_by_other_def)
qed

subsection \<open>What an approval does\<close>

lemma upsert_existing:
  assumes "state_row pg st = Some r" "lookup_state (state_FlagID r) (state_EnvID r) db = Some old"
  shows "\<exists>st' db'. UpsertFlagState False pg now i st db = (Inr st', db')"
  using assms by (simp add: UpsertFlagState_def lookup_state_def Let_def)

lemma state_row_ID:
  "state_row pg st = Some r \<Longrightarrow> \<exists>i. state_row pg (st\<lparr>state_ID := j\<rparr>) = Some (r\<lparr>state_ID := i\<rparr>)"
  by (rule exI [of _ j]) (cases st, auto simp: state_row_def split: option.splits if_split_asm)

text \<open>The state a payload asks for, as it is written over an existing row.\<close>

lemma applyChange_existing:
  assumes "decode (ar_Payload ar) = Some s" "\<not> flt 1"
    and "state_row (ae_pg env) (s\<lparr>state_FlagID := ar_FlagID ar, state_EnvID := ar_EnvID ar\<rparr>) = Some r"
    and "lookup_state (state_FlagID r) (state_EnvID r) db = Some old"
  shows "\<exists>db' row. applyChange decode env flt r' ar db = (Inr (), db') \<and>
    lookup_state (state_FlagID r) (state_EnvID r) db' = Some row \<and> settings_of row = settings_of r"
proof -
  define st where "st = (case GetFlagState (flt 0) (ae_pg env) (ar_FlagID ar) (ar_EnvID ar) db of
      Inl e \<Rightarrow> s\<lparr>state_FlagID := ar_FlagID ar, state_EnvID := ar_EnvID ar\<rparr>
    | Inr existing \<Rightarrow> s\<lparr>state_FlagID := ar_FlagID ar, state_EnvID := ar_EnvID ar, state_ID := state_ID existing\<rparr>)"
  have "\<exists>i. state_row (ae_pg env) st = Some (r\<lparr>state_ID := i\<rparr>)"
  proof (cases "GetFlagState (flt 0) (ae_pg env) (ar_FlagID ar) (ar_EnvID ar) db")
    case (Inl e)
    then show ?thesis
      using assms(3) by (intro exI [of _ "state_ID r"]) (simp add: st_def)
  next
    case (Inr existing)
    then have "st = s\<lparr>state_FlagID := ar_FlagID ar, state_EnvID := ar_EnvID ar\<rparr>\<lparr>state_ID := state_ID existing\<rparr>"
      by (simp add: st_def)
    then show ?thesis using state_row_ID [OF assms(3)] by metis
  qed
  then obtain i where row: "state_row (ae_pg env) st = Some (r\<lparr>state_ID := i\<rparr>)" by blast
  obtain st' db1 where up: "UpsertFlagState (flt 1) (ae_pg env) (ae_dbnow env) (ae_newID env 1) st db = (Inr st', db1)"
    using upsert_existing [OF row, of db old "ae_dbnow env" "ae_newID env 1"] assms(2,4) by auto
  then obtain row' where "lookup_state (state_FlagID r) (state_EnvID r) db1 = Some row'"
      "settings_of row' = settings_of r"
    using states.upsert_here [OF up] row by (auto simp: settings_of_def)
  moreover have "\<exists>n a. applyChange decode env flt r' ar db = (Inr (), write_audit env flt n a db1)"
    using assms(1) up by (auto simp: applyChange_def Let_def simp flip: st_def split: sum.split)
  ultimately show ?thesis by auto
qed

definition set_status :: "gotime \<Rightarrow> approval_request \<Rightarrow> approvals \<Rightarrow> approvals" where
  "set_status now ar apps = map (\<lambda>a. if ar_ID a = ar_ID ar
     then a\<lparr>ar_Status := ar_Status ar, ar_ReviewerID := ar_ReviewerID ar, ar_ReviewNote := ar_ReviewNote ar,
            ar_ReviewedAt := ar_ReviewedAt ar, ar_UpdatedAt := now\<rparr> else a) apps"

lemma set_status_member:
  "a \<in> set apps \<Longrightarrow> ar_ID a = ar_ID ar \<Longrightarrow>
     \<exists>b\<in>set (set_status now ar apps). ar_ID b = ar_ID ar \<and> ar_Status b = ar_Status ar"
  unfolding set_status_def set_map by (rule rev_bexI, erule imageI) simp

lemma UpdateApprovalRequest_set:
  "pg_uuid pg (ar_ID ar) = Some (ar_ID ar) \<Longrightarrow> ar_ReviewerID ar = Some u \<Longrightarrow> pg_uuid pg u = Some u \<Longrightarrow>
     UpdateApprovalRequest False pg now ar apps = (Inr (), set_status now ar apps)"
  by (simp add: UpdateApprovalRequest_def pg_uuid_null_def set_status_def)

text \<open>Reviews on which nothing fails.\<close>

abbreviation "no_faults \<equiv> (\<lambda>n :: nat. False)"

lemma review_approves:
  assumes "ar_Status ar = ApprovalPending" "ar_RequestorID ar \<noteq> GetUserID r" "rvr_Action req = ''approve''"
    and "pg_uuid (ae_pg env) (ar_ID ar) = Some (ar_ID ar)" "canonical_request (ae_pg env) r"
    and "ar1 = ar\<lparr>ar_ReviewerID := Some (GetUserID r), ar_ReviewNote := rvr_Note req,
      ar_ReviewedAt := Some (ae_now env), ar_Status := ApprovalApproved\<rparr>"
    and "applyChange decode env no_faults r ar1 db = (Inr (), db')"
  shows "review_loaded decode env no_faults r (Some req) ar db apps =
    (Answer StatusOK (ar1\<lparr>ar_Status := ApprovalApplied\<rparr>), db',
     set_status (ae_dbnow env) (ar1\<lparr>ar_Status := ApprovalApplied\<rparr>) (set_status (ae_dbnow env) ar1 apps))"
  using assms by (simp add: review_loaded_def Let_def canonical_request_def UpdateApprovalRequest_set)

lemma review_rejects:
  assumes "ar_Status ar = ApprovalPending" "ar_RequestorID ar \<noteq> GetUserID r" "rvr_Action req = ''reject''"
    and "pg_uuid (ae_pg env) (ar_ID ar) = Some (ar_ID ar)" "canonical_request (ae_pg env) r"
    and "ar1 = ar\<lparr>ar_ReviewerID := Some (GetUserID r), ar_ReviewNote := rvr_Note req,
      ar_ReviewedAt := Some (ae_now env), ar_Status := ApprovalRejected\<rparr>"
  shows "review_loaded decode env no_faults r (Some req) ar db apps =
    (Answer StatusOK ar1, db, set_status (ae_dbnow env) ar1 apps)"
  using assms by (simp add: review_loaded_def Let_def canonical_request_def UpdateApprovalRequest_set)

lemma owned_approval:
  "verifyApprovalOwnership False pg r apps = Inr ar \<Longrightarrow> uuid_canonical pg \<Longrightarrow>
     ar \<in> set apps \<and> pg_uuid pg (ar_ID ar) = Some (ar_ID ar)"
  by (auto simp: verifyApprovalOwnership_def GetApprovalRequest_def by_uuid_Inr Let_def uuid_canonical_def
      split: if_splits sum.splits dest!: find_SomeD)

lemma approved_payload_applied:
  assumes "verifyApprovalOwnership False (ae_pg env) r apps = Inr ar" "uuid_canonical (ae_pg env)"
    and "canonical_request (ae_pg env) r" "ar_Status ar = ApprovalPending" "ar_RequestorID ar \<noteq> GetUserID r"
    and "rvr_Action req = ''approve''" "decode (ar_Payload ar) = Some s"
    and "state_row (ae_pg env) (s\<lparr>state_FlagID := ar_FlagID ar, state_EnvID := ar_EnvID ar\<rparr>) = Some new"
    and "lookup_state (state_FlagID new) (state_EnvID new) db = Some old"
  shows "\<exists>ar' db' apps' row. Approval_Review decode env no_faults r (Some req) db apps =
      (Answer StatusOK ar', db', apps') \<and> ar_Status ar' = ApprovalApplied \<and>
    (\<exists>a\<in>set apps'. ar_ID a = ar_ID ar \<and> ar_Status a = ApprovalApplied) \<and>
    lookup_state (state_FlagID new) (state_EnvID new) db' = Some row \<and> settings_of row = settings_of new"
proof -
  define ar1 where "ar1 = ar\<lparr>ar_ReviewerID := Some (GetUserID r), ar_ReviewNote := rvr_Note req,
      ar_ReviewedAt := Some (ae_now env), ar_Status := ApprovalApproved\<rparr>"
  have mem: "ar \<in> set apps" "pg_uuid (ae_pg env) (ar_ID ar) = Some (ar_ID ar)"
    using owned_approval [OF assms(1,2)] by simp_all
  obtain db' row where app: "applyChange decode env no_faults r ar1 db = (Inr (), db')"
      and row: "lookup_state (state_FlagID new) (state_EnvID new) db' = Some row" "settings_of row = settings_of new"
    using applyChange_existing [of decode ar1 s no_faults env new db old r] assms(7-9) by (auto simp: ar1_def)
  have "Approval_Review decode env no_faults r (Some req) db apps =
      (Answer StatusOK (ar1\<lparr>ar_Status := ApprovalApplied\<rparr>), db',
       set_status (ae_dbnow env) (ar1\<lparr>ar_Status := ApprovalApplied\<rparr>) (set_status (ae_dbnow env) ar1 apps))"
    using review_approves [OF assms(4,5,6) mem(2) assms(3) ar1_def app] assms(1)
    by (simp add: Approval_Review_def)
  moreover have "\<exists>a\<in>set (set_status (ae_dbnow env) (ar1\<lparr>ar_Status := ApprovalApplied\<rparr>)
      (set_status (ae_dbnow env) ar1 apps)). ar_ID a = ar_ID ar \<and> ar_Status a = ApprovalApplied"
    using set_status_member [OF mem(1), of ar1 "ae_dbnow env"]
      set_status_member [of _ "set_status (ae_dbnow env) ar1 apps" "ar1\<lparr>ar_Status := ApprovalApplied\<rparr>" "ae_dbnow env"]
    by (force simp: ar1_def)
  ultimately show ?thesis using row by auto
qed

text \<open>
  An approved change is applied exactly.  When nothing fails, the review of a pending request by another
  user of its organization writes the settings of the payload over the state of the flag and environment
  the request names, whichever organization they belong to, and ends applied.
\<close>

theorem approval_applies_payload:
  assumes "verifyApprovalOwnership False (ae_pg env) r apps = Inr ar" "uuid_canonical (ae_pg env)"
    and "canonical_request (ae_pg env) r" "ar_Status ar = ApprovalPending" "ar_RequestorID ar \<noteq> GetUserID r"
    and "rvr_Action req = ''approve''" "decode (ar_Payload ar) = Some s"
    and "state_row (ae_pg env) (s\<lparr>state_FlagID := ar_FlagID ar, state_EnvID := ar_EnvID ar\<rparr>) = Some new"
    and "lookup_state (state_FlagID new) (state_EnvID new) db = Some old"
  shows "\<exists>ar' db' apps' row. Approval_Review decode env no_faults r (Some req) db apps =
      (Answer StatusOK ar', db', apps') \<and> ar_Status ar' = ApprovalApplied \<and>
    (\<exists>a\<in>set apps'. ar_ID a = ar_ID ar \<and> ar_Status a = ApprovalApplied) \<and>
    lookup_state (state_FlagID new) (state_EnvID new) db' = Some row \<and> settings_of row = settings_of new"
  by (rule approved_payload_applied) (fact assms)+

text \<open>
  C15: a review is not atomic.  Two reviewers who both read the pending request can answer it differently, and
  both get 200: the first approves and the change is applied, the second rejects and the row ends rejected
  while the settings of the payload stay in force.
\<close>

theorem rejected_but_applied:
  assumes "verifyApprovalOwnership False (ae_pg env) r1 apps = Inr ar"
    and "verifyApprovalOwnership False (ae_pg env) r2 apps = Inr ar" "uuid_canonical (ae_pg env)"
    and "canonical_request (ae_pg env) r1" "canonical_request (ae_pg env) r2"
    and "ar_Status ar = ApprovalPending" "ar_RequestorID ar \<notin> {GetUserID r1, GetUserID r2}"
    and "decode (ar_Payload ar) = Some s"
    and "state_row (ae_pg env) (s\<lparr>state_FlagID := ar_FlagID ar, state_EnvID := ar_EnvID ar\<rparr>) = Some new"
    and "lookup_state (state_FlagID new) (state_EnvID new) db = Some old"
  shows "\<exists>resp1 resp2 db2 apps1 apps2 row.
    review_loaded decode env no_faults r1 (Some \<lparr>rvr_Action = ''approve'', rvr_Note = n1\<rparr>) ar db apps =
      (Answer StatusOK resp1, db2, apps1) \<and>
    review_loaded decode env no_faults r2 (Some \<lparr>rvr_Action = ''reject'', rvr_Note = n2\<rparr>) ar db2 apps1 =
      (Answer StatusOK resp2, db2, apps2) \<and>
    ar_Status resp1 = ApprovalApplied \<and> ar_Status resp2 = ApprovalRejected \<and>
    (\<forall>a\<in>set apps2. ar_ID a = ar_ID ar \<longrightarrow> ar_Status a = ApprovalRejected) \<and>
    lookup_state (state_FlagID new) (state_EnvID new) db2 = Some row \<and> settings_of row = settings_of new"
proof -
  define ar1 where "ar1 = ar\<lparr>ar_ReviewerID := Some (GetUserID r1), ar_ReviewNote := n1,
      ar_ReviewedAt := Some (ae_now env), ar_Status := ApprovalApproved\<rparr>"
  define ar2 where "ar2 = ar\<lparr>ar_ReviewerID := Some (GetUserID r2), ar_ReviewNote := n2,
      ar_ReviewedAt := Some (ae_now env), ar_Status := ApprovalRejected\<rparr>"
  have i: "pg_uuid (ae_pg env) (ar_ID ar) = Some (ar_ID ar)"
    using owned_approval [OF assms(1,3)] by blast
  obtain db2 row where app: "applyChange decode env no_faults r1 ar1 db = (Inr (), db2)"
      and row: "lookup_state (state_FlagID new) (state_EnvID new) db2 = Some row" "settings_of row = settings_of new"
    using applyChange_existing [of decode ar1 s no_faults env new db old r1] assms(8-10) by (auto simp: ar1_def)
  let ?note1 = "\<lparr>rvr_Action = ''approve'', rvr_Note = n1\<rparr>"
  let ?note2 = "\<lparr>rvr_Action = ''reject'', rvr_Note = n2\<rparr>"
  have ar1: "ar1 = ar\<lparr>ar_ReviewerID := Some (GetUserID r1), ar_ReviewNote := rvr_Note ?note1,
      ar_ReviewedAt := Some (ae_now env), ar_Status := ApprovalApproved\<rparr>"
    and ar2: "ar2 = ar\<lparr>ar_ReviewerID := Some (GetUserID r2), ar_ReviewNote := rvr_Note ?note2,
      ar_ReviewedAt := Some (ae_now env), ar_Status := ApprovalRejected\<rparr>"
    by (simp_all add: ar1_def ar2_def)
  have others: "ar_RequestorID ar \<noteq> GetUserID r1" "ar_RequestorID ar \<noteq> GetUserID r2"
    using assms(7) by auto
  have first: "rvr_Action ?note1 = ''approve''" and second: "rvr_Action ?note2 = ''reject''" by simp_all
  have "\<forall>a\<in>set (set_status (ae_dbnow env) ar2 apps1). ar_ID a = ar_ID ar \<longrightarrow> ar_Status a = ApprovalRejected"
    for apps1 by (auto simp: set_status_def ar2_def)
  note all = this
  have "ar_Status ar2 = ApprovalRejected" "ar_Status (ar1\<lparr>ar_Status := ApprovalApplied\<rparr>) = ApprovalApplied"
    by (simp_all add: ar2_def)
  with review_approves [OF assms(6) others(1) first i assms(4) ar1 app, of apps]
    review_rejects [OF assms(6) others(2) second i assms(5) ar2, of decode db2] all row
  show ?thesis by blast
qed

text \<open>
  Requests cross organizations.  Creating a request compares neither the flag nor the environment with
  the organization of the caller: two members of any organization can, one by asking and the other by
  approving, replace the settings of the flag of another one.
\<close>

theorem approval_crosses_tenants:
  assumes "uuid_canonical (ae_pg env)" "canonical_request (ae_pg env) r1" "canonical_request (ae_pg env) r2"
    and "GetUserID r1 \<noteq> GetUserID r2" "GetOrgID r2 = GetOrgID r1" "GetOrgID r1 \<in> set (fdb_Orgs db)"
    and "pg_uuid (ae_pg env) (GetOrgID r1) = Some (GetOrgID r1)"
    and "f \<in> set (fdb_Flags db)" "flag_OrgID f \<noteq> GetOrgID r1" "flag_ID f \<noteq> []"
    and "pg_uuid (ae_pg env) (flag_ID f) = Some (flag_ID f)"
    and "e \<in> set (fdb_Envs db)" "env_ID e \<noteq> []" "pg_uuid (ae_pg env) (env_ID e) = Some (env_ID e)"
    and "pg_raw (ae_pg env) payload = Some (Some raw)" "decode (Some raw) = Some s"
    and "state_row (ae_pg env) (s\<lparr>state_FlagID := flag_ID f, state_EnvID := env_ID e\<rparr>) = Some new"
    and "lookup_state (flag_ID f) (env_ID e) db = Some old"
    and "URLParam r2 ''approvalID'' = ae_newID env 0" "ae_newID env 0 \<noteq> []"
    and "pg_uuid (ae_pg env) (ae_newID env 0) = Some (ae_newID env 0)"
  shows "\<exists>ar apps ar' db' apps' row.
    Approval_Create env no_faults r1 (Some \<lparr>car_FlagID = flag_ID f, car_EnvID = env_ID e,
      car_ChangeType = ''toggle'', car_Payload = payload\<rparr>) db [] = (Answer StatusCreated ar, apps) \<and>
    Approval_Review decode env no_faults r2 (Some \<lparr>rvr_Action = ''approve'', rvr_Note = []\<rparr>) db apps =
      (Answer StatusOK ar', db', apps') \<and>
    lookup_state (flag_ID f) (env_ID e) db' = Some row \<and> settings_of row = settings_of new"
proof -
  define req where "req = \<lparr>car_FlagID = flag_ID f, car_EnvID = env_ID e, car_ChangeType = ''toggle'',
      car_Payload = payload\<rparr>"
  define ar where "ar = (requested_approval r1 req)\<lparr>ar_ID := ae_newID env 0, ar_CreatedAt := ae_dbnow env,
      ar_UpdatedAt := ae_dbnow env\<rparr>"
  have mem: "flag_ID f \<in> flag_ID ` set (fdb_Flags db)" "env_ID e \<in> env_ID ` set (fdb_Envs db)"
    using assms(8,12) by auto
  have create: "Approval_Create env no_faults r1 (Some req) db [] =
      (Answer StatusCreated ar, [ar\<lparr>ar_Payload := Some raw\<rparr>])"
    using assms(2,6,7,10,11,13-15) mem
    by (simp add: Approval_Create_def CreateApprovalRequest_def ar_def req_def requested_approval_def Let_def
        canonical_request_def)
  have own: "verifyApprovalOwnership False (ae_pg env) r2 [ar\<lparr>ar_Payload := Some raw\<rparr>] =
      Inr (ar\<lparr>ar_Payload := Some raw\<rparr>)"
    using assms(5,19-21)
    by (simp add: verifyApprovalOwnership_def GetApprovalRequest_def by_uuid_def ar_def requested_approval_def Let_def)
  have fields: "ar_Status (ar\<lparr>ar_Payload := Some raw\<rparr>) = ApprovalPending"
      "ar_RequestorID (ar\<lparr>ar_Payload := Some raw\<rparr>) = GetUserID r1"
      "ar_FlagID ar = flag_ID f" "ar_EnvID ar = env_ID e"
    by (simp_all add: ar_def requested_approval_def req_def)
  have keys: "state_FlagID new = flag_ID f" "state_EnvID new = env_ID e"
    using assms(11,14,17) by (auto simp: state_row_def split: option.splits if_split_asm)
  have "decode (ar_Payload (ar\<lparr>ar_Payload := Some raw\<rparr>)) = Some s"
      "state_row (ae_pg env) (s\<lparr>state_FlagID := ar_FlagID (ar\<lparr>ar_Payload := Some raw\<rparr>),
         state_EnvID := ar_EnvID (ar\<lparr>ar_Payload := Some raw\<rparr>)\<rparr>) = Some new"
      "lookup_state (state_FlagID new) (state_EnvID new) db = Some old"
      "ar_RequestorID (ar\<lparr>ar_Payload := Some raw\<rparr>) \<noteq> GetUserID r2"
      "rvr_Action \<lparr>rvr_Action = ''approve'', rvr_Note = []\<rparr> = ''approve''"
    using fields keys assms(4,16-18) by simp_all
  from approved_payload_applied [where decode = decode, OF own assms(1,3) fields(1) this(4,5,1-3)]
  obtain ar' db' apps' row where
    "Approval_Review decode env no_faults r2 (Some \<lparr>rvr_Action = ''approve'', rvr_Note = []\<rparr>) db
       [ar\<lparr>ar_Payload := Some raw\<rparr>] = (Answer StatusOK ar', db', apps')"
    "lookup_state (flag_ID f) (env_ID e) db' = Some row" "settings_of row = settings_of new"
    unfolding keys by blast
  then show ?thesis using create by (auto simp: req_def)
qed

subsection \<open>Runs\<close>

definition member :: "string \<Rightarrow> string \<Rightarrow> http_request" where
  "member org user = (demo_request RoleAdmin)\<lparr>req_URLParams := [(''approvalID'', ''i'')],
     req_Claims := Some \<lparr>cl_UserID = user, cl_OrgID = org, cl_Role = RoleAdmin, cl_Email = [],
       cl_DataRegion = [], cl_ID = []\<rparr>\<rparr>"

definition two_orgs :: flag_db where
  "two_orgs = demo_db\<lparr>fdb_Orgs := [''o'', ''x'']\<rparr>"

text \<open>A payload that switches the flag off; it names the organization \<open>org\<close>, the rest is zero.\<close>

definition demo_decode :: "string \<Rightarrow> rawjson \<Rightarrow> flag_state option" where
  "demo_decode org raw = Some (zero_flag_state\<lparr>state_OrgID := org\<rparr>)"

definition demo_change :: create_approval_request where
  "demo_change = \<lparr>car_FlagID = ''f'', car_EnvID = ''e'', car_ChangeType = ''toggle'', car_Payload = Some ''{}''\<rparr>"

definition demo_row :: "string \<Rightarrow> approval_request" where
  "demo_row org = (requested_approval (member org ''u1'') demo_change)\<lparr>ar_ID := ''i'', ar_CreatedAt := 1,
     ar_UpdatedAt := 1\<rparr>"

lemma demo_create:
  assumes "org \<in> {''o'', ''x''}"
  shows "Approval_Create demo_env no_faults (member org ''u1'') (Some demo_change) two_orgs [] =
    (Answer StatusCreated (demo_row org), [demo_row org])"
  using assms by (auto simp: Approval_Create_def CreateApprovalRequest_def pg_raw_def Let_def GetOrgID_def
      GetUserID_def demo_change_def demo_row_def member_def requested_approval_def two_orgs_def demo_defs)

lemma demo_own:
  "verifyApprovalOwnership fails demo_pg (member org u) [demo_row org] =
     (if fails then Inl (StatusNotFound, ''approval request not found'') else Inr (demo_row org))"
  by (simp add: verifyApprovalOwnership_def GetApprovalRequest_def by_uuid_def URLParam_def Let_def GetOrgID_def
      demo_row_def member_def requested_approval_def demo_pg_def)

lemma demo_payload:
  "org \<noteq> [] \<Longrightarrow> state_row demo_pg (zero_flag_state\<lparr>state_OrgID := org, state_FlagID := ''f'', state_EnvID := ''e''\<rparr>) =
     Some (zero_flag_state\<lparr>state_OrgID := org, state_FlagID := ''f'', state_EnvID := ''e''\<rparr>)"
  by (simp add: state_row_def pg_raw_def demo_pg_def zero_flag_state_def)

lemma demo_lookup: "lookup_state ''f'' ''e'' two_orgs = Some (demo_state ''e'')"
  by (simp add: lookup_state_def state_at_def two_orgs_def demo_defs)

lemma demo_row_simps [simp]:
  "ar_ID (demo_row org) = ''i''" "ar_FlagID (demo_row org) = ''f''" "ar_EnvID (demo_row org) = ''e''"
  "ar_Status (demo_row org) = ApprovalPending" "ar_RequestorID (demo_row org) = ''u1''"
  "ae_pg demo_env = demo_pg" "GetUserID (member org u) = u"
  by (simp_all add: demo_row_def requested_approval_def demo_change_def member_def GetUserID_def demo_env_def)

lemma demo_member: "u \<noteq> [] \<Longrightarrow> canonical_request demo_pg (member org u)"
  by (simp add: canonical_request_def demo_pg_def)

theorem approval_applies_payload_witness:
  "\<exists>ar' db' apps' row. Approval_Review (demo_decode ''x'') demo_env no_faults (member ''x'' ''u2'')
     (Some \<lparr>rvr_Action = ''approve'', rvr_Note = []\<rparr>) two_orgs [demo_row ''x''] = (Answer StatusOK ar', db', apps') \<and>
   lookup_state ''f'' ''e'' db' = Some row \<and> \<not> state_Enabled row"
proof -
  let ?new = "zero_flag_state\<lparr>state_OrgID := ''x'', state_FlagID := ''f'', state_EnvID := ''e''\<rparr>"
  have new: "state_FlagID ?new = ''f''" "state_EnvID ?new = ''e''" "\<not> state_Enabled ?new"
    by (simp_all add: zero_flag_state_def)
  show ?thesis
    using approval_applies_payload [of demo_env "member ''x'' ''u2''" "[demo_row ''x'']" "demo_row ''x''"
        "\<lparr>rvr_Action = ''approve'', rvr_Note = []\<rparr>" "demo_decode ''x''" "zero_flag_state\<lparr>state_OrgID := ''x''\<rparr>"
        ?new two_orgs "demo_state ''e''"] demo_own [of False "''x''" "''u2''"] demo_payload [of "''x''"] demo_lookup
      demo_canonical demo_member new
    by (force simp: demo_decode_def settings_of_def)
qed

lemma demo_new:
  "state_row demo_pg (zero_flag_state\<lparr>state_OrgID := ''x'', state_FlagID := ''f'', state_EnvID := ''e''\<rparr>) =
     Some (zero_flag_state\<lparr>state_OrgID := ''x'', state_FlagID := ''f'', state_EnvID := ''e''\<rparr>)"
  by (rule demo_payload) simp

theorem rejected_but_applied_witness:
  "\<exists>resp1 resp2 db2 apps1 apps2.
    review_loaded (demo_decode ''x'') demo_env no_faults (member ''x'' ''u2'')
      (Some \<lparr>rvr_Action = ''approve'', rvr_Note = []\<rparr>) (demo_row ''x'') two_orgs [demo_row ''x''] =
      (Answer StatusOK resp1, db2, apps1) \<and>
    review_loaded (demo_decode ''x'') demo_env no_faults (member ''x'' ''u3'')
      (Some \<lparr>rvr_Action = ''reject'', rvr_Note = []\<rparr>) (demo_row ''x'') db2 apps1 =
      (Answer StatusOK resp2, db2, apps2) \<and>
    ar_Status resp1 = ApprovalApplied \<and> ar_Status resp2 = ApprovalRejected"
proof -
  have own: "verifyApprovalOwnership False (ae_pg demo_env) (member ''x'' u) [demo_row ''x''] = Inr (demo_row ''x'')" for u
    by (simp add: demo_own)
  have users: "canonical_request (ae_pg demo_env) (member ''x'' ''u2'')"
      "canonical_request (ae_pg demo_env) (member ''x'' ''u3'')"
    by (simp_all add: demo_member)
  have new: "state_row (ae_pg demo_env)
      (zero_flag_state\<lparr>state_OrgID := ''x''\<rparr>\<lparr>state_FlagID := ar_FlagID (demo_row ''x''),
        state_EnvID := ar_EnvID (demo_row ''x'')\<rparr>) =
      Some (zero_flag_state\<lparr>state_OrgID := ''x'', state_FlagID := ''f'', state_EnvID := ''e''\<rparr>)"
    using demo_new by simp
  have old: "lookup_state (state_FlagID (zero_flag_state\<lparr>state_OrgID := ''x'', state_FlagID := ''f'', state_EnvID := ''e''\<rparr>))
      (state_EnvID (zero_flag_state\<lparr>state_OrgID := ''x'', state_FlagID := ''f'', state_EnvID := ''e''\<rparr>)) two_orgs =
      Some (demo_state ''e'')"
    using demo_lookup by simp
  have rest: "uuid_canonical (ae_pg demo_env)" "ar_Status (demo_row ''x'') = ApprovalPending"
      "ar_RequestorID (demo_row ''x'') \<notin> {GetUserID (member ''x'' ''u2''), GetUserID (member ''x'' ''u3'')}"
      "demo_decode ''x'' (ar_Payload (demo_row ''x'')) = Some (zero_flag_state\<lparr>state_OrgID := ''x''\<rparr>)"
    using demo_canonical by (simp_all add: demo_decode_def)
  show ?thesis
    using rejected_but_applied [where decode = "demo_decode ''x''", OF own own rest(1) users rest(2-4) new old,
        of "[]" "[]"] by blast
qed

theorem approval_crosses_tenants_witness:
  "flag_OrgID demo_flag = ''o'' \<and> (\<exists>ar apps ar' db' apps' row.
    Approval_Create demo_env no_faults (member ''x'' ''u1'') (Some demo_change) two_orgs [] =
      (Answer StatusCreated ar, apps) \<and>
    Approval_Review (demo_decode ''x'') demo_env no_faults (member ''x'' ''u2'')
      (Some \<lparr>rvr_Action = ''approve'', rvr_Note = []\<rparr>) two_orgs apps = (Answer StatusOK ar', db', apps') \<and>
    lookup_state ''f'' ''e'' db' = Some row \<and> \<not> state_Enabled row)"
proof -
  let ?s = "zero_flag_state\<lparr>state_OrgID := ''x''\<rparr>" and ?e = "demo_environment ''e''"
  let ?new = "?s\<lparr>state_FlagID := flag_ID demo_flag, state_EnvID := env_ID ?e\<rparr>"
  have ids: "flag_ID demo_flag = ''f''" "flag_OrgID demo_flag = ''o''" "env_ID ?e = ''e''" "ae_newID demo_env 0 = ''i''"
      "GetOrgID (member ''x'' u) = ''x''" "URLParam (member ''x'' u) ''approvalID'' = ''i''" for u
    by (simp_all add: demo_defs member_def GetOrgID_def URLParam_def)
  have tables: "''x'' \<in> set (fdb_Orgs two_orgs)" "demo_flag \<in> set (fdb_Flags two_orgs)" "?e \<in> set (fdb_Envs two_orgs)"
    by (simp_all add: two_orgs_def demo_db_def)
  have pg: "i \<noteq> [] \<Longrightarrow> pg_uuid demo_pg i = Some i" "pg_raw demo_pg (Some ''{}'') = Some (Some ''{}'')" for i
    by (simp_all add: demo_pg_def pg_raw_def)
  have new: "state_row demo_pg ?new = Some ?new"
    using demo_new by (simp add: ids)
  have off: "\<not> state_Enabled row" if "settings_of row = settings_of ?new" for row
    using that by (simp add: settings_of_def zero_flag_state_def)
  have change: "demo_change = \<lparr>car_FlagID = flag_ID demo_flag, car_EnvID = env_ID ?e, car_ChangeType = ''toggle'',
      car_Payload = Some ''{}''\<rparr>"
    by (simp add: demo_change_def ids)
  have dec: "demo_decode ''x'' (Some ''{}'') = Some ?s" by (simp add: demo_decode_def)
  show ?thesis
    using approval_crosses_tenants [of demo_env "member ''x'' ''u1''" "member ''x'' ''u2''" two_orgs demo_flag ?e
        "Some ''{}''" "''{}''" "demo_decode ''x''" ?s ?new "demo_state ''e''", folded change]
      demo_canonical demo_member tables pg new dec demo_lookup off
    by (simp add: ids) blast
qed

theorem approvals_four_eyes_witness:
  "\<exists>c. approval_steps (demo_decode ''x'') demo_pg \<lparr>ac_db = two_orgs, ac_apps = [], ac_loads = []\<rparr> c \<and>
     (\<exists>a\<in>set (ac_apps c). \<exists>u. ar_ReviewerID a = Some u \<and> u \<noteq> ar_RequestorID a)"
proof -
  let ?r1 = "member ''x'' ''u1''" and ?r2 = "member ''x'' ''u2''" and ?row = "demo_row ''x''"
  let ?c0 = "\<lparr>ac_db = two_orgs, ac_apps = [], ac_loads = []\<rparr>"
  let ?c1 = "\<lparr>ac_db = two_orgs, ac_apps = [?row], ac_loads = []\<rparr>"
  let ?c2 = "\<lparr>ac_db = two_orgs, ac_apps = [?row], ac_loads = [(?r2, ?row)]\<rparr>"
  let ?a = "?row\<lparr>ar_ReviewerID := Some (GetUserID ?r2), ar_ReviewNote := [],
      ar_ReviewedAt := Some (ae_now demo_env), ar_Status := ApprovalRejected\<rparr>"
  let ?c3 = "\<lparr>ac_db = two_orgs, ac_apps = set_status (ae_dbnow demo_env) ?a [?row], ac_loads = [(?r2, ?row)]\<rparr>"
  have users: "canonical_request demo_pg ?r1" "canonical_request demo_pg ?r2"
    by (simp_all add: demo_member)
  have "approval_step (demo_decode ''x'') demo_pg ?c0 ?c1"
    using approval_step.create [of demo_env demo_pg ?r1 no_faults "Some demo_change" ?c0 _ "[?row]"]
      demo_create [of "''x''"] users by simp
  moreover have "approval_step (demo_decode ''x'') demo_pg ?c1 ?c2"
    using approval_step.load [of demo_pg ?r2 False ?c1 ?row] demo_own [of False "''x''" "''u2''"] users by simp
  moreover have "approval_step (demo_decode ''x'') demo_pg ?c2 ?c3"
  proof -
    let ?no = "\<lparr>rvr_Action = ''reject'', rvr_Note = []\<rparr>"
    have "review_loaded (demo_decode ''x'') demo_env no_faults ?r2 (Some ?no) ?row two_orgs [?row] =
        (Answer StatusOK ?a, two_orgs, set_status (ae_dbnow demo_env) ?a [?row])"
      by (rule review_rejects) (use users in \<open>simp_all add: demo_pg_def\<close>)
    then show ?thesis
      using approval_step.review [of demo_env demo_pg ?r2 ?row ?c2 "demo_decode ''x''" no_faults "Some ?no"] by simp
  qed
  ultimately have run: "approval_steps (demo_decode ''x'') demo_pg ?c0 ?c3"
    by (meson converse_rtranclp_into_rtranclp rtranclp.rtrancl_refl)
  obtain a where a: "a \<in> set (ac_apps ?c3)" "ar_Status a \<noteq> ApprovalPending"
    by (auto simp: set_status_def)
  then show ?thesis
    using run approvals_four_eyes [OF run demo_canonical a] by blast
qed

end
