(* ===== verification/Webhooks.thy ===== *)
theory Webhooks
  imports CacheLaws
begin

text \<open>
  Registered webhooks: \<open>server/internal/domain/webhook.go\<close>, the URL checks of \<open>api/handlers/validate.go\<close>, the
  handlers of \<open>api/handlers/webhook.go\<close> with the check of \<open>orgguard.go\<close>, their answers in
  \<open>api/dto/webhook.go\<close> and their statements in \<open>store/postgres/store.go\<close>.  The tables stand beside the flag
  tables, whose audit log the handlers write.
\<close>

record webhook =
  wh_ID :: string
  wh_OrgID :: string
  wh_Name :: string
  wh_URL :: string
  wh_Secret :: string
  wh_Events :: "string list option"
  wh_Enabled :: bool
  wh_CreatedAt :: gotime
  wh_UpdatedAt :: gotime

record webhook_delivery =
  wd_ID :: string
  wd_WebhookID :: string
  wd_EventType :: string
  wd_Payload :: string
  wd_ResponseStatus :: int
  wd_ResponseBody :: string
  wd_DeliveredAt :: gotime
  wd_Success :: bool

record webhook_db =
  wdb_Webhooks :: "webhook list"
  wdb_Deliveries :: "webhook_delivery list"

subsection \<open>Where a webhook may point\<close>

text \<open>
  \<open>url_parse\<close> gives the scheme and the host name of \<open>url.Parse\<close>, \<open>url_ip\<close> is \<open>net.ParseIP\<close> and \<open>url_lookup\<close> is
  \<open>net.LookupIP\<close> of the moment of the check.  An address carries what the predicates of the \<open>net\<close> package say of
  it and its four bytes, if it is one of IPv4.
\<close>

record ip_addr =
  ip_special :: bool
  ip_v4 :: "32 word option"

record urllib =
  url_parse :: "string \<Rightarrow> (string \<times> string) option"
  url_ip :: "string \<Rightarrow> ip_addr option"
  url_lookup :: "string \<Rightarrow> ip_addr list option"

definition ipv4 :: "nat \<Rightarrow> nat \<Rightarrow> nat \<Rightarrow> nat \<Rightarrow> 32 word" where
  "ipv4 a b c d = word_of_nat (((a * 256 + b) * 256 + c) * 256 + d)"

definition privateNetworks :: "(32 word \<times> nat) list" where
  "privateNetworks = [(ipv4 10 0 0 0, 8), (ipv4 172 16 0 0, 12), (ipv4 192 168 0 0, 16), (ipv4 127 0 0 0, 8),
     (ipv4 169 254 0 0, 16), (ipv4 0 0 0 0, 8)]"

definition net_has :: "32 word \<times> nat \<Rightarrow> ip_addr \<Rightarrow> bool" where
  "net_has n ip = (case ip_v4 ip of None \<Rightarrow> False
     | Some a \<Rightarrow> drop_bit (32 - snd n) a = drop_bit (32 - snd n) (fst n))"

definition isPrivateIP :: "ip_addr \<Rightarrow> bool" where
  "isPrivateIP ip \<longleftrightarrow> ip_special ip \<or> list_ex (\<lambda>n. net_has n ip) privateNetworks"

definition ascii_lower :: "char \<Rightarrow> char" where
  "ascii_lower c = (if 65 \<le> (of_char c :: nat) \<and> (of_char c :: nat) \<le> 90 then char_of ((of_char c :: nat) + 32) else c)"

text \<open>Host names are compared as ASCII text.\<close>

definition validateWebhookURL :: "urllib \<Rightarrow> string \<Rightarrow> bool" where
  "validateWebhookURL u s =
     (case url_parse u s of
        None \<Rightarrow> False
      | Some (scheme, host) \<Rightarrow>
        (if scheme \<noteq> ''http'' \<and> scheme \<noteq> ''https'' then False
         else if map ascii_lower host = ''localhost'' \<or> has_suffix (map ascii_lower host) ''.local'' then False
         else
           (case url_ip u host of
              Some ip \<Rightarrow> \<not> isPrivateIP ip
            | None \<Rightarrow>
              (case url_lookup u host of
                 None \<Rightarrow> False
               | Some ips \<Rightarrow> list_all (\<lambda>ip. \<not> isPrivateIP ip) ips))))"

definition validateStringLength :: "string \<Rightarrow> nat \<Rightarrow> bool" where
  "validateStringLength s n \<longleftrightarrow> length s \<le> n"

subsection \<open>Statements\<close>

text \<open>A nil list of events is the SQL null the column refuses; lengths beyond the columns are among the faults.\<close>

definition CreateWebhook ::
    "bool \<Rightarrow> pglib \<Rightarrow> gotime \<Rightarrow> string \<Rightarrow> string list \<Rightarrow> webhook \<Rightarrow> webhook_db \<Rightarrow> webhook result \<times> webhook_db" where
  "CreateWebhook fails pg now newID orgs w db =
     (if fails then (Inl ErrInternal, db)
      else
        (case pg_uuid pg (wh_OrgID w) of
           None \<Rightarrow> (Inl ErrInternal, db)
         | Some org \<Rightarrow>
           (if org \<notin> set orgs \<or> wh_Events w = None \<or> newID \<in> wh_ID ` set (wdb_Webhooks db)
            then (Inl ErrInternal, db)
            else
              (let w' = w\<lparr>wh_ID := newID, wh_CreatedAt := now, wh_UpdatedAt := now\<rparr>
               in (Inr w', db\<lparr>wdb_Webhooks := wdb_Webhooks db @ [w'\<lparr>wh_OrgID := org\<rparr>]\<rparr>)))))"

definition GetWebhook :: "bool \<Rightarrow> pglib \<Rightarrow> string \<Rightarrow> webhook_db \<Rightarrow> webhook result" where
  "GetWebhook fails pg i db = by_uuid fails pg i (\<lambda>u. find (\<lambda>w. wh_ID w = u) (wdb_Webhooks db))"

definition ListWebhooks :: "bool \<Rightarrow> pglib \<Rightarrow> string \<Rightarrow> webhook_db \<Rightarrow> webhook list result" where
  "ListWebhooks fails pg orgID db =
     by_uuid fails pg orgID
       (\<lambda>u. Some (sort_key wh_CreatedAt (filter (\<lambda>w. wh_OrgID w = u) (wdb_Webhooks db))))"

definition UpdateWebhook :: "bool \<Rightarrow> pglib \<Rightarrow> gotime \<Rightarrow> webhook \<Rightarrow> webhook_db \<Rightarrow> unit result \<times> webhook_db" where
  "UpdateWebhook fails pg now w db =
     (if fails then (Inl ErrInternal, db)
      else
        (case pg_uuid pg (wh_ID w) of
           None \<Rightarrow> (Inl ErrInternal, db)
         | Some u \<Rightarrow>
           (if u \<in> wh_ID ` set (wdb_Webhooks db) \<and> wh_Events w = None then (Inl ErrInternal, db)
            else (Inr (), db\<lparr>wdb_Webhooks := map (\<lambda>x. if wh_ID x = u
                    then x\<lparr>wh_Name := wh_Name w, wh_URL := wh_URL w, wh_Secret := wh_Secret w,
                           wh_Events := wh_Events w, wh_Enabled := wh_Enabled w, wh_UpdatedAt := now\<rparr>
                    else x) (wdb_Webhooks db)\<rparr>))))"

definition DeleteWebhook :: "bool \<Rightarrow> pglib \<Rightarrow> string \<Rightarrow> webhook_db \<Rightarrow> unit result \<times> webhook_db" where
  "DeleteWebhook fails pg i db =
     (if fails then (Inl ErrInternal, db)
      else
        (case pg_uuid pg i of
           None \<Rightarrow> (Inl ErrInternal, db)
         | Some u \<Rightarrow> (Inr (), db\<lparr>wdb_Webhooks := filter (\<lambda>w. wh_ID w \<noteq> u) (wdb_Webhooks db),
             wdb_Deliveries := filter (\<lambda>d. wd_WebhookID d \<noteq> u) (wdb_Deliveries db)\<rparr>)))"

definition CreateWebhookDelivery ::
    "bool \<Rightarrow> pglib \<Rightarrow> gotime \<Rightarrow> string \<Rightarrow> webhook_delivery \<Rightarrow> webhook_db \<Rightarrow>
     webhook_delivery result \<times> webhook_db" where
  "CreateWebhookDelivery fails pg now newID d db =
     (if fails then (Inl ErrInternal, db)
      else
        (case (pg_uuid pg (wd_WebhookID d), pg_jsonb pg (wd_Payload d)) of
           (Some u, Some payload) \<Rightarrow>
             (if u \<notin> wh_ID ` set (wdb_Webhooks db) \<or> newID \<in> wd_ID ` set (wdb_Deliveries db)
              then (Inl ErrInternal, db)
              else
                (let d' = d\<lparr>wd_ID := newID, wd_DeliveredAt := now\<rparr>
                 in (Inr d', db\<lparr>wdb_Deliveries := wdb_Deliveries db @
                      [d'\<lparr>wd_WebhookID := u, wd_Payload := payload\<rparr>]\<rparr>)))
         | _ \<Rightarrow> (Inl ErrInternal, db)))"

definition ListWebhookDeliveries ::
    "bool \<Rightarrow> pglib \<Rightarrow> string \<Rightarrow> nat \<Rightarrow> webhook_db \<Rightarrow> webhook_delivery list result" where
  "ListWebhookDeliveries fails pg i limit db =
     by_uuid fails pg i (\<lambda>u. Some (take limit (rev (sort_key wd_DeliveredAt
       (filter (\<lambda>d. wd_WebhookID d = u) (wdb_Deliveries db))))))"

subsection \<open>Answers\<close>

record webhook_response =
  whr_ID :: string
  whr_Name :: string
  whr_URL :: string
  whr_HasSecret :: bool
  whr_Events :: "string list"
  whr_Enabled :: bool
  whr_CreatedAt :: gotime
  whr_UpdatedAt :: gotime

definition WebhookFromDomain :: "webhook \<Rightarrow> webhook_response" where
  "WebhookFromDomain w = \<lparr>whr_ID = wh_ID w, whr_Name = wh_Name w, whr_URL = wh_URL w,
     whr_HasSecret = (wh_Secret w \<noteq> []), whr_Events = (case wh_Events w of None \<Rightarrow> [] | Some es \<Rightarrow> es),
     whr_Enabled = wh_Enabled w, whr_CreatedAt = wh_CreatedAt w, whr_UpdatedAt = wh_UpdatedAt w\<rparr>"

record webhook_delivery_response =
  wdr_ID :: string
  wdr_EventType :: string
  wdr_ResponseStatus :: int
  wdr_Success :: bool
  wdr_DeliveredAt :: gotime

definition WebhookDeliveryFromDomain :: "webhook_delivery \<Rightarrow> webhook_delivery_response" where
  "WebhookDeliveryFromDomain d = \<lparr>wdr_ID = wd_ID d, wdr_EventType = wd_EventType d, wdr_ResponseStatus = wd_ResponseStatus d,
     wdr_Success = wd_Success d, wdr_DeliveredAt = wd_DeliveredAt d\<rparr>"

subsection \<open>Handlers\<close>

definition verifyWebhookOwnership ::
    "bool \<Rightarrow> pglib \<Rightarrow> http_request \<Rightarrow> webhook_db \<Rightarrow> (nat \<times> string) + webhook" where
  "verifyWebhookOwnership fails pg r db =
     (let webhookID = URLParam r ''webhookID''
      in if webhookID = [] then Inl (StatusBadRequest, ''webhook ID is required'')
         else
           (case GetWebhook fails pg webhookID db of
              Inl e \<Rightarrow> Inl (StatusNotFound, ''webhook not found'')
            | Inr w \<Rightarrow>
                if wh_OrgID w \<noteq> GetOrgID r then Inl (StatusNotFound, ''webhook not found'') else Inr w))"

text \<open>\<open>js\<close> is \<open>json.Marshal\<close> of a webhook, which includes the secret.\<close>

definition webhook_entry ::
    "http_request \<Rightarrow> string \<Rightarrow> string \<Rightarrow> rawjson \<Rightarrow> rawjson \<Rightarrow> audit_entry" where
  "webhook_entry r action i before after =
     zero_audit_entry\<lparr>au_OrgID := GetOrgID r, au_ActorID := Some (GetUserID r), au_ActorType := ''user'',
       au_Action := action, au_ResourceType := ''webhook'', au_ResourceID := Some i, au_BeforeState := before,
       au_AfterState := after, au_IPAddress := req_RemoteAddr r, au_UserAgent := req_Header r ''User-Agent''\<rparr>"

record create_webhook_request =
  cwr_Name :: string
  cwr_URL :: string
  cwr_Secret :: string
  cwr_Events :: "string list option"

definition Webhook_Create ::
    "api_env \<Rightarrow> urllib \<Rightarrow> (webhook \<Rightarrow> string) \<Rightarrow> faults \<Rightarrow> http_request \<Rightarrow> create_webhook_request option \<Rightarrow>
     flag_db \<Rightarrow> webhook_db \<Rightarrow> webhook_response response \<times> flag_db \<times> webhook_db" where
  "Webhook_Create env u js flt r body db wdb =
     (case body of
        None \<Rightarrow> (Refuse StatusBadRequest ''invalid request body'', db, wdb)
      | Some req \<Rightarrow>
        (if cwr_Name req = [] \<or> cwr_URL req = []
         then (Refuse StatusBadRequest ''name and url are required'', db, wdb)
         else if \<not> validateWebhookURL u (cwr_URL req)
         then (Refuse StatusBadRequest ''url must use http or https scheme'', db, wdb)
         else if \<not> validateStringLength (cwr_Name req) 255
         then (Refuse StatusBadRequest ''name must be at most 255 characters'', db, wdb)
         else
           (case CreateWebhook (flt 0) (ae_pg env) (ae_dbnow env) (ae_newID env 0) (fdb_Orgs db)
                   \<lparr>wh_ID = [], wh_OrgID = GetOrgID r, wh_Name = cwr_Name req, wh_URL = cwr_URL req,
                    wh_Secret = cwr_Secret req, wh_Events = cwr_Events req, wh_Enabled = True,
                    wh_CreatedAt = 0, wh_UpdatedAt = 0\<rparr> wdb of
              (Inl e, wdb1) \<Rightarrow> (Refuse StatusInternalServerError ''failed to create webhook'', db, wdb1)
            | (Inr w, wdb1) \<Rightarrow>
                (Answer StatusCreated (WebhookFromDomain w),
                 write_audit env flt 1 (webhook_entry r ''webhook.created'' (wh_ID w) None (Some (js w))) db,
                 wdb1))))"

definition Webhook_List ::
    "api_env \<Rightarrow> faults \<Rightarrow> http_request \<Rightarrow> (string \<Rightarrow> string) \<Rightarrow> webhook_db \<Rightarrow>
     webhook_response paginated_response response" where
  "Webhook_List env flt r query wdb =
     (case ListWebhooks (flt 0) (ae_pg env) (GetOrgID r) wdb of
        Inl e \<Rightarrow> Refuse StatusInternalServerError ''failed to list webhooks''
      | Inr ws \<Rightarrow>
        (let p = ParsePagination query
         in case Paginate (map WebhookFromDomain ws) p of
              (page, n) \<Rightarrow> Answer StatusOK (NewPaginatedResponse page n (pp_Limit p) (pp_Offset p))))"

definition Webhook_Get :: "api_env \<Rightarrow> faults \<Rightarrow> http_request \<Rightarrow> webhook_db \<Rightarrow> webhook_response response" where
  "Webhook_Get env flt r wdb =
     (case verifyWebhookOwnership (flt 0) (ae_pg env) r wdb of
        Inl (c, msg) \<Rightarrow> Refuse c msg
      | Inr w \<Rightarrow> Answer StatusOK (WebhookFromDomain w))"

record update_webhook_request =
  uwr_Name :: "string option"
  uwr_URL :: "string option"
  uwr_Secret :: "string option"
  uwr_Events :: "string list option"
  uwr_Enabled :: "bool option"

definition updated_webhook :: "update_webhook_request \<Rightarrow> webhook \<Rightarrow> webhook" where
  "updated_webhook req w =
     w\<lparr>wh_Name := (case uwr_Name req of None \<Rightarrow> wh_Name w | Some x \<Rightarrow> x),
       wh_URL := (case uwr_URL req of None \<Rightarrow> wh_URL w | Some x \<Rightarrow> x),
       wh_Secret := (case uwr_Secret req of None \<Rightarrow> wh_Secret w | Some x \<Rightarrow> x),
       wh_Events := (case uwr_Events req of None \<Rightarrow> wh_Events w | Some x \<Rightarrow> Some x),
       wh_Enabled := (case uwr_Enabled req of None \<Rightarrow> wh_Enabled w | Some x \<Rightarrow> x)\<rparr>"

text \<open>The state before the update is marshalled after the fields were overwritten.\<close>

definition Webhook_Update ::
    "api_env \<Rightarrow> (webhook \<Rightarrow> string) \<Rightarrow> faults \<Rightarrow> http_request \<Rightarrow> update_webhook_request option \<Rightarrow>
     flag_db \<Rightarrow> webhook_db \<Rightarrow> webhook_response response \<times> flag_db \<times> webhook_db" where
  "Webhook_Update env js flt r body db wdb =
     (case verifyWebhookOwnership (flt 0) (ae_pg env) r wdb of
        Inl (c, msg) \<Rightarrow> (Refuse c msg, db, wdb)
      | Inr existing \<Rightarrow>
        (case body of
           None \<Rightarrow> (Refuse StatusBadRequest ''invalid request body'', db, wdb)
         | Some req \<Rightarrow>
           (let w = updated_webhook req existing
            in case UpdateWebhook (flt 1) (ae_pg env) (ae_dbnow env) w wdb of
                 (Inl e, wdb1) \<Rightarrow> (Refuse StatusInternalServerError ''failed to update webhook'', db, wdb1)
               | (Inr _, wdb1) \<Rightarrow>
                   (Answer StatusOK (WebhookFromDomain w),
                    write_audit env flt 2 (webhook_entry r ''webhook.updated'' (wh_ID w) (Some (js w)) (Some (js w))) db,
                    wdb1))))"

definition Webhook_Delete ::
    "api_env \<Rightarrow> (webhook \<Rightarrow> string) \<Rightarrow> faults \<Rightarrow> http_request \<Rightarrow> flag_db \<Rightarrow> webhook_db \<Rightarrow>
     unit response \<times> flag_db \<times> webhook_db" where
  "Webhook_Delete env js flt r db wdb =
     (case verifyWebhookOwnership (flt 0) (ae_pg env) r wdb of
        Inl (c, msg) \<Rightarrow> (Refuse c msg, db, wdb)
      | Inr w \<Rightarrow>
        (case DeleteWebhook (flt 1) (ae_pg env) (wh_ID w) wdb of
           (Inl e, wdb1) \<Rightarrow> (Refuse StatusInternalServerError ''failed to delete webhook'', db, wdb1)
         | (Inr _, wdb1) \<Rightarrow>
             (Answer StatusNoContent (),
              write_audit env flt 2 (webhook_entry r ''webhook.deleted'' (wh_ID w) (Some (js w)) None) db, wdb1)))"

definition Webhook_ListDeliveries ::
    "api_env \<Rightarrow> faults \<Rightarrow> http_request \<Rightarrow> (string \<Rightarrow> string) \<Rightarrow> webhook_db \<Rightarrow>
     webhook_delivery_response paginated_response response" where
  "Webhook_ListDeliveries env flt r query wdb =
     (case verifyWebhookOwnership (flt 0) (ae_pg env) r wdb of
        Inl (c, msg) \<Rightarrow> Refuse c msg
      | Inr w \<Rightarrow>
        (case ListWebhookDeliveries (flt 1) (ae_pg env) (wh_ID w) 50 wdb of
           Inl e \<Rightarrow> Refuse StatusInternalServerError ''failed to list deliveries''
         | Inr ds \<Rightarrow>
           (let p = ParsePagination query
            in case Paginate (map WebhookDeliveryFromDomain ds) p of
                 (page, n) \<Rightarrow> Answer StatusOK (NewPaginatedResponse page n (pp_Limit p) (pp_Offset p)))))"

end
