(* ===== verification/WebhookDispatch.thy ===== *)
theory WebhookDispatch
  imports Webhooks
begin

text \<open>
  Delivery of flag changes to webhooks: the backoff of \<open>server/internal/retry/backoff.go\<close>, and
  \<open>webhook/notifier.go\<close> and \<open>webhook/dispatcher.go\<close>.  What the outside answers is a parameter of a
  delivery: for each attempt the answer of the HTTP client, and whether the context was found cancelled while
  waiting for it.
\<close>

subsection \<open>Backoff\<close>

definition DefaultBase :: duration where "DefaultBase = 200 * millisecond"
definition DefaultFactor :: int where "DefaultFactor = 2"
definition DefaultCap :: duration where "DefaultCap = 30 * second"

fun backoff_loop :: "nat \<Rightarrow> duration \<Rightarrow> int \<Rightarrow> duration \<Rightarrow> duration" where
  "backoff_loop 0 backoff factor cap = backoff"
| "backoff_loop (Suc n) backoff factor cap =
     (let b = wrap64 (backoff * factor) in if cap < b then cap else backoff_loop n b factor cap)"

text \<open>\<open>rnd n\<close> is \<open>rand.Int64N(n)\<close>, which panics unless \<open>n\<close> is positive; a panic is \<open>None\<close>.\<close>

definition JitteredBackoff ::
    "(int \<Rightarrow> int) \<Rightarrow> int \<Rightarrow> duration \<Rightarrow> int \<Rightarrow> duration \<Rightarrow> duration option" where
  "JitteredBackoff rnd attempt base factor cap =
     (let attempt = (if attempt < 1 then 1 else attempt);
          backoff = backoff_loop (nat (attempt - 1)) base factor cap;
          backoff = (if cap < backoff then cap else backoff);
          n = go_div backoff 2
      in if n \<le> 0 then None else Some (wrap64 (backoff + rnd n)))"

lemma backoff_loop_power:
  assumes "0 \<le> b" "1 \<le> factor" "b \<le> cap" "cap * factor < 2 ^ 63"
  shows "backoff_loop n b factor cap = min cap (b * factor ^ n)"
  using assms
proof (induction n arbitrary: b)
  case (Suc n)
  have "b * factor \<le> cap * factor" "0 \<le> b * factor"
    using Suc.prems by (simp_all add: mult_right_mono)
  then have wrap: "wrap64 (b * factor) = b * factor"
    using Suc.prems(4) by (intro wrap64_id) (simp add: int64_range_def)
  show ?case
  proof (cases "cap < b * factor")
    case True
    have "b * factor * 1 \<le> b * factor * factor ^ n"
      using Suc.prems \<open>0 \<le> b * factor\<close> by (intro mult_left_mono) simp_all
    with True wrap show ?thesis by (simp add: mult.assoc)
  next
    case False
    with Suc.IH [of "b * factor"] Suc.prems \<open>0 \<le> b * factor\<close> wrap show ?thesis by (simp add: mult.assoc)
  qed
qed simp

text \<open>
  The backoff is exponential, capped and jittered by less than half.  Unless the capped backoff is below
  two nanoseconds, where it panics, the delay before retry \<open>n\<close> lies between the capped power and one and
  a half times it.
\<close>

theorem JitteredBackoff_bounds:
  assumes "\<And>n. 0 < n \<Longrightarrow> 0 \<le> rnd n \<and> rnd n < n"
    and "2 \<le> base" "1 \<le> factor" "base \<le> cap" "cap * factor < 2 ^ 62"
  shows "\<exists>d. JitteredBackoff rnd (int n + 1) base factor cap = Some d \<and>
    min cap (base * factor ^ n) \<le> d \<and> 2 * d < 3 * min cap (base * factor ^ n)"
proof -
  define b where "b = min cap (base * factor ^ n)"
  have "base * 1 \<le> base * factor ^ n" using assms(2,3) by (intro mult_left_mono) simp_all
  then have "2 \<le> base * factor ^ n" using assms(2) by linarith
  then have b: "2 \<le> b" "b \<le> cap" using assms(2,4) by (simp_all add: b_def)
  have "cap * 1 \<le> cap * factor" using assms(2-4) by (intro mult_left_mono) simp_all
  then have small: "b < 2 ^ 62" using assms(5) b(2) by simp
  have loop: "backoff_loop n base factor cap = b"
    unfolding b_def by (rule backoff_loop_power) (use assms in auto)
  have half: "0 < b div 2" "b div 2 * 2 \<le> b" using b by auto
  have r: "0 \<le> rnd (b div 2)" "rnd (b div 2) < b div 2" using assms(1) [OF half(1)] by auto
  have "wrap64 (b + rnd (b div 2)) = b + rnd (b div 2)"
    using r half small b(1) by (intro wrap64_id) (simp add: int64_range_def)
  then have d: "JitteredBackoff rnd (int n + 1) base factor cap = Some (b + rnd (b div 2))"
    using loop b half by (simp add: JitteredBackoff_def)
  have "2 * (b + rnd (b div 2)) < 3 * b"
  proof -
    have "2 * rnd (b div 2) < 2 * (b div 2)" using r(2) by simp
    then have "2 * rnd (b div 2) < b" using half(2) by simp
    then show ?thesis by simp
  qed
  then show ?thesis using d r unfolding b_def by auto
qed

lemma default_backoff:
  assumes "\<And>n. 0 < n \<Longrightarrow> 0 \<le> rnd n \<and> rnd n < n"
  shows "\<exists>d. JitteredBackoff rnd (int n + 1) DefaultBase DefaultFactor DefaultCap = Some d \<and> d < 45 * second"
proof -
  obtain d where "JitteredBackoff rnd (int n + 1) DefaultBase DefaultFactor DefaultCap = Some d"
      "2 * d < 3 * min DefaultCap (DefaultBase * DefaultFactor ^ n)"
    using JitteredBackoff_bounds [OF assms, of DefaultBase DefaultFactor DefaultCap n]
    by (auto simp: DefaultBase_def DefaultFactor_def DefaultCap_def go_simps)
  moreover have "min DefaultCap (DefaultBase * DefaultFactor ^ n) \<le> DefaultCap" by simp
  ultimately show ?thesis by (auto simp: DefaultCap_def go_simps)
qed

theorem JitteredBackoff_bounds_witness:
  "\<exists>d. JitteredBackoff (\<lambda>n. n - 1) (int 3 + 1) DefaultBase DefaultFactor DefaultCap = Some d \<and>
     1600 * millisecond \<le> d \<and> 2 * d < 3 * (1600 * millisecond)"
  using JitteredBackoff_bounds [of "\<lambda>n. n - 1" DefaultBase DefaultFactor DefaultCap 3]
  by (simp add: DefaultBase_def DefaultFactor_def DefaultCap_def go_simps)

subsection \<open>Events and the queue\<close>

record wh_event =
  ev_Type :: string
  ev_EnvID :: string
  ev_FlagID :: string
  ev_Action :: string
  ev_OrgID :: string
  ev_SentAt :: gotime

definition ResolveOrgIDByEnvID :: "faults \<Rightarrow> pglib \<Rightarrow> string \<Rightarrow> flag_db \<Rightarrow> string result" where
  "ResolveOrgIDByEnvID flt pg envID db =
     by_uuid (flt 0) pg envID
       (\<lambda>u. case find (\<lambda>e. env_ID e = u) (fdb_Envs db) of
              None \<Rightarrow> None
            | Some e \<Rightarrow> map_option prj_OrgID (find (\<lambda>p. prj_ID p = env_ProjectID e) (fdb_Projects db)))"

text \<open>The queue holds 256 events; one more is dropped.\<close>

definition Enqueue :: "wh_event \<Rightarrow> wh_event list \<Rightarrow> wh_event list" where
  "Enqueue evt q = (if length q < 256 then q @ [evt] else q)"

definition change_event :: "gotime \<Rightarrow> string \<Rightarrow> flag_change \<Rightarrow> wh_event" where
  "change_event now org ch = \<lparr>ev_Type = ''flag.'' @ ch_Action ch, ev_EnvID = ch_EnvID ch, ev_FlagID = ch_FlagID ch,
     ev_Action = ch_Action ch, ev_OrgID = org, ev_SentAt = now\<rparr>"

definition NotifyFlagChange ::
    "faults \<Rightarrow> pglib \<Rightarrow> gotime \<Rightarrow> flag_db \<Rightarrow> flag_change \<Rightarrow> wh_event list \<Rightarrow> wh_event list" where
  "NotifyFlagChange flt pg now db ch q =
     (let orgID = (case ResolveOrgIDByEnvID flt pg (ch_EnvID ch) db of Inl e \<Rightarrow> [] | Inr org \<Rightarrow> org)
      in Enqueue (change_event now orgID ch) q)"

subsection \<open>Dispatching\<close>

fun eventMatches :: "string list \<Rightarrow> string \<Rightarrow> bool" where
  "eventMatches [] eventType = False"
| "eventMatches (s # subscribed) eventType = (s = eventType \<or> s = ''*'' \<or> eventMatches subscribed eventType)"

text \<open>\<open>room\<close> is the number of works handed over before the context ends.\<close>

definition dispatch ::
    "bool \<Rightarrow> pglib \<Rightarrow> nat \<Rightarrow> wh_event \<Rightarrow> webhook_db \<Rightarrow> (webhook \<times> wh_event) list" where
  "dispatch fails pg room evt wdb =
     (case ListWebhooks fails pg (ev_OrgID evt) wdb of
        Inl e \<Rightarrow> []
      | Inr webhooks \<Rightarrow> take room
          (map (\<lambda>w. (w, evt))
            (filter (\<lambda>w. wh_Enabled w \<and> eventMatches (slice (wh_Events w)) (ev_Type evt)) webhooks)))"

lemma eventMatches_iff: "eventMatches es t \<longleftrightarrow> t \<in> set es \<or> ''*'' \<in> set es"
  by (induction es) auto

lemma dispatch_Inr:
  assumes "(w, evt') \<in> set (dispatch fails pg room evt wdb)"
  shows "evt' = evt" "w \<in> set (wdb_Webhooks wdb)" "wh_Enabled w" "pg_uuid pg (ev_OrgID evt) = Some (wh_OrgID w)"
    "ev_Type evt \<in> set (slice (wh_Events w)) \<or> ''*'' \<in> set (slice (wh_Events w))"
proof -
  obtain ws where ws: "ListWebhooks fails pg (ev_OrgID evt) wdb = Inr ws"
    using assms by (cases "ListWebhooks fails pg (ev_OrgID evt) wdb") (auto simp: dispatch_def)
  then obtain u where u: "pg_uuid pg (ev_OrgID evt) = Some u"
      "ws = sort_key wh_CreatedAt (filter (\<lambda>w. wh_OrgID w = u) (wdb_Webhooks wdb))"
    by (auto simp: ListWebhooks_def by_uuid_Inr)
  have "evt' = evt \<and> w \<in> set ws \<and> wh_Enabled w \<and> eventMatches (slice (wh_Events w)) (ev_Type evt)"
    using assms ws by (auto simp: dispatch_def dest!: in_set_takeD)
  with u show "evt' = evt" "w \<in> set (wdb_Webhooks wdb)" "wh_Enabled w" "pg_uuid pg (ev_OrgID evt) = Some (wh_OrgID w)"
      "ev_Type evt \<in> set (slice (wh_Events w)) \<or> ''*'' \<in> set (slice (wh_Events w))"
    by (auto simp: eventMatches_iff)
qed

subsection \<open>Delivering\<close>

record wh_request =
  wrq_URL :: string
  wrq_Body :: string
  wrq_Signature :: "string option"

definition sign :: "(string \<Rightarrow> string \<Rightarrow> string) \<Rightarrow> string \<Rightarrow> string \<Rightarrow> string" where
  "sign hmac payload secret = ''sha256='' @ hmac secret payload"

text \<open>
  The attempts still to be made, with the status and body of the last answer; the result has the number of
  requests sent.  Whether the context ends while waiting makes no difference of its own: the \<open>break\<close> leaves
  only the \<open>select\<close>, and the attempt that follows overwrites what was noted.
\<close>

fun attempts_loop ::
    "(nat \<Rightarrow> string + nat \<times> string) \<Rightarrow> nat list \<Rightarrow> nat \<Rightarrow> string \<Rightarrow> nat \<times> nat \<times> string \<times> bool" where
  "attempts_loop answers [] status body = (0, status, body, False)"
| "attempts_loop answers (a # rest) status body =
     (case answers a of
        Inl e \<Rightarrow> (case attempts_loop answers rest 0 e of (n, result) \<Rightarrow> (Suc n, result))
      | Inr (code, text) \<Rightarrow>
          (let got = take 4096 text
           in if 200 \<le> code \<and> code < 300 then (1, code, got, True)
              else if 400 \<le> code \<and> code < 500 then (1, code, got, False)
              else (case attempts_loop answers rest code got of (n, result) \<Rightarrow> (Suc n, result))))"

definition maxRetries :: nat where "maxRetries = 3"

text \<open>
  A delivery gives the requests sent, all the same, and the tables with its record.  A URL of which no request
  can be made ends it without a record.  \<open>js\<close> is \<open>json.Marshal\<close> of the event.
\<close>

definition deliver ::
    "(string \<Rightarrow> string \<Rightarrow> string) \<Rightarrow> (wh_event \<Rightarrow> string) \<Rightarrow> (string \<Rightarrow> bool) \<Rightarrow>
     (nat \<Rightarrow> string + nat \<times> string) \<Rightarrow> bool \<Rightarrow> pglib \<Rightarrow> gotime \<Rightarrow> string \<Rightarrow> webhook \<Rightarrow> wh_event \<Rightarrow>
     webhook_db \<Rightarrow> wh_request list \<times> webhook_db" where
  "deliver hmac js url_ok answers fails pg now newID w evt wdb =
     (let payload = js evt;
          req = \<lparr>wrq_URL = wh_URL w, wrq_Body = payload,
                 wrq_Signature = (if wh_Secret w \<noteq> [] then Some (sign hmac payload (wh_Secret w)) else None)\<rparr>
      in if \<not> url_ok (wh_URL w) then ([], wdb)
         else
           (case attempts_loop answers [1..<Suc maxRetries] 0 [] of
              (n, status, body, success) \<Rightarrow>
                (replicate n req,
                 snd (CreateWebhookDelivery fails pg now newID
                   \<lparr>wd_ID = [], wd_WebhookID = wh_ID w, wd_EventType = ev_Type evt, wd_Payload = payload,
                    wd_ResponseStatus = int status, wd_ResponseBody = body, wd_DeliveredAt = 0,
                    wd_Success = success\<rparr> wdb))))"

text \<open>An attempt that is the last: it is answered, and with neither a redirection nor a server error.\<close>

definition settles :: "string + nat \<times> string \<Rightarrow> bool" where
  "settles ans \<longleftrightarrow> (\<exists>code text. ans = Inr (code, text) \<and> (200 \<le> code \<and> code < 300 \<or> 400 \<le> code \<and> code < 500))"

definition accepted :: "string + nat \<times> string \<Rightarrow> bool" where
  "accepted ans \<longleftrightarrow> (\<exists>code text. ans = Inr (code, text) \<and> 200 \<le> code \<and> code < 300)"

lemma settles_simps [simp]:
  "\<not> settles (Inl e)" "settles (Inr (code, text)) \<longleftrightarrow> 200 \<le> code \<and> code < 300 \<or> 400 \<le> code \<and> code < 500"
  "\<not> accepted (Inl e)" "accepted (Inr (code, text)) \<longleftrightarrow> 200 \<le> code \<and> code < 300"
  by (auto simp: settles_def accepted_def)

lemma attempts_three:
  assumes "attempts_loop answers [1, 2, 3] status body = (n, code, text, success)"
  shows "n = (if settles (answers 1) then 1 else if settles (answers 2) then 2 else 3)"
    "success \<longleftrightarrow> accepted (answers 1) \<or> \<not> settles (answers 1) \<and>
       (accepted (answers 2) \<or> \<not> settles (answers 2) \<and> accepted (answers 3))"
  using assms
  by (cases "answers 1"; cases "answers 2"; cases "answers 3"; force simp: Let_def split: if_splits)+

text \<open>
  C20: a delivery makes the attempts it needs and records its outcome.  Requests are sent until one is answered
  with success or a client error, three at most, all with the same signed payload; exactly one record
  is added, and it says success just if some attempt was accepted and none before it was final.
\<close>

theorem deliver_exact:
  assumes "url_ok (wh_URL w)" "w \<in> set (wdb_Webhooks wdb)" "pg_uuid pg (wh_ID w) = Some (wh_ID w)"
    and "pg_jsonb pg (js evt) = Some payload" "newID \<notin> wd_ID ` set (wdb_Deliveries wdb)"
  shows "\<exists>d. snd (deliver hmac js url_ok answers False pg now newID w evt wdb) =
      wdb\<lparr>wdb_Deliveries := wdb_Deliveries wdb @ [d]\<rparr> \<and>
    wd_WebhookID d = wh_ID w \<and> wd_EventType d = ev_Type evt \<and>
    (wd_Success d \<longleftrightarrow> accepted (answers 1) \<or> \<not> settles (answers 1) \<and>
       (accepted (answers 2) \<or> \<not> settles (answers 2) \<and> accepted (answers 3))) \<and>
    length (fst (deliver hmac js url_ok answers False pg now newID w evt wdb)) =
      (if settles (answers 1) then 1 else if settles (answers 2) then 2 else 3)"
proof -
  obtain n status body success where loop: "attempts_loop answers [1, 2, 3] 0 [] = (n, status, body, success)"
    by (rule prod_cases4)
  have range: "attempts_loop answers [1..<Suc maxRetries] 0 [] = (n, status, body, success)"
    using loop by (simp add: maxRetries_def upt_rec numeral_3_eq_3 numeral_2_eq_2 del: attempts_loop.simps)
  note three = attempts_three [OF loop]
  let ?d = "\<lparr>wd_ID = newID, wd_WebhookID = wh_ID w, wd_EventType = ev_Type evt, wd_Payload = payload,
      wd_ResponseStatus = int status, wd_ResponseBody = body, wd_DeliveredAt = now, wd_Success = success\<rparr>"
  have "snd (deliver hmac js url_ok answers False pg now newID w evt wdb) =
      wdb\<lparr>wdb_Deliveries := wdb_Deliveries wdb @ [?d]\<rparr>"
    using assms by (simp add: deliver_def range [unfolded One_nat_def] CreateWebhookDelivery_def Let_def del: upt_Suc)
  moreover have "length (fst (deliver hmac js url_ok answers False pg now newID w evt wdb)) = n"
    using assms(1) by (simp add: deliver_def range [unfolded One_nat_def] Let_def del: upt_Suc)
  ultimately show ?thesis
    using three by (intro exI [of _ ?d]) simp
qed

subsection \<open>What reaches a webhook\<close>

text \<open>
  No webhook of another organization, and none that is disabled, gets an event: a delivery is made only to
  an enabled webhook of the organization that owns the environment and that asks for the event.
\<close>

theorem dispatch_own_organization:
  assumes "(w, evt) \<in> set (dispatch fails pg room (change_event now org ch) wdb)"
    and "ResolveOrgIDByEnvID flt pg (ch_EnvID ch) db = Inr org" "uuid_canonical pg"
    and "\<forall>p\<in>set (fdb_Projects db). pg_uuid pg (prj_OrgID p) = Some (prj_OrgID p)"
  shows "wh_Enabled w \<and> (\<exists>e\<in>set (fdb_Envs db). \<exists>p\<in>set (fdb_Projects db). pg_uuid pg (ch_EnvID ch) = Some (env_ID e) \<and>
    prj_ID p = env_ProjectID e \<and> wh_OrgID w = prj_OrgID p)"
proof -
  obtain e p where e: "pg_uuid pg (ch_EnvID ch) = Some (env_ID e)" "e \<in> set (fdb_Envs db)"
      "p \<in> set (fdb_Projects db)" "prj_ID p = env_ProjectID e" "org = prj_OrgID p"
    using assms(2) unfolding ResolveOrgIDByEnvID_def by_uuid_Inr
    by (fastforce split: option.splits dest!: find_SomeD)
  have "wh_OrgID w = org"
    using dispatch_Inr(4) [OF assms(1)] assms(4) e by (simp add: change_event_def)
  with dispatch_Inr(3) [OF assms(1)] e show ?thesis by blast
qed

text \<open>
  Webhooks subscribed to documented names get nothing.  The notifications any writing handler causes carry
  the operation of the trigger, so their events are \<open>flag.INSERT\<close>, \<open>flag.UPDATE\<close> and \<open>flag.DELETE\<close>: a webhook
  that lists neither one of these nor the wildcard, such as one for \<open>flag.updated\<close>, is never called.
\<close>

theorem subscribed_names_never_match:
  assumes "slice (wh_Events w) = es" "set es \<inter> {''flag.INSERT'', ''flag.UPDATE'', ''flag.DELETE'', ''*''} = {}"
    and "ch \<in> set (drop (length (fdb_Changes db)) (fdb_Changes (run_call env flt r call db)))"
  shows "(w, evt) \<notin> set (dispatch fails pg room (change_event now org ch) wdb)"
proof
  assume d: "(w, evt) \<in> set (dispatch fails pg room (change_event now org ch) wdb)"
  obtain new where "fdb_Changes (run_call env flt r call db) = fdb_Changes db @ new"
      "ch_Action ` set new \<subseteq> trigger_actions"
    using announced_run_call [of db env flt r call] unfolding announced_def by (elim exE conjE) (rule that)
  with assms(3) have "ch_Action ch \<in> trigger_actions" by auto
  then have "ev_Type (change_event now org ch) \<in> {''flag.INSERT'', ''flag.UPDATE'', ''flag.DELETE''}"
    by (auto simp: change_event_def trigger_actions_def)
  with dispatch_Inr(5) [OF d] assms(1,2) show False by auto
qed

text \<open>
  The address check is skipped by updates.  Whatever \<open>validateWebhookURL\<close> says of an address, a private one
  included, \<open>Update\<close> stores it for a webhook of the caller, and deliveries then go to it.
\<close>

theorem update_skips_address_check:
  assumes "verifyWebhookOwnership False (ae_pg env) r wdb = Inr w" "uuid_canonical (ae_pg env)" "wh_Events w = Some es"
    and "uwr_URL req = Some target" "uwr_Events req = None"
  shows "\<exists>resp db' wdb'. Webhook_Update env js (\<lambda>n. False) r (Some req) db wdb = (Answer StatusOK resp, db', wdb') \<and>
    whr_URL resp = target \<and> (\<forall>x\<in>set (wdb_Webhooks wdb'). wh_ID x = wh_ID w \<longrightarrow> wh_URL x = target) \<and>
    wh_ID w \<in> wh_ID ` set (wdb_Webhooks wdb')"
proof -
  have w: "w \<in> set (wdb_Webhooks wdb)" "pg_uuid (ae_pg env) (wh_ID w) = Some (wh_ID w)"
    using assms(1,2) by (auto simp: verifyWebhookOwnership_def GetWebhook_def by_uuid_Inr Let_def uuid_canonical_def
        split: if_splits sum.splits dest!: find_SomeD)
  define w' where "w' = updated_webhook req w"
  have w': "wh_ID w' = wh_ID w" "wh_URL w' = target" "wh_Events w' = Some es"
    using assms(3-5) by (simp_all add: w'_def updated_webhook_def)
  let ?upd = "\<lambda>x. if wh_ID x = wh_ID w
      then x\<lparr>wh_Name := wh_Name w', wh_URL := wh_URL w', wh_Secret := wh_Secret w',
             wh_Events := wh_Events w', wh_Enabled := wh_Enabled w', wh_UpdatedAt := ae_dbnow env\<rparr> else x"
  define ws where "ws = map ?upd (wdb_Webhooks wdb)"
  have up: "UpdateWebhook False (ae_pg env) (ae_dbnow env) w' wdb = (Inr (), wdb\<lparr>wdb_Webhooks := ws\<rparr>)"
    using w' w(2) by (simp add: UpdateWebhook_def ws_def)
  have "map wh_ID ws = map wh_ID (wdb_Webhooks wdb)" by (simp add: ws_def)
  from arg_cong [OF this, of set] have here: "wh_ID w \<in> wh_ID ` set ws"
    using w(1) by (simp only: set_map) simp
  have urls: "wh_URL x = target" if "x \<in> set ws" "wh_ID x = wh_ID w" for x
    using that w'(2) by (auto simp: ws_def)
  have "Webhook_Update env js (\<lambda>n. False) r (Some req) db wdb = (Answer StatusOK (WebhookFromDomain w'),
      write_audit env (\<lambda>n. False) 2 (webhook_entry r ''webhook.updated'' (wh_ID w') (Some (js w')) (Some (js w'))) db,
      wdb\<lparr>wdb_Webhooks := ws\<rparr>)"
    using assms(1) up by (simp add: Webhook_Update_def Let_def flip: w'_def)
  moreover have "whr_URL (WebhookFromDomain w') = target" using w'(2) by (simp add: WebhookFromDomain_def)
  ultimately show ?thesis
    by (intro exI [of _ "WebhookFromDomain w'"] exI [of _ "wdb\<lparr>wdb_Webhooks := ws\<rparr>"] exI conjI)
      (use here urls in auto)
qed

subsection \<open>Runs\<close>

definition demo_hook :: webhook where
  "demo_hook = \<lparr>wh_ID = ''w'', wh_OrgID = ''o'', wh_Name = ''hook'', wh_URL = ''https://hook.example'',
     wh_Secret = ''s'', wh_Events = Some [''flag.updated''], wh_Enabled = True, wh_CreatedAt = 0, wh_UpdatedAt = 0\<rparr>"

abbreviation "demo_hooks \<equiv> \<lparr>wdb_Webhooks = [demo_hook], wdb_Deliveries = []\<rparr>"

text \<open>The client gets a server error, then success.\<close>

definition second_try :: "nat \<Rightarrow> string + nat \<times> string" where
  "second_try a = (if a = 1 then Inr (503, ''busy'') else Inr (200, ''ok''))"

theorem deliver_exact_witness:
  "\<exists>d. snd (deliver (\<lambda>k m. m) (\<lambda>e. ''{}'') (\<lambda>u. True) second_try False demo_pg 1 ''d'' demo_hook
       (change_event 1 ''o'' (state_change ''UPDATE'' (demo_state ''e''))) demo_hooks) =
     demo_hooks\<lparr>wdb_Deliveries := [d]\<rparr> \<and> wd_Success d \<and>
   length (fst (deliver (\<lambda>k m. m) (\<lambda>e. ''{}'') (\<lambda>u. True) second_try False demo_pg 1 ''d'' demo_hook
       (change_event 1 ''o'' (state_change ''UPDATE'' (demo_state ''e''))) demo_hooks)) = 2"
  using deliver_exact [of "\<lambda>u. True" demo_hook demo_hooks demo_pg "\<lambda>e. ''{}''"
      "change_event 1 ''o'' (state_change ''UPDATE'' (demo_state ''e''))" "''{}''" "''d''" "\<lambda>k m. m" second_try 1]
  by (auto simp: demo_pg_def demo_hook_def second_try_def)

theorem dispatch_own_organization_witness:
  "\<exists>p\<in>set (fdb_Projects demo_db). wh_OrgID demo_hook = prj_OrgID p"
proof -
  let ?ch = "state_change ''updated'' (demo_state ''e'')"
  have "(demo_hook, change_event 1 ''o'' ?ch) \<in> set (dispatch False demo_pg 9 (change_event 1 ''o'' ?ch) demo_hooks)"
    by (simp add: dispatch_def ListWebhooks_def by_uuid_def change_event_def demo_pg_def demo_hook_def
        state_change_def slice_def)
  from dispatch_own_organization [OF this, of "\<lambda>n. False" demo_db] show ?thesis
    using demo_canonical
    by (simp add: ResolveOrgIDByEnvID_def by_uuid_def state_change_def demo_defs)
qed

theorem subscribed_names_never_match_witness:
  "\<exists>ch. ch \<in> set (drop (length (fdb_Changes demo_db)) (fdb_Changes (run_call demo_env (\<lambda>n. False)
       (demo_call ''o'' RoleOwner) (CallKill (Some ''e'')) demo_db))) \<and>
     (demo_hook, change_event 1 ''o'' ch) \<notin> set (dispatch False demo_pg 9 (change_event 1 ''o'' ch) demo_hooks)"
proof -
  obtain st db' where k: "Flag_Kill demo_env (\<lambda>n. False) (demo_call ''o'' RoleOwner) (Some ''e'') demo_db =
      (Answer StatusOK st, db')"
    using demo_kill by blast
  have pg: "ae_pg demo_env = demo_pg" "pg_uuid demo_pg ''e'' = Some ''e''" by (simp_all add: demo_env_def demo_pg_def)
  have r: "run_call demo_env (\<lambda>n. False) (demo_call ''o'' RoleOwner) (CallKill (Some ''e'')) demo_db = db'"
    by (simp only: run_call.simps k snd_conv)
  obtain ch where new: "fdb_Changes db' = fdb_Changes demo_db @ [ch]"
    by (rule kill_row [OF _ _ k, unfolded pg(1), OF demo_db_ok demo_canonical pg(2)])
  have ch: "ch \<in> set (drop (length (fdb_Changes demo_db)) (fdb_Changes (run_call demo_env (\<lambda>n. False)
       (demo_call ''o'' RoleOwner) (CallKill (Some ''e'')) demo_db)))"
    unfolding r new by simp
  have "slice (wh_Events demo_hook) = [''flag.updated'']" by (simp add: demo_hook_def slice_def)
  then have "(demo_hook, change_event 1 ''o'' ch) \<notin> set (dispatch False demo_pg 9 (change_event 1 ''o'' ch) demo_hooks)"
    by (rule subscribed_names_never_match [OF _ _ ch]) simp
  with ch show ?thesis by blast
qed

theorem update_skips_address_check_witness:
  "\<not> validateWebhookURL \<lparr>url_parse = (\<lambda>s. Some (''http'', ''127.0.0.1'')), url_ip = (\<lambda>s. Some \<lparr>ip_special = True,
       ip_v4 = Some (ipv4 127 0 0 1)\<rparr>), url_lookup = (\<lambda>s. None)\<rparr> ''http://127.0.0.1'' \<and>
   (\<exists>resp db' wdb'. Webhook_Update demo_env (\<lambda>w. ''{}'') (\<lambda>n. False)
      (demo_call ''o'' RoleOwner\<lparr>req_URLParams := [(''webhookID'', ''w'')]\<rparr>)
      (Some \<lparr>uwr_Name = None, uwr_URL = Some ''http://127.0.0.1'', uwr_Secret = None, uwr_Events = None, uwr_Enabled = None\<rparr>)
      demo_db demo_hooks = (Answer StatusOK resp, db', wdb') \<and> whr_URL resp = ''http://127.0.0.1'')"
proof
  show "\<not> validateWebhookURL \<lparr>url_parse = (\<lambda>s. Some (''http'', ''127.0.0.1'')), url_ip = (\<lambda>s. Some \<lparr>ip_special = True,
       ip_v4 = Some (ipv4 127 0 0 1)\<rparr>), url_lookup = (\<lambda>s. None)\<rparr> ''http://127.0.0.1''"
    by (simp add: validateWebhookURL_def isPrivateIP_def)
  have own: "verifyWebhookOwnership False (ae_pg demo_env)
      (demo_call ''o'' RoleOwner\<lparr>req_URLParams := [(''webhookID'', ''w'')]\<rparr>) demo_hooks = Inr demo_hook"
    by (simp add: verifyWebhookOwnership_def GetWebhook_def by_uuid_def URLParam_def GetOrgID_def Let_def
        demo_env_def demo_call_def demo_pg_def demo_hook_def)
  have pg: "uuid_canonical (ae_pg demo_env)" using demo_canonical by (simp add: demo_env_def)
  have ev: "wh_Events demo_hook = Some [''flag.updated'']" by (simp add: demo_hook_def)
  show "\<exists>resp db' wdb'. Webhook_Update demo_env (\<lambda>w. ''{}'') (\<lambda>n. False)
      (demo_call ''o'' RoleOwner\<lparr>req_URLParams := [(''webhookID'', ''w'')]\<rparr>)
      (Some \<lparr>uwr_Name = None, uwr_URL = Some ''http://127.0.0.1'', uwr_Secret = None, uwr_Events = None, uwr_Enabled = None\<rparr>)
      demo_db demo_hooks = (Answer StatusOK resp, db', wdb') \<and> whr_URL resp = ''http://127.0.0.1''"
    using update_skips_address_check [OF own pg ev, of "\<lparr>uwr_Name = None, uwr_URL = Some ''http://127.0.0.1'',
        uwr_Secret = None, uwr_Events = None, uwr_Enabled = None\<rparr>" "''http://127.0.0.1''"] by fastforce
qed

end
