(* ===== verification/Streams.thy ===== *)
theory Streams
  imports GoPrelude
begin

text \<open>
  Server-sent events: \<open>server/internal/sse/server.go\<close>, which hands flag changes to connected SDKs, and the event
  bus of scans in \<open>sse/janitor.go\<close>.  Channels are buffers of bounded length that are closed once; sending on a
  closed channel and closing one twice panic.
\<close>

subsection \<open>The server\<close>

text \<open>
  A client is a number; it belongs to one environment.  A broadcast reads the map of the clients under the
  lock, ranges over it without the lock, and takes a client and sends to it in two steps.
\<close>

record broadcast =
  br_Env :: string
  br_Payload :: string
  br_Picked :: "nat option"
  br_Visited :: "nat set"

record sse_state =
  ss_clients :: "string \<Rightarrow> nat set"
  ss_env :: "nat \<Rightarrow> string"
  ss_buf :: "nat \<Rightarrow> string list"
  ss_closed :: "nat set"
  ss_broadcasts :: "broadcast list"
  ss_panicked :: bool

definition addClient :: "nat \<Rightarrow> string \<Rightarrow> sse_state \<Rightarrow> sse_state" where
  "addClient c envID s = s\<lparr>ss_clients := (ss_clients s)(envID := insert c (ss_clients s envID)),
     ss_env := (ss_env s)(c := envID), ss_buf := (ss_buf s)(c := [])\<rparr>"

definition removeClient :: "nat \<Rightarrow> sse_state \<Rightarrow> sse_state" where
  "removeClient c s = s\<lparr>ss_clients := (ss_clients s)(ss_env s c := ss_clients s (ss_env s c) - {c}),
     ss_closed := insert c (ss_closed s), ss_panicked := (ss_panicked s \<or> c \<in> ss_closed s)\<rparr>"

text \<open>\<open>client.events <- payload\<close> in a \<open>select\<close> with a default.\<close>

definition send_event :: "nat \<Rightarrow> string \<Rightarrow> sse_state \<Rightarrow> sse_state" where
  "send_event c payload s =
     (if c \<in> ss_closed s then s\<lparr>ss_panicked := True\<rparr>
      else if length (ss_buf s c) < 64 then s\<lparr>ss_buf := (ss_buf s)(c := ss_buf s c @ [payload])\<rparr>
      else s)"

definition ClientCount :: "string \<Rightarrow> sse_state \<Rightarrow> nat" where
  "ClientCount envID s = card (ss_clients s envID)"

definition TotalClientCount :: "string list \<Rightarrow> sse_state \<Rightarrow> nat" where
  "TotalClientCount envs s = sum_list (map (\<lambda>e. ClientCount e s) envs)"

inductive sse_step :: "sse_state \<Rightarrow> sse_state \<Rightarrow> bool" where
  connect: "c \<notin> ss_closed s \<Longrightarrow> c \<notin> ss_clients s (ss_env s c) \<Longrightarrow> ss_buf s c = [] \<Longrightarrow>
     sse_step s (addClient c envID s)"
| disconnect: "c \<in> ss_clients s (ss_env s c) \<Longrightarrow> sse_step s (removeClient c s)"
| receive: "c \<in> ss_clients s (ss_env s c) \<Longrightarrow> ss_buf s c = m # ms \<Longrightarrow>
     sse_step s (s\<lparr>ss_buf := (ss_buf s)(c := ms)\<rparr>)"
| start: "sse_step s (s\<lparr>ss_broadcasts :=
     \<lparr>br_Env = envID, br_Payload = payload, br_Picked = None, br_Visited = {}\<rparr> # ss_broadcasts s\<rparr>)"
| pick: "ss_broadcasts s = bs @ b # bs' \<Longrightarrow> br_Picked b = None \<Longrightarrow> c \<in> ss_clients s (br_Env b) - br_Visited b \<Longrightarrow>
     sse_step s (s\<lparr>ss_broadcasts := bs @ b\<lparr>br_Picked := Some c, br_Visited := insert c (br_Visited b)\<rparr> # bs'\<rparr>)"
| hand_over: "ss_broadcasts s = bs @ b # bs' \<Longrightarrow> br_Picked b = Some c \<Longrightarrow>
     sse_step s ((send_event c (br_Payload b) s)\<lparr>ss_broadcasts := bs @ b\<lparr>br_Picked := None\<rparr> # bs'\<rparr>)"
| finish: "ss_broadcasts s = bs @ b # bs' \<Longrightarrow> br_Picked b = None \<Longrightarrow>
     ss_clients s (br_Env b) \<subseteq> br_Visited b \<Longrightarrow> sse_step s (s\<lparr>ss_broadcasts := bs @ bs'\<rparr>)"

abbreviation "sse_steps \<equiv> sse_step\<^sup>*\<^sup>*"

definition sse_start :: sse_state where
  "sse_start = \<lparr>ss_clients = (\<lambda>e. {}), ss_env = (\<lambda>c. []), ss_buf = (\<lambda>c. []), ss_closed = {}, ss_broadcasts = [],
     ss_panicked = False\<rparr>"

inductive_cases sse_stepE: "sse_step s s'"

subsection \<open>Invariants of the server\<close>

definition picked_ok :: "sse_state \<Rightarrow> broadcast \<Rightarrow> bool" where
  "picked_ok s b \<longleftrightarrow>
     (\<forall>c. br_Picked b = Some c \<longrightarrow>
        ss_env s c = br_Env b \<and> (c \<in> ss_clients s (br_Env b) \<or> c \<in> ss_closed s))"

definition sse_inv :: "sse_state \<Rightarrow> bool" where
  "sse_inv s \<longleftrightarrow>
     (\<forall>e c. c \<in> ss_clients s e \<longrightarrow> ss_env s c = e \<and> c \<notin> ss_closed s) \<and>
     (\<forall>c. length (ss_buf s c) \<le> 64) \<and>
     (\<forall>b\<in>set (ss_broadcasts s). picked_ok s b)"

lemma sse_inv_start: "sse_inv sse_start"
  by (simp add: sse_inv_def sse_start_def)

lemma sse_invI:
  assumes "\<And>e c. c \<in> ss_clients s e \<Longrightarrow> ss_env s c = e \<and> c \<notin> ss_closed s"
    and "\<And>c. length (ss_buf s c) \<le> 64" "\<And>b. b \<in> set (ss_broadcasts s) \<Longrightarrow> picked_ok s b"
  shows "sse_inv s"
  using assms by (simp add: sse_inv_def)

lemma sse_invD:
  assumes "sse_inv s"
  shows "c \<in> ss_clients s e \<Longrightarrow> ss_env s c = e" "c \<in> ss_clients s e \<Longrightarrow> c \<notin> ss_closed s"
    "length (ss_buf s c) \<le> 64" "b \<in> set (ss_broadcasts s) \<Longrightarrow> picked_ok s b"
  using assms by (auto simp: sse_inv_def)

lemma send_event_fields [simp]:
  "ss_clients (send_event c m s) = ss_clients s" "ss_env (send_event c m s) = ss_env s"
  "ss_closed (send_event c m s) = ss_closed s" "ss_broadcasts (send_event c m s) = ss_broadcasts s"
  by (simp_all add: send_event_def)

lemma send_event_buf:
  "length (ss_buf s d) \<le> 64 \<Longrightarrow> length (ss_buf (send_event c m s) d) \<le> 64"
  by (simp add: send_event_def)

lemma picked_ok_cong:
  "ss_clients s' = ss_clients s \<Longrightarrow> ss_env s' = ss_env s \<Longrightarrow> ss_closed s' = ss_closed s \<Longrightarrow>
     picked_ok s' b = picked_ok s b"
  by (simp add: picked_ok_def)

lemma sse_step_inv:
  assumes "sse_step s s'" "sse_inv s"
  shows "sse_inv s'"
  using assms(1)
proof cases
  case (connect c envID)
  have new: "c \<notin> ss_clients s e" for e
    using connect(3) sse_invD(1) [OF assms(2), of c e] by auto
  show ?thesis
  proof (rule sse_invI)
    fix b
    assume "b \<in> set (ss_broadcasts s')"
    then have b: "picked_ok s b"
      using sse_invD(4) [OF assms(2)] by (simp add: connect(1) addClient_def)
    have "d \<noteq> c" if "br_Picked b = Some d" for d
      using b that new connect(2) by (auto simp: picked_ok_def)
    with b show "picked_ok s' b"
      by (auto simp: picked_ok_def connect(1) addClient_def)
  qed (use sse_invD(1-3) [OF assms(2)] connect(2) new in \<open>auto simp: connect(1) addClient_def split: if_splits\<close>)
next
  case (disconnect c)
  show ?thesis
  proof (rule sse_invI)
    fix b
    assume "b \<in> set (ss_broadcasts s')"
    then have "picked_ok s b"
      using sse_invD(4) [OF assms(2)] by (simp add: disconnect(1) removeClient_def)
    then show "picked_ok s' b"
      by (auto simp: picked_ok_def disconnect(1) removeClient_def)
  qed (use sse_invD(1-3) [OF assms(2)] in \<open>auto simp: disconnect(1) removeClient_def split: if_splits\<close>)
next
  case (receive c m ms)
  have "length ms \<le> 64" using sse_invD(3) [OF assms(2), of c] receive(3) by simp
  then show ?thesis
    using sse_invD [OF assms(2)] by (intro sse_invI) (auto simp: receive(1) picked_ok_def)
next
  case (start envID payload)
  show ?thesis
  proof (rule sse_invI)
    fix b
    assume "b \<in> set (ss_broadcasts s')"
    then have "picked_ok s b"
      using sse_invD(4) [OF assms(2)] by (auto simp: start picked_ok_def)
    then show "picked_ok s' b" by (simp add: start picked_ok_def)
  qed (use sse_invD(1-3) [OF assms(2)] in \<open>auto simp: start\<close>)
next
  case (pick bs b bs' c)
  show ?thesis
  proof (rule sse_invI)
    fix b'
    assume "b' \<in> set (ss_broadcasts s')"
    then consider "b' \<in> set (ss_broadcasts s)" | "b' = b\<lparr>br_Picked := Some c, br_Visited := insert c (br_Visited b)\<rparr>"
      by (auto simp: pick(1,2))
    then have "picked_ok s b'"
      using sse_invD(1,4) [OF assms(2)] pick(4) by cases (auto simp: picked_ok_def)
    then show "picked_ok s' b'" by (simp add: pick(1) picked_ok_def)
  qed (use sse_invD(1-3) [OF assms(2)] in \<open>auto simp: pick(1)\<close>)
next
  case (hand_over bs b bs' c)
  show ?thesis
  proof (rule sse_invI)
    fix b'
    assume "b' \<in> set (ss_broadcasts s')"
    then consider "b' \<in> set (ss_broadcasts s)" | "b' = b\<lparr>br_Picked := None\<rparr>"
      by (auto simp: hand_over(1,2))
    then have "picked_ok s b'"
      using sse_invD(4) [OF assms(2)] by cases (auto simp: picked_ok_def)
    then show "picked_ok s' b'" by (simp add: hand_over(1) picked_ok_def)
  qed (use sse_invD(1-3) [OF assms(2)] send_event_buf in \<open>auto simp: hand_over(1)\<close>)
next
  case (finish bs b bs')
  show ?thesis
  proof (rule sse_invI)
    fix b'
    assume "b' \<in> set (ss_broadcasts s')"
    then have "picked_ok s b'"
      using sse_invD(4) [OF assms(2)] by (auto simp: finish(1,2))
    then show "picked_ok s' b'" by (simp add: finish(1) picked_ok_def)
  qed (use sse_invD(1-3) [OF assms(2)] in \<open>auto simp: finish(1)\<close>)
qed

lemma sse_steps_inv: "sse_steps sse_start s \<Longrightarrow> sse_inv s"
  by (induction rule: rtranclp_induct) (auto intro: sse_inv_start sse_step_inv)

text \<open>
  C23: streams are isolated by environment.  In every run, a message enters the buffer of a client only from a
  broadcast to the client's own environment that is under way, as the newest message, and no buffer ever
  holds more than sixty four messages.
\<close>

theorem sse_delivery_isolated:
  assumes "sse_steps sse_start s" "sse_step s s'" "\<not> set (ss_buf s' c) \<subseteq> set (ss_buf s c)"
  shows "(\<exists>b\<in>set (ss_broadcasts s). br_Env b = ss_env s c \<and> ss_buf s' c = ss_buf s c @ [br_Payload b]) \<and>
    length (ss_buf s' c) \<le> 64"
proof -
  have inv: "sse_inv s" by (rule sse_steps_inv [OF assms(1)])
  from assms(2) have "\<exists>b\<in>set (ss_broadcasts s). br_Env b = ss_env s c \<and> ss_buf s' c = ss_buf s c @ [br_Payload b]"
  proof cases
    case (hand_over bs b bs' d)
    have "picked_ok s b" using sse_invD(4) [OF inv] hand_over(2) by simp
    then have env: "ss_env s d = br_Env b" using hand_over(3) by (simp add: picked_ok_def)
    have "d = c \<and> ss_buf s' c = ss_buf s c @ [br_Payload b]"
      using assms(3) by (auto simp: hand_over(1) send_event_def split: if_splits)
    with env hand_over(2) show ?thesis by auto
  qed (use assms(3) in \<open>auto simp: addClient_def removeClient_def split: if_splits\<close>)
  then show ?thesis
    using sse_invD(3) [OF sse_step_inv [OF assms(2) inv]] by blast
qed

text \<open>The first step into a panic is a broadcast that sends to a client closed since it was picked.\<close>

lemma sse_panic_only_closed:
  assumes "sse_steps sse_start s" "\<not> ss_panicked s" "sse_step s s'" "ss_panicked s'"
  shows "\<exists>b\<in>set (ss_broadcasts s). \<exists>c. br_Picked b = Some c \<and> c \<in> ss_closed s"
  using assms(3)
proof cases
  case (disconnect c)
  then show ?thesis
    using assms(2,4) sse_invD(2) [OF sse_steps_inv [OF assms(1)]] by (auto simp: removeClient_def)
next
  case (hand_over bs b bs' c)
  then show ?thesis
    using assms(2,4) by (auto simp: send_event_def split: if_splits)
qed (use assms(2,4) in \<open>auto simp: addClient_def\<close>)

text \<open>
  A disconnecting client can crash the server.  One client of an environment, one broadcast to it: when
  the client disconnects after the broadcast has taken it from the map and before it sends, the send is to
  a closed channel and panics.
\<close>

theorem sse_panic_reachable: "\<exists>s. sse_steps sse_start s \<and> ss_panicked s"
proof -
  let ?b = "\<lparr>br_Env = ''e'', br_Payload = ''m'', br_Picked = None, br_Visited = {}\<rparr>"
  let ?p = "?b\<lparr>br_Picked := Some (0::nat), br_Visited := insert 0 (br_Visited ?b)\<rparr>"
  let ?s1 = "addClient 0 ''e'' sse_start"
  let ?s2 = "?s1\<lparr>ss_broadcasts := [?b]\<rparr>"
  let ?s3 = "?s2\<lparr>ss_broadcasts := [?p]\<rparr>"
  let ?s4 = "removeClient 0 ?s3"
  let ?s5 = "(send_event 0 (br_Payload ?p) ?s4)\<lparr>ss_broadcasts := [?p\<lparr>br_Picked := None\<rparr>]\<rparr>"
  have "sse_step sse_start ?s1" by (rule sse_step.connect) (simp_all add: sse_start_def)
  moreover have "sse_step ?s1 ?s2"
    using sse_step.start [of ?s1 "''e''" "''m''"] by (simp add: addClient_def sse_start_def)
  moreover have "sse_step ?s2 ?s3"
    using sse_step.pick [of ?s2 "[]" ?b "[]" 0] by (simp add: addClient_def sse_start_def)
  moreover have "sse_step ?s3 ?s4"
    by (rule sse_step.disconnect) (simp add: addClient_def sse_start_def)
  moreover have "sse_step ?s4 ?s5"
    using sse_step.hand_over [of ?s4 "[]" ?p "[]" 0] by (simp add: removeClient_def)
  ultimately have "sse_steps sse_start ?s5"
    by (meson rtranclp.rtrancl_into_rtrancl rtranclp.rtrancl_refl)
  moreover have "ss_panicked ?s5" by (simp add: send_event_def removeClient_def)
  ultimately show ?thesis by blast
qed

theorem sse_delivery_isolated_witness:
  "\<exists>s s'. sse_steps sse_start s \<and> sse_step s s' \<and> ss_buf s' 0 = [''m''] \<and>
     (\<exists>b\<in>set (ss_broadcasts s). br_Env b = ss_env s 0)"
proof -
  let ?b = "\<lparr>br_Env = ''e'', br_Payload = ''m'', br_Picked = None, br_Visited = {}\<rparr>"
  let ?p = "?b\<lparr>br_Picked := Some (0::nat), br_Visited := insert 0 (br_Visited ?b)\<rparr>"
  let ?s1 = "addClient 0 ''e'' sse_start"
  let ?s2 = "?s1\<lparr>ss_broadcasts := [?b]\<rparr>"
  let ?s3 = "?s2\<lparr>ss_broadcasts := [?p]\<rparr>"
  let ?s4 = "(send_event 0 (br_Payload ?p) ?s3)\<lparr>ss_broadcasts := [?p\<lparr>br_Picked := None\<rparr>]\<rparr>"
  have "sse_step sse_start ?s1" by (rule sse_step.connect) (simp_all add: sse_start_def)
  moreover have "sse_step ?s1 ?s2"
    using sse_step.start [of ?s1 "''e''" "''m''"] by (simp add: addClient_def sse_start_def)
  moreover have "sse_step ?s2 ?s3"
    using sse_step.pick [of ?s2 "[]" ?b "[]" 0] by (simp add: addClient_def sse_start_def)
  ultimately have run: "sse_steps sse_start ?s3"
    by (meson rtranclp.rtrancl_into_rtrancl rtranclp.rtrancl_refl)
  have step: "sse_step ?s3 ?s4"
    using sse_step.hand_over [of ?s3 "[]" ?p "[]" 0] by simp
  have buf: "ss_buf ?s4 0 = [''m'']" "ss_buf ?s3 0 = []"
    by (simp_all add: send_event_def addClient_def sse_start_def)
  from sse_delivery_isolated [OF run step, of 0] have "\<exists>b\<in>set (ss_broadcasts ?s3). br_Env b = ss_env ?s3 0"
    unfolding buf by auto
  with run step buf show ?thesis by blast
qed

subsection \<open>The bus of scan events\<close>

record scan_event =
  sv_ID :: int
  sv_ScanID :: string
  sv_EventType :: string
  sv_EventData :: string
  sv_CreatedAt :: gotime

text \<open>A channel is a number with its buffer; a panic of an operation is \<open>None\<close>.\<close>

record scan_bus =
  sb_subscribers :: "string \<Rightarrow> nat list"
  sb_events :: "string \<Rightarrow> scan_event list"
  sb_buf :: "nat \<Rightarrow> string list"
  sb_closed :: "nat set"

definition NewScanEventBus :: scan_bus where
  "NewScanEventBus = \<lparr>sb_subscribers = (\<lambda>s. []), sb_events = (\<lambda>s. []), sb_buf = (\<lambda>c. []), sb_closed = {}\<rparr>"

definition maxEvents :: nat where "maxEvents = 1000"

definition sb_push :: "string \<Rightarrow> string list \<Rightarrow> string list" where
  "sb_push msg q = (if length q < 100 then q @ [msg] else q)"

text \<open>\<open>js\<close> is \<open>json.Marshal\<close> of an event.\<close>

definition sse_message :: "(scan_event \<Rightarrow> string) \<Rightarrow> scan_event \<Rightarrow> string" where
  "sse_message js ev = ''event: '' @ sv_EventType ev @ [CHR 0x0A] @ ''data: '' @ js ev @ [CHR 0x0A, CHR 0x0A]"

fun notify_all :: "string \<Rightarrow> nat list \<Rightarrow> scan_bus \<Rightarrow> scan_bus option" where
  "notify_all msg [] b = Some b"
| "notify_all msg (c # cs) b =
     (if c \<in> sb_closed b then None
      else notify_all msg cs (b\<lparr>sb_buf := (sb_buf b)(c := sb_push msg (sb_buf b c))\<rparr>))"

text \<open>The event data is \<open>None\<close> if it cannot be marshalled.  The identifier is never set.\<close>

definition Publish ::
    "(scan_event \<Rightarrow> string) \<Rightarrow> gotime \<Rightarrow> string \<Rightarrow> string \<Rightarrow> string option \<Rightarrow> scan_bus \<Rightarrow> scan_bus option" where
  "Publish js now scanID eventType eventData b =
     (case eventData of
        None \<Rightarrow> Some b
      | Some dataBytes \<Rightarrow>
        (let ev = \<lparr>sv_ID = 0, sv_ScanID = scanID, sv_EventType = eventType, sv_EventData = dataBytes,
                   sv_CreatedAt = now\<rparr>;
             evs = sb_events b scanID @ [ev];
             evs = (if maxEvents < length evs then drop (length evs - maxEvents) evs else evs)
         in notify_all (sse_message js ev) (sb_subscribers b scanID)
              (b\<lparr>sb_events := (sb_events b)(scanID := evs)\<rparr>)))"

text \<open>\<open>c\<close> is the channel \<open>make\<close> gives.\<close>

definition Subscribe ::
    "(scan_event \<Rightarrow> string) \<Rightarrow> nat \<Rightarrow> string \<Rightarrow> int \<Rightarrow> scan_bus \<Rightarrow> scan_bus" where
  "Subscribe js c scanID afterEventID b =
     b\<lparr>sb_buf := (sb_buf b)(c := foldl (\<lambda>q ev. sb_push (sse_message js ev) q) []
         (filter (\<lambda>ev. afterEventID < sv_ID ev) (sb_events b scanID))),
       sb_subscribers := (sb_subscribers b)(scanID := sb_subscribers b scanID @ [c])\<rparr>"

definition close_chan :: "nat \<Rightarrow> scan_bus \<Rightarrow> scan_bus option" where
  "close_chan c b = (if c \<in> sb_closed b then None else Some (b\<lparr>sb_closed := insert c (sb_closed b)\<rparr>))"

text \<open>The function \<open>Subscribe\<close> returns.\<close>

definition cancel_subscription :: "nat \<Rightarrow> string \<Rightarrow> scan_bus \<Rightarrow> scan_bus option" where
  "cancel_subscription c scanID b =
     close_chan c (b\<lparr>sb_subscribers := (sb_subscribers b)(scanID := remove1 c (sb_subscribers b scanID))\<rparr>)"

fun close_all :: "nat list \<Rightarrow> scan_bus \<Rightarrow> scan_bus option" where
  "close_all [] b = Some b"
| "close_all (c # cs) b = (case close_chan c b of None \<Rightarrow> None | Some b1 \<Rightarrow> close_all cs b1)"

definition Cleanup :: "string \<Rightarrow> scan_bus \<Rightarrow> scan_bus option" where
  "Cleanup scanID b =
     (case close_all (sb_subscribers b scanID) (b\<lparr>sb_events := (sb_events b)(scanID := [])\<rparr>) of
        None \<Rightarrow> None
      | Some b1 \<Rightarrow> Some (b1\<lparr>sb_subscribers := (sb_subscribers b1)(scanID := [])\<rparr>))"

datatype bus_op =
    OpPublish gotime string string "string option"
  | OpSubscribe nat string int
  | OpCancel nat string
  | OpCleanup string

fun bus_apply :: "(scan_event \<Rightarrow> string) \<Rightarrow> bus_op \<Rightarrow> scan_bus \<Rightarrow> scan_bus option" where
  "bus_apply js (OpPublish now scanID ty ed) b = Publish js now scanID ty ed b"
| "bus_apply js (OpSubscribe c scanID aft) b = Some (Subscribe js c scanID aft b)"
| "bus_apply js (OpCancel c scanID) b = cancel_subscription c scanID b"
| "bus_apply js (OpCleanup scanID) b = Cleanup scanID b"

fun bus_run :: "(scan_event \<Rightarrow> string) \<Rightarrow> bus_op list \<Rightarrow> scan_bus \<Rightarrow> scan_bus option" where
  "bus_run js [] b = Some b"
| "bus_run js (p # ps) b = (case bus_apply js p b of None \<Rightarrow> None | Some b1 \<Rightarrow> bus_run js ps b1)"

definition bus_inv :: "scan_bus \<Rightarrow> bool" where
  "bus_inv b \<longleftrightarrow> (\<forall>s. length (sb_events b s) \<le> maxEvents \<and> (\<forall>ev\<in>set (sb_events b s). sv_ID ev = 0))"

lemma notify_all_events: "notify_all msg cs b = Some b' \<Longrightarrow> sb_events b' = sb_events b"
  by (induction msg cs b rule: notify_all.induct) (auto split: if_splits)

lemma close_chan_events: "close_chan c b = Some b' \<Longrightarrow> sb_events b' = sb_events b"
  by (auto simp: close_chan_def split: if_splits)

lemma close_all_events: "close_all cs b = Some b' \<Longrightarrow> sb_events b' = sb_events b"
  by (induction cs b rule: close_all.induct) (auto dest: close_chan_events split: option.splits)

lemma Subscribe_events: "sb_events (Subscribe js c s aft b) = sb_events b"
  by (simp add: Subscribe_def)

lemma cancel_events:
  assumes "cancel_subscription c s b = Some b'"
  shows "sb_events b' = sb_events b"
  using close_chan_events [OF assms [unfolded cancel_subscription_def]] by simp

lemma Cleanup_events:
  assumes "Cleanup s b = Some b'"
  shows "sb_events b' = (sb_events b)(s := [])"
proof -
  obtain b1 where b1: "close_all (sb_subscribers b s) (b\<lparr>sb_events := (sb_events b)(s := [])\<rparr>) = Some b1"
      "b' = b1\<lparr>sb_subscribers := (sb_subscribers b1)(s := [])\<rparr>"
    using assms unfolding Cleanup_def by (auto split: option.splits)
  from close_all_events [OF b1(1)] show ?thesis by (simp add: b1(2))
qed

lemma bus_inv_cong: "sb_events b' = sb_events b \<Longrightarrow> bus_inv b' = bus_inv b"
  by (simp add: bus_inv_def)

lemma bus_inv_set:
  "bus_inv b \<Longrightarrow> length evs \<le> maxEvents \<Longrightarrow> \<forall>ev\<in>set evs. sv_ID ev = 0 \<Longrightarrow> sb_events b' = (sb_events b)(s := evs) \<Longrightarrow>
     bus_inv b'"
  by (simp add: bus_inv_def)

lemma last_n_zero:
  assumes "bus_inv b" "sv_ID ev = 0"
  shows "\<forall>e\<in>set (drop n (sb_events b s @ [ev])). sv_ID e = 0"
  using assms by (auto simp: bus_inv_def dest!: in_set_dropD)

lemma Publish_inv:
  assumes "Publish js now s ty ed b = Some b'" "bus_inv b"
  shows "bus_inv b'"
proof (cases ed)
  case None
  then show ?thesis using assms by (simp add: Publish_def)
next
  case (Some d)
  define ev where "ev = \<lparr>sv_ID = 0, sv_ScanID = s, sv_EventType = ty, sv_EventData = d, sv_CreatedAt = now\<rparr>"
  define kept where "kept = drop (length (sb_events b s @ [ev]) - maxEvents) (sb_events b s @ [ev])"
  have alt: "(if maxEvents < length xs then drop (length xs - maxEvents) xs else xs) = drop (length xs - maxEvents) xs"
    for xs :: "scan_event list" by simp
  have "notify_all (sse_message js ev) (sb_subscribers b s) (b\<lparr>sb_events := (sb_events b)(s := kept)\<rparr>) = Some b'"
    using assms(1) unfolding Publish_def Some Let_def option.case alt kept_def ev_def .
  then have events: "sb_events b' = (sb_events b)(s := kept)" by (drule_tac notify_all_events) simp
  have len: "length kept \<le> maxEvents" unfolding kept_def length_drop by linarith
  have "sv_ID ev = 0" by (simp add: ev_def)
  from last_n_zero [OF assms(2) this] have zero: "\<forall>e\<in>set kept. sv_ID e = 0" by (simp only: kept_def)
  show ?thesis by (rule bus_inv_set [OF assms(2) len zero events])
qed

lemma bus_apply_inv:
  assumes "bus_apply js p b = Some b'" "bus_inv b"
  shows "bus_inv b'"
proof (cases p)
  case (OpPublish now s ty ed)
  then have "Publish js now s ty ed b = Some b'" using assms(1) by simp
  then show ?thesis using assms(2) by (rule Publish_inv)
next
  case (OpSubscribe c s aft)
  then have "b' = Subscribe js c s aft b" using assms(1) by simp
  then show ?thesis using assms(2) by (simp only: bus_inv_cong [OF Subscribe_events])
next
  case (OpCancel c s)
  then have "cancel_subscription c s b = Some b'" using assms(1) by simp
  then show ?thesis using assms(2) by (simp only: bus_inv_cong [OF cancel_events])
next
  case (OpCleanup s)
  then have "Cleanup s b = Some b'" using assms(1) by simp
  note events = Cleanup_events [OF this]
  show ?thesis by (rule bus_inv_set [OF assms(2) _ _ events]) simp_all
qed

lemma bus_run_inv: "bus_run js ps b = Some b' \<Longrightarrow> bus_inv b \<Longrightarrow> bus_inv b'"
  by (induction js ps b rule: bus_run.induct) (auto dest: bus_apply_inv split: option.splits)

text \<open>
  Late subscribers get no history.  The bus stores up to a thousand events of a scan for clients that
  connect late, but never numbers them: in every run, a new subscription that asks for the events after
  any number from zero on starts with an empty channel.
\<close>

theorem subscribe_never_replays:
  assumes "bus_run js ps NewScanEventBus = Some b" "0 \<le> afterEventID"
  shows "sb_buf (Subscribe js c scanID afterEventID b) c = []"
proof -
  have "bus_inv NewScanEventBus" by (simp add: bus_inv_def NewScanEventBus_def)
  from bus_run_inv [OF assms(1) this] have "\<forall>ev\<in>set (sb_events b scanID). sv_ID ev = 0"
    by (simp add: bus_inv_def)
  then have "filter (\<lambda>ev. afterEventID < sv_ID ev) (sb_events b scanID) = []"
    using assms(2) by (auto simp: filter_empty_conv)
  then show ?thesis by (simp add: Subscribe_def)
qed

theorem subscribe_never_replays_witness:
  "\<exists>b. bus_run (\<lambda>ev. ''{}'') [OpPublish 1 ''s'' ''scan.started'' (Some ''{}'')] NewScanEventBus = Some b \<and>
     length (sb_events b ''s'') = 1 \<and> sb_buf (Subscribe (\<lambda>ev. ''{}'') 7 ''s'' 0 b) 7 = []"
proof -
  obtain b where b: "bus_run (\<lambda>ev. ''{}'') [OpPublish 1 ''s'' ''scan.started'' (Some ''{}'')] NewScanEventBus = Some b"
      "length (sb_events b ''s'') = 1"
    by (simp add: Publish_def NewScanEventBus_def maxEvents_def Let_def)
  from subscribe_never_replays [OF b(1), of 0 7 "''s''"] b show ?thesis by simp
qed

text \<open>Cleaning a scan up while a client listens makes the client's own cancellation panic.\<close>

lemma cleanup_then_cancel_panics:
  assumes "Cleanup scanID (Subscribe js c scanID aft b) = Some b1"
  shows "cancel_subscription c scanID b1 = None"
proof -
  have mono: "close_all cs b0 = Some b' \<Longrightarrow> set cs \<subseteq> sb_closed b' \<and> sb_closed b0 \<subseteq> sb_closed b'" for cs b0 b'
    by (induction cs b0 rule: close_all.induct) (fastforce simp: close_chan_def split: option.splits if_splits)+
  have "c \<in> sb_closed b1"
    using assms by (auto simp: Cleanup_def Subscribe_def dest!: mono split: option.splits)
  then show ?thesis by (simp add: cancel_subscription_def close_chan_def)
qed

end
