(* ===== verification/Accounts.thy ===== *)
theory Accounts
  imports FlagHandlers
begin

text \<open>
  The tables of organizations, users and members and of what proves who somebody is (pending registrations,
  reset codes, magic links, one-time tokens, TOTP secrets, login attempts, revocations), with the operations
  of \<open>store/postgres/store.go\<close> on them and the constraints of migrations 1, 12, 15, 16, 20, 35 and 36.  Rows are
  in insertion order; where a statement takes some row without an order, it takes the first.  Columns that
  are too short are among the faults.
\<close>

abbreviation "RegionIN \<equiv> ''in''"
abbreviation "RegionUS \<equiv> ''us''"
abbreviation "RegionEU \<equiv> ''eu''"
abbreviation "RegionDev \<equiv> ''dev''"

definition ValidRegion :: "string \<Rightarrow> bool" where
  "ValidRegion code \<longleftrightarrow> code \<in> {RegionIN, RegionUS, RegionEU, RegionDev}"

record org_row = organization +
  or_Name :: string
  or_Slug :: string
  or_DataRegion :: string
  or_CreatedAt :: gotime
  or_UpdatedAt :: gotime

record user_row =
  us_ID :: string
  us_Email :: string
  us_PasswordHash :: string
  us_Name :: string
  us_EmailVerified :: bool
  us_EmailVerifyToken :: "string option"
  us_EmailVerifyExpires :: "gotime option"
  us_LastLoginAt :: "gotime option"
  us_CreatedAt :: gotime
  us_UpdatedAt :: gotime

record org_member =
  om_ID :: string
  om_OrgID :: string
  om_UserID :: string
  om_Role :: string
  om_CreatedAt :: gotime

record env_perm_row = env_permission +
  er_ID :: string
  er_MemberID :: string

record pending_registration =
  pn_ID :: string
  pn_Email :: string
  pn_Name :: string
  pn_OrgName :: string
  pn_DataRegion :: string
  pn_PasswordHash :: string
  pn_OTPHash :: string
  pn_ExpiresAt :: gotime
  pn_Attempts :: int
  pn_CreatedAt :: gotime

record reset_token =
  rt_ID :: string
  rt_UserID :: string
  rt_Token :: string
  rt_ExpiresAt :: gotime
  rt_UsedAt :: "gotime option"

record magic_token =
  mk_Token :: string
  mk_UserID :: string
  mk_OrgID :: string
  mk_ExpiresAt :: gotime
  mk_UsedAt :: "gotime option"

record one_time_token =
  ot_Token :: string
  ot_UserID :: string
  ot_OrgID :: string
  ot_Used :: bool
  ot_ExpiresAt :: gotime

record mfa_secret =
  ms_UserID :: string
  ms_Secret :: string
  ms_Enabled :: bool
  ms_VerifiedAt :: "gotime option"

record login_attempt =
  la_Email :: string
  la_IP :: string
  la_Success :: bool
  la_CreatedAt :: gotime

record revocation =
  rv_JTI :: string
  rv_UserID :: string
  rv_OrgID :: string
  rv_ExpiresAt :: gotime

record sso_setting =
  so_OrgID :: string
  so_Enabled :: bool
  so_Enforce :: bool

record account_db =
  ac_Orgs :: "org_row list"
  ac_Users :: "user_row list"
  ac_Members :: "org_member list"
  ac_Perms :: "env_perm_row list"
  ac_Envs :: "string list"
  ac_Pending :: "pending_registration list"
  ac_Resets :: "reset_token list"
  ac_Magic :: "magic_token list"
  ac_OneTime :: "one_time_token list"
  ac_MFA :: "mfa_secret list"
  ac_Attempts :: "login_attempt list"
  ac_Revocations :: "revocation list"
  ac_SSO :: "sso_setting list"
  ac_Onboarded :: "string list"
  ac_Audit :: "audit_entry list"

text \<open>What a statement reports: a failed one leaves the tables as they are.\<close>

definition exec :: "bool \<Rightarrow> ('db \<Rightarrow> 'db) \<Rightarrow> 'db \<Rightarrow> unit result \<times> 'db" where
  "exec fails f db = (if fails then (Inl ErrInternal, db) else (Inr (), f db))"

definition exec_uuid :: "bool \<Rightarrow> pglib \<Rightarrow> string \<Rightarrow> (string \<Rightarrow> 'db \<Rightarrow> 'db) \<Rightarrow> 'db \<Rightarrow> unit result \<times> 'db" where
  "exec_uuid fails pg i f db =
     (case pg_uuid pg i of None \<Rightarrow> (Inl ErrInternal, db) | Some u \<Rightarrow> exec fails (f u) db)"

definition lookup_row :: "bool \<Rightarrow> 'a option \<Rightarrow> 'a result" where
  "lookup_row fails row =
     (if fails then Inl ErrInternal else (case row of None \<Rightarrow> Inl ErrNotFound | Some x \<Rightarrow> Inr x))"

lemma exec_cases:
  "exec fails f db = (r, db') \<Longrightarrow> fails \<and> db' = db \<and> r = Inl ErrInternal \<or> \<not> fails \<and> db' = f db \<and> r = Inr ()"
  by (auto simp: exec_def split: if_splits)

lemma lookup_row_Inr [simp]: "lookup_row fails row = Inr x \<longleftrightarrow> \<not> fails \<and> row = Some x"
  by (auto simp: lookup_row_def split: option.splits)

subsection \<open>Organizations\<close>

text \<open>\<open>plans\<close> are \<open>PlanDefaults()\<close>; a plan that is not in it has the limits zero.\<close>

definition plan_defaults :: "(string \<rightharpoonup> plan_limits) \<Rightarrow> string \<Rightarrow> plan_limits" where
  "plan_defaults plans p =
     (case plans p of None \<Rightarrow> \<lparr>Seats = 0, Projects = 0, Environments = 0\<rparr> | Some l \<Rightarrow> l)"

definition CreateOrganization ::
    "bool \<Rightarrow> (string \<rightharpoonup> plan_limits) \<Rightarrow> gotime \<Rightarrow> string \<Rightarrow> org_row \<Rightarrow> account_db \<Rightarrow> org_row result \<times> account_db" where
  "CreateOrganization fails plans now newID org db =
     (let plan = (if org_Plan org = [] then PlanFree else org_Plan org);
          region = (if or_DataRegion org = [] then RegionUS else or_DataRegion org);
          l = plan_defaults plans plan;
          org1 = org\<lparr>org_ID := newID, org_Plan := plan, or_DataRegion := region, or_CreatedAt := now,
                    or_UpdatedAt := now\<rparr>;
          row = org1\<lparr>org_PlanSeatsLimit := Seats l, org_PlanProjectsLimit := Projects l,
                    org_PlanEnvironmentsLimit := Environments l, org_DeletedAt := None\<rparr>
      in if fails then (Inl ErrInternal, db)
         else if newID \<in> org_ID ` set (ac_Orgs db) \<or> or_Slug org \<in> or_Slug ` set (ac_Orgs db)
         then (Inl ErrConflict, db)
         else (Inr org1, db\<lparr>ac_Orgs := ac_Orgs db @ [row]\<rparr>))"

text \<open>The statement selects neither \<open>trial_expires_at\<close> nor \<open>deleted_at\<close>: both stay nil in what it returns.\<close>

definition GetOrganization :: "bool \<Rightarrow> pglib \<Rightarrow> string \<Rightarrow> account_db \<Rightarrow> org_row result" where
  "GetOrganization fails pg i db =
     by_uuid fails pg i (\<lambda>u. map_option (\<lambda>o1. o1\<lparr>org_TrialExpiresAt := None, org_DeletedAt := None\<rparr>)
       (find (\<lambda>o1. org_ID o1 = u) (ac_Orgs db)))"

definition update_orgs :: "(org_row \<Rightarrow> bool) \<Rightarrow> (org_row \<Rightarrow> org_row) \<Rightarrow> account_db \<Rightarrow> account_db" where
  "update_orgs P f db = db\<lparr>ac_Orgs := map (\<lambda>o1. if P o1 then f o1 else o1) (ac_Orgs db)\<rparr>"

definition DowngradeOrgToFree ::
    "bool \<Rightarrow> pglib \<Rightarrow> (string \<rightharpoonup> plan_limits) \<Rightarrow> gotime \<Rightarrow> string \<Rightarrow> account_db \<Rightarrow> unit result \<times> account_db" where
  "DowngradeOrgToFree fails pg plans now i =
     exec_uuid fails pg i (\<lambda>u. let l = plan_defaults plans PlanFree in
       update_orgs (\<lambda>o1. org_ID o1 = u)
         (\<lambda>o1. o1\<lparr>org_Plan := PlanFree, org_TrialExpiresAt := None, org_PlanSeatsLimit := Seats l,
                 org_PlanProjectsLimit := Projects l, org_PlanEnvironmentsLimit := Environments l,
                 or_UpdatedAt := now\<rparr>))"

definition SoftDeleteOrganization :: "bool \<Rightarrow> pglib \<Rightarrow> gotime \<Rightarrow> string \<Rightarrow> account_db \<Rightarrow> unit result \<times> account_db" where
  "SoftDeleteOrganization fails pg now i =
     exec_uuid fails pg i (\<lambda>u. update_orgs (\<lambda>o1. org_ID o1 = u \<and> org_DeletedAt o1 = None)
       (\<lambda>o1. o1\<lparr>org_DeletedAt := Some now, or_UpdatedAt := now\<rparr>))"

definition RestoreOrganization :: "bool \<Rightarrow> pglib \<Rightarrow> gotime \<Rightarrow> string \<Rightarrow> account_db \<Rightarrow> unit result \<times> account_db" where
  "RestoreOrganization fails pg now i =
     exec_uuid fails pg i (\<lambda>u. update_orgs (\<lambda>o1. org_ID o1 = u \<and> org_DeletedAt o1 \<noteq> None)
       (\<lambda>o1. o1\<lparr>org_DeletedAt := None, or_UpdatedAt := now\<rparr>))"

text \<open>\<open>ListInactiveOrgs\<close>: no member of the organization has logged in after \<open>since\<close>; one that never did counts as inactive.\<close>

definition logged_in_after :: "gotime \<Rightarrow> string \<Rightarrow> account_db \<Rightarrow> bool" where
  "logged_in_after since org db \<longleftrightarrow>
     list_ex (\<lambda>m. om_OrgID m = org \<and>
       list_ex (\<lambda>u. us_ID u = om_UserID m \<and> (case us_LastLoginAt u of None \<Rightarrow> False | Some t \<Rightarrow> since < t))
         (ac_Users db)) (ac_Members db)"

definition ListInactiveOrgs :: "bool \<Rightarrow> string \<Rightarrow> gotime \<Rightarrow> account_db \<Rightarrow> org_row list result" where
  "ListInactiveOrgs fails plan since db =
     (if fails then Inl ErrInternal
      else Inr (filter (\<lambda>o1. org_Plan o1 = plan \<and> org_DeletedAt o1 = None \<and> \<not> logged_in_after since (org_ID o1) db)
        (ac_Orgs db)))"

definition ListSoftDeletedOrgs :: "bool \<Rightarrow> gotime \<Rightarrow> account_db \<Rightarrow> org_row list result" where
  "ListSoftDeletedOrgs fails before db =
     (if fails then Inl ErrInternal
      else Inr (filter (\<lambda>o1. case org_DeletedAt o1 of None \<Rightarrow> False | Some t \<Rightarrow> t < before) (ac_Orgs db)))"

subsection \<open>Users\<close>

definition CreateUser ::
    "bool \<Rightarrow> gotime \<Rightarrow> string \<Rightarrow> string \<Rightarrow> string \<Rightarrow> string \<Rightarrow> bool \<Rightarrow> account_db \<Rightarrow> user_row result \<times> account_db" where
  "CreateUser fails now newID email hash name verified db =
     (let u = \<lparr>us_ID = newID, us_Email = email, us_PasswordHash = hash, us_Name = name, us_EmailVerified = verified,
               us_EmailVerifyToken = None, us_EmailVerifyExpires = None, us_LastLoginAt = None,
               us_CreatedAt = now, us_UpdatedAt = now\<rparr>
      in if fails then (Inl ErrInternal, db)
         else if newID \<in> us_ID ` set (ac_Users db) \<or> email \<in> us_Email ` set (ac_Users db) then (Inl ErrConflict, db)
         else (Inr u, db\<lparr>ac_Users := ac_Users db @ [u]\<rparr>))"

text \<open>The lookups do not select the last login.\<close>

definition seen_user :: "user_row \<Rightarrow> user_row" where
  "seen_user u = u\<lparr>us_LastLoginAt := None\<rparr>"

definition GetUserByEmail :: "bool \<Rightarrow> string \<Rightarrow> account_db \<Rightarrow> user_row result" where
  "GetUserByEmail fails email db =
     lookup_row fails (map_option seen_user (find (\<lambda>u. us_Email u = email) (ac_Users db)))"

definition GetUserByID :: "bool \<Rightarrow> pglib \<Rightarrow> string \<Rightarrow> account_db \<Rightarrow> user_row result" where
  "GetUserByID fails pg i db =
     by_uuid fails pg i (\<lambda>u. map_option seen_user (find (\<lambda>x. us_ID x = u) (ac_Users db)))"

definition GetUserByEmailVerifyToken :: "bool \<Rightarrow> string \<Rightarrow> account_db \<Rightarrow> user_row result" where
  "GetUserByEmailVerifyToken fails tok db =
     lookup_row fails (map_option seen_user (find (\<lambda>u. us_EmailVerifyToken u = Some tok) (ac_Users db)))"

definition update_users :: "string \<Rightarrow> (user_row \<Rightarrow> user_row) \<Rightarrow> account_db \<Rightarrow> account_db" where
  "update_users i f db = db\<lparr>ac_Users := map (\<lambda>u. if us_ID u = i then f u else u) (ac_Users db)\<rparr>"

definition UpdateUserEmailVerifyToken ::
    "bool \<Rightarrow> pglib \<Rightarrow> gotime \<Rightarrow> string \<Rightarrow> string \<Rightarrow> gotime \<Rightarrow> account_db \<Rightarrow> unit result \<times> account_db" where
  "UpdateUserEmailVerifyToken fails pg now i tok expires =
     exec_uuid fails pg i (\<lambda>u. update_users u (\<lambda>x. x\<lparr>us_EmailVerifyToken := Some tok,
       us_EmailVerifyExpires := Some expires, us_UpdatedAt := now\<rparr>))"

definition SetEmailVerified :: "bool \<Rightarrow> pglib \<Rightarrow> gotime \<Rightarrow> string \<Rightarrow> account_db \<Rightarrow> unit result \<times> account_db" where
  "SetEmailVerified fails pg now i =
     exec_uuid fails pg i (\<lambda>u. update_users u (\<lambda>x. x\<lparr>us_EmailVerified := True, us_EmailVerifyToken := None,
       us_EmailVerifyExpires := None, us_UpdatedAt := now\<rparr>))"

definition UpdatePassword :: "bool \<Rightarrow> pglib \<Rightarrow> gotime \<Rightarrow> string \<Rightarrow> string \<Rightarrow> account_db \<Rightarrow> unit result \<times> account_db" where
  "UpdatePassword fails pg now i hash =
     exec_uuid fails pg i (\<lambda>u. update_users u (\<lambda>x. x\<lparr>us_PasswordHash := hash, us_UpdatedAt := now\<rparr>))"

definition UpdateLastLoginAt :: "bool \<Rightarrow> pglib \<Rightarrow> gotime \<Rightarrow> string \<Rightarrow> account_db \<Rightarrow> unit result \<times> account_db" where
  "UpdateLastLoginAt fails pg now i =
     exec_uuid fails pg i (\<lambda>u. update_users u (\<lambda>x. x\<lparr>us_LastLoginAt := Some now\<rparr>))"

subsection \<open>Members\<close>

definition member_roles :: "string set" where
  "member_roles = {RoleOwner, RoleAdmin, RoleDeveloper, RoleViewer}"

definition AddOrgMember ::
    "bool \<Rightarrow> pglib \<Rightarrow> gotime \<Rightarrow> string \<Rightarrow> string \<Rightarrow> string \<Rightarrow> string \<Rightarrow> account_db \<Rightarrow>
     org_member result \<times> account_db" where
  "AddOrgMember fails pg now newID orgID userID role db =
     (case (pg_uuid pg orgID, pg_uuid pg userID) of
        (Some org, Some user) \<Rightarrow>
          (if fails \<or> org \<notin> org_ID ` set (ac_Orgs db) \<or> user \<notin> us_ID ` set (ac_Users db) \<or>
              role \<notin> member_roles \<or> newID \<in> om_ID ` set (ac_Members db) \<or>
              (org, user) \<in> (\<lambda>m. (om_OrgID m, om_UserID m)) ` set (ac_Members db)
           then (Inl ErrInternal, db)
           else
             (let row = \<lparr>om_ID = newID, om_OrgID = org, om_UserID = user, om_Role = role, om_CreatedAt = now\<rparr>
              in (Inr (row\<lparr>om_OrgID := orgID, om_UserID := userID\<rparr>), db\<lparr>ac_Members := ac_Members db @ [row]\<rparr>)))
      | _ \<Rightarrow> (Inl ErrInternal, db))"

text \<open>Without an organization, some membership of the user.\<close>

definition GetOrgMember :: "bool \<Rightarrow> pglib \<Rightarrow> string \<Rightarrow> string \<Rightarrow> account_db \<Rightarrow> org_member result" where
  "GetOrgMember fails pg orgID userID db =
     (if orgID = [] then by_uuid fails pg userID (\<lambda>u. find (\<lambda>m. om_UserID m = u) (ac_Members db))
      else
        (case pg_uuid pg orgID of
           None \<Rightarrow> Inl ErrInternal
         | Some org \<Rightarrow> by_uuid fails pg userID (\<lambda>u. find (\<lambda>m. om_OrgID m = org \<and> om_UserID m = u) (ac_Members db))))"

definition ListOrgMembers :: "bool \<Rightarrow> pglib \<Rightarrow> string \<Rightarrow> account_db \<Rightarrow> org_member list result" where
  "ListOrgMembers fails pg orgID db =
     (if orgID = [] then lookup_row fails (Some (ac_Members db))
      else by_uuid fails pg orgID (\<lambda>u. Some (filter (\<lambda>m. om_OrgID m = u) (ac_Members db))))"

definition GetOrgMemberByID :: "bool \<Rightarrow> pglib \<Rightarrow> string \<Rightarrow> account_db \<Rightarrow> org_member result" where
  "GetOrgMemberByID fails pg i db = by_uuid fails pg i (\<lambda>u. find (\<lambda>m. om_ID m = u) (ac_Members db))"

text \<open>The next two name the row alone, not the organization.\<close>

definition UpdateOrgMemberRole :: "bool \<Rightarrow> pglib \<Rightarrow> string \<Rightarrow> string \<Rightarrow> account_db \<Rightarrow> unit result \<times> account_db" where
  "UpdateOrgMemberRole fails pg i role db =
     exec_uuid (fails \<or> role \<notin> member_roles) pg i
       (\<lambda>u d. d\<lparr>ac_Members := map (\<lambda>m. if om_ID m = u then m\<lparr>om_Role := role\<rparr> else m) (ac_Members d)\<rparr>) db"

definition RemoveOrgMember :: "bool \<Rightarrow> pglib \<Rightarrow> string \<Rightarrow> account_db \<Rightarrow> unit result \<times> account_db" where
  "RemoveOrgMember fails pg i =
     exec_uuid fails pg i (\<lambda>u d. d\<lparr>ac_Members := filter (\<lambda>m. om_ID m \<noteq> u) (ac_Members d),
       ac_Perms := filter (\<lambda>p. er_MemberID p \<noteq> u) (ac_Perms d)\<rparr>)"

definition ListEnvPermissions :: "bool \<Rightarrow> pglib \<Rightarrow> string \<Rightarrow> account_db \<Rightarrow> env_perm_row list result" where
  "ListEnvPermissions fails pg i db =
     by_uuid fails pg i (\<lambda>u. Some (filter (\<lambda>p. er_MemberID p = u) (ac_Perms db)))"

definition UpsertEnvPermission ::
    "bool \<Rightarrow> pglib \<Rightarrow> string \<Rightarrow> env_perm_row \<Rightarrow> account_db \<Rightarrow> env_perm_row result \<times> account_db" where
  "UpsertEnvPermission fails pg newID ep db =
     (case (pg_uuid pg (er_MemberID ep), pg_uuid pg (ep_EnvID ep)) of
        (Some m, Some e) \<Rightarrow>
          (if fails \<or> m \<notin> om_ID ` set (ac_Members db) \<or> e \<notin> set (ac_Envs db) then (Inl ErrInternal, db)
           else
             (case find (\<lambda>p. er_MemberID p = m \<and> ep_EnvID p = e) (ac_Perms db) of
                Some old \<Rightarrow>
                  (Inr (ep\<lparr>er_ID := er_ID old\<rparr>),
                   db\<lparr>ac_Perms := map (\<lambda>p. if er_MemberID p = m \<and> ep_EnvID p = e
                        then p\<lparr>ep_CanToggle := ep_CanToggle ep, ep_CanEditRules := ep_CanEditRules ep\<rparr> else p)
                      (ac_Perms db)\<rparr>)
              | None \<Rightarrow>
                  (Inr (ep\<lparr>er_ID := newID\<rparr>),
                   db\<lparr>ac_Perms := ac_Perms db @ [ep\<lparr>er_ID := newID, er_MemberID := m, ep_EnvID := e\<rparr>]\<rparr>)))
      | _ \<Rightarrow> (Inl ErrInternal, db))"

subsection \<open>Pending registrations\<close>

definition UpsertPendingRegistration ::
    "bool \<Rightarrow> gotime \<Rightarrow> string \<Rightarrow> pending_registration \<Rightarrow> account_db \<Rightarrow>
     pending_registration result \<times> account_db" where
  "UpsertPendingRegistration fails now newID pr db =
     (let pr = (if pn_DataRegion pr = [] then pr\<lparr>pn_DataRegion := RegionUS\<rparr> else pr)
      in if fails then (Inl ErrInternal, db)
         else
           (case find (\<lambda>p. pn_Email p = pn_Email pr) (ac_Pending db) of
              Some old \<Rightarrow>
                (Inr (pr\<lparr>pn_ID := pn_ID old, pn_CreatedAt := now\<rparr>),
                 db\<lparr>ac_Pending := map (\<lambda>p. if pn_Email p = pn_Email pr
                      then pr\<lparr>pn_ID := pn_ID p, pn_Attempts := 0, pn_CreatedAt := now\<rparr> else p) (ac_Pending db)\<rparr>)
            | None \<Rightarrow>
                if newID \<in> pn_ID ` set (ac_Pending db) then (Inl ErrInternal, db)
                else (Inr (pr\<lparr>pn_ID := newID, pn_CreatedAt := now\<rparr>),
                      db\<lparr>ac_Pending := ac_Pending db @ [pr\<lparr>pn_ID := newID, pn_Attempts := 0, pn_CreatedAt := now\<rparr>]\<rparr>)))"

definition GetPendingRegistrationByEmail :: "bool \<Rightarrow> string \<Rightarrow> account_db \<Rightarrow> pending_registration result" where
  "GetPendingRegistrationByEmail fails email db =
     lookup_row fails (find (\<lambda>p. pn_Email p = email) (ac_Pending db))"

definition IncrementPendingAttempts :: "bool \<Rightarrow> pglib \<Rightarrow> string \<Rightarrow> account_db \<Rightarrow> unit result \<times> account_db" where
  "IncrementPendingAttempts fails pg i =
     exec_uuid fails pg i (\<lambda>u d. d\<lparr>ac_Pending :=
       map (\<lambda>p. if pn_ID p = u then p\<lparr>pn_Attempts := pn_Attempts p + 1\<rparr> else p) (ac_Pending d)\<rparr>)"

definition DeletePendingRegistration :: "bool \<Rightarrow> pglib \<Rightarrow> string \<Rightarrow> account_db \<Rightarrow> unit result \<times> account_db" where
  "DeletePendingRegistration fails pg i =
     exec_uuid fails pg i (\<lambda>u d. d\<lparr>ac_Pending := filter (\<lambda>p. pn_ID p \<noteq> u) (ac_Pending d)\<rparr>)"

definition DeleteExpiredPendingRegistrations :: "bool \<Rightarrow> gotime \<Rightarrow> account_db \<Rightarrow> unit result \<times> account_db" where
  "DeleteExpiredPendingRegistrations fails before =
     exec fails (\<lambda>d. d\<lparr>ac_Pending := filter (\<lambda>p. \<not> pn_ExpiresAt p < before) (ac_Pending d)\<rparr>)"

subsection \<open>Codes, links and one-time tokens\<close>

text \<open>Two statements: the older codes of the user are used up first.\<close>

definition SetPasswordResetToken ::
    "faults \<Rightarrow> pglib \<Rightarrow> gotime \<Rightarrow> string \<Rightarrow> string \<Rightarrow> string \<Rightarrow> gotime \<Rightarrow> account_db \<Rightarrow>
     unit result \<times> account_db" where
  "SetPasswordResetToken flt pg now newID userID tok expires db =
     (case pg_uuid pg userID of
        None \<Rightarrow> (Inl ErrInternal, db)
      | Some u \<Rightarrow>
        (if flt 0 then (Inl ErrInternal, db)
         else
           (let db1 = db\<lparr>ac_Resets := map (\<lambda>t. if rt_UserID t = u \<and> rt_UsedAt t = None
                      then t\<lparr>rt_UsedAt := Some now\<rparr> else t) (ac_Resets db)\<rparr>
            in if flt 1 \<or> u \<notin> us_ID ` set (ac_Users db) \<or> newID \<in> rt_ID ` set (ac_Resets db1) \<or>
                  tok \<in> rt_Token ` {t \<in> set (ac_Resets db1). rt_UsedAt t = None}
               then (Inl ErrInternal, db1)
               else (Inr (), db1\<lparr>ac_Resets := ac_Resets db1 @ [\<lparr>rt_ID = newID, rt_UserID = u, rt_Token = tok,
                      rt_ExpiresAt = expires, rt_UsedAt = None\<rparr>]\<rparr>))))"

text \<open>The code is compared with every valid token of every user; \<open>check\<close> is \<open>CheckPassword\<close>.\<close>

definition ConsumePasswordResetToken ::
    "faults \<Rightarrow> (string \<Rightarrow> string \<Rightarrow> bool) \<Rightarrow> gotime \<Rightarrow> string \<Rightarrow> account_db \<Rightarrow> string result \<times> account_db" where
  "ConsumePasswordResetToken flt check now otp db =
     (if flt 0 then (Inl ErrInternal, db)
      else
        (case find (\<lambda>t. check otp (rt_Token t))
                (filter (\<lambda>t. rt_UsedAt t = None \<and> now < rt_ExpiresAt t) (ac_Resets db)) of
           None \<Rightarrow> (Inl ErrNotFound, db)
         | Some t \<Rightarrow>
           (if flt 1 then (Inl ErrInternal, db)
            else (Inr (rt_UserID t), db\<lparr>ac_Resets := map (\<lambda>x. if rt_ID x = rt_ID t
                   then x\<lparr>rt_UsedAt := Some now\<rparr> else x) (ac_Resets db)\<rparr>))))"

definition CreateMagicLinkToken ::
    "faults \<Rightarrow> pglib \<Rightarrow> gotime \<Rightarrow> string \<Rightarrow> string \<Rightarrow> string \<Rightarrow> gotime \<Rightarrow> account_db \<Rightarrow>
     unit result \<times> account_db" where
  "CreateMagicLinkToken flt pg now userID orgID tok expires db =
     (case (pg_uuid pg userID, pg_uuid pg orgID) of
        (Some u, Some org) \<Rightarrow>
          (if flt 0 then (Inl ErrInternal, db)
           else
             (let db1 = db\<lparr>ac_Magic := map (\<lambda>t. if mk_UserID t = u \<and> mk_UsedAt t = None
                        then t\<lparr>mk_UsedAt := Some now\<rparr> else t) (ac_Magic db)\<rparr>
              in if flt 1 \<or> u \<notin> us_ID ` set (ac_Users db) \<or> org \<notin> org_ID ` set (ac_Orgs db)
                 then (Inl ErrInternal, db1)
                 else if tok \<in> mk_Token ` set (ac_Magic db1) then (Inl ErrConflict, db1)
                 else (Inr (), db1\<lparr>ac_Magic := ac_Magic db1 @ [\<lparr>mk_Token = tok, mk_UserID = u, mk_OrgID = org,
                        mk_ExpiresAt = expires, mk_UsedAt = None\<rparr>]\<rparr>)))
      | _ \<Rightarrow> (Inl ErrInternal, db))"

text \<open>\<open>now\<close> is the time of the server, \<open>dbnow\<close> that of the database.\<close>

definition ConsumeMagicLinkToken ::
    "faults \<Rightarrow> gotime \<Rightarrow> gotime \<Rightarrow> string \<Rightarrow> account_db \<Rightarrow> (string \<times> string) result \<times> account_db" where
  "ConsumeMagicLinkToken flt now dbnow tok db =
     (case lookup_row (flt 0) (find (\<lambda>t. mk_Token t = tok) (ac_Magic db)) of
        Inl e \<Rightarrow> (Inl e, db)
      | Inr t \<Rightarrow>
        (if mk_UsedAt t \<noteq> None \<or> mk_ExpiresAt t < now then (Inl ErrExpired, db)
         else if flt 1 then (Inl ErrInternal, db)
         else (Inr (mk_UserID t, mk_OrgID t), db\<lparr>ac_Magic := map (\<lambda>x. if mk_Token x = tok
                then x\<lparr>mk_UsedAt := Some dbnow\<rparr> else x) (ac_Magic db)\<rparr>)))"

definition CreateOneTimeToken ::
    "bool \<Rightarrow> pglib \<Rightarrow> gotime \<Rightarrow> string option \<Rightarrow> string \<Rightarrow> string \<Rightarrow> duration \<Rightarrow> account_db \<Rightarrow>
     string result \<times> account_db" where
  "CreateOneTimeToken fails pg now random userID orgID ttl db =
     (case (random, pg_uuid pg userID, pg_uuid pg orgID) of
        (Some tok, Some u, Some org) \<Rightarrow>
          (if fails \<or> u \<notin> us_ID ` set (ac_Users db) \<or> org \<notin> org_ID ` set (ac_Orgs db) \<or>
              tok \<in> ot_Token ` set (ac_OneTime db)
           then (Inl ErrInternal, db)
           else (Inr tok, db\<lparr>ac_OneTime := ac_OneTime db @ [\<lparr>ot_Token = tok, ot_UserID = u, ot_OrgID = org,
                   ot_Used = False, ot_ExpiresAt = now + ttl\<rparr>]\<rparr>))
      | _ \<Rightarrow> (Inl ErrInternal, db))"

definition ConsumeOneTimeToken ::
    "bool \<Rightarrow> gotime \<Rightarrow> string \<Rightarrow> account_db \<Rightarrow> (string \<times> string) option \<times> account_db" where
  "ConsumeOneTimeToken fails dbnow tok db =
     (if fails then (None, db)
      else
        (case find (\<lambda>t. ot_Token t = tok \<and> \<not> ot_Used t \<and> dbnow < ot_ExpiresAt t) (ac_OneTime db) of
           None \<Rightarrow> (None, db)
         | Some t \<Rightarrow> (Some (ot_UserID t, ot_OrgID t),
             db\<lparr>ac_OneTime := map (\<lambda>x. if ot_Token x = tok \<and> \<not> ot_Used x \<and> dbnow < ot_ExpiresAt x
                 then x\<lparr>ot_Used := True\<rparr> else x) (ac_OneTime db)\<rparr>)))"

subsection \<open>Revocations, TOTP secrets, login attempts, single sign-on\<close>

definition RevokeToken ::
    "bool \<Rightarrow> pglib \<Rightarrow> string \<Rightarrow> string \<Rightarrow> string \<Rightarrow> gotime \<Rightarrow> account_db \<Rightarrow> unit result \<times> account_db" where
  "RevokeToken fails pg jti userID orgID expires db =
     (case (pg_uuid pg userID, pg_uuid pg orgID) of
        (Some u, Some org) \<Rightarrow>
          exec (fails \<or> u \<notin> us_ID ` set (ac_Users db) \<or> org \<notin> org_ID ` set (ac_Orgs db))
            (\<lambda>d. d\<lparr>ac_Revocations := ac_Revocations d @
              [\<lparr>rv_JTI = jti, rv_UserID = u, rv_OrgID = org, rv_ExpiresAt = expires\<rparr>]\<rparr>) db
      | _ \<Rightarrow> (Inl ErrInternal, db))"

definition IsTokenRevoked :: "bool \<Rightarrow> string \<Rightarrow> account_db \<Rightarrow> bool result" where
  "IsTokenRevoked fails jti db =
     (if fails then Inl ErrInternal else Inr (jti \<in> rv_JTI ` set (ac_Revocations db)))"

definition CleanExpiredRevocations :: "bool \<Rightarrow> gotime \<Rightarrow> account_db \<Rightarrow> unit result \<times> account_db" where
  "CleanExpiredRevocations fails dbnow =
     exec fails (\<lambda>d. d\<lparr>ac_Revocations := filter (\<lambda>r. \<not> rv_ExpiresAt r < dbnow) (ac_Revocations d)\<rparr>)"

definition UpsertMFASecret :: "bool \<Rightarrow> pglib \<Rightarrow> string \<Rightarrow> string \<Rightarrow> account_db \<Rightarrow> unit result \<times> account_db" where
  "UpsertMFASecret fails pg userID secret db =
     (case pg_uuid pg userID of
        None \<Rightarrow> (Inl ErrInternal, db)
      | Some u \<Rightarrow>
        exec (fails \<or> u \<notin> us_ID ` set (ac_Users db))
          (\<lambda>d. d\<lparr>ac_MFA :=
             (if u \<in> ms_UserID ` set (ac_MFA d)
              then map (\<lambda>m. if ms_UserID m = u
                     then m\<lparr>ms_Secret := secret, ms_Enabled := False, ms_VerifiedAt := None\<rparr> else m) (ac_MFA d)
              else ac_MFA d @ [\<lparr>ms_UserID = u, ms_Secret = secret, ms_Enabled = False, ms_VerifiedAt = None\<rparr>])\<rparr>) db)"

definition GetMFASecret :: "bool \<Rightarrow> pglib \<Rightarrow> string \<Rightarrow> account_db \<Rightarrow> mfa_secret result" where
  "GetMFASecret fails pg userID db = by_uuid fails pg userID (\<lambda>u. find (\<lambda>m. ms_UserID m = u) (ac_MFA db))"

definition EnableMFA :: "bool \<Rightarrow> pglib \<Rightarrow> gotime \<Rightarrow> string \<Rightarrow> account_db \<Rightarrow> unit result \<times> account_db" where
  "EnableMFA fails pg now userID =
     exec_uuid fails pg userID (\<lambda>u d. d\<lparr>ac_MFA := map (\<lambda>m. if ms_UserID m = u
       then m\<lparr>ms_Enabled := True, ms_VerifiedAt := Some now\<rparr> else m) (ac_MFA d)\<rparr>)"

definition DisableMFA :: "bool \<Rightarrow> pglib \<Rightarrow> string \<Rightarrow> account_db \<Rightarrow> unit result \<times> account_db" where
  "DisableMFA fails pg userID =
     exec_uuid fails pg userID (\<lambda>u d. d\<lparr>ac_MFA := filter (\<lambda>m. ms_UserID m \<noteq> u) (ac_MFA d)\<rparr>)"

definition RecordLoginAttempt ::
    "bool \<Rightarrow> gotime \<Rightarrow> string \<Rightarrow> string \<Rightarrow> bool \<Rightarrow> account_db \<Rightarrow> unit result \<times> account_db" where
  "RecordLoginAttempt fails dbnow email ip success =
     exec fails (\<lambda>d. d\<lparr>ac_Attempts := ac_Attempts d @
       [\<lparr>la_Email = email, la_IP = ip, la_Success = success, la_CreatedAt = dbnow\<rparr>]\<rparr>)"

definition recent_failures :: "string \<Rightarrow> gotime \<Rightarrow> login_attempt list \<Rightarrow> login_attempt list" where
  "recent_failures email since las =
     filter (\<lambda>a. la_Email a = email \<and> \<not> la_Success a \<and> since < la_CreatedAt a) las"

text \<open>The callers drop the error: a failed count is zero.\<close>

definition CountRecentFailedAttempts :: "bool \<Rightarrow> string \<Rightarrow> gotime \<Rightarrow> account_db \<Rightarrow> int" where
  "CountRecentFailedAttempts fails email since db =
     (if fails then 0 else int (length (recent_failures email since (ac_Attempts db))))"

definition GetSSOConfig :: "bool \<Rightarrow> pglib \<Rightarrow> string \<Rightarrow> account_db \<Rightarrow> sso_setting result" where
  "GetSSOConfig fails pg orgID db = by_uuid fails pg orgID (\<lambda>u. find (\<lambda>c. so_OrgID c = u) (ac_SSO db))"

end
