(* ===== verification/Sessions.thy ===== *)
theory Sessions
  imports Accounts
begin

text \<open>
  Tokens and the handlers that give them out: \<open>server/internal/auth/jwt.go\<close> and, of \<open>api/handlers\<close>,
  \<open>auth.go\<close>, \<open>signup.go\<close>, \<open>magic_link.go\<close>, \<open>mfa.go\<close>.  Parameters are what is not code of the repository: signing and
  parsing of JWTs, bcrypt, TOTP codes, random bytes, the mail library and the mailer.  A handler runs
  between the writes of other requests; its faults are numbered in the order of its calls to the store.  A login
  and a completed sign-up are split where they read what limits the guesses, for other requests to come in between.
\<close>

subsection \<open>\<open>jwt.go\<close>\<close>

record token_claims = auth_claims +
  tc_ExpiresAt :: gotime
  tc_IssuedAt :: gotime
  tc_Issuer :: string

text \<open>\<open>jl_sign\<close> is \<open>SignedString\<close> with HS256, \<open>jl_parse\<close> \<open>ParseWithClaims\<close> with the check of the method, both under the secret.\<close>

record jwtlib =
  jl_sign :: "token_claims \<Rightarrow> string option"
  jl_parse :: "gotime \<Rightarrow> string \<Rightarrow> token_error + token_claims"

text \<open>The documented behaviour: what was signed parses to the same claims until it expires.\<close>

definition jwt_sound :: "jwtlib \<Rightarrow> bool" where
  "jwt_sound lib \<longleftrightarrow> (\<forall>c tok now. jl_sign lib c = Some tok \<longrightarrow>
     jl_parse lib now tok = (if now < tc_ExpiresAt c then Inr c else Inl ErrTokenExpired))"

record token_pair =
  tp_AccessToken :: string
  tp_RefreshToken :: string
  tp_ExpiresAt :: int

definition NewNumericDate :: "gotime \<Rightarrow> gotime" where
  "NewNumericDate t = t - t mod second"

definition issuerAccess :: string where "issuerAccess = ''featuresignals''"
definition issuerRefresh :: string where "issuerRefresh = ''featuresignals-refresh''"

definition claims_for ::
    "string \<Rightarrow> gotime \<Rightarrow> gotime \<Rightarrow> string \<Rightarrow> string \<Rightarrow> string \<Rightarrow> string \<Rightarrow> string \<Rightarrow> string \<Rightarrow> token_claims" where
  "claims_for issuer now expires jti userID orgID role email region =
     \<lparr>cl_UserID = userID, cl_OrgID = orgID, cl_Role = role, cl_Email = email, cl_DataRegion = region, cl_ID = jti,
      tc_ExpiresAt = NewNumericDate expires, tc_IssuedAt = NewNumericDate now, tc_Issuer = issuer\<rparr>"

text \<open>\<open>unixEpoch\<close> is the Unix epoch as a time.\<close>

record jwt_manager =
  jm_lib :: jwtlib
  jm_tokenTTL :: duration
  jm_refreshTTL :: duration
  jm_unixEpoch :: gotime

definition GenerateTokenPair ::
    "jwt_manager \<Rightarrow> gotime \<Rightarrow> string \<Rightarrow> string \<Rightarrow> string \<Rightarrow> string \<Rightarrow> string \<Rightarrow> string \<Rightarrow> string \<Rightarrow> token_pair option" where
  "GenerateTokenPair m now jti1 jti2 userID orgID role email region =
     (case jl_sign (jm_lib m) (claims_for issuerAccess now (now + jm_tokenTTL m) jti1 userID orgID role email region) of
        None \<Rightarrow> None
      | Some access \<Rightarrow>
        (case jl_sign (jm_lib m) (claims_for issuerRefresh now (now + jm_refreshTTL m) jti2 userID orgID role email region) of
           None \<Rightarrow> None
         | Some refresh \<Rightarrow>
             Some \<lparr>tp_AccessToken = access, tp_RefreshToken = refresh,
                   tp_ExpiresAt = (now + jm_tokenTTL m - jm_unixEpoch m) div second\<rparr>))"

definition validateTokenWithIssuer :: "jwt_manager \<Rightarrow> gotime \<Rightarrow> string \<Rightarrow> string \<Rightarrow> token_error + token_claims" where
  "validateTokenWithIssuer m now tok expectedIssuer =
     (case jl_parse (jm_lib m) now tok of
        Inl e \<Rightarrow> Inl e
      | Inr claims \<Rightarrow> if tc_Issuer claims \<noteq> expectedIssuer then Inl ErrTokenInvalid else Inr claims)"

definition ValidateToken :: "jwt_manager \<Rightarrow> gotime \<Rightarrow> string \<Rightarrow> token_error + token_claims" where
  "ValidateToken m now tok = validateTokenWithIssuer m now tok issuerAccess"

definition ValidateRefreshToken :: "jwt_manager \<Rightarrow> gotime \<Rightarrow> string \<Rightarrow> token_error + token_claims" where
  "ValidateRefreshToken m now tok = validateTokenWithIssuer m now tok issuerRefresh"

subsection \<open>Surroundings of the handlers\<close>

text \<open>
  \<open>xe_hash n\<close> is \<open>HashPassword\<close> with the salt of the \<open>n\<close>th hash of the request, \<open>xe_check\<close> \<open>CheckPassword\<close>,
  \<open>xe_totp\<close> \<open>ValidateTOTP\<close> at the time of the request, \<open>xe_runes\<close> which case of the switch of
  \<open>ValidatePasswordStrength\<close> each rune takes, \<open>xe_mail\<close> \<open>mail.ParseAddress\<close>, \<open>xe_random\<close> the hexadecimal random
  strings, \<open>xe_shortID\<close> \<open>shortID\<close>, \<open>xe_jti\<close> \<open>generateJTI\<close>, \<open>xe_mailer\<close> the mailer, if there is one, and whether it accepts a message, \<open>xe_json\<close> the JSON of a map of strings.
\<close>

datatype rune_class = UpperRune | LowerRune | DigitRune | SpecialRune | OtherRune

record auth_env =
  xe_pg :: pglib
  xe_mac :: maclib
  xe_auditKey :: string
  xe_now :: gotime
  xe_dbnow :: gotime
  xe_newID :: "nat \<Rightarrow> string"
  xe_plans :: "string \<rightharpoonup> plan_limits"
  xe_jwt :: jwt_manager
  xe_hash :: "nat \<Rightarrow> string \<Rightarrow> string option"
  xe_check :: "string \<Rightarrow> string \<Rightarrow> bool"
  xe_totp :: "string \<Rightarrow> string \<Rightarrow> bool"
  xe_runes :: "string \<Rightarrow> rune_class list"
  xe_lower :: "string \<Rightarrow> string"
  xe_mail :: "string \<Rightarrow> bool"
  xe_digit :: "nat \<Rightarrow> nat option"
  xe_random :: "nat \<Rightarrow> string option"
  xe_shortID :: string
  xe_jti :: "nat \<Rightarrow> string"
  xe_mailer :: "(string \<Rightarrow> string \<Rightarrow> bool) option"
  xe_json :: "(string \<times> string) list \<Rightarrow> string"
  xe_internal :: "string \<Rightarrow> bool"

definition ValidatePasswordStrength :: "auth_env \<Rightarrow> string \<Rightarrow> bool" where
  "ValidatePasswordStrength env pw \<longleftrightarrow>
     8 \<le> length pw \<and> UpperRune \<in> set (xe_runes env pw) \<and> LowerRune \<in> set (xe_runes env pw) \<and>
     DigitRune \<in> set (xe_runes env pw) \<and> SpecialRune \<in> set (xe_runes env pw)"

fun otp_digits :: "(nat \<Rightarrow> nat option) \<Rightarrow> nat \<Rightarrow> string option" where
  "otp_digits draw 0 = Some []"
| "otp_digits draw (Suc n) =
     (case (otp_digits draw n, draw n) of
        (Some s, Some d) \<Rightarrow> Some (s @ [char_of (48 + d)])
      | _ \<Rightarrow> None)"

definition generateOTP :: "auth_env \<Rightarrow> string option" where
  "generateOTP env = otp_digits (xe_digit env) 6"

text \<open>Runs of other characters become one dash.\<close>

fun slug_runs :: "bool \<Rightarrow> string \<Rightarrow> string" where
  "slug_runs dashed [] = []"
| "slug_runs dashed (c # s) =
     (if CHR ''a'' \<le> c \<and> c \<le> CHR ''z'' \<or> CHR ''0'' \<le> c \<and> c \<le> CHR ''9'' then c # slug_runs False s
      else if dashed then slug_runs True s
      else CHR ''-'' # slug_runs True s)"

definition slugify :: "(string \<Rightarrow> string) \<Rightarrow> string \<Rightarrow> string" where
  "slugify lower s = trim_char CHR ''-'' (slug_runs False (lower s))"

definition auth_audit ::
    "auth_env \<Rightarrow> faults \<Rightarrow> nat \<Rightarrow> http_request \<Rightarrow> string \<Rightarrow> string \<Rightarrow> string \<Rightarrow> string \<Rightarrow> string \<Rightarrow> rawjson \<Rightarrow> rawjson \<Rightarrow>
     account_db \<Rightarrow> account_db" where
  "auth_audit env flt n r orgID actor action rtype rid after meta db =
     db\<lparr>ac_Audit := snd (CreateAuditEntry (xe_mac env) (xe_auditKey env) (\<lambda>i. flt (n + i)) (xe_pg env)
         (map org_ID (ac_Orgs db)) [] (xe_now env) (xe_dbnow env) (xe_newID env n)
         (zero_audit_entry\<lparr>au_OrgID := orgID, au_ActorID := Some actor, au_ActorType := ''user'', au_Action := action,
            au_ResourceType := rtype, au_ResourceID := Some rid, au_AfterState := after, au_Metadata := meta,
            au_IPAddress := req_RemoteAddr r, au_UserAgent := req_Header r ''User-Agent''\<rparr>)
         (ac_Audit db))\<rparr>"

subsection \<open>Answers\<close>

record safe_user =
  su_ID :: string
  su_Email :: string
  su_Name :: string
  su_EmailVerified :: bool
  su_Tier :: string
  su_CreatedAt :: gotime

definition SafeUserFromDomain :: "auth_env \<Rightarrow> user_row \<Rightarrow> safe_user" where
  "SafeUserFromDomain env u = \<lparr>su_ID = us_ID u, su_Email = us_Email u, su_Name = us_Name u,
     su_EmailVerified = us_EmailVerified u, su_Tier = (if xe_internal env (us_Email u) then ''internal'' else []),
     su_CreatedAt = us_CreatedAt u\<rparr>"

record login_response =
  lr_User :: "safe_user option"
  lr_Organization :: "org_row option"
  lr_Tokens :: token_pair
  lr_OnboardingCompleted :: bool

text \<open>
  What \<open>Login\<close> answers: tokens, the lockout with the time to retry, wrong credentials with the number of
  attempts used, or another refusal.
\<close>

datatype login_answer =
    LoggedIn login_response
  | LockedOut int gotime
  | BadCredentials int
  | LoginRefused nat string

definition maxFailedLoginAttempts :: int where "maxFailedLoginAttempts = 10"

definition onboarded :: "bool \<Rightarrow> string \<Rightarrow> account_db \<Rightarrow> bool" where
  "onboarded fails orgID db \<longleftrightarrow> \<not> fails \<and> orgID \<in> set (ac_Onboarded db)"

definition token_pair_for ::
    "auth_env \<Rightarrow> string \<Rightarrow> string \<Rightarrow> string \<Rightarrow> string \<Rightarrow> string \<Rightarrow> token_pair option" where
  "token_pair_for env userID orgID role email region =
     GenerateTokenPair (xe_jwt env) (xe_now env) (xe_jti env 0) (xe_jti env 1) userID orgID role email region"

definition zero_org :: org_row where
  "zero_org = \<lparr>org_ID = [], org_Plan = [], org_PlanSeatsLimit = 0, org_PlanProjectsLimit = 0,
     org_PlanEnvironmentsLimit = 0, org_TrialExpiresAt = None, org_DeletedAt = None, or_Name = [], or_Slug = [],
     or_DataRegion = [], or_CreatedAt = 0, or_UpdatedAt = 0\<rparr>"

subsection \<open>\<open>auth.go\<close>\<close>

record register_request =
  rq_Email :: string
  rq_Password :: string
  rq_Name :: string
  rq_OrgName :: string

text \<open>The checks \<open>Register\<close> and \<open>InitiateSignup\<close> share.\<close>

definition signup_refusal :: "auth_env \<Rightarrow> register_request \<Rightarrow> (nat \<times> string) option" where
  "signup_refusal env req =
     (if rq_Email req = [] \<or> rq_Password req = [] \<or> rq_Name req = [] \<or> rq_OrgName req = []
      then Some (StatusBadRequest, ''email, password, name, and org_name are required'')
      else if \<not> xe_mail env (rq_Email req) then Some (StatusBadRequest, ''invalid email format'')
      else if 255 < length (rq_Name req) \<or> 255 < length (rq_OrgName req)
      then Some (StatusBadRequest, ''name and org_name must be at most 255 characters'')
      else if \<not> ValidatePasswordStrength env (rq_Password req)
      then Some (StatusBadRequest, ''password must be at least 8 characters with 1 uppercase, 1 lowercase, 1 digit, and 1 special character'')
      else None)"

definition Register ::
    "auth_env \<Rightarrow> faults \<Rightarrow> http_request \<Rightarrow> register_request option \<Rightarrow> account_db \<Rightarrow>
     login_response response \<times> account_db" where
  "Register env flt r body db =
     (case body of
        None \<Rightarrow> (Refuse StatusBadRequest ''invalid request body'', db)
      | Some req \<Rightarrow>
        (case signup_refusal env req of
           Some (c, msg) \<Rightarrow> (Refuse c msg, db)
         | None \<Rightarrow>
           (case xe_hash env 0 (rq_Password req) of
              None \<Rightarrow> (Refuse StatusInternalServerError ''failed to hash password'', db)
            | Some hash \<Rightarrow>
              (case CreateUser (flt 0) (xe_dbnow env) (xe_newID env 0) (rq_Email req) hash (rq_Name req) False db of
                 (Inl e, db1) \<Rightarrow> (Refuse StatusConflict ''email already registered'', db1)
               | (Inr user, db1) \<Rightarrow>
                 (case CreateOrganization (flt 1) (xe_plans env) (xe_dbnow env) (xe_newID env 1)
                         (zero_org\<lparr>or_Name := rq_OrgName req, or_Slug := slugify (xe_lower env) (rq_OrgName req)\<rparr>) db1 of
                    (Inl e, db2) \<Rightarrow> (Refuse StatusInternalServerError ''failed to create organization'', db2)
                  | (Inr org, db2) \<Rightarrow>
                    (case AddOrgMember (flt 2) (xe_pg env) (xe_dbnow env) (xe_newID env 2) (org_ID org) (us_ID user)
                            RoleOwner db2 of
                       (Inl e, db3) \<Rightarrow> (Refuse StatusInternalServerError ''failed to add member'', db3)
                     | (Inr member, db3) \<Rightarrow>
                       (case token_pair_for env (us_ID user) (org_ID org) RoleOwner (us_Email user)
                               (or_DataRegion org) of
                          None \<Rightarrow> (Refuse StatusInternalServerError ''failed to generate tokens'', db3)
                        | Some tokens \<Rightarrow>
                            (Answer StatusCreated \<lparr>lr_User = Some (SafeUserFromDomain env user),
                               lr_Organization = Some org, lr_Tokens = tokens, lr_OnboardingCompleted = False\<rparr>,
                             auth_audit env flt 3 r (org_ID org) (us_ID user) ''auth.register'' ''user'' (us_ID user)
                               None None db3))))))))"

record login_request =
  lq_Email :: string
  lq_Password :: string
  lq_MFACode :: string

datatype mfa_error = ErrMFARequired | ErrMFAInvalid

text \<open>A lookup that fails counts as no second factor.\<close>

definition VerifyMFAForLogin :: "bool \<Rightarrow> auth_env \<Rightarrow> string \<Rightarrow> string \<Rightarrow> account_db \<Rightarrow> mfa_error option" where
  "VerifyMFAForLogin fails env userID code db =
     (case GetMFASecret fails (xe_pg env) userID db of
        Inl e \<Rightarrow> None
      | Inr m \<Rightarrow>
          if \<not> ms_Enabled m then None
          else if code = [] then Some ErrMFARequired
          else if \<not> xe_totp env (ms_Secret m) code then Some ErrMFAInvalid
          else None)"

text \<open>A failed attempt is recorded, and the attempts of the window are counted again.\<close>

definition failed_login :: "auth_env \<Rightarrow> faults \<Rightarrow> nat \<Rightarrow> http_request \<Rightarrow> string \<Rightarrow> account_db \<Rightarrow> login_answer \<times> account_db" where
  "failed_login env flt n r email db =
     (let db1 = snd (RecordLoginAttempt (flt n) (xe_dbnow env) email (req_RemoteAddr r) False db)
      in (BadCredentials (CountRecentFailedAttempts (flt (n + 1)) email (xe_now env - 15 * minute) db1), db1))"

text \<open>The part of \<open>Login\<close> after the password was found right.\<close>

definition login_member ::
    "auth_env \<Rightarrow> faults \<Rightarrow> http_request \<Rightarrow> login_request \<Rightarrow> user_row \<Rightarrow> org_member \<Rightarrow> account_db \<Rightarrow>
     login_answer \<times> account_db" where
  "login_member env flt r req user member db =
     (let orgID = om_OrgID member; role = om_Role member
      in if (case GetSSOConfig (flt 3) (xe_pg env) orgID db of
               Inl e \<Rightarrow> False
             | Inr c \<Rightarrow> so_Enabled c \<and> so_Enforce c \<and> role \<noteq> RoleOwner)
         then (LoginRefused StatusForbidden
                 ''This organization requires SSO login. Please use your identity provider to sign in.'', db)
         else
           (case VerifyMFAForLogin (flt 4) env (us_ID user) (lq_MFACode req) db of
              Some ErrMFARequired \<Rightarrow> (LoginRefused StatusForbidden ''mfa_required'', db)
            | Some ErrMFAInvalid \<Rightarrow>
                (LoginRefused StatusUnauthorized ''invalid MFA code'',
                 snd (RecordLoginAttempt (flt 5) (xe_dbnow env) (lq_Email req) (req_RemoteAddr r) False db))
            | None \<Rightarrow>
              (let org = GetOrganization (flt 5) (xe_pg env) orgID db;
                   db1 = (case org of
                            Inl e \<Rightarrow> db
                          | Inr o1 \<Rightarrow>
                              if org_DeletedAt o1 \<noteq> None
                              then snd (RestoreOrganization (flt 6) (xe_pg env) (xe_dbnow env) orgID db) else db);
                   db2 = snd (UpdateLastLoginAt (flt 7) (xe_pg env) (xe_dbnow env) (us_ID user) db1);
                   db3 = snd (RecordLoginAttempt (flt 8) (xe_dbnow env) (lq_Email req) (req_RemoteAddr r) True db2);
                   region = (case org of Inl e \<Rightarrow> [] | Inr o1 \<Rightarrow> or_DataRegion o1)
               in case token_pair_for env (us_ID user) orgID role (us_Email user) region of
                    None \<Rightarrow> (LoginRefused StatusInternalServerError ''failed to generate tokens'', db3)
                  | Some tokens \<Rightarrow>
                    (let db4 = auth_audit env flt 9 r orgID (us_ID user) ''auth.login'' ''session'' (us_ID user) None None db3
                     in (LoggedIn \<lparr>lr_User = Some (SafeUserFromDomain env user),
                           lr_Organization = (case org of Inl e \<Rightarrow> None | Inr o1 \<Rightarrow> Some o1), lr_Tokens = tokens,
                           lr_OnboardingCompleted = onboarded (flt 14) orgID db4\<rparr>, db4)))))"

text \<open>
  The part of \<open>Login\<close> after the failed attempts were counted.  Other requests may come in between, so it has the
  count as an argument.
\<close>

definition login_counted ::
    "auth_env \<Rightarrow> faults \<Rightarrow> http_request \<Rightarrow> login_request \<Rightarrow> int \<Rightarrow> account_db \<Rightarrow> login_answer \<times> account_db" where
  "login_counted env flt r req failedCount db =
     (if maxFailedLoginAttempts \<le> failedCount then (LockedOut failedCount (xe_now env + 15 * minute), db)
      else
        (case GetUserByEmail (flt 1) (lq_Email req) db of
           Inl e \<Rightarrow> failed_login env flt 2 r (lq_Email req) db
         | Inr user \<Rightarrow>
           (if \<not> xe_check env (lq_Password req) (us_PasswordHash user)
            then failed_login env flt 2 r (lq_Email req) db
            else
              (case GetOrgMember (flt 2) (xe_pg env) [] (us_ID user) db of
                 Inl e \<Rightarrow> (LoginRefused StatusUnauthorized ''invalid credentials'', db)
               | Inr member \<Rightarrow> login_member env flt r req user member db))))"

definition Login ::
    "auth_env \<Rightarrow> faults \<Rightarrow> http_request \<Rightarrow> login_request option \<Rightarrow> account_db \<Rightarrow> login_answer \<times> account_db" where
  "Login env flt r body db =
     (case body of
        None \<Rightarrow> (LoginRefused StatusBadRequest ''invalid request body'', db)
      | Some req \<Rightarrow>
        login_counted env flt r req
          (CountRecentFailedAttempts (flt 0) (lq_Email req) (xe_now env - 15 * minute) db) db)"

text \<open>\<open>exp\<close> is the \<open>ExpiresAt\<close> of the claims of the request, if they have one.\<close>

definition Logout ::
    "auth_env \<Rightarrow> faults \<Rightarrow> http_request \<Rightarrow> gotime option \<Rightarrow> account_db \<Rightarrow> string response \<times> account_db" where
  "Logout env flt r exp db =
     (case GetClaims r of
        None \<Rightarrow> (Refuse StatusBadRequest ''no token to revoke'', db)
      | Some claims \<Rightarrow>
        (if cl_ID claims = [] then (Refuse StatusBadRequest ''no token to revoke'', db)
         else
           (case RevokeToken (flt 0) (xe_pg env) (cl_ID claims) (cl_UserID claims) (cl_OrgID claims)
                   (case exp of None \<Rightarrow> xe_now env + hour | Some t \<Rightarrow> t) db of
              (Inl e, db1) \<Rightarrow> (Refuse StatusInternalServerError ''failed to logout'', db1)
            | (Inr _, db1) \<Rightarrow>
                (Answer StatusOK ''logged out'',
                 auth_audit env flt 1 r (cl_OrgID claims) (cl_UserID claims) ''auth.logout'' ''session''
                   (cl_UserID claims) None None db1))))"

record refresh_response =
  rr_Tokens :: token_pair
  rr_User :: "safe_user option"
  rr_Organization :: "org_row option"
  rr_OnboardingCompleted :: bool

text \<open>The tables are only read for the answer: the new tokens repeat the claims of the old one.\<close>

definition Refresh ::
    "auth_env \<Rightarrow> faults \<Rightarrow> string option \<Rightarrow> account_db \<Rightarrow> refresh_response response" where
  "Refresh env flt body db =
     (case body of
        None \<Rightarrow> Refuse StatusBadRequest ''invalid request body''
      | Some tok \<Rightarrow>
        (case ValidateRefreshToken (xe_jwt env) (xe_now env) tok of
           Inl e \<Rightarrow> Refuse StatusUnauthorized ''invalid refresh token''
         | Inr claims \<Rightarrow>
           (case token_pair_for env (cl_UserID claims) (cl_OrgID claims) (cl_Role claims) [] (cl_DataRegion claims) of
              None \<Rightarrow> Refuse StatusInternalServerError ''failed to generate tokens''
            | Some tokens \<Rightarrow>
                Answer StatusOK \<lparr>rr_Tokens = tokens,
                  rr_User = (case GetUserByID (flt 1) (xe_pg env) (cl_UserID claims) db of
                               Inl e \<Rightarrow> None | Inr u \<Rightarrow> Some (SafeUserFromDomain env u)),
                  rr_Organization = (case GetOrganization (flt 0) (xe_pg env) (cl_OrgID claims) db of
                               Inl e \<Rightarrow> None | Inr o1 \<Rightarrow> Some o1),
                  rr_OnboardingCompleted = onboarded (flt 2) (cl_OrgID claims) db\<rparr>)))"

definition SendVerificationEmail ::
    "auth_env \<Rightarrow> faults \<Rightarrow> http_request \<Rightarrow> account_db \<Rightarrow> string response \<times> account_db" where
  "SendVerificationEmail env flt r db =
     (case GetUserByID (flt 0) (xe_pg env) (GetUserID r) db of
        Inl e \<Rightarrow> (Refuse StatusInternalServerError ''failed to get user'', db)
      | Inr u \<Rightarrow>
        (case xe_random env 0 of
           None \<Rightarrow> (Refuse StatusInternalServerError ''failed to generate verification token'', db)
         | Some tok \<Rightarrow>
           (case UpdateUserEmailVerifyToken (flt 1) (xe_pg env) (xe_dbnow env) (GetUserID r) tok
                   (xe_now env + 24 * hour) db of
              (Inl e, db1) \<Rightarrow> (Refuse StatusInternalServerError ''failed to store verification token'', db1)
            | (Inr _, db1) \<Rightarrow> (Answer StatusOK ''Verification email sent'', db1))))"

text \<open>Success redirects to the login page (302).\<close>

definition VerifyEmail ::
    "auth_env \<Rightarrow> faults \<Rightarrow> string \<Rightarrow> account_db \<Rightarrow> string response \<times> account_db" where
  "VerifyEmail env flt tok db =
     (if tok = [] then (Refuse StatusBadRequest ''token is required'', db)
      else
        (case GetUserByEmailVerifyToken (flt 0) tok db of
           Inl e \<Rightarrow> (Refuse StatusBadRequest ''invalid or expired token'', db)
         | Inr user \<Rightarrow>
           (if (case us_EmailVerifyExpires user of None \<Rightarrow> True | Some t \<Rightarrow> t < xe_now env)
            then (Refuse StatusBadRequest ''verification link expired'', db)
            else
              (case SetEmailVerified (flt 1) (xe_pg env) (xe_dbnow env) (us_ID user) db of
                 (Inl e, db1) \<Rightarrow> (Refuse StatusInternalServerError ''failed to verify email'', db1)
               | (Inr _, db1) \<Rightarrow> (Answer 302 ''/login?email_verified=true'', db1)))))"

text \<open>A user without a membership becomes a developer.\<close>

definition TokenExchange ::
    "auth_env \<Rightarrow> faults \<Rightarrow> string option \<Rightarrow> account_db \<Rightarrow> (token_pair \<times> safe_user option) response \<times> account_db" where
  "TokenExchange env flt body db =
     (case body of
        None \<Rightarrow> (Refuse StatusBadRequest ''invalid request body'', db)
      | Some tok \<Rightarrow>
        (if tok = [] then (Refuse StatusBadRequest ''token is required'', db)
         else
           (case ConsumeOneTimeToken (flt 0) (xe_dbnow env) tok db of
              (None, db1) \<Rightarrow> (Refuse StatusUnauthorized ''invalid or expired token'', db1)
            | (Some (userID, orgID), db1) \<Rightarrow>
              (let role = (case GetOrgMember (flt 1) (xe_pg env) orgID userID db1 of
                             Inl e \<Rightarrow> RoleDeveloper | Inr m \<Rightarrow> om_Role m)
               in case token_pair_for env userID orgID role [] [] of
                    None \<Rightarrow> (Refuse StatusInternalServerError ''failed to generate tokens'', db1)
                  | Some tokens \<Rightarrow>
                      (Answer StatusOK (tokens, case GetUserByID (flt 2) (xe_pg env) userID db1 of
                         Inl e \<Rightarrow> None | Inr u \<Rightarrow> Some (SafeUserFromDomain env u)), db1)))))"

definition resetMsg :: string where
  "resetMsg = ''If an account exists with this email, a password reset code has been sent.''"

definition ForgotPassword ::
    "auth_env \<Rightarrow> faults \<Rightarrow> http_request \<Rightarrow> string option \<Rightarrow> account_db \<Rightarrow> string response \<times> account_db" where
  "ForgotPassword env flt r body db =
     (case body of
        None \<Rightarrow> (Refuse StatusBadRequest ''invalid request body'', db)
      | Some email \<Rightarrow>
        (if email = [] then (Refuse StatusBadRequest ''email is required'', db)
         else if \<not> xe_mail env email then (Refuse StatusBadRequest ''invalid email format'', db)
         else
           (case (GetUserByEmail (flt 0) email db, generateOTP env) of
              (Inr user, Some otp) \<Rightarrow>
                (case xe_hash env 0 otp of
                   None \<Rightarrow> (Answer StatusOK resetMsg, db)
                 | Some otpHash \<Rightarrow>
                   (case SetPasswordResetToken (\<lambda>i. flt (1 + i)) (xe_pg env) (xe_dbnow env) (xe_newID env 1) (us_ID user)
                           otpHash (xe_now env + 15 * minute) db of
                      (Inl e, db1) \<Rightarrow> (Answer StatusOK resetMsg, db1)
                    | (Inr _, db1) \<Rightarrow>
                      (case xe_mailer env of
                         None \<Rightarrow> (Answer StatusOK resetMsg, db1)
                       | Some send \<Rightarrow>
                           if \<not> send email otp then (Answer StatusOK resetMsg, db1)
                           else (Answer StatusOK resetMsg,
                                 auth_audit env flt 3 r [] (us_ID user) ''auth.forgot_password'' ''session'' (us_ID user)
                                   None None db1))))
            | _ \<Rightarrow> (Answer StatusOK resetMsg, db))))"

definition ResetPassword ::
    "auth_env \<Rightarrow> faults \<Rightarrow> http_request \<Rightarrow> (string \<times> string) option \<Rightarrow> account_db \<Rightarrow>
     string response \<times> account_db" where
  "ResetPassword env flt r body db =
     (case body of
        None \<Rightarrow> (Refuse StatusBadRequest ''invalid request body'', db)
      | Some (otp, newPassword) \<Rightarrow>
        (if otp = [] then (Refuse StatusBadRequest ''reset code is required'', db)
         else if newPassword = [] then (Refuse StatusBadRequest ''new password is required'', db)
         else if \<not> ValidatePasswordStrength env newPassword
         then (Refuse StatusBadRequest ''password must be at least 8 characters with 1 uppercase, 1 lowercase, 1 digit, and 1 special character'', db)
         else
           (case ConsumePasswordResetToken flt (xe_check env) (xe_dbnow env) otp db of
              (Inl e, db1) \<Rightarrow> (Refuse StatusBadRequest ''invalid or expired reset code'', db1)
            | (Inr userID, db1) \<Rightarrow>
              (case xe_hash env 0 newPassword of
                 None \<Rightarrow> (Refuse StatusInternalServerError ''failed to reset password'', db1)
               | Some hash \<Rightarrow>
                 (case UpdatePassword (flt 2) (xe_pg env) (xe_dbnow env) userID hash db1 of
                    (Inl e, db2) \<Rightarrow> (Refuse StatusInternalServerError ''failed to reset password'', db2)
                  | (Inr _, db2) \<Rightarrow>
                      (Answer StatusOK ''Password reset successful. You can now sign in with your new password.'',
                       auth_audit env flt 3 r [] userID ''auth.reset_password'' ''session'' userID None None db2))))))"

subsection \<open>\<open>mfa.go\<close>\<close>

text \<open>The answer has the secret and the URI of the code, whose parts are fixed but for the secret and the address.\<close>

definition TOTPKeyURI :: "string \<Rightarrow> string \<Rightarrow> string \<Rightarrow> string" where
  "TOTPKeyURI secret email issuer =
     ''otpauth://totp/'' @ issuer @ '':'' @ email @ ''?secret='' @ secret @ ''&issuer='' @ issuer @
     ''&algorithm=SHA1&digits=6&period=30''"

definition MFA_Enable ::
    "auth_env \<Rightarrow> faults \<Rightarrow> http_request \<Rightarrow> account_db \<Rightarrow> (string \<times> string) response \<times> account_db" where
  "MFA_Enable env flt r db =
     (case GetUserByID (flt 0) (xe_pg env) (GetUserID r) db of
        Inl e \<Rightarrow> (Refuse StatusInternalServerError ''failed to get user'', db)
      | Inr user \<Rightarrow>
        (case xe_random env 0 of
           None \<Rightarrow> (Refuse StatusInternalServerError ''failed to generate MFA secret'', db)
         | Some secret \<Rightarrow>
           (case UpsertMFASecret (flt 1) (xe_pg env) (GetUserID r) secret db of
              (Inl e, db1) \<Rightarrow> (Refuse StatusInternalServerError ''failed to store MFA secret'', db1)
            | (Inr _, db1) \<Rightarrow>
                (Answer StatusOK (secret, TOTPKeyURI secret (us_Email user) ''FeatureSignals''), db1))))"

definition MFA_Verify ::
    "auth_env \<Rightarrow> faults \<Rightarrow> http_request \<Rightarrow> string option \<Rightarrow> account_db \<Rightarrow> string response \<times> account_db" where
  "MFA_Verify env flt r body db =
     (case body of
        None \<Rightarrow> (Refuse StatusBadRequest ''code is required'', db)
      | Some code \<Rightarrow>
        (if code = [] then (Refuse StatusBadRequest ''code is required'', db)
         else
           (case GetMFASecret (flt 0) (xe_pg env) (GetUserID r) db of
              Inl e \<Rightarrow> (Refuse StatusBadRequest ''MFA not initiated - call enable first'', db)
            | Inr m \<Rightarrow>
              (if \<not> xe_totp env (ms_Secret m) code then (Refuse StatusUnauthorized ''invalid TOTP code'', db)
               else
                 (case EnableMFA (flt 1) (xe_pg env) (xe_dbnow env) (GetUserID r) db of
                    (Inl e, db1) \<Rightarrow> (Refuse StatusInternalServerError ''failed to enable MFA'', db1)
                  | (Inr _, db1) \<Rightarrow>
                      (Answer StatusOK ''MFA enabled successfully'',
                       auth_audit env flt 2 r (GetOrgID r) (GetUserID r) ''mfa.enabled'' ''user'' (GetUserID r)
                         None None db1))))))"

definition MFA_Disable ::
    "auth_env \<Rightarrow> faults \<Rightarrow> http_request \<Rightarrow> string option \<Rightarrow> account_db \<Rightarrow> string response \<times> account_db" where
  "MFA_Disable env flt r body db =
     (case body of
        None \<Rightarrow> (Refuse StatusBadRequest ''password is required to disable MFA'', db)
      | Some password \<Rightarrow>
        (if password = [] then (Refuse StatusBadRequest ''password is required to disable MFA'', db)
         else
           (case GetUserByID (flt 0) (xe_pg env) (GetUserID r) db of
              Inl e \<Rightarrow> (Refuse StatusInternalServerError ''failed to get user'', db)
            | Inr user \<Rightarrow>
              (if \<not> xe_check env password (us_PasswordHash user)
               then (Refuse StatusUnauthorized ''invalid password'', db)
               else
                 (case DisableMFA (flt 1) (xe_pg env) (GetUserID r) db of
                    (Inl e, db1) \<Rightarrow> (Refuse StatusInternalServerError ''failed to disable MFA'', db1)
                  | (Inr _, db1) \<Rightarrow>
                      (Answer StatusOK ''MFA disabled'',
                       auth_audit env flt 2 r (GetOrgID r) (GetUserID r) ''mfa.disabled'' ''user'' (GetUserID r)
                         None None db1))))))"

definition MFA_Status ::
    "auth_env \<Rightarrow> faults \<Rightarrow> http_request \<Rightarrow> account_db \<Rightarrow> (bool \<times> gotime option) response" where
  "MFA_Status env flt r db =
     (case GetMFASecret (flt 0) (xe_pg env) (GetUserID r) db of
        Inl e \<Rightarrow> Answer StatusOK (False, None)
      | Inr m \<Rightarrow> Answer StatusOK (ms_Enabled m, ms_VerifiedAt m))"

subsection \<open>\<open>magic_link.go\<close>\<close>

definition MagicLinkExpiry :: duration where "MagicLinkExpiry = 24 * hour"

datatype magic_answer =
    MagicRefused nat string
  | MagicRedirectError string
  | MagicLoggedIn token_pair

definition MagicLink_Exchange ::
    "auth_env \<Rightarrow> faults \<Rightarrow> http_request \<Rightarrow> string \<Rightarrow> account_db \<Rightarrow> magic_answer \<times> account_db" where
  "MagicLink_Exchange env flt r tok db =
     (if tok = [] then (MagicRefused StatusBadRequest ''token is required'', db)
      else
        (case ConsumeMagicLinkToken flt (xe_now env) (xe_dbnow env) tok db of
           (Inl e, db1) \<Rightarrow> (MagicRedirectError ''expired'', db1)
         | (Inr (userID, orgID), db1) \<Rightarrow>
           (case (GetUserByID (flt 2) (xe_pg env) userID db1, GetOrgMember (flt 3) (xe_pg env) orgID userID db1,
                  GetOrganization (flt 4) (xe_pg env) orgID db1) of
              (Inr user, Inr member, Inr org) \<Rightarrow>
                (case token_pair_for env (us_ID user) (org_ID org) (om_Role member) (us_Email user) (or_DataRegion org) of
                   None \<Rightarrow> (MagicRedirectError ''error'', db1)
                 | Some tokens \<Rightarrow>
                     (MagicLoggedIn tokens,
                      snd (RecordLoginAttempt (flt 5) (xe_dbnow env) (us_Email user) (req_RemoteAddr r) True db1)))
            | _ \<Rightarrow> (MagicRedirectError ''error'', db1))))"

subsection \<open>\<open>signup.go\<close>\<close>

abbreviation "OTPLength \<equiv> 6 :: nat"
abbreviation "OTPExpiryMinutes \<equiv> 10 :: int"
abbreviation "OTPMaxAttempts \<equiv> 5 :: int"
abbreviation "OTPResendCooldown \<equiv> 60 :: int"
abbreviation "TrialDurationDays \<equiv> 14 :: int"

text \<open>The part the first code and a new one share: store the registration, then mail the code.\<close>

definition send_signup_code ::
    "auth_env \<Rightarrow> bool \<Rightarrow> string \<Rightarrow> string \<Rightarrow> string \<Rightarrow> pending_registration \<Rightarrow> account_db \<Rightarrow>
     string response \<times> account_db" where
  "send_signup_code env fails storeError success otp pr db =
     (case UpsertPendingRegistration fails (xe_dbnow env) (xe_newID env 0) pr db of
        (Inl e, db1) \<Rightarrow> (Refuse StatusInternalServerError storeError, db1)
      | (Inr _, db1) \<Rightarrow>
        (case xe_mailer env of
           None \<Rightarrow> (Refuse StatusServiceUnavailable ''email service is not configured'', db1)
         | Some send \<Rightarrow>
             if \<not> send (pn_Email pr) otp then (Refuse StatusInternalServerError ''failed to send verification email'', db1)
             else (Answer StatusOK success, db1)))"

definition InitiateSignup ::
    "auth_env \<Rightarrow> faults \<Rightarrow> (register_request \<times> string) option \<Rightarrow> account_db \<Rightarrow> string response \<times> account_db" where
  "InitiateSignup env flt body db =
     (case body of
        None \<Rightarrow> (Refuse StatusBadRequest ''invalid request body'', db)
      | Some (req, region) \<Rightarrow>
        (case signup_refusal env req of
           Some (c, msg) \<Rightarrow> (Refuse c msg, db)
         | None \<Rightarrow>
           (let region = (if region = [] then RegionUS else region)
            in if \<not> ValidRegion region then (Refuse StatusBadRequest ''invalid data region'', db)
               else
                 (case GetUserByEmail (flt 0) (rq_Email req) db of
                    Inr u \<Rightarrow> (Refuse StatusConflict ''email already registered'', db)
                  | Inl e \<Rightarrow>
                    (case (xe_hash env 0 (rq_Password req), generateOTP env) of
                       (Some passwordHash, Some otp) \<Rightarrow>
                         (case xe_hash env 1 otp of
                            None \<Rightarrow> (Refuse StatusInternalServerError ''internal error'', db)
                          | Some otpHash \<Rightarrow>
                              send_signup_code env (flt 1) ''failed to initiate signup''
                                ''Verification code sent to your email'' otp
                                \<lparr>pn_ID = [], pn_Email = rq_Email req, pn_Name = rq_Name req,
                                 pn_OrgName = rq_OrgName req, pn_DataRegion = region, pn_PasswordHash = passwordHash,
                                 pn_OTPHash = otpHash, pn_ExpiresAt = xe_now env + OTPExpiryMinutes * minute,
                                 pn_Attempts = 0, pn_CreatedAt = 0\<rparr> db)
                     | _ \<Rightarrow> (Refuse StatusInternalServerError ''internal error'', db))))))"

definition ResendSignupOTP ::
    "auth_env \<Rightarrow> faults \<Rightarrow> string option \<Rightarrow> account_db \<Rightarrow> string response \<times> account_db" where
  "ResendSignupOTP env flt body db =
     (case body of
        None \<Rightarrow> (Refuse StatusBadRequest ''invalid request body'', db)
      | Some email \<Rightarrow>
        (if email = [] then (Refuse StatusBadRequest ''email is required'', db)
         else
           (case GetPendingRegistrationByEmail (flt 0) email db of
              Inl e \<Rightarrow> (Refuse StatusBadRequest ''no pending signup found for this email'', db)
            | Inr pr \<Rightarrow>
              (if xe_now env - pn_CreatedAt pr < OTPResendCooldown * second
               then (Refuse StatusTooManyRequests ''please wait before requesting another code'', db)
               else
                 (case generateOTP env of
                    None \<Rightarrow> (Refuse StatusInternalServerError ''internal error'', db)
                  | Some otp \<Rightarrow>
                    (case xe_hash env 0 otp of
                       None \<Rightarrow> (Refuse StatusInternalServerError ''internal error'', db)
                     | Some otpHash \<Rightarrow>
                         send_signup_code env (flt 1) ''failed to resend code''
                           ''New verification code sent to your email'' otp
                           (pr\<lparr>pn_OTPHash := otpHash, pn_ExpiresAt := xe_now env + OTPExpiryMinutes * minute,
                               pn_Attempts := 0\<rparr>) db))))))"

text \<open>
  The part of \<open>CompleteSignup\<close> after the code was found right.  Its rows are written one by one, without a
  transaction.  The welcome mail and its link are sent by a goroutine, \<open>welcome_link\<close>.
\<close>

definition signup_org :: "auth_env \<Rightarrow> faults \<Rightarrow> pending_registration \<Rightarrow> account_db \<Rightarrow> org_row result \<times> account_db" where
  "signup_org env flt pr db =
     (let baseSlug = slugify (xe_lower env) (pn_OrgName pr);
          org = zero_org\<lparr>or_Name := pn_OrgName pr, or_Slug := baseSlug, org_Plan := PlanTrial,
                  or_DataRegion := pn_DataRegion pr,
                  org_TrialExpiresAt := Some (xe_now env + TrialDurationDays * day)\<rparr>
      in case CreateOrganization (flt 2) (xe_plans env) (xe_dbnow env) (xe_newID env 2) org db of
           (Inl ErrConflict, db1) \<Rightarrow>
             CreateOrganization (flt 3) (xe_plans env) (xe_dbnow env) (xe_newID env 3)
               (org\<lparr>or_Slug := baseSlug @ ''-'' @ xe_shortID env\<rparr>) db1
         | res \<Rightarrow> res)"

definition complete_account ::
    "auth_env \<Rightarrow> faults \<Rightarrow> pending_registration \<Rightarrow> account_db \<Rightarrow> login_response response \<times> account_db" where
  "complete_account env flt pr db =
     (case CreateUser (flt 1) (xe_dbnow env) (xe_newID env 1) (pn_Email pr) (pn_PasswordHash pr) (pn_Name pr) True db of
        (Inl e, db1) \<Rightarrow> (Refuse StatusConflict ''email already registered'', db1)
      | (Inr user, db1) \<Rightarrow>
        (case signup_org env flt pr db1 of
           (Inl e, db2) \<Rightarrow> (Refuse StatusInternalServerError ''failed to create organization'', db2)
         | (Inr org, db2) \<Rightarrow>
           (case AddOrgMember (flt 4) (xe_pg env) (xe_dbnow env) (xe_newID env 4) (org_ID org) (us_ID user)
                   RoleOwner db2 of
              (Inl e, db3) \<Rightarrow> (Refuse StatusInternalServerError ''failed to set up account'', db3)
            | (Inr member, db3) \<Rightarrow>
              (let db4 = snd (UpdateLastLoginAt (flt 5) (xe_pg env) (xe_dbnow env) (us_ID user) db3);
                   db5 = snd (DeletePendingRegistration (flt 6) (xe_pg env) (pn_ID pr) db4)
               in case token_pair_for env (us_ID user) (org_ID org) RoleOwner (us_Email user) (or_DataRegion org) of
                    None \<Rightarrow> (Refuse StatusInternalServerError ''failed to generate tokens'', db5)
                  | Some tokens \<Rightarrow>
                      (Answer StatusCreated \<lparr>lr_User = Some (SafeUserFromDomain env user), lr_Organization = Some org,
                         lr_Tokens = tokens, lr_OnboardingCompleted = False\<rparr>, db5)))))"

text \<open>
  The part of \<open>CompleteSignup\<close> after the registration was loaded.  Attempts, expiry and code are those of the row as
  it was loaded; a wrong code is counted by a statement of its own, whose error is ignored.
\<close>

definition signup_loaded ::
    "auth_env \<Rightarrow> faults \<Rightarrow> string \<Rightarrow> pending_registration \<Rightarrow> account_db \<Rightarrow> login_response response \<times> account_db" where
  "signup_loaded env flt otp pr db =
     (if pn_ExpiresAt pr < xe_now env
      then (Refuse StatusBadRequest ''verification code expired, please request a new one'', db)
      else if OTPMaxAttempts \<le> pn_Attempts pr
      then (Refuse StatusTooManyRequests ''too many failed attempts, please request a new code'', db)
      else if \<not> xe_check env otp (pn_OTPHash pr)
      then (Refuse StatusBadRequest ''invalid verification code'',
            snd (IncrementPendingAttempts (flt 1) (xe_pg env) (pn_ID pr) db))
      else complete_account env flt pr db)"

definition CompleteSignup ::
    "auth_env \<Rightarrow> faults \<Rightarrow> (string \<times> string) option \<Rightarrow> account_db \<Rightarrow> login_response response \<times> account_db" where
  "CompleteSignup env flt body db =
     (case body of
        None \<Rightarrow> (Refuse StatusBadRequest ''invalid request body'', db)
      | Some (email, otp) \<Rightarrow>
        (if email = [] \<or> otp = [] then (Refuse StatusBadRequest ''email and otp are required'', db)
         else
           (case GetPendingRegistrationByEmail (flt 0) email db of
              Inl e \<Rightarrow> (Refuse StatusBadRequest ''no pending signup found for this email'', db)
            | Inr pr \<Rightarrow> signup_loaded env flt otp pr db)))"

definition welcome_link :: "auth_env \<Rightarrow> faults \<Rightarrow> string \<Rightarrow> string \<Rightarrow> account_db \<Rightarrow> string option \<times> account_db" where
  "welcome_link env flt userID orgID db =
     (case xe_random env 0 of
        None \<Rightarrow> (None, db)
      | Some tok \<Rightarrow>
        (case CreateMagicLinkToken flt (xe_pg env) (xe_dbnow env) userID orgID tok (xe_now env + MagicLinkExpiry) db of
           (Inl e, db1) \<Rightarrow> (None, db1)
         | (Inr _, db1) \<Rightarrow> (Some tok, db1)))"

end
