(* ===== verification/Team.thy ===== *)
theory Team
  imports Sessions
begin

text \<open>
  Managing the members of an organization: \<open>server/internal/api/handlers/team.go\<close>.  The routes admit owners and
  admins; product events and log lines are left out.
\<close>

record member_response =
  mr_ID :: string
  mr_OrgID :: string
  mr_Role :: string
  mr_Email :: string
  mr_Name :: string

text \<open>A member whose user cannot be read is skipped; call \<open>n\<close> reads the next user.\<close>

fun member_rows :: "auth_env \<Rightarrow> faults \<Rightarrow> nat \<Rightarrow> org_member list \<Rightarrow> account_db \<Rightarrow> member_response list" where
  "member_rows env flt n [] db = []"
| "member_rows env flt n (m # ms) db =
     (case GetUserByID (flt n) (xe_pg env) (om_UserID m) db of
        Inl e \<Rightarrow> member_rows env flt (Suc n) ms db
      | Inr u \<Rightarrow> \<lparr>mr_ID = om_ID m, mr_OrgID = om_OrgID m, mr_Role = om_Role m, mr_Email = us_Email u,
                  mr_Name = us_Name u\<rparr> # member_rows env flt (Suc n) ms db)"

definition Team_List ::
    "auth_env \<Rightarrow> faults \<Rightarrow> http_request \<Rightarrow> (string \<Rightarrow> string) \<Rightarrow> account_db \<Rightarrow>
     member_response paginated_response response" where
  "Team_List env flt r query db =
     (case ListOrgMembers (flt 0) (xe_pg env) (GetOrgID r) db of
        Inl e \<Rightarrow> Refuse StatusInternalServerError ''failed to list members''
      | Inr members \<Rightarrow>
        (let resp = member_rows env flt 1 members db; p = ParsePagination query; (page, total) = Paginate resp p
         in Answer StatusOK (NewPaginatedResponse page total (pp_Limit p) (pp_Offset p))))"

definition invited_password :: string where "invited_password = ''changeme-invited''"

text \<open>The user of the address, or a new one; a hash that fails is stored empty.\<close>

definition invited_user ::
    "auth_env \<Rightarrow> faults \<Rightarrow> string \<Rightarrow> account_db \<Rightarrow> user_row result \<times> account_db" where
  "invited_user env flt email db =
     (case GetUserByEmail (flt 0) email db of
        Inr u \<Rightarrow> (Inr u, db)
      | Inl e \<Rightarrow>
          CreateUser (flt 1) (xe_dbnow env) (xe_newID env 1) email
            (case xe_hash env 0 invited_password of None \<Rightarrow> [] | Some h \<Rightarrow> h) email False db)"

definition Team_Invite ::
    "auth_env \<Rightarrow> faults \<Rightarrow> http_request \<Rightarrow> (string \<times> string) option \<Rightarrow> account_db \<Rightarrow>
     member_response response \<times> account_db" where
  "Team_Invite env flt r body db =
     (case body of
        None \<Rightarrow> (Refuse StatusBadRequest ''invalid request body'', db)
      | Some (email, wanted) \<Rightarrow>
        (let orgID = GetOrgID r; role = (if wanted = [] then RoleDeveloper else wanted)
         in if email = [] then (Refuse StatusBadRequest ''email is required'', db)
            else if \<not> xe_mail env email then (Refuse StatusBadRequest ''invalid email format'', db)
            else if role \<notin> member_roles then (Refuse StatusBadRequest ''invalid role'', db)
            else
              (case invited_user env flt email db of
                 (Inl e, db1) \<Rightarrow> (Refuse StatusConflict ''failed to create user'', db1)
               | (Inr user, db1) \<Rightarrow>
                 (case GetOrgMember (flt 2) (xe_pg env) orgID (us_ID user) db1 of
                    Inr m \<Rightarrow> (Refuse StatusConflict ''user is already a member of this organization'', db1)
                  | Inl e \<Rightarrow>
                    (case AddOrgMember (flt 3) (xe_pg env) (xe_dbnow env) (xe_newID env 3) orgID (us_ID user) role db1 of
                       (Inl e, db2) \<Rightarrow> (Refuse StatusInternalServerError ''failed to add member'', db2)
                     | (Inr member, db2) \<Rightarrow>
                         (Answer StatusCreated \<lparr>mr_ID = om_ID member, mr_OrgID = orgID, mr_Role = role,
                            mr_Email = us_Email user, mr_Name = us_Name user\<rparr>,
                          auth_audit env flt 4 r orgID (GetUserID r) ''member.invited'' ''member'' (om_ID member)
                            None (Some (xe_json env [(''email'', email), (''role'', role)])) db2))))))"

definition Team_UpdateRole ::
    "auth_env \<Rightarrow> faults \<Rightarrow> http_request \<Rightarrow> string option \<Rightarrow> account_db \<Rightarrow> unit response \<times> account_db" where
  "Team_UpdateRole env flt r body db =
     (let memberID = URLParam r ''memberID''
      in case body of
           None \<Rightarrow> (Refuse StatusBadRequest ''invalid request body'', db)
         | Some role \<Rightarrow>
           (if role \<notin> member_roles then (Refuse StatusBadRequest ''invalid role'', db)
            else
              (case UpdateOrgMemberRole (flt 0) (xe_pg env) memberID role db of
                 (Inl e, db1) \<Rightarrow> (Refuse StatusNotFound ''member not found'', db1)
               | (Inr _, db1) \<Rightarrow>
                   (Answer StatusNoContent (),
                    auth_audit env flt 1 r (GetOrgID r) (GetUserID r) ''member.role_changed'' ''member'' memberID
                      None (Some (xe_json env [(''new_role'', role)])) db1))))"

definition Team_Remove ::
    "auth_env \<Rightarrow> faults \<Rightarrow> http_request \<Rightarrow> account_db \<Rightarrow> unit response \<times> account_db" where
  "Team_Remove env flt r db =
     (let memberID = URLParam r ''memberID''
      in case GetOrgMemberByID (flt 0) (xe_pg env) memberID db of
           Inl e \<Rightarrow> (Refuse StatusNotFound ''member not found'', db)
         | Inr member \<Rightarrow>
           (if om_UserID member = GetUserID r then (Refuse StatusBadRequest ''cannot remove yourself'', db)
            else
              (case RemoveOrgMember (flt 1) (xe_pg env) memberID db of
                 (Inl e, db1) \<Rightarrow> (Refuse StatusInternalServerError ''failed to remove member'', db1)
               | (Inr _, db1) \<Rightarrow>
                   (Answer StatusNoContent (),
                    auth_audit env flt 2 r (GetOrgID r) (GetUserID r) ''member.removed'' ''member'' memberID
                      None None db1))))"

definition Team_ListPermissions ::
    "auth_env \<Rightarrow> faults \<Rightarrow> http_request \<Rightarrow> account_db \<Rightarrow> env_perm_row list response" where
  "Team_ListPermissions env flt r db =
     (case ListEnvPermissions (flt 0) (xe_pg env) (URLParam r ''memberID'') db of
        Inl e \<Rightarrow> Refuse StatusInternalServerError ''failed to list permissions''
      | Inr ps \<Rightarrow> Answer StatusOK ps)"

text \<open>The permissions written before a failure stay.\<close>

fun upsert_perms ::
    "auth_env \<Rightarrow> faults \<Rightarrow> nat \<Rightarrow> string \<Rightarrow> env_perm_row list \<Rightarrow> account_db \<Rightarrow> bool \<times> account_db" where
  "upsert_perms env flt n memberID [] db = (True, db)"
| "upsert_perms env flt n memberID (p # ps) db =
     (case UpsertEnvPermission (flt n) (xe_pg env) (xe_newID env n) (p\<lparr>er_MemberID := memberID\<rparr>) db of
        (Inl e, db1) \<Rightarrow> (False, db1)
      | (Inr _, db1) \<Rightarrow> upsert_perms env flt (Suc n) memberID ps db1)"

definition Team_UpdatePermissions ::
    "auth_env \<Rightarrow> (env_perm_row list \<Rightarrow> string) \<Rightarrow> faults \<Rightarrow> http_request \<Rightarrow> env_perm_row list option \<Rightarrow> account_db \<Rightarrow>
     env_perm_row list response \<times> account_db" where
  "Team_UpdatePermissions env js flt r body db =
     (let memberID = URLParam r ''memberID''
      in case body of
           None \<Rightarrow> (Refuse StatusBadRequest ''invalid request body'', db)
         | Some ps \<Rightarrow>
           (case upsert_perms env flt 0 memberID ps db of
              (False, db1) \<Rightarrow> (Refuse StatusInternalServerError ''failed to update permissions'', db1)
            | (True, db1) \<Rightarrow>
              (let n = length ps;
                   perms = (case ListEnvPermissions (flt n) (xe_pg env) memberID db1 of Inl e \<Rightarrow> [] | Inr qs \<Rightarrow> qs)
               in (Answer StatusOK perms,
                   auth_audit env flt (Suc n) r (GetOrgID r) (GetUserID r) ''member.permissions_updated'' ''member''
                     memberID (Some (js perms)) None db1))))"

end
