(* ===== verification/SessionLaws.thy ===== *)
theory SessionLaws
  imports Team
begin

text \<open>
  What tokens, codes and the handlers that give them out guarantee, and what they do not: tokens are typed,
  a login needs every factor that can be read, guesses are limited by the failures allowed and the logins in
  progress, but sessions outlive logouts and memberships, a reset
  code is not bound to a user, and an invited account has a known password.
\<close>

subsection \<open>Tokens\<close>

lemma claims_for_simps [simp]:
  "tc_Issuer (claims_for iss now ex jti u o1 r e g) = iss"
  "tc_ExpiresAt (claims_for iss now ex jti u o1 r e g) = NewNumericDate ex"
  "cl_UserID (claims_for iss now ex jti u o1 r e g) = u"
  "cl_OrgID (claims_for iss now ex jti u o1 r e g) = o1"
  "cl_Role (claims_for iss now ex jti u o1 r e g) = r"
  "cl_DataRegion (claims_for iss now ex jti u o1 r e g) = g"
  by (simp_all add: claims_for_def)

lemma issuers_differ [simp]: "issuerAccess \<noteq> issuerRefresh" "issuerRefresh \<noteq> issuerAccess"
  by (simp_all add: issuerAccess_def issuerRefresh_def)

lemma validate_signed:
  assumes "jwt_sound (jm_lib m)" "jl_sign (jm_lib m) c = Some tok"
  shows "validateTokenWithIssuer m now tok iss =
     (if tc_ExpiresAt c \<le> now then Inl ErrTokenExpired
      else if tc_Issuer c = iss then Inr c else Inl ErrTokenInvalid)"
  using assms by (simp add: validateTokenWithIssuer_def jwt_sound_def)

lemma GenerateTokenPair_Some:
  assumes "GenerateTokenPair m now j1 j2 u o1 r e g = Some p"
  shows "jl_sign (jm_lib m) (claims_for issuerAccess now (now + jm_tokenTTL m) j1 u o1 r e g) = Some (tp_AccessToken p)"
    "jl_sign (jm_lib m) (claims_for issuerRefresh now (now + jm_refreshTTL m) j2 u o1 r e g) = Some (tp_RefreshToken p)"
  using assms by (auto simp: GenerateTokenPair_def split: option.splits)

lemma GenerateTokenPair_total:
  assumes "\<And>c. jl_sign (jm_lib m) c \<noteq> None"
  shows "\<exists>p. GenerateTokenPair m now j1 j2 u o1 r e g = Some p"
proof -
  obtain a b where
    "jl_sign (jm_lib m) (claims_for issuerAccess now (now + jm_tokenTTL m) j1 u o1 r e g) = Some a"
    "jl_sign (jm_lib m) (claims_for issuerRefresh now (now + jm_refreshTTL m) j2 u o1 r e g) = Some b"
    using assms by (meson not_None_eq)
  then show ?thesis by (simp add: GenerateTokenPair_def)
qed

text \<open>
  C26: tokens are typed.  Of a pair that was issued, the access token is accepted as an access token, with
  the identity and role it was issued for, exactly until it expires, and never as a refresh token; the
  refresh token is accepted for refreshing, with the same identity and role, and never as an access token.
\<close>

theorem token_pair_typed:
  assumes "jwt_sound (jm_lib m)" and "GenerateTokenPair m now j1 j2 userID orgID role email region = Some p"
  shows "(\<exists>c. ValidateToken m t (tp_AccessToken p) =
            (if t < NewNumericDate (now + jm_tokenTTL m) then Inr c else Inl ErrTokenExpired) \<and>
          cl_UserID c = userID \<and> cl_OrgID c = orgID \<and> cl_Role c = role) \<and>
     (\<exists>e. ValidateRefreshToken m t (tp_AccessToken p) = Inl e) \<and>
     (\<exists>c. ValidateRefreshToken m t (tp_RefreshToken p) =
            (if t < NewNumericDate (now + jm_refreshTTL m) then Inr c else Inl ErrTokenExpired) \<and>
          cl_UserID c = userID \<and> cl_OrgID c = orgID \<and> cl_Role c = role) \<and>
     (\<exists>e. ValidateToken m t (tp_RefreshToken p) = Inl e)"
  using validate_signed [OF assms(1) GenerateTokenPair_Some(1) [OF assms(2)]]
    validate_signed [OF assms(1) GenerateTokenPair_Some(2) [OF assms(2)]]
  unfolding ValidateToken_def ValidateRefreshToken_def
  by (auto intro!: exI [of _ "claims_for issuerAccess now (now + jm_tokenTTL m) j1 userID orgID role email region"]
      exI [of _ "claims_for issuerRefresh now (now + jm_refreshTTL m) j2 userID orgID role email region"])

text \<open>A library for the examples, which signs everything: the token spells the claims.\<close>

fun spell :: "string \<Rightarrow> string" where
  "spell [] = [CHR 0x00]"
| "spell (c # s) = CHR 0x01 # c # spell s"

fun unspell :: "string \<Rightarrow> string \<times> string" where
  "unspell (x # c # s) = (if x = CHR 0x00 then ([], c # s) else (case unspell s of (t, r) \<Rightarrow> (c # t, r)))"
| "unspell s = ([], [])"

lemma unspell_spell [simp]: "r \<noteq> [] \<Longrightarrow> unspell (spell s @ r) = (s, r)"
proof (induction s)
  case Nil
  then show ?case by (cases r) auto
qed simp

definition spell_int :: "int \<Rightarrow> string" where
  "spell_int i = (if i < 0 then CHR ''-'' else CHR ''+'') # replicate (nat \<bar>i\<bar>) CHR ''1''"

definition unspell_int :: "string \<Rightarrow> int" where
  "unspell_int s = (if hd s = CHR ''-'' then - int (length (tl s)) else int (length (tl s)))"

lemma unspell_spell_int [simp]: "unspell_int (spell_int i) = i"
  by (simp add: spell_int_def unspell_int_def)

definition plain_sign :: "token_claims \<Rightarrow> string" where
  "plain_sign c = spell (cl_UserID c) @ spell (cl_OrgID c) @ spell (cl_Role c) @ spell (cl_Email c) @
     spell (cl_DataRegion c) @ spell (cl_ID c) @ spell (tc_Issuer c) @ spell (spell_int (tc_ExpiresAt c)) @
     spell_int (tc_IssuedAt c)"

definition plain_claims :: "string \<Rightarrow> token_claims" where
  "plain_claims s =
     (case unspell s of (u, s1) \<Rightarrow> case unspell s1 of (o1, s2) \<Rightarrow> case unspell s2 of (r, s3) \<Rightarrow>
      case unspell s3 of (e, s4) \<Rightarrow> case unspell s4 of (g, s5) \<Rightarrow> case unspell s5 of (j, s6) \<Rightarrow>
      case unspell s6 of (iss, s7) \<Rightarrow> case unspell s7 of (x, s8) \<Rightarrow>
        \<lparr>cl_UserID = u, cl_OrgID = o1, cl_Role = r, cl_Email = e, cl_DataRegion = g, cl_ID = j,
         tc_ExpiresAt = unspell_int x, tc_IssuedAt = unspell_int s8, tc_Issuer = iss\<rparr>)"

lemma spell_nonempty [simp]: "spell s \<noteq> []" "spell_int i \<noteq> []"
  by (cases s) (simp_all add: spell_int_def)

lemma plain_claims_sign [simp]: "plain_claims (plain_sign c) = c"
  by (simp add: plain_claims_def plain_sign_def)

definition plain_lib :: jwtlib where
  "plain_lib = \<lparr>jl_sign = (\<lambda>c. Some (plain_sign c)),
     jl_parse = (\<lambda>now tok. let c = plain_claims tok in if now < tc_ExpiresAt c then Inr c else Inl ErrTokenExpired)\<rparr>"

lemma plain_lib_sound: "jwt_sound plain_lib"
  by (auto simp: jwt_sound_def plain_lib_def Let_def)

lemma plain_lib_total: "jl_sign plain_lib c \<noteq> None"
  by (simp add: plain_lib_def)

definition demo_manager :: jwt_manager where
  "demo_manager = \<lparr>jm_lib = plain_lib, jm_tokenTTL = hour, jm_refreshTTL = day, jm_unixEpoch = 0\<rparr>"

lemma demo_total: "jl_sign (jm_lib demo_manager) c \<noteq> None"
  by (simp add: demo_manager_def plain_lib_total)

lemma demo_sound: "jwt_sound (jm_lib demo_manager)"
  by (simp add: demo_manager_def plain_lib_sound)

theorem token_pair_typed_witness:
  "\<exists>p e. GenerateTokenPair demo_manager 0 ''j1'' ''j2'' ''u'' ''o'' RoleAdmin [] [] = Some p \<and>
     ValidateRefreshToken demo_manager 5 (tp_AccessToken p) = Inl e"
proof -
  obtain p where p: "GenerateTokenPair demo_manager 0 ''j1'' ''j2'' ''u'' ''o'' RoleAdmin [] [] = Some p"
    using GenerateTokenPair_total [OF demo_total] by blast
  from token_pair_typed [OF demo_sound p, of 5] p show ?thesis by blast
qed

subsection \<open>Refreshing\<close>

text \<open>A chain of refreshes, each with the refresh token the one before gave out; the tables may be any.\<close>

fun refresh_run :: "(auth_env \<times> faults \<times> account_db) list \<Rightarrow> token_pair \<Rightarrow> token_pair option" where
  "refresh_run [] p = Some p"
| "refresh_run ((env, flt, db) # steps) p =
     (case Refresh env flt (Some (tp_RefreshToken p)) db of
        Refuse c msg \<Rightarrow> None
      | Answer c resp \<Rightarrow> refresh_run steps (rr_Tokens resp))"

text \<open>Each refresh comes before the token of the one before expires.\<close>

fun in_time :: "jwt_manager \<Rightarrow> gotime \<Rightarrow> (auth_env \<times> faults \<times> account_db) list \<Rightarrow> bool" where
  "in_time m t [] = True"
| "in_time m t ((env, flt, db) # steps) \<longleftrightarrow>
     xe_jwt env = m \<and> xe_now env < NewNumericDate (t + jm_refreshTTL m) \<and> in_time m (xe_now env) steps"

text \<open>What a pair was issued for, and when.\<close>

definition issued_for :: "jwt_manager \<Rightarrow> gotime \<Rightarrow> string \<Rightarrow> string \<Rightarrow> string \<Rightarrow> token_pair \<Rightarrow> bool" where
  "issued_for m t userID orgID role p \<longleftrightarrow>
     (\<exists>j1 j2 email region. GenerateTokenPair m t j1 j2 userID orgID role email region = Some p)"

lemma Refresh_issued:
  assumes "jwt_sound (jm_lib m)" "\<And>c. jl_sign (jm_lib m) c \<noteq> None"
    and "issued_for m t userID orgID role p" "xe_jwt env = m" "xe_now env < NewNumericDate (t + jm_refreshTTL m)"
  shows "\<exists>resp. Refresh env flt (Some (tp_RefreshToken p)) db = Answer StatusOK resp \<and>
    issued_for m (xe_now env) userID orgID role (rr_Tokens resp)"
proof -
  from assms(3) obtain j1 j2 e g where gen: "GenerateTokenPair m t j1 j2 userID orgID role e g = Some p"
    by (auto simp: issued_for_def)
  note valid = validate_signed [OF assms(1) GenerateTokenPair_Some(2) [OF gen], of "xe_now env" issuerRefresh]
  have "\<exists>q. GenerateTokenPair m (xe_now env) (xe_jti env 0) (xe_jti env 1) userID orgID role [] g = Some q"
    by (rule GenerateTokenPair_total [OF assms(2)])
  then obtain q where q: "GenerateTokenPair m (xe_now env) (xe_jti env 0) (xe_jti env 1) userID orgID role [] g = Some q" ..
  then have "issued_for m (xe_now env) userID orgID role q" by (auto simp: issued_for_def)
  with q valid assms(4,5) show ?thesis
    by (simp add: Refresh_def ValidateRefreshToken_def token_pair_for_def)
qed

text \<open>
  A session never ends.  Refreshing looks at nothing but the old token: as long as each refresh comes
  before the token of the one before expires, every chain of refreshes succeeds, whatever the tables hold
  at any point (the token revoked by a logout, the member demoted or removed, the user or the organization
  deleted), and ends with an access token for the same user, organization and role as at the start.
\<close>

theorem refresh_never_rechecked:
  assumes "jwt_sound (jm_lib m)" and "\<And>c. jl_sign (jm_lib m) c \<noteq> None"
    and "issued_for m t userID orgID role p" and "in_time m t steps"
  shows "\<exists>q t'. refresh_run steps p = Some q \<and> issued_for m t' userID orgID role q"
  using assms(3,4)
proof (induction steps arbitrary: t p)
  case Nil
  then show ?case by auto
next
  case (Cons s steps)
  obtain env flt db where s: "s = (env, flt, db)" by (cases s)
  from Cons.prems s have time: "xe_jwt env = m" "xe_now env < NewNumericDate (t + jm_refreshTTL m)"
      "in_time m (xe_now env) steps" by simp_all
  from Refresh_issued [OF assms(1,2) Cons.prems(1) time(1,2)] obtain resp where
    "Refresh env flt (Some (tp_RefreshToken p)) db = Answer StatusOK resp"
    "issued_for m (xe_now env) userID orgID role (rr_Tokens resp)" by blast
  with Cons.IH [OF _ time(3)] s show ?case by simp
qed

definition demo_auth :: "gotime \<Rightarrow> auth_env" where
  "demo_auth now = \<lparr>xe_pg = \<lparr>pg_uuid = (\<lambda>s. if s = [] then None else Some s), pg_jsonb = Some\<rparr>,
     xe_mac = \<lparr>mac_hmac = (\<lambda>k m. []), mac_time = (\<lambda>t. [])\<rparr>, xe_auditKey = [], xe_now = now, xe_dbnow = now,
     xe_newID = (\<lambda>n. replicate (Suc n) CHR ''i''), xe_plans = (\<lambda>p. None), xe_jwt = demo_manager,
     xe_hash = (\<lambda>n s. Some (CHR ''#'' # s)), xe_check = (\<lambda>s h. h = CHR ''#'' # s), xe_totp = (\<lambda>s c. s = c),
     xe_runes = (\<lambda>s. [UpperRune, LowerRune, DigitRune, SpecialRune]), xe_lower = (\<lambda>s. s), xe_mail = (\<lambda>s. True),
     xe_digit = (\<lambda>n. Some n), xe_random = (\<lambda>n. Some ''r''), xe_shortID = ''abc'', xe_jti = (\<lambda>n. ''j''),
     xe_mailer = None, xe_json = (\<lambda>m. []), xe_internal = (\<lambda>e. False)\<rparr>"

definition no_accounts :: account_db where
  "no_accounts = \<lparr>ac_Orgs = [], ac_Users = [], ac_Members = [], ac_Perms = [], ac_Envs = [], ac_Pending = [],
     ac_Resets = [], ac_Magic = [], ac_OneTime = [], ac_MFA = [], ac_Attempts = [], ac_Revocations = [],
     ac_SSO = [], ac_Onboarded = [], ac_Audit = []\<rparr>"

text \<open>A user of an organization, both long gone, refreshes twice.\<close>

theorem refresh_never_rechecked_witness:
  "\<exists>p q t'. issued_for demo_manager 0 ''u'' ''o'' RoleAdmin p \<and>
     refresh_run [(demo_auth 5, \<lambda>n. False, no_accounts), (demo_auth hour, \<lambda>n. True, no_accounts)] p = Some q \<and>
     issued_for demo_manager t' ''u'' ''o'' RoleAdmin q"
proof -
  obtain p where "GenerateTokenPair demo_manager 0 ''j1'' ''j2'' ''u'' ''o'' RoleAdmin [] [] = Some p"
    using GenerateTokenPair_total [OF demo_total] by blast
  then have p: "issued_for demo_manager 0 ''u'' ''o'' RoleAdmin p" by (auto simp: issued_for_def)
  have "in_time demo_manager 0 [(demo_auth 5, \<lambda>n. False, no_accounts), (demo_auth hour, \<lambda>n. True, no_accounts)]"
    by (simp add: demo_auth_def demo_manager_def NewNumericDate_def go_simps)
  from refresh_never_rechecked [OF demo_sound demo_total p this] p show ?thesis by blast
qed

subsection \<open>Guessing at a login\<close>

lemma exec_uuid_keeps:
  assumes "\<And>u d. g (f u d) = g d"
  shows "g (snd (exec_uuid fails pg i f db)) = g db"
  using assms by (simp add: exec_uuid_def exec_def split: option.split)

lemma attempts_kept [simp]:
  "ac_Attempts (snd (RestoreOrganization fl pg now i db)) = ac_Attempts db"
  "ac_Attempts (snd (UpdateLastLoginAt fl pg now i db)) = ac_Attempts db"
  "ac_Attempts (auth_audit env flt n r o1 a act rt rid aft meta db) = ac_Attempts db"
  by (simp_all add: RestoreOrganization_def UpdateLastLoginAt_def update_orgs_def update_users_def
      exec_uuid_keeps auth_audit_def)

definition failures_of :: "string \<Rightarrow> account_db \<Rightarrow> gotime list" where
  "failures_of email db = map la_CreatedAt (filter (\<lambda>a. la_Email a = email \<and> \<not> la_Success a) (ac_Attempts db))"

lemma Count_failures:
  "CountRecentFailedAttempts False email since db = int (length (filter (\<lambda>t. since < t) (failures_of email db)))"
proof -
  have "filter ((\<lambda>t. since < t) \<circ> la_CreatedAt) (filter (\<lambda>a. la_Email a = email \<and> \<not> la_Success a) as) =
      recent_failures email since as" for as
    by (simp add: recent_failures_def conj_commute conj_left_commute)
  then show ?thesis
    by (simp add: CountRecentFailedAttempts_def failures_of_def filter_map)
qed

lemma attempts_record [simp]:
  "ac_Attempts (snd (RecordLoginAttempt fails now email ip ok db)) = ac_Attempts db @
     (if fails then [] else [\<lparr>la_Email = email, la_IP = ip, la_Success = ok, la_CreatedAt = now\<rparr>])"
  by (simp add: RecordLoginAttempt_def exec_def)

lemma failures_cong: "ac_Attempts db' = ac_Attempts db \<Longrightarrow> failures_of e db' = failures_of e db"
  by (simp add: failures_of_def)

definition wrong_guess :: "login_answer \<Rightarrow> bool" where
  "wrong_guess a \<longleftrightarrow> (\<exists>n. a = BadCredentials n) \<or> a = LoginRefused StatusUnauthorized ''invalid MFA code''"

abbreviation no_faults :: faults where "no_faults \<equiv> \<lambda>n. False"

lemma wrong_guess_simps [simp]:
  "wrong_guess (BadCredentials n)" "\<not> wrong_guess (LoggedIn l)" "\<not> wrong_guess (LockedOut k t)"
  "wrong_guess (LoginRefused c msg) \<longleftrightarrow> c = StatusUnauthorized \<and> msg = ''invalid MFA code''"
  by (simp_all add: wrong_guess_def)

text \<open>
  What a login does to the tables once the failures were counted: a wrong guess, which needs a count below ten, is
  recorded by its only statement that writes; anything else leaves the failures of all addresses as they are.
\<close>

definition records_guess ::
    "auth_env \<Rightarrow> http_request \<Rightarrow> login_request \<Rightarrow> login_answer \<Rightarrow> account_db \<Rightarrow> account_db \<Rightarrow> bool" where
  "records_guess env r req a db db' \<longleftrightarrow>
     (if wrong_guess a
      then \<exists>fails. db' = snd (RecordLoginAttempt fails (xe_dbnow env) (lq_Email req) (req_RemoteAddr r) False db)
      else \<forall>e. failures_of e db' = failures_of e db)"

lemma login_member_records:
  assumes "login_member env flt r req user member db = (a, db')"
  shows "records_guess env r req a db db'"
proof (cases "VerifyMFAForLogin (flt 4) env (us_ID user) (lq_MFACode req) db")
  case None
  have same: "failures_of e db' = failures_of e db" if "\<not> wrong_guess a" for e
    using assms None
    by (auto simp: login_member_def Let_def failures_of_def split: if_splits option.splits sum.splits)
  have "\<not> wrong_guess a"
    using assms None by (auto simp: login_member_def Let_def split: if_splits option.splits)
  with same show ?thesis by (simp add: records_guess_def)
next
  case (Some err)
  with assms show ?thesis
    by (cases err) (auto simp: login_member_def Let_def records_guess_def split: if_splits)
qed

lemma login_counted_records:
  assumes "login_counted env flt r req n db = (a, db')"
  shows "records_guess env r req a db db'" and "wrong_guess a \<Longrightarrow> n < 10"
proof -
  have failed: "failed_login env flt k r (lq_Email req) db = (a, db') \<Longrightarrow> records_guess env r req a db db'" for k
    by (auto simp: failed_login_def Let_def records_guess_def)
  show "records_guess env r req a db db'"
    using assms failed login_member_records
    by (auto simp: login_counted_def records_guess_def split: if_splits sum.splits)
  show "n < 10" if "wrong_guess a"
    using assms that by (auto simp: login_counted_def maxFailedLoginAttempts_def split: if_splits)
qed

text \<open>
  Logins as the server runs them: any number at a time, each in three steps with other requests in between.  It counts
  the failures; it judges the guess, against the tables of that moment, by \<open>login_counted\<close>; and if the guess was
  wrong it records that, which is the only thing \<open>login_counted\<close> writes then (\<open>login_counted_records\<close>).  A count
  that fails reads 0 and a record that fails is lost.  \<open>lw_Wrong\<close> has the times at which guesses for the
  address were judged wrong, \<open>lw_Failed\<close> how many of its counts and records failed.  Other requests may add failures
  of the address, and no statement of the server removes one.  \<open>k\<close> bounds the logins for the address in progress.
\<close>

record login_world =
  lw_Now :: gotime
  lw_DB :: account_db
  lw_Counted :: "(login_request \<times> int) list"
  lw_Judged :: "string list"
  lw_Wrong :: "gotime list"
  lw_Failed :: nat

definition login_start :: "gotime \<Rightarrow> account_db \<Rightarrow> login_world" where
  "login_start now db =
     \<lparr>lw_Now = now, lw_DB = db, lw_Counted = [], lw_Judged = [], lw_Wrong = [], lw_Failed = 0\<rparr>"

definition in_progress :: "string \<Rightarrow> login_world \<Rightarrow> nat" where
  "in_progress email w =
     length (filter (\<lambda>(req, n). lq_Email req = email) (lw_Counted w)) + length (filter (\<lambda>e. e = email) (lw_Judged w))"

inductive login_step :: "nat \<Rightarrow> string \<Rightarrow> login_world \<Rightarrow> login_world \<Rightarrow> bool" for k email where
  later: "lw_Now w \<le> now \<Longrightarrow> login_step k email w (w\<lparr>lw_Now := now\<rparr>)"
| others: "failures_of email db = failures_of email (lw_DB w) @ added \<Longrightarrow> login_step k email w (w\<lparr>lw_DB := db\<rparr>)"
| count: "n = CountRecentFailedAttempts fails (lq_Email req) (lw_Now w - 15 * minute) (lw_DB w) \<Longrightarrow>
    w' = w\<lparr>lw_Counted := (req, n) # lw_Counted w,
           lw_Failed := lw_Failed w + (if fails \<and> lq_Email req = email then 1 else 0)\<rparr> \<Longrightarrow>
    in_progress email w' \<le> k \<Longrightarrow> login_step k email w w'"
| judge_wrong: "(req, n) \<in> set (lw_Counted w) \<Longrightarrow> xe_now env = lw_Now w \<Longrightarrow> xe_dbnow env = lw_Now w \<Longrightarrow>
    login_counted env flt r req n (lw_DB w) = (a, db) \<Longrightarrow> wrong_guess a \<Longrightarrow>
    login_step k email w (w\<lparr>lw_Counted := remove1 (req, n) (lw_Counted w), lw_Judged := lq_Email req # lw_Judged w,
      lw_Wrong := lw_Wrong w @ (if lq_Email req = email then [lw_Now w] else [])\<rparr>)"
| judge_other: "(req, n) \<in> set (lw_Counted w) \<Longrightarrow> xe_now env = lw_Now w \<Longrightarrow> xe_dbnow env = lw_Now w \<Longrightarrow>
    login_counted env flt r req n (lw_DB w) = (a, db) \<Longrightarrow> \<not> wrong_guess a \<Longrightarrow>
    login_step k email w (w\<lparr>lw_DB := db, lw_Counted := remove1 (req, n) (lw_Counted w)\<rparr>)"
| record_guess: "e \<in> set (lw_Judged w) \<Longrightarrow>
    login_step k email w (w\<lparr>lw_DB := snd (RecordLoginAttempt fails (lw_Now w) e ip False (lw_DB w)),
      lw_Judged := remove1 e (lw_Judged w),
      lw_Failed := lw_Failed w + (if fails \<and> e = email then 1 else 0)\<rparr>)"

abbreviation since :: "gotime \<Rightarrow> gotime list \<Rightarrow> nat" where
  "since t ts \<equiv> length (filter (\<lambda>x. t < x) ts)"

abbreviation window :: "gotime \<Rightarrow> gotime list \<Rightarrow> gotime list" where
  "window T ts \<equiv> filter (\<lambda>t. T - 15 * minute < t \<and> t \<le> T) ts"

text \<open>The logins for the address that were counted below the limit and may still be judged.\<close>

definition admitted_logins :: "string \<Rightarrow> login_world \<Rightarrow> nat" where
  "admitted_logins email w = length (filter (\<lambda>(req, n). lq_Email req = email \<and> n < 10) (lw_Counted w))"

definition unrecorded :: "string \<Rightarrow> login_world \<Rightarrow> nat" where
  "unrecorded email w = length (filter (\<lambda>e. e = email) (lw_Judged w))"

definition guess_inv :: "nat \<Rightarrow> string \<Rightarrow> login_world \<Rightarrow> bool" where
  "guess_inv k email w \<longleftrightarrow>
     (\<forall>t. since t (lw_Wrong w) \<le> since t (failures_of email (lw_DB w)) + unrecorded email w + lw_Failed w) \<and>
     (\<forall>t\<in>set (lw_Wrong w). t \<le> lw_Now w) \<and>
     (\<forall>T. length (window T (lw_Wrong w)) \<le> 9 + k + lw_Failed w) \<and>
     (0 < admitted_logins email w \<longrightarrow>
        since (lw_Now w - 15 * minute) (lw_Wrong w) + admitted_logins email w \<le> 9 + k + lw_Failed w)"

lemma length_filter_remove1:
  "x \<in> set xs \<Longrightarrow> length (filter P xs) = length (filter P (remove1 x xs)) + (if P x then 1 else 0)"
  by (induction xs) auto

lemma admitted_in_progress: "admitted_logins email w + unrecorded email w \<le> in_progress email w"
proof -
  have "length (filter (\<lambda>(req, n). lq_Email req = email \<and> n < 10) xs) \<le>
      length (filter (\<lambda>(req, n). lq_Email req = email) xs)" for xs :: "(login_request \<times> int) list"
    by (induction xs) auto
  then show ?thesis by (simp add: admitted_logins_def unrecorded_def in_progress_def)
qed

lemma window_now: "\<forall>t\<in>set ts. t \<le> now \<Longrightarrow> length (window now ts) = since (now - 15 * minute) ts"
  by (metis (mono_tags, lifting) filter_cong)

lemma since_mono: "t \<le> t' \<Longrightarrow> since t' ts \<le> since t ts"
  by (induction ts) auto

lemma window_since: "now \<le> T \<Longrightarrow> length (window T ts) \<le> since (now - 15 * minute) ts"
  by (induction ts) auto

lemma failures_record:
  "failures_of email (snd (RecordLoginAttempt fails now e ip False db)) =
     failures_of email db @ (if \<not> fails \<and> e = email then [now] else [])"
  by (auto simp: failures_of_def)

lemma guess_inv_count:
  assumes inv: "guess_inv k email w"
    and n: "n = CountRecentFailedAttempts fails (lq_Email req) (lw_Now w - 15 * minute) (lw_DB w)"
    and w': "w' = w\<lparr>lw_Counted := (req, n) # lw_Counted w,
      lw_Failed := lw_Failed w + (if fails \<and> lq_Email req = email then 1 else 0)\<rparr>"
    and k: "in_progress email w' \<le> k"
  shows "guess_inv k email w'"
proof -
  let ?s = "lw_Now w - 15 * minute"
  have old: "since ?s (lw_Wrong w) \<le> since ?s (failures_of email (lw_DB w)) + unrecorded email w + lw_Failed w"
    "since ?s (lw_Wrong w) \<le> 9 + k + lw_Failed w"
    using inv window_now [of "lw_Wrong w" "lw_Now w"] by (simp_all add: guess_inv_def) metis
  have adm: "admitted_logins email w' = admitted_logins email w + (if lq_Email req = email \<and> n < 10 then 1 else 0)"
    "unrecorded email w' = unrecorded email w"
    by (simp_all add: w' admitted_logins_def unrecorded_def)
  have "since ?s (lw_Wrong w) + admitted_logins email w' \<le> 9 + k + lw_Failed w'" if "0 < admitted_logins email w'"
  proof (cases "lq_Email req = email \<and> n < 10")
    case True
    show ?thesis
    proof (cases fails)
      case False
      then have "since ?s (failures_of email (lw_DB w)) \<le> 9"
        using True n by (auto simp: Count_failures)
      then show ?thesis
        using old(1) admitted_in_progress [of email w'] k adm(2) w' False by simp
    next
      case fails: True
      then show ?thesis
        using inv old(2) True adm(1) w' by (cases "0 < admitted_logins email w") (auto simp: guess_inv_def)
    qed
  next
    case False
    then show ?thesis using inv that adm(1) w' by (auto simp: guess_inv_def)
  qed
  with inv adm(2) show ?thesis
    by (auto simp: guess_inv_def w' intro: le_trans)
qed

lemma guess_inv_judge:
  assumes inv: "guess_inv k email w" and req: "(req, n) \<in> set (lw_Counted w)" "n < 10"
  shows "guess_inv k email (w\<lparr>lw_Counted := remove1 (req, n) (lw_Counted w), lw_Judged := lq_Email req # lw_Judged w,
      lw_Wrong := lw_Wrong w @ (if lq_Email req = email then [lw_Now w] else [])\<rparr>)" (is "guess_inv k email ?w")
proof -
  let ?P = "\<lambda>(req, n). lq_Email req = email \<and> n < (10::int)"
  have adm: "admitted_logins email w = admitted_logins email ?w + (if lq_Email req = email then 1 else 0)"
    using length_filter_remove1 [OF req(1), of ?P] req(2) by (simp add: admitted_logins_def)
  have unrec: "unrecorded email ?w = unrecorded email w + (if lq_Email req = email then 1 else 0)"
    by (simp add: unrecorded_def)
  show ?thesis
  proof (cases "lq_Email req = email")
    case False
    then show ?thesis using inv adm unrec by (simp add: guess_inv_def)
  next
    case True
    have now: "since (lw_Now w - 15 * minute) (lw_Wrong w) + admitted_logins email w \<le> 9 + k + lw_Failed w"
      using inv adm True by (simp add: guess_inv_def)
    have "length (window T (lw_Wrong w @ [lw_Now w])) \<le> 9 + k + lw_Failed w" for T
    proof (cases "lw_Now w \<le> T")
      case late: True
      then have "length (window T (lw_Wrong w)) \<le> since (lw_Now w - 15 * minute) (lw_Wrong w)"
        by (rule window_since)
      then show ?thesis using now adm True by simp
    next
      case False
      then show ?thesis using inv by (simp add: guess_inv_def)
    qed
    moreover have "since t (lw_Wrong w @ [lw_Now w]) \<le>
        since t (failures_of email (lw_DB w)) + Suc (unrecorded email w) + lw_Failed w" for t
    proof -
      have "since t (lw_Wrong w) \<le> since t (failures_of email (lw_DB w)) + unrecorded email w + lw_Failed w"
        using inv unfolding guess_inv_def by blast
      then show ?thesis by simp
    qed
    moreover have "since (lw_Now w - 15 * minute) (lw_Wrong w @ [lw_Now w]) + admitted_logins email ?w \<le>
        9 + k + lw_Failed w"
      using now adm True by simp
    moreover have "\<forall>t\<in>set (lw_Wrong w @ [lw_Now w]). t \<le> lw_Now w"
      using inv by (auto simp: guess_inv_def)
    ultimately show ?thesis
      using unrec True by (simp add: guess_inv_def)
  qed
qed

lemma guess_inv_other:
  assumes inv: "guess_inv k email w" and req: "(req, n) \<in> set (lw_Counted w)"
    and db: "failures_of email db = failures_of email (lw_DB w)"
  shows "guess_inv k email (w\<lparr>lw_DB := db, lw_Counted := remove1 (req, n) (lw_Counted w)\<rparr>)" (is "guess_inv k email ?w")
proof -
  have "admitted_logins email ?w \<le> admitted_logins email w" "unrecorded email ?w = unrecorded email w"
    using length_filter_remove1 [OF req, of "\<lambda>(req, n). lq_Email req = email \<and> n < 10"]
    by (simp_all add: admitted_logins_def unrecorded_def)
  with inv db show ?thesis by (auto simp: guess_inv_def)
qed

lemma guess_inv_record:
  assumes inv: "guess_inv k email w" and e: "e \<in> set (lw_Judged w)"
  shows "guess_inv k email (w\<lparr>lw_DB := snd (RecordLoginAttempt fails (lw_Now w) e ip False (lw_DB w)),
      lw_Judged := remove1 e (lw_Judged w),
      lw_Failed := lw_Failed w + (if fails \<and> e = email then 1 else 0)\<rparr>)" (is "guess_inv k email ?w")
proof -
  have unrec: "unrecorded email w = unrecorded email ?w + (if e = email then 1 else 0)"
    using length_filter_remove1 [OF e, of "\<lambda>x. x = email"] by (simp add: unrecorded_def)
  have "admitted_logins email ?w = admitted_logins email w" by (simp add: admitted_logins_def)
  moreover have "since t (lw_Wrong w) \<le> since t (failures_of email (lw_DB ?w)) + unrecorded email ?w + lw_Failed ?w" for t
  proof (cases "t < lw_Now w")
    case True
    then show ?thesis using inv unrec spec [of _ t] by (auto simp: guess_inv_def failures_record)
  next
    case False
    then have "filter (\<lambda>x. t < x) (lw_Wrong w) = []"
      using inv by (auto simp: guess_inv_def filter_empty_conv)
    then show ?thesis by simp
  qed
  ultimately show ?thesis using inv by (auto simp: guess_inv_def intro: le_trans)
qed

lemma guess_inv_step: "login_step k email w w' \<Longrightarrow> guess_inv k email w \<Longrightarrow> guess_inv k email w'"
proof (induction rule: login_step.induct)
  case (later w now)
  have "since (now - 15 * minute) (lw_Wrong w) \<le> since (lw_Now w - 15 * minute) (lw_Wrong w)"
    using later(1) by (intro since_mono) simp
  with later show ?case
    by (fastforce simp: guess_inv_def admitted_logins_def unrecorded_def)
next
  case (others db w added)
  then show ?case by (auto simp: guess_inv_def admitted_logins_def unrecorded_def intro: le_trans)
next
  case (count n fails req w w')
  from guess_inv_count [OF count(4,1-3)] show ?case .
next
  case (judge_wrong req n w env flt r a db)
  from guess_inv_judge [OF judge_wrong(6,1) login_counted_records(2) [OF judge_wrong(4,5)]] show ?case .
next
  case (judge_other req n w env flt r a db)
  have "failures_of email db = failures_of email (lw_DB w)"
    using login_counted_records(1) [OF judge_other(4)] judge_other(5) by (simp add: records_guess_def)
  from guess_inv_other [OF judge_other(6,1) this] show ?case .
next
  case (record_guess e w fails ip)
  from guess_inv_record [OF record_guess(2,1)] show ?case .
qed


definition demo_request_for :: "string \<Rightarrow> http_request" where
  "demo_request_for memberID = (demo_request RoleAdmin)\<lparr>req_URLParams := [(''memberID'', memberID)]\<rparr>"

definition wrong_request :: login_request where
  "wrong_request = \<lparr>lq_Email = ''e'', lq_Password = ''x'', lq_MFACode = []\<rparr>"

lemma judged_wrong_guess:
  "\<exists>n db. login_counted (demo_auth 5) no_faults (demo_request_for []) wrong_request 0 no_accounts = (BadCredentials n, db)"
  by (simp add: login_counted_def maxFailedLoginAttempts_def GetUserByEmail_def lookup_row_def no_accounts_def
      failed_login_def Let_def)

lemma counted_logins:
  assumes "i \<le> k"
  shows "(login_step k ''e'')\<^sup>*\<^sup>* (login_start 5 no_accounts)
    ((login_start 5 no_accounts)\<lparr>lw_Counted := replicate i (wrong_request, 0)\<rparr>)"
  using assms
proof (induction i)
  case 0
  then show ?case by (simp add: login_start_def)
next
  case (Suc i)
  let ?w = "\<lambda>i. (login_start 5 no_accounts)\<lparr>lw_Counted := replicate i (wrong_request, 0)\<rparr>"
  have "login_step k ''e'' (?w i) (?w (Suc i))"
    by (rule login_step.count [where fails = False and req = wrong_request and n = 0])
      (use Suc.prems in \<open>simp_all add: login_start_def in_progress_def wrong_request_def Count_failures failures_of_def
         no_accounts_def filter_replicate\<close>)
  with Suc show ?case by (simp add: rtranclp.rtrancl_into_rtrancl)
qed

text \<open>The bound grows with the logins in progress: \<open>k\<close> that are counted before any is judged are all judged.\<close>

lemma concurrent_guesses:
  "\<exists>w. (login_step k ''e'')\<^sup>*\<^sup>* (login_start 5 no_accounts) w \<and> lw_Wrong w = replicate k 5"
proof -
  let ?w = "\<lambda>i. (login_start 5 no_accounts)\<lparr>lw_Counted := replicate (k - i) (wrong_request, 0),
      lw_Judged := replicate i ''e'', lw_Wrong := replicate i 5\<rparr>"
  obtain n db where j: "login_counted (demo_auth 5) no_faults (demo_request_for []) wrong_request 0 no_accounts =
      (BadCredentials n, db)"
    using judged_wrong_guess by blast
  have "(login_step k ''e'')\<^sup>*\<^sup>* (login_start 5 no_accounts) (?w i)" if "i \<le> k" for i
    using that
  proof (induction i)
    case 0
    then show ?case using counted_logins [of k k] by (simp add: login_start_def)
  next
    case (Suc i)
    then obtain m where m: "k - i = Suc m" by (metis Suc_diff_Suc Suc_le_lessD)
    then have d: "k - Suc i = m" by simp
    have "login_step k ''e'' (?w i)
      ((?w i)\<lparr>lw_Counted := remove1 (wrong_request, 0) (lw_Counted (?w i)),
         lw_Judged := lq_Email wrong_request # lw_Judged (?w i),
         lw_Wrong := lw_Wrong (?w i) @ (if lq_Email wrong_request = ''e'' then [lw_Now (?w i)] else [])\<rparr>)"
      by (rule login_step.judge_wrong [where env = "demo_auth 5" and flt = no_faults and r = "demo_request_for []" and
            a = "BadCredentials n" and db = db])
        (use j in \<open>simp_all add: login_start_def m demo_auth_def\<close>)
    moreover have "(?w i)\<lparr>lw_Counted := remove1 (wrong_request, 0) (lw_Counted (?w i)),
         lw_Judged := lq_Email wrong_request # lw_Judged (?w i),
         lw_Wrong := lw_Wrong (?w i) @ (if lq_Email wrong_request = ''e'' then [lw_Now (?w i)] else [])\<rparr> = ?w (Suc i)"
      by (simp add: login_start_def m d wrong_request_def replicate_append_same)
    ultimately have "login_step k ''e'' (?w i) (?w (Suc i))" by simp
    then show ?case using Suc by (simp add: rtranclp.rtrancl_into_rtrancl)
  qed
  from this [of k] show ?thesis by fastforce
qed


subsection \<open>Factors of a login\<close>

lemma find_member: "find P xs = Some x \<Longrightarrow> x \<in> set xs \<and> P x"
  by (auto simp: find_Some_iff)

lemma GetUserByEmail_row:
  assumes "GetUserByEmail fails email db = Inr u"
  shows "\<exists>x\<in>set (ac_Users db). us_Email x = email \<and> u = seen_user x"
  using assms by (auto simp: GetUserByEmail_def dest: find_member)

lemma GetOrgMember_row:
  assumes "GetOrgMember fails pg o1 i db = Inr m"
  shows "m \<in> set (ac_Members db) \<and> pg_uuid pg i = Some (om_UserID m)"
  using assms
  by (auto simp: GetOrgMember_def by_uuid_def split: if_splits option.splits dest: find_member)

lemma login_member_LoggedIn:
  assumes "login_member env flt r req user member db = (LoggedIn l, db')"
  shows "token_pair_for env (us_ID user) (om_OrgID member) (om_Role member) (us_Email user)
      (case GetOrganization (flt 5) (xe_pg env) (om_OrgID member) db of Inl e \<Rightarrow> [] | Inr o1 \<Rightarrow> or_DataRegion o1) = Some (lr_Tokens l)"
    and "VerifyMFAForLogin (flt 4) env (us_ID user) (lq_MFACode req) db = None"
    and "\<not> (case GetSSOConfig (flt 3) (xe_pg env) (om_OrgID member) db of
            Inl e \<Rightarrow> False | Inr c \<Rightarrow> so_Enabled c \<and> so_Enforce c \<and> om_Role member \<noteq> RoleOwner)"
proof -
  let ?org = "GetOrganization (flt 5) (xe_pg env) (om_OrgID member) db"
  let ?region = "case ?org of Inl e \<Rightarrow> [] | Inr o1 \<Rightarrow> or_DataRegion o1"
  show sso: "\<not> (case GetSSOConfig (flt 3) (xe_pg env) (om_OrgID member) db of
            Inl e \<Rightarrow> False | Inr c \<Rightarrow> so_Enabled c \<and> so_Enforce c \<and> om_Role member \<noteq> RoleOwner)"
    using assms by (auto simp: login_member_def Let_def)
  show mfa: "VerifyMFAForLogin (flt 4) env (us_ID user) (lq_MFACode req) db = None"
    using assms sso by (auto simp: login_member_def Let_def split: if_splits option.splits mfa_error.splits)
  show "token_pair_for env (us_ID user) (om_OrgID member) (om_Role member) (us_Email user) ?region = Some (lr_Tokens l)"
    using assms sso mfa
    by (cases "token_pair_for env (us_ID user) (om_OrgID member) (om_Role member) (us_Email user) ?region")
      (auto simp: login_member_def Let_def split: if_splits)
qed

lemma Login_LoggedIn:
  assumes "Login env flt r (Some req) db = (LoggedIn l, db')"
  obtains user member where "GetUserByEmail (flt 1) (lq_Email req) db = Inr user"
    "xe_check env (lq_Password req) (us_PasswordHash user)"
    "GetOrgMember (flt 2) (xe_pg env) [] (us_ID user) db = Inr member"
    "login_member env flt r req user member db = (LoggedIn l, db')"
    "CountRecentFailedAttempts (flt 0) (lq_Email req) (xe_now env - 15 * minute) db < 10"
  using assms
  by (auto simp: Login_def login_counted_def Let_def failed_login_def maxFailedLoginAttempts_def
      split: if_splits sum.splits)

text \<open>
  C24: a login needs every factor.  Tokens are given only to a user whose address and password match and who
  is a member, for the organization and with the role of that membership.  Unless the statement that reads
  it failed, an enabled second factor was checked, an organization that enforces single sign-on was entered
  by its owner alone, and there were fewer than ten failures in the last fifteen minutes; a failed read of
  one of the three lets the login pass.
\<close>

theorem login_needs_factors:
  assumes "Login env flt r (Some req) db = (LoggedIn l, db')"
  shows "\<exists>user\<in>set (ac_Users db). \<exists>member\<in>set (ac_Members db).
    us_Email user = lq_Email req \<and> xe_check env (lq_Password req) (us_PasswordHash user) \<and>
    pg_uuid (xe_pg env) (us_ID user) = Some (om_UserID member) \<and>
    issued_for (xe_jwt env) (xe_now env) (us_ID user) (om_OrgID member) (om_Role member) (lr_Tokens l) \<and>
    (flt 4 \<or> (\<forall>s. GetMFASecret False (xe_pg env) (us_ID user) db = Inr s \<and> ms_Enabled s \<longrightarrow>
       xe_totp env (ms_Secret s) (lq_MFACode req))) \<and>
    (flt 3 \<or> (\<forall>c. GetSSOConfig False (xe_pg env) (om_OrgID member) db = Inr c \<and> so_Enabled c \<and> so_Enforce c \<longrightarrow>
       om_Role member = RoleOwner)) \<and>
    (flt 0 \<or> length (filter (\<lambda>t. xe_now env - 15 * minute < t) (failures_of (lq_Email req) db)) < 10)"
proof -
  from assms obtain user member where u: "GetUserByEmail (flt 1) (lq_Email req) db = Inr user"
      and pw: "xe_check env (lq_Password req) (us_PasswordHash user)"
      and m: "GetOrgMember (flt 2) (xe_pg env) [] (us_ID user) db = Inr member"
      and rest: "login_member env flt r req user member db = (LoggedIn l, db')"
      and few: "CountRecentFailedAttempts (flt 0) (lq_Email req) (xe_now env - 15 * minute) db < 10"
    by (rule Login_LoggedIn)
  from GetUserByEmail_row [OF u] obtain x where x: "x \<in> set (ac_Users db)" "us_Email x = lq_Email req" "user = seen_user x"
    by blast
  note seen = x(3) [unfolded seen_user_def]
  note l = login_member_LoggedIn [OF rest]
  have mem: "member \<in> set (ac_Members db)" "pg_uuid (xe_pg env) (us_ID x) = Some (om_UserID member)"
    using GetOrgMember_row [OF m] by (simp_all add: seen)
  have "issued_for (xe_jwt env) (xe_now env) (us_ID x) (om_OrgID member) (om_Role member) (lr_Tokens l)"
    using l(1) by (auto simp: issued_for_def token_pair_for_def seen)
  moreover have "flt 4 \<or> (\<forall>s. GetMFASecret False (xe_pg env) (us_ID x) db = Inr s \<and> ms_Enabled s \<longrightarrow>
       xe_totp env (ms_Secret s) (lq_MFACode req))"
    using l(2) by (cases "flt 4") (auto simp: VerifyMFAForLogin_def seen split: if_splits)
  moreover have "flt 3 \<or> (\<forall>c. GetSSOConfig False (xe_pg env) (om_OrgID member) db = Inr c \<and> so_Enabled c \<and> so_Enforce c \<longrightarrow>
       om_Role member = RoleOwner)"
    using l(3) by (cases "flt 3") auto
  moreover have "flt 0 \<or> length (filter (\<lambda>t. xe_now env - 15 * minute < t) (failures_of (lq_Email req) db)) < 10"
    using few Count_failures [of "lq_Email req" "xe_now env - 15 * minute" db] by (cases "flt 0") simp_all
  moreover have "xe_check env (lq_Password req) (us_PasswordHash x)" using pw by (simp add: seen)
  ultimately show ?thesis using x(1,2) mem by blast
qed

definition demo_user :: user_row where
  "demo_user = \<lparr>us_ID = ''u'', us_Email = ''e'', us_PasswordHash = ''#pw'', us_Name = ''n'', us_EmailVerified = True,
     us_EmailVerifyToken = None, us_EmailVerifyExpires = None, us_LastLoginAt = None, us_CreatedAt = 0,
     us_UpdatedAt = 0\<rparr>"

definition demo_accounts :: account_db where
  "demo_accounts = no_accounts\<lparr>ac_Orgs := [zero_org\<lparr>org_ID := ''o'', org_Plan := PlanFree\<rparr>], ac_Users := [demo_user],
     ac_Members := [\<lparr>om_ID = ''m'', om_OrgID = ''o'', om_UserID = ''u'', om_Role = RoleAdmin, om_CreatedAt = 0\<rparr>],
     ac_MFA := [\<lparr>ms_UserID = ''u'', ms_Secret = ''s'', ms_Enabled = True, ms_VerifiedAt = Some 1\<rparr>]\<rparr>"

lemma demo_tokens: "\<exists>p. token_pair_for (demo_auth now) u o1 r e g = Some p"
  unfolding token_pair_for_def using GenerateTokenPair_total [OF demo_total] by (simp add: demo_auth_def)

theorem login_needs_factors_witness:
  "\<exists>l db'. Login (demo_auth 5) no_faults (demo_request_for [])
       (Some \<lparr>lq_Email = ''e'', lq_Password = ''pw'', lq_MFACode = ''s''\<rparr>) demo_accounts = (LoggedIn l, db') \<and>
     (\<exists>member\<in>set (ac_Members demo_accounts).
        issued_for demo_manager 5 ''u'' (om_OrgID member) (om_Role member) (lr_Tokens l))"
proof -
  let ?req = "\<lparr>lq_Email = ''e'', lq_Password = ''pw'', lq_MFACode = ''s''\<rparr>"
  obtain p where p: "token_pair_for (demo_auth 5) ''u'' ''o'' RoleAdmin ''e'' [] = Some p"
    using demo_tokens by blast
  have few: "CountRecentFailedAttempts False ''e'' since demo_accounts = 0" for since
    by (simp add: Count_failures failures_of_def demo_accounts_def no_accounts_def)
  have user: "GetUserByEmail False ''e'' demo_accounts = Inr demo_user"
    by (simp add: GetUserByEmail_def demo_accounts_def demo_user_def seen_user_def)
  have member: "GetOrgMember False (xe_pg (demo_auth 5)) [] ''u'' demo_accounts =
      Inr \<lparr>om_ID = ''m'', om_OrgID = ''o'', om_UserID = ''u'', om_Role = RoleAdmin, om_CreatedAt = 0\<rparr>"
    by (simp add: GetOrgMember_def by_uuid_def demo_accounts_def demo_auth_def)
  have sso: "GetSSOConfig False (xe_pg (demo_auth 5)) ''o'' demo_accounts = Inl ErrNotFound"
    by (simp add: GetSSOConfig_def by_uuid_def demo_accounts_def no_accounts_def demo_auth_def)
  have mfa: "VerifyMFAForLogin False (demo_auth 5) ''u'' ''s'' demo_accounts = None"
    by (simp add: VerifyMFAForLogin_def GetMFASecret_def by_uuid_def demo_accounts_def demo_auth_def)
  have org: "GetOrganization False (xe_pg (demo_auth 5)) ''o'' demo_accounts =
      Inr (zero_org\<lparr>org_ID := ''o'', org_Plan := PlanFree\<rparr>)"
    by (simp add: GetOrganization_def by_uuid_def demo_accounts_def demo_auth_def zero_org_def)
  have "\<exists>l db'. Login (demo_auth 5) no_faults (demo_request_for []) (Some ?req) demo_accounts = (LoggedIn l, db')"
    using p by (simp add: Login_def login_counted_def Let_def few user maxFailedLoginAttempts_def login_member_def member sso mfa org
        zero_org_def demo_user_def) (simp add: demo_auth_def)
  then obtain l db' where l: "Login (demo_auth 5) no_faults (demo_request_for []) (Some ?req) demo_accounts = (LoggedIn l, db')"
    by blast
  from login_needs_factors [OF l] have "\<exists>user\<in>set (ac_Users demo_accounts). \<exists>member\<in>set (ac_Members demo_accounts).
      issued_for (xe_jwt (demo_auth 5)) (xe_now (demo_auth 5)) (us_ID user) (om_OrgID member) (om_Role member) (lr_Tokens l)"
    by blast
  then have "\<exists>member\<in>set (ac_Members demo_accounts).
      issued_for demo_manager 5 ''u'' (om_OrgID member) (om_Role member) (lr_Tokens l)"
    by (simp add: demo_accounts_def demo_user_def demo_auth_def)
  with l show ?thesis by blast
qed

end
