(* ===== verification/AccountLaws.thy ===== *)
theory AccountLaws
  imports SessionLaws
begin

text \<open>
  What protects an account: the number of guesses at a signup code is limited by the attempts allowed and the
  completions in progress, but a second factor is
  dropped without being asked for, a reset code works for whoever requested one, invited accounts share a
  known password, and members are managed across organizations.
\<close>

subsection \<open>Signup codes\<close>

definition pending_of :: "string \<Rightarrow> account_db \<Rightarrow> pending_registration option" where
  "pending_of email db = find (\<lambda>p. pn_Email p = email) (ac_Pending db)"

definition wf_pending :: "pglib \<Rightarrow> account_db \<Rightarrow> bool" where
  "wf_pending pg db \<longleftrightarrow> distinct (map pn_Email (ac_Pending db)) \<and>
     (\<forall>p\<in>set (ac_Pending db). pg_uuid pg (pn_ID p) = Some (pn_ID p))"

definition judged_wrong :: "'a response \<Rightarrow> bool" where
  "judged_wrong a \<longleftrightarrow> a = Refuse StatusBadRequest ''invalid verification code''"

lemma find_map_keep:
  "(\<And>p. P (f p) = P p) \<Longrightarrow> find P (map f ps) = map_option f (find P ps)"
  by (induction ps) auto

lemma find_filter_distinct:
  assumes "distinct (map g ps)"
  shows "find (\<lambda>p. g p = k) (filter Q ps) =
    (case find (\<lambda>p. g p = k) ps of None \<Rightarrow> None | Some p \<Rightarrow> if Q p then Some p else None)"
  using assms
proof (induction ps)
  case (Cons p ps)
  show ?case
  proof (cases "g p = k")
    case True
    then have "find (\<lambda>p. g p = k) (filter Q ps) = None"
      using Cons.prems by (auto simp: find_None_iff) (metis image_eqI)
    with True show ?thesis by simp
  next
    case False
    then show ?thesis using Cons by simp
  qed
qed simp

lemma pending_increment:
  "pending_of email (snd (IncrementPendingAttempts fails pg i db)) =
    map_option (\<lambda>p. if \<not> fails \<and> pg_uuid pg i = Some (pn_ID p) then p\<lparr>pn_Attempts := pn_Attempts p + 1\<rparr> else p)
      (pending_of email db)"
proof -
  have "map_option (\<lambda>p. p) x = x" for x :: "pending_registration option" by (cases x) simp_all
  then show ?thesis
    by (auto simp: IncrementPendingAttempts_def exec_uuid_def exec_def pending_of_def find_map_keep
        split: option.split intro!: option.map_cong)
qed

lemma wf_pending_increment:
  "wf_pending pg db \<Longrightarrow> wf_pending pg (snd (IncrementPendingAttempts fl pg' i db))"
  by (auto simp: wf_pending_def IncrementPendingAttempts_def exec_uuid_def exec_def comp_def if_distrib
      cong: if_cong split: option.split)

lemma ac_Pending_simps [simp]:
  "ac_Pending (snd (CreateUser fl now i em h n v db)) = ac_Pending db"
  "ac_Pending (snd (CreateOrganization fl plans now i o1 db)) = ac_Pending db"
  "ac_Pending (snd (AddOrgMember fl pg now i o2 u r db)) = ac_Pending db"
  "ac_Pending (snd (UpdateLastLoginAt fl pg now u db)) = ac_Pending db"
  by (simp_all add: CreateUser_def CreateOrganization_def AddOrgMember_def UpdateLastLoginAt_def
      update_users_def exec_uuid_keeps Let_def split: option.split)

lemma signup_org_pending [simp]: "ac_Pending (snd (signup_org env flt pr db)) = ac_Pending db"
proof -
  have "ac_Pending (snd (CreateOrganization fl plans now i o1 db1)) = ac_Pending db"
    if "CreateOrganization fl' plans' now' i' o1' db = (res, db1)" for fl plans now i o1 db1 fl' plans' now' i' o1' res
    using ac_Pending_simps(2) [of fl' plans' now' i' o1' db] that by simp
  then show ?thesis
    by (fastforce simp: signup_org_def Let_def split: prod.split sum.split store_error.split)
qed

lemma complete_account_pending:
  assumes "complete_account env flt pr db = (a, db')"
  shows "ac_Pending db' = ac_Pending db \<or> (\<exists>u. ac_Pending db' = filter (\<lambda>p. pn_ID p \<noteq> u) (ac_Pending db))"
    and "\<not> judged_wrong a"
proof -
  have del: "ac_Pending (snd (DeletePendingRegistration fl pg i d)) = ac_Pending d \<or>
      (\<exists>u. ac_Pending (snd (DeletePendingRegistration fl pg i d)) = filter (\<lambda>p. pn_ID p \<noteq> u) (ac_Pending d))" for fl pg i d
    by (auto simp: DeletePendingRegistration_def exec_uuid_def exec_def split: option.split)
  obtain ru d1 where u: "CreateUser (flt 1) (xe_dbnow env) (xe_newID env 1) (pn_Email pr) (pn_PasswordHash pr)
      (pn_Name pr) True db = (ru, d1)" by fastforce
  note u' = u [unfolded One_nat_def]
  have d1: "ac_Pending d1 = ac_Pending db" using ac_Pending_simps(1) u by (metis snd_conv)
  obtain ro d2 where o2: "signup_org env flt pr d1 = (ro, d2)" by fastforce
  have d2: "ac_Pending d2 = ac_Pending db" using signup_org_pending o2 d1 by (metis snd_conv)
  show "ac_Pending db' = ac_Pending db \<or> (\<exists>u. ac_Pending db' = filter (\<lambda>p. pn_ID p \<noteq> u) (ac_Pending db))"
  proof (cases "\<exists>us og. ru = Inr us \<and> ro = Inr og")
    case False
    then show ?thesis
      using assms d1 d2 by (auto simp: complete_account_def u' o2 split: sum.splits)
  next
    case True
    then obtain us og where r: "ru = Inr us" "ro = Inr og" by blast
    obtain rm d3 where m: "AddOrgMember (flt 4) (xe_pg env) (xe_dbnow env) (xe_newID env 4) (org_ID og) (us_ID us)
        RoleOwner d2 = (rm, d3)" by fastforce
    have d3: "ac_Pending d3 = ac_Pending db" using ac_Pending_simps(3) m d2 by (metis snd_conv)
    show ?thesis
    proof (cases rm)
      case (Inl e)
      then show ?thesis using assms d3 by (simp add: complete_account_def u' o2 r m)
    next
      case (Inr mem)
      then have "db' = snd (DeletePendingRegistration (flt 6) (xe_pg env) (pn_ID pr)
          (snd (UpdateLastLoginAt (flt 5) (xe_pg env) (xe_dbnow env) (us_ID us) d3)))"
        using assms by (simp add: complete_account_def u' o2 r m Let_def split: option.splits)
      then show ?thesis
        using del [of "flt 6" "xe_pg env" "pn_ID pr" "snd (UpdateLastLoginAt (flt 5) (xe_pg env) (xe_dbnow env) (us_ID us) d3)"] d3
        by simp
    qed
  qed
  show "\<not> judged_wrong a"
    using assms by (auto simp: complete_account_def judged_wrong_def Let_def split: prod.splits sum.splits option.splits)
qed

lemma wf_pending_cong: "ac_Pending db' = ac_Pending db \<Longrightarrow> wf_pending pg db' = wf_pending pg db"
  by (simp add: wf_pending_def)

lemma wf_pending_filter:
  "ac_Pending db' = filter Q (ac_Pending db) \<Longrightarrow> wf_pending pg db \<Longrightarrow> wf_pending pg db'"
  by (auto simp: wf_pending_def distinct_map_filter)

lemma pending_filter:
  assumes "ac_Pending db' = filter Q (ac_Pending db)" "wf_pending pg db"
  shows "pending_of email db' = (case pending_of email db of None \<Rightarrow> None | Some p \<Rightarrow> if Q p then Some p else None)"
  using find_filter_distinct [of pn_Email "ac_Pending db" email Q] assms by (simp add: pending_of_def wf_pending_def)

text \<open>
  What a completion does to the registration of an address once it has loaded a row: a code is judged wrong only with
  fewer than five attempts in that row, and counted by the increment of its row; anything else leaves the
  registration of the address as it is or deletes it.
\<close>

lemma signup_loaded_pending:
  assumes "signup_loaded env flt otp pr db = (a, db')" "wf_pending (xe_pg env) db"
  shows "wf_pending (xe_pg env) db'"
    and "judged_wrong a \<Longrightarrow> pn_Attempts pr < 5 \<and> db' = snd (IncrementPendingAttempts (flt 1) (xe_pg env) (pn_ID pr) db)"
    and "\<not> judged_wrong a \<Longrightarrow> pending_of email db' = pending_of email db \<or> pending_of email db' = None"
proof -
  consider (same) "db' = db" "\<not> judged_wrong a"
    | (wrong) "pn_Attempts pr < 5" "judged_wrong a"
        "db' = snd (IncrementPendingAttempts (flt 1) (xe_pg env) (pn_ID pr) db)"
    | (account) "complete_account env flt pr db = (a, db')"
    using assms(1) by (auto simp: signup_loaded_def judged_wrong_def split: if_splits)
  then have all: "wf_pending (xe_pg env) db' \<and>
    (judged_wrong a \<longrightarrow> pn_Attempts pr < 5 \<and> db' = snd (IncrementPendingAttempts (flt 1) (xe_pg env) (pn_ID pr) db)) \<and>
    (\<not> judged_wrong a \<longrightarrow> pending_of email db' = pending_of email db \<or> pending_of email db' = None)"
  proof cases
    case same
    then show ?thesis using assms(2) by simp
  next
    case wrong
    then show ?thesis using assms(2) wf_pending_increment by simp
  next
    case account
    note c = complete_account_pending [OF account]
    from c(1) have "wf_pending (xe_pg env) db'"
      using assms(2) wf_pending_cong wf_pending_filter by blast
    moreover from c(1) have "pending_of email db' = pending_of email db \<or> pending_of email db' = None"
    proof
      assume "ac_Pending db' = ac_Pending db"
      then show ?thesis by (simp add: pending_of_def)
    next
      assume "\<exists>u. ac_Pending db' = filter (\<lambda>p. pn_ID p \<noteq> u) (ac_Pending db)"
      then obtain u where "ac_Pending db' = filter (\<lambda>p. pn_ID p \<noteq> u) (ac_Pending db)" ..
      from pending_filter [OF this assms(2), of email] show ?thesis by (simp split: option.splits)
    qed
    ultimately show ?thesis using c(2) by blast
  qed
  then show "wf_pending (xe_pg env) db'"
    "judged_wrong a \<Longrightarrow> pn_Attempts pr < 5 \<and> db' = snd (IncrementPendingAttempts (flt 1) (xe_pg env) (pn_ID pr) db)"
    by blast+
  show "pending_of email db' = pending_of email db \<or> pending_of email db' = None" if "\<not> judged_wrong a"
    using all that by (elim conjE) (drule mp, assumption+)
qed

text \<open>
  Completions as the server runs them: any number at a time, each loads the row of its address and judges its code
  later, by \<open>signup_loaded\<close>, from the row as it was loaded; any faults, other requests in between.  Those ask for no new
  code of the address: they leave its row alone or delete it.  \<open>sw_Wrong\<close> counts the codes judged wrong for the
  address, \<open>sw_Lost\<close> those whose increment failed.  \<open>k\<close> bounds the completions for the address in progress.
\<close>

record signup_world =
  sw_DB :: account_db
  sw_Loaded :: "(pending_registration \<times> string) list"
  sw_Wrong :: nat
  sw_Lost :: nat

definition signup_start :: "account_db \<Rightarrow> signup_world" where
  "signup_start db = \<lparr>sw_DB = db, sw_Loaded = [], sw_Wrong = 0, sw_Lost = 0\<rparr>"

definition completions :: "string \<Rightarrow> signup_world \<Rightarrow> nat" where
  "completions email w = length (filter (\<lambda>(pr, otp). pn_Email pr = email) (sw_Loaded w))"

inductive signup_step :: "pglib \<Rightarrow> nat \<Rightarrow> string \<Rightarrow> signup_world \<Rightarrow> signup_world \<Rightarrow> bool" for pg k email where
  load: "GetPendingRegistrationByEmail fails e (sw_DB w) = Inr pr \<Longrightarrow>
    w' = w\<lparr>sw_Loaded := (pr, otp) # sw_Loaded w\<rparr> \<Longrightarrow> completions email w' \<le> k \<Longrightarrow> signup_step pg k email w w'"
| finish: "(pr, otp) \<in> set (sw_Loaded w) \<Longrightarrow> xe_pg env = pg \<Longrightarrow>
    signup_loaded env flt otp pr (sw_DB w) = (a, db) \<Longrightarrow>
    w' = w\<lparr>sw_DB := db, sw_Loaded := remove1 (pr, otp) (sw_Loaded w),
           sw_Wrong := sw_Wrong w + (if judged_wrong a \<and> pn_Email pr = email then 1 else 0),
           sw_Lost := sw_Lost w + (if judged_wrong a \<and> pn_Email pr = email \<and> flt 1 then 1 else 0)\<rparr> \<Longrightarrow>
    signup_step pg k email w w'"
| others: "pending_of email db = pending_of email (sw_DB w) \<or> pending_of email db = None \<Longrightarrow> wf_pending pg db \<Longrightarrow>
    signup_step pg k email w (w\<lparr>sw_DB := db\<rparr>)"

definition admitted_codes :: "string \<Rightarrow> signup_world \<Rightarrow> nat" where
  "admitted_codes email w = length (filter (\<lambda>(pr, otp). pn_Email pr = email \<and> pn_Attempts pr < 5) (sw_Loaded w))"

text \<open>\<open>n\<close> are the attempts at the start.\<close>

definition code_inv :: "pglib \<Rightarrow> nat \<Rightarrow> string \<Rightarrow> int \<Rightarrow> signup_world \<Rightarrow> bool" where
  "code_inv pg k email n w \<longleftrightarrow>
     wf_pending pg (sw_DB w) \<and>
     (\<forall>p. pending_of email (sw_DB w) = Some p \<longrightarrow> int (sw_Wrong w) + n \<le> pn_Attempts p + int (sw_Lost w) \<and>
        (\<forall>(pr, otp)\<in>set (sw_Loaded w). pn_Email pr = email \<longrightarrow> pn_ID pr = pn_ID p)) \<and>
     (0 < sw_Wrong w \<longrightarrow> int (sw_Wrong w) + n \<le> 4 + int k + int (sw_Lost w)) \<and>
     (0 < admitted_codes email w \<longrightarrow>
        int (sw_Wrong w) + int (admitted_codes email w) + n \<le> 4 + int k + int (sw_Lost w))"

lemma pending_of_row:
  "pending_of email db = Some p \<Longrightarrow> pn_Email p = email \<and> p \<in> set (ac_Pending db)"
  by (auto simp: pending_of_def dest: find_member)

lemma code_inv_load:
  assumes inv: "code_inv pg k email n w"
    and load: "GetPendingRegistrationByEmail fails e (sw_DB w) = Inr pr"
    and w': "w' = w\<lparr>sw_Loaded := (pr, otp) # sw_Loaded w\<rparr>" and k: "completions email w' \<le> k"
  shows "code_inv pg k email n w'"
proof -
  have row: "pending_of e (sw_DB w) = Some pr"
    using load by (auto simp: GetPendingRegistrationByEmail_def pending_of_def lookup_row_def split: if_splits option.splits)
  have adm: "admitted_codes email w' = admitted_codes email w + (if pn_Email pr = email \<and> pn_Attempts pr < 5 then 1 else 0)"
    by (simp add: admitted_codes_def w')
  have few: "admitted_codes email w' \<le> k"
  proof -
    have "length (filter (\<lambda>(pr, otp). pn_Email pr = email \<and> pn_Attempts pr < 5) xs) \<le>
        length (filter (\<lambda>(pr, otp). pn_Email pr = email) xs)" for xs :: "(pending_registration \<times> string) list"
      by (induction xs) auto
    then show ?thesis using k unfolding completions_def admitted_codes_def by (rule le_trans)
  qed
  have own: "pending_of email (sw_DB w) = Some pr" if "pn_Email pr = email"
    using row that pending_of_row [OF row] by simp
  have "int (sw_Wrong w) + int (admitted_codes email w') + n \<le> 4 + int k + int (sw_Lost w)"
    if "0 < admitted_codes email w'"
  proof (cases "pn_Email pr = email \<and> pn_Attempts pr < 5")
    case True
    then have "int (sw_Wrong w) + n \<le> pn_Attempts pr + int (sw_Lost w)"
      using own inv by (simp add: code_inv_def)
    with True few show ?thesis by simp
  next
    case False
    then have "admitted_codes email w' = admitted_codes email w" using adm by auto
    then show ?thesis using inv that by (simp add: code_inv_def)
  qed
  with inv own show ?thesis by (auto simp: code_inv_def w')
qed

lemma code_inv_finish:
  assumes inv: "code_inv pg k email n w" and pr: "(pr, otp) \<in> set (sw_Loaded w)" and env: "xe_pg env = pg"
    and step: "signup_loaded env flt otp pr (sw_DB w) = (a, db)"
    and w': "w' = w\<lparr>sw_DB := db, sw_Loaded := remove1 (pr, otp) (sw_Loaded w),
           sw_Wrong := sw_Wrong w + (if judged_wrong a \<and> pn_Email pr = email then 1 else 0),
           sw_Lost := sw_Lost w + (if judged_wrong a \<and> pn_Email pr = email \<and> flt 1 then 1 else 0)\<rparr>"
  shows "code_inv pg k email n w'"
proof -
  have wf: "wf_pending pg (sw_DB w)" using inv by (simp add: code_inv_def)
  note s = signup_loaded_pending [OF step, unfolded env, OF wf]
  have adm: "admitted_codes email w =
      admitted_codes email w' + (if pn_Email pr = email \<and> pn_Attempts pr < 5 then 1 else 0)"
    using length_filter_remove1 [OF pr, of "\<lambda>(pr, otp). pn_Email pr = email \<and> pn_Attempts pr < 5"]
    by (simp add: admitted_codes_def w')
  have left: "set (sw_Loaded w') \<subseteq> set (sw_Loaded w)" by (simp add: w' set_remove1_subset)
  have row: "int (sw_Wrong w') + n \<le> pn_Attempts p' + int (sw_Lost w') \<and>
      (\<forall>(pr, otp)\<in>set (sw_Loaded w'). pn_Email pr = email \<longrightarrow> pn_ID pr = pn_ID p')"
    if p': "pending_of email db = Some p'" for p'
  proof (cases "judged_wrong a")
    case False
    then have "pending_of email (sw_DB w) = Some p'" using s(3) [of email] p' by auto
    then show ?thesis using inv left False by (auto simp: code_inv_def w')
  next
    case True
    then have db: "db = snd (IncrementPendingAttempts (flt 1) pg (pn_ID pr) (sw_DB w))" using s(2) by simp
    then obtain p where p: "pending_of email (sw_DB w) = Some p"
        "p' = (if \<not> flt 1 \<and> pg_uuid pg (pn_ID pr) = Some (pn_ID p) then p\<lparr>pn_Attempts := pn_Attempts p + 1\<rparr> else p)"
      using p' by (auto simp: pending_increment)
    have old: "int (sw_Wrong w) + n \<le> pn_Attempts p + int (sw_Lost w)"
      "\<forall>(pr, otp)\<in>set (sw_Loaded w). pn_Email pr = email \<longrightarrow> pn_ID pr = pn_ID p"
      using inv p(1) by (simp_all add: code_inv_def)
    have "pg_uuid pg (pn_ID p) = Some (pn_ID p)"
      using wf pending_of_row [OF p(1)] by (simp add: wf_pending_def)
    then have "pn_Email pr = email \<Longrightarrow> pg_uuid pg (pn_ID pr) = Some (pn_ID p)" using old(2) pr by auto
    with old left p(2) True show ?thesis by (auto simp: w')
  qed
  have old: "0 < sw_Wrong w \<longrightarrow> int (sw_Wrong w) + n \<le> 4 + int k + int (sw_Lost w)"
    "0 < admitted_codes email w \<longrightarrow> int (sw_Wrong w) + int (admitted_codes email w) + n \<le> 4 + int k + int (sw_Lost w)"
    using inv by (simp_all add: code_inv_def)
  have "(0 < sw_Wrong w' \<longrightarrow> int (sw_Wrong w') + n \<le> 4 + int k + int (sw_Lost w')) \<and>
    (0 < admitted_codes email w' \<longrightarrow>
      int (sw_Wrong w') + int (admitted_codes email w') + n \<le> 4 + int k + int (sw_Lost w'))"
  proof (cases "judged_wrong a \<and> pn_Email pr = email")
    case True
    then have "admitted_codes email w = Suc (admitted_codes email w')" "sw_Wrong w' = Suc (sw_Wrong w)"
      "sw_Lost w \<le> sw_Lost w'"
      using adm s(2) by (simp_all add: w')
    then show ?thesis using old(2) by simp
  next
    case False
    then have "admitted_codes email w' \<le> admitted_codes email w" "sw_Wrong w' = sw_Wrong w" "sw_Lost w' = sw_Lost w"
      using adm by (auto simp: w')
    then show ?thesis using old by auto
  qed
  moreover have "wf_pending pg (sw_DB w')" "sw_DB w' = db" using s(1) by (simp_all add: w')
  ultimately show ?thesis
    using row unfolding code_inv_def by blast
qed

lemma code_inv_step: "signup_step pg k email w w' \<Longrightarrow> code_inv pg k email n w \<Longrightarrow> code_inv pg k email n w'"
proof (induction rule: signup_step.induct)
  case (load fails e w pr w' otp)
  from code_inv_load [OF load(4,1-3)] show ?case .
next
  case (finish pr otp w env flt a db w')
  from code_inv_finish [OF finish(5,1-4)] show ?case .
next
  case (others db w)
  then show ?case by (auto simp: code_inv_def admitted_codes_def)
qed

text \<open>
  C27: guesses at a signup code are limited.  However completions for any addresses and other requests interleave, as
  long as no new code is asked for and no more than \<open>k\<close> completions for the address are in progress at once, at most
  \<open>4 + k\<close> wrong codes are judged for it, less the \<open>n\<close> attempts counted before, plus one for each increment that failed.
  One at a time and without failures these are five.
\<close>

theorem signup_code_guesses_limited:
  assumes "(signup_step pg k email)\<^sup>*\<^sup>* (signup_start db) w" and "wf_pending pg db"
    and "pending_of email db = Some p" and "n = pn_Attempts p"
  shows "int (sw_Wrong w) \<le> max 0 (4 + int k + int (sw_Lost w) - n)"
proof -
  have "code_inv pg k email n (signup_start db)"
    using assms(2-4) by (simp add: code_inv_def signup_start_def admitted_codes_def)
  with assms(1) have "code_inv pg k email n w"
    by (induction rule: rtranclp_induct) (auto intro: code_inv_step)
  then show ?thesis by (cases "sw_Wrong w") (auto simp: code_inv_def)
qed

definition demo_pending :: account_db where
  "demo_pending = no_accounts\<lparr>ac_Pending := [\<lparr>pn_ID = ''p'', pn_Email = ''e'', pn_Name = ''n'', pn_OrgName = ''o'',
     pn_DataRegion = RegionUS, pn_PasswordHash = ''#pw'', pn_OTPHash = ''#123456'', pn_ExpiresAt = 9, pn_Attempts = 0,
     pn_CreatedAt = 0\<rparr>]\<rparr>"

definition demo_code :: pending_registration where "demo_code = hd (ac_Pending demo_pending)"

lemma demo_pending_row:
  "pending_of ''e'' demo_pending = Some demo_code" "pn_Attempts demo_code = 0" "pn_Email demo_code = ''e''"
  "wf_pending (xe_pg (demo_auth 5)) demo_pending"
  by (simp_all add: pending_of_def demo_code_def demo_pending_def wf_pending_def demo_auth_def)

lemma wrong_code:
  assumes "ac_Pending db = map (\<lambda>p. p\<lparr>pn_Attempts := i\<rparr>) (ac_Pending demo_pending)"
  shows "\<exists>db'. signup_loaded (demo_auth 5) no_faults ''000000'' demo_code db =
      (Refuse StatusBadRequest ''invalid verification code'', db') \<and>
    ac_Pending db' = map (\<lambda>p. p\<lparr>pn_Attempts := i + 1\<rparr>) (ac_Pending demo_pending)"
  using assms
  by (simp add: signup_loaded_def demo_code_def demo_pending_def demo_auth_def IncrementPendingAttempts_def exec_uuid_def exec_def)

text \<open>The bound grows with the completions in progress: \<open>k\<close> that load the row before any is judged are all judged.\<close>

lemma loaded_codes:
  "i \<le> k \<Longrightarrow> (signup_step (xe_pg (demo_auth 5)) k ''e'')\<^sup>*\<^sup>* (signup_start demo_pending)
    ((signup_start demo_pending)\<lparr>sw_Loaded := replicate i (demo_code, ''000000'')\<rparr>)"
proof (induction i)
  case 0
  then show ?case by (simp add: signup_start_def)
next
  case (Suc i)
  let ?w = "\<lambda>i. (signup_start demo_pending)\<lparr>sw_Loaded := replicate i (demo_code, ''000000'')\<rparr>"
  have "GetPendingRegistrationByEmail False ''e'' (sw_DB (?w i)) = Inr demo_code"
    using demo_pending_row(1) by (simp add: GetPendingRegistrationByEmail_def pending_of_def lookup_row_def signup_start_def)
  from signup_step.load [OF this, of "?w (Suc i)" "''000000''" "''e''" k]
  have "signup_step (xe_pg (demo_auth 5)) k ''e'' (?w i) (?w (Suc i))"
    using Suc.prems by (simp add: completions_def demo_pending_row(3) filter_replicate signup_start_def)
  with Suc show ?case by (simp add: rtranclp.rtrancl_into_rtrancl)
qed

lemma concurrent_codes:
  "\<exists>w. (signup_step (xe_pg (demo_auth 5)) k ''e'')\<^sup>*\<^sup>* (signup_start demo_pending) w \<and> sw_Wrong w = k"
proof -
  have "i \<le> k \<Longrightarrow> \<exists>db. (signup_step (xe_pg (demo_auth 5)) k ''e'')\<^sup>*\<^sup>* (signup_start demo_pending)
      \<lparr>sw_DB = db, sw_Loaded = replicate (k - i) (demo_code, ''000000''), sw_Wrong = i, sw_Lost = 0\<rparr> \<and>
    ac_Pending db = map (\<lambda>p. p\<lparr>pn_Attempts := int i\<rparr>) (ac_Pending demo_pending)" for i
  proof (induction i)
    case 0
    show ?case using loaded_codes [of k k] by (intro exI [of _ demo_pending]) (simp add: signup_start_def demo_pending_def)
  next
    case (Suc i)
    then obtain db where run: "(signup_step (xe_pg (demo_auth 5)) k ''e'')\<^sup>*\<^sup>* (signup_start demo_pending)
        \<lparr>sw_DB = db, sw_Loaded = replicate (k - i) (demo_code, ''000000''), sw_Wrong = i, sw_Lost = 0\<rparr>"
        and db: "ac_Pending db = map (\<lambda>p. p\<lparr>pn_Attempts := int i\<rparr>) (ac_Pending demo_pending)" by auto
    obtain m where m: "k - i = Suc m" "k - Suc i = m" using Suc.prems by (metis Suc_diff_Suc Suc_le_lessD)
    obtain db' where s: "signup_loaded (demo_auth 5) no_faults ''000000'' demo_code db =
        (Refuse StatusBadRequest ''invalid verification code'', db')"
        and db': "ac_Pending db' = map (\<lambda>p. p\<lparr>pn_Attempts := int i + 1\<rparr>) (ac_Pending demo_pending)"
      using wrong_code [OF db] by blast
    have "signup_step (xe_pg (demo_auth 5)) k ''e''
        \<lparr>sw_DB = db, sw_Loaded = replicate (k - i) (demo_code, ''000000''), sw_Wrong = i, sw_Lost = 0\<rparr>
        \<lparr>sw_DB = db', sw_Loaded = replicate (k - Suc i) (demo_code, ''000000''), sw_Wrong = Suc i, sw_Lost = 0\<rparr>"
      by (rule signup_step.finish [where pr = demo_code and otp = "''000000''" and env = "demo_auth 5" and flt = no_faults
            and a = "Refuse StatusBadRequest ''invalid verification code''" and db = db'])
        (use s in \<open>simp_all add: m judged_wrong_def demo_pending_row(3)\<close>)
    with run db' show ?case
      by (intro exI [of _ db'] conjI) (auto intro: rtranclp.rtrancl_into_rtrancl simp: add.commute)
  qed
  from this [of k] show ?thesis by fastforce
qed

theorem signup_code_guesses_limited_witness:
  "\<exists>w::signup_world. sw_Wrong w = 2 \<and> int (sw_Wrong w) \<le> max 0 (6 + int (sw_Lost w))"
proof -
  obtain w where w: "(signup_step (xe_pg (demo_auth 5)) 2 ''e'')\<^sup>*\<^sup>* (signup_start demo_pending) w" "sw_Wrong w = 2"
    using concurrent_codes by blast
  have "int (sw_Wrong w) \<le> max 0 (6 + int (sw_Lost w))"
    using signup_code_guesses_limited [OF w(1) demo_pending_row(4,1) refl] demo_pending_row(2) by simp
  with w(2) show ?thesis by blast
qed

subsection \<open>Second factors\<close>

text \<open>
  Starting over drops the second factor.  Asking for a new TOTP secret needs neither the password nor a
  code; it replaces the secret and disables it, so from then on a login is asked for no code, whatever was
  enabled before, until the new secret is verified.
\<close>

theorem mfa_enable_drops_factor:
  assumes "MFA_Enable env flt r db = (Answer c secret, db')" and "xe_pg env' = xe_pg env"
  shows "VerifyMFAForLogin fails env' (GetUserID r) code db' = None"
proof -
  obtain s u where s: "UpsertMFASecret (flt 1) (xe_pg env) (GetUserID r) s db = (Inr (), db')"
      "pg_uuid (xe_pg env) (GetUserID r) = Some u"
    using assms(1)
    by (auto simp: MFA_Enable_def UpsertMFASecret_def split: sum.splits option.splits prod.splits)
  have upd: "find P (map (\<lambda>m. if P m then m\<lparr>ms_Secret := s, ms_Enabled := False, ms_VerifiedAt := None\<rparr> else m) ms) = Some m
      \<Longrightarrow> (\<And>m. P (m\<lparr>ms_Secret := s, ms_Enabled := False, ms_VerifiedAt := None\<rparr>) = P m) \<Longrightarrow> \<not> ms_Enabled m" for P ms m
    by (induction ms) (auto split: if_splits)
  have new: "find P (ms @ [m0]) = Some m \<Longrightarrow> \<forall>m\<in>set ms. \<not> P m \<Longrightarrow> m = m0" for P ms m and m0 :: mfa_secret
    by (induction ms) (auto split: if_splits)
  have "\<not> ms_Enabled m" if "GetMFASecret fails (xe_pg env) (GetUserID r) db' = Inr m" for m
  proof -
    have f: "find (\<lambda>m. ms_UserID m = u) (ac_MFA db') = Some m"
      using that s(2) by (auto simp: GetMFASecret_def by_uuid_def split: if_splits option.splits)
    show ?thesis
    proof (cases "u \<in> ms_UserID ` set (ac_MFA db)")
      case True
      then have "ac_MFA db' = map (\<lambda>m. if ms_UserID m = u
          then m\<lparr>ms_Secret := s, ms_Enabled := False, ms_VerifiedAt := None\<rparr> else m) (ac_MFA db)"
        using s by (auto simp: UpsertMFASecret_def exec_def split: if_splits)
      from f [unfolded this] show ?thesis by (rule upd) simp
    next
      case False
      then have none: "\<forall>m\<in>set (ac_MFA db). \<not> ms_UserID m = u" by auto
      from False have "ac_MFA db' = ac_MFA db @
          [\<lparr>ms_UserID = u, ms_Secret = s, ms_Enabled = False, ms_VerifiedAt = None\<rparr>]"
        using s by (auto simp: UpsertMFASecret_def exec_def split: if_splits)
      from new [OF f [unfolded this] none] show ?thesis by simp
    qed
  qed
  then show ?thesis
    by (auto simp: VerifyMFAForLogin_def assms(2) split: sum.split)
qed

theorem mfa_enable_drops_factor_witness:
  "\<exists>db'. VerifyMFAForLogin False (demo_auth 5) ''u'' [] demo_accounts = Some ErrMFARequired \<and>
     MFA_Enable (demo_auth 5) no_faults (demo_request RoleViewer) demo_accounts =
       (Answer StatusOK (''r'', TOTPKeyURI ''r'' ''e'' ''FeatureSignals''), db') \<and>
     VerifyMFAForLogin False (demo_auth 5) ''u'' [] db' = None"
proof -
  have id: "GetUserID (demo_request RoleViewer) = ''u''" by (simp add: demo_request_def ctx_getters)
  have before: "VerifyMFAForLogin False (demo_auth 5) ''u'' [] demo_accounts = Some ErrMFARequired"
    by (simp add: VerifyMFAForLogin_def GetMFASecret_def by_uuid_def demo_accounts_def demo_auth_def)
  have "\<exists>db'. MFA_Enable (demo_auth 5) no_faults (demo_request RoleViewer) demo_accounts =
       (Answer StatusOK (''r'', TOTPKeyURI ''r'' ''e'' ''FeatureSignals''), db')"
    by (simp add: MFA_Enable_def id GetUserByID_def by_uuid_def demo_accounts_def demo_auth_def demo_user_def
        seen_user_def UpsertMFASecret_def exec_def)
  then obtain db' where e: "MFA_Enable (demo_auth 5) no_faults (demo_request RoleViewer) demo_accounts =
       (Answer StatusOK (''r'', TOTPKeyURI ''r'' ''e'' ''FeatureSignals''), db')" ..
  from mfa_enable_drops_factor [OF e refl, of False "[]"] before e show ?thesis unfolding id by blast
qed

subsection \<open>Reset codes\<close>

definition outstanding :: "auth_env \<Rightarrow> account_db \<Rightarrow> reset_token list" where
  "outstanding env db = filter (\<lambda>t. rt_UsedAt t = None \<and> xe_dbnow env < rt_ExpiresAt t) (ac_Resets db)"

text \<open>
  A reset code is not bound to a user.  The request names no user, and nothing counts the tries: a code
  is accepted as soon as it matches the token of anybody who has asked for a reset, and then the new
  password, chosen by the sender, is that user's and nobody else's changes.
\<close>

theorem reset_code_opens_any_account:
  assumes "t \<in> set (outstanding env db)" "xe_check env otp (rt_Token t)"
    and "otp \<noteq> []" "newPassword \<noteq> []" "ValidatePasswordStrength env newPassword" "xe_hash env 0 newPassword = Some h"
    and "\<forall>t\<in>set (ac_Resets db). pg_uuid (xe_pg env) (rt_UserID t) = Some (rt_UserID t)"
  shows "\<exists>t'\<in>set (outstanding env db). xe_check env otp (rt_Token t') \<and>
    (\<exists>msg. fst (ResetPassword env no_faults r (Some (otp, newPassword)) db) = Answer StatusOK msg) \<and>
    ac_Users (snd (ResetPassword env no_faults r (Some (otp, newPassword)) db)) =
      map (\<lambda>u. if us_ID u = rt_UserID t' then u\<lparr>us_PasswordHash := h, us_UpdatedAt := xe_dbnow env\<rparr> else u) (ac_Users db)"
proof -
  obtain t' where t': "find (\<lambda>t. xe_check env otp (rt_Token t)) (outstanding env db) = Some t'"
    using assms(1,2) by (metis find_None_iff not_None_eq)
  from find_member [OF t'] have found: "t' \<in> set (outstanding env db)" "xe_check env otp (rt_Token t')" by simp_all
  then have uuid: "pg_uuid (xe_pg env) (rt_UserID t') = Some (rt_UserID t')"
    using assms(7) by (simp add: outstanding_def)
  define db1 where "db1 = db\<lparr>ac_Resets := map (\<lambda>x. if rt_ID x = rt_ID t' then x\<lparr>rt_UsedAt := Some (xe_dbnow env)\<rparr> else x)
    (ac_Resets db)\<rparr>"
  have consume: "ConsumePasswordResetToken no_faults (xe_check env) (xe_dbnow env) otp db = (Inr (rt_UserID t'), db1)"
    using t' by (simp add: ConsumePasswordResetToken_def outstanding_def db1_def)
  have stored: "UpdatePassword False (xe_pg env) (xe_dbnow env) (rt_UserID t') h db1 =
      (Inr (), update_users (rt_UserID t') (\<lambda>x. x\<lparr>us_PasswordHash := h, us_UpdatedAt := xe_dbnow env\<rparr>) db1)"
    by (simp add: UpdatePassword_def exec_uuid_def exec_def uuid)
  have res: "\<exists>msg. ResetPassword env no_faults r (Some (otp, newPassword)) db = (Answer StatusOK msg,
      auth_audit env no_faults 3 r [] (rt_UserID t') ''auth.reset_password'' ''session'' (rt_UserID t') None None
        (update_users (rt_UserID t') (\<lambda>x. x\<lparr>us_PasswordHash := h, us_UpdatedAt := xe_dbnow env\<rparr>) db1))"
    using assms(3-6) by (simp add: ResetPassword_def consume stored)
  from found res show ?thesis
    by (intro bexI [of _ t']) (auto simp: auth_audit_def update_users_def db1_def)
qed

definition demo_reset :: reset_token where
  "demo_reset = \<lparr>rt_ID = ''t'', rt_UserID = ''u'', rt_Token = ''#123456'', rt_ExpiresAt = 9, rt_UsedAt = None\<rparr>"

theorem reset_code_opens_any_account_witness:
  "\<exists>t\<in>set (outstanding (demo_auth 5) (demo_accounts\<lparr>ac_Resets := [demo_reset]\<rparr>)). xe_check (demo_auth 5) ''123456'' (rt_Token t)"
  using reset_code_opens_any_account [of demo_reset "demo_auth 5" "demo_accounts\<lparr>ac_Resets := [demo_reset]\<rparr>" "''123456''"
      "''new-pass''" "''#new-pass''"]
  by (simp add: outstanding_def demo_reset_def demo_auth_def ValidatePasswordStrength_def)

subsection \<open>Members\<close>

text \<open>
  Members are managed across organizations.  An admin of one organization can give any member of any
  organization, by the identifier of the membership alone, any role, ownership included, and the answer is
  a success.
\<close>

theorem update_role_crosses_tenants:
  assumes "m \<in> set (ac_Members db)" "URLParam r ''memberID'' = om_ID m" "pg_uuid (xe_pg env) (om_ID m) = Some (om_ID m)"
    and "role \<in> member_roles" "om_OrgID m \<noteq> GetOrgID r"
  shows "fst (Team_UpdateRole env no_faults r (Some role) db) = Answer StatusNoContent () \<and>
    m\<lparr>om_Role := role\<rparr> \<in> set (ac_Members (snd (Team_UpdateRole env no_faults r (Some role) db)))"
proof -
  have "m\<lparr>om_Role := role\<rparr> \<in> set (map (\<lambda>x. if om_ID x = om_ID m then x\<lparr>om_Role := role\<rparr> else x) (ac_Members db))"
    using assms(1) by force
  with assms(2-4) show ?thesis
    by (simp add: Team_UpdateRole_def UpdateOrgMemberRole_def exec_uuid_def exec_def auth_audit_def Let_def)
qed

definition outsider :: http_request where
  "outsider = (demo_request_for ''m'')\<lparr>req_Claims := Some \<lparr>cl_UserID = ''x'', cl_OrgID = ''other'', cl_Role = RoleAdmin,
     cl_Email = [], cl_DataRegion = [], cl_ID = []\<rparr>\<rparr>"

theorem update_role_crosses_tenants_witness:
  "passes_gate (RequireRole [RoleOwner, RoleAdmin] outsider) \<and>
   fst (Team_UpdateRole (demo_auth 5) no_faults outsider (Some RoleOwner) demo_accounts) = Answer StatusNoContent ()"
  using update_role_crosses_tenants [of "\<lparr>om_ID = ''m'', om_OrgID = ''o'', om_UserID = ''u'', om_Role = RoleAdmin,
      om_CreatedAt = 0\<rparr>" demo_accounts outsider "demo_auth 5" RoleOwner]
  by (simp add: demo_accounts_def outsider_def demo_request_for_def demo_request_def URLParam_def ctx_getters
      member_roles_def demo_auth_def RequireRole_def)

text \<open>The foreign keys of memberships and second factors to users.\<close>

definition user_refs :: "account_db \<Rightarrow> bool" where
  "user_refs db \<longleftrightarrow> om_UserID ` set (ac_Members db) \<subseteq> us_ID ` set (ac_Users db) \<and>
     ms_UserID ` set (ac_MFA db) \<subseteq> us_ID ` set (ac_Users db)"

lemma find_append_new: "\<forall>x\<in>set xs. \<not> P x \<Longrightarrow> P y \<Longrightarrow> find P (xs @ [y]) = Some y"
  by (induction xs) auto

lemma find_none: "\<forall>x\<in>set xs. \<not> P x \<Longrightarrow> find P xs = None"
  by (induction xs) auto

lemma not_referenced: "f ` A \<subseteq> B \<Longrightarrow> k \<notin> B \<Longrightarrow> \<forall>x\<in>A. \<not> f x = k"
  by auto

text \<open>What an invitation of a new address leaves.\<close>

lemma Invite_new:
  assumes "Team_Invite env no_faults r (Some (email, wanted)) db = (Answer c resp, db1)"
    and "email \<notin> us_Email ` set (ac_Users db)" "xe_hash env 0 invited_password = Some h"
    and "pg_uuid (xe_pg env) (xe_newID env 1) = Some (xe_newID env 1)" "pg_uuid (xe_pg env) (GetOrgID r) = Some (GetOrgID r)"
  obtains u m where "ac_Users db1 = ac_Users db @ [u]" "us_ID u = xe_newID env 1" "us_Email u = email" "us_PasswordHash u = h"
    "ac_Members db1 = ac_Members db @ [m]" "om_UserID m = xe_newID env 1" "om_OrgID m = GetOrgID r" "om_Role m = mr_Role resp"
    "us_ID u \<notin> us_ID ` set (ac_Users db)" "ac_MFA db1 = ac_MFA db" "ac_SSO db1 = ac_SSO db" "ac_Attempts db1 = ac_Attempts db"
proof -
  define role where "role = (if wanted = [] then RoleDeveloper else wanted)"
  define u where "u = \<lparr>us_ID = xe_newID env 1, us_Email = email, us_PasswordHash = h, us_Name = email,
    us_EmailVerified = False, us_EmailVerifyToken = None, us_EmailVerifyExpires = None, us_LastLoginAt = None,
    us_CreatedAt = xe_dbnow env, us_UpdatedAt = xe_dbnow env\<rparr>"
  define m where "m = \<lparr>om_ID = xe_newID env 3, om_OrgID = GetOrgID r, om_UserID = xe_newID env 1, om_Role = role,
    om_CreatedAt = xe_dbnow env\<rparr>"
  define dbu where "dbu = db\<lparr>ac_Users := ac_Users db @ [u]\<rparr>"
  have none: "GetUserByEmail False email db = Inl ErrNotFound"
  proof -
    have "\<forall>x\<in>set (ac_Users db). \<not> us_Email x = email" using assms(2) by blast
    from find_none [OF this] show ?thesis by (simp add: GetUserByEmail_def lookup_row_def)
  qed
  have create: "invited_user env no_faults email db =
      (if xe_newID env 1 \<in> us_ID ` set (ac_Users db) then (Inl ErrConflict, db) else (Inr u, dbu))"
    using assms(2,3) by (simp add: invited_user_def none CreateUser_def Let_def u_def dbu_def)
  have fresh: "xe_newID env 1 \<notin> us_ID ` set (ac_Users db)"
    using assms(1) create by (auto simp: Team_Invite_def Let_def split: if_splits)
  then have created: "invited_user env no_faults email db = (Inr u, dbu)" using create by simp
  have uid: "us_ID u = xe_newID env 1" by (simp add: u_def)
  obtain e where nomember: "GetOrgMember False (xe_pg env) (GetOrgID r) (us_ID u) dbu = Inl e"
    using assms(1) created by (cases "GetOrgMember False (xe_pg env) (GetOrgID r) (us_ID u) dbu")
      (auto simp: Team_Invite_def Let_def split: if_splits)
  obtain rm d2 where add: "AddOrgMember False (xe_pg env) (xe_dbnow env) (xe_newID env 3) (GetOrgID r) (us_ID u) role dbu = (rm, d2)"
    by fastforce
  obtain mem where mem: "rm = Inr mem"
    using assms(1) created nomember add
    by (cases rm) (auto simp: Team_Invite_def Let_def role_def split: if_splits)
  have d2: "d2 = dbu\<lparr>ac_Members := ac_Members dbu @ [m]\<rparr>"
    using add mem assms(4,5) by (auto simp: AddOrgMember_def uid m_def Let_def split: if_splits)
  have out: "mr_Role resp = role \<and> (\<exists>n rid meta. db1 = auth_audit env no_faults n r (GetOrgID r) (GetUserID r)
      ''member.invited'' ''member'' rid None meta d2)"
    using assms(1) created nomember add mem
    by (auto simp: Team_Invite_def Let_def role_def split: if_splits)
  then obtain n rid meta where db1: "db1 = auth_audit env no_faults n r (GetOrgID r) (GetUserID r)
      ''member.invited'' ''member'' rid None meta d2" by blast
  show ?thesis
    by (rule that [of u m]) (use out fresh in \<open>simp_all add: db1 auth_audit_def d2 dbu_def u_def m_def\<close>)
qed

lemma login_member_passes:
  assumes "GetSSOConfig False (xe_pg env) (om_OrgID m) db = Inl e"
    and "VerifyMFAForLogin False env (us_ID u) (lq_MFACode req) db = None"
    and total: "\<And>cl. jl_sign (jm_lib (xe_jwt env)) cl \<noteq> None"
  shows "\<exists>l db'. login_member env no_faults r req u m db = (LoggedIn l, db')"
proof -
  obtain region where region: "region = (case GetOrganization False (xe_pg env) (om_OrgID m) db of
      Inl e \<Rightarrow> [] | Inr o1 \<Rightarrow> or_DataRegion o1)" by blast
  obtain p where "token_pair_for env (us_ID u) (om_OrgID m) (om_Role m) (us_Email u) region = Some p"
    using GenerateTokenPair_total [OF total] unfolding token_pair_for_def by blast
  then show ?thesis
    unfolding login_member_def Let_def assms(1,2) region [symmetric] by simp
qed

text \<open>
  Invited accounts have a known password.  After an invitation of an address without an account, anyone
  who sends the address with the password \<open>changeme-invited\<close> is logged in, as a member of the organization
  with the role of the invitation, unless the organization enforces single sign-on.
\<close>

theorem invited_account_open:
  assumes "Team_Invite env no_faults r (Some (email, wanted)) db = (Answer c resp, db1)"
    and "email \<notin> us_Email ` set (ac_Users db)" "xe_hash env 0 invited_password = Some h" "xe_check env' invited_password h"
    and "pg_uuid (xe_pg env) (xe_newID env 1) = Some (xe_newID env 1)" "pg_uuid (xe_pg env) (GetOrgID r) = Some (GetOrgID r)"
    and "xe_pg env' = xe_pg env" "user_refs db" "failures_of email db = []"
    and "GetSSOConfig False (xe_pg env) (GetOrgID r) db = Inl e" "\<And>cl. jl_sign (jm_lib (xe_jwt env')) cl \<noteq> None"
  shows "\<exists>l db2. Login env' no_faults r' (Some \<lparr>lq_Email = email, lq_Password = invited_password, lq_MFACode = []\<rparr>) db1 =
      (LoggedIn l, db2) \<and>
    issued_for (xe_jwt env') (xe_now env') (xe_newID env 1) (GetOrgID r) (mr_Role resp) (lr_Tokens l)"
proof -
  obtain u m where users: "ac_Users db1 = ac_Users db @ [u]" "us_ID u = xe_newID env 1" "us_Email u = email"
      "us_PasswordHash u = h" and members: "ac_Members db1 = ac_Members db @ [m]" "om_UserID m = xe_newID env 1"
      "om_OrgID m = GetOrgID r" "om_Role m = mr_Role resp" and fresh: "us_ID u \<notin> us_ID ` set (ac_Users db)"
      and same: "ac_MFA db1 = ac_MFA db" "ac_SSO db1 = ac_SSO db" "ac_Attempts db1 = ac_Attempts db"
    by (rule Invite_new [OF assms(1-3,5,6)])
  let ?u = "seen_user u"
  have id: "us_ID ?u = xe_newID env 1" "us_PasswordHash ?u = h" using users by (simp_all add: seen_user_def)
  have count: "CountRecentFailedAttempts False email since db1 = 0" for since
    using assms(9) same(3) by (simp add: Count_failures failures_of_def)
  have user: "GetUserByEmail False email db1 = Inr ?u"
  proof -
    have "\<forall>x\<in>set (ac_Users db). \<not> us_Email x = email" using assms(2) by blast
    from find_append_new [OF this users(3)] show ?thesis by (simp add: GetUserByEmail_def users(1))
  qed
  have "\<forall>x\<in>set (ac_Members db). \<not> om_UserID x = xe_newID env 1"
    by (rule not_referenced [OF _ fresh [unfolded users(2)]]) (use assms(8) in \<open>simp add: user_refs_def\<close>)
  then have member: "GetOrgMember False (xe_pg env') [] (xe_newID env 1) db1 = Inr m"
    using members find_append_new [of "ac_Members db" "\<lambda>x. om_UserID x = xe_newID env 1" m]
    by (simp add: GetOrgMember_def by_uuid_def assms(5) [unfolded One_nat_def] assms(7))
  have sso: "GetSSOConfig False (xe_pg env') (GetOrgID r) db1 = Inl e"
    using assms(10) same(2) by (simp add: GetSSOConfig_def by_uuid_def assms(6,7))
  have "\<forall>x\<in>set (ac_MFA db). \<not> ms_UserID x = xe_newID env 1"
    by (rule not_referenced [OF _ fresh [unfolded users(2)]]) (use assms(8) in \<open>simp add: user_refs_def\<close>)
  then have mfa: "VerifyMFAForLogin False env' (xe_newID env 1) [] db1 = None"
    using find_none [of "ac_MFA db" "\<lambda>x. ms_UserID x = xe_newID env 1"]
    by (simp add: VerifyMFAForLogin_def GetMFASecret_def by_uuid_def assms(5) [unfolded One_nat_def] assms(7) same(1))
  have "\<exists>l db2. login_member env' no_faults r' \<lparr>lq_Email = email, lq_Password = invited_password, lq_MFACode = []\<rparr> ?u m db1 =
      (LoggedIn l, db2)"
    by (rule login_member_passes) (simp_all add: sso members(3) id mfa [unfolded One_nat_def] assms(11))
  then obtain l db2 where l: "login_member env' no_faults r' \<lparr>lq_Email = email, lq_Password = invited_password,
      lq_MFACode = []\<rparr> ?u m db1 = (LoggedIn l, db2)" by blast
  then have "Login env' no_faults r' (Some \<lparr>lq_Email = email, lq_Password = invited_password, lq_MFACode = []\<rparr>) db1 =
      (LoggedIn l, db2)"
    by (simp add: Login_def login_counted_def Let_def count maxFailedLoginAttempts_def user id assms(4) member [unfolded One_nat_def])
  moreover have "issued_for (xe_jwt env') (xe_now env') (xe_newID env 1) (GetOrgID r) (mr_Role resp) (lr_Tokens l)"
    using login_member_LoggedIn(1) [OF l] by (auto simp: issued_for_def token_pair_for_def id members(3,4))
  ultimately show ?thesis by blast
qed

definition inviter :: http_request where
  "inviter = demo_request RoleAdmin"

definition one_org :: account_db where
  "one_org = no_accounts\<lparr>ac_Orgs := [zero_org\<lparr>org_ID := ''o''\<rparr>]\<rparr>"

theorem invited_account_open_witness:
  "\<exists>c resp db1 l db2. Team_Invite (demo_auth 5) no_faults inviter (Some (''new'', RoleOwner)) one_org = (Answer c resp, db1) \<and>
     Login (demo_auth 6) no_faults inviter (Some \<lparr>lq_Email = ''new'', lq_Password = invited_password, lq_MFACode = []\<rparr>) db1 =
       (LoggedIn l, db2)"
proof -
  have org: "GetOrgID inviter = ''o''" by (simp add: inviter_def demo_request_def ctx_getters)
  have "\<exists>c resp db1. Team_Invite (demo_auth 5) no_faults inviter (Some (''new'', RoleOwner)) one_org = (Answer c resp, db1)"
    by (simp add: Team_Invite_def Let_def org invited_user_def GetUserByEmail_def lookup_row_def one_org_def no_accounts_def
        demo_auth_def member_roles_def CreateUser_def GetOrgMember_def by_uuid_def AddOrgMember_def zero_org_def)
  then obtain c resp db1 where i: "Team_Invite (demo_auth 5) no_faults inviter (Some (''new'', RoleOwner)) one_org = (Answer c resp, db1)"
    by blast
  have "\<exists>l db2. Login (demo_auth 6) no_faults inviter (Some \<lparr>lq_Email = ''new'', lq_Password = invited_password, lq_MFACode = []\<rparr>) db1 =
        (LoggedIn l, db2) \<and>
      issued_for (xe_jwt (demo_auth 6)) (xe_now (demo_auth 6)) (xe_newID (demo_auth 5) 1) (GetOrgID inviter) (mr_Role resp) (lr_Tokens l)"
    by (rule invited_account_open [OF i, of "CHR ''#'' # invited_password" _ ErrNotFound])
      (simp_all add: org one_org_def no_accounts_def demo_auth_def invited_password_def user_refs_def failures_of_def
        GetSSOConfig_def by_uuid_def demo_manager_def plain_lib_def)
  with i show ?thesis by blast
qed

end
