(* ===== verification/ApiKeys.thy ===== *)
theory ApiKeys
  imports FlagProps
begin

text \<open>
  API keys and what they open: \<open>server/internal/domain/apikey.go\<close>, the handlers of \<open>api/handlers/apikeys.go\<close>
  with their statements in \<open>store/postgres/store.go\<close>, and the evaluation handlers of \<open>api/handlers/eval.go\<close>, which
  find the environment by the key and the ruleset in the cache.  The keys are a list beside the tables of
  flags.  Metrics are left out.
\<close>

abbreviation "APIKeyServer \<equiv> ''server''"
abbreviation "APIKeyClient \<equiv> ''client''"

record api_key =
  ak_ID :: string
  ak_EnvID :: string
  ak_OrgID :: string
  ak_KeyHash :: string
  ak_KeyPrefix :: string
  ak_Name :: string
  ak_Type :: string
  ak_CreatedAt :: gotime
  ak_LastUsedAt :: "gotime option"
  ak_RevokedAt :: "gotime option"
  ak_ExpiresAt :: "gotime option"
  ak_GraceExpiresAt :: "gotime option"
  ak_RotatedFromID :: "string option"

type_synonym api_keys = "api_key list"

subsection \<open>Statements\<close>

text \<open>
  The row an insertion adds, if the constraints hold; the type is \<open>None\<close> if the statement names none, and
  the column has no default.
\<close>

definition api_key_row ::
    "pglib \<Rightarrow> flag_db \<Rightarrow> gotime \<Rightarrow> string \<Rightarrow> string option \<Rightarrow> api_key \<Rightarrow> api_keys \<Rightarrow> api_key option" where
  "api_key_row pg db now newID ty k keys =
     (case (pg_uuid pg (ak_EnvID k), pg_uuid pg (ak_OrgID k), ty) of
        (Some e, Some org, Some t) \<Rightarrow>
          (if e \<in> env_ID ` set (fdb_Envs db) \<and> org \<in> set (fdb_Orgs db) \<and> t \<in> {APIKeyServer, APIKeyClient} \<and>
              newID \<notin> ak_ID ` set keys
           then Some (k\<lparr>ak_ID := newID, ak_EnvID := e, ak_OrgID := org, ak_Type := t, ak_CreatedAt := now,
                  ak_LastUsedAt := None, ak_RevokedAt := None\<rparr>)
           else None)
      | _ \<Rightarrow> None)"

definition CreateAPIKey ::
    "bool \<Rightarrow> pglib \<Rightarrow> flag_db \<Rightarrow> gotime \<Rightarrow> string \<Rightarrow> api_key \<Rightarrow> api_keys \<Rightarrow> api_key result \<times> api_keys" where
  "CreateAPIKey fails pg db now newID k keys =
     (case api_key_row pg db now newID (Some (ak_Type k)) (k\<lparr>ak_GraceExpiresAt := None, ak_RotatedFromID := None\<rparr>) keys of
        None \<Rightarrow> (Inl ErrInternal, keys)
      | Some row \<Rightarrow>
          if fails then (Inl ErrInternal, keys)
          else (Inr (k\<lparr>ak_ID := newID, ak_CreatedAt := now\<rparr>), keys @ [row]))"

text \<open>The lookups select neither the end of the grace period nor the origin.\<close>

definition seen_key :: "api_key \<Rightarrow> api_key" where
  "seen_key k = k\<lparr>ak_GraceExpiresAt := None, ak_RotatedFromID := None\<rparr>"

definition GetAPIKeyByID :: "bool \<Rightarrow> pglib \<Rightarrow> string \<Rightarrow> api_keys \<Rightarrow> api_key result" where
  "GetAPIKeyByID fails pg i keys = by_uuid fails pg i (\<lambda>u. map_option seen_key (find (\<lambda>k. ak_ID k = u) keys))"

definition key_valid :: "gotime \<Rightarrow> api_key \<Rightarrow> bool" where
  "key_valid dbnow k \<longleftrightarrow> ak_RevokedAt k = None \<and> (case ak_ExpiresAt k of None \<Rightarrow> True | Some t \<Rightarrow> dbnow < t)"

definition GetAPIKeyByHash :: "bool \<Rightarrow> gotime \<Rightarrow> string \<Rightarrow> api_keys \<Rightarrow> api_key result" where
  "GetAPIKeyByHash fails dbnow h keys =
     (if fails then Inl ErrInternal
      else
        (case find (\<lambda>k. ak_KeyHash k = h \<and> key_valid dbnow k) keys of
           None \<Rightarrow> Inl ErrNotFound | Some k \<Rightarrow> Inr (seen_key k)))"

definition ListAPIKeys :: "bool \<Rightarrow> pglib \<Rightarrow> string \<Rightarrow> api_keys \<Rightarrow> api_keys result" where
  "ListAPIKeys fails pg envID keys =
     by_uuid fails pg envID (\<lambda>u. Some (map seen_key (sort_key ak_CreatedAt (filter (\<lambda>k. ak_EnvID k = u) keys))))"

definition update_key :: "string \<Rightarrow> (api_key \<Rightarrow> api_key) \<Rightarrow> api_keys \<Rightarrow> api_keys" where
  "update_key i f keys = map (\<lambda>k. if ak_ID k = i then f k else k) keys"

definition set_key :: "bool \<Rightarrow> pglib \<Rightarrow> string \<Rightarrow> (api_key \<Rightarrow> api_key) \<Rightarrow> api_keys \<Rightarrow> unit result \<times> api_keys" where
  "set_key fails pg i f keys =
     (case pg_uuid pg i of
        None \<Rightarrow> (Inl ErrInternal, keys)
      | Some u \<Rightarrow> if fails then (Inl ErrInternal, keys) else (Inr (), update_key u f keys))"

definition RevokeAPIKey :: "bool \<Rightarrow> pglib \<Rightarrow> gotime \<Rightarrow> string \<Rightarrow> api_keys \<Rightarrow> unit result \<times> api_keys" where
  "RevokeAPIKey fails pg dbnow i = set_key fails pg i (\<lambda>k. k\<lparr>ak_RevokedAt := Some dbnow\<rparr>)"

definition UpdateAPIKeyLastUsed :: "bool \<Rightarrow> pglib \<Rightarrow> gotime \<Rightarrow> string \<Rightarrow> api_keys \<Rightarrow> unit result \<times> api_keys" where
  "UpdateAPIKeyLastUsed fails pg dbnow i = set_key fails pg i (\<lambda>k. k\<lparr>ak_LastUsedAt := Some dbnow\<rparr>)"

text \<open>
  One transaction of begin, update, lookup, insertion and commit; a failure of any rolls back.  The
  insertion names no type.
\<close>

definition RotateAPIKey ::
    "faults \<Rightarrow> pglib \<Rightarrow> flag_db \<Rightarrow> gotime \<Rightarrow> gotime \<Rightarrow> string \<Rightarrow> string \<Rightarrow> string \<Rightarrow> string \<Rightarrow> string \<Rightarrow> string \<Rightarrow>
     duration \<Rightarrow> api_keys \<Rightarrow> api_key result \<times> api_keys" where
  "RotateAPIKey flt pg db now dbnow newID oldKeyID envID name newKeyHash newKeyPrefix gracePeriod keys =
     (if flt 0 then (Inl ErrInternal, keys)
      else
        (case set_key (flt 1) pg oldKeyID (\<lambda>k. k\<lparr>ak_GraceExpiresAt := Some (now + gracePeriod)\<rparr>) keys of
           (Inl e, _) \<Rightarrow> (Inl e, keys)
         | (Inr _, keys1) \<Rightarrow>
           (case GetAPIKeyByID (flt 2) pg oldKeyID keys1 of
              Inl e \<Rightarrow> (Inl e, keys)
            | Inr old \<Rightarrow>
              (let k = \<lparr>ak_ID = [], ak_EnvID = envID, ak_OrgID = ak_OrgID old, ak_KeyHash = newKeyHash,
                        ak_KeyPrefix = newKeyPrefix, ak_Name = name, ak_Type = [], ak_CreatedAt = 0,
                        ak_LastUsedAt = None, ak_RevokedAt = None, ak_ExpiresAt = None, ak_GraceExpiresAt = None,
                        ak_RotatedFromID = Some oldKeyID\<rparr>
               in case api_key_row pg db dbnow newID None k keys1 of
                    None \<Rightarrow> (Inl ErrInternal, keys)
                  | Some row \<Rightarrow>
                      if flt 3 \<or> flt 4 then (Inl ErrInternal, keys) else (Inr row, keys1 @ [row])))))"

definition CleanExpiredGracePeriodKeys :: "bool \<Rightarrow> gotime \<Rightarrow> api_keys \<Rightarrow> unit result \<times> api_keys" where
  "CleanExpiredGracePeriodKeys fails dbnow keys =
     (if fails then (Inl ErrInternal, keys)
      else (Inr (), map (\<lambda>k. if (case ak_GraceExpiresAt k of None \<Rightarrow> False | Some t \<Rightarrow> t < dbnow) \<and> ak_RevokedAt k = None
                             then k\<lparr>ak_RevokedAt := Some dbnow\<rparr> else k) keys))"

definition GetEnvironmentByAPIKeyHash ::
    "faults \<Rightarrow> pglib \<Rightarrow> gotime \<Rightarrow> string \<Rightarrow> flag_db \<Rightarrow> api_keys \<Rightarrow> (environment \<times> api_key) result" where
  "GetEnvironmentByAPIKeyHash flt pg dbnow h db keys =
     (case GetAPIKeyByHash (flt 0) dbnow h keys of
        Inl e \<Rightarrow> Inl e
      | Inr k \<Rightarrow>
        (case GetEnvironment (flt 1) pg (ak_EnvID k) db of
           Inl e \<Rightarrow> Inl e
         | Inr env \<Rightarrow> Inr (env, k)))"

subsection \<open>Handlers\<close>

text \<open>\<open>kl_hash\<close> is \<open>HashAPIKey\<close> under the pepper, \<open>kl_hex\<close> the 48 hexadecimal digits of the random bytes.\<close>

record key_lib =
  kl_hash :: "string \<Rightarrow> string"
  kl_hex :: string
  kl_json :: "(string \<times> string) list \<Rightarrow> string"

definition generateAPIKey :: "key_lib \<Rightarrow> string \<Rightarrow> string \<times> string \<times> string" where
  "generateAPIKey kl ty =
     (let rawKey = (if ty = APIKeyClient then ''fs_cli_'' else ''fs_srv_'') @ kl_hex kl
      in (rawKey, kl_hash kl rawKey, take 12 rawKey))"

definition key_entry ::
    "http_request \<Rightarrow> string \<Rightarrow> string \<Rightarrow> string \<Rightarrow> rawjson \<Rightarrow> audit_entry" where
  "key_entry r projectID action resourceID meta =
     zero_audit_entry\<lparr>au_OrgID := GetOrgID r, au_ProjectID := Some projectID, au_ActorID := Some (GetUserID r),
       au_ActorType := ''user'', au_Action := action, au_ResourceType := ''api_key'', au_ResourceID := Some resourceID,
       au_Metadata := meta\<rparr>"

definition APIKey_Create ::
    "api_env \<Rightarrow> key_lib \<Rightarrow> faults \<Rightarrow> http_request \<Rightarrow> (string \<times> string \<times> int option) option \<Rightarrow>
     flag_db \<times> api_keys \<Rightarrow> (api_key \<times> string) response \<times> flag_db \<times> api_keys" where
  "APIKey_Create env kl flt r body s =
     (let (db, keys) = s
      in case verifyEnvironmentOwnership flt (ae_pg env) r db of
           Inl (c, msg) \<Rightarrow> (Refuse c msg, s)
         | Inr e \<Rightarrow>
           (case body of
              None \<Rightarrow> (Refuse StatusBadRequest ''invalid request body'', s)
            | Some (name, ty, days) \<Rightarrow>
              (if name = [] then (Refuse StatusBadRequest ''name is required'', s)
               else
                 (let keyType = (if ty \<in> {APIKeyServer, APIKeyClient} then ty else APIKeyServer);
                      (rawKey, keyHash, keyPrefix) = generateAPIKey kl keyType;
                      expires = (case days of
                                   None \<Rightarrow> None
                                 | Some d \<Rightarrow> if 0 < d then Some (ae_now env + wrap64 (d * day)) else None)
                  in case CreateAPIKey (flt 2) (ae_pg env) db (ae_dbnow env) (ae_newID env 2)
                            \<lparr>ak_ID = [], ak_EnvID = env_ID e, ak_OrgID = GetOrgID r, ak_KeyHash = keyHash,
                             ak_KeyPrefix = keyPrefix, ak_Name = name, ak_Type = keyType, ak_CreatedAt = 0,
                             ak_LastUsedAt = None, ak_RevokedAt = None, ak_ExpiresAt = expires,
                             ak_GraceExpiresAt = None, ak_RotatedFromID = None\<rparr> keys of
                       (Inl err, keys1) \<Rightarrow> (Refuse StatusInternalServerError ''failed to create API key'', db, keys1)
                     | (Inr k, keys1) \<Rightarrow>
                         (Answer StatusCreated (k, rawKey),
                          write_audit env flt 3 (key_entry r (env_ProjectID e) ''api_key.created'' (ak_ID k)
                            (Some (kl_json kl [(''key_prefix'', keyPrefix), (''env_id'', env_ID e)]))) db, keys1)))))"

text \<open>The ownership check that \<open>Rotate\<close> and \<open>Revoke\<close> share, from the key to the organization.\<close>

definition owned_key ::
    "faults \<Rightarrow> pglib \<Rightarrow> http_request \<Rightarrow> flag_db \<Rightarrow> api_keys \<Rightarrow> (api_key \<times> environment) option" where
  "owned_key flt pg r db keys =
     (case GetAPIKeyByID (flt 0) pg (URLParam r ''keyID'') keys of
        Inl e \<Rightarrow> None
      | Inr k \<Rightarrow>
        (case GetEnvironment (flt 1) pg (ak_EnvID k) db of
           Inl e \<Rightarrow> None
         | Inr env \<Rightarrow>
           (case GetProject (flt 2) pg (env_ProjectID env) db of
              Inl e \<Rightarrow> None
            | Inr p \<Rightarrow> if prj_OrgID p \<noteq> GetOrgID r then None else Some (k, env))))"

definition APIKey_Rotate ::
    "api_env \<Rightarrow> key_lib \<Rightarrow> faults \<Rightarrow> http_request \<Rightarrow> (string \<times> int) option \<Rightarrow> flag_db \<times> api_keys \<Rightarrow>
     (api_key \<times> string) response \<times> flag_db \<times> api_keys" where
  "APIKey_Rotate env kl flt r body s =
     (let (db, keys) = s
      in case body of
           None \<Rightarrow> (Refuse StatusBadRequest ''invalid request body'', s)
         | Some (wanted, minutes) \<Rightarrow>
           (case owned_key flt (ae_pg env) r db keys of
              None \<Rightarrow> (Refuse StatusNotFound ''API key not found'', s)
            | Some (old, e) \<Rightarrow>
              (let name = (if wanted = [] then ak_Name old @ '' (rotated)'' else wanted);
                   grace = wrap64 (minutes * minute);
                   gracePeriod = (if grace = 0 then 24 * hour else grace);
                   (rawKey, keyHash, keyPrefix) = generateAPIKey kl (ak_Type old)
               in case RotateAPIKey (\<lambda>i. flt (3 + i)) (ae_pg env) db (ae_now env) (ae_dbnow env) (ae_newID env 3)
                         (URLParam r ''keyID'') (ak_EnvID old) name keyHash keyPrefix gracePeriod keys of
                    (Inl err, keys1) \<Rightarrow> (Refuse StatusInternalServerError ''failed to rotate key'', db, keys1)
                  | (Inr k, keys1) \<Rightarrow>
                      (Answer StatusCreated (k, rawKey),
                       write_audit env flt 8 ((key_entry r (env_ProjectID e) ''apikey.rotated'' (ak_ID k) None)
                         \<lparr>au_IPAddress := req_RemoteAddr r, au_UserAgent := req_Header r ''User-Agent''\<rparr>) db, keys1))))"

record api_key_response =
  akr_ID :: string
  akr_KeyPrefix :: string
  akr_Name :: string
  akr_Type :: string
  akr_CreatedAt :: gotime
  akr_LastUsedAt :: "gotime option"
  akr_ExpiresAt :: "gotime option"
  akr_RevokedAt :: "gotime option"

definition APIKeyFromDomain :: "api_key \<Rightarrow> api_key_response" where
  "APIKeyFromDomain k = \<lparr>akr_ID = ak_ID k, akr_KeyPrefix = ak_KeyPrefix k, akr_Name = ak_Name k, akr_Type = ak_Type k,
     akr_CreatedAt = ak_CreatedAt k, akr_LastUsedAt = ak_LastUsedAt k, akr_ExpiresAt = ak_ExpiresAt k,
     akr_RevokedAt = ak_RevokedAt k\<rparr>"

definition APIKey_List ::
    "api_env \<Rightarrow> faults \<Rightarrow> http_request \<Rightarrow> (string \<Rightarrow> string) \<Rightarrow> flag_db \<times> api_keys \<Rightarrow>
     api_key_response paginated_response response" where
  "APIKey_List env flt r query s =
     (case verifyEnvironmentOwnership flt (ae_pg env) r (fst s) of
        Inl (c, msg) \<Rightarrow> Refuse c msg
      | Inr e \<Rightarrow>
        (case ListAPIKeys (flt 2) (ae_pg env) (env_ID e) (snd s) of
           Inl err \<Rightarrow> Refuse StatusInternalServerError ''failed to list API keys''
         | Inr keys \<Rightarrow>
           (let p = ParsePagination query; (page, total) = Paginate (map APIKeyFromDomain keys) p
            in Answer StatusOK (NewPaginatedResponse page total (pp_Limit p) (pp_Offset p)))))"

definition APIKey_Revoke ::
    "api_env \<Rightarrow> key_lib \<Rightarrow> faults \<Rightarrow> http_request \<Rightarrow> flag_db \<times> api_keys \<Rightarrow> unit response \<times> flag_db \<times> api_keys" where
  "APIKey_Revoke env kl flt r s =
     (let (db, keys) = s
      in case owned_key flt (ae_pg env) r db keys of
           None \<Rightarrow> (Refuse StatusNotFound ''API key not found'', s)
         | Some (k, e) \<Rightarrow>
           (case RevokeAPIKey (flt 3) (ae_pg env) (ae_dbnow env) (URLParam r ''keyID'') keys of
              (Inl err, keys1) \<Rightarrow> (Refuse StatusInternalServerError ''failed to revoke API key'', db, keys1)
            | (Inr _, keys1) \<Rightarrow>
                (Answer StatusNoContent (),
                 write_audit env flt 4 (key_entry r (env_ProjectID e) ''api_key.revoked'' (URLParam r ''keyID'')
                   (Some (kl_json kl [(''key_prefix'', ak_KeyPrefix k)]))) db, keys1)))"

subsection \<open>Evaluation over HTTP\<close>

text \<open>
  \<open>getRulesetFromAPIKey\<close>: every failure is answered alike.  The last use of the key is recorded by a
  goroutine, which is not part of the answer.
\<close>

definition getRulesetFromAPIKey ::
    "api_env \<Rightarrow> key_lib \<Rightarrow> faults \<Rightarrow> http_request \<Rightarrow> flag_db \<times> api_keys \<Rightarrow> cache \<Rightarrow>
     (ruleset \<times> string) option \<times> cache" where
  "getRulesetFromAPIKey env kl flt r s c =
     (let apiKey = req_Header r ''X-API-Key''
      in if apiKey = [] then (None, c)
         else
           (case GetEnvironmentByAPIKeyHash flt (ae_pg env) (ae_dbnow env) (kl_hash kl apiKey) (fst s) (snd s) of
              Inl e \<Rightarrow> (None, c)
            | Inr (e, k) \<Rightarrow>
              (case GetRuleset c (env_ID e) of
                 Some rs \<Rightarrow> (Some (rs, env_ID e), c)
               | None \<Rightarrow>
                 (case Cache_LoadRuleset (\<lambda>i. flt (2 + i)) (ae_pg env) (env_ProjectID e) (env_ID e) (fst s) c of
                    (Inl err, cc) \<Rightarrow> (None, cc)
                  | (Inr rs, cc) \<Rightarrow> (Some (rs, env_ID e), cc)))))"

definition Eval_Evaluate ::
    "api_env \<Rightarrow> key_lib \<Rightarrow> faults \<Rightarrow> http_request \<Rightarrow> (string \<times> eval_context) option \<Rightarrow> flag_db \<times> api_keys \<Rightarrow> cache \<Rightarrow>
     eval_result response \<times> cache" where
  "Eval_Evaluate env kl flt r body s c =
     (case body of
        None \<Rightarrow> (Refuse StatusBadRequest ''invalid request body'', c)
      | Some (flagKey, ctx) \<Rightarrow>
        (if flagKey = [] \<or> ctx_Key ctx = []
         then (Refuse StatusBadRequest ''flag_key and context.key are required'', c)
         else
           (case getRulesetFromAPIKey env kl flt r s c of
              (None, cc) \<Rightarrow> (Refuse StatusUnauthorized ''unauthorized'', cc)
            | (Some (rs, envID), cc) \<Rightarrow> (Answer StatusOK (Evaluate (ae_lib env) (ae_now env) flagKey ctx rs), cc))))"

text \<open>The answer is a map: of the results for a key that occurs twice the last one stays.\<close>

definition Eval_BulkEvaluate ::
    "api_env \<Rightarrow> key_lib \<Rightarrow> faults \<Rightarrow> http_request \<Rightarrow> (string list \<times> eval_context) option \<Rightarrow> flag_db \<times> api_keys \<Rightarrow>
     cache \<Rightarrow> (string \<rightharpoonup> eval_result) response \<times> cache" where
  "Eval_BulkEvaluate env kl flt r body s c =
     (case body of
        None \<Rightarrow> (Refuse StatusBadRequest ''invalid request body'', c)
      | Some (flagKeys, ctx) \<Rightarrow>
        (if ctx_Key ctx = [] then (Refuse StatusBadRequest ''context.key is required'', c)
         else if 100 < length flagKeys
         then (Refuse StatusBadRequest ''flag_keys must contain at most 100 items'', c)
         else
           (case getRulesetFromAPIKey env kl flt r s c of
              (None, cc) \<Rightarrow> (Refuse StatusUnauthorized ''unauthorized'', cc)
            | (Some (rs, envID), cc) \<Rightarrow>
                (Answer StatusOK (foldl (\<lambda>m key. m(key \<mapsto> Evaluate (ae_lib env) (ae_now env) key ctx rs))
                   Map.empty flagKeys), cc))))"

text \<open>The number of calls before the check of the path depends on a cache miss; \<open>slugFails\<close> is the fault of that read.\<close>

definition Eval_ClientFlags ::
    "api_env \<Rightarrow> key_lib \<Rightarrow> faults \<Rightarrow> bool \<Rightarrow> http_request \<Rightarrow> (string \<Rightarrow> string) \<Rightarrow> flag_db \<times> api_keys \<Rightarrow> cache \<Rightarrow>
     (string, json) gomap response \<times> cache" where
  "Eval_ClientFlags env kl flt slugFails r query s c =
     (case getRulesetFromAPIKey env kl flt r s c of
        (None, cc) \<Rightarrow> (Refuse StatusUnauthorized ''unauthorized'', cc)
      | (Some (rs, envID), cc) \<Rightarrow>
        (let envKey = URLParam r ''envKey''
         in if envKey \<noteq> [] \<and>
               (case GetEnvironment slugFails (ae_pg env) envID (fst s) of Inl e \<Rightarrow> False | Inr e \<Rightarrow> env_Slug e \<noteq> envKey)
            then (Refuse StatusForbidden (''API key does not belong to environment '' @ envKey), cc)
            else
              (let key = (if query ''key'' = [] then ''anonymous'' else query ''key'')
               in (Answer StatusOK (map (\<lambda>(k, res). (k, res_Value res)) (EvaluateAll (ae_lib env) (ae_now env)
                     \<lparr>ctx_Key = key, ctx_Attributes = Map.empty\<rparr> rs)), cc))))"

text \<open>The environment a stream is opened for.\<close>

definition Eval_Stream ::
    "api_env \<Rightarrow> key_lib \<Rightarrow> faults \<Rightarrow> http_request \<Rightarrow> (string \<Rightarrow> string) \<Rightarrow> flag_db \<times> api_keys \<Rightarrow> string response" where
  "Eval_Stream env kl flt r query s =
     (let envKey = URLParam r ''envKey'';
          apiKey = (if req_Header r ''X-API-Key'' = [] then query ''api_key'' else req_Header r ''X-API-Key'')
      in if envKey = [] then Refuse StatusBadRequest ''environment key required''
         else if apiKey = [] then Refuse StatusUnauthorized ''API key required''
         else
           (case GetEnvironmentByAPIKeyHash flt (ae_pg env) (ae_dbnow env) (kl_hash kl apiKey) (fst s) (snd s) of
              Inl e \<Rightarrow> Refuse StatusUnauthorized ''invalid API key''
            | Inr (e, k) \<Rightarrow>
                if env_Slug e \<noteq> envKey
                then Refuse StatusForbidden (''API key does not belong to environment '' @ envKey)
                else Answer StatusOK (env_ID e)))"

subsection \<open>Laws\<close>

lemma RotateAPIKey_fails:
  "\<exists>e. RotateAPIKey flt pg db now dbnow i old envID name h p grace keys = (Inl e, keys)"
proof -
  have none: "api_key_row pg db dbnow i None k ks = None" for k ks
    by (simp add: api_key_row_def split: option.split)
  show ?thesis
    by (auto simp: RotateAPIKey_def none Let_def split: sum.split prod.split)
qed

text \<open>
  A key cannot be rotated.  The statement of the rotation gives the new key no type, which the column
  requires, so whatever the tables, the request and the faults, a rotation is refused and changes nothing.
\<close>

theorem rotation_never_succeeds:
  "\<exists>c msg. APIKey_Rotate env kl flt r body s = (Refuse c msg, s)"
proof (cases body)
  case None
  obtain db keys where "s = (db, keys)" by (cases s)
  with None show ?thesis by (simp add: APIKey_Rotate_def)
next
  case (Some wish)
  obtain db keys where s: "s = (db, keys)" by (cases s)
  obtain wanted minutes where wish: "wish = (wanted, minutes)" by (cases wish)
  show ?thesis
  proof (cases "owned_key flt (ae_pg env) r db keys")
    case None
    then show ?thesis by (simp add: APIKey_Rotate_def s Some wish)
  next
    case owned: (Some ke)
    obtain old e where ke: "ke = (old, e)" by (cases ke)
    obtain rawKey keyHash keyPrefix where gen: "generateAPIKey kl (ak_Type old) = (rawKey, keyHash, keyPrefix)"
      by (metis prod_cases3)
    define name where "name = (if wanted = [] then ak_Name old @ '' (rotated)'' else wanted)"
    define grace where "grace = (if wrap64 (minutes * minute) = 0 then 24 * hour else wrap64 (minutes * minute))"
    obtain err where "RotateAPIKey (\<lambda>i. flt (3 + i)) (ae_pg env) db (ae_now env) (ae_dbnow env) (ae_newID env 3)
        (URLParam r ''keyID'') (ak_EnvID old) name keyHash keyPrefix grace keys = (Inl err, keys)"
      using RotateAPIKey_fails by blast
    then show ?thesis
      unfolding APIKey_Rotate_def Let_def s Some wish name_def grace_def by (simp add: owned ke gen)
  qed
qed

text \<open>
  What can happen to the keys: the handlers, on whatever tables of flags there are at the time, the
  goroutine that records a use, and the hourly job.  The random bytes of a new key do not hit the hash \<open>h\<close>.
\<close>

inductive key_step :: "string \<Rightarrow> api_keys \<Rightarrow> api_keys \<Rightarrow> bool" for h where
  create: "(\<And>ty. fst (snd (generateAPIKey kl ty)) \<noteq> h) \<Longrightarrow>
     APIKey_Create env kl flt r body (db, keys) = (a, db', keys') \<Longrightarrow> key_step h keys keys'"
| rotate: "APIKey_Rotate env kl flt r body (db, keys) = (a, db', keys') \<Longrightarrow> key_step h keys keys'"
| revoke: "APIKey_Revoke env kl flt r (db, keys) = (a, db', keys') \<Longrightarrow> key_step h keys keys'"
| used: "UpdateAPIKeyLastUsed fails pg dbnow i keys = (a, keys') \<Longrightarrow> key_step h keys keys'"
| clean: "CleanExpiredGracePeriodKeys fails dbnow keys = (a, keys') \<Longrightarrow> key_step h keys keys'"

definition hash_closed :: "string \<Rightarrow> api_keys \<Rightarrow> bool" where
  "hash_closed h keys \<longleftrightarrow> (\<forall>k\<in>set keys. ak_KeyHash k = h \<longrightarrow> ak_RevokedAt k \<noteq> None)"

lemma hash_closed_map:
  assumes "hash_closed h keys" "\<And>k. ak_KeyHash (f k) = ak_KeyHash k" "\<And>k. ak_RevokedAt k \<noteq> None \<Longrightarrow> ak_RevokedAt (f k) \<noteq> None"
  shows "hash_closed h (map f keys)"
  using assms by (auto simp: hash_closed_def)

lemma set_key_closed:
  assumes "hash_closed h keys" "set_key fails pg i f keys = (a, keys')"
    and "\<And>k. ak_KeyHash (f k) = ak_KeyHash k" "\<And>k. ak_RevokedAt k \<noteq> None \<Longrightarrow> ak_RevokedAt (f k) \<noteq> None"
  shows "hash_closed h keys'"
proof -
  have "hash_closed h (update_key u f keys)" for u
    unfolding update_key_def by (rule hash_closed_map [OF assms(1)]) (use assms(3,4) in auto)
  with assms(1,2) show ?thesis
    by (auto simp: set_key_def split: option.splits if_splits)
qed

lemma CreateAPIKey_keys:
  assumes "CreateAPIKey fails pg db now i k keys = (a, keys')"
  shows "keys' = keys \<or> (\<exists>row. keys' = keys @ [row] \<and> ak_KeyHash row = ak_KeyHash k)"
  using assms
  by (auto simp: CreateAPIKey_def api_key_row_def split: option.splits if_splits)

lemma APIKey_Create_keys:
  assumes "APIKey_Create env kl flt r body (db, keys) = (a, db', keys')"
  shows "keys' = keys \<or> (\<exists>row ty. keys' = keys @ [row] \<and> ak_KeyHash row = fst (snd (generateAPIKey kl ty)))"
proof (cases "keys' = keys")
  case False
  then obtain e name ty days where ok: "verifyEnvironmentOwnership flt (ae_pg env) r db = Inr e"
      "body = Some (name, ty, days)" "name \<noteq> []"
    using assms by (auto simp: APIKey_Create_def split: sum.splits option.splits if_splits)
  define kt where "kt = (if ty \<in> {APIKeyServer, APIKeyClient} then ty else APIKeyServer)"
  obtain raw hash pre where gen: "generateAPIKey kl kt = (raw, hash, pre)" by (metis prod_cases3)
  define k where "k = \<lparr>ak_ID = [], ak_EnvID = env_ID e, ak_OrgID = GetOrgID r, ak_KeyHash = hash,
    ak_KeyPrefix = pre, ak_Name = name, ak_Type = kt, ak_CreatedAt = 0, ak_LastUsedAt = None, ak_RevokedAt = None,
    ak_ExpiresAt = (case days of None \<Rightarrow> None | Some d \<Rightarrow> if 0 < d then Some (ae_now env + wrap64 (d * day)) else None),
    ak_GraceExpiresAt = None, ak_RotatedFromID = None\<rparr>"
  obtain res ks where made: "CreateAPIKey (flt 2) (ae_pg env) db (ae_dbnow env) (ae_newID env 2) k keys = (res, ks)"
    by fastforce
  have "keys' = ks"
    using assms ok(3) unfolding APIKey_Create_def Let_def prod.case ok(1,2) sum.case option.case kt_def [symmetric] gen
      k_def [symmetric] made
    by (cases res) auto
  with CreateAPIKey_keys [OF made] have "keys' = keys \<or> (\<exists>row. keys' = keys @ [row] \<and> ak_KeyHash row = hash)"
    by (simp add: k_def)
  with gen show ?thesis by (metis fst_conv snd_conv)
qed simp

lemma APIKey_Revoke_keys:
  assumes "APIKey_Revoke env kl flt r (db, keys) = (a, db', keys')"
  shows "keys' = keys \<or> (\<exists>a'. RevokeAPIKey (flt 3) (ae_pg env) (ae_dbnow env) (URLParam r ''keyID'') keys = (a', keys'))"
  using assms by (auto simp: APIKey_Revoke_def split: option.splits prod.splits sum.splits)

lemma key_step_closed:
  assumes "key_step h keys keys'" "hash_closed h keys"
  shows "hash_closed h keys'"
  using assms(1)
proof cases
  case (create kl env flt r body db a db')
  from APIKey_Create_keys [OF create(2)] show ?thesis
  proof
    assume "keys' = keys"
    with assms(2) show ?thesis by simp
  next
    assume "\<exists>row ty. keys' = keys @ [row] \<and> ak_KeyHash row = fst (snd (generateAPIKey kl ty))"
    then obtain row ty where row: "keys' = keys @ [row]" "ak_KeyHash row = fst (snd (generateAPIKey kl ty))" by blast
    have "ak_KeyHash row \<noteq> h" unfolding row(2) by (rule create(1))
    with assms(2) show ?thesis by (simp add: hash_closed_def row(1))
  qed
next
  case (rotate env kl flt r body db a db')
  from rotation_never_succeeds [of env kl flt r body "(db, keys)"] rotate assms(2) show ?thesis by auto
next
  case (revoke env kl flt r db a db')
  from APIKey_Revoke_keys [OF this] show ?thesis
  proof
    assume "\<exists>a'. RevokeAPIKey (flt 3) (ae_pg env) (ae_dbnow env) (URLParam r ''keyID'') keys = (a', keys')"
    then obtain a' where "RevokeAPIKey (flt 3) (ae_pg env) (ae_dbnow env) (URLParam r ''keyID'') keys = (a', keys')" ..
    then show ?thesis unfolding RevokeAPIKey_def by (rule set_key_closed [OF assms(2)]) simp_all
  qed (use assms(2) in simp)
next
  case (used fails pg dbnow i a)
  then show ?thesis unfolding UpdateAPIKeyLastUsed_def by (rule set_key_closed [OF assms(2)]) simp_all
next
  case (clean fails dbnow a)
  have "hash_closed h (map (\<lambda>k. if (case ak_GraceExpiresAt k of None \<Rightarrow> False | Some t \<Rightarrow> t < dbnow) \<and> ak_RevokedAt k = None
      then k\<lparr>ak_RevokedAt := Some dbnow\<rparr> else k) keys)"
    by (rule hash_closed_map [OF assms(2)]) simp_all
  with clean assms(2) show ?thesis by (auto simp: CleanExpiredGracePeriodKeys_def split: if_splits)
qed

lemma closed_key_refused:
  assumes "hash_closed (kl_hash kl (req_Header r ''X-API-Key'')) keys"
  shows "getRulesetFromAPIKey env kl flt r (db, keys) c = (None, c)"
proof -
  have "find (\<lambda>k. ak_KeyHash k = h \<and> key_valid t k) keys = None" if "hash_closed h keys" for h t
    using that by (auto simp: find_None_iff hash_closed_def key_valid_def)
  from this [OF assms] show ?thesis
    by (simp add: getRulesetFromAPIKey_def Let_def GetEnvironmentByAPIKeyHash_def GetAPIKeyByHash_def)
qed

text \<open>
  C28: a revoked key opens nothing, for good.  After a revocation that was answered with success, no sequence
  of calls of the key handlers, recorded uses and hourly jobs, on whatever tables of flags and with any
  faults, brings the key back: a request that presents it is never evaluated and leaves the cache alone, at
  any time.  That the key is the only one with its hash, and that no later key draws the same one, is
  assumed.
\<close>

theorem revoked_key_closed:
  assumes "APIKey_Revoke env kl flt r (db, keys) = (Answer n u, db', keys')"
    and "k \<in> set keys" "pg_uuid (ae_pg env) (URLParam r ''keyID'') = Some (ak_ID k)" "ak_KeyHash k = h"
    and "\<forall>k'\<in>set keys. ak_KeyHash k' = h \<longrightarrow> ak_ID k' = ak_ID k"
    and "(key_step h)\<^sup>*\<^sup>* keys' keys''" "kl_hash kl' (req_Header r' ''X-API-Key'') = h"
  shows "\<exists>c msg. Eval_Evaluate env' kl' flt' r' body (db'', keys'') ch = (Refuse c msg, ch)"
proof -
  have "RevokeAPIKey (flt 3) (ae_pg env) (ae_dbnow env) (URLParam r ''keyID'') keys = (Inr (), keys')"
    using assms(1) by (auto simp: APIKey_Revoke_def split: option.splits prod.splits sum.splits)
  then have keys': "keys' = update_key (ak_ID k) (\<lambda>k. k\<lparr>ak_RevokedAt := Some (ae_dbnow env)\<rparr>) keys"
    by (auto simp: RevokeAPIKey_def set_key_def assms(3) split: if_splits)
  have "hash_closed h keys'"
    using assms(5) by (auto simp: keys' update_key_def hash_closed_def)
  with assms(6) have closed: "hash_closed h keys''"
    by (induction rule: rtranclp_induct) (auto intro: key_step_closed)
  show ?thesis
    using closed_key_refused [of kl' r' keys'' env' flt' db'' ch] closed assms(7)
    by (auto simp: Eval_Evaluate_def split: option.split prod.split)
qed

definition demo_keylib :: key_lib where
  "demo_keylib = \<lparr>kl_hash = (\<lambda>s. CHR ''#'' # s), kl_hex = ''00'', kl_json = (\<lambda>m. [])\<rparr>"

definition demo_key :: api_key where
  "demo_key = \<lparr>ak_ID = ''k'', ak_EnvID = ''e'', ak_OrgID = ''o'', ak_KeyHash = ''#fs_srv_1'', ak_KeyPrefix = ''fs_srv_1'',
     ak_Name = ''n'', ak_Type = APIKeyServer, ak_CreatedAt = 0, ak_LastUsedAt = None, ak_RevokedAt = None,
     ak_ExpiresAt = None, ak_GraceExpiresAt = None, ak_RotatedFromID = None\<rparr>"

definition key_call :: http_request where
  "key_call = (demo_request RoleOwner)\<lparr>req_URLParams := [(''keyID'', ''k'')], req_Header := (\<lambda>h. ''fs_srv_1'')\<rparr>"

theorem revoked_key_closed_witness:
  "\<exists>u db' keys'. APIKey_Revoke demo_env demo_keylib (\<lambda>n. False) key_call (demo_db, [demo_key]) = (Answer StatusNoContent u, db', keys') \<and>
     (\<exists>c msg. Eval_Evaluate demo_env demo_keylib (\<lambda>n. False) key_call (Some (''k'', \<lparr>ctx_Key = ''u'', ctx_Attributes = Map.empty\<rparr>)) (db', keys') Map.empty = (Refuse c msg, Map.empty))"
proof -
  have "\<exists>u db' keys'. APIKey_Revoke demo_env demo_keylib (\<lambda>n. False) key_call (demo_db, [demo_key]) =
      (Answer StatusNoContent u, db', keys')"
    by (simp add: APIKey_Revoke_def Let_def owned_key_def GetAPIKeyByID_def by_uuid_def key_call_def URLParam_def
        demo_key_def seen_key_def GetEnvironment_def GetProject_def RevokeAPIKey_def set_key_def ctx_getters demo_defs)
  then obtain u db' keys' where r: "APIKey_Revoke demo_env demo_keylib (\<lambda>n. False) key_call (demo_db, [demo_key]) =
      (Answer StatusNoContent u, db', keys')" by blast
  have "\<exists>c msg. Eval_Evaluate demo_env demo_keylib (\<lambda>n. False) key_call (Some (''k'', \<lparr>ctx_Key = ''u'', ctx_Attributes = Map.empty\<rparr>)) (db', keys') Map.empty = (Refuse c msg, Map.empty)"
    by (rule revoked_key_closed [OF r, of demo_key]) (simp_all add: key_call_def URLParam_def demo_key_def demo_keylib_def demo_defs)
  with r show ?thesis by blast
qed

end
