(* ===== verification/OrgLifecycle.thy ===== *)
theory OrgLifecycle
  imports AccountLaws ApiKeys Schedules
begin

text \<open>
  The life of an organization: the hourly jobs of \<open>server/internal/scheduler/scheduler.go\<close> with the
  statements on subscriptions in \<open>store/postgres/store.go\<close>.  Each job reads a list and then writes row by row;
  a statement that fails is logged and the job goes on.  The jobs run one after the other, under no lock.
  The dunning mails are left out, and \<open>AddDate\<close> with days is a parameter.
\<close>

subsection \<open>Subscriptions\<close>

record subscription =
  sb_ID :: string
  sb_OrgID :: string
  sb_GatewayProvider :: string
  sb_PayUTxnID :: string
  sb_PayUMihpayID :: string
  sb_StripeCustomerID :: string
  sb_StripeSubscriptionID :: string
  sb_StripePaymentIntentID :: string
  sb_Plan :: string
  sb_Status :: string
  sb_CurrentPeriodStart :: gotime
  sb_CurrentPeriodEnd :: gotime
  sb_CancelAtPeriodEnd :: bool
  sb_CreatedAt :: gotime
  sb_UpdatedAt :: gotime

abbreviation "GatewayPayU \<equiv> ''payu''"
abbreviation "GatewayStripe \<equiv> ''stripe''"

text \<open>The tables the jobs work on; \<open>ls_Janitor\<close> are the organizations with rows in tables of the code janitor.\<close>

record life_state =
  ls_Acc :: account_db
  ls_Subs :: "subscription list"
  ls_Keys :: api_keys
  ls_Janitor :: "string list"

definition GetSubscription :: "bool \<Rightarrow> pglib \<Rightarrow> string \<Rightarrow> subscription list \<Rightarrow> subscription result" where
  "GetSubscription fails pg orgID subs = by_uuid fails pg orgID (\<lambda>u. find (\<lambda>s. sb_OrgID s = u) subs)"

text \<open>\<open>COALESCE(NULLIF(new, ''), old)\<close>, and the case on the zero time.\<close>

definition or_old :: "string \<Rightarrow> string \<Rightarrow> string" where
  "or_old new old = (if new = [] then old else new)"

definition time_or_old :: "gotime \<Rightarrow> gotime \<Rightarrow> gotime" where
  "time_or_old new old = (if new = 0 then old else new)"

definition merge_subscription :: "gotime \<Rightarrow> subscription \<Rightarrow> subscription \<Rightarrow> subscription" where
  "merge_subscription now new old =
     old\<lparr>sb_GatewayProvider := or_old (sb_GatewayProvider new) (sb_GatewayProvider old),
       sb_PayUTxnID := or_old (sb_PayUTxnID new) (sb_PayUTxnID old),
       sb_PayUMihpayID := or_old (sb_PayUMihpayID new) (sb_PayUMihpayID old),
       sb_StripeCustomerID := or_old (sb_StripeCustomerID new) (sb_StripeCustomerID old),
       sb_StripeSubscriptionID := or_old (sb_StripeSubscriptionID new) (sb_StripeSubscriptionID old),
       sb_StripePaymentIntentID := or_old (sb_StripePaymentIntentID new) (sb_StripePaymentIntentID old),
       sb_Plan := or_old (sb_Plan new) (sb_Plan old), sb_Status := or_old (sb_Status new) (sb_Status old),
       sb_CurrentPeriodStart := time_or_old (sb_CurrentPeriodStart new) (sb_CurrentPeriodStart old),
       sb_CurrentPeriodEnd := time_or_old (sb_CurrentPeriodEnd new) (sb_CurrentPeriodEnd old),
       sb_CancelAtPeriodEnd := sb_CancelAtPeriodEnd new, sb_UpdatedAt := now\<rparr>"

definition UpsertSubscription ::
    "bool \<Rightarrow> pglib \<Rightarrow> gotime \<Rightarrow> string \<Rightarrow> subscription \<Rightarrow> life_state \<Rightarrow> unit result \<times> life_state" where
  "UpsertSubscription fails pg now newID sub s =
     (let sub = (if sb_GatewayProvider sub = [] then sub\<lparr>sb_GatewayProvider := GatewayPayU\<rparr> else sub)
      in case pg_uuid pg (sb_OrgID sub) of
           None \<Rightarrow> (Inl ErrInternal, s)
         | Some org \<Rightarrow>
           (if fails \<or> org \<notin> org_ID ` set (ac_Orgs (ls_Acc s)) then (Inl ErrInternal, s)
            else if org \<in> sb_OrgID ` set (ls_Subs s)
            then (Inr (), s\<lparr>ls_Subs := map (\<lambda>x. if sb_OrgID x = org then merge_subscription now sub x else x) (ls_Subs s)\<rparr>)
            else (Inr (), s\<lparr>ls_Subs := ls_Subs s @ [sub\<lparr>sb_ID := newID, sb_OrgID := org, sb_CreatedAt := now,
                    sb_UpdatedAt := now\<rparr>]\<rparr>)))"

definition ListPastDueSubscriptions :: "bool \<Rightarrow> gotime \<Rightarrow> subscription list \<Rightarrow> subscription list result" where
  "ListPastDueSubscriptions fails before subs =
     lookup_row fails (Some (filter (\<lambda>s. sb_Status s = ''past_due'' \<and> sb_UpdatedAt s < before) subs))"

text \<open>
  \<open>DELETE FROM organizations\<close> cascades, except to the tables of the janitor, whose rows make it fail.
\<close>

definition HardDeleteOrganization :: "bool \<Rightarrow> pglib \<Rightarrow> string \<Rightarrow> life_state \<Rightarrow> unit result \<times> life_state" where
  "HardDeleteOrganization fails pg i s =
     (case pg_uuid pg i of
        None \<Rightarrow> (Inl ErrInternal, s)
      | Some u \<Rightarrow>
        (if fails \<or> u \<in> set (ls_Janitor s) then (Inl ErrInternal, s)
         else
           (let acc = ls_Acc s; ms = map om_ID (filter (\<lambda>m. om_OrgID m = u) (ac_Members acc))
            in (Inr (), s\<lparr>ls_Acc := acc\<lparr>ac_Orgs := filter (\<lambda>x. org_ID x \<noteq> u) (ac_Orgs acc),
                   ac_Members := filter (\<lambda>m. om_OrgID m \<noteq> u) (ac_Members acc),
                   ac_Perms := filter (\<lambda>p. er_MemberID p \<notin> set ms) (ac_Perms acc),
                   ac_Magic := filter (\<lambda>t. mk_OrgID t \<noteq> u) (ac_Magic acc),
                   ac_OneTime := filter (\<lambda>t. ot_OrgID t \<noteq> u) (ac_OneTime acc),
                   ac_Revocations := filter (\<lambda>t. rv_OrgID t \<noteq> u) (ac_Revocations acc),
                   ac_SSO := filter (\<lambda>c. so_OrgID c \<noteq> u) (ac_SSO acc),
                   ac_Onboarded := filter (\<lambda>x. x \<noteq> u) (ac_Onboarded acc),
                   ac_Audit := filter (\<lambda>e. au_OrgID e \<noteq> u) (ac_Audit acc)\<rparr>,
                 ls_Subs := filter (\<lambda>x. sb_OrgID x \<noteq> u) (ls_Subs s),
                 ls_Keys := filter (\<lambda>k. ak_OrgID k \<noteq> u) (ls_Keys s)\<rparr>))))"

subsection \<open>The hourly jobs\<close>

abbreviation "SoftDeleteInactiveDays \<equiv> 90 :: int"
abbreviation "HardDeleteGraceDays \<equiv> 90 :: int"
abbreviation "DunningGraceDays \<equiv> 14 :: int"

text \<open>
  \<open>je_days t n\<close> is \<open>t.AddDate(0, 0, -n)\<close>: the same clock time \<open>n\<close> days earlier, which daylight saving can move.
  Each job takes its own faults and reads the clock itself.
\<close>

record job_env =
  je_pg :: pglib
  je_plans :: "string \<rightharpoonup> plan_limits"
  je_now :: gotime
  je_dbnow :: gotime
  je_days :: "gotime \<Rightarrow> int \<Rightarrow> gotime"
  je_newID :: "nat \<Rightarrow> string"
  je_auditDays :: int

definition on_acc :: "(account_db \<Rightarrow> 'r \<times> account_db) \<Rightarrow> life_state \<Rightarrow> life_state" where
  "on_acc f s = s\<lparr>ls_Acc := snd (f (ls_Acc s))\<rparr>"

fun for_each :: "(nat \<Rightarrow> 'a \<Rightarrow> 's \<Rightarrow> 's) \<Rightarrow> nat \<Rightarrow> 'a list \<Rightarrow> 's \<Rightarrow> 's" where
  "for_each f n [] s = s"
| "for_each f n (x # xs) s = for_each f (Suc n) xs (f n x s)"

definition trial_step :: "job_env \<Rightarrow> faults \<Rightarrow> nat \<Rightarrow> org_row \<Rightarrow> life_state \<Rightarrow> life_state" where
  "trial_step je flt n x s =
     (if (case org_TrialExpiresAt x of None \<Rightarrow> False | Some t \<Rightarrow> t < je_now je)
      then on_acc (DowngradeOrgToFree (flt n) (je_pg je) (je_plans je) (je_dbnow je) (org_ID x)) s
      else s)"

definition autoDowngradeExpiredTrials :: "job_env \<Rightarrow> faults \<Rightarrow> life_state \<Rightarrow> life_state" where
  "autoDowngradeExpiredTrials je flt s =
     (case ListInactiveOrgs (flt 0) PlanTrial (je_days je (je_now je) TrialDurationDays) (ls_Acc s) of
        Inl e \<Rightarrow> s
      | Inr orgs \<Rightarrow> for_each (trial_step je flt) 1 orgs s)"

text \<open>Two statements for each subscription, the second only after the first succeeded.\<close>

definition dunning_step :: "job_env \<Rightarrow> faults \<Rightarrow> nat \<Rightarrow> subscription \<Rightarrow> life_state \<Rightarrow> life_state" where
  "dunning_step je flt n sub s =
     (case DowngradeOrgToFree (flt (2 * n - 1)) (je_pg je) (je_plans je) (je_dbnow je) (sb_OrgID sub) (ls_Acc s) of
        (Inl e, acc) \<Rightarrow> s\<lparr>ls_Acc := acc\<rparr>
      | (Inr _, acc) \<Rightarrow>
          snd (UpsertSubscription (flt (2 * n)) (je_pg je) (je_dbnow je) (je_newID je n)
            (sub\<lparr>sb_Status := ''canceled'', sb_CancelAtPeriodEnd := False, sb_UpdatedAt := je_now je\<rparr>)
            (s\<lparr>ls_Acc := acc\<rparr>)))"

definition downgradePastDueSubscriptions :: "job_env \<Rightarrow> faults \<Rightarrow> life_state \<Rightarrow> life_state" where
  "downgradePastDueSubscriptions je flt s =
     (case ListPastDueSubscriptions (flt 0) (je_days je (je_now je) DunningGraceDays) (ls_Subs s) of
        Inl e \<Rightarrow> s
      | Inr subs \<Rightarrow> for_each (dunning_step je flt) 1 subs s)"

definition softDeleteInactiveOrgs :: "job_env \<Rightarrow> faults \<Rightarrow> life_state \<Rightarrow> life_state" where
  "softDeleteInactiveOrgs je flt s =
     (case ListInactiveOrgs (flt 0) PlanFree (je_days je (je_now je) SoftDeleteInactiveDays) (ls_Acc s) of
        Inl e \<Rightarrow> s
      | Inr orgs \<Rightarrow>
          for_each (\<lambda>n x. on_acc (SoftDeleteOrganization (flt n) (je_pg je) (je_dbnow je) (org_ID x))) 1 orgs s)"

definition hardDeleteExpiredOrgs :: "job_env \<Rightarrow> faults \<Rightarrow> life_state \<Rightarrow> life_state" where
  "hardDeleteExpiredOrgs je flt s =
     (case ListSoftDeletedOrgs (flt 0) (je_days je (je_now je) HardDeleteGraceDays) (ls_Acc s) of
        Inl e \<Rightarrow> s
      | Inr orgs \<Rightarrow> for_each (\<lambda>n x s. snd (HardDeleteOrganization (flt n) (je_pg je) (org_ID x) s)) 1 orgs s)"

definition cleanupPendingRegistrations :: "job_env \<Rightarrow> faults \<Rightarrow> life_state \<Rightarrow> life_state" where
  "cleanupPendingRegistrations je flt = on_acc (DeleteExpiredPendingRegistrations (flt 0) (je_now je))"

definition cleanExpiredRevocations :: "job_env \<Rightarrow> faults \<Rightarrow> life_state \<Rightarrow> life_state" where
  "cleanExpiredRevocations je flt = on_acc (CleanExpiredRevocations (flt 0) (je_dbnow je))"

definition cleanExpiredGracePeriodKeys :: "job_env \<Rightarrow> faults \<Rightarrow> life_state \<Rightarrow> life_state" where
  "cleanExpiredGracePeriodKeys je flt s =
     s\<lparr>ls_Keys := snd (CleanExpiredGracePeriodKeys (flt 0) (je_dbnow je) (ls_Keys s))\<rparr>"

definition purgeOldAuditEntries :: "job_env \<Rightarrow> faults \<Rightarrow> life_state \<Rightarrow> life_state" where
  "purgeOldAuditEntries je flt =
     on_acc (\<lambda>acc. ((), acc\<lparr>ac_Audit := snd (PurgeAuditEntries (flt 0) (je_days je (je_now je) (je_auditDays je)) (ac_Audit acc))\<rparr>))"

text \<open>The jobs of an hour, each with its clock and its faults.\<close>

definition hourly :: "(nat \<Rightarrow> job_env) \<Rightarrow> (nat \<Rightarrow> faults) \<Rightarrow> life_state \<Rightarrow> life_state" where
  "hourly je flt s =
     purgeOldAuditEntries (je 7) (flt 7) (cleanExpiredGracePeriodKeys (je 6) (flt 6) (cleanExpiredRevocations (je 5) (flt 5)
       (hardDeleteExpiredOrgs (je 4) (flt 4) (softDeleteInactiveOrgs (je 3) (flt 3) (downgradePastDueSubscriptions (je 2) (flt 2)
         (autoDowngradeExpiredTrials (je 1) (flt 1) (cleanupPendingRegistrations (je 0) (flt 0) s)))))))"

subsection \<open>What the jobs leave alone\<close>

lemma for_each_inv:
  "P s \<Longrightarrow> (\<And>n x s. x \<in> set xs \<Longrightarrow> P s \<Longrightarrow> P (f n x s)) \<Longrightarrow> P (for_each f n xs s)"
  by (induction f n xs s rule: for_each.induct) auto

abbreviation orgs_of :: "life_state \<Rightarrow> org_row list" where
  "orgs_of s \<equiv> ac_Orgs (ls_Acc s)"

definition rows_of :: "string \<Rightarrow> account_db \<Rightarrow> org_row list" where
  "rows_of i acc = filter (\<lambda>x. org_ID x = i) (ac_Orgs acc)"

text \<open>Who is a member of what and has logged in when.\<close>

definition same_people :: "account_db \<Rightarrow> account_db \<Rightarrow> bool" where
  "same_people a b \<longleftrightarrow> ac_Users b = ac_Users a \<and> ac_Members b = ac_Members a"

lemma same_people_refl [simp]: "same_people a a"
  by (simp add: same_people_def)

lemma logged_in_same: "same_people a b \<Longrightarrow> logged_in_after t i b = logged_in_after t i a"
  by (simp add: same_people_def logged_in_after_def)

lemma update_orgs_people [simp]: "same_people a (update_orgs P f a)"
  by (simp add: same_people_def update_orgs_def)

lemma org_writes_people [simp]:
  "same_people a (snd (DowngradeOrgToFree fl pg plans now i a))"
  "same_people a (snd (SoftDeleteOrganization fl pg now i a))"
  by (auto simp: DowngradeOrgToFree_def SoftDeleteOrganization_def exec_uuid_def exec_def Let_def split: option.split)

lemma rows_update:
  assumes "\<And>x. org_ID (f x) = org_ID x"
  shows "rows_of i (update_orgs P f a) = map (\<lambda>x. if P x then f x else x) (rows_of i a)"
proof -
  have "filter (\<lambda>x. org_ID x = i) (map (\<lambda>x. if P x then f x else x) xs) =
      map (\<lambda>x. if P x then f x else x) (filter (\<lambda>x. org_ID x = i) xs)" for xs
    using assms by (induction xs) auto
  then show ?thesis by (simp add: rows_of_def update_orgs_def)
qed

text \<open>A write to another row.\<close>

lemma rows_other [simp]:
  assumes "pg_uuid pg j \<noteq> Some i"
  shows "rows_of i (snd (DowngradeOrgToFree fl pg plans now j a)) = rows_of i a"
    and "rows_of i (snd (SoftDeleteOrganization fl pg now j a)) = rows_of i a"
proof -
  have "map (\<lambda>x. if org_ID x = u \<and> Q x then f x else x) (rows_of i a) = rows_of i a" if "u \<noteq> i" for u Q f
    using that by (intro map_idI) (auto simp: rows_of_def)
  note keep = this [of _ "\<lambda>x. True", simplified] this
  show "rows_of i (snd (DowngradeOrgToFree fl pg plans now j a)) = rows_of i a"
    "rows_of i (snd (SoftDeleteOrganization fl pg now j a)) = rows_of i a"
    using assms
    by (auto simp: DowngradeOrgToFree_def SoftDeleteOrganization_def exec_uuid_def exec_def Let_def rows_update keep
        split: option.split)
qed

definition undeleted :: "string \<Rightarrow> account_db \<Rightarrow> bool" where
  "undeleted i acc \<longleftrightarrow> rows_of i acc \<noteq> [] \<and> (\<forall>x\<in>set (rows_of i acc). org_DeletedAt x = None)"

lemma undeleted_update:
  assumes "\<And>x. org_ID (f x) = org_ID x" "\<And>x. org_DeletedAt (f x) = org_DeletedAt x"
  shows "undeleted i (update_orgs P f a) = undeleted i a"
proof -
  have "org_DeletedAt (if P x then f x else x) = org_DeletedAt x" for x using assms(2) by simp
  then show ?thesis
    unfolding undeleted_def rows_update [of f, OF assms(1)] by (simp only: map_is_Nil_conv set_map ball_simps)
qed

lemma undeleted_downgrade [simp]:
  "undeleted i (snd (DowngradeOrgToFree fl pg plans now j a)) = undeleted i a"
  by (simp add: DowngradeOrgToFree_def exec_uuid_def exec_def Let_def undeleted_update split: option.split)

lemma undeleted_soft_delete:
  "pg_uuid pg j \<noteq> Some i \<Longrightarrow> undeleted i (snd (SoftDeleteOrganization fl pg now j a)) = undeleted i a"
  by (simp add: undeleted_def)

lemma undeleted_cong: "ac_Orgs b = ac_Orgs a \<Longrightarrow> undeleted i b = undeleted i a"
  by (simp add: undeleted_def rows_of_def)

lemma hard_delete_other:
  "pg_uuid pg j \<noteq> Some i \<Longrightarrow> rows_of i (ls_Acc (snd (HardDeleteOrganization fl pg j s))) = rows_of i (ls_Acc s)"
  by (auto simp: HardDeleteOrganization_def rows_of_def Let_def filter_id_conv conj_commute split: option.split intro!: filter_cong)

lemma UpsertSubscription_acc [simp]: "ls_Acc (snd (UpsertSubscription fl pg now i sub s)) = ls_Acc s"
  by (simp add: UpsertSubscription_def Let_def split: option.split)

text \<open>Identifiers are stored in canonical form.\<close>

definition canonical_ids :: "pglib \<Rightarrow> account_db \<Rightarrow> bool" where
  "canonical_ids pg acc \<longleftrightarrow> (\<forall>x\<in>set (ac_Orgs acc). pg_uuid pg (org_ID x) = Some (org_ID x))"

text \<open>What the two downgrading jobs keep: who is who, which rows there are, and what is deleted.\<close>

definition keeps_orgs :: "life_state \<Rightarrow> life_state \<Rightarrow> bool" where
  "keeps_orgs s s' \<longleftrightarrow> same_people (ls_Acc s) (ls_Acc s') \<and>
     map (\<lambda>x. (org_ID x, org_DeletedAt x)) (orgs_of s') = map (\<lambda>x. (org_ID x, org_DeletedAt x)) (orgs_of s)"

lemma keeps_orgs_refl: "keeps_orgs s s"
  by (simp add: keeps_orgs_def)

lemma keeps_orgs_trans: "keeps_orgs s t \<Longrightarrow> keeps_orgs t u \<Longrightarrow> keeps_orgs s u"
  by (simp add: keeps_orgs_def same_people_def)

lemma keeps_orgs_downgrade:
  "keeps_orgs s (s\<lparr>ls_Acc := snd (DowngradeOrgToFree fl pg plans now j (ls_Acc s))\<rparr>)"
  by (auto simp: keeps_orgs_def DowngradeOrgToFree_def exec_uuid_def exec_def Let_def update_orgs_def same_people_def
      split: option.split)

lemma keeps_orgs_cong: "ls_Acc s' = ls_Acc s \<Longrightarrow> keeps_orgs s s'"
  by (simp add: keeps_orgs_def)

lemma trial_step_keeps: "keeps_orgs s (trial_step je flt n x s)"
  by (simp add: trial_step_def on_acc_def keeps_orgs_refl keeps_orgs_downgrade)

lemma dunning_step_keeps: "keeps_orgs s (dunning_step je flt n sub s)"
proof -
  obtain r acc where d: "DowngradeOrgToFree (flt (2 * n - 1)) (je_pg je) (je_plans je) (je_dbnow je) (sb_OrgID sub)
      (ls_Acc s) = (r, acc)" by fastforce
  have down: "keeps_orgs s (s\<lparr>ls_Acc := acc\<rparr>)"
    using keeps_orgs_downgrade [of s "flt (2 * n - 1)" "je_pg je" "je_plans je" "je_dbnow je" "sb_OrgID sub"] d by simp
  show ?thesis
  proof (cases r)
    case (Inl e)
    then show ?thesis using down by (simp add: dunning_step_def d [unfolded One_nat_def])
  next
    case (Inr u)
    have "keeps_orgs (s\<lparr>ls_Acc := acc\<rparr>) (dunning_step je flt n sub s)"
      by (rule keeps_orgs_cong) (simp add: dunning_step_def d [unfolded One_nat_def] Inr)
    with down show ?thesis by (rule keeps_orgs_trans)
  qed
qed

lemma for_each_keeps: "(\<And>n x s. keeps_orgs s (f n x s)) \<Longrightarrow> keeps_orgs s (for_each f n xs s)"
  by (rule for_each_inv [where P = "keeps_orgs s"]) (auto intro: keeps_orgs_refl keeps_orgs_trans)

lemma autoDowngrade_keeps: "keeps_orgs s (autoDowngradeExpiredTrials je flt s)"
  unfolding autoDowngradeExpiredTrials_def
  by (cases "ListInactiveOrgs (flt 0) PlanTrial (je_days je (je_now je) TrialDurationDays) (ls_Acc s)")
    (simp_all only: sum.case keeps_orgs_refl for_each_keeps [OF trial_step_keeps])

lemma pastDue_keeps: "keeps_orgs s (downgradePastDueSubscriptions je flt s)"
  unfolding downgradePastDueSubscriptions_def
  by (cases "ListPastDueSubscriptions (flt 0) (je_days je (je_now je) DunningGraceDays) (ls_Subs s)")
    (simp_all only: sum.case keeps_orgs_refl for_each_keeps [OF dunning_step_keeps])

lemma cleanup_keeps: "keeps_orgs s (cleanupPendingRegistrations je flt s)"
  by (simp add: cleanupPendingRegistrations_def on_acc_def DeleteExpiredPendingRegistrations_def exec_def keeps_orgs_def
      same_people_def)

lemma late_jobs_keep:
  "keeps_orgs s (cleanExpiredRevocations je flt s)" "keeps_orgs s (cleanExpiredGracePeriodKeys je flt s)"
  "keeps_orgs s (purgeOldAuditEntries je flt s)"
  by (simp_all add: cleanExpiredRevocations_def on_acc_def CleanExpiredRevocations_def exec_def keeps_orgs_def
      same_people_def cleanExpiredGracePeriodKeys_def purgeOldAuditEntries_def)

text \<open>The state before the two deleting jobs, and after them.\<close>

definition before_deletes :: "(nat \<Rightarrow> job_env) \<Rightarrow> (nat \<Rightarrow> faults) \<Rightarrow> life_state \<Rightarrow> life_state" where
  "before_deletes je flt s = downgradePastDueSubscriptions (je 2) (flt 2) (autoDowngradeExpiredTrials (je 1) (flt 1)
     (cleanupPendingRegistrations (je 0) (flt 0) s))"

definition after_deletes :: "(nat \<Rightarrow> job_env) \<Rightarrow> (nat \<Rightarrow> faults) \<Rightarrow> life_state \<Rightarrow> life_state" where
  "after_deletes je flt s = hardDeleteExpiredOrgs (je 4) (flt 4) (softDeleteInactiveOrgs (je 3) (flt 3) s)"

lemma hourly_parts:
  "keeps_orgs s (before_deletes je flt s)"
  "keeps_orgs (after_deletes je flt (before_deletes je flt s)) (hourly je flt s)"
proof -
  show "keeps_orgs s (before_deletes je flt s)"
    unfolding before_deletes_def by (rule keeps_orgs_trans [OF keeps_orgs_trans [OF cleanup_keeps autoDowngrade_keeps] pastDue_keeps])
  show "keeps_orgs (after_deletes je flt (before_deletes je flt s)) (hourly je flt s)"
    unfolding after_deletes_def before_deletes_def hourly_def
    by (rule keeps_orgs_trans [OF keeps_orgs_trans [OF late_jobs_keep(1) late_jobs_keep(2)] late_jobs_keep(3)])
qed


subsection \<open>Identifiers and deletion times through the pass\<close>

definition deletions :: "life_state \<Rightarrow> (string \<times> gotime option) list" where
  "deletions s = map (\<lambda>x. (org_ID x, org_DeletedAt x)) (orgs_of s)"

definition org_ids :: "life_state \<Rightarrow> string set" where
  "org_ids s = org_ID ` set (orgs_of s)"

lemma deletions_mem: "x \<in> set (orgs_of s) \<Longrightarrow> (org_ID x, org_DeletedAt x) \<in> set (deletions s)"
  by (auto simp: deletions_def)

lemma deletionsE:
  assumes "(i, d) \<in> set (deletions s)"
  obtains x where "x \<in> set (orgs_of s)" "org_ID x = i" "org_DeletedAt x = d"
  using assms by (auto simp: deletions_def)

lemma org_ids_deletions: "org_ids s = fst ` set (deletions s)"
  by (simp add: org_ids_def deletions_def image_image)

lemma keeps_orgs_deletions: "keeps_orgs s s' \<Longrightarrow> deletions s' = deletions s"
  by (simp add: keeps_orgs_def deletions_def)

lemma undeleted_deletions:
  "undeleted i (ls_Acc s) \<longleftrightarrow> i \<in> fst ` set (deletions s) \<and> (\<forall>d. (i, d) \<in> set (deletions s) \<longrightarrow> d = None)"
proof -
  have "rows_of i (ls_Acc s) \<noteq> [] \<longleftrightarrow> i \<in> org_ids s" by (auto simp: rows_of_def org_ids_def filter_empty_conv)
  moreover have "(\<forall>x\<in>set (rows_of i (ls_Acc s)). org_DeletedAt x = None) \<longleftrightarrow> (\<forall>d. (i, d) \<in> set (deletions s) \<longrightarrow> d = None)"
    by (auto simp: rows_of_def deletions_def)
  ultimately show ?thesis by (simp add: undeleted_def org_ids_deletions)
qed

lemma canonical_deletions:
  "canonical_ids pg (ls_Acc s) \<longleftrightarrow> (\<forall>i\<in>org_ids s. pg_uuid pg i = Some i)"
  by (simp add: canonical_ids_def org_ids_def)

text \<open>The job that marks: identifiers stay, and a deletion time is the old one or the time of the job.\<close>

definition marks_only :: "gotime \<Rightarrow> life_state \<Rightarrow> life_state \<Rightarrow> bool" where
  "marks_only now s s' \<longleftrightarrow> same_people (ls_Acc s) (ls_Acc s') \<and> org_ids s' = org_ids s \<and>
     set (deletions s') \<subseteq> set (deletions s) \<union> UNIV \<times> {Some now}"

lemma marks_only_refl: "marks_only now s s"
  by (auto simp: marks_only_def)

lemma marks_only_trans: "marks_only now s t \<Longrightarrow> marks_only now t u \<Longrightarrow> marks_only now s u"
  unfolding marks_only_def same_people_def by auto

lemma soft_delete_marks: "marks_only now s (on_acc (SoftDeleteOrganization fl pg now j) s)"
proof (cases "pg_uuid pg j")
  case None
  then show ?thesis by (simp add: on_acc_def SoftDeleteOrganization_def exec_uuid_def marks_only_refl)
next
  case (Some u)
  have "marks_only now s (on_acc (\<lambda>a. ((), update_orgs P (\<lambda>x. x\<lparr>org_DeletedAt := Some now, or_UpdatedAt := now\<rparr>) a)) s)" for P
  proof -
    let ?f = "\<lambda>x. if P x then x\<lparr>org_DeletedAt := Some now, or_UpdatedAt := now\<rparr> else x"
    have "org_ID (?f x) = org_ID x" "org_DeletedAt (?f x) = Some now \<or> org_DeletedAt (?f x) = org_DeletedAt x" for x :: org_row
      by simp_all
    note f = this
    have "org_ID ` ?f ` A = org_ID ` A" for A by (simp only: image_image f)
    moreover have "(\<lambda>x. (org_ID x, org_DeletedAt x)) ` ?f ` A \<subseteq> (\<lambda>x. (org_ID x, org_DeletedAt x)) ` A \<union> UNIV \<times> {Some now}" for A
      using f by fastforce
    ultimately show ?thesis
      by (simp only: marks_only_def on_acc_def org_ids_def deletions_def update_orgs_def set_map same_people_def life_state.simps account_db.simps)
        simp
  qed
  with Some show ?thesis
    by (auto simp: on_acc_def SoftDeleteOrganization_def exec_uuid_def exec_def marks_only_refl)
qed

lemma softDelete_marks: "marks_only (je_dbnow je) s (softDeleteInactiveOrgs je flt s)"
  unfolding softDeleteInactiveOrgs_def
  by (cases "ListInactiveOrgs (flt 0) PlanFree (je_days je (je_now je) SoftDeleteInactiveDays) (ls_Acc s)")
    (auto intro: marks_only_refl for_each_inv [where P = "marks_only (je_dbnow je) s"] marks_only_trans soft_delete_marks)

text \<open>The job that removes: an organization that goes was on the list.\<close>

lemma hard_delete_ids:
  assumes "i \<in> org_ids s" and "pg_uuid pg j \<noteq> Some i"
  shows "i \<in> org_ids (snd (HardDeleteOrganization fl pg j s))"
  using assms by (auto simp: HardDeleteOrganization_def Let_def org_ids_def split: option.split)

lemma hardDelete_ids:
  assumes canon: "canonical_ids (je_pg je) (ls_Acc s)" and i: "i \<in> org_ids s"
    and gone: "i \<notin> org_ids (hardDeleteExpiredOrgs je flt s)"
  obtains t where "(i, Some t) \<in> set (deletions s)" "t < je_days je (je_now je) HardDeleteGraceDays"
proof (cases "ListSoftDeletedOrgs (flt 0) (je_days je (je_now je) HardDeleteGraceDays) (ls_Acc s)")
  case (Inl e)
  with i gone show ?thesis by (simp add: hardDeleteExpiredOrgs_def)
next
  case (Inr orgs)
  let ?f = "\<lambda>n x s. snd (HardDeleteOrganization (flt n) (je_pg je) (org_ID x) s)"
  have listed: "i \<in> org_ID ` set orgs"
  proof (rule ccontr)
    assume not: "i \<notin> org_ID ` set orgs"
    have ids: "org_ID ` set orgs \<subseteq> org_ids s"
      using Inr by (auto simp: ListSoftDeletedOrgs_def org_ids_def split: if_splits)
    have "i \<in> org_ids (for_each ?f 1 orgs s)"
    proof (rule for_each_inv [where P = "\<lambda>s. i \<in> org_ids s"])
      fix n x t assume "x \<in> set orgs" "i \<in> org_ids t"
      moreover have "pg_uuid (je_pg je) (org_ID x) \<noteq> Some i"
        using canon ids not \<open>x \<in> set orgs\<close> by (force simp: canonical_deletions)
      ultimately show "i \<in> org_ids (?f n x t)" by (intro hard_delete_ids)
    qed (rule i)
    with gone Inr show False by (simp add: hardDeleteExpiredOrgs_def)
  qed
  then obtain x where x: "x \<in> set orgs" "i = org_ID x" by auto
  with Inr obtain t where "x \<in> set (orgs_of s)" "org_DeletedAt x = Some t" "t < je_days je (je_now je) HardDeleteGraceDays"
    by (auto simp: ListSoftDeletedOrgs_def split: if_splits option.splits)
  with x(2) show ?thesis using that deletions_mem by fastforce
qed


text \<open>What the two deleting jobs and the job that ends trials spare.\<close>

lemma softDelete_spares:
  assumes "undeleted i (ls_Acc s)"
    and active: "logged_in_after (je_days je (je_now je) SoftDeleteInactiveDays) i (ls_Acc s)"
    and canon: "canonical_ids (je_pg je) (ls_Acc s)"
  shows "undeleted i (ls_Acc (softDeleteInactiveOrgs je flt s))"
proof (cases "ListInactiveOrgs (flt 0) PlanFree (je_days je (je_now je) SoftDeleteInactiveDays) (ls_Acc s)")
  case (Inl e)
  with assms(1) show ?thesis by (simp add: softDeleteInactiveOrgs_def)
next
  case (Inr orgs)
  have other: "pg_uuid (je_pg je) (org_ID x) \<noteq> Some i" if "x \<in> set orgs" for x
    using that Inr active canon by (auto simp: ListInactiveOrgs_def canonical_ids_def split: if_splits)
  have "undeleted i (ls_Acc (for_each (\<lambda>n x. on_acc (SoftDeleteOrganization (flt n) (je_pg je) (je_dbnow je) (org_ID x)))
      1 orgs s))"
    using assms(1)
    by (rule for_each_inv [where P = "\<lambda>s. undeleted i (ls_Acc s)"]) (simp add: on_acc_def undeleted_soft_delete other)
  with Inr show ?thesis by (simp add: softDeleteInactiveOrgs_def)
qed

lemma hardDelete_spares:
  assumes "undeleted i (ls_Acc s)" and canon: "canonical_ids (je_pg je) (ls_Acc s)"
  shows "undeleted i (ls_Acc (hardDeleteExpiredOrgs je flt s))"
proof (cases "ListSoftDeletedOrgs (flt 0) (je_days je (je_now je) HardDeleteGraceDays) (ls_Acc s)")
  case (Inl e)
  with assms(1) show ?thesis by (simp add: hardDeleteExpiredOrgs_def)
next
  case (Inr orgs)
  have other: "pg_uuid (je_pg je) (org_ID x) \<noteq> Some i" if "x \<in> set orgs" for x
    using that Inr assms by (auto simp: ListSoftDeletedOrgs_def canonical_ids_def undeleted_def rows_of_def
        split: if_splits option.splits)
  have "rows_of i (ls_Acc (for_each (\<lambda>n x s. snd (HardDeleteOrganization (flt n) (je_pg je) (org_ID x) s)) 1 orgs s))
      = rows_of i (ls_Acc s)"
    by (rule for_each_inv [where P = "\<lambda>t. rows_of i (ls_Acc t) = rows_of i (ls_Acc s)"])
      (simp_all add: hard_delete_other other)
  with Inr assms(1) show ?thesis by (simp add: hardDeleteExpiredOrgs_def undeleted_def)
qed

lemma trial_job_spares:
  assumes active: "logged_in_after (je_days je (je_now je) TrialDurationDays) i (ls_Acc s)"
    and canon: "canonical_ids (je_pg je) (ls_Acc s)"
  shows "rows_of i (ls_Acc (autoDowngradeExpiredTrials je flt s)) = rows_of i (ls_Acc s)"
proof (cases "ListInactiveOrgs (flt 0) PlanTrial (je_days je (je_now je) TrialDurationDays) (ls_Acc s)")
  case (Inl e)
  then show ?thesis by (simp add: autoDowngradeExpiredTrials_def)
next
  case (Inr orgs)
  have other: "pg_uuid (je_pg je) (org_ID x) \<noteq> Some i" if "x \<in> set orgs" for x
    using that Inr active canon by (auto simp: ListInactiveOrgs_def canonical_ids_def split: if_splits)
  have "rows_of i (ls_Acc (for_each (trial_step je flt) 1 orgs s)) = rows_of i (ls_Acc s)"
    by (rule for_each_inv [where P = "\<lambda>t. rows_of i (ls_Acc t) = rows_of i (ls_Acc s)"])
      (simp_all add: trial_step_def on_acc_def other)
  with Inr show ?thesis by (simp add: autoDowngradeExpiredTrials_def)
qed

text \<open>\<open>GetOrganization\<close> leaves the two times empty.\<close>

lemma GetOrganization_times:
  assumes "GetOrganization fl pg i db = Inr x"
  shows "org_DeletedAt x = None" "org_TrialExpiresAt x = None"
  using assms by (auto simp: GetOrganization_def by_uuid_def split: if_splits option.splits)

lemma TrialExpiry_inert:
  "TrialExpiry now (GetOrganization fl pg) downgrade r db = (Next r, db)"
  by (auto simp: TrialExpiry_def Let_def GetOrganization_times split: sum.split)

lemma account_writes_orgs [simp]:
  "ac_Orgs (snd (RecordLoginAttempt fl now e ip ok db)) = ac_Orgs db"
  "ac_Orgs (snd (UpdateLastLoginAt fl pg now i db)) = ac_Orgs db"
  by (auto simp: RecordLoginAttempt_def UpdateLastLoginAt_def exec_uuid_def exec_def update_users_def split: option.split)

lemma failed_login_orgs: "ac_Orgs (snd (failed_login env flt n r e db)) = ac_Orgs db"
  by (simp add: failed_login_def Let_def)

lemma auth_audit_orgs [simp]: "ac_Orgs (auth_audit env flt n r o1 a act rt ri b af db) = ac_Orgs db"
  by (simp add: auth_audit_def Let_def)

lemma login_member_orgs: "ac_Orgs (snd (login_member env flt r req user member db)) = ac_Orgs db"
proof -
  have keep: "(case GetOrganization fl pg i db of Inl e \<Rightarrow> db
      | Inr o1 \<Rightarrow> if org_DeletedAt o1 \<noteq> None then snd (RestoreOrganization f2 pg now i db) else db) = db" for fl pg i f2 now
    by (simp add: GetOrganization_times split: sum.split)
  show ?thesis
    unfolding login_member_def Let_def keep by (simp split: option.split mfa_error.split if_split)
qed

lemma Login_orgs: "ac_Orgs (snd (Login env flt r body db)) = ac_Orgs db"
  by (auto simp: Login_def login_counted_def Let_def failed_login_orgs login_member_orgs split: option.split sum.split)

subsection \<open>An hourly pass\<close>

lemma before_deletes_keeps: "canonical_ids pg (ls_Acc (before_deletes je flt s)) = canonical_ids pg (ls_Acc s)"
  using keeps_orgs_deletions [OF hourly_parts(1)] by (simp add: canonical_deletions org_ids_deletions)

text \<open>
  C30: An organization whose row an hourly pass removes was soft-deleted before the pass, longer ago than the
  grace time of the deleting job; the pass never soft-deletes and removes an organization at once, whatever
  statements fail in it.
\<close>

theorem hard_delete_after_grace:
  assumes "canonical_ids (je_pg (je 4)) (ls_Acc s)"
    and "je_days (je 4) (je_now (je 4)) HardDeleteGraceDays \<le> je_dbnow (je 3)"
    and "i \<in> org_ID ` set (ac_Orgs (ls_Acc s))"
    and "i \<notin> org_ID ` set (ac_Orgs (ls_Acc (hourly je flt s)))"
  shows "\<exists>x\<in>set (ac_Orgs (ls_Acc s)). \<exists>t. org_ID x = i \<and> org_DeletedAt x = Some t \<and>
           t < je_days (je 4) (je_now (je 4)) HardDeleteGraceDays"
proof -
  let ?s1 = "before_deletes je flt s"
  let ?s2 = "softDeleteInactiveOrgs (je 3) (flt 3) ?s1"
  have d1: "deletions ?s1 = deletions s" by (rule keeps_orgs_deletions [OF hourly_parts(1)])
  have m: "marks_only (je_dbnow (je 3)) ?s1 ?s2" by (rule softDelete_marks)
  then have ids: "org_ids ?s2 = org_ids s" by (simp add: marks_only_def org_ids_deletions d1)
  have last: "org_ids (hourly je flt s) = org_ids (after_deletes je flt ?s1)"
    using keeps_orgs_deletions [OF hourly_parts(2)] by (simp add: org_ids_deletions)
  have "i \<in> org_ids ?s2" unfolding ids using assms(3) by (simp add: org_ids_def)
  moreover have "canonical_ids (je_pg (je 4)) (ls_Acc ?s2)"
    using assms(1) by (simp add: canonical_deletions ids)
  moreover have "i \<notin> org_ids (hardDeleteExpiredOrgs (je 4) (flt 4) ?s2)"
    using assms(4) last by (simp add: after_deletes_def) (simp add: org_ids_def)
  ultimately obtain t where t: "(i, Some t) \<in> set (deletions ?s2)" "t < je_days (je 4) (je_now (je 4)) HardDeleteGraceDays"
    by (elim hardDelete_ids)
  moreover have "t \<noteq> je_dbnow (je 3)" using t(2) assms(2) by simp
  ultimately have "(i, Some t) \<in> set (deletions s)" using m d1 by (auto simp: marks_only_def)
  with t(2) show ?thesis by (elim deletionsE) blast
qed

text \<open>An hour over two organizations: one marked long ago, one a member of which has just logged in.\<close>

lemma day_pos [simp]: "0 < day" "0 \<le> day"
  by (simp_all add: day_def hour_def minute_def second_def)

definition demo_job :: job_env where
  "demo_job = \<lparr>je_pg = xe_pg (demo_auth 0), je_plans = Map.empty, je_now = 300 * day, je_dbnow = 300 * day,
     je_days = (\<lambda>t n. t - n * day), je_newID = (\<lambda>n. replicate n CHR ''s''), je_auditDays = 90\<rparr>"

definition demo_hour :: life_state where
  "demo_hour = \<lparr>ls_Acc = no_accounts\<lparr>
       ac_Orgs := [zero_org\<lparr>org_ID := ''a'', org_Plan := PlanFree, org_DeletedAt := Some day\<rparr>,
         zero_org\<lparr>org_ID := ''b'', org_Plan := PlanFree\<rparr>],
       ac_Users := [demo_user\<lparr>us_LastLoginAt := Some (299 * day)\<rparr>],
       ac_Members := [\<lparr>om_ID = ''m'', om_OrgID = ''b'', om_UserID = ''u'', om_Role = RoleAdmin, om_CreatedAt = 0\<rparr>]\<rparr>,
     ls_Subs = [], ls_Keys = [], ls_Janitor = []\<rparr>"

lemma demo_hour_canonical: "canonical_ids (je_pg demo_job) (ls_Acc demo_hour)"
  by (simp add: canonical_ids_def demo_hour_def demo_job_def demo_auth_def zero_org_def)

theorem hard_delete_after_grace_witness:
  "\<exists>x\<in>set (ac_Orgs (ls_Acc demo_hour)). \<exists>t. org_ID x = ''a'' \<and> org_DeletedAt x = Some t \<and>
     t < je_days demo_job (je_now demo_job) HardDeleteGraceDays"
proof (rule hard_delete_after_grace [of "\<lambda>n. demo_job" demo_hour "''a''" "\<lambda>n. no_faults", OF demo_hour_canonical])
  show "je_days demo_job (je_now demo_job) HardDeleteGraceDays \<le> je_dbnow demo_job"
    by (simp add: demo_job_def)
  show "''a'' \<in> org_ID ` set (ac_Orgs (ls_Acc demo_hour))"
    by (simp add: demo_hour_def zero_org_def)
  show "''a'' \<notin> org_ID ` set (ac_Orgs (ls_Acc (hourly (\<lambda>n. demo_job) (\<lambda>n. no_faults) demo_hour)))"
    by code_simp
qed

text \<open>
  C29: An organization a member of which has logged in within the last ninety days is still stored and not marked
  as deleted after an hourly pass, whatever statements fail in it.
\<close>

theorem active_org_survives:
  assumes "undeleted i (ls_Acc s)"
    and "logged_in_after (je_days (je 3) (je_now (je 3)) SoftDeleteInactiveDays) i (ls_Acc s)"
    and "canonical_ids (je_pg (je 3)) (ls_Acc s)" and "canonical_ids (je_pg (je 4)) (ls_Acc s)"
  shows "undeleted i (ls_Acc (hourly je flt s))"
proof -
  let ?s1 = "before_deletes je flt s"
  have "undeleted i (ls_Acc ?s1)"
    using assms(1) keeps_orgs_deletions [OF hourly_parts(1)] by (simp add: undeleted_deletions)
  moreover have "logged_in_after (je_days (je 3) (je_now (je 3)) SoftDeleteInactiveDays) i (ls_Acc ?s1)"
    using assms(2) logged_in_same hourly_parts(1) unfolding keeps_orgs_def by blast
  ultimately have "undeleted i (ls_Acc (softDeleteInactiveOrgs (je 3) (flt 3) ?s1))"
    using assms(3) by (intro softDelete_spares) (simp_all add: before_deletes_keeps)
  moreover have "canonical_ids (je_pg (je 4)) (ls_Acc (softDeleteInactiveOrgs (je 3) (flt 3) ?s1))"
    using assms(4) before_deletes_keeps [of "je_pg (je 4)" je flt s] softDelete_marks [of "je 3" ?s1 "flt 3"]
    by (simp add: canonical_deletions marks_only_def)
  ultimately have "undeleted i (ls_Acc (after_deletes je flt ?s1))"
    unfolding after_deletes_def by (rule hardDelete_spares)
  then show ?thesis
    using keeps_orgs_deletions [OF hourly_parts(2) [of je flt s]] by (simp add: undeleted_deletions)
qed

theorem active_org_survives_witness:
  "undeleted ''b'' (ls_Acc (hourly (\<lambda>n. demo_job) (\<lambda>n fl. True) demo_hour))"
  by (rule active_org_survives)
    (simp_all add: demo_hour_canonical, simp_all add: undeleted_def rows_of_def logged_in_after_def demo_hour_def
      demo_job_def demo_user_def zero_org_def)

text \<open>
  A login does not bring an organization back.  \<open>Login\<close> asks the store whether the organization of the
  member is soft-deleted, but \<open>GetOrganization\<close> does not read that column; so for every database and request the
  rows of the organizations stay as they are, and a marked organization stays on the list of those to be removed.
\<close>

theorem login_never_restores:
  "ac_Orgs (snd (Login env flt r body db)) = ac_Orgs db \<and>
   ListSoftDeletedOrgs fl before (snd (Login env flt r body db)) = ListSoftDeletedOrgs fl before db"
  using Login_orgs [of env flt r body db] by (simp add: ListSoftDeletedOrgs_def)

text \<open>
  With the store of the program \<open>TrialExpiry\<close> does nothing: it lets every request pass and writes nothing,
  whatever the time and the organization, expired or deleted ones included.  And the job that ends trials passes
  over an organization as long as a member has logged in within the trial's duration.
\<close>

theorem used_trial_never_ends:
  assumes "logged_in_after (je_days je (je_now je) TrialDurationDays) i (ls_Acc s)"
    and "canonical_ids (je_pg je) (ls_Acc s)"
  shows "rows_of i (ls_Acc (autoDowngradeExpiredTrials je flt s)) = rows_of i (ls_Acc s) \<and>
    TrialExpiry now (GetOrganization fl pg) (\<lambda>j db. snd (DowngradeOrgToFree fl2 pg2 plans dbnow j db)) r db = (Next r, db)"
  using trial_job_spares [OF assms] TrialExpiry_inert by blast

theorem used_trial_never_ends_witness:
  "rows_of ''b'' (ls_Acc (autoDowngradeExpiredTrials demo_job no_faults demo_hour)) = rows_of ''b'' (ls_Acc demo_hour) \<and>
    TrialExpiry (300 * day) (GetOrganization False (je_pg demo_job))
      (\<lambda>j db. snd (DowngradeOrgToFree False (je_pg demo_job) Map.empty (300 * day) j db)) (demo_request_for []) (ls_Acc demo_hour)
    = (Next (demo_request_for []), ls_Acc demo_hour)"
  by (rule used_trial_never_ends)
    (simp_all add: demo_hour_canonical, simp add: logged_in_after_def demo_hour_def demo_job_def demo_user_def)

end
