(* ===== verification/SdkClient.thy ===== *)
theory SdkClient
  imports FlagProps ApiKeys
begin

text \<open>
  The Go client of the service, \<open>sdks/go/client.go\<close> with \<open>context.go\<close> and the OpenFeature provider
  \<open>openfeature.go\<close>.  A client keeps the values of all flags in memory and replaces them as a whole by what
  a refresh fetches; reads never call the server.  The background loop either polls or follows the event
  stream.  What the server and the network answer are arguments, one for each call in order.
\<close>

subsection \<open>Configuration\<close>

text \<open>
  The callbacks are present or not; what they do is the caller's.  The logger and the HTTP client of the
  options are the surroundings of the model.
\<close>

record sdk_config =
  sk_sdkKey :: string
  sk_envKey :: string
  sk_baseURL :: string
  sk_pollInterval :: duration
  sk_sseEnabled :: bool
  sk_sseRetry :: duration
  sk_onReady :: bool
  sk_onError :: bool
  sk_onUpdate :: bool
  sk_userCtx :: "(string, json) gomap \<times> string"

definition NewContext :: "string \<Rightarrow> (string, json) gomap \<times> string" where
  "NewContext key = ([], key)"

definition WithAttribute :: "string \<Rightarrow> json \<Rightarrow> (string, json) gomap \<times> string \<Rightarrow> (string, json) gomap \<times> string" where
  "WithAttribute k v c = ((k, v) # filter (\<lambda>e. fst e \<noteq> k) (fst c), snd c)"

definition default_config :: "string \<Rightarrow> string \<Rightarrow> sdk_config" where
  "default_config sdkKey envKey =
     \<lparr>sk_sdkKey = sdkKey, sk_envKey = envKey, sk_baseURL = ''https://api.featuresignals.com'',
       sk_pollInterval = 30 * second, sk_sseEnabled = False, sk_sseRetry = second, sk_onReady = False,
       sk_onError = False, sk_onUpdate = False, sk_userCtx = NewContext ''server''\<rparr>"

definition WithBaseURL :: "string \<Rightarrow> sdk_config \<Rightarrow> sdk_config" where
  "WithBaseURL u cf = cf\<lparr>sk_baseURL := trim_right CHR ''/'' u\<rparr>"

definition WithPollingInterval :: "duration \<Rightarrow> sdk_config \<Rightarrow> sdk_config" where
  "WithPollingInterval d cf = cf\<lparr>sk_pollInterval := d\<rparr>"

definition WithSSE :: "bool \<Rightarrow> sdk_config \<Rightarrow> sdk_config" where
  "WithSSE enabled cf = cf\<lparr>sk_sseEnabled := enabled\<rparr>"

definition WithSSERetryInterval :: "duration \<Rightarrow> sdk_config \<Rightarrow> sdk_config" where
  "WithSSERetryInterval d cf = cf\<lparr>sk_sseRetry := d\<rparr>"

definition WithContext :: "(string, json) gomap \<times> string \<Rightarrow> sdk_config \<Rightarrow> sdk_config" where
  "WithContext ctx cf = cf\<lparr>sk_userCtx := ctx\<rparr>"

subsection \<open>State\<close>

text \<open>
  \<open>Unreachable\<close> is any failure of \<open>Do\<close> or of the request itself; a \<open>Status\<close> carries the object its body
  decodes to, if it decodes.
\<close>

datatype http_answer = Unreachable | Status nat "(string, json) gomap option"

datatype sdk_error = FetchFailed | FetchStatus nat | DecodeFailed | StreamFailed | StreamStatus nat | StreamBroken

datatype sdk_event = UpdateEvent | ErrorEvent sdk_error

datatype sdk_call = CallReady | CallError sdk_error | CallUpdate "(string, json) gomap"

text \<open>
  \<open>sc_ready\<close> is the flag, the closed channel and the spent \<open>readyOnce\<close> in one, for they change together.
  \<open>sc_calls\<close> are the calls of callbacks made so far, \<open>sc_subs\<close> the channels of the subscribers with their
  capacity.
\<close>

record sdk_client =
  sc_flags :: "(string, json) gomap"
  sc_ready :: bool
  sc_calls :: "sdk_call list"
  sc_subs :: "(nat \<times> sdk_event list) list"

definition sdk_start :: sdk_client where
  "sdk_start = \<lparr>sc_flags = [], sc_ready = False, sc_calls = [], sc_subs = []\<rparr>"

definition addEventSub :: "nat \<Rightarrow> sdk_client \<Rightarrow> sdk_client" where
  "addEventSub cap c = c\<lparr>sc_subs := sc_subs c @ [(cap, [])]\<rparr>"

text \<open>A send to each subscriber, dropped where the channel is full.\<close>

definition emitClientEvent :: "sdk_event \<Rightarrow> sdk_client \<Rightarrow> sdk_client" where
  "emitClientEvent ev c =
     c\<lparr>sc_subs := map (\<lambda>(cap, buf). (cap, if length buf < cap then buf @ [ev] else buf)) (sc_subs c)\<rparr>"

definition setFlags :: "sdk_config \<Rightarrow> (string, json) gomap \<Rightarrow> sdk_client \<Rightarrow> sdk_client" where
  "setFlags cf m c =
     emitClientEvent UpdateEvent
       (c\<lparr>sc_flags := m, sc_calls := sc_calls c @ (if sk_onUpdate cf then [CallUpdate m] else [])\<rparr>)"

definition logError :: "sdk_config \<Rightarrow> sdk_error \<Rightarrow> sdk_client \<Rightarrow> sdk_client" where
  "logError cf e c =
     emitClientEvent (ErrorEvent e) (c\<lparr>sc_calls := sc_calls c @ (if sk_onError cf then [CallError e] else [])\<rparr>)"

definition markReady :: "sdk_config \<Rightarrow> sdk_client \<Rightarrow> sdk_client" where
  "markReady cf c =
     (if sc_ready c then c
      else c\<lparr>sc_ready := True, sc_calls := sc_calls c @ (if sk_onReady cf then [CallReady] else [])\<rparr>)"

subsection \<open>Refreshing\<close>

text \<open>The address and the key a refresh sends; the two escapes are those of \<open>net/url\<close>.\<close>

definition refresh_request :: "(string \<Rightarrow> string) \<Rightarrow> (string \<Rightarrow> string) \<Rightarrow> sdk_config \<Rightarrow> string \<times> string" where
  "refresh_request pathEscape queryEscape cf =
     (sk_baseURL cf @ ''/v1/client/'' @ pathEscape (sk_envKey cf) @ ''/flags?key='' @ queryEscape (snd (sk_userCtx cf)),
      sk_sdkKey cf)"

definition refresh :: "sdk_config \<Rightarrow> http_answer \<Rightarrow> sdk_client \<Rightarrow> sdk_error option \<times> sdk_client" where
  "refresh cf a c =
     (case a of
        Unreachable \<Rightarrow> (Some FetchFailed, c)
      | Status code body \<Rightarrow>
          if code \<noteq> StatusOK then (Some (FetchStatus code), c)
          else (case body of None \<Rightarrow> (Some DecodeFailed, c) | Some m \<Rightarrow> (None, setFlags cf m c)))"

text \<open>A refresh of the constructor or of a tick of \<open>pollLoop\<close>; one after an event of the stream does not mark.\<close>

definition poll_tick :: "sdk_config \<Rightarrow> http_answer \<Rightarrow> sdk_client \<Rightarrow> sdk_client" where
  "poll_tick cf a c =
     (case refresh cf a c of (Some e, d1) \<Rightarrow> logError cf e d1 | (None, d1) \<Rightarrow> markReady cf d1)"

definition NewClient :: "sdk_config \<Rightarrow> http_answer \<Rightarrow> sdk_client" where
  "NewClient cf a = poll_tick cf a sdk_start"

definition pollLoop :: "sdk_config \<Rightarrow> http_answer list \<Rightarrow> sdk_client \<Rightarrow> sdk_client" where
  "pollLoop cf as c = fold (poll_tick cf) as c"

subsection \<open>Streaming\<close>

text \<open>
  \<open>strings.TrimSpace\<close> is the parameter \<open>trim\<close>.  Each line comes with the answer a refresh at that moment
  gets; the first argument is \<open>eventType\<close>.
\<close>

fun sse_scan ::
    "(string \<Rightarrow> string) \<Rightarrow> sdk_config \<Rightarrow> string \<Rightarrow> (string \<times> http_answer) list \<Rightarrow> sdk_client \<Rightarrow> sdk_client" where
  "sse_scan trim cf ty [] c = c"
| "sse_scan trim cf ty ((line, a) # ls) c =
     (if has_prefix line ''event:'' then sse_scan trim cf (trim (drop 6 line)) ls c
      else if has_prefix line ''data:''
      then sse_scan trim cf [] ls
             (if ty = ''flag-update''
              then (case refresh cf a c of (Some e, d1) \<Rightarrow> logError cf e d1 | (None, d1) \<Rightarrow> d1)
              else c)
      else sse_scan trim cf ty ls c)"

datatype stream_answer =
    NoStream
  | BadStatus nat
  | Stream "(string \<times> http_answer) list" "sdk_error option"

definition connectSSE ::
    "(string \<Rightarrow> string) \<Rightarrow> sdk_config \<Rightarrow> stream_answer \<Rightarrow> sdk_client \<Rightarrow> sdk_error option \<times> sdk_client" where
  "connectSSE trim cf o1 c =
     (case o1 of
        NoStream \<Rightarrow> (Some StreamFailed, c)
      | BadStatus code \<Rightarrow> (Some (StreamStatus code), c)
      | Stream ls end \<Rightarrow> (end, sse_scan trim cf [] ls c))"

abbreviation "maxBackoff \<equiv> 30 * second"

text \<open>
  One round of \<open>streamLoop\<close>: how long it waits and the next backoff.  \<open>rnd n\<close> is what \<open>rand.Int63n(n)\<close> draws;
  it panics on a bound that is not positive.
\<close>

datatype stream_round = StreamPanic | Waited duration duration sdk_client

definition stream_round ::
    "(string \<Rightarrow> string) \<Rightarrow> sdk_config \<Rightarrow> (int \<Rightarrow> int) \<Rightarrow> stream_answer \<Rightarrow> duration \<Rightarrow> sdk_client \<Rightarrow> stream_round" where
  "stream_round trim cf rnd o1 backoff c =
     (case connectSSE trim cf o1 c of
        (Some e, d1) \<Rightarrow>
          (let d2 = logError cf e d1; b2 = wrap64 (backoff * 2)
           in if go_div backoff 4 \<le> 0 then StreamPanic
              else Waited (wrap64 (backoff + rnd (go_div backoff 4))) (if maxBackoff < b2 then maxBackoff else b2) d2)
      | (None, d1) \<Rightarrow> Waited (sk_sseRetry cf) (sk_sseRetry cf) d1)"

text \<open>The loop over the connections it makes, until it panics or the client is closed: the waits and the client.\<close>

fun stream_rounds ::
    "(string \<Rightarrow> string) \<Rightarrow> sdk_config \<Rightarrow> ((int \<Rightarrow> int) \<times> stream_answer) list \<Rightarrow> duration \<Rightarrow> sdk_client \<Rightarrow>
     (duration list \<times> sdk_client) option" where
  "stream_rounds trim cf [] b c = Some ([], c)"
| "stream_rounds trim cf ((rnd, o1) # os) b c =
     (case stream_round trim cf rnd o1 b c of
        StreamPanic \<Rightarrow> None
      | Waited w b1 d1 \<Rightarrow> map_option (\<lambda>(ws, d2). (w # ws, d2)) (stream_rounds trim cf os b1 d1))"

definition streamLoop ::
    "(string \<Rightarrow> string) \<Rightarrow> sdk_config \<Rightarrow> ((int \<Rightarrow> int) \<times> stream_answer) list \<Rightarrow> sdk_client \<Rightarrow> (duration list \<times> sdk_client) option" where
  "streamLoop trim cf os c = stream_rounds trim cf os (sk_sseRetry cf) c"

subsection \<open>Reading\<close>

definition getFlag :: "string \<Rightarrow> sdk_client \<Rightarrow> json option" where
  "getFlag key c = map_of (sc_flags c) key"

text \<open>The context argument of the four reads is not used by the code.\<close>

definition BoolVariation :: "string \<Rightarrow> bool \<Rightarrow> sdk_client \<Rightarrow> bool" where
  "BoolVariation key fallback c =
     (case getFlag key c of None \<Rightarrow> fallback | Some v \<Rightarrow> (case v of JBool b \<Rightarrow> b | _ \<Rightarrow> fallback))"

definition StringVariation :: "string \<Rightarrow> string \<Rightarrow> sdk_client \<Rightarrow> string" where
  "StringVariation key fallback c =
     (case getFlag key c of None \<Rightarrow> fallback | Some v \<Rightarrow> (case v of JStr s \<Rightarrow> s | _ \<Rightarrow> fallback))"

definition NumberVariation :: "string \<Rightarrow> float64 \<Rightarrow> sdk_client \<Rightarrow> float64" where
  "NumberVariation key fallback c =
     (case getFlag key c of None \<Rightarrow> fallback | Some v \<Rightarrow> (case v of JNum n \<Rightarrow> n | _ \<Rightarrow> fallback))"

definition JSONVariation :: "string \<Rightarrow> json \<Rightarrow> sdk_client \<Rightarrow> json" where
  "JSONVariation key fallback c = (case getFlag key c of None \<Rightarrow> fallback | Some v \<Rightarrow> v)"

definition AllFlags :: "sdk_client \<Rightarrow> (string, json) gomap" where
  "AllFlags c = sc_flags c"

subsection \<open>The OpenFeature provider\<close>

datatype resolution_error = FlagNotFound string | TypeMismatch string

datatype resolution_reason = ErrorReason | CachedReason

record 'a resolution =
  rd_Value :: 'a
  rd_Error :: "resolution_error option"
  rd_Reason :: resolution_reason

definition resolve :: "(json \<Rightarrow> 'a option) \<Rightarrow> string \<Rightarrow> string \<Rightarrow> 'a \<Rightarrow> sdk_client \<Rightarrow> 'a resolution" where
  "resolve conv expected key dflt c =
     (case getFlag key c of
        None \<Rightarrow> \<lparr>rd_Value = dflt, rd_Error = Some (FlagNotFound key), rd_Reason = ErrorReason\<rparr>
      | Some v \<Rightarrow>
        (case conv v of
           None \<Rightarrow> \<lparr>rd_Value = dflt, rd_Error = Some (TypeMismatch expected), rd_Reason = ErrorReason\<rparr>
         | Some x \<Rightarrow> \<lparr>rd_Value = x, rd_Error = None, rd_Reason = CachedReason\<rparr>))"

definition BooleanEvaluation :: "string \<Rightarrow> bool \<Rightarrow> sdk_client \<Rightarrow> bool resolution" where
  "BooleanEvaluation = resolve (\<lambda>v. case v of JBool b \<Rightarrow> Some b | _ \<Rightarrow> None) ''expected bool''"

definition StringEvaluation :: "string \<Rightarrow> string \<Rightarrow> sdk_client \<Rightarrow> string resolution" where
  "StringEvaluation = resolve (\<lambda>v. case v of JStr s \<Rightarrow> Some s | _ \<Rightarrow> None) ''expected string''"

definition FloatEvaluation :: "string \<Rightarrow> float64 \<Rightarrow> sdk_client \<Rightarrow> float64 resolution" where
  "FloatEvaluation = resolve (\<lambda>v. case v of JNum n \<Rightarrow> Some n | _ \<Rightarrow> None) ''expected float64''"

text \<open>
  \<open>int64(f)\<close> drops the fraction; what it gives outside of the range of \<open>int64\<close> depends on the
  implementation, the parameter \<open>outside\<close>.
\<close>

definition f64_truncate :: "float64 \<Rightarrow> int" where
  "f64_truncate w =
     (let e = (f64_magnitude w div 2 ^ 52); m = f64_magnitude w mod 2 ^ 52 + (if e = 0 then 0 else 2 ^ 52);
          a = (if 1075 \<le> e then m * 2 ^ nat (e - 1075) else m div 2 ^ nat (1075 - e))
      in if bit w 63 then - a else a)"

definition f64_to_int64 :: "(float64 \<Rightarrow> int) \<Rightarrow> float64 \<Rightarrow> int" where
  "f64_to_int64 outside w =
     (if f64_magnitude w < 0x7FF0000000000000 \<and> int64_range (f64_truncate w) then f64_truncate w else outside w)"

definition IntEvaluation :: "(float64 \<Rightarrow> int) \<Rightarrow> string \<Rightarrow> int \<Rightarrow> sdk_client \<Rightarrow> int resolution" where
  "IntEvaluation outside =
     resolve (\<lambda>v. case v of JNum n \<Rightarrow> Some (f64_to_int64 outside n) | _ \<Rightarrow> None) ''expected numeric''"

definition ObjectEvaluation :: "string \<Rightarrow> json \<Rightarrow> sdk_client \<Rightarrow> json resolution" where
  "ObjectEvaluation = resolve Some []"

text \<open>\<open>closes\<close> says whether the ready channel closes within thirty seconds.  The result is whether it succeeds.\<close>

definition Provider_Init :: "bool \<Rightarrow> sdk_client \<Rightarrow> bool \<times> sdk_client" where
  "Provider_Init closes c = (sc_ready c \<or> closes, addEventSub 10 c)"

datatype of_event = ProviderConfigChange | ProviderError sdk_error

definition bridge_event :: "sdk_event \<Rightarrow> of_event" where
  "bridge_event ev = (case ev of UpdateEvent \<Rightarrow> ProviderConfigChange | ErrorEvent e \<Rightarrow> ProviderError e)"

end
