(* ===== verification/SdkLaws.thy ===== *)
theory SdkLaws
  imports SdkClient
begin

text \<open>
  What an application sees of the service through the Go client: which values a polling client serves and when
  it is ready, what a streaming one misses, how long it waits between connections, and that a kill reaches
  every client with its next poll.
\<close>

subsection \<open>Polling\<close>

definition delivered :: "http_answer \<Rightarrow> (string, json) gomap option" where
  "delivered a = (case a of Status code (Some m) \<Rightarrow> if code = StatusOK then Some m else None | _ \<Rightarrow> None)"

definition ready_calls :: "sdk_client \<Rightarrow> sdk_call list" where
  "ready_calls c = filter ((=) CallReady) (sc_calls c)"

lemma emit_fields [simp]:
  "sc_flags (emitClientEvent ev c) = sc_flags c" "sc_ready (emitClientEvent ev c) = sc_ready c"
  "sc_calls (emitClientEvent ev c) = sc_calls c"
  by (simp_all add: emitClientEvent_def)

lemma logError_fields [simp]:
  "sc_flags (logError cf e c) = sc_flags c" "sc_ready (logError cf e c) = sc_ready c"
  "ready_calls (logError cf e c) = ready_calls c"
  by (simp_all add: logError_def ready_calls_def)

lemma setFlags_fields [simp]:
  "sc_flags (setFlags cf m c) = m" "sc_ready (setFlags cf m c) = sc_ready c"
  "ready_calls (setFlags cf m c) = ready_calls c"
  by (simp_all add: setFlags_def ready_calls_def)

lemma markReady_fields [simp]:
  "sc_flags (markReady cf c) = sc_flags c" "sc_ready (markReady cf c)"
  "ready_calls (markReady cf c) = ready_calls c @ (if sc_ready c \<or> \<not> sk_onReady cf then [] else [CallReady])"
  by (simp_all add: markReady_def ready_calls_def)

lemma refresh_delivered:
  "(\<exists>e. refresh cf a c = (Some e, c)) \<and> delivered a = None \<or>
   (\<exists>m. refresh cf a c = (None, setFlags cf m c) \<and> delivered a = Some m)"
  by (auto simp: refresh_def delivered_def split: http_answer.split option.split)

lemma poll_tick_fields [simp]:
  "sc_flags (poll_tick cf a c) = (case delivered a of None \<Rightarrow> sc_flags c | Some m \<Rightarrow> m)"
  "sc_ready (poll_tick cf a c) \<longleftrightarrow> sc_ready c \<or> delivered a \<noteq> None"
  "ready_calls (poll_tick cf a c) =
     ready_calls c @ (if sc_ready c \<or> delivered a = None \<or> \<not> sk_onReady cf then [] else [CallReady])"
  using refresh_delivered [of cf a c] by (auto simp: poll_tick_def)

text \<open>The objects fetched by a run, in order.\<close>

definition fetched :: "http_answer list \<Rightarrow> (string, json) gomap list" where
  "fetched as = List.map_filter delivered as"

lemma fetched_simps [simp]:
  "fetched [] = []"
  "fetched (as @ [a]) = fetched as @ (case delivered a of None \<Rightarrow> [] | Some m \<Rightarrow> [m])"
  by (simp_all add: fetched_def List.map_filter_def split: option.split)

text \<open>
  C31: a polling client follows the server.  After any sequence of fetches, failed ones included, it serves the
  flags of the last fetch that succeeded (none before the first), it is ready exactly if one has succeeded,
  and it has called \<open>onReady\<close> once by then and never again.
\<close>

theorem polling_client_follows:
  "let c = pollLoop cf as (NewClient cf a0); got = fetched (a0 # as)
   in sc_flags c = (if got = [] then [] else last got) \<and>
      (sc_ready c \<longleftrightarrow> got \<noteq> []) \<and>
      filter ((=) CallReady) (sc_calls c) = (if got \<noteq> [] \<and> sk_onReady cf then [CallReady] else [])"
proof -
  have run: "pollLoop cf as (NewClient cf a0) = fold (poll_tick cf) (a0 # as) sdk_start" for as
    by (simp add: pollLoop_def NewClient_def)
  have "sc_flags (fold (poll_tick cf) xs sdk_start) = (if fetched xs = [] then [] else last (fetched xs)) \<and>
      (sc_ready (fold (poll_tick cf) xs sdk_start) \<longleftrightarrow> fetched xs \<noteq> []) \<and>
      ready_calls (fold (poll_tick cf) xs sdk_start) = (if fetched xs \<noteq> [] \<and> sk_onReady cf then [CallReady] else [])" for xs
    by (induction xs rule: rev_induct) (auto simp: sdk_start_def ready_calls_def [of "\<lparr>sc_flags = a, sc_ready = b, sc_calls = d, sc_subs = e\<rparr>" for a b d e] split: option.split)
  from this [of "a0 # as"] show ?thesis
    by (simp add: run Let_def ready_calls_def)
qed

subsection \<open>Streaming\<close>

definition no_data :: "stream_answer \<Rightarrow> bool" where
  "no_data o1 \<longleftrightarrow> (case o1 of Stream ls e \<Rightarrow> \<forall>(line, a)\<in>set ls. \<not> has_prefix line ''data:'' | _ \<Rightarrow> True)"

lemma sse_scan_ready [simp]: "sc_ready (sse_scan trim cf ty ls c) = sc_ready c"
proof (induction trim cf ty ls c rule: sse_scan.induct)
  case (2 trim cf ty line a ls c)
  then show ?case
    using refresh_delivered [of cf a c] by auto
qed simp

lemma sse_scan_silent:
  "\<forall>(line, a)\<in>set ls. \<not> has_prefix line ''data:'' \<Longrightarrow> sse_scan trim cf ty ls c = c"
  by (induction trim cf ty ls c rule: sse_scan.induct) auto

lemma connectSSE_fields:
  "sc_ready (snd (connectSSE trim cf o1 c)) = sc_ready c"
  "no_data o1 \<Longrightarrow> snd (connectSSE trim cf o1 c) = c"
  by (auto simp: connectSSE_def no_data_def sse_scan_silent split: stream_answer.split)

lemma stream_round_fields:
  assumes "stream_round trim cf rnd o1 b c = Waited w b' c'"
  shows "sc_ready c' = sc_ready c" "no_data o1 \<Longrightarrow> sc_flags c' = sc_flags c"
  using assms connectSSE_fields [where trim = trim and cf = cf and ?o1.0 = o1 and c = c]
  by (cases "connectSSE trim cf o1 c"; auto simp: stream_round_def Let_def split: option.splits if_splits)+

text \<open>
  A streaming client knows only what the stream tells it.  A client whose first fetch failed never becomes
  ready, however many flags the stream makes it load later; and neither a connection nor a reconnection
  fetches anything, so a change made while the client was not connected stays unseen until a later event.
\<close>

theorem streaming_never_catches_up:
  assumes "streamLoop trim cf os (NewClient cf a0) = Some (ws, c)"
  shows "(sc_ready c \<longleftrightarrow> delivered a0 \<noteq> None) \<and>
    ((\<forall>(rnd, o1)\<in>set os. no_data o1) \<longrightarrow> sc_flags c = (case delivered a0 of None \<Rightarrow> [] | Some m \<Rightarrow> m))"
proof -
  have "sc_ready c = sc_ready c0 \<and> ((\<forall>(rnd, o1)\<in>set os. no_data o1) \<longrightarrow> sc_flags c = sc_flags c0)"
    if "stream_rounds trim cf os b c0 = Some (ws, c)" for b c0
    using that
  proof (induction os arbitrary: b c0 ws)
    case (Cons x os)
    obtain rnd o1 where x: "x = (rnd, o1)" by fastforce
    with Cons.prems obtain w b1 d1 ws1 where r: "stream_round trim cf rnd o1 b c0 = Waited w b1 d1"
        "stream_rounds trim cf os b1 d1 = Some (ws1, c)"
      by (auto split: stream_round.splits)
    from Cons.IH [OF r(2)] stream_round_fields [OF r(1)] x show ?case by auto
  qed simp
  from this [OF assms [unfolded streamLoop_def]] show ?thesis
    by (simp add: NewClient_def sdk_start_def split: option.split)
qed

definition demo_sdk :: sdk_config where
  "demo_sdk = WithSSE True (default_config ''k'' ''e'')"

theorem streaming_never_catches_up_witness:
  "\<exists>ws c. streamLoop id demo_sdk
       [(\<lambda>n. 0, NoStream), (\<lambda>n. 0, Stream [(''event:connected'', Unreachable)] None)] (NewClient demo_sdk Unreachable) = Some (ws, c) \<and>
     \<not> sc_ready c \<and> sc_flags c = []"
proof -
  let ?os = "[(\<lambda>n. 0, NoStream), (\<lambda>n. 0, Stream [(''event:connected'', Unreachable)] None)] :: ((int \<Rightarrow> int) \<times> stream_answer) list"
  have "\<exists>ws c. streamLoop id demo_sdk ?os (NewClient demo_sdk Unreachable) = Some (ws, c)"
    by (simp add: streamLoop_def stream_round_def connectSSE_def demo_sdk_def WithSSE_def default_config_def Let_def go_simps)
  then obtain ws c where run: "streamLoop id demo_sdk ?os (NewClient demo_sdk Unreachable) = Some (ws, c)" by blast
  with streaming_never_catches_up [OF run] show ?thesis
    by (auto simp: delivered_def no_data_def)
qed

subsection \<open>Waiting between connections\<close>

definition draws :: "(int \<Rightarrow> int) \<Rightarrow> bool" where
  "draws rnd \<longleftrightarrow> (\<forall>n>0. 0 \<le> rnd n \<and> rnd n < n)"

lemma stream_round_waits:
  assumes "draws rnd" "4 \<le> sk_sseRetry cf" "sk_sseRetry cf \<le> maxBackoff" "sk_sseRetry cf \<le> b" "b \<le> maxBackoff"
  obtains w b' c' where "stream_round trim cf rnd o1 b c = Waited w b' c'" "sk_sseRetry cf \<le> w" "4 * w < 5 * maxBackoff"
    "sk_sseRetry cf \<le> b'" "b' \<le> maxBackoff"
proof -
  have d: "go_div b 4 = b div 4" "0 < b div 4" using assms by auto
  then have r: "0 \<le> rnd (b div 4)" "rnd (b div 4) < b div 4" using assms(1) by (auto simp: draws_def)
  have w: "wrap64 (b + rnd (b div 4)) = b + rnd (b div 4)" "wrap64 (b * 2) = b * 2"
    using r assms by (auto simp: int64_range_def go_simps intro!: wrap64_id)
  obtain e d1 where cn: "connectSSE trim cf o1 c = (e, d1)" by fastforce
  show ?thesis
  proof (cases e)
    case None
    with cn assms show ?thesis
      by (intro that [of "sk_sseRetry cf" "sk_sseRetry cf" d1]) (auto simp: stream_round_def go_simps)
  next
    case (Some x)
    with cn d w have "stream_round trim cf rnd o1 b c =
        Waited (b + rnd (b div 4)) (if maxBackoff < b * 2 then maxBackoff else b * 2) (logError cf x d1)"
      by (simp add: stream_round_def Let_def)
    then show ?thesis by (rule that) (use r d assms in auto)
  qed
qed

text \<open>
  A streaming client never panics and never waits long, as long as its retry interval is between four
  nanoseconds and half a minute: every wait between two connections is at least the interval and less than
  thirty-seven and a half seconds, however the connections fail.
\<close>

theorem stream_waits_bounded:
  assumes "4 \<le> sk_sseRetry cf" "sk_sseRetry cf \<le> maxBackoff" and "\<forall>(rnd, o1)\<in>set os. draws rnd"
  shows "\<exists>ws c'. streamLoop trim cf os c = Some (ws, c') \<and> length ws = length os \<and>
    (\<forall>w\<in>set ws. sk_sseRetry cf \<le> w \<and> 4 * w < 5 * (30 * second))"
proof -
  have "\<exists>ws c'. stream_rounds trim cf os b c = Some (ws, c') \<and> length ws = length os \<and>
      (\<forall>w\<in>set ws. sk_sseRetry cf \<le> w \<and> 4 * w < 5 * maxBackoff)"
    if "sk_sseRetry cf \<le> b" "b \<le> maxBackoff" for b
    using assms(3) that
  proof (induction os arbitrary: b c)
    case (Cons x os)
    obtain rnd o1 where x: "x = (rnd, o1)" by fastforce
    with Cons.prems have "draws rnd" by simp
    from stream_round_waits [OF this assms(1,2) Cons.prems(2,3)] obtain w b' d1 where
      r: "stream_round trim cf rnd o1 b c = Waited w b' d1" "sk_sseRetry cf \<le> w" "4 * w < 5 * maxBackoff"
        "sk_sseRetry cf \<le> b'" "b' \<le> maxBackoff" by metis
    from Cons.IH [OF _ r(4,5)] Cons.prems(1) obtain ws c' where
      "stream_rounds trim cf os b' d1 = Some (ws, c')" "length ws = length os"
      "\<forall>w\<in>set ws. sk_sseRetry cf \<le> w \<and> 4 * w < 5 * maxBackoff" by (metis list.set_intros(2))
    with r x show ?case by simp
  qed simp
  then show ?thesis using assms(2) by (simp add: streamLoop_def)
qed

theorem stream_waits_bounded_witness:
  "\<exists>ws c'. streamLoop id demo_sdk (replicate 9 (\<lambda>n. n div 2, NoStream)) sdk_start = Some (ws, c') \<and> length ws = 9 \<and>
    (\<forall>w\<in>set ws. sk_sseRetry demo_sdk \<le> w \<and> 4 * w < 5 * (30 * second))"
proof -
  have "4 \<le> sk_sseRetry demo_sdk" "sk_sseRetry demo_sdk \<le> maxBackoff"
    by (simp_all add: demo_sdk_def WithSSE_def default_config_def go_simps)
  moreover have "\<forall>(rnd, o1)\<in>set (replicate 9 (\<lambda>n. n div 2, NoStream)). draws rnd"
    by (auto simp: draws_def)
  ultimately show ?thesis
    using stream_waits_bounded [of demo_sdk "replicate 9 (\<lambda>n. n div 2, NoStream)" id sdk_start] by simp
qed

text \<open>A shorter interval panics on the first connection that fails.\<close>

lemma short_retry_panics:
  "0 \<le> sk_sseRetry cf \<Longrightarrow> sk_sseRetry cf < 4 \<Longrightarrow> streamLoop trim cf ((rnd, NoStream) # os) c = None"
  by (simp add: streamLoop_def stream_round_def connectSSE_def Let_def)

subsection \<open>A kill reaches the clients\<close>

text \<open>What a client gets of an answer of the server; encoding and decoding leave the values as they are.\<close>

definition wire :: "(string, json) gomap response \<Rightarrow> http_answer" where
  "wire resp = (case resp of Answer code m \<Rightarrow> Status code (Some m) | Refuse code msg \<Rightarrow> Status code None)"

lemma served_value:
  assumes "map_of (rs_Flags rs) key \<noteq> None"
  shows "map_of (map (\<lambda>(k, res). (k, res_Value res)) (EvaluateAll lib now ctx rs)) key =
       Some (res_Value (Evaluate lib now key ctx rs))"
proof -
  have "map_of (map (\<lambda>e. (fst e, f (fst e))) xs) key = Some (f key)" if "map_of xs key \<noteq> None" for f :: "string \<Rightarrow> json" and xs
    using that by (induction xs) auto
  from this [OF assms] show ?thesis
    by (simp add: EvaluateAll_def comp_def case_prod_unfold)
qed

lemma client_flags_loaded:
  assumes "Eval_ClientFlags env kl flt slugFails req query (db, keys) cache = (Answer code m, cache')"
    and "GetEnvironmentByAPIKeyHash flt (ae_pg env) (ae_dbnow env) (kl_hash kl (req_Header req ''X-API-Key'')) db keys = Inr (e, k)"
    and "cache (env_ID e) = None"
  obtains flags sts segs key where
    "LoadRuleset (\<lambda>i. flt (2 + i)) (ae_pg env) (env_ProjectID e) (env_ID e) db = Inr (flags, sts, segs)"
    "m = map (\<lambda>(k, res). (k, res_Value res)) (EvaluateAll (ae_lib env) (ae_now env)
       \<lparr>ctx_Key = key, ctx_Attributes = Map.empty\<rparr> (build_ruleset flags sts segs))" "code = StatusOK"
proof -
  obtain rs cc where g: "getRulesetFromAPIKey env kl flt req (db, keys) cache = (Some (rs, env_ID e), cc)"
    using assms by (auto simp: Eval_ClientFlags_def getRulesetFromAPIKey_def Let_def GetRuleset_def
        split: option.splits prod.splits if_splits sum.splits)
  with assms(2,3) obtain flags sts segs where
    "LoadRuleset (\<lambda>i. flt (2 + i)) (ae_pg env) (env_ProjectID e) (env_ID e) db = Inr (flags, sts, segs)"
    "rs = build_ruleset flags sts segs"
    by (auto simp: getRulesetFromAPIKey_def Let_def GetRuleset_def Cache_LoadRuleset_def
        split: if_splits sum.splits prod.splits)
  with assms(1) g show ?thesis
    by (intro that [of flags sts segs "if query ''key'' = [] then ''anonymous'' else query ''key''"])
      (auto simp: Eval_ClientFlags_def Let_def split: if_splits)
qed

text \<open>
  C32: a kill reaches the applications.  Once \<open>Kill\<close> has answered with success and the notification has dropped
  the ruleset of the environment from the cache, the next poll of any client of that environment that the
  server answers makes the client serve the default value of the flag, for whatever user the client was made.
\<close>

theorem kill_reaches_clients:
  assumes "flag_db_ok (ae_pg env) db" "uuid_canonical (ae_pg env)"
    and "Flag_Kill env flt r (Some envID) db = (Answer c st, db')"
    and "ae_pg env2 = ae_pg env"
    and "GetEnvironmentByAPIKeyHash flt2 (ae_pg env) (ae_dbnow env2) (kl_hash kl (req_Header req ''X-API-Key'')) db' keys = Inr (e, k)"
    and "pg_uuid (ae_pg env) envID = Some (env_ID e)"
    and "pg_uuid (ae_pg env) (URLParam r ''projectID'') = Some (env_ProjectID e)"
    and "cache (env_ID e) = None"
    and "Eval_ClientFlags env2 kl flt2 slugFails req query (db', keys) cache = (Answer code m, cache')"
  shows "\<exists>g\<in>set (fdb_Flags db). flag_Key g = URLParam r ''flagKey'' \<and>
    JSONVariation (URLParam r ''flagKey'') fallback (poll_tick cf (wire (Answer code m)) cl) =
      parseJSONValue (ae_lib env2) (flag_DefaultValue g)"
proof -
  let ?pg = "ae_pg env"
  have ids: "?pg = ae_pg env" "pg_uuid ?pg (env_ID e) = Some (env_ID e)" "pg_uuid ?pg (env_ProjectID e) = Some (env_ProjectID e)"
    using assms(2,6,7) by (auto simp: uuid_canonical_def)
  obtain g row ch where g: "g \<in> set (fdb_Flags db)" "flag_Key g = URLParam r ''flagKey''"
      "pg_uuid ?pg (URLParam r ''projectID'') = Some (flag_ProjectID g)"
    and row: "lookup_state (flag_ID g) (env_ID e) db' = Some row" "\<not> state_Enabled row"
    and db': "fdb_Flags db' = fdb_Flags db" "flag_db_ok ?pg db'"
    by (rule kill_row [OF assms(1-3,6)])
  obtain flags sts segs key where l:
    "LoadRuleset (\<lambda>i. flt2 (2 + i)) ?pg (env_ProjectID e) (env_ID e) db' = Inr (flags, sts, segs)"
    "m = map (\<lambda>(k, res). (k, res_Value res)) (EvaluateAll (ae_lib env2) (ae_now env2)
       \<lparr>ctx_Key = key, ctx_Attributes = Map.empty\<rparr> (build_ruleset flags sts segs))" "code = StatusOK"
    using client_flags_loaded [OF assms(9), unfolded assms(4), OF assms(5,8)] by metis
  let ?rs = "build_ruleset flags sts segs"
  have proj: "flag_ProjectID g = env_ProjectID e" using g(3) assms(7) by simp
  have ev: "Evaluate (ae_lib env2) (ae_now env2) (flag_Key g) ctx ?rs =
      mk_result (flag_Key g) (parseJSONValue (ae_lib env2) (flag_DefaultValue g)) ReasonDisabled" for ctx
    using disabled_row_disables [OF db'(2) _ _ ids(2) row l(1)] g(1) db'(1) proj ids(3) by simp
  have "flag_keys_ok ?pg db'" using db'(2) by (simp add: flag_db_ok_def)
  from loaded_flag [OF this, of g "env_ProjectID e"] have "map_of (rs_Flags ?rs) (flag_Key g) \<noteq> None"
    using LoadRuleset_Inr [OF l(1)] ids g(1) db'(1) proj by auto
  from served_value [OF this] have "map_of m (flag_Key g) = Some (parseJSONValue (ae_lib env2) (flag_DefaultValue g))"
    by (simp add: l(2) ev mk_result_def)
  then have "JSONVariation (flag_Key g) fallback (poll_tick cf (wire (Answer code m)) cl) =
      parseJSONValue (ae_lib env2) (flag_DefaultValue g)"
    by (simp add: JSONVariation_def getFlag_def wire_def delivered_def l(3))
  with g show ?thesis by auto
qed

definition poll_call :: http_request where
  "poll_call = (demo_request RoleOwner)\<lparr>req_URLParams := [(''envKey'', ''e'')], req_Header := (\<lambda>h. ''fs_srv_1'')\<rparr>"

lemma demo_poll:
  assumes "Flag_Kill demo_env (\<lambda>n. False) (demo_call ''o'' RoleOwner) (Some ''e'') demo_db = (Answer StatusOK st, db')"
  shows "\<exists>m cache'. Eval_ClientFlags demo_env demo_keylib (\<lambda>n. False) False poll_call (\<lambda>p. []) (db', [demo_key]) Map.empty =
      (Answer StatusOK m, cache')"
    and "GetEnvironmentByAPIKeyHash (\<lambda>n. False) demo_pg 1 ''#fs_srv_1'' db' [demo_key] = Inr (demo_environment ''e'', seen_key demo_key)"
proof -
  have db': "fdb_Envs db' = fdb_Envs demo_db" "\<exists>flags sts segs. LoadRuleset (\<lambda>n. False) demo_pg ''p'' ''e'' db' = Inr (flags, sts, segs)"
    using assms demo_kill
    by (auto simp: Flag_Kill_def run_defs write_audit_def)
  show key: "GetEnvironmentByAPIKeyHash (\<lambda>n. False) demo_pg 1 ''#fs_srv_1'' db' [demo_key] = Inr (demo_environment ''e'', seen_key demo_key)"
    using db'(1) by (simp add: GetEnvironmentByAPIKeyHash_def GetAPIKeyByHash_def key_valid_def demo_key_def seen_key_def
        GetEnvironment_def by_uuid_def demo_defs)
  obtain flags sts segs where "LoadRuleset (\<lambda>n. False) demo_pg ''p'' ''e'' db' = Inr (flags, sts, segs)"
    using db'(2) by blast
  with key db'(1) show "\<exists>m cache'. Eval_ClientFlags demo_env demo_keylib (\<lambda>n. False) False poll_call (\<lambda>p. []) (db', [demo_key]) Map.empty =
      (Answer StatusOK m, cache')"
    by (simp add: Eval_ClientFlags_def getRulesetFromAPIKey_def poll_call_def demo_keylib_def GetRuleset_def
        Cache_LoadRuleset_def Let_def URLParam_def GetEnvironment_def by_uuid_def demo_defs)
qed

theorem kill_reaches_clients_witness:
  "\<exists>st db' m cache'. Flag_Kill demo_env (\<lambda>n. False) (demo_call ''o'' RoleOwner) (Some ''e'') demo_db = (Answer StatusOK st, db') \<and>
     Eval_ClientFlags demo_env demo_keylib (\<lambda>n. False) False poll_call (\<lambda>p. []) (db', [demo_key]) Map.empty =
       (Answer StatusOK m, cache') \<and>
     JSONVariation ''k'' (JBool True) (poll_tick demo_sdk (wire (Answer StatusOK m)) sdk_start) =
       parseJSONValue demo_lib (Some ''false'')"
proof -
  let ?r = "demo_call ''o'' RoleOwner"
  obtain st db' where k: "Flag_Kill demo_env (\<lambda>n. False) ?r (Some ''e'') demo_db = (Answer StatusOK st, db')"
    using demo_kill by blast
  obtain m cache' where p: "Eval_ClientFlags demo_env demo_keylib (\<lambda>n. False) False poll_call (\<lambda>p. []) (db', [demo_key]) Map.empty =
      (Answer StatusOK m, cache')" using demo_poll(1) [OF k] by blast
  have env: "ae_pg demo_env = demo_pg" "ae_dbnow demo_env = 1" "URLParam ?r ''flagKey'' = ''k''"
      "kl_hash demo_keylib (req_Header poll_call ''X-API-Key'') = ''#fs_srv_1''" "ae_lib demo_env = demo_lib"
      "pg_uuid demo_pg ''e'' = Some (env_ID (demo_environment ''e''))"
      "pg_uuid demo_pg (URLParam ?r ''projectID'') = Some (env_ProjectID (demo_environment ''e''))"
    by (simp_all add: poll_call_def demo_keylib_def demo_defs URLParam_def)
  have "\<exists>g\<in>set (fdb_Flags demo_db). flag_Key g = ''k'' \<and>
      JSONVariation ''k'' (JBool True) (poll_tick demo_sdk (wire (Answer StatusOK m)) sdk_start) =
        parseJSONValue demo_lib (flag_DefaultValue g)"
    using kill_reaches_clients [where ?env2.0 = demo_env and kl = demo_keylib and req = poll_call and cache = Map.empty,
        OF _ _ k _ _ _ _ _ p, unfolded env, OF demo_db_ok demo_canonical _ demo_poll(2) [OF k]] by simp
  moreover have "flag_DefaultValue g = Some ''false''" if "g \<in> set (fdb_Flags demo_db)" for g
    using that by (simp add: demo_defs)
  ultimately show ?thesis using k p by fastforce
qed

end
