(* ===== verification/Relay.thy ===== *)
theory Relay
  imports SdkLaws WebhookDispatch
begin

text \<open>
  The relay proxy \<open>server/cmd/relay/main.go\<close> and the subscriber it listens with, \<open>RedisSubscriber\<close> in
  \<open>server/internal/events/redis.go\<close>.  The proxy keeps one set of flag values and hands it to whoever asks.
\<close>

subsection \<open>The proxy\<close>

record relay_config =
  rc_apiKey :: string
  rc_envKey :: string
  rc_upstream :: string

record relay =
  rp_flags :: "(string, json) gomap"
  rp_ready :: bool

definition relay_start :: relay where
  "relay_start = \<lparr>rp_flags = [], rp_ready = False\<rparr>"

text \<open>The address and the key \<open>Sync\<close> sends.  Its result is whether it succeeds.\<close>

definition sync_request :: "relay_config \<Rightarrow> string \<times> string" where
  "sync_request cf = (rc_upstream cf @ ''/v1/client/'' @ rc_envKey cf @ ''/flags?key=relay'', rc_apiKey cf)"

definition Sync :: "http_answer \<Rightarrow> relay \<Rightarrow> bool \<times> relay" where
  "Sync a p =
     (case a of
        Unreachable \<Rightarrow> (False, p)
      | Status code body \<Rightarrow>
          if code \<noteq> 200 then (False, p)
          else (case body of None \<Rightarrow> (False, p) | Some m \<Rightarrow> (True, p\<lparr>rp_flags := m, rp_ready := True\<rparr>)))"

definition FlagCount :: "relay \<Rightarrow> nat" where
  "FlagCount p = length (rp_flags p)"

definition Relay_PollLoop :: "http_answer list \<Rightarrow> relay \<Rightarrow> relay" where
  "Relay_PollLoop as p = fold (\<lambda>a p. snd (Sync a p)) as p"

fun relay_scan :: "(string \<Rightarrow> string) \<Rightarrow> string \<Rightarrow> (string \<times> http_answer) list \<Rightarrow> relay \<Rightarrow> relay" where
  "relay_scan trim ty [] p = p"
| "relay_scan trim ty ((line, a) # ls) p =
     (if has_prefix line ''event:'' then relay_scan trim (trim (drop 6 line)) ls p
      else if has_prefix line ''data:''
      then relay_scan trim [] ls (if ty = ''flag-update'' then snd (Sync a p) else p)
      else relay_scan trim ty ls p)"

text \<open>A round of \<open>StreamLoop\<close>; it always waits five seconds.\<close>

definition Relay_connectSSE :: "(string \<Rightarrow> string) \<Rightarrow> stream_answer \<Rightarrow> relay \<Rightarrow> relay" where
  "Relay_connectSSE trim o1 p = (case o1 of Stream ls end \<Rightarrow> relay_scan trim [] ls p | _ \<Rightarrow> p)"

definition Relay_StreamLoop :: "(string \<Rightarrow> string) \<Rightarrow> stream_answer list \<Rightarrow> relay \<Rightarrow> relay" where
  "Relay_StreamLoop trim os p = fold (Relay_connectSSE trim) os p"

definition HandleFlags :: "relay \<Rightarrow> http_request \<Rightarrow> (string, json) gomap response" where
  "HandleFlags p r = Answer StatusOK (rp_flags p)"

definition HandleHealth :: "relay \<Rightarrow> nat \<times> string \<times> nat" where
  "HandleHealth p = (if rp_ready p then (200, ''ok'', length (rp_flags p)) else (503, ''not_ready'', length (rp_flags p)))"

subsection \<open>The subscriber\<close>

text \<open>
  What one \<open>connectAndListen\<close> meets: no client, no subscription, or a channel with payloads that is then
  closed or outlived by the context.  A payload is the event it parses to, as its type and organization, if
  it parses.
\<close>

datatype redis_answer = NoClient | NoSubscription | Messages "(string \<times> string) option list" bool

record subscriber =
  rs_closed :: bool
  rs_delivered :: "(string \<times> string) list"

definition handleMessage :: "(string \<times> string) option \<Rightarrow> subscriber \<Rightarrow> subscriber" where
  "handleMessage payload s =
     (case payload of
        None \<Rightarrow> s
      | Some (ty, org) \<Rightarrow> if ty = [] \<or> org = [] then s else s\<lparr>rs_delivered := rs_delivered s @ [(ty, org)]\<rparr>)"

text \<open>Whether it ended with an error; \<open>True\<close> in \<open>Messages\<close> is the end of the context.\<close>

definition connectAndListen :: "redis_answer \<Rightarrow> subscriber \<Rightarrow> bool \<times> subscriber" where
  "connectAndListen a s =
     (case a of
        NoClient \<Rightarrow> (True, s)
      | NoSubscription \<Rightarrow> (True, s)
      | Messages ms ctxDone \<Rightarrow>
          if rs_closed s then (False, s) else (ctxDone, fold handleMessage ms s))"

definition subscriber_Close :: "subscriber \<Rightarrow> subscriber" where
  "subscriber_Close s = s\<lparr>rs_closed := True\<rparr>"

abbreviation "subscribeRetryBase \<equiv> second"
abbreviation "subscribeRetryCap \<equiv> 30 * second"

text \<open>
  The loop of \<open>Listen\<close> over the connections it makes: the waits between them, zero after a connection that
  ended without an error, and the subscriber.  \<open>None\<close> is the panic of the jitter, \<open>rnd\<close> its random numbers.
\<close>

definition ends_context :: "redis_answer \<Rightarrow> bool" where
  "ends_context a \<longleftrightarrow> (case a of Messages ms ctxDone \<Rightarrow> ctxDone | _ \<Rightarrow> False)"

fun Listen_loop ::
    "(int \<Rightarrow> int) \<Rightarrow> nat \<Rightarrow> redis_answer list \<Rightarrow> subscriber \<Rightarrow> (duration list \<times> subscriber) option" where
  "Listen_loop rnd attempt [] s = Some ([], s)"
| "Listen_loop rnd attempt (a # as) s =
     (case connectAndListen a s of
        (True, s1) \<Rightarrow>
          if ends_context a then Some ([], s1)
          else (case JitteredBackoff rnd (int attempt) subscribeRetryBase DefaultFactor subscribeRetryCap of
                  None \<Rightarrow> None
                | Some d \<Rightarrow> map_option (\<lambda>(ws, s2). (d # ws, s2)) (Listen_loop rnd (Suc attempt) as s1))
      | (False, s1) \<Rightarrow> map_option (\<lambda>(ws, s2). (0 # ws, s2)) (Listen_loop rnd (Suc attempt) as s1))"

definition Listen :: "(int \<Rightarrow> int) \<Rightarrow> redis_answer list \<Rightarrow> subscriber \<Rightarrow> (duration list \<times> subscriber) option" where
  "Listen rnd as s = Listen_loop rnd 1 as s"

text \<open>The subscription of \<open>NoopRedisClient\<close>: its channel is closed from the start.\<close>

definition noop_subscription :: redis_answer where
  "noop_subscription = Messages [] False"

subsection \<open>Laws\<close>

lemma Listen_loop_quiet:
  assumes "\<forall>a\<in>set as. \<exists>s'. connectAndListen a s = (False, s') \<and> s' = s"
  shows "Listen_loop rnd n as s = Some (replicate (length as) 0, s)"
  using assms by (induction as arbitrary: n) auto

text \<open>
  A subscriber whose connection ends quietly never waits.  Neither the subscription of the client that is
  compiled in without the \<open>redis\<close> tag nor, once the subscriber is closed, any other makes \<open>Listen\<close> wait
  between two connections, so the loop runs without pause until its context ends.
\<close>

theorem listen_spins:
  "Listen rnd (replicate k noop_subscription) s = Some (replicate k 0, s) \<and>
   Listen rnd (map (\<lambda>ms. Messages ms False) mss) (subscriber_Close s) = Some (replicate (length mss) 0, subscriber_Close s)"
proof
  show "Listen rnd (replicate k noop_subscription) s = Some (replicate k 0, s)"
    using Listen_loop_quiet [of "replicate k noop_subscription" s rnd 1]
    by (auto simp: Listen_def connectAndListen_def noop_subscription_def)
  show "Listen rnd (map (\<lambda>ms. Messages ms False) mss) (subscriber_Close s) =
      Some (replicate (length mss) 0, subscriber_Close s)"
    using Listen_loop_quiet [of "map (\<lambda>ms. Messages ms False) mss" "subscriber_Close s" rnd 1]
    by (simp add: Listen_def connectAndListen_def subscriber_Close_def)
qed

text \<open>
  Whoever asks the proxy gets what the server answered for the user \<open>relay\<close>: neither the user of the
  request nor its key is looked at.
\<close>

lemma relay_answers_for_one_user:
  assumes "Eval_ClientFlags env kl flt slugFails req query (db, keys) cache = (Answer StatusOK m, cache')"
    and "query ''key'' = ''relay''"
  shows "HandleFlags (snd (Sync (wire (Answer StatusOK m)) p)) r = Answer StatusOK m \<and>
    (\<exists>rs. m = map (\<lambda>(k, res). (k, res_Value res)) (EvaluateAll (ae_lib env) (ae_now env)
       \<lparr>ctx_Key = ''relay'', ctx_Attributes = Map.empty\<rparr> rs))"
proof -
  have "\<exists>rs. m = map (\<lambda>(k, res). (k, res_Value res)) (EvaluateAll (ae_lib env) (ae_now env)
       \<lparr>ctx_Key = ''relay'', ctx_Attributes = Map.empty\<rparr> rs)"
    using assms by (auto simp: Eval_ClientFlags_def Let_def split: option.splits prod.splits if_splits)
  then show ?thesis by (simp add: HandleFlags_def Sync_def wire_def)
qed

end
