(* ===== verification/Projects.thy ===== *)
theory Projects
  imports ApiKeys Webhooks Sessions
begin

text \<open>
  Projects, environments and segments: the handlers of \<open>api/handlers/projects.go\<close> and \<open>segments.go\<close>, their
  views in \<open>api/dto\<close>, and the statements of \<open>store/postgres/store.go\<close> they use.  Deleting a project or an
  environment cascades to API keys, so these statements work on the tables of flags and of keys; permissions,
  approval requests and pinned items, to which they cascade as well, are not in this state.
\<close>

subsection \<open>Statements\<close>

definition CreateProject ::
    "bool \<Rightarrow> pglib \<Rightarrow> gotime \<Rightarrow> string \<Rightarrow> project \<Rightarrow> flag_db \<Rightarrow> project result \<times> flag_db" where
  "CreateProject fails pg now newID p db =
     (case pg_uuid pg (prj_OrgID p) of
        None \<Rightarrow> (Inl ErrInternal, db)
      | Some org \<Rightarrow>
        (if fails \<or> org \<notin> set (fdb_Orgs db) \<or>
            (\<exists>q\<in>set (fdb_Projects db). prj_ID q = newID \<or> prj_OrgID q = org \<and> prj_Slug q = prj_Slug p)
         then (Inl ErrInternal, db)
         else
           (let created = p\<lparr>prj_ID := newID, prj_CreatedAt := now, prj_UpdatedAt := now\<rparr>
            in (Inr created, db\<lparr>fdb_Projects := fdb_Projects db @ [created\<lparr>prj_OrgID := org\<rparr>]\<rparr>))))"

definition ListProjects :: "bool \<Rightarrow> pglib \<Rightarrow> string \<Rightarrow> flag_db \<Rightarrow> project list result" where
  "ListProjects fails pg orgID db =
     by_uuid fails pg orgID (\<lambda>u. Some (sort_key prj_CreatedAt (filter (\<lambda>p. prj_OrgID p = u) (fdb_Projects db))))"

definition UpdateProject :: "bool \<Rightarrow> pglib \<Rightarrow> gotime \<Rightarrow> project \<Rightarrow> flag_db \<Rightarrow> unit result \<times> flag_db" where
  "UpdateProject fails pg now p db =
     (case pg_uuid pg (prj_ID p) of
        None \<Rightarrow> (Inl ErrInternal, db)
      | Some u \<Rightarrow>
        (if fails then (Inl ErrInternal, db)
         else if \<exists>q\<in>set (fdb_Projects db). \<exists>q'\<in>set (fdb_Projects db). prj_ID q = u \<and> prj_ID q' \<noteq> u \<and>
                   prj_OrgID q' = prj_OrgID q \<and> prj_Slug q' = prj_Slug p
         then (Inl ErrConflict, db)
         else (Inr (), db\<lparr>fdb_Projects := map (\<lambda>q. if prj_ID q = u
                 then q\<lparr>prj_Name := prj_Name p, prj_Slug := prj_Slug p, prj_UpdatedAt := now\<rparr> else q) (fdb_Projects db)\<rparr>)))"

text \<open>The rows under an environment, and the notifications of the trigger on flag states.\<close>

definition drop_states :: "(flag_state \<Rightarrow> bool) \<Rightarrow> flag_db \<Rightarrow> flag_db" where
  "drop_states P db =
     db\<lparr>fdb_States := filter (\<lambda>s. \<not> P s) (fdb_States db),
       fdb_Changes := fdb_Changes db @ map (state_change ''DELETE'') (filter P (fdb_States db))\<rparr>"

definition DeleteProject ::
    "bool \<Rightarrow> pglib \<Rightarrow> string \<Rightarrow> flag_db \<times> api_keys \<Rightarrow> unit result \<times> flag_db \<times> api_keys" where
  "DeleteProject fails pg i s =
     (case pg_uuid pg i of
        None \<Rightarrow> (Inl ErrInternal, s)
      | Some u \<Rightarrow>
        (if fails then (Inl ErrInternal, s)
         else
           (case s of (db, keys) \<Rightarrow>
             (let envs = map env_ID (filter (\<lambda>e. env_ProjectID e = u) (fdb_Envs db));
                  flags = map flag_ID (filter (\<lambda>f. flag_ProjectID f = u) (fdb_Flags db));
                  db1 = drop_states (\<lambda>st. state_EnvID st \<in> set envs \<or> state_FlagID st \<in> set flags) db
              in (Inr (),
                  db1\<lparr>fdb_Projects := filter (\<lambda>p. prj_ID p \<noteq> u) (fdb_Projects db),
                    fdb_Envs := filter (\<lambda>e. env_ProjectID e \<noteq> u) (fdb_Envs db),
                    fdb_Flags := filter (\<lambda>f. flag_ProjectID f \<noteq> u) (fdb_Flags db),
                    fdb_Segments := filter (\<lambda>g. seg_ProjectID g \<noteq> u) (fdb_Segments db),
                    fdb_Versions := filter (\<lambda>v. fv_FlagID v \<notin> set flags) (fdb_Versions db),
                    fdb_Audit := map (\<lambda>a. if au_ProjectID a = Some u then a\<lparr>au_ProjectID := None\<rparr> else a) (fdb_Audit db)\<rparr>,
                  filter (\<lambda>k. ak_EnvID k \<notin> set envs) keys)))))"

definition CreateEnvironment ::
    "bool \<Rightarrow> pglib \<Rightarrow> gotime \<Rightarrow> string \<Rightarrow> environment \<Rightarrow> flag_db \<Rightarrow> environment result \<times> flag_db" where
  "CreateEnvironment fails pg now newID e db =
     (case (pg_uuid pg (env_ProjectID e), pg_uuid pg (env_OrgID e)) of
        (Some p, Some org) \<Rightarrow>
          (if fails \<or> p \<notin> prj_ID ` set (fdb_Projects db) \<or> org \<notin> set (fdb_Orgs db) \<or>
              (\<exists>x\<in>set (fdb_Envs db). env_ID x = newID \<or> env_ProjectID x = p \<and> env_Slug x = env_Slug e)
           then (Inl ErrInternal, db)
           else
             (let created = e\<lparr>env_ID := newID, env_CreatedAt := now, env_UpdatedAt := now\<rparr>
              in (Inr created, db\<lparr>fdb_Envs := fdb_Envs db @ [created\<lparr>env_ProjectID := p, env_OrgID := org\<rparr>]\<rparr>)))
      | _ \<Rightarrow> (Inl ErrInternal, db))"

definition ListEnvironments :: "bool \<Rightarrow> pglib \<Rightarrow> string \<Rightarrow> flag_db \<Rightarrow> environment list result" where
  "ListEnvironments fails pg projectID db =
     by_uuid fails pg projectID (\<lambda>u. Some (sort_key env_CreatedAt (filter (\<lambda>e. env_ProjectID e = u) (fdb_Envs db))))"

definition UpdateEnvironment :: "bool \<Rightarrow> pglib \<Rightarrow> gotime \<Rightarrow> environment \<Rightarrow> flag_db \<Rightarrow> unit result \<times> flag_db" where
  "UpdateEnvironment fails pg now e db =
     (case pg_uuid pg (env_ID e) of
        None \<Rightarrow> (Inl ErrInternal, db)
      | Some u \<Rightarrow>
        (if fails then (Inl ErrInternal, db)
         else if \<exists>x\<in>set (fdb_Envs db). \<exists>x'\<in>set (fdb_Envs db). env_ID x = u \<and> env_ID x' \<noteq> u \<and>
                   env_ProjectID x' = env_ProjectID x \<and> env_Slug x' = env_Slug e
         then (Inl ErrConflict, db)
         else (Inr (), db\<lparr>fdb_Envs := map (\<lambda>x. if env_ID x = u
                 then x\<lparr>env_Name := env_Name e, env_Slug := env_Slug e, env_Color := env_Color e, env_UpdatedAt := now\<rparr>
                 else x) (fdb_Envs db)\<rparr>)))"

definition DeleteEnvironment ::
    "bool \<Rightarrow> pglib \<Rightarrow> string \<Rightarrow> flag_db \<times> api_keys \<Rightarrow> unit result \<times> flag_db \<times> api_keys" where
  "DeleteEnvironment fails pg i s =
     (case pg_uuid pg i of
        None \<Rightarrow> (Inl ErrInternal, s)
      | Some u \<Rightarrow>
        (if fails then (Inl ErrInternal, s)
         else
           (case s of (db, keys) \<Rightarrow>
             (Inr (), (drop_states (\<lambda>st. state_EnvID st = u) db)\<lparr>fdb_Envs := filter (\<lambda>e. env_ID e \<noteq> u) (fdb_Envs db)\<rparr>,
              filter (\<lambda>k. ak_EnvID k \<noteq> u) keys))))"

definition CreateSegment ::
    "bool \<Rightarrow> pglib \<Rightarrow> gotime \<Rightarrow> string \<Rightarrow> segment \<Rightarrow> flag_db \<Rightarrow> segment result \<times> flag_db" where
  "CreateSegment fails pg now newID g db =
     (case (pg_uuid pg (seg_ProjectID g), pg_uuid pg (seg_OrgID g)) of
        (Some p, Some org) \<Rightarrow>
          (if fails \<or> p \<notin> prj_ID ` set (fdb_Projects db) \<or> org \<notin> set (fdb_Orgs db) \<or> seg_MatchType g \<notin> {MatchAll, MatchAny}
           then (Inl ErrInternal, db)
           else if \<exists>x\<in>set (fdb_Segments db). seg_ID x = newID \<or> seg_ProjectID x = p \<and> seg_Key x = seg_Key g
           then (Inl ErrConflict, db)
           else
             (let created = g\<lparr>seg_ID := newID, seg_CreatedAt := now, seg_UpdatedAt := now\<rparr>
              in (Inr created, db\<lparr>fdb_Segments := fdb_Segments db @
                    [created\<lparr>seg_ProjectID := p, seg_OrgID := org, seg_Labels := Some ''{}''\<rparr>]\<rparr>)))
      | _ \<Rightarrow> (Inl ErrInternal, db))"

definition GetSegment :: "bool \<Rightarrow> pglib \<Rightarrow> string \<Rightarrow> string \<Rightarrow> flag_db \<Rightarrow> segment result" where
  "GetSegment fails pg projectID key db =
     by_uuid fails pg projectID (\<lambda>u. map_option (\<lambda>g. g\<lparr>seg_Labels := None\<rparr>)
       (find (\<lambda>g. seg_ProjectID g = u \<and> seg_Key g = key) (fdb_Segments db)))"

definition DeleteSegment :: "bool \<Rightarrow> pglib \<Rightarrow> string \<Rightarrow> flag_db \<Rightarrow> unit result \<times> flag_db" where
  "DeleteSegment fails pg i =
     exec_uuid fails pg i (\<lambda>u db. db\<lparr>fdb_Segments := filter (\<lambda>g. seg_ID g \<noteq> u) (fdb_Segments db)\<rparr>)"

definition ListSegmentsWithFilter ::
    "(string \<Rightarrow> rawjson \<Rightarrow> bool) \<Rightarrow> golib \<Rightarrow> bool \<Rightarrow> pglib \<Rightarrow> string \<Rightarrow> string \<Rightarrow> string \<Rightarrow> flag_db \<Rightarrow> segment list result" where
  "ListSegmentsWithFilter has_labels lib fails pg orgID projectID labelSelector db =
     (if labelSelector = [] then ListSegments fails pg projectID db
      else if \<not> go_json_valid lib labelSelector then Inl ErrInternal
      else
        (case (pg_uuid pg orgID, pg_jsonb pg labelSelector) of
           (Some org, Some sel) \<Rightarrow>
             by_uuid fails pg projectID (\<lambda>u. Some (sort_key seg_CreatedAt
               (filter (\<lambda>g. seg_OrgID g = org \<and> seg_ProjectID g = u \<and> has_labels sel (seg_Labels g)) (fdb_Segments db))))
         | _ \<Rightarrow> Inl ErrInternal))"

text \<open>\<open>order\<close> sorts by a column and a direction.\<close>

definition ListSegmentsSorted ::
    "(string \<Rightarrow> string \<Rightarrow> segment list \<Rightarrow> segment list) \<Rightarrow> bool \<Rightarrow> pglib \<Rightarrow> string \<Rightarrow> string \<Rightarrow> string \<Rightarrow> flag_db \<Rightarrow>
     segment list result" where
  "ListSegmentsSorted order fails pg projectID sortField sortDir db =
     (let field = (if sortField \<in> {''key'', ''name'', ''created_at'', ''updated_at''} then sortField else ''created_at'');
          dir = (if sortDir = ''ASC'' \<or> sortDir = ''asc'' then ''ASC'' else ''DESC'')
      in by_uuid fails pg projectID (\<lambda>u. Some (map (\<lambda>g. g\<lparr>seg_Labels := None\<rparr>)
           (order field dir (filter (\<lambda>g. seg_ProjectID g = u) (fdb_Segments db))))))"

subsection \<open>Views\<close>

record project_response =
  pv_ID :: string
  pv_Name :: string
  pv_Slug :: string
  pv_CreatedAt :: gotime
  pv_UpdatedAt :: gotime

definition ProjectFromDomain :: "project \<Rightarrow> project_response" where
  "ProjectFromDomain p = \<lparr>pv_ID = prj_ID p, pv_Name = prj_Name p, pv_Slug = prj_Slug p, pv_CreatedAt = prj_CreatedAt p,
     pv_UpdatedAt = prj_UpdatedAt p\<rparr>"

record environment_response =
  ev_ID :: string
  ev_Name :: string
  ev_Slug :: string
  ev_Color :: string
  ev_CreatedAt :: gotime

definition EnvironmentFromDomain :: "environment \<Rightarrow> environment_response" where
  "EnvironmentFromDomain e = \<lparr>ev_ID = env_ID e, ev_Name = env_Name e, ev_Slug = env_Slug e, ev_Color = env_Color e,
     ev_CreatedAt = env_CreatedAt e\<rparr>"

record segment_response =
  sv_ID :: string
  sv_Key :: string
  sv_Name :: string
  sv_Description :: string
  sv_MatchType :: string
  sv_Rules :: "condition list"
  sv_CreatedAt :: gotime
  sv_UpdatedAt :: gotime

definition SegmentFromDomain :: "segment \<Rightarrow> segment_response" where
  "SegmentFromDomain g = \<lparr>sv_ID = seg_ID g, sv_Key = seg_Key g, sv_Name = seg_Name g,
     sv_Description = seg_Description g, sv_MatchType = seg_MatchType g, sv_Rules = seg_Rules g,
     sv_CreatedAt = seg_CreatedAt g, sv_UpdatedAt = seg_UpdatedAt g\<rparr>"

subsection \<open>Handlers\<close>

text \<open>
  What the handlers take from their surroundings beside those of \<open>api_env\<close>: \<open>strings.ToLower\<close>, the JSON of
  the three kinds of rows, and sorting by a column.
\<close>

record project_lib =
  pj_lower :: "string \<Rightarrow> string"
  pj_project :: "project \<Rightarrow> string"
  pj_env :: "environment \<Rightarrow> string"
  pj_segment :: "segment \<Rightarrow> string"
  pj_order :: "string \<Rightarrow> string \<Rightarrow> segment list \<Rightarrow> segment list"

definition row_entry ::
    "http_request \<Rightarrow> string \<Rightarrow> string \<Rightarrow> string \<Rightarrow> string \<Rightarrow> rawjson \<Rightarrow> rawjson \<Rightarrow> audit_entry" where
  "row_entry r rtype projectID action resourceID before after =
     (user_entry r projectID action resourceID before after)\<lparr>au_ResourceType := rtype\<rparr>"

definition page_of_rows :: "('a \<Rightarrow> 'b) \<Rightarrow> (string \<Rightarrow> string) \<Rightarrow> 'a list \<Rightarrow> 'b paginated_response response" where
  "page_of_rows view query xs =
     (let p = ParsePagination query
      in case Paginate (map view xs) p of
           (page, n) \<Rightarrow> Answer StatusOK (NewPaginatedResponse page n (pp_Limit p) (pp_Offset p)))"

definition Project_Create ::
    "api_env \<Rightarrow> project_lib \<Rightarrow> faults \<Rightarrow> http_request \<Rightarrow> (string \<times> string) option \<Rightarrow> flag_db \<Rightarrow>
     project_response response \<times> flag_db" where
  "Project_Create env pl flt r body db =
     (let orgID = GetOrgID r
      in if orgID = [] then (Refuse StatusForbidden ''no organization associated with your account'', db)
         else
           (case body of
              None \<Rightarrow> (Refuse StatusBadRequest ''invalid request body'', db)
            | Some (name, slug) \<Rightarrow>
              (if name = [] then (Refuse StatusBadRequest ''name is required'', db)
               else if \<not> validateStringLength name 255
               then (Refuse StatusBadRequest ''name must be at most 255 characters'', db)
               else
                 (case CreateProject (flt 0) (ae_pg env) (ae_dbnow env) (ae_newID env 0)
                         \<lparr>prj_ID = [], prj_OrgID = orgID, prj_Name = name,
                          prj_Slug = (if slug = [] then slugify (pj_lower pl) name else slug),
                          prj_CreatedAt = 0, prj_UpdatedAt = 0\<rparr> db of
                    (Inl e, db1) \<Rightarrow> (Refuse StatusConflict ''project slug already exists'', db1)
                  | (Inr p, db1) \<Rightarrow>
                      (Answer StatusCreated (ProjectFromDomain p),
                       write_audit env flt 1 (row_entry r ''project'' (prj_ID p) ''project.created'' (prj_ID p) None
                         (Some (pj_project pl p))) db1)))))"

definition Project_List ::
    "api_env \<Rightarrow> faults \<Rightarrow> http_request \<Rightarrow> (string \<Rightarrow> string) \<Rightarrow> flag_db \<Rightarrow>
     project_response paginated_response response" where
  "Project_List env flt r query db =
     (case ListProjects (flt 0) (ae_pg env) (GetOrgID r) db of
        Inl e \<Rightarrow> Refuse StatusInternalServerError ''failed to list projects''
      | Inr ps \<Rightarrow> page_of_rows ProjectFromDomain query ps)"

definition Project_Get :: "api_env \<Rightarrow> faults \<Rightarrow> http_request \<Rightarrow> flag_db \<Rightarrow> project_response response" where
  "Project_Get env flt r db =
     (case verifyProjectOwnership (flt 0) (ae_pg env) r db of
        Inl (code, msg) \<Rightarrow> Refuse code msg
      | Inr p \<Rightarrow> Answer StatusOK (ProjectFromDomain p))"

definition Project_Delete ::
    "api_env \<Rightarrow> project_lib \<Rightarrow> faults \<Rightarrow> http_request \<Rightarrow> flag_db \<times> api_keys \<Rightarrow> unit response \<times> flag_db \<times> api_keys" where
  "Project_Delete env pl flt r s =
     (case verifyProjectOwnership (flt 0) (ae_pg env) r (fst s) of
        Inl (code, msg) \<Rightarrow> (Refuse code msg, s)
      | Inr p \<Rightarrow>
        (case DeleteProject (flt 1) (ae_pg env) (prj_ID p) s of
           (Inl e, s1) \<Rightarrow> (Refuse StatusInternalServerError ''failed to delete project'', s1)
         | (Inr _, db1, keys1) \<Rightarrow>
             (Answer StatusNoContent (),
              write_audit env flt 2 (row_entry r ''project'' (prj_ID p) ''project.deleted'' (prj_ID p)
                (Some (pj_project pl p)) None) db1, keys1)))"

definition Project_Update ::
    "api_env \<Rightarrow> project_lib \<Rightarrow> faults \<Rightarrow> http_request \<Rightarrow> (string \<times> string) option \<Rightarrow> flag_db \<Rightarrow>
     project_response response \<times> flag_db" where
  "Project_Update env pl flt r body db =
     (case verifyProjectOwnership (flt 0) (ae_pg env) r db of
        Inl (code, msg) \<Rightarrow> (Refuse code msg, db)
      | Inr p \<Rightarrow>
        (case body of
           None \<Rightarrow> (Refuse StatusBadRequest ''invalid request body'', db)
         | Some (name, slug) \<Rightarrow>
           (if name = [] then (Refuse StatusBadRequest ''name is required'', db)
            else if \<not> validateStringLength name 255
            then (Refuse StatusBadRequest ''name must be at most 255 characters'', db)
            else
              (let p1 = p\<lparr>prj_Name := name, prj_Slug := (if slug = [] then prj_Slug p else slug)\<rparr>
               in case UpdateProject (flt 1) (ae_pg env) (ae_dbnow env) p1 db of
                    (Inl e, db1) \<Rightarrow> (Refuse StatusConflict ''project slug already exists'', db1)
                  | (Inr _, db1) \<Rightarrow>
                      (Answer StatusOK (ProjectFromDomain p1),
                       write_audit env flt 2 (row_entry r ''project'' (prj_ID p) ''project.updated'' (prj_ID p)
                         (Some (pj_project pl p)) (Some (pj_project pl p1))) db1)))))"

definition Environment_Create ::
    "api_env \<Rightarrow> project_lib \<Rightarrow> faults \<Rightarrow> http_request \<Rightarrow> (string \<times> string \<times> string) option \<Rightarrow> flag_db \<Rightarrow>
     environment_response response \<times> flag_db" where
  "Environment_Create env pl flt r body db =
     (let projectID = URLParam r ''projectID''
      in case verifyProjectOwnership (flt 0) (ae_pg env) r db of
        Inl (code, msg) \<Rightarrow> (Refuse code msg, db)
      | Inr p \<Rightarrow>
        (case body of
           None \<Rightarrow> (Refuse StatusBadRequest ''invalid request body'', db)
         | Some (name, slug, color) \<Rightarrow>
           (if name = [] then (Refuse StatusBadRequest ''name is required'', db)
            else
              (case CreateEnvironment (flt 1) (ae_pg env) (ae_dbnow env) (ae_newID env 1)
                      \<lparr>env_ID = [], env_ProjectID = projectID, env_OrgID = GetOrgID r, env_Name = name,
                       env_Slug = (if slug = [] then slugify (pj_lower pl) name else slug),
                       env_Color = (if color = [] then ''#6B7280'' else color), env_CreatedAt = 0, env_UpdatedAt = 0\<rparr> db of
                 (Inl e, db1) \<Rightarrow> (Refuse StatusConflict ''environment slug already exists in this project'', db1)
               | (Inr e, db1) \<Rightarrow>
                   (Answer StatusCreated (EnvironmentFromDomain e),
                    write_audit env flt 2 (row_entry r ''environment'' projectID ''environment.created'' (env_ID e) None
                      (Some (pj_env pl e))) db1)))))"

definition Environment_List ::
    "api_env \<Rightarrow> faults \<Rightarrow> http_request \<Rightarrow> (string \<Rightarrow> string) \<Rightarrow> flag_db \<Rightarrow>
     environment_response paginated_response response" where
  "Environment_List env flt r query db =
     (case verifyProjectOwnership (flt 0) (ae_pg env) r db of
        Inl (code, msg) \<Rightarrow> Refuse code msg
      | Inr p \<Rightarrow>
        (case ListEnvironments (flt 1) (ae_pg env) (URLParam r ''projectID'') db of
           Inl e \<Rightarrow> Refuse StatusInternalServerError ''failed to list environments''
         | Inr es \<Rightarrow> page_of_rows EnvironmentFromDomain query es))"

text \<open>The environment is taken from the path as it is.\<close>

definition Environment_Delete ::
    "api_env \<Rightarrow> faults \<Rightarrow> http_request \<Rightarrow> flag_db \<times> api_keys \<Rightarrow> unit response \<times> flag_db \<times> api_keys" where
  "Environment_Delete env flt r s =
     (case verifyProjectOwnership (flt 0) (ae_pg env) r (fst s) of
        Inl (code, msg) \<Rightarrow> (Refuse code msg, s)
      | Inr p \<Rightarrow>
        (case DeleteEnvironment (flt 1) (ae_pg env) (URLParam r ''envID'') s of
           (Inl e, s1) \<Rightarrow> (Refuse StatusInternalServerError ''failed to delete environment'', s1)
         | (Inr _, db1, keys1) \<Rightarrow>
             (Answer StatusNoContent (),
              write_audit env flt 2 (row_entry r ''environment'' (URLParam r ''projectID'') ''environment.deleted''
                (URLParam r ''envID'') None None) db1, keys1)))"

definition Environment_Update ::
    "api_env \<Rightarrow> project_lib \<Rightarrow> faults \<Rightarrow> http_request \<Rightarrow> (string \<times> string \<times> string) option \<Rightarrow> flag_db \<Rightarrow>
     environment_response response \<times> flag_db" where
  "Environment_Update env pl flt r body db =
     (case verifyProjectOwnership (flt 0) (ae_pg env) r db of
        Inl (code, msg) \<Rightarrow> (Refuse code msg, db)
      | Inr project \<Rightarrow>
        (case GetEnvironment (flt 1) (ae_pg env) (URLParam r ''envID'') db of
           Inl e \<Rightarrow>
             (if e = ErrNotFound then (Refuse StatusNotFound ''environment not found'', db)
              else (Refuse StatusInternalServerError ''failed to get environment'', db))
         | Inr e \<Rightarrow>
           (if env_ProjectID e \<noteq> prj_ID project then (Refuse StatusNotFound ''environment not found'', db)
            else
              (case body of
                 None \<Rightarrow> (Refuse StatusBadRequest ''invalid request body'', db)
               | Some (name, slug, color) \<Rightarrow>
                 (if name = [] then (Refuse StatusBadRequest ''name is required'', db)
                  else if \<not> validateStringLength name 100
                  then (Refuse StatusBadRequest ''name must be at most 100 characters'', db)
                  else
                    (let e1 = e\<lparr>env_Name := name, env_Slug := (if slug = [] then env_Slug e else slug),
                               env_Color := (if color = [] then env_Color e else color)\<rparr>
                     in case UpdateEnvironment (flt 2) (ae_pg env) (ae_dbnow env) e1 db of
                          (Inl err, db1) \<Rightarrow>
                            (Refuse StatusConflict ''environment slug already exists in this project'', db1)
                        | (Inr _, db1) \<Rightarrow>
                            (Answer StatusOK (EnvironmentFromDomain e1),
                             write_audit env flt 3 (row_entry r ''environment'' (env_ProjectID e) ''environment.updated''
                               (env_ID e) (Some (pj_env pl e)) (Some (pj_env pl e1))) db1)))))))"

text \<open>Key, name, description, match type and rules.\<close>

type_synonym create_segment = "string \<times> string \<times> string \<times> string \<times> condition list"

definition Segment_Create ::
    "api_env \<Rightarrow> project_lib \<Rightarrow> faults \<Rightarrow> http_request \<Rightarrow> create_segment option \<Rightarrow> flag_db \<Rightarrow>
     segment_response response \<times> flag_db" where
  "Segment_Create env pl flt r body db =
     (let projectID = URLParam r ''projectID''
      in case verifyProjectOwnership (flt 0) (ae_pg env) r db of
        Inl (code, msg) \<Rightarrow> (Refuse code msg, db)
      | Inr p \<Rightarrow>
        (case body of
           None \<Rightarrow> (Refuse StatusBadRequest ''invalid request body'', db)
         | Some (key, name, description, matchType, rules) \<Rightarrow>
           (if key = [] \<or> name = [] then (Refuse StatusBadRequest ''key and name are required'', db)
            else if \<not> FlagKeyRe key
            then (Refuse StatusBadRequest
                    ''key must match pattern: lowercase alphanumeric, hyphens, underscores (max 128 chars)'', db)
            else if \<not> validateStringLength name 255
            then (Refuse StatusBadRequest ''name must be at most 255 characters'', db)
            else if \<not> validateStringLength description 2000
            then (Refuse StatusBadRequest ''description must be at most 2000 characters'', db)
            else
              (case CreateSegment (flt 1) (ae_pg env) (ae_dbnow env) (ae_newID env 1)
                      \<lparr>seg_ID = [], seg_ProjectID = projectID, seg_OrgID = GetOrgID r, seg_Key = key, seg_Name = name,
                       seg_Description = description, seg_MatchType = (if matchType = [] then MatchAll else matchType),
                       seg_Rules = rules, seg_Labels = None, seg_CreatedAt = 0, seg_UpdatedAt = 0\<rparr> db of
                 (Inl e, db1) \<Rightarrow> (Refuse StatusConflict ''segment key already exists in this project'', db1)
               | (Inr g, db1) \<Rightarrow>
                   (Answer StatusCreated (SegmentFromDomain g),
                    write_audit env flt 2 (row_entry r ''segment'' projectID ''segment.created'' (seg_ID g) None
                      (Some (pj_segment pl g))) db1)))))"

definition Segment_List ::
    "api_env \<Rightarrow> project_lib \<Rightarrow> faults \<Rightarrow> http_request \<Rightarrow> (string \<Rightarrow> string) \<Rightarrow> flag_db \<Rightarrow>
     segment_response paginated_response response" where
  "Segment_List env pl flt r query db =
     (let projectID = URLParam r ''projectID''
      in case verifyProjectOwnership (flt 0) (ae_pg env) r db of
        Inl (code, msg) \<Rightarrow> Refuse code msg
      | Inr p \<Rightarrow>
        (case (if query ''label_selector'' \<noteq> []
               then ListSegmentsWithFilter (ae_labels env) (ae_lib env) (flt 1) (ae_pg env) (GetOrgID r) projectID
                      (query ''label_selector'') db
               else
                 (case ParseSort query ''segments'' of
                    (field, dir) \<Rightarrow>
                      if field \<noteq> ''created_at'' \<or> dir \<noteq> ''DESC''
                      then ListSegmentsSorted (pj_order pl) (flt 1) (ae_pg env) projectID field dir db
                      else ListSegments (flt 1) (ae_pg env) projectID db)) of
           Inl e \<Rightarrow> Refuse StatusInternalServerError ''failed to list segments''
         | Inr gs \<Rightarrow> page_of_rows SegmentFromDomain query gs))"

text \<open>The segment of the path, under the project of the path.\<close>

definition own_segment :: "api_env \<Rightarrow> faults \<Rightarrow> http_request \<Rightarrow> flag_db \<Rightarrow> (nat \<times> string) + segment" where
  "own_segment env flt r db =
     (case verifyProjectOwnership (flt 0) (ae_pg env) r db of
        Inl e \<Rightarrow> Inl e
      | Inr p \<Rightarrow>
        (case GetSegment (flt 1) (ae_pg env) (URLParam r ''projectID'') (URLParam r ''segmentKey'') db of
           Inl e \<Rightarrow> Inl (StatusNotFound, ''segment not found'')
         | Inr g \<Rightarrow> Inr g))"

definition Segment_Get :: "api_env \<Rightarrow> faults \<Rightarrow> http_request \<Rightarrow> flag_db \<Rightarrow> segment_response response" where
  "Segment_Get env flt r db =
     (case own_segment env flt r db of
        Inl (code, msg) \<Rightarrow> Refuse code msg
      | Inr g \<Rightarrow> Answer StatusOK (SegmentFromDomain g))"

record update_segment =
  sq_Name :: "string option"
  sq_Description :: "string option"
  sq_MatchType :: "string option"
  sq_Rules :: "condition list option"

definition with_default :: "'a option \<Rightarrow> 'a \<Rightarrow> 'a" where
  "with_default o1 d = (case o1 of None \<Rightarrow> d | Some x \<Rightarrow> x)"

text \<open>The state before is the JSON of the segment after the request changed it.\<close>

definition Segment_Update ::
    "api_env \<Rightarrow> project_lib \<Rightarrow> faults \<Rightarrow> http_request \<Rightarrow> update_segment option \<Rightarrow> flag_db \<Rightarrow>
     segment_response response \<times> flag_db" where
  "Segment_Update env pl flt r body db =
     (case own_segment env flt r db of
        Inl (code, msg) \<Rightarrow> (Refuse code msg, db)
      | Inr g \<Rightarrow>
        (case body of
           None \<Rightarrow> (Refuse StatusBadRequest ''invalid request body'', db)
         | Some req \<Rightarrow>
           (let g1 = g\<lparr>seg_Name := with_default (sq_Name req) (seg_Name g),
                      seg_Description := with_default (sq_Description req) (seg_Description g),
                      seg_MatchType := with_default (sq_MatchType req) (seg_MatchType g),
                      seg_Rules := with_default (sq_Rules req) (seg_Rules g)\<rparr>
            in case UpdateSegment (flt 2) (ae_pg env) (ae_now env) g1 db of
                 (Inl e, db1) \<Rightarrow> (Refuse StatusInternalServerError ''failed to update segment'', db1)
               | (Inr _, db1) \<Rightarrow>
                   (Answer StatusOK (SegmentFromDomain g1),
                    write_audit env flt 3 (row_entry r ''segment'' (URLParam r ''projectID'') ''segment.updated'' (seg_ID g)
                      (Some (pj_segment pl g1)) (Some (pj_segment pl g1))) db1))))"

definition Segment_Delete ::
    "api_env \<Rightarrow> project_lib \<Rightarrow> faults \<Rightarrow> http_request \<Rightarrow> flag_db \<Rightarrow> unit response \<times> flag_db" where
  "Segment_Delete env pl flt r db =
     (case own_segment env flt r db of
        Inl (code, msg) \<Rightarrow> (Refuse code msg, db)
      | Inr g \<Rightarrow>
        (case DeleteSegment (flt 2) (ae_pg env) (seg_ID g) db of
           (Inl e, db1) \<Rightarrow> (Refuse StatusInternalServerError ''failed to delete segment'', db1)
         | (Inr _, db1) \<Rightarrow>
             (Answer StatusNoContent (),
              write_audit env flt 3 (row_entry r ''segment'' (URLParam r ''projectID'') ''segment.deleted'' (seg_ID g)
                (Some (pj_segment pl g)) None) db1)))"

end
