(* ===== verification/ProjectLaws.thy ===== *)
theory ProjectLaws
  imports Projects FlagIsolation
begin

text \<open>
  Who may change projects, environments and segments, and what of it the audit trail shows.
\<close>

lemma write_audit_keeps_rows [simp]:
  "fdb_Segments (write_audit env flt n e db) = fdb_Segments db"
  "fdb_Projects (write_audit env flt n e db) = fdb_Projects db"
  "fdb_Envs (write_audit env flt n e db) = fdb_Envs db"
  "fdb_States (write_audit env flt n e db) = fdb_States db"
  by (simp_all add: write_audit_def)

subsection \<open>Deleting an environment\<close>

text \<open>
  An environment is deleted without a look at whose it is.  Whoever owns some project can name any
  environment in the path: its row, the states of the flags in it and its API keys are gone afterwards.
\<close>

theorem environment_delete_crosses_tenants:
  assumes "verifyProjectOwnership (flt 0) (ae_pg env) r db = Inr p" and "\<not> flt 1"
    and "pg_uuid (ae_pg env) (URLParam r ''envID'') = Some e"
  shows "\<exists>db' keys'. Environment_Delete env flt r (db, keys) = (Answer StatusNoContent (), db', keys') \<and>
    e \<notin> env_ID ` set (fdb_Envs db') \<and> e \<notin> state_EnvID ` set (fdb_States db') \<and> e \<notin> ak_EnvID ` set keys'"
  using assms by (auto simp: Environment_Delete_def DeleteEnvironment_def drop_states_def)

definition two_tenants :: flag_db where
  "two_tenants = demo_db\<lparr>fdb_Orgs := [''o'', ''x''],
     fdb_Projects := [demo_project, demo_project\<lparr>prj_ID := ''q'', prj_OrgID := ''x''\<rparr>]\<rparr>"

definition foreign_delete :: http_request where
  "foreign_delete = (demo_call ''x'' RoleAdmin)\<lparr>req_URLParams := [(''projectID'', ''q''), (''envID'', ''e'')]\<rparr>"

theorem environment_delete_crosses_tenants_witness:
  "\<exists>db' keys'. Environment_Delete demo_env (\<lambda>n. False) foreign_delete (two_tenants, [demo_key]) =
       (Answer StatusNoContent (), db', keys') \<and>
     ''e'' \<notin> env_ID ` set (fdb_Envs db') \<and> ''e'' \<notin> state_EnvID ` set (fdb_States db') \<and> ''e'' \<notin> ak_EnvID ` set keys'"
  by (rule environment_delete_crosses_tenants [where p = "demo_project\<lparr>prj_ID := ''q'', prj_OrgID := ''x''\<rparr>"])
    (simp_all add: verifyProjectOwnership_def foreign_delete_def two_tenants_def GetProject_def by_uuid_def URLParam_def
      GetOrgID_def demo_defs)

subsection \<open>Deleting a project\<close>

lemma audit_needs_project:
  assumes "au_ProjectID entry = Some p" "pg_uuid pg p = Some u" "u \<notin> set projects"
  shows "snd (CreateAuditEntry m key flt pg orgs projects now dbnow newID entry log) = log"
proof -
  have "audit_row pg orgs projects dbnow newID (entry\<lparr>au_CreatedAt := t, au_IntegrityHash := h\<rparr>) = None" for t h
    using assms by (auto simp: audit_row_def pg_uuid_null_def split: option.split)
  then show ?thesis
    by (simp add: CreateAuditEntry_def Let_def split: option.split)
qed

text \<open>
  The deletion of a project leaves no trace in the audit trail.  The entry is written after the project is
  gone and names it, which the foreign key refuses; and the entries there were lose their project.
\<close>

theorem project_deletion_unaudited:
  assumes "Project_Delete env pl flt r (db, keys) = (Answer code u, db', keys')" and "uuid_canonical (ae_pg env)"
  shows "map au_ID (fdb_Audit db') = map au_ID (fdb_Audit db) \<and>
    (\<forall>a\<in>set (fdb_Audit db'). au_ProjectID a \<noteq> pg_uuid (ae_pg env) (URLParam r ''projectID''))"
proof -
  let ?pg = "ae_pg env"
  obtain p where p: "verifyProjectOwnership (flt 0) ?pg r db = Inr p"
    using assms by (cases "verifyProjectOwnership (flt 0) ?pg r db") (auto simp: Project_Delete_def)
  obtain db1 where d: "DeleteProject (flt 1) ?pg (prj_ID p) (db, keys) = (Inr (), db1, keys')"
      "db' = write_audit env flt 2 (row_entry r ''project'' (prj_ID p) ''project.deleted'' (prj_ID p) (Some (pj_project pl p)) None) db1"
    using assms p by (auto simp: Project_Delete_def split: prod.splits sum.splits)
  obtain x where x: "pg_uuid ?pg (prj_ID p) = Some x"
      "fdb_Projects db1 = filter (\<lambda>p. prj_ID p \<noteq> x) (fdb_Projects db)"
      "fdb_Audit db1 = map (\<lambda>a. if au_ProjectID a = Some x then a\<lparr>au_ProjectID := None\<rparr> else a) (fdb_Audit db)"
    using d(1) by (auto simp: DeleteProject_def Let_def drop_states_def split: option.splits if_splits)
  have audit: "fdb_Audit db' = fdb_Audit db1"
    unfolding d(2) write_audit_def
    by (simp, rule audit_needs_project [of _ "prj_ID p", OF _ x(1)]) (auto simp: row_entry_def user_entry_def x(2))
  have "pg_uuid ?pg (URLParam r ''projectID'') = Some (prj_ID p)"
    using p by (auto simp: verifyProjectOwnership_def Let_def GetProject_def by_uuid_def find_Some_iff
        split: if_splits sum.splits option.splits)
  moreover from this have "x = prj_ID p" using assms(2) x(1) by (auto simp: uuid_canonical_def)
  moreover have "map au_ID (fdb_Audit db1) = map au_ID (fdb_Audit db)" unfolding x(3) by simp
  moreover have "\<forall>a\<in>set (fdb_Audit db1). au_ProjectID a \<noteq> Some x" unfolding x(3) by auto
  ultimately show ?thesis by (simp add: audit)
qed

theorem project_deletion_unaudited_witness:
  "\<exists>db' keys' projectless. Project_Delete demo_env projectless (\<lambda>n. False) (demo_call ''o'' RoleOwner) (demo_db, [demo_key]) =
       (Answer StatusNoContent (), db', keys') \<and> fdb_Audit db' = []"
proof -
  define pl :: project_lib where "pl = \<lparr>pj_lower = id, pj_project = (\<lambda>p. ''{}''), pj_env = (\<lambda>p. ''{}''),
    pj_segment = (\<lambda>p. ''{}''), pj_order = (\<lambda>f d xs. xs)\<rparr>"
  obtain db' keys' where d: "Project_Delete demo_env pl (\<lambda>n. False) (demo_call ''o'' RoleOwner) (demo_db, [demo_key]) =
       (Answer StatusNoContent (), db', keys')"
    by (simp add: Project_Delete_def DeleteProject_def Let_def verifyProjectOwnership_def GetProject_def by_uuid_def
        URLParam_def GetOrgID_def demo_defs)
  have "map au_ID (fdb_Audit db') = map au_ID (fdb_Audit demo_db)"
    using project_deletion_unaudited [OF d] by (simp add: demo_env_def demo_canonical)
  with d show ?thesis by (auto simp: demo_defs)
qed


subsection \<open>Segments of other organizations\<close>

definition seg_keys_ok :: "pglib \<Rightarrow> flag_db \<Rightarrow> bool" where
  "seg_keys_ok pg db \<longleftrightarrow> distinct (map seg_ID (fdb_Segments db)) \<and> distinct (map prj_ID (fdb_Projects db)) \<and>
     (\<forall>g\<in>set (fdb_Segments db). pg_uuid pg (seg_ID g) = Some (seg_ID g))"

definition segments_of :: "string \<Rightarrow> flag_db \<Rightarrow> segment list" where
  "segments_of org db = filter (\<lambda>g. owned_by org db (seg_ProjectID g)) (fdb_Segments db)"

text \<open>A call keeps the projects, the keys and the segments of an organization.\<close>

definition spares_segments :: "pglib \<Rightarrow> string \<Rightarrow> flag_db \<Rightarrow> flag_db \<Rightarrow> bool" where
  "spares_segments pg org db db' \<longleftrightarrow> fdb_Projects db' = fdb_Projects db \<and> seg_keys_ok pg db' \<and>
     segments_of org db' = segments_of org db"

lemma spares_refl: "seg_keys_ok pg db \<Longrightarrow> spares_segments pg org db db"
  by (simp add: spares_segments_def)

lemma spares_audit: "spares_segments pg org db db1 \<Longrightarrow> spares_segments pg org db (write_audit env flt n e db1)"
  by (auto simp: spares_segments_def seg_keys_ok_def segments_of_def owned_by_def)

lemma not_owned:
  assumes "verifyProjectOwnership fl pg r db = Inr p" "GetOrgID r \<noteq> org" "seg_keys_ok pg db"
    "pg_uuid pg (URLParam r ''projectID'') = Some u"
  shows "\<not> owned_by org db u"
proof -
  have "owned_by (GetOrgID r) db u" using verifyProjectOwnership_Inr [OF assms(1)] assms(4) by auto
  then show ?thesis using assms(2,3) by (auto simp: owned_by_def seg_keys_ok_def distinct_map inj_on_def)
qed

text \<open>A change of segments that leaves the rows of the organization in place.\<close>

lemma spares_filter:
  assumes "seg_keys_ok pg db" "g \<in> set (fdb_Segments db)" "\<not> owned_by org db (seg_ProjectID g)"
  shows "spares_segments pg org db (db\<lparr>fdb_Segments := filter (\<lambda>x. seg_ID x \<noteq> seg_ID g) (fdb_Segments db)\<rparr>)"
proof -
  have "x = g" if "x \<in> set (fdb_Segments db)" "seg_ID x = seg_ID g" for x
    using that assms(1,2) by (auto simp: seg_keys_ok_def distinct_map inj_on_def)
  then have "filter (\<lambda>x. seg_ID x \<noteq> seg_ID g \<and> owned_by org db (seg_ProjectID x)) (fdb_Segments db) = segments_of org db"
    unfolding segments_of_def using assms(3) by (intro filter_cong) auto
  then show ?thesis
    using assms(1) by (auto simp: spares_segments_def seg_keys_ok_def segments_of_def owned_by_def distinct_map_filter conj_commute)
qed

lemma spares_map:
  assumes "seg_keys_ok pg db" "g \<in> set (fdb_Segments db)" "\<not> owned_by org db (seg_ProjectID g)"
    and f: "\<And>x. seg_ID (f x) = seg_ID x" "\<And>x. seg_ProjectID (f x) = seg_ProjectID x"
  shows "spares_segments pg org db (db\<lparr>fdb_Segments := map (\<lambda>x. if seg_ID x = seg_ID g then f x else x) (fdb_Segments db)\<rparr>)"
proof -
  let ?f = "\<lambda>x. if seg_ID x = seg_ID g then f x else x"
  have ids: "seg_ID (?f x) = seg_ID x" "seg_ProjectID (?f x) = seg_ProjectID x" for x using f by auto
  have same: "x = g" if "x \<in> set (fdb_Segments db)" "seg_ID x = seg_ID g" for x
    using that assms(1,2) by (auto simp: seg_keys_ok_def distinct_map inj_on_def)
  have "filter (\<lambda>x. owned_by org db (seg_ProjectID x)) (map ?f (fdb_Segments db)) =
      map ?f (segments_of org db)"
    by (simp add: filter_map comp_def ids segments_of_def)
  also have "\<dots> = segments_of org db"
    using same assms(3) by (intro map_idI) (auto simp: segments_of_def)
  finally have "filter (\<lambda>x. owned_by org db (seg_ProjectID x)) (map ?f (fdb_Segments db)) = segments_of org db" .
  moreover have "pg_uuid pg (seg_ID y) = Some (seg_ID y)" if y: "y \<in> set (map ?f (fdb_Segments db))" for y
  proof -
    from y obtain x where "x \<in> set (fdb_Segments db)" "y = ?f x" by auto
    with assms(1) ids show ?thesis by (simp add: seg_keys_ok_def)
  qed
  moreover have "map seg_ID (map ?f (fdb_Segments db)) = map seg_ID (fdb_Segments db)" by (simp add: ids)
  ultimately show ?thesis
    using assms(1) by (simp add: spares_segments_def seg_keys_ok_def segments_of_def owned_by_def del: map_map)
qed

lemma own_segment_row:
  assumes "own_segment env flt r db = Inr g" "seg_keys_ok (ae_pg env) db" "GetOrgID r \<noteq> org"
  obtains row where "row \<in> set (fdb_Segments db)" "g = row\<lparr>seg_Labels := None\<rparr>" "\<not> owned_by org db (seg_ProjectID row)"
    "pg_uuid (ae_pg env) (seg_ID g) = Some (seg_ID row)"
proof -
  obtain p where p: "verifyProjectOwnership (flt 0) (ae_pg env) r db = Inr p"
    and g: "GetSegment (flt 1) (ae_pg env) (URLParam r ''projectID'') (URLParam r ''segmentKey'') db = Inr g"
    using assms(1) by (auto simp: own_segment_def split: sum.splits)
  from g obtain u row where row: "pg_uuid (ae_pg env) (URLParam r ''projectID'') = Some u" "row \<in> set (fdb_Segments db)"
      "seg_ProjectID row = u" "g = row\<lparr>seg_Labels := None\<rparr>"
    by (auto simp: GetSegment_def by_uuid_def split: if_splits option.splits dest: find_SomeD)
  moreover have "\<not> owned_by org db u" using not_owned [OF p assms(3,2) row(1)] .
  ultimately show ?thesis using that assms(2) by (auto simp: seg_keys_ok_def)
qed

datatype segment_call =
    CallSegCreate "create_segment option" | CallSegUpdate "update_segment option" | CallSegDelete

definition run_segment_call :: "api_env \<times> project_lib \<times> faults \<times> http_request \<times> segment_call \<Rightarrow> flag_db \<Rightarrow> flag_db" where
  "run_segment_call x db =
     (case x of (env, pl, flt, r, call) \<Rightarrow>
        (case call of
           CallSegCreate body \<Rightarrow> snd (Segment_Create env pl flt r body db)
         | CallSegUpdate body \<Rightarrow> snd (Segment_Update env pl flt r body db)
         | CallSegDelete \<Rightarrow> snd (Segment_Delete env pl flt r db)))"

lemma spares_create:
  assumes ok: "seg_keys_ok (ae_pg env) db" "GetOrgID r \<noteq> org"
    and new: "pg_uuid (ae_pg env) (ae_newID env 1) = Some (ae_newID env 1)"
  shows "spares_segments (ae_pg env) org db (snd (Segment_Create env pl flt r body db))"
proof -
  have CreateSegment: "spares_segments (ae_pg env) org db db1"
    if "CreateSegment fl (ae_pg env) now (ae_newID env 1) g db = (res, db1)" "verifyProjectOwnership (flt 0) (ae_pg env) r db = Inr p"
      "seg_ProjectID g = URLParam r ''projectID''" for fl now g res db1 p
  proof (cases res)
    case (Inl e)
    with that(1) ok show ?thesis
      by (auto simp: CreateSegment_def Let_def intro: spares_refl split: option.splits if_splits)
  next
    case (Inr g')
    with that(1) obtain u o1 where c: "pg_uuid (ae_pg env) (seg_ProjectID g) = Some u"
        "db1 = db\<lparr>fdb_Segments := fdb_Segments db @ [g\<lparr>seg_ID := ae_newID env 1, seg_CreatedAt := now,
           seg_UpdatedAt := now, seg_ProjectID := u, seg_OrgID := o1, seg_Labels := Some ''{}''\<rparr>]\<rparr>"
        "\<forall>x\<in>set (fdb_Segments db). seg_ID x \<noteq> ae_newID env 1"
      by (auto simp: CreateSegment_def Let_def split: option.splits if_splits)
    have "\<not> owned_by org db u" using not_owned [OF that(2) ok(2,1)] c(1) that(3) by simp
    then show ?thesis
      using ok(1) new c by (auto simp: spares_segments_def seg_keys_ok_def segments_of_def owned_by_def)
  qed
  show ?thesis
    using CreateSegment ok
    by (auto simp: Segment_Create_def Let_def intro!: spares_refl spares_audit split: sum.split option.split prod.split)
qed

lemma spares_update:
  assumes "seg_keys_ok (ae_pg env) db" "GetOrgID r \<noteq> org"
  shows "spares_segments (ae_pg env) org db (snd (Segment_Update env pl flt r body db))"
proof -
  have "spares_segments (ae_pg env) org db db1"
    if u: "UpdateSegment fl (ae_pg env) now g1 db = (res, db1)" and o: "own_segment env flt r db = Inr g" and i: "seg_ID g1 = seg_ID g"
    for fl now g1 g res db1
  proof -
    obtain row where row: "row \<in> set (fdb_Segments db)" "\<not> owned_by org db (seg_ProjectID row)"
        "pg_uuid (ae_pg env) (seg_ID g1) = Some (seg_ID row)"
      using own_segment_row [OF o assms] i by metis
    let ?f = "\<lambda>s. s\<lparr>seg_Name := seg_Name g1, seg_Description := seg_Description g1, seg_MatchType := seg_MatchType g1,
      seg_Rules := seg_Rules g1, seg_UpdatedAt := now\<rparr>"
    have "spares_segments (ae_pg env) org db
        (db\<lparr>fdb_Segments := map (\<lambda>x. if seg_ID x = seg_ID row then ?f x else x) (fdb_Segments db)\<rparr>)"
      using assms(1) row(1,2) by (rule spares_map) simp_all
    with u row(3) show ?thesis
      using spares_refl [OF assms(1)] by (auto simp: UpdateSegment_def split: if_splits)
  qed
  note upd = this
  show ?thesis
    unfolding Segment_Update_def Let_def
    by (auto intro!: spares_refl [OF assms(1)] spares_audit split: sum.split option.split prod.split elim!: upd)
qed

lemma spares_delete:
  assumes "seg_keys_ok (ae_pg env) db" "GetOrgID r \<noteq> org"
  shows "spares_segments (ae_pg env) org db (snd (Segment_Delete env pl flt r db))"
proof -
  have "spares_segments (ae_pg env) org db db1"
    if u: "DeleteSegment fl (ae_pg env) (seg_ID g) db = (res, db1)" and o: "own_segment env flt r db = Inr g" for fl g res db1
  proof -
    obtain row where row: "row \<in> set (fdb_Segments db)" "\<not> owned_by org db (seg_ProjectID row)"
        "pg_uuid (ae_pg env) (seg_ID g) = Some (seg_ID row)"
      using own_segment_row [OF o assms] by metis
    from spares_filter [OF assms(1) row(1,2)] u row(3) show ?thesis
      using spares_refl [OF assms(1)] by (auto simp: DeleteSegment_def exec_uuid_def exec_def split: if_splits)
  qed
  note del = this
  show ?thesis
    unfolding Segment_Delete_def
    by (auto intro!: spares_refl [OF assms(1)] spares_audit split: sum.split prod.split elim!: del)
qed

definition foreign_segment_call :: "pglib \<Rightarrow> string \<Rightarrow> api_env \<times> project_lib \<times> faults \<times> http_request \<times> segment_call \<Rightarrow> bool" where
  "foreign_segment_call pg org x \<longleftrightarrow>
     (case x of (env, pl, flt, r, call) \<Rightarrow> ae_pg env = pg \<and> GetOrgID r \<noteq> org \<and>
        pg_uuid pg (ae_newID env 1) = Some (ae_newID env 1))"

text \<open>
  C33: the segments of an organization are its own.  No sequence of creations, updates and deletions of segments
  by callers of other organizations, with any faults of the database, changes a segment of a project of the
  organization.
\<close>

theorem segments_isolated:
  assumes "seg_keys_ok pg db" and "\<forall>x\<in>set calls. foreign_segment_call pg org x"
  shows "segments_of org (fold run_segment_call calls db) = segments_of org db"
  using assms
proof (induction calls arbitrary: db)
  case (Cons x calls)
  obtain env pl flt r call where x: "x = (env, pl, flt, r, call)" by (cases x) auto
  have f: "ae_pg env = pg" "GetOrgID r \<noteq> org" "pg_uuid (ae_pg env) (ae_newID env 1) = Some (ae_newID env 1)"
    using Cons.prems(2) by (simp_all add: x foreign_segment_call_def)
  have "spares_segments pg org db (run_segment_call x db)"
    using Cons.prems(1) f
    by (cases call) (auto simp: run_segment_call_def x intro: spares_create spares_update spares_delete)
  then have "seg_keys_ok pg (run_segment_call x db)" "segments_of org (run_segment_call x db) = segments_of org db"
    by (simp_all add: spares_segments_def)
  with Cons show ?case by simp
qed simp

theorem segments_isolated_witness:
  "segments_of ''o'' (fold run_segment_call
     [(demo_env, undefined, \<lambda>n. False, demo_call ''x'' RoleOwner, CallSegDelete),
      (demo_env, undefined, \<lambda>n. n = 2, demo_call ''x'' RoleOwner, CallSegUpdate None)] demo_db) = segments_of ''o'' demo_db"
  by (rule segments_isolated [of demo_pg])
    (simp_all add: seg_keys_ok_def foreign_segment_call_def GetOrgID_def demo_defs)

end
