(* ===== verification/Payments.thy ===== *)
theory Payments
  imports GoPrelude "HOL-Library.Char_ord"
begin

text \<open>
  The payment gateways, \<open>server/internal/payment\<close>: the registry, the PayU provider, whose hashes are computed here,
  and the Stripe provider around the client of Stripe, whose calls and signature check are parameters.
  \<open>map[string]string\<close> values are functions that give the empty string for a missing key.
\<close>

subsection \<open>Requests, results and events\<close>

type_synonym strmap = "string \<Rightarrow> string"

record checkout_request =
  cr_OrgID :: string
  cr_UserEmail :: string
  cr_UserName :: string
  cr_Plan :: string
  cr_Amount :: string
  cr_SuccessURL :: string
  cr_CancelURL :: string
  cr_Metadata :: strmap

record checkout_result =
  cs_Gateway :: string
  cs_SessionID :: string
  cs_RedirectURL :: string
  cs_GatewayData :: "(string, string) gomap"

record webhook_event =
  we_Type :: string
  we_GatewayEventID :: string
  we_CustomerID :: string
  we_SubscriptionID :: string
  we_Status :: string
  we_Plan :: string
  we_PeriodStart :: gotime
  we_PeriodEnd :: gotime
  we_Metadata :: strmap

record subscription_detail =
  sd_ID :: string
  sd_CustomerID :: string
  sd_Status :: string
  sd_CancelAtPeriodEnd :: bool

abbreviation "EventCheckoutCompleted \<equiv> ''checkout.completed''"
abbreviation "EventSubscriptionUpdated \<equiv> ''subscription.updated''"
abbreviation "EventSubscriptionCanceled \<equiv> ''subscription.canceled''"
abbreviation "EventPaymentFailed \<equiv> ''payment.failed''"

abbreviation "no_strings \<equiv> (\<lambda>k. []) :: strmap"

subsection \<open>PayU\<close>

record payu_provider =
  pp_merchantKey :: string
  pp_salt :: string
  pp_mode :: string

definition payu_endpoint :: "payu_provider \<Rightarrow> string" where
  "payu_endpoint p =
     (if pp_mode p = ''live'' then ''https://secure.payu.in/_payment'' else ''https://test.payu.in/_payment'')"

text \<open>\<open>sha\<close> is the hexadecimal SHA-512 of a string.\<close>

definition payu_raw :: "payu_provider \<Rightarrow> string \<Rightarrow> string \<Rightarrow> string \<Rightarrow> string \<Rightarrow> string \<Rightarrow> string" where
  "payu_raw p txnid amount productinfo firstname email =
     pp_merchantKey p @ ''|'' @ txnid @ ''|'' @ amount @ ''|'' @ productinfo @ ''|'' @ firstname @ ''|'' @ email @
       ''|||||||||||'' @ pp_salt p"

definition payu_hash ::
    "(string \<Rightarrow> string) \<Rightarrow> payu_provider \<Rightarrow> string \<Rightarrow> string \<Rightarrow> string \<Rightarrow> string \<Rightarrow> string \<Rightarrow> string" where
  "payu_hash sha p txnid amount productinfo firstname email =
     sha (payu_raw p txnid amount productinfo firstname email)"

definition reverse_raw :: "payu_provider \<Rightarrow> strmap \<Rightarrow> string" where
  "reverse_raw p params =
     pp_salt p @ ''|'' @ params ''status'' @ ''|||||||||||'' @ params ''email'' @ ''|'' @ params ''firstname'' @ ''|'' @
       params ''productinfo'' @ ''|'' @ params ''amount'' @ ''|'' @ params ''txnid'' @ ''|'' @ pp_merchantKey p"

definition verifyReverse :: "(string \<Rightarrow> string) \<Rightarrow> payu_provider \<Rightarrow> strmap \<Rightarrow> bool" where
  "verifyReverse sha p params \<longleftrightarrow> sha (reverse_raw p params) = params ''hash''"

definition payu_txnid :: "checkout_request \<Rightarrow> string" where
  "payu_txnid req = ''FS_'' @ take 8 (cr_OrgID req) @ ''_'' @ cr_Metadata req ''timestamp''"

definition payu_CreateCheckoutSession :: "(string \<Rightarrow> string) \<Rightarrow> payu_provider \<Rightarrow> checkout_request \<Rightarrow> checkout_result" where
  "payu_CreateCheckoutSession sha p req =
     (let txnid = payu_txnid req; amount = cr_Amount req; productinfo = cr_Metadata req ''productinfo'';
          firstname = cr_UserName req; email = cr_UserEmail req
      in \<lparr>cs_Gateway = ''payu'', cs_SessionID = txnid, cs_RedirectURL = [],
          cs_GatewayData =
            [(''payu_url'', payu_endpoint p), (''key'', pp_merchantKey p), (''txnid'', txnid),
             (''hash'', payu_hash sha p txnid amount productinfo firstname email), (''amount'', amount),
             (''productinfo'', productinfo), (''firstname'', firstname), (''email'', email),
             (''phone'', cr_Metadata req ''phone''), (''surl'', cr_SuccessURL req), (''furl'', cr_CancelURL req)]\<rparr>)"

text \<open>\<open>None\<close> is the error of a wrong hash.\<close>

definition HandleCallbackParams :: "(string \<Rightarrow> string) \<Rightarrow> payu_provider \<Rightarrow> strmap \<Rightarrow> webhook_event option" where
  "HandleCallbackParams sha p params =
     (if \<not> verifyReverse sha p params then None
      else
        Some \<lparr>we_Type = (if params ''status'' = ''success'' then EventCheckoutCompleted else EventPaymentFailed),
          we_GatewayEventID = params ''mihpayid'', we_CustomerID = [], we_SubscriptionID = [],
          we_Status = (if params ''status'' = ''success'' then ''active'' else ''failed''), we_Plan = [],
          we_PeriodStart = 0, we_PeriodEnd = 0,
          we_Metadata = no_strings(''txnid'' := params ''txnid'', ''mihpayid'' := params ''mihpayid'',
            ''amount'' := params ''amount'')\<rparr>)"

subsection \<open>Stripe\<close>

record stripe_session =
  ss_Customer :: "string option"
  ss_Subscription :: "string option"
  ss_Metadata :: strmap

record stripe_sub =
  su_ID :: string
  su_Customer :: "string option"
  su_Status :: string
  su_CancelAtPeriodEnd :: bool
  su_Metadata :: strmap

text \<open>
  An event with a correct signature.  \<open>sv_Session\<close> and \<open>sv_Sub\<close> are the outcomes of decoding its object as either
  type, \<open>sv_Object\<close> is \<open>GetObjectValue\<close>.
\<close>

record stripe_event =
  sv_ID :: string
  sv_Type :: string
  sv_Session :: "stripe_session option"
  sv_Sub :: "stripe_sub option"
  sv_Object :: strmap

text \<open>The calls of the client: \<open>None\<close> and \<open>False\<close> are errors.\<close>

record stripe_provider =
  sp_webhookSecret :: string
  sp_priceID :: string
  sp_construct :: "string \<Rightarrow> string \<Rightarrow> string \<Rightarrow> stripe_event option"
  sp_session :: "string \<Rightarrow> checkout_request \<Rightarrow> (string \<times> string) option"
  sp_retrieve :: "string \<Rightarrow> stripe_sub option"
  sp_update :: "string \<Rightarrow> bool"
  sp_cancel :: "string \<Rightarrow> bool"
  sp_portal :: "string \<Rightarrow> string \<Rightarrow> string option"

definition or_blank :: "string option \<Rightarrow> string" where
  "or_blank x = (case x of None \<Rightarrow> [] | Some s \<Rightarrow> s)"

definition stripe_CreateCheckoutSession :: "stripe_provider \<Rightarrow> checkout_request \<Rightarrow> checkout_result option" where
  "stripe_CreateCheckoutSession p req =
     map_option (\<lambda>(i, url). \<lparr>cs_Gateway = ''stripe'', cs_SessionID = i, cs_RedirectURL = url, cs_GatewayData = []\<rparr>)
       (sp_session p (sp_priceID p) req)"

text \<open>\<open>month\<close> is \<open>AddDate(0, 1, 0)\<close>.\<close>

definition handleCheckoutCompleted :: "(gotime \<Rightarrow> gotime) \<Rightarrow> gotime \<Rightarrow> stripe_event \<Rightarrow> webhook_event option" where
  "handleCheckoutCompleted month now ev =
     map_option (\<lambda>s. \<lparr>we_Type = EventCheckoutCompleted, we_GatewayEventID = sv_ID ev,
         we_CustomerID = or_blank (ss_Customer s), we_SubscriptionID = or_blank (ss_Subscription s),
         we_Status = ''active'', we_Plan = ss_Metadata s ''plan'', we_PeriodStart = now, we_PeriodEnd = month now,
         we_Metadata = ss_Metadata s\<rparr>) (sv_Session ev)"

definition handleSubscriptionUpdated :: "stripe_event \<Rightarrow> webhook_event option" where
  "handleSubscriptionUpdated ev =
     map_option (\<lambda>s. \<lparr>we_Type = EventSubscriptionUpdated, we_GatewayEventID = sv_ID ev,
         we_CustomerID = or_blank (su_Customer s), we_SubscriptionID = su_ID s, we_Status = su_Status s, we_Plan = [],
         we_PeriodStart = 0, we_PeriodEnd = 0, we_Metadata = su_Metadata s\<rparr>) (sv_Sub ev)"

definition handleSubscriptionDeleted :: "stripe_event \<Rightarrow> webhook_event option" where
  "handleSubscriptionDeleted ev =
     map_option (\<lambda>s. \<lparr>we_Type = EventSubscriptionCanceled, we_GatewayEventID = sv_ID ev,
         we_CustomerID = or_blank (su_Customer s), we_SubscriptionID = su_ID s, we_Status = ''canceled'', we_Plan = [],
         we_PeriodStart = 0, we_PeriodEnd = 0, we_Metadata = su_Metadata s\<rparr>) (sv_Sub ev)"

definition handlePaymentFailed :: "stripe_event \<Rightarrow> webhook_event option" where
  "handlePaymentFailed ev =
     Some \<lparr>we_Type = EventPaymentFailed, we_GatewayEventID = sv_ID ev, we_CustomerID = sv_Object ev ''customer'',
       we_SubscriptionID = sv_Object ev ''subscription'', we_Status = ''past_due'', we_Plan = [], we_PeriodStart = 0,
       we_PeriodEnd = 0, we_Metadata = no_strings\<rparr>"

definition stripe_HandleWebhook ::
    "stripe_provider \<Rightarrow> (gotime \<Rightarrow> gotime) \<Rightarrow> gotime \<Rightarrow> string \<Rightarrow> string \<Rightarrow> webhook_event option" where
  "stripe_HandleWebhook p month now payload signature =
     (case sp_construct p payload signature (sp_webhookSecret p) of
        None \<Rightarrow> None
      | Some ev \<Rightarrow>
          (if sv_Type ev = ''checkout.session.completed'' then handleCheckoutCompleted month now ev
           else if sv_Type ev = ''customer.subscription.updated'' then handleSubscriptionUpdated ev
           else if sv_Type ev = ''customer.subscription.deleted'' then handleSubscriptionDeleted ev
           else if sv_Type ev = ''invoice.payment_failed'' then handlePaymentFailed ev
           else None))"

definition stripe_GetSubscription :: "stripe_provider \<Rightarrow> string \<Rightarrow> subscription_detail option" where
  "stripe_GetSubscription p i =
     map_option (\<lambda>s. \<lparr>sd_ID = su_ID s, sd_CustomerID = or_blank (su_Customer s), sd_Status = su_Status s,
         sd_CancelAtPeriodEnd = su_CancelAtPeriodEnd s\<rparr>) (sp_retrieve p i)"

definition stripe_CancelSubscription :: "stripe_provider \<Rightarrow> string \<Rightarrow> bool \<Rightarrow> bool" where
  "stripe_CancelSubscription p i atPeriodEnd = (if atPeriodEnd then sp_update p i else sp_cancel p i)"

definition stripe_CreateBillingPortalURL :: "stripe_provider \<Rightarrow> string \<Rightarrow> string \<Rightarrow> string option" where
  "stripe_CreateBillingPortalURL p customerID returnURL = sp_portal p customerID returnURL"

subsection \<open>The registry\<close>

datatype gateway = PayUGateway payu_provider | StripeGateway stripe_provider

primrec gw_Name :: "gateway \<Rightarrow> string" where
  "gw_Name (PayUGateway p) = ''payu''"
| "gw_Name (StripeGateway p) = ''stripe''"

type_synonym registry = "string \<rightharpoonup> gateway"

definition NewRegistry :: registry where
  "NewRegistry = Map.empty"

definition registry_Register :: "gateway \<Rightarrow> registry \<Rightarrow> registry option" where
  "registry_Register gw r = (if gw_Name gw = [] then None else Some (r(gw_Name gw \<mapsto> gw)))"

definition registry_Get :: "string \<Rightarrow> registry \<Rightarrow> gateway option" where
  "registry_Get name r = r name"

definition registry_Has :: "string \<Rightarrow> registry \<Rightarrow> bool" where
  "registry_Has name r \<longleftrightarrow> r name \<noteq> None"

text \<open>The calls through the interface.\<close>

primrec CreateCheckoutSession :: "(string \<Rightarrow> string) \<Rightarrow> gateway \<Rightarrow> checkout_request \<Rightarrow> checkout_result option" where
  "CreateCheckoutSession sha (PayUGateway p) req = Some (payu_CreateCheckoutSession sha p req)"
| "CreateCheckoutSession sha (StripeGateway p) req = stripe_CreateCheckoutSession p req"

primrec gw_HandleWebhook ::
    "(gotime \<Rightarrow> gotime) \<Rightarrow> gotime \<Rightarrow> gateway \<Rightarrow> string \<Rightarrow> string \<Rightarrow> webhook_event option" where
  "gw_HandleWebhook month now (PayUGateway p) payload signature = None"
| "gw_HandleWebhook month now (StripeGateway p) payload signature = stripe_HandleWebhook p month now payload signature"

primrec gw_GetSubscription :: "gateway \<Rightarrow> string \<Rightarrow> subscription_detail option" where
  "gw_GetSubscription (PayUGateway p) i = None"
| "gw_GetSubscription (StripeGateway p) i = stripe_GetSubscription p i"

primrec gw_CancelSubscription :: "gateway \<Rightarrow> string \<Rightarrow> bool \<Rightarrow> bool" where
  "gw_CancelSubscription (PayUGateway p) i atPeriodEnd = False"
| "gw_CancelSubscription (StripeGateway p) i atPeriodEnd = stripe_CancelSubscription p i atPeriodEnd"

primrec CreateBillingPortalURL :: "gateway \<Rightarrow> string \<Rightarrow> string \<Rightarrow> string option" where
  "CreateBillingPortalURL (PayUGateway p) customerID returnURL = Some []"
| "CreateBillingPortalURL (StripeGateway p) customerID returnURL = stripe_CreateBillingPortalURL p customerID returnURL"

lemma registry_laws:
  "registry_Register gw r = Some r' \<Longrightarrow> registry_Get (gw_Name gw) r' = Some gw"
  "registry_Register gw r = Some r' \<Longrightarrow> name \<noteq> gw_Name gw \<Longrightarrow> registry_Get name r' = registry_Get name r"
  by (auto simp: registry_Register_def registry_Get_def split: if_splits)

end
