(* ===== verification/Money.thy ===== *)
theory Money
  imports GoPrelude
begin

text \<open>
  Amounts of money, \<open>server/internal/domain/billing.go\<close>: prices in paise or cents as 64 bit integers and their
  printed form.  The digits are written into a buffer of 32 bytes, which any 64 bit integer fits into.
\<close>

abbreviation "ProPlanMonthlyPaise \<equiv> 199900 :: int"
abbreviation "ProPlanMonthlyUSDCents \<equiv> 2900 :: int"

definition ProPlanAmountPaise :: int where
  "ProPlanAmountPaise = ProPlanMonthlyPaise"

definition ProPlanAmountUSDCents :: int where
  "ProPlanAmountUSDCents = ProPlanMonthlyUSDCents"

subsection \<open>Printing\<close>

definition byte_digit :: "int \<Rightarrow> char" where
  "byte_digit d = char_of (nat (48 + d))"

text \<open>The loop over the digits, filling the buffer from its end; \<open>acc\<close> is what is filled so far.\<close>

function digits_loop :: "int \<Rightarrow> string \<Rightarrow> string" where
  "digits_loop n acc = (if 0 < n then digits_loop (n div 10) (byte_digit (n mod 10) # acc) else acc)"
  by auto
termination by (relation "measure (\<lambda>(n, acc). nat n)") auto

declare digits_loop.simps [simp del]

definition intToStr :: "int \<Rightarrow> string" where
  "intToStr n =
     (if n = 0 then ''0''
      else if n < 0 then CHR ''-'' # digits_loop (wrap64 (- n)) []
      else digits_loop n [])"

definition padTwoDigits :: "int \<Rightarrow> string" where
  "padTwoDigits n = (if n < 10 then CHR ''0'' # intToStr n else intToStr n)"

text \<open>The loop from the last byte to the first; \<open>k\<close> counts the bytes taken.\<close>

fun commas_loop :: "string \<Rightarrow> nat \<Rightarrow> string \<Rightarrow> string" where
  "commas_loop [] k result = result"
| "commas_loop (c # s) k result =
     commas_loop s (Suc k) (c # (if 0 < k \<and> k mod 3 = 0 then CHR '','' # result else result))"

definition formatIntWithCommas :: "int \<Rightarrow> string" where
  "formatIntWithCommas n = (if n = 0 then ''0'' else commas_loop (rev (intToStr n)) 0 [])"

definition FormatPaiseToINR :: "int \<Rightarrow> string" where
  "FormatPaiseToINR paise =
     (let p = (if paise < 0 then wrap64 (- paise) else paise);
          s = formatIntWithCommas (go_div p 100) @ ''.'' @ padTwoDigits (go_mod p 100)
      in if paise < 0 then CHR ''-'' # s else s)"

definition FormatPaiseToUSD :: "int \<Rightarrow> string" where
  "FormatPaiseToUSD cents =
     (let p = (if cents < 0 then wrap64 (- cents) else cents);
          s = formatIntWithCommas (go_div p 100) @ ''.'' @ padTwoDigits (go_mod p 100)
      in if cents < 0 then CHR ''-'' # s else s)"

subsection \<open>Reading the printed form back\<close>

definition digit_value :: "char \<Rightarrow> int" where
  "digit_value c = int (of_char c) - 48"

definition digits_value :: "string \<Rightarrow> int" where
  "digits_value s = foldl (\<lambda>v c. 10 * v + digit_value c) 0 s"

definition strip_marks :: "string \<Rightarrow> string" where
  "strip_marks s = filter (\<lambda>c. c \<noteq> CHR '','' \<and> c \<noteq> CHR ''.'') s"

definition money_value :: "string \<Rightarrow> int" where
  "money_value s =
     (case s of [] \<Rightarrow> 0
      | c # t \<Rightarrow> if c = CHR ''-'' then - digits_value (strip_marks t) else digits_value (strip_marks s))"

definition is_digit :: "char \<Rightarrow> bool" where
  "is_digit c \<longleftrightarrow> 48 \<le> (of_char c :: nat) \<and> (of_char c :: nat) < 58"

lemma byte_digit_value:
  assumes "0 \<le> d" "d < 10"
  shows "digit_value (byte_digit d) = d" "is_digit (byte_digit d)"
  using assms by (simp_all add: digit_value_def byte_digit_def is_digit_def of_char_of nat_add_distrib)

lemma is_digit_marks:
  assumes "is_digit c"
  shows "c \<noteq> CHR '',''" "c \<noteq> CHR ''.''" "c \<noteq> CHR ''-''"
  using assms by (auto simp: is_digit_def)

lemma digits_loop_append: "digits_loop n acc = digits_loop n [] @ acc"
proof (induction "nat n" arbitrary: n acc rule: less_induct)
  case less
  show ?case
  proof (cases "0 < n")
    case True
    then have "nat (n div 10) < nat n" by simp
    from less [OF this, of "[byte_digit (n mod 10)]"] less [OF this, of "byte_digit (n mod 10) # acc"] True
    show ?thesis by (simp add: digits_loop.simps [of n])
  qed (simp add: digits_loop.simps)
qed

lemma digits_loop_step:
  "0 < n \<Longrightarrow> digits_loop n [] = digits_loop (n div 10) [] @ [byte_digit (n mod 10)]"
  by (subst digits_loop.simps) (simp add: digits_loop_append [of _ "[_]"])

lemma digits_loop_zero [simp]: "n \<le> 0 \<Longrightarrow> digits_loop n [] = []"
  by (simp add: digits_loop.simps)

lemma digits_value_snoc [simp]: "digits_value (s @ [c]) = 10 * digits_value s + digit_value c"
  by (simp add: digits_value_def)

lemma digits_loop_digits:
  "0 \<le> n \<Longrightarrow> list_all is_digit (digits_loop n []) \<and> digits_value (digits_loop n []) = n"
proof (induction "nat n" arbitrary: n rule: less_induct)
  case less
  show ?case
  proof (cases "n = 0")
    case False
    then have n: "0 < n" "nat (n div 10) < nat n" "0 \<le> n div 10" using less.prems by auto
    from less.hyps [OF n(2,3)] n(1) show ?thesis
      by (simp add: digits_loop_step byte_digit_value)
  qed (simp add: digits_value_def)
qed

lemma intToStr_digits:
  assumes "0 \<le> n"
  shows "list_all is_digit (intToStr n)" "digits_value (intToStr n) = n"
  using digits_loop_digits [OF assms] assms
  by (auto simp: intToStr_def digits_value_def digit_value_def is_digit_def)

lemma strip_marks_digits [simp]: "list_all is_digit s \<Longrightarrow> strip_marks s = s"
  by (auto simp: strip_marks_def filter_id_conv list_all_iff is_digit_marks)

lemma strip_marks_append [simp]: "strip_marks (s @ t) = strip_marks s @ strip_marks t"
  by (simp add: strip_marks_def)

lemma strip_marks_commas:
  "list_all is_digit s \<Longrightarrow> strip_marks (commas_loop s k result) = rev s @ strip_marks result"
  by (induction s k result rule: commas_loop.induct) (auto simp: strip_marks_def is_digit_marks)

lemma digit_zero [simp]: "is_digit (CHR ''0'')" "digit_value (CHR ''0'') = 0"
  by (simp_all add: is_digit_def digit_value_def)

lemma formatIntWithCommas_strip:
  assumes "0 \<le> n"
  shows "strip_marks (formatIntWithCommas n) = intToStr n"
proof (cases "n = 0")
  case False
  then show ?thesis using intToStr_digits(1) [OF assms] by (simp add: formatIntWithCommas_def strip_marks_commas)
qed (simp add: formatIntWithCommas_def intToStr_def)

lemma padTwoDigits_eq:
  assumes "0 \<le> n" "n < 100"
  shows "padTwoDigits n = [byte_digit (n div 10), byte_digit (n mod 10)]"
proof -
  have "digits_loop m [] = [byte_digit m]" if "0 < m" "m < 10" for m
    using that by (simp add: digits_loop_step)
  note one = this
  have zero: "CHR ''0'' = byte_digit 0" by (simp add: byte_digit_def) code_simp
  consider "n = 0" | "0 < n" "n < 10" | "10 \<le> n" using assms(1) by linarith
  then show ?thesis
  proof cases
    case 3
    then have "digits_loop n [] = digits_loop (n div 10) [] @ [byte_digit (n mod 10)]" by (simp add: digits_loop_step)
    also have "digits_loop (n div 10) [] = [byte_digit (n div 10)]" using 3 assms by (intro one) auto
    finally show ?thesis using 3 by (simp add: padTwoDigits_def intToStr_def)
  qed (simp_all add: padTwoDigits_def intToStr_def one zero)
qed

text \<open>The printed form of an amount that is not negative.\<close>

lemma printed_value:
  assumes "0 \<le> p"
  shows "digits_value (strip_marks (formatIntWithCommas (go_div p 100) @ ''.'' @ padTwoDigits (go_mod p 100))) = p"
proof -
  let ?r = "p mod 100"
  have r: "0 \<le> ?r" "?r < 100" by simp_all
  then have d: "0 \<le> ?r div 10" "?r div 10 < 10" "0 \<le> ?r mod 10" "?r mod 10 < 10" by auto
  have "strip_marks (padTwoDigits ?r) = padTwoDigits ?r"
    using d by (simp add: padTwoDigits_eq [OF r] byte_digit_value)
  then have "strip_marks (formatIntWithCommas (p div 100) @ ''.'' @ padTwoDigits ?r) =
      (intToStr (p div 100) @ [byte_digit (?r div 10)]) @ [byte_digit (?r mod 10)]"
    using assms by (simp add: formatIntWithCommas_strip padTwoDigits_eq [OF r]) (simp add: strip_marks_def)
  also have "digits_value \<dots> = 10 * (10 * (p div 100) + ?r div 10) + ?r mod 10"
    using assms d by (simp only: digits_value_snoc byte_digit_value intToStr_digits(2) pos_imp_zdiv_nonneg_iff)
  also have "\<dots> = p" by presburger
  finally show ?thesis using assms by simp
qed

lemma commas_first: "list_all is_digit s \<Longrightarrow> s \<noteq> [] \<or> result \<noteq> [] \<and> is_digit (hd result) \<Longrightarrow>
    commas_loop s k result \<noteq> [] \<and> is_digit (hd (commas_loop s k result))"
  by (induction s k result rule: commas_loop.induct) auto

lemma printed_first:
  assumes "0 \<le> n"
  shows "formatIntWithCommas n \<noteq> [] \<and> is_digit (hd (formatIntWithCommas n))"
proof -
  have "intToStr n \<noteq> []" if "0 < n" using that by (simp add: intToStr_def digits_loop_step)
  then show ?thesis
    using assms commas_first [of "rev (intToStr n)" "[]" 0] intToStr_digits(1) [OF assms]
    by (cases "n = 0") (simp_all add: formatIntWithCommas_def)
qed

text \<open>
  C37: amounts survive printing.  Every amount that fits 64 bits, except the least one, is read back from its
  printed form by dropping the commas and the point; so different amounts are never printed alike, and an amount
  in cents is printed like the same amount in paise.
\<close>

theorem money_roundtrip:
  assumes "int64_range p" "p \<noteq> - (2 ^ 63)"
  shows "money_value (FormatPaiseToINR p) = p \<and> FormatPaiseToUSD p = FormatPaiseToINR p"
proof -
  let ?q = "\<bar>p\<bar>"
  let ?s = "formatIntWithCommas (go_div ?q 100) @ ''.'' @ padTwoDigits (go_mod ?q 100)"
  have s: "FormatPaiseToINR p = (if p < 0 then CHR ''-'' # ?s else ?s)" "FormatPaiseToUSD p = FormatPaiseToINR p"
    using assms by (simp_all add: FormatPaiseToINR_def FormatPaiseToUSD_def Let_def int64_range_def)
  obtain c t where ct: "?s = c # t" "is_digit c"
    using printed_first [of "go_div ?q 100"] by (cases "formatIntWithCommas (go_div ?q 100)") auto
  then have "money_value (FormatPaiseToINR p) = (if p < 0 then - digits_value (strip_marks ?s) else digits_value (strip_marks ?s))"
    unfolding s(1) using is_digit_marks(3) [OF ct(2)] by (auto simp: money_value_def simp del: strip_marks_append)
  also have "\<dots> = (if p < 0 then - ?q else ?q)" unfolding printed_value [OF abs_ge_zero] ..
  finally show ?thesis using s(2) by auto
qed

theorem money_roundtrip_witness:
  "money_value (FormatPaiseToINR (- 123456789)) = - 123456789 \<and>
   FormatPaiseToUSD (- 123456789) = FormatPaiseToINR (- 123456789)"
  by (rule money_roundtrip) (simp_all add: int64_range_def)

text \<open>The least amount is its own negation, so its digits are lost.\<close>

lemma least_amount_garbled: "FormatPaiseToINR (- (2 ^ 63)) = ''--92,233,720,368,547,758.0-8''"
  by code_simp

end
