(* ===== verification/Billing.thy ===== *)
theory Billing
  imports OrgLifecycle Projects Payments Money Credits
begin

text \<open>
  Billing, \<open>server/internal/api/handlers/billing.go\<close> and \<open>onboarding.go\<close>, with the statements of
  \<open>store/postgres/store.go\<close> they use: plans, gateways, payment events and onboarding states.  A handler works on
  the tables of \<open>OrgLifecycle\<close> and on those below; the statements of a handler are numbered and \<open>flt n\<close> says
  whether the \<open>n\<close>-th fails.  Log lines and product events are left out.
\<close>

subsection \<open>Tables\<close>

record payment_event =
  pe_ID :: string
  pe_OrgID :: string
  pe_GatewayProvider :: string
  pe_EventType :: string
  pe_EventID :: string
  pe_Payload :: string
  pe_Processed :: bool
  pe_CreatedAt :: gotime

record onboarding_state =
  os_OrgID :: string
  os_PlanSelected :: bool
  os_FirstFlagCreated :: bool
  os_FirstSDKConnected :: bool
  os_FirstEvaluation :: bool
  os_Completed :: bool
  os_CompletedAt :: "gotime option"
  os_UpdatedAt :: gotime

text \<open>
  \<open>bs_Gateways\<close> is the column \<open>payment_gateway\<close> of the organizations, as far as it has been set; its default is
  PayU.  \<open>ac_Onboarded\<close> of the accounts store lists the rows of \<open>bs_Onboarding\<close> that are completed.
\<close>

record bill_state =
  bs_Life :: life_state
  bs_Gateways :: "string \<rightharpoonup> string"
  bs_Events :: "payment_event list"
  bs_Onboarding :: "onboarding_state list"

abbreviation accounts :: "bill_state \<Rightarrow> account_db" where
  "accounts s \<equiv> ls_Acc (bs_Life s)"

abbreviation subscriptions :: "bill_state \<Rightarrow> subscription list" where
  "subscriptions s \<equiv> ls_Subs (bs_Life s)"

definition on_life :: "(life_state \<Rightarrow> 'r \<times> life_state) \<Rightarrow> bill_state \<Rightarrow> 'r \<times> bill_state" where
  "on_life f s = (case f (bs_Life s) of (r, l) \<Rightarrow> (r, s\<lparr>bs_Life := l\<rparr>))"

definition on_accounts :: "(account_db \<Rightarrow> 'r \<times> account_db) \<Rightarrow> bill_state \<Rightarrow> 'r \<times> bill_state" where
  "on_accounts f = on_life (\<lambda>l. case f (ls_Acc l) of (r, acc) \<Rightarrow> (r, l\<lparr>ls_Acc := acc\<rparr>))"

subsection \<open>Statements\<close>

definition UpdateOrgPlan ::
    "bool \<Rightarrow> pglib \<Rightarrow> gotime \<Rightarrow> string \<Rightarrow> string \<Rightarrow> plan_limits \<Rightarrow> account_db \<Rightarrow> unit result \<times> account_db" where
  "UpdateOrgPlan fails pg now orgID plan limits =
     exec_uuid fails pg orgID (\<lambda>u. update_orgs (\<lambda>x. org_ID x = u)
       (\<lambda>x. x\<lparr>org_Plan := plan, org_PlanSeatsLimit := Seats limits, org_PlanProjectsLimit := Projects limits,
             org_PlanEnvironmentsLimit := Environments limits, or_UpdatedAt := now\<rparr>))"

text \<open>
  \<open>WHERE id LIKE $1 || '%'\<close>: \<open>like\<close> is the operator on a \<open>UUID\<close> and a text, if the server has one.  PostgreSQL
  itself has none and refuses the statement.
\<close>

definition GetOrganizationByIDPrefix ::
    "bool \<Rightarrow> (string \<Rightarrow> string \<Rightarrow> bool) option \<Rightarrow> string \<Rightarrow> account_db \<Rightarrow> org_row result" where
  "GetOrganizationByIDPrefix fails like prefix acc =
     (case like of
        None \<Rightarrow> Inl ErrInternal
      | Some l \<Rightarrow> lookup_row fails
          (map_option (\<lambda>x. x\<lparr>org_TrialExpiresAt := None, org_DeletedAt := None\<rparr>)
            (find (\<lambda>x. l (org_ID x) (prefix @ ''%'')) (ac_Orgs acc))))"

definition GetSubscriptionByStripeID :: "bool \<Rightarrow> string \<Rightarrow> subscription list \<Rightarrow> subscription result" where
  "GetSubscriptionByStripeID fails i subs = lookup_row fails (find (\<lambda>s. sb_StripeSubscriptionID s = i) subs)"

text \<open>An event that is there already leaves no row to return, which is an error too.\<close>

definition CreatePaymentEvent ::
    "bool \<Rightarrow> pglib \<Rightarrow> gotime \<Rightarrow> string \<Rightarrow> payment_event \<Rightarrow> bill_state \<Rightarrow> unit result \<times> bill_state" where
  "CreatePaymentEvent fails pg now newID ev s =
     (case (pg_uuid pg (pe_OrgID ev), pg_jsonb pg (pe_Payload ev)) of
        (Some org, Some payload) \<Rightarrow>
          (if fails \<or> (pe_GatewayProvider ev, pe_EventID ev) \<in> (\<lambda>e. (pe_GatewayProvider e, pe_EventID e)) ` set (bs_Events s) \<or>
              org \<notin> org_ID ` set (ac_Orgs (accounts s))
           then (Inl ErrInternal, s)
           else (Inr (), s\<lparr>bs_Events := bs_Events s @
             [ev\<lparr>pe_ID := newID, pe_OrgID := org, pe_Payload := payload, pe_CreatedAt := now\<rparr>]\<rparr>))
      | _ \<Rightarrow> (Inl ErrInternal, s))"

definition GetPaymentEventByExternalID :: "bool \<Rightarrow> string \<Rightarrow> string \<Rightarrow> payment_event list \<Rightarrow> payment_event result" where
  "GetPaymentEventByExternalID fails provider eventID evs =
     lookup_row fails (find (\<lambda>e. pe_GatewayProvider e = provider \<and> pe_EventID e = eventID) evs)"

definition UpdateOrgPaymentGateway ::
    "bool \<Rightarrow> pglib \<Rightarrow> gotime \<Rightarrow> string \<Rightarrow> string \<Rightarrow> bill_state \<Rightarrow> unit result \<times> bill_state" where
  "UpdateOrgPaymentGateway fails pg now orgID gateway s =
     (case pg_uuid pg orgID of
        None \<Rightarrow> (Inl ErrInternal, s)
      | Some u \<Rightarrow>
        (if fails then (Inl ErrInternal, s)
         else if u \<notin> org_ID ` set (ac_Orgs (accounts s)) then (Inr (), s)
         else
           (let s1 = s\<lparr>bs_Gateways := (bs_Gateways s)(u \<mapsto> gateway)\<rparr>
            in on_accounts (\<lambda>acc. (Inr (), update_orgs (\<lambda>x. org_ID x = u) (\<lambda>x. x\<lparr>or_UpdatedAt := now\<rparr>) acc)) s1)))"

definition gateway_of :: "bill_state \<Rightarrow> string \<Rightarrow> string" where
  "gateway_of s org = (case bs_Gateways s org of None \<Rightarrow> GatewayPayU | Some g \<Rightarrow> g)"

definition GetOnboardingState :: "bool \<Rightarrow> pglib \<Rightarrow> string \<Rightarrow> bill_state \<Rightarrow> onboarding_state result" where
  "GetOnboardingState fails pg orgID s = by_uuid fails pg orgID (\<lambda>u. find (\<lambda>x. os_OrgID x = u) (bs_Onboarding s))"

definition UpsertOnboardingState ::
    "bool \<Rightarrow> pglib \<Rightarrow> gotime \<Rightarrow> onboarding_state \<Rightarrow> bill_state \<Rightarrow> unit result \<times> bill_state" where
  "UpsertOnboardingState fails pg now st s =
     (case pg_uuid pg (os_OrgID st) of
        None \<Rightarrow> (Inl ErrInternal, s)
      | Some u \<Rightarrow>
        (if fails \<or> u \<notin> org_ID ` set (ac_Orgs (accounts s)) then (Inl ErrInternal, s)
         else
           (let row = st\<lparr>os_OrgID := u, os_UpdatedAt := now\<rparr>;
                rows = (if u \<in> os_OrgID ` set (bs_Onboarding s)
                        then map (\<lambda>x. if os_OrgID x = u then row else x) (bs_Onboarding s)
                        else bs_Onboarding s @ [row])
            in on_accounts (\<lambda>acc. (Inr (), acc\<lparr>ac_Onboarded := map os_OrgID (filter os_Completed rows)\<rparr>))
                 (s\<lparr>bs_Onboarding := rows\<rparr>))))"

subsection \<open>Checking out\<close>

text \<open>
  \<open>be_month\<close> is \<open>AddDate(0, 1, 0)\<close>, \<open>be_price\<close> the price of the Pro plan in the pricing file with two decimals if
  there is one, \<open>be_payload\<close> and \<open>be_params\<close> the JSON of an event and of the parameters of a callback.
\<close>

record bill_env =
  be_pg :: pglib
  be_like :: "(string \<Rightarrow> string \<Rightarrow> bool) option"
  be_plans :: "string \<rightharpoonup> plan_limits"
  be_price :: "string option"
  be_sha512 :: "string \<Rightarrow> string"
  be_registry :: registry
  be_dashboardURL :: string
  be_appBaseURL :: string
  be_now :: gotime
  be_dbnow :: gotime
  be_month :: "gotime \<Rightarrow> gotime"
  be_newID :: "nat \<Rightarrow> string"
  be_payload :: "webhook_event \<Rightarrow> string"
  be_params :: "strmap \<Rightarrow> string"

definition ProPlanAmount :: "bill_env \<Rightarrow> string" where
  "ProPlanAmount env = (case be_price env of None \<Rightarrow> ''1999.00'' | Some p \<Rightarrow> p)"

definition ProPlanProductInfo :: string where
  "ProPlanProductInfo = ''FeatureSignals Pro Plan''"

definition allowedReturnPaths :: "string list" where
  "allowedReturnPaths = [''/settings/billing'', ''/onboarding'']"

record checkout_response =
  co_Gateway :: string
  co_RedirectURL :: string
  co_PayUURL :: string
  co_Key :: string
  co_Txnid :: string
  co_Amount :: string
  co_Productinfo :: string
  co_Firstname :: string
  co_Email :: string
  co_Surl :: string
  co_Furl :: string
  co_Hash :: string
  co_Phone :: string

definition checkout_field :: "string \<times> string \<Rightarrow> checkout_response \<Rightarrow> checkout_response" where
  "checkout_field kv resp =
     (case kv of (k, v) \<Rightarrow>
        if k = ''payu_url'' then resp\<lparr>co_PayUURL := v\<rparr>
        else if k = ''key'' then resp\<lparr>co_Key := v\<rparr>
        else if k = ''txnid'' then resp\<lparr>co_Txnid := v\<rparr>
        else if k = ''amount'' then resp\<lparr>co_Amount := v\<rparr>
        else if k = ''productinfo'' then resp\<lparr>co_Productinfo := v\<rparr>
        else if k = ''firstname'' then resp\<lparr>co_Firstname := v\<rparr>
        else if k = ''email'' then resp\<lparr>co_Email := v\<rparr>
        else if k = ''surl'' then resp\<lparr>co_Surl := v\<rparr>
        else if k = ''furl'' then resp\<lparr>co_Furl := v\<rparr>
        else if k = ''hash'' then resp\<lparr>co_Hash := v\<rparr>
        else if k = ''phone'' then resp\<lparr>co_Phone := v\<rparr>
        else resp)"

definition checkout_answer :: "string \<Rightarrow> checkout_result \<Rightarrow> checkout_response" where
  "checkout_answer gatewayName result =
     fold checkout_field (cs_GatewayData result)
       \<lparr>co_Gateway = gatewayName, co_RedirectURL = cs_RedirectURL result, co_PayUURL = [], co_Key = [], co_Txnid = [],
        co_Amount = [], co_Productinfo = [], co_Firstname = [], co_Email = [], co_Surl = [], co_Furl = [], co_Hash = [],
        co_Phone = []\<rparr>"

text \<open>\<open>UnixMilli\<close>, counted from 1970.\<close>

definition unix_milli :: "gotime \<Rightarrow> int" where
  "unix_milli t = (t - 62135596800 * second) div millisecond"

definition checkout_request_of :: "bill_env \<Rightarrow> string \<Rightarrow> user_row \<Rightarrow> string \<Rightarrow> string \<Rightarrow> checkout_request" where
  "checkout_request_of env orgID user gatewayName returnPath =
     \<lparr>cr_OrgID = orgID, cr_UserEmail = us_Email user, cr_UserName = us_Name user, cr_Plan = PlanPro,
      cr_Amount = ProPlanAmount env,
      cr_SuccessURL = (if gatewayName = GatewayStripe then be_dashboardURL env @ returnPath @ ''?status=success''
                       else be_appBaseURL env @ ''/v1/billing/payu/callback''),
      cr_CancelURL = (if gatewayName = GatewayStripe then be_dashboardURL env @ returnPath @ ''?status=canceled''
                      else be_appBaseURL env @ ''/v1/billing/payu/failure''),
      cr_Metadata = no_strings(''timestamp'' := go_itoa (unix_milli (be_now env)), ''productinfo'' := ProPlanProductInfo,
        ''phone'' := ''9999999999'')\<rparr>"

definition CreateCheckout ::
    "bill_env \<Rightarrow> faults \<Rightarrow> http_request \<Rightarrow> strmap \<Rightarrow> bill_state \<Rightarrow> checkout_response response" where
  "CreateCheckout env flt r query s =
     (case GetOrganization (flt 0) (be_pg env) (GetOrgID r) (accounts s) of
        Inl e \<Rightarrow> Refuse StatusInternalServerError ''failed to load organization''
      | Inr org \<Rightarrow>
        (case GetUserByID (flt 1) (be_pg env) (GetUserID r) (accounts s) of
           Inl e \<Rightarrow> Refuse StatusInternalServerError ''failed to load user''
         | Inr user \<Rightarrow>
           (let rp = query ''return_url'';
                returnPath = (if rp \<noteq> [] \<and> rp \<in> set allowedReturnPaths then rp else ''/settings/billing'');
                g = gateway_of s (org_ID org);
                gatewayName = (if g = [] then GatewayPayU else g)
            in case registry_Get gatewayName (be_registry env) of
                 None \<Rightarrow> Refuse StatusBadRequest ''payment gateway not configured''
               | Some gw \<Rightarrow>
                 (case CreateCheckoutSession (be_sha512 env) gw
                     (checkout_request_of env (GetOrgID r) user gatewayName returnPath) of
                    None \<Rightarrow> Refuse StatusInternalServerError ''failed to create checkout''
                  | Some result \<Rightarrow> Answer StatusOK (checkout_answer gatewayName result)))))"

subsection \<open>The callback of PayU\<close>

text \<open>The part of a transaction identifier between the first underscore and the next.\<close>

definition splitTxnID :: "string \<Rightarrow> string option" where
  "splitTxnID txnid =
     (if length txnid < 4 \<or> take 3 txnid \<noteq> ''FS_'' then None
      else if CHR ''_'' \<in> set (drop 3 txnid) then Some (takeWhile (\<lambda>c. c \<noteq> CHR ''_'') (drop 3 txnid))
      else None)"

definition findOrgByTxnPrefix :: "bool \<Rightarrow> bill_env \<Rightarrow> string \<Rightarrow> bill_state \<Rightarrow> org_row result" where
  "findOrgByTxnPrefix fails env prefix s =
     (if prefix = [] then Inl ErrInternal
      else GetOrganizationByIDPrefix fails (be_like env) prefix (accounts s))"

definition callback_params :: "strmap \<Rightarrow> strmap" where
  "callback_params form =
     (\<lambda>k. if k \<in> {''txnid'', ''amount'', ''productinfo'', ''firstname'', ''email'', ''status'', ''hash'', ''mihpayid''}
          then form k else [])"

definition blank_onboarding :: "string \<Rightarrow> onboarding_state" where
  "blank_onboarding orgID =
     \<lparr>os_OrgID = orgID, os_PlanSelected = False, os_FirstFlagCreated = False, os_FirstSDKConnected = False,
      os_FirstEvaluation = False, os_Completed = False, os_CompletedAt = None, os_UpdatedAt = 0\<rparr>"

definition loaded_onboarding :: "bool \<Rightarrow> bill_env \<Rightarrow> string \<Rightarrow> bill_state \<Rightarrow> onboarding_state" where
  "loaded_onboarding fails env orgID s =
     (case GetOnboardingState fails (be_pg env) orgID s of Inl e \<Rightarrow> blank_onboarding orgID | Inr st \<Rightarrow> st)"

text \<open>Marking the plan as selected; errors are ignored.\<close>

definition select_plan :: "bill_env \<Rightarrow> faults \<Rightarrow> nat \<Rightarrow> string \<Rightarrow> bill_state \<Rightarrow> bill_state" where
  "select_plan env flt n orgID s =
     (let st = loaded_onboarding (flt n) env orgID s
      in snd (UpsertOnboardingState (flt (Suc n)) (be_pg env) (be_dbnow env)
           (st\<lparr>os_PlanSelected := True, os_UpdatedAt := be_now env\<rparr>) s))"

definition payu_subscription :: "bill_env \<Rightarrow> string \<Rightarrow> strmap \<Rightarrow> subscription" where
  "payu_subscription env orgID params =
     \<lparr>sb_ID = [], sb_OrgID = orgID, sb_GatewayProvider = GatewayPayU, sb_PayUTxnID = params ''txnid'',
      sb_PayUMihpayID = params ''mihpayid'', sb_StripeCustomerID = [], sb_StripeSubscriptionID = [],
      sb_StripePaymentIntentID = [], sb_Plan = PlanPro, sb_Status = ''active'', sb_CurrentPeriodStart = be_now env,
      sb_CurrentPeriodEnd = be_month env (be_now env), sb_CancelAtPeriodEnd = False, sb_CreatedAt = be_now env,
      sb_UpdatedAt = be_now env\<rparr>"

text \<open>The redirect and the state; \<open>form\<close> is \<open>None\<close> when the form cannot be parsed.\<close>

definition billing_url :: "bill_env \<Rightarrow> string \<Rightarrow> string" where
  "billing_url env status = be_dashboardURL env @ ''/settings/billing?status='' @ status"

definition payu_paid :: "bill_env \<Rightarrow> faults \<Rightarrow> strmap \<Rightarrow> webhook_event \<Rightarrow> org_row \<Rightarrow> bill_state \<Rightarrow> string \<times> bill_state" where
  "payu_paid env flt params event org s =
     (let s1 = snd (CreatePaymentEvent (flt 1) (be_pg env) (be_dbnow env) (be_newID env 1)
            \<lparr>pe_ID = [], pe_OrgID = org_ID org, pe_GatewayProvider = GatewayPayU, pe_EventType = we_Type event,
             pe_EventID = params ''mihpayid'', pe_Payload = be_params env params, pe_Processed = True,
             pe_CreatedAt = 0\<rparr> s)
      in case on_accounts (UpdateOrgPlan (flt 2) (be_pg env) (be_dbnow env) (org_ID org) PlanPro
             (plan_defaults (be_plans env) PlanPro)) s1 of
           (Inl e, s2) \<Rightarrow> (billing_url env ''failed'', s2)
         | (Inr _, s2) \<Rightarrow>
             (let s3 = snd (on_life (UpsertSubscription (flt 3) (be_pg env) (be_dbnow env) (be_newID env 2)
                  (payu_subscription env (org_ID org) params)) s2)
              in (billing_url env ''success'', select_plan env flt 4 (org_ID org) s3)))"

definition PayUCallback :: "bill_env \<Rightarrow> faults \<Rightarrow> strmap option \<Rightarrow> bill_state \<Rightarrow> string \<times> bill_state" where
  "PayUCallback env flt form s =
     (case form of
        None \<Rightarrow> (billing_url env ''failed'', s)
      | Some f \<Rightarrow>
        (case registry_Get GatewayPayU (be_registry env) of
           Some (PayUGateway p) \<Rightarrow>
             (let params = callback_params f
              in case HandleCallbackParams (be_sha512 env) p params of
                   None \<Rightarrow> (billing_url env ''failed'', s)
                 | Some event \<Rightarrow>
                   (if we_Type event \<noteq> EventCheckoutCompleted then (billing_url env ''failed'', s)
                    else
                      (let prefix = (case splitTxnID (params ''txnid'') of None \<Rightarrow> [] | Some x \<Rightarrow> x)
                       in case findOrgByTxnPrefix (flt 0) env prefix s of
                            Inl e \<Rightarrow> (billing_url env ''failed'', s)
                          | Inr org \<Rightarrow> payu_paid env flt params event org s)))
         | _ \<Rightarrow> (billing_url env ''failed'', s)))"

definition PayUFailure :: "bill_env \<Rightarrow> string" where
  "PayUFailure env = billing_url env ''failed''"

subsection \<open>The events of Stripe\<close>

definition stripe_record :: "bill_env \<Rightarrow> webhook_event \<Rightarrow> string \<Rightarrow> payment_event" where
  "stripe_record env event orgID =
     \<lparr>pe_ID = [], pe_OrgID = orgID, pe_GatewayProvider = GatewayStripe, pe_EventType = we_Type event,
      pe_EventID = we_GatewayEventID event, pe_Payload = be_payload env event, pe_Processed = True, pe_CreatedAt = 0\<rparr>"

definition record_event :: "bill_env \<Rightarrow> bool \<Rightarrow> nat \<Rightarrow> webhook_event \<Rightarrow> string \<Rightarrow> bill_state \<Rightarrow> bill_state" where
  "record_event env fails n event orgID s =
     snd (CreatePaymentEvent fails (be_pg env) (be_dbnow env) (be_newID env n) (stripe_record env event orgID) s)"

definition stripe_subscription :: "bill_env \<Rightarrow> webhook_event \<Rightarrow> string \<Rightarrow> subscription" where
  "stripe_subscription env event orgID =
     \<lparr>sb_ID = [], sb_OrgID = orgID, sb_GatewayProvider = GatewayStripe, sb_PayUTxnID = [], sb_PayUMihpayID = [],
      sb_StripeCustomerID = we_CustomerID event, sb_StripeSubscriptionID = we_SubscriptionID event,
      sb_StripePaymentIntentID = [], sb_Plan = PlanPro, sb_Status = ''active'',
      sb_CurrentPeriodStart = we_PeriodStart event, sb_CurrentPeriodEnd = we_PeriodEnd event,
      sb_CancelAtPeriodEnd = False, sb_CreatedAt = be_now env, sb_UpdatedAt = be_now env\<rparr>"

definition handleStripeCheckoutCompleted :: "bill_env \<Rightarrow> faults \<Rightarrow> webhook_event \<Rightarrow> bill_state \<Rightarrow> bill_state" where
  "handleStripeCheckoutCompleted env flt event s =
     (let orgID = we_Metadata event ''org_id''
      in if orgID = [] then s
         else
           (let s1 = record_event env (flt 1) 1 event orgID s
            in case on_accounts (UpdateOrgPlan (flt 2) (be_pg env) (be_dbnow env) orgID PlanPro
                   (plan_defaults (be_plans env) PlanPro)) s1 of
                 (Inl e, s2) \<Rightarrow> s2
               | (Inr _, s2) \<Rightarrow>
                   (let s3 = snd (on_life (UpsertSubscription (flt 3) (be_pg env) (be_dbnow env) (be_newID env 2)
                        (stripe_subscription env event orgID)) s2)
                    in select_plan env flt 4 orgID s3)))"

text \<open>The other events set the status of the subscription they name.\<close>

definition put_status ::
    "bill_env \<Rightarrow> bool \<Rightarrow> nat \<Rightarrow> string \<Rightarrow> subscription \<Rightarrow> bill_state \<Rightarrow> bill_state" where
  "put_status env fails n status sub s =
     snd (on_life (UpsertSubscription fails (be_pg env) (be_dbnow env) (be_newID env n)
       (sub\<lparr>sb_Status := status, sb_UpdatedAt := be_now env\<rparr>)) s)"

definition handleStripeSubscriptionUpdated :: "bill_env \<Rightarrow> faults \<Rightarrow> webhook_event \<Rightarrow> bill_state \<Rightarrow> bill_state" where
  "handleStripeSubscriptionUpdated env flt event s =
     (case GetSubscriptionByStripeID (flt 1) (we_SubscriptionID event) (subscriptions s) of
        Inl e \<Rightarrow> s
      | Inr sub \<Rightarrow>
          record_event env (flt 3) 2 event (sb_OrgID sub) (put_status env (flt 2) 1 (we_Status event) sub s))"

definition handleStripeSubscriptionCanceled :: "bill_env \<Rightarrow> faults \<Rightarrow> webhook_event \<Rightarrow> bill_state \<Rightarrow> bill_state" where
  "handleStripeSubscriptionCanceled env flt event s =
     (case GetSubscriptionByStripeID (flt 1) (we_SubscriptionID event) (subscriptions s) of
        Inl e \<Rightarrow> s
      | Inr sub \<Rightarrow>
        (let s1 = put_status env (flt 2) 1 ''canceled'' sub s;
             s2 = snd (on_accounts (UpdateOrgPlan (flt 3) (be_pg env) (be_dbnow env) (sb_OrgID sub) PlanFree
                    (plan_defaults (be_plans env) PlanFree)) s1)
         in record_event env (flt 4) 2 event (sb_OrgID sub) s2))"

definition handleStripePaymentFailed :: "bill_env \<Rightarrow> faults \<Rightarrow> webhook_event \<Rightarrow> bill_state \<Rightarrow> bill_state" where
  "handleStripePaymentFailed env flt event s =
     (if we_SubscriptionID event = [] then s
      else
        (case GetSubscriptionByStripeID (flt 1) (we_SubscriptionID event) (subscriptions s) of
           Inl e \<Rightarrow> s
         | Inr sub \<Rightarrow>
             record_event env (flt 3) 2 event (sb_OrgID sub) (put_status env (flt 2) 1 ''past_due'' sub s)))"

definition stripe_dispatch :: "bill_env \<Rightarrow> faults \<Rightarrow> webhook_event \<Rightarrow> bill_state \<Rightarrow> bill_state" where
  "stripe_dispatch env flt event s =
     (if we_Type event = EventCheckoutCompleted then handleStripeCheckoutCompleted env flt event s
      else if we_Type event = EventSubscriptionUpdated then handleStripeSubscriptionUpdated env flt event s
      else if we_Type event = EventSubscriptionCanceled then handleStripeSubscriptionCanceled env flt event s
      else if we_Type event = EventPaymentFailed then handleStripePaymentFailed env flt event s
      else s)"

text \<open>The body, of which at most 64 KiB are read, is \<open>None\<close> when reading fails.\<close>

definition HandleStripeWebhook ::
    "bill_env \<Rightarrow> faults \<Rightarrow> http_request \<Rightarrow> string option \<Rightarrow> bill_state \<Rightarrow> string response \<times> bill_state" where
  "HandleStripeWebhook env flt r body s =
     (case body of
        None \<Rightarrow> (Refuse StatusBadRequest ''invalid request body'', s)
      | Some b \<Rightarrow>
        (case registry_Get GatewayStripe (be_registry env) of
           None \<Rightarrow> (Refuse StatusInternalServerError ''stripe not configured'', s)
         | Some gw \<Rightarrow>
           (case gw_HandleWebhook (be_month env) (be_now env) gw (take 65536 b) (req_Header r ''Stripe-Signature'') of
              None \<Rightarrow> (Refuse StatusBadRequest ''webhook verification failed'', s)
            | Some event \<Rightarrow>
              (case GetPaymentEventByExternalID (flt 0) GatewayStripe (we_GatewayEventID event) (bs_Events s) of
                 Inr existing \<Rightarrow> (Answer StatusOK ''already_processed'', s)
               | Inl e \<Rightarrow> (Answer StatusOK ''ok'', stripe_dispatch env flt event s)))))"

subsection \<open>Managing a subscription\<close>

text \<open>\<open>body\<close> is the decoded \<open>at_period_end\<close>, \<open>None\<close> when decoding fails.\<close>

definition CancelSubscription ::
    "bill_env \<Rightarrow> faults \<Rightarrow> http_request \<Rightarrow> bool option \<Rightarrow> bill_state \<Rightarrow> string response \<times> bill_state" where
  "CancelSubscription env flt r body s =
     (case GetSubscription (flt 0) (be_pg env) (GetOrgID r) (subscriptions s) of
        Inl e \<Rightarrow> (Refuse StatusNotFound ''no active subscription'', s)
      | Inr sub \<Rightarrow>
        (let atPeriodEnd = (case body of None \<Rightarrow> True | Some b \<Rightarrow> b);
             gatewayName = (if sb_GatewayProvider sub = [] then GatewayPayU else sb_GatewayProvider sub)
         in case registry_Get gatewayName (be_registry env) of
              None \<Rightarrow> (Refuse StatusInternalServerError ''payment gateway not configured'', s)
            | Some gw \<Rightarrow>
              (if gatewayName = GatewayPayU
               then (Refuse StatusBadRequest ''cancellation for PayU subscriptions requires contacting support'', s)
               else if \<not> gw_CancelSubscription gw (sb_StripeSubscriptionID sub) atPeriodEnd
               then (Refuse StatusInternalServerError ''failed to cancel subscription'', s)
               else
                 (let sub1 = (if atPeriodEnd then sub\<lparr>sb_CancelAtPeriodEnd := True\<rparr> else sub\<lparr>sb_Status := ''canceled''\<rparr>);
                      s1 = (if atPeriodEnd then s
                            else snd (on_accounts (UpdateOrgPlan (flt 1) (be_pg env) (be_dbnow env) (GetOrgID r) PlanFree
                                   (plan_defaults (be_plans env) PlanFree)) s));
                      s2 = snd (on_life (UpsertSubscription (flt 2) (be_pg env) (be_dbnow env) (be_newID env 1)
                             (sub1\<lparr>sb_UpdatedAt := be_now env\<rparr>)) s1)
                  in (Answer StatusOK ''canceled'', s2)))))"

definition GetBillingPortalURL :: "bill_env \<Rightarrow> faults \<Rightarrow> http_request \<Rightarrow> bill_state \<Rightarrow> string response" where
  "GetBillingPortalURL env flt r s =
     (case GetSubscription (flt 0) (be_pg env) (GetOrgID r) (subscriptions s) of
        Inl e \<Rightarrow> Refuse StatusNotFound ''no active subscription''
      | Inr sub \<Rightarrow>
        (if sb_GatewayProvider sub \<noteq> GatewayStripe \<or> sb_StripeCustomerID sub = []
         then Refuse StatusBadRequest ''billing portal only available for Stripe subscriptions''
         else
           (case registry_Get GatewayStripe (be_registry env) of
              None \<Rightarrow> Refuse StatusInternalServerError ''stripe not configured''
            | Some gw \<Rightarrow>
              (case CreateBillingPortalURL gw (sb_StripeCustomerID sub) (be_dashboardURL env @ ''/settings/billing'') of
                 None \<Rightarrow> Refuse StatusInternalServerError ''failed to create billing portal''
               | Some url \<Rightarrow> Answer StatusOK url))))"

definition UpdateGateway ::
    "bill_env \<Rightarrow> faults \<Rightarrow> http_request \<Rightarrow> string option \<Rightarrow> bill_state \<Rightarrow> string response \<times> bill_state" where
  "UpdateGateway env flt r body s =
     (case body of
        None \<Rightarrow> (Refuse StatusBadRequest ''invalid request body'', s)
      | Some gateway \<Rightarrow>
        (if \<not> registry_Has gateway (be_registry env)
         then (Refuse StatusBadRequest (''unsupported payment gateway: '' @ gateway), s)
         else
           (case UpdateOrgPaymentGateway (flt 0) (be_pg env) (be_dbnow env) (GetOrgID r) gateway s of
              (Inl e, s1) \<Rightarrow> (Refuse StatusInternalServerError ''failed to update payment gateway'', s1)
            | (Inr _, s1) \<Rightarrow> (Answer StatusOK gateway, s1))))"

subsection \<open>Plan and usage\<close>

record credit_balance_info =
  bi_BearerID :: string
  bi_BearerName :: string
  bi_Balance :: int
  bi_IncludedPerMonth :: int
  bi_LifetimeUsed :: int

record credit_usage_info =
  cu_BearerID :: string
  cu_BearerName :: string
  cu_IncludedPerMonth :: int
  cu_UsedThisMonth :: int
  cu_PurchasedBalance :: int

record subscription_response =
  sr_Plan :: string
  sr_SeatsLimit :: int
  sr_ProjectsLimit :: int
  sr_EnvironmentsLimit :: int
  sr_Gateway :: string
  sr_Status :: string
  sr_CurrentPeriodStart :: "gotime option"
  sr_CurrentPeriodEnd :: "gotime option"
  sr_CancelAtPeriodEnd :: bool
  sr_CanManage :: bool
  sr_SeatsUsed :: nat
  sr_ProjectsUsed :: nat
  sr_PlatformFeeMonthly :: int
  sr_PlatformFeeCurrency :: string
  sr_CreditBalances :: "credit_balance_info list"

record usage_response =
  ur_SeatsUsed :: nat
  ur_SeatsLimit :: int
  ur_ProjectsUsed :: nat
  ur_ProjectsLimit :: int
  ur_EnvironmentsUsed :: nat
  ur_EnvironmentsLimit :: int
  ur_Plan :: string
  ur_PlatformFeeMonthly :: int
  ur_CreditUsage :: "credit_usage_info list"

text \<open>A list whose error is ignored.\<close>

definition or_none :: "'a list result \<Rightarrow> 'a list" where
  "or_none res = (case res of Inl e \<Rightarrow> [] | Inr xs \<Rightarrow> xs)"

definition balance_info :: "string \<Rightarrow> cost_bearer result \<Rightarrow> credit_balance \<Rightarrow> credit_balance_info" where
  "balance_info plan bearer bal =
     (case bearer of
        Inl e \<Rightarrow> \<lparr>bi_BearerID = bal_BearerID bal, bi_BearerName = [], bi_Balance = bal_Balance bal,
                  bi_IncludedPerMonth = 0, bi_LifetimeUsed = bal_LifetimeUsed bal\<rparr>
      | Inr b \<Rightarrow> \<lparr>bi_BearerID = bal_BearerID bal, bi_BearerName = cb_DisplayName b, bi_Balance = bal_Balance bal,
                  bi_IncludedPerMonth = (if plan = PlanFree then cb_FreeUnits b else cb_ProUnits b),
                  bi_LifetimeUsed = bal_LifetimeUsed bal\<rparr>)"

fun balance_infos :: "faults \<Rightarrow> nat \<Rightarrow> string \<Rightarrow> credit_db \<Rightarrow> credit_balance list \<Rightarrow> credit_balance_info list" where
  "balance_infos flt n plan creds [] = []"
| "balance_infos flt n plan creds (bal # bals) =
     balance_info plan (GetCostBearer (flt n) creds (bal_BearerID bal)) bal # balance_infos flt (Suc n) plan creds bals"

definition Billing_GetSubscription ::
    "bill_env \<Rightarrow> faults \<Rightarrow> http_request \<Rightarrow> credit_db \<Rightarrow> flag_db \<Rightarrow> bill_state \<Rightarrow> subscription_response response" where
  "Billing_GetSubscription env flt r creds fdb s =
     (case GetOrganization (flt 0) (be_pg env) (GetOrgID r) (accounts s) of
        Inl e \<Rightarrow> Refuse StatusInternalServerError ''failed to load organization''
      | Inr org \<Rightarrow>
        (let sub = GetSubscription (flt 1) (be_pg env) (GetOrgID r) (subscriptions s);
             pro = org_Plan org = PlanPro
         in Answer StatusOK
             \<lparr>sr_Plan = org_Plan org, sr_SeatsLimit = org_PlanSeatsLimit org, sr_ProjectsLimit = org_PlanProjectsLimit org,
              sr_EnvironmentsLimit = org_PlanEnvironmentsLimit org, sr_Gateway = gateway_of s (org_ID org),
              sr_Status = (case sub of Inl e \<Rightarrow> ''none'' | Inr x \<Rightarrow> sb_Status x),
              sr_CurrentPeriodStart = (case sub of Inl e \<Rightarrow> None | Inr x \<Rightarrow> Some (sb_CurrentPeriodStart x)),
              sr_CurrentPeriodEnd = (case sub of Inl e \<Rightarrow> None | Inr x \<Rightarrow> Some (sb_CurrentPeriodEnd x)),
              sr_CancelAtPeriodEnd = (case sub of Inl e \<Rightarrow> False | Inr x \<Rightarrow> sb_CancelAtPeriodEnd x),
              sr_CanManage = (case sub of Inl e \<Rightarrow> False | Inr x \<Rightarrow> sb_GatewayProvider x = GatewayStripe),
              sr_SeatsUsed = length (or_none (ListOrgMembers (flt 3) (be_pg env) (GetOrgID r) (accounts s))),
              sr_ProjectsUsed = length (or_none (ListProjects (flt 4) (be_pg env) (GetOrgID r) fdb)),
              sr_PlatformFeeMonthly = (if pro then ProPlanMonthlyPaise else 0),
              sr_PlatformFeeCurrency = (if pro then ''INR'' else []),
              sr_CreditBalances = balance_infos flt 5 (org_Plan org) creds
                (or_none (ListCreditBalances (flt 2) creds (GetOrgID r)))\<rparr>))"

fun count_environments :: "faults \<Rightarrow> nat \<Rightarrow> pglib \<Rightarrow> flag_db \<Rightarrow> project list \<Rightarrow> nat" where
  "count_environments flt n pg fdb [] = 0"
| "count_environments flt n pg fdb (p # ps) =
     length (or_none (ListEnvironments (flt n) pg (prj_ID p) fdb)) + count_environments flt (Suc n) pg fdb ps"

definition usage_info :: "string \<Rightarrow> credit_balance result \<Rightarrow> cost_bearer \<Rightarrow> credit_usage_info" where
  "usage_info plan bal b =
     \<lparr>cu_BearerID = cb_ID b, cu_BearerName = cb_DisplayName b,
      cu_IncludedPerMonth = (if plan = PlanPro then cb_ProUnits b else if plan = PlanEnterprise then 10000 else cb_FreeUnits b),
      cu_UsedThisMonth = 0,
      cu_PurchasedBalance = (case bal of Inl e \<Rightarrow> 0 | Inr x \<Rightarrow> bal_Balance x)\<rparr>"

fun usage_infos :: "bill_env \<Rightarrow> faults \<Rightarrow> nat \<Rightarrow> string \<Rightarrow> string \<Rightarrow> credit_db \<Rightarrow> cost_bearer list \<Rightarrow> credit_usage_info list" where
  "usage_infos env flt n orgID plan creds [] = []"
| "usage_infos env flt n orgID plan creds (b # bs) =
     usage_info plan (GetCreditBalance (flt n) (be_now env) creds (orgID, cb_ID b)) b #
       usage_infos env flt (Suc n) orgID plan creds bs"

definition Billing_GetUsage ::
    "bill_env \<Rightarrow> faults \<Rightarrow> http_request \<Rightarrow> credit_db \<Rightarrow> flag_db \<Rightarrow> bill_state \<Rightarrow> usage_response response" where
  "Billing_GetUsage env flt r creds fdb s =
     (case GetOrganization (flt 0) (be_pg env) (GetOrgID r) (accounts s) of
        Inl e \<Rightarrow> Refuse StatusInternalServerError ''failed to load organization''
      | Inr org \<Rightarrow>
        (let projects = or_none (ListProjects (flt 2) (be_pg env) (GetOrgID r) fdb)
         in Answer StatusOK
             \<lparr>ur_SeatsUsed = length (or_none (ListOrgMembers (flt 1) (be_pg env) (GetOrgID r) (accounts s))),
              ur_SeatsLimit = org_PlanSeatsLimit org, ur_ProjectsUsed = length projects,
              ur_ProjectsLimit = org_PlanProjectsLimit org,
              ur_EnvironmentsUsed = count_environments flt 4 (be_pg env) fdb projects,
              ur_EnvironmentsLimit = org_PlanEnvironmentsLimit org, ur_Plan = org_Plan org,
              ur_PlatformFeeMonthly = (if org_Plan org = PlanPro then ProPlanMonthlyPaise else 0),
              ur_CreditUsage = usage_infos env flt (4 + length projects) (GetOrgID r) (org_Plan org) creds
                (or_none (ListCostBearers (flt 3) creds))\<rparr>))"

subsection \<open>Onboarding\<close>

definition Onboarding_GetState :: "bill_env \<Rightarrow> faults \<Rightarrow> http_request \<Rightarrow> bill_state \<Rightarrow> onboarding_state response" where
  "Onboarding_GetState env flt r s = Answer StatusOK (loaded_onboarding (flt 0) env (GetOrgID r) s)"

record update_onboarding =
  uo_PlanSelected :: "bool option"
  uo_FirstFlagCreated :: "bool option"
  uo_FirstSDKConnected :: "bool option"
  uo_FirstEvaluation :: "bool option"

definition patched :: "bool option \<Rightarrow> bool \<Rightarrow> bool" where
  "patched x old = (case x of None \<Rightarrow> old | Some b \<Rightarrow> b)"

definition patch_onboarding :: "gotime \<Rightarrow> update_onboarding \<Rightarrow> onboarding_state \<Rightarrow> onboarding_state" where
  "patch_onboarding now req st =
     (let st1 = st\<lparr>os_PlanSelected := patched (uo_PlanSelected req) (os_PlanSelected st),
                os_FirstFlagCreated := patched (uo_FirstFlagCreated req) (os_FirstFlagCreated st),
                os_FirstSDKConnected := patched (uo_FirstSDKConnected req) (os_FirstSDKConnected st),
                os_FirstEvaluation := patched (uo_FirstEvaluation req) (os_FirstEvaluation st)\<rparr>;
          st2 = (if os_PlanSelected st1 \<and> os_FirstFlagCreated st1 \<and> os_FirstSDKConnected st1 \<and> os_FirstEvaluation st1 \<and>
                    \<not> os_Completed st1
                 then st1\<lparr>os_Completed := True, os_CompletedAt := Some now\<rparr> else st1)
      in st2\<lparr>os_UpdatedAt := now\<rparr>)"

definition Onboarding_UpdateState ::
    "bill_env \<Rightarrow> faults \<Rightarrow> http_request \<Rightarrow> update_onboarding option \<Rightarrow> bill_state \<Rightarrow> onboarding_state response \<times> bill_state" where
  "Onboarding_UpdateState env flt r body s =
     (case body of
        None \<Rightarrow> (Refuse StatusBadRequest ''invalid request body'', s)
      | Some req \<Rightarrow>
        (let st = patch_onboarding (be_now env) req (loaded_onboarding (flt 0) env (GetOrgID r) s)
         in case UpsertOnboardingState (flt 1) (be_pg env) (be_dbnow env) st s of
              (Inl e, s1) \<Rightarrow> (Refuse StatusInternalServerError ''failed to update onboarding state'', s1)
            | (Inr _, s1) \<Rightarrow> (Answer StatusOK st, s1)))"

end
