(* ===== verification/BillingLaws.thy ===== *)
theory BillingLaws
  imports Billing
begin

text \<open>
  What billing promises: an event of Stripe takes effect once and for one organization, an unpaid subscription
  comes to its end through the hourly job, and what the callback of PayU does.
\<close>

subsection \<open>What the statements leave alone\<close>

text \<open>The events that have been recorded, as the unique index sees them.\<close>

definition recorded :: "bill_state \<Rightarrow> (string \<times> string) set" where
  "recorded s = (\<lambda>e. (pe_GatewayProvider e, pe_EventID e)) ` set (bs_Events s)"

text \<open>An organization as billing sees it: its rows in the tables of organizations and subscriptions, and its gateway.\<close>

definition subs_of :: "string \<Rightarrow> life_state \<Rightarrow> subscription list" where
  "subs_of i l = filter (\<lambda>x. sb_OrgID x = i) (ls_Subs l)"

definition billed :: "string \<Rightarrow> bill_state \<Rightarrow> org_row list \<times> subscription list \<times> string option" where
  "billed i s = (rows_of i (accounts s), subs_of i (bs_Life s), bs_Gateways s i)"

lemma on_life_fields [simp]:
  "bs_Events (snd (on_life f s)) = bs_Events s" "bs_Gateways (snd (on_life f s)) = bs_Gateways s"
  "bs_Onboarding (snd (on_life f s)) = bs_Onboarding s" "bs_Life (snd (on_life f s)) = snd (f (bs_Life s))"
  "fst (on_life f s) = fst (f (bs_Life s))"
  by (simp_all add: on_life_def split: prod.split)

lemma on_accounts_fields [simp]:
  "bs_Events (snd (on_accounts f s)) = bs_Events s" "bs_Gateways (snd (on_accounts f s)) = bs_Gateways s"
  "bs_Onboarding (snd (on_accounts f s)) = bs_Onboarding s" "accounts (snd (on_accounts f s)) = snd (f (accounts s))"
  "ls_Subs (bs_Life (snd (on_accounts f s))) = subscriptions s" "fst (on_accounts f s) = fst (f (accounts s))"
  by (simp_all add: on_accounts_def split: prod.split)

lemma rows_update_other:
  assumes "\<And>x. org_ID (f x) = org_ID x" "u \<noteq> i"
  shows "rows_of i (update_orgs (\<lambda>x. org_ID x = u) f acc) = rows_of i acc"
  using assms(2) by (simp add: rows_update [OF assms(1)]) (auto simp: rows_of_def intro!: map_idI)

lemma UpdateOrgPlan_other:
  "pg_uuid pg j \<noteq> Some i \<Longrightarrow> rows_of i (snd (UpdateOrgPlan fl pg now j plan limits acc)) = rows_of i acc"
  by (auto simp: UpdateOrgPlan_def exec_uuid_def exec_def rows_update_other split: option.split)

lemma UpsertSubscription_other:
  "pg_uuid pg (sb_OrgID sub) \<noteq> Some i \<Longrightarrow> subs_of i (snd (UpsertSubscription fl pg now n sub l)) = subs_of i l"
proof -
  assume a: "pg_uuid pg (sb_OrgID sub) \<noteq> Some i"
  have "filter (\<lambda>x. sb_OrgID x = i) (map (\<lambda>x. if sb_OrgID x = u then merge_subscription now new x else x) xs) =
      filter (\<lambda>x. sb_OrgID x = i) xs" if "u \<noteq> i" for u new xs
    using that by (induction xs) (auto simp: merge_subscription_def)
  with a show ?thesis by (auto simp: UpsertSubscription_def subs_of_def Let_def split: option.split)
qed

lemma CreatePaymentEvent_fields [simp]:
  "bs_Life (snd (CreatePaymentEvent fl pg now n ev s)) = bs_Life s"
  "bs_Gateways (snd (CreatePaymentEvent fl pg now n ev s)) = bs_Gateways s"
  "bs_Onboarding (snd (CreatePaymentEvent fl pg now n ev s)) = bs_Onboarding s"
  by (auto simp: CreatePaymentEvent_def split: option.split)

lemma CreatePaymentEvent_grows: "recorded s \<subseteq> recorded (snd (CreatePaymentEvent fl pg now n ev s))"
  by (auto simp: CreatePaymentEvent_def recorded_def split: option.split)

lemma UpsertOnboardingState_fields [simp]:
  "bs_Events (snd (UpsertOnboardingState fl pg now st s)) = bs_Events s"
  "bs_Gateways (snd (UpsertOnboardingState fl pg now st s)) = bs_Gateways s"
  "rows_of i (accounts (snd (UpsertOnboardingState fl pg now st s))) = rows_of i (accounts s)"
  "ls_Subs (bs_Life (snd (UpsertOnboardingState fl pg now st s))) = subscriptions s"
  by (auto simp: UpsertOnboardingState_def Let_def rows_of_def split: option.split)

lemma select_plan_fields [simp]:
  "bs_Events (select_plan env flt n i s) = bs_Events s" "bs_Gateways (select_plan env flt n i s) = bs_Gateways s"
  "rows_of j (accounts (select_plan env flt n i s)) = rows_of j (accounts s)"
  "ls_Subs (bs_Life (select_plan env flt n i s)) = subscriptions s"
  by (simp_all add: select_plan_def Let_def)

lemma recorded_cong [simp]:
  "recorded (select_plan env flt n i s) = recorded s" "recorded (snd (on_life f s)) = recorded s"
  "recorded (snd (on_accounts g s)) = recorded s"
  by (simp_all add: recorded_def)

subsection \<open>Events of Stripe\<close>

text \<open>The organization an event is about: the one its metadata names, or the one whose subscription it names.\<close>

definition event_org :: "bill_env \<Rightarrow> webhook_event \<Rightarrow> bill_state \<Rightarrow> string option" where
  "event_org env ev s =
     (if we_Type ev = EventCheckoutCompleted then pg_uuid (be_pg env) (we_Metadata ev ''org_id'')
      else (case find (\<lambda>x. sb_StripeSubscriptionID x = we_SubscriptionID ev) (subscriptions s) of
              None \<Rightarrow> None | Some sub \<Rightarrow> pg_uuid (be_pg env) (sb_OrgID sub)))"

lemma subs_of_fields [simp]:
  "subs_of i (l\<lparr>ls_Acc := acc\<rparr>) = subs_of i l"
  "subs_of i (bs_Life (select_plan env flt n j s)) = subs_of i (bs_Life s)"
  "subs_of i (bs_Life (snd (on_accounts f s))) = subs_of i (bs_Life s)"
  by (simp_all add: subs_of_def)


lemma record_event_fields [simp]:
  "bs_Life (record_event env fl n ev i s) = bs_Life s" "bs_Gateways (record_event env fl n ev i s) = bs_Gateways s"
  by (simp_all add: record_event_def)

lemma put_status_fields [simp]:
  "bs_Gateways (put_status env fl n st sub s) = bs_Gateways s" "bs_Events (put_status env fl n st sub s) = bs_Events s"
  "accounts (put_status env fl n st sub s) = accounts s" "recorded (put_status env fl n st sub s) = recorded s"
  by (simp_all add: put_status_def)

lemma put_status_other:
  "pg_uuid (be_pg env) (sb_OrgID sub) \<noteq> Some i \<Longrightarrow>
   subs_of i (bs_Life (put_status env fl n st sub s)) = subs_of i (bs_Life s)"
  by (simp add: put_status_def UpsertSubscription_other)

lemma checkout_other:
  assumes "pg_uuid (be_pg env) (we_Metadata ev ''org_id'') \<noteq> Some i"
  shows "billed i (handleStripeCheckoutCompleted env flt ev s) = billed i s"
proof -
  have s: "sb_OrgID (stripe_subscription env ev x) = x" for x by (simp add: stripe_subscription_def)
  show ?thesis
    using assms unfolding billed_def handleStripeCheckoutCompleted_def Let_def case_prod_unfold
    by (auto simp: UpdateOrgPlan_other UpsertSubscription_other s split: sum.split)
qed

lemma find_of_lookup: "GetSubscriptionByStripeID fl i subs = Inr sub \<Longrightarrow> find (\<lambda>x. sb_StripeSubscriptionID x = i) subs = Some sub"
  by (auto simp: GetSubscriptionByStripeID_def lookup_row_def split: if_splits option.splits)

lemma status_event_other:
  assumes "event_org env ev s \<noteq> Some i" "we_Type ev \<noteq> EventCheckoutCompleted"
  shows "billed i (handleStripeSubscriptionUpdated env flt ev s) = billed i s"
    and "billed i (handleStripeSubscriptionCanceled env flt ev s) = billed i s"
    and "billed i (handleStripePaymentFailed env flt ev s) = billed i s"
proof -
  have "pg_uuid (be_pg env) (sb_OrgID sub) \<noteq> Some i"
    if "GetSubscriptionByStripeID fl (we_SubscriptionID ev) (subscriptions s) = Inr sub" for fl sub
    using assms find_of_lookup [OF that] by (simp add: event_org_def)
  then show "billed i (handleStripeSubscriptionUpdated env flt ev s) = billed i s"
    "billed i (handleStripeSubscriptionCanceled env flt ev s) = billed i s"
    "billed i (handleStripePaymentFailed env flt ev s) = billed i s"
    by (auto simp: billed_def handleStripeSubscriptionUpdated_def handleStripeSubscriptionCanceled_def Let_def
        handleStripePaymentFailed_def put_status_other UpdateOrgPlan_other split: sum.split)
qed

lemma dispatch_other:
  assumes "event_org env ev s \<noteq> Some i"
  shows "billed i (stripe_dispatch env flt ev s) = billed i s"
proof (cases "we_Type ev = EventCheckoutCompleted")
  case True
  with assms show ?thesis by (simp add: stripe_dispatch_def event_org_def checkout_other)
next
  case False
  from status_event_other [OF assms False] False show ?thesis by (simp add: stripe_dispatch_def)
qed

text \<open>
  C35: an event of Stripe is about one organization.  Whatever the event and whatever statements fail, the rows, the
  subscription and the gateway of every organization other than the one the event is about stay as they are: for a
  completed checkout that is the organization its metadata names, for any other the one with the subscription.
\<close>

theorem stripe_event_one_org:
  assumes "registry_Get GatewayStripe (be_registry env) = Some gw"
    and "gw_HandleWebhook (be_month env) (be_now env) gw (take 65536 b) (req_Header r ''Stripe-Signature'') = Some ev"
    and "event_org env ev s \<noteq> Some i"
  shows "billed i (snd (HandleStripeWebhook env flt r (Some b) s)) = billed i s"
  using assms dispatch_other [OF assms(3)] by (simp add: HandleStripeWebhook_def split: sum.split)

subsection \<open>Once only\<close>

lemma dispatch_grows: "recorded s \<subseteq> recorded (stripe_dispatch env flt ev s)"
proof -
  have r: "recorded s \<subseteq> recorded (record_event env fl n ev i t)" if "recorded s \<subseteq> recorded t" for fl n i t
    using that CreatePaymentEvent_grows [of t] unfolding record_event_def by blast
  have "recorded s \<subseteq> recorded (handleStripeCheckoutCompleted env flt ev s)"
    by (simp add: r handleStripeCheckoutCompleted_def Let_def case_prod_unfold split: sum.split)
  moreover have "recorded s \<subseteq> recorded (handleStripeSubscriptionUpdated env flt ev s)"
    "recorded s \<subseteq> recorded (handleStripeSubscriptionCanceled env flt ev s)"
    "recorded s \<subseteq> recorded (handleStripePaymentFailed env flt ev s)"
    by (simp_all add: r handleStripeSubscriptionUpdated_def handleStripeSubscriptionCanceled_def Let_def
        handleStripePaymentFailed_def split: sum.split)
  ultimately show ?thesis by (auto simp: stripe_dispatch_def)
qed

text \<open>The writing calls of billing, and what each leaves recorded.\<close>

datatype billing_call =
    CallPayU "strmap option"
  | CallStripe http_request "string option"
  | CallCancel http_request "bool option"
  | CallGateway http_request "string option"
  | CallOnboarding http_request "update_onboarding option"

fun run_billing :: "bill_env \<times> faults \<times> billing_call \<Rightarrow> bill_state \<Rightarrow> bill_state" where
  "run_billing (env, flt, CallPayU form) s = snd (PayUCallback env flt form s)"
| "run_billing (env, flt, CallStripe r b) s = snd (HandleStripeWebhook env flt r b s)"
| "run_billing (env, flt, CallCancel r b) s = snd (CancelSubscription env flt r b s)"
| "run_billing (env, flt, CallGateway r b) s = snd (UpdateGateway env flt r b s)"
| "run_billing (env, flt, CallOnboarding r b) s = snd (Onboarding_UpdateState env flt r b s)"

lemma UpdateOrgPaymentGateway_events [simp]: "bs_Events (snd (UpdateOrgPaymentGateway fl pg now i g s)) = bs_Events s"
  by (simp add: UpdateOrgPaymentGateway_def Let_def split: option.split)

lemma payu_paid_grows: "recorded s \<subseteq> recorded (snd (payu_paid env flt params ev org s))"
  using CreatePaymentEvent_grows unfolding payu_paid_def Let_def case_prod_unfold by (simp split: sum.split)

lemma run_billing_grows: "recorded s \<subseteq> recorded (run_billing x s)"
proof -
  obtain env flt c where x: "x = (env, flt, c)" by (cases x)
  show ?thesis
  proof (cases c)
    case (CallPayU form)
    show ?thesis using payu_paid_grows
      by (simp add: x CallPayU PayUCallback_def Let_def split: option.split gateway.split sum.split)
  next
    case (CallStripe r b)
    show ?thesis using dispatch_grows
      by (simp add: x CallStripe HandleStripeWebhook_def split: option.split sum.split)
  next
    case (CallCancel r b)
    show ?thesis by (simp add: x CallCancel CancelSubscription_def Let_def split: option.split sum.split)
  next
    case (CallGateway r b)
    show ?thesis by (simp add: x CallGateway UpdateGateway_def case_prod_unfold recorded_def split: option.split sum.split)
  next
    case (CallOnboarding r b)
    show ?thesis
      by (simp add: x CallOnboarding Onboarding_UpdateState_def Let_def case_prod_unfold recorded_def split: option.split sum.split)
  qed
qed

lemma runs_grow: "recorded s \<subseteq> recorded (fold run_billing calls s)"
proof (induction calls arbitrary: s)
  case (Cons c calls)
  from subset_trans [OF run_billing_grows [of s c] Cons.IH] show ?case by simp
qed simp

lemma recorded_found:
  "(p, i) \<in> recorded s \<Longrightarrow> \<not> fl \<Longrightarrow> \<exists>e. GetPaymentEventByExternalID fl p i (bs_Events s) = Inr e"
proof -
  assume a: "(p, i) \<in> recorded s" "\<not> fl"
  then have "find (\<lambda>e. pe_GatewayProvider e = p \<and> pe_EventID e = i) (bs_Events s) \<noteq> None"
    by (auto simp: recorded_def find_None_iff)
  with a(2) show ?thesis by (auto simp: GetPaymentEventByExternalID_def lookup_row_def)
qed

text \<open>
  C34: an event of Stripe takes effect once.  Once an event is recorded, no sequence of billing calls, faults included,
  makes a later delivery of it change anything, as long as the delivery can read the recorded events.
\<close>

theorem stripe_event_once:
  assumes "(GatewayStripe, we_GatewayEventID ev) \<in> recorded s" and "\<not> flt 0"
    and "registry_Get GatewayStripe (be_registry env) = Some gw"
    and "gw_HandleWebhook (be_month env) (be_now env) gw (take 65536 b) (req_Header r ''Stripe-Signature'') = Some ev"
  shows "HandleStripeWebhook env flt r (Some b) (fold run_billing calls s) =
    (Answer StatusOK ''already_processed'', fold run_billing calls s)"
proof -
  have "(GatewayStripe, we_GatewayEventID ev) \<in> recorded (fold run_billing calls s)"
    using assms(1) runs_grow by blast
  from recorded_found [OF this assms(2)] assms(3,4) show ?thesis
    by (auto simp: HandleStripeWebhook_def)
qed

lemma unrecorded_absent:
  assumes "(p, i) \<notin> recorded s"
  shows "GetPaymentEventByExternalID fl p i (bs_Events s) \<noteq> Inr e"
proof -
  have "find (\<lambda>e. pe_GatewayProvider e = p \<and> pe_EventID e = i) (bs_Events s) = None"
    using assms by (auto simp: recorded_def find_None_iff)
  then show ?thesis by (simp add: GetPaymentEventByExternalID_def lookup_row_def)
qed

subsection \<open>An unpaid subscription\<close>

definition present :: "string \<Rightarrow> life_state \<Rightarrow> bool" where
  "present i l \<longleftrightarrow> rows_of i (ls_Acc l) \<noteq> [] \<and> subs_of i l \<noteq> []"

definition ended :: "string \<Rightarrow> life_state \<Rightarrow> bool" where
  "ended i l \<longleftrightarrow> (\<forall>x\<in>set (rows_of i (ls_Acc l)). org_Plan x = PlanFree) \<and> (\<forall>x\<in>set (subs_of i l). sb_Status x = ''canceled'')"

lemma subs_of_upsert:
  assumes "pg_uuid pg (sb_OrgID sub) = Some i" "present i l" "\<not> fl"
  shows "subs_of i (snd (UpsertSubscription fl pg now n sub l)) =
    map (merge_subscription now (if sb_GatewayProvider sub = [] then sub\<lparr>sb_GatewayProvider := GatewayPayU\<rparr> else sub)) (subs_of i l)"
proof -
  have "filter (\<lambda>x. sb_OrgID x = i) (map (\<lambda>x. if sb_OrgID x = i then merge_subscription now new x else x) xs) =
      map (merge_subscription now new) (filter (\<lambda>x. sb_OrgID x = i) xs)" for new xs
    by (induction xs) (auto simp: merge_subscription_def)
  moreover have "i \<in> org_ID ` set (orgs_of l)" "i \<in> sb_OrgID ` set (ls_Subs l)"
    using assms(2) by (force simp: present_def rows_of_def subs_of_def filter_empty_conv)+
  ultimately show ?thesis using assms(1,3) by (auto simp: UpsertSubscription_def subs_of_def Let_def)
qed

lemma downgrade_rows:
  "pg_uuid pg j = Some i \<Longrightarrow> \<not> fl \<Longrightarrow>
    fst (DowngradeOrgToFree fl pg plans now j acc) = Inr () \<and>
    (\<forall>x\<in>set (rows_of i (snd (DowngradeOrgToFree fl pg plans now j acc))). org_Plan x = PlanFree)"
  by (auto simp: DowngradeOrgToFree_def exec_uuid_def exec_def Let_def rows_update) (auto simp: rows_of_def)

lemma downgrade_present [simp]:
  "present i (l\<lparr>ls_Acc := snd (DowngradeOrgToFree fl pg plans now j (ls_Acc l))\<rparr>) = present i l"
proof -
  have "rows_of i (snd (DowngradeOrgToFree fl pg plans now j acc)) = [] \<longleftrightarrow> rows_of i acc = []" for acc
    by (simp add: DowngradeOrgToFree_def exec_uuid_def exec_def Let_def rows_update split: option.split)
  then show ?thesis by (simp add: present_def subs_of_def)
qed

text \<open>Without faults, a step for a subscription of the organization ends it, and any other step leaves it alone.\<close>

lemma dunning_step_ends:
  assumes "present i l" "\<And>k. \<not> flt k"
  shows "present i (dunning_step je flt n x l)"
    and "pg_uuid (je_pg je) (sb_OrgID x) = Some i \<Longrightarrow> ended i (dunning_step je flt n x l)"
    and "pg_uuid (je_pg je) (sb_OrgID x) \<noteq> Some i \<Longrightarrow> ended i l \<Longrightarrow> ended i (dunning_step je flt n x l)"
proof -
  let ?acc = "snd (DowngradeOrgToFree (flt (2 * n - 1)) (je_pg je) (je_plans je) (je_dbnow je) (sb_OrgID x) (ls_Acc l))"
  let ?l = "l\<lparr>ls_Acc := ?acc\<rparr>"
  let ?new = "x\<lparr>sb_Status := ''canceled'', sb_CancelAtPeriodEnd := False, sb_UpdatedAt := je_now je\<rparr>"
  let ?up = "snd (UpsertSubscription (flt (2 * n)) (je_pg je) (je_dbnow je) (je_newID je n) ?new ?l)"
  have p: "present i ?l" using assms(1) by simp
  have step: "dunning_step je flt n x l =
      (case fst (DowngradeOrgToFree (flt (2 * n - 1)) (je_pg je) (je_plans je) (je_dbnow je) (sb_OrgID x) (ls_Acc l)) of
        Inl e \<Rightarrow> ?l | Inr u \<Rightarrow> ?up)"
    unfolding dunning_step_def case_prod_unfold by (rule refl)
  have own: "present i (dunning_step je flt n x l)" "ended i (dunning_step je flt n x l)"
    if u: "pg_uuid (je_pg je) (sb_OrgID x) = Some i"
  proof -
    note d = downgrade_rows [OF u assms(2) [of "2 * n - 1"], of "je_plans je" "je_dbnow je" "ls_Acc l"]
    have "subs_of i ?up \<noteq> [] \<and> (\<forall>y\<in>set (subs_of i ?up). sb_Status y = ''canceled'')"
      using subs_of_upsert [of "je_pg je" ?new i ?l "flt (2 * n)"] u p assms(2)
      by (auto simp: merge_subscription_def or_old_def present_def)
    moreover have "dunning_step je flt n x l = ?up" using step d by simp
    ultimately show "present i (dunning_step je flt n x l)" "ended i (dunning_step je flt n x l)"
      using d p by (simp_all add: ended_def present_def)
  qed
  have other: "rows_of i (ls_Acc (dunning_step je flt n x l)) = rows_of i (ls_Acc l)"
      "subs_of i (dunning_step je flt n x l) = subs_of i l" if u: "pg_uuid (je_pg je) (sb_OrgID x) \<noteq> Some i"
    using u unfolding step by (auto simp: UpsertSubscription_other split: sum.split)
  show "present i (dunning_step je flt n x l)"
    using own(1) other assms(1) by (cases "pg_uuid (je_pg je) (sb_OrgID x) = Some i") (simp_all add: present_def)
  show "pg_uuid (je_pg je) (sb_OrgID x) = Some i \<Longrightarrow> ended i (dunning_step je flt n x l)" by (rule own(2))
  show "ended i (dunning_step je flt n x l)" if "pg_uuid (je_pg je) (sb_OrgID x) \<noteq> Some i" "ended i l"
    using other [OF that(1)] that(2) by (simp add: ended_def)
qed

lemma dunning_ends:
  assumes "\<And>k. \<not> flt k" "present i l"
    and "(\<exists>x\<in>set xs. pg_uuid (je_pg je) (sb_OrgID x) = Some i) \<or> ended i l"
  shows "ended i (for_each (dunning_step je flt) n xs l)"
  using assms(2,3)
proof (induction xs arbitrary: n l)
  case (Cons x xs)
  note step = dunning_step_ends [OF Cons.prems(1) assms(1), where je = je and n = n and x = x]
  have "(\<exists>y\<in>set xs. pg_uuid (je_pg je) (sb_OrgID y) = Some i) \<or> ended i (dunning_step je flt n x l)"
    using Cons.prems(2) step(2,3) by (cases "pg_uuid (je_pg je) (sb_OrgID x) = Some i") auto
  from Cons.IH [OF step(1) this] show ?case by simp
qed simp

text \<open>What a failed payment leaves in the subscription.\<close>

lemma payment_failed_marks:
  assumes "pg_uuid (be_pg env) (sb_OrgID sub) = Some i" "present i (bs_Life s)" "\<not> fl"
  shows "present i (bs_Life (put_status env fl n ''past_due'' sub s)) \<and>
    (\<forall>x\<in>set (subs_of i (bs_Life (put_status env fl n ''past_due'' sub s))).
       sb_OrgID x = i \<and> sb_Status x = ''past_due'' \<and> sb_UpdatedAt x = be_dbnow env)"
proof -
  have "\<forall>x\<in>set (subs_of i (bs_Life s)). sb_OrgID x = i" by (simp add: subs_of_def)
  then show ?thesis
    using assms subs_of_upsert [of "be_pg env" "sub\<lparr>sb_Status := ''past_due'', sb_UpdatedAt := be_now env\<rparr>" i "bs_Life s" fl]
    by (auto simp: put_status_def merge_subscription_def or_old_def present_def)
qed

text \<open>
  C36: an unpaid subscription comes to its end.  When Stripe reports a failed payment, and nothing about the
  organization changes until an hourly job runs undisturbed more than fourteen days later, the job puts the
  organization on the free plan and leaves its subscription canceled.
\<close>

theorem unpaid_subscription_ends:
  assumes "registry_Get GatewayStripe (be_registry env) = Some gw"
    and "gw_HandleWebhook (be_month env) (be_now env) gw (take 65536 b) (req_Header r ''Stripe-Signature'') = Some ev"
    and "we_Type ev = EventPaymentFailed" "we_SubscriptionID ev \<noteq> []"
    and "(GatewayStripe, we_GatewayEventID ev) \<notin> recorded s"
    and "GetSubscriptionByStripeID (flt 1) (we_SubscriptionID ev) (subscriptions s) = Inr sub" and "\<not> flt 2"
    and "pg_uuid (be_pg env) (sb_OrgID sub) = Some i" "present i (bs_Life s)"
    and "billed i t = billed i (snd (HandleStripeWebhook env flt r (Some b) s))"
    and "pg_uuid (je_pg je) i = Some i" "be_dbnow env < je_days je (je_now je) DunningGraceDays" "\<And>k. \<not> jflt k"
  shows "ended i (downgradePastDueSubscriptions je jflt (bs_Life t))"
proof -
  have "\<nexists>e. GetPaymentEventByExternalID (flt 0) GatewayStripe (we_GatewayEventID ev) (bs_Events s) = Inr e"
    using assms(5) unrecorded_absent by blast
  then have "snd (HandleStripeWebhook env flt r (Some b) s) =
      record_event env (flt 3) 2 ev (sb_OrgID sub) (put_status env (flt 2) 1 ''past_due'' sub s)"
    using assms(1-4,6) by (auto simp: HandleStripeWebhook_def stripe_dispatch_def handleStripePaymentFailed_def split: sum.split)
  with payment_failed_marks [OF assms(8,9,7), of 1] assms(10)
  have t: "present i (bs_Life t)" "\<forall>x\<in>set (subs_of i (bs_Life t)). sb_OrgID x = i \<and> sb_Status x = ''past_due'' \<and> sb_UpdatedAt x = be_dbnow env"
    by (simp_all add: billed_def present_def)
  then obtain x where "x \<in> set (subs_of i (bs_Life t))" by (cases "subs_of i (bs_Life t)") (auto simp: present_def)
  with t(2) assms(11,12) have "\<exists>x\<in>set (filter (\<lambda>x. sb_Status x = ''past_due'' \<and> sb_UpdatedAt x < je_days je (je_now je) DunningGraceDays)
      (subscriptions t)). pg_uuid (je_pg je) (sb_OrgID x) = Some i"
    by (auto simp: subs_of_def)
  then show ?thesis
    using dunning_ends [of jflt, OF assms(13) t(1)] assms(13)
    by (auto simp: downgradePastDueSubscriptions_def ListPastDueSubscriptions_def lookup_row_def)
qed

subsection \<open>An example\<close>

text \<open>Two subscribed organizations, and a client of Stripe that reports that the payment of the first has failed.\<close>

definition demo_sub :: "string \<Rightarrow> subscription" where
  "demo_sub i = \<lparr>sb_ID = i, sb_OrgID = i, sb_GatewayProvider = GatewayStripe, sb_PayUTxnID = [], sb_PayUMihpayID = [],
     sb_StripeCustomerID = ''cus'', sb_StripeSubscriptionID = ''sub_'' @ i, sb_StripePaymentIntentID = [],
     sb_Plan = PlanPro, sb_Status = ''active'', sb_CurrentPeriodStart = day, sb_CurrentPeriodEnd = 31 * day,
     sb_CancelAtPeriodEnd = False, sb_CreatedAt = day, sb_UpdatedAt = day\<rparr>"

definition demo_bill :: bill_state where
  "demo_bill = \<lparr>bs_Life = \<lparr>ls_Acc = no_accounts\<lparr>ac_Orgs := [zero_org\<lparr>org_ID := ''a'', org_Plan := PlanPro\<rparr>,
       zero_org\<lparr>org_ID := ''b'', org_Plan := PlanPro\<rparr>]\<rparr>, ls_Subs = [demo_sub ''a'', demo_sub ''b''], ls_Keys = [],
       ls_Janitor = []\<rparr>, bs_Gateways = [''a'' \<mapsto> GatewayStripe], bs_Events = [], bs_Onboarding = []\<rparr>"

definition demo_stripe :: gateway where
  "demo_stripe = StripeGateway \<lparr>sp_webhookSecret = ''w'', sp_priceID = ''p'',
     sp_construct = (\<lambda>payload signature secret. Some \<lparr>sv_ID = ''evt'', sv_Type = ''invoice.payment_failed'',
       sv_Session = None, sv_Sub = None, sv_Object = no_strings(''subscription'' := ''sub_a'')\<rparr>),
     sp_session = (\<lambda>price req. None), sp_retrieve = (\<lambda>i. None), sp_update = (\<lambda>i. True), sp_cancel = (\<lambda>i. True),
     sp_portal = (\<lambda>c url. None)\<rparr>"

definition demo_billing :: bill_env where
  "demo_billing = \<lparr>be_pg = xe_pg (demo_auth 0), be_like = None, be_plans = Map.empty, be_price = None,
     be_sha512 = (\<lambda>s. s), be_registry = [GatewayStripe \<mapsto> demo_stripe], be_dashboardURL = [], be_appBaseURL = [],
     be_now = 200 * day, be_dbnow = 200 * day, be_month = (\<lambda>t. t + 30 * day), be_newID = (\<lambda>n. replicate n CHR ''e''),
     be_payload = (\<lambda>ev. ''{}''), be_params = (\<lambda>ps. ''{}'')\<rparr>"

definition demo_failure :: webhook_event where
  "demo_failure = \<lparr>we_Type = EventPaymentFailed, we_GatewayEventID = ''evt'', we_CustomerID = [], we_SubscriptionID = ''sub_a'',
     we_Status = ''past_due'', we_Plan = [], we_PeriodStart = 0, we_PeriodEnd = 0, we_Metadata = no_strings\<rparr>"

lemma demo_gateway:
  "registry_Get GatewayStripe (be_registry demo_billing) = Some demo_stripe"
  "gw_HandleWebhook (be_month demo_billing) (be_now demo_billing) demo_stripe (take 65536 [])
     (req_Header (demo_request_for []) ''Stripe-Signature'') = Some demo_failure"
  by (simp_all add: registry_Get_def demo_billing_def demo_stripe_def stripe_HandleWebhook_def handlePaymentFailed_def demo_failure_def)

lemma demo_failed_sub: "GetSubscriptionByStripeID fl ''sub_a'' (subscriptions demo_bill) = (if fl then Inl ErrInternal else Inr (demo_sub ''a''))"
  by (simp add: GetSubscriptionByStripeID_def lookup_row_def demo_bill_def demo_sub_def)

theorem stripe_event_one_org_witness:
  "billed ''b'' (snd (HandleStripeWebhook demo_billing no_faults (demo_request_for []) (Some []) demo_bill)) = billed ''b'' demo_bill"
  by (rule stripe_event_one_org [OF demo_gateway])
    (simp add: event_org_def demo_failure_def demo_bill_def demo_sub_def demo_billing_def demo_auth_def)

theorem stripe_event_once_witness:
  "HandleStripeWebhook demo_billing no_faults (demo_request_for []) (Some [])
     (fold run_billing [] (snd (HandleStripeWebhook demo_billing no_faults (demo_request_for []) (Some []) demo_bill))) =
   (Answer StatusOK ''already_processed'',
     fold run_billing [] (snd (HandleStripeWebhook demo_billing no_faults (demo_request_for []) (Some []) demo_bill)))"
proof (rule stripe_event_once [OF _ _ demo_gateway])
  show "(GatewayStripe, we_GatewayEventID demo_failure) \<in>
      recorded (snd (HandleStripeWebhook demo_billing no_faults (demo_request_for []) (Some []) demo_bill))"
    by (simp add: demo_failure_def) code_simp
qed simp

theorem unpaid_subscription_ends_witness:
  "ended ''a'' (downgradePastDueSubscriptions demo_job no_faults
     (bs_Life (snd (HandleStripeWebhook demo_billing no_faults (demo_request_for []) (Some []) demo_bill))))"
proof (rule unpaid_subscription_ends [OF demo_gateway, where sub = "demo_sub ''a''" and s = demo_bill and flt = no_faults])
  show "(GatewayStripe, we_GatewayEventID demo_failure) \<notin> recorded demo_bill"
    by (simp add: recorded_def demo_bill_def)
  show "GetSubscriptionByStripeID (no_faults 1) (we_SubscriptionID demo_failure) (subscriptions demo_bill) = Inr (demo_sub ''a'')"
    by (simp add: demo_failure_def demo_failed_sub)
  show "present ''a'' (bs_Life demo_bill)"
    by (simp add: present_def rows_of_def subs_of_def demo_bill_def demo_sub_def zero_org_def)
  show "pg_uuid (be_pg demo_billing) (sb_OrgID (demo_sub ''a'')) = Some ''a''" "pg_uuid (je_pg demo_job) ''a'' = Some ''a''"
    by (simp_all add: demo_sub_def demo_billing_def demo_auth_def demo_job_def)
  show "be_dbnow demo_billing < je_days demo_job (je_now demo_job) DunningGraceDays"
    by (simp add: demo_billing_def demo_job_def go_simps)
qed (simp_all add: demo_failure_def)

subsection \<open>PayU\<close>

text \<open>The identifier of a transaction names the organization by the first eight bytes of its identifier.\<close>

lemma txnid_names_org:
  assumes "CHR ''_'' \<notin> set (take 8 (cr_OrgID req))"
  shows "splitTxnID (payu_txnid req) = Some (take 8 (cr_OrgID req))"
proof -
  have "takeWhile (\<lambda>c. c \<noteq> CHR ''_'') (take 8 (cr_OrgID req) @ CHR ''_'' # u) = take 8 (cr_OrgID req)" for u
    using assms by (subst takeWhile_append2) auto
  then show ?thesis by (simp add: splitTxnID_def payu_txnid_def)
qed

text \<open>
  A payment through PayU is never credited.  The callback looks its organization up by \<open>LIKE\<close> on a \<open>UUID\<close>
  column, for which PostgreSQL has no operator: whatever the form and the state, correctly signed payments included,
  it redirects to the failure page and changes nothing.
\<close>

theorem payu_never_credited:
  assumes "be_like env = None"
  shows "PayUCallback env flt form s = (billing_url env ''failed'', s)"
  using assms
  by (auto simp: PayUCallback_def findOrgByTxnPrefix_def GetOrganizationByIDPrefix_def Let_def
      split: option.split gateway.split)

theorem payu_never_credited_witness:
  "PayUCallback demo_billing no_faults (Some (no_strings(''status'' := ''success''))) demo_bill =
    (billing_url demo_billing ''failed'', demo_bill)"
  by (rule payu_never_credited) (simp add: demo_billing_def)

end
