(* ===== verification/License.thy ===== *)
theory License
  imports HttpModel Plans
begin

text \<open>
  Licenses of on-premise installations: signed keys (\<open>server/internal/license/license.go\<close>, \<open>loader.go\<close>) and the
  middlewares of \<open>api/middleware/license.go\<close>.  Base64, SHA-256, RSA, PEM and JSON are parameters.
\<close>

datatype license_error = ErrInvalidLicense | ErrExpiredLicense | ErrNoLicense

subsection \<open>Claims and keys\<close>

definition Claims_Validate :: "gotime \<Rightarrow> license_claims \<Rightarrow> license_error option" where
  "Claims_Validate now c =
     (if lc_LicenseID c = [] \<or> lc_CustomerID c = [] then Some ErrInvalidLicense
      else if lc_Plan c \<noteq> PlanPro \<and> lc_Plan c \<noteq> PlanEnterprise then Some ErrInvalidLicense
      else if lc_ExpiresAt c < now then Some ErrExpiredLicense
      else None)"

fun HasFeature_loop :: "string list \<Rightarrow> string \<Rightarrow> bool" where
  "HasFeature_loop [] feature = False"
| "HasFeature_loop (f # fs) feature = (if f = feature then True else HasFeature_loop fs feature)"

definition HasFeature :: "license_claims \<Rightarrow> string \<Rightarrow> bool" where
  "HasFeature c feature = HasFeature_loop (lc_Features c) feature"

record license_key =
  lk_Payload :: string
  lk_Signature :: string

definition Encode :: "license_key \<Rightarrow> string" where
  "Encode k = lk_Payload k @ ''.'' @ lk_Signature k"

text \<open>The loop looks for the first point.\<close>

fun Decode_loop :: "string \<Rightarrow> string \<Rightarrow> license_key option" where
  "Decode_loop seen [] = None"
| "Decode_loop seen (c # s) =
     (if c = CHR ''.'' then Some \<lparr>lk_Payload = rev seen, lk_Signature = s\<rparr> else Decode_loop (c # seen) s)"

definition Decode :: "string \<Rightarrow> license_key option" where
  "Decode raw = Decode_loop [] raw"

text \<open>
  \<open>ll_private\<close> and \<open>ll_public\<close> parse PEM blocks, \<open>ll_sign\<close> and \<open>ll_verify\<close> are PKCS #1 v1.5 signatures of a
  SHA-256 hash, \<open>ll_read\<close> reads a file.
\<close>

record ('priv, 'pub) license_lib =
  ll_json :: "license_claims \<Rightarrow> string"
  ll_unjson :: "string \<Rightarrow> license_claims option"
  ll_b64 :: "string \<Rightarrow> string"
  ll_unb64 :: "string \<Rightarrow> string option"
  ll_private :: "string \<Rightarrow> 'priv option"
  ll_public :: "string \<Rightarrow> 'pub option"
  ll_sha256 :: "string \<Rightarrow> string"
  ll_sign :: "'priv \<Rightarrow> string \<Rightarrow> string option"
  ll_verify :: "'pub \<Rightarrow> string \<Rightarrow> string \<Rightarrow> bool"
  ll_read :: "string \<Rightarrow> string option"

definition Sign :: "('priv, 'pub) license_lib \<Rightarrow> license_claims \<Rightarrow> string \<Rightarrow> license_key option" where
  "Sign lib claims privateKeyPEM =
     (let payload = ll_json lib claims
      in case ll_private lib privateKeyPEM of
           None \<Rightarrow> None
         | Some priv \<Rightarrow>
           (case ll_sign lib priv (ll_sha256 lib payload) of
              None \<Rightarrow> None
            | Some sig \<Rightarrow> Some \<lparr>lk_Payload = ll_b64 lib payload, lk_Signature = ll_b64 lib sig\<rparr>))"

definition Verify ::
    "('priv, 'pub) license_lib \<Rightarrow> gotime \<Rightarrow> license_key \<Rightarrow> string \<Rightarrow> license_error + license_claims" where
  "Verify lib now key publicKeyPEM =
     (case ll_unb64 lib (lk_Payload key) of
        None \<Rightarrow> Inl ErrInvalidLicense
      | Some payload \<Rightarrow>
        (case ll_unb64 lib (lk_Signature key) of
           None \<Rightarrow> Inl ErrInvalidLicense
         | Some sig \<Rightarrow>
           (case ll_public lib publicKeyPEM of
              None \<Rightarrow> Inl ErrInvalidLicense
            | Some pub \<Rightarrow>
              (if \<not> ll_verify lib pub (ll_sha256 lib payload) sig then Inl ErrInvalidLicense
               else
                 (case ll_unjson lib payload of
                    None \<Rightarrow> Inl ErrInvalidLicense
                  | Some claims \<Rightarrow>
                    (case Claims_Validate now claims of
                       Some e \<Rightarrow> Inl e
                     | None \<Rightarrow> Inr claims))))))"

text \<open>\<open>Load\<close> at the start of the server: the claims and whether the license is valid.\<close>

definition Load :: "('priv, 'pub) license_lib \<Rightarrow> gotime \<Rightarrow> string \<Rightarrow> string \<Rightarrow> license_claims option \<times> bool" where
  "Load lib now licenseKey publicKeyPath =
     (if licenseKey = [] then (None, True)
      else if publicKeyPath = [] then (None, False)
      else
        (case ll_read lib publicKeyPath of
           None \<Rightarrow> (None, False)
         | Some pubPEM \<Rightarrow>
           (case Decode licenseKey of
              None \<Rightarrow> (None, False)
            | Some key \<Rightarrow>
              (case Verify lib now key pubPEM of
                 Inl e \<Rightarrow> (None, False)
               | Inr claims \<Rightarrow> (Some claims, True)))))"

subsection \<open>Middlewares\<close>

definition loadLicensePublicKey :: "('priv, 'pub) license_lib \<Rightarrow> string \<Rightarrow> string option" where
  "loadLicensePublicKey lib publicKeyPath = (if publicKeyPath \<noteq> [] then ll_read lib publicKeyPath else None)"

text \<open>\<open>Inr None\<close> are the absent claims the code returns without an error when the public key cannot be read.\<close>

definition validateOnPremLicense ::
    "('priv, 'pub) license_lib \<Rightarrow> gotime \<Rightarrow> string \<Rightarrow> string \<Rightarrow> license_error + license_claims option" where
  "validateOnPremLicense lib now licenseKey publicKeyPath =
     (if licenseKey = [] then Inl ErrNoLicense
      else
        (case loadLicensePublicKey lib publicKeyPath of
           None \<Rightarrow> Inr None
         | Some publicKeyPEM \<Rightarrow>
           (case Decode licenseKey of
              None \<Rightarrow> Inl ErrInvalidLicense
            | Some key \<Rightarrow>
              (case Verify lib now key publicKeyPEM of
                 Inl e \<Rightarrow> Inl e
               | Inr claims \<Rightarrow> if lc_ExpiresAt claims < now then Inl ErrExpiredLicense else Inr (Some claims)))))"

definition communityPaths :: "string list" where
  "communityPaths =
     [''/v1/client/'', ''/v1/evaluate'', ''/v1/projects/'', ''/v1/flags/'', ''/v1/environments/'', ''/v1/segments/'',
      ''/v1/apikeys/'', ''/health'', ''/v1/status'', ''/v1/auth/'', ''/v1/signup'', ''/v1/members/'', ''/v1/onboarding'']"

definition enterprisePaths :: "string list" where
  "enterprisePaths =
     [''/v1/webhooks'', ''/v1/integrations'', ''/v1/approvals'', ''/v1/scheduling'', ''/v1/audit/export'',
      ''/v1/data/export'', ''/v1/sso'', ''/v1/scim'', ''/v1/ipallowlist'', ''/v1/custom-roles'']"

definition isCommunityEditionRoute :: "string \<Rightarrow> bool" where
  "isCommunityEditionRoute path =
     (if list_ex (has_prefix path) communityPaths then True
      else if list_ex (has_prefix path) enterprisePaths then False
      else True)"

record license_config =
  lcf_OnPrem :: bool
  lcf_LicenseKey :: string
  lcf_LicensePublicKey :: string

definition LicenseValidation :: "('priv, 'pub) license_lib \<Rightarrow> gotime \<Rightarrow> license_config \<Rightarrow> http_middleware" where
  "LicenseValidation lib now cfg r =
     (if \<not> lcf_OnPrem cfg then Next r
      else
        (case validateOnPremLicense lib now (lcf_LicenseKey cfg) (lcf_LicensePublicKey cfg) of
           Inl e \<Rightarrow>
             (if isCommunityEditionRoute (req_Path r) then Next r
              else Reject StatusPaymentRequired
                ''License validation failed. Please contact support to renew your on-prem license.'')
         | Inr claims \<Rightarrow> Next (r\<lparr>req_License := claims\<rparr>)))"

definition RequireLicenseFeature :: "string \<Rightarrow> http_middleware" where
  "RequireLicenseFeature feature r =
     (case req_License r of
        None \<Rightarrow> Reject StatusPaymentRequired (''License does not include feature: '' @ feature)
      | Some claims \<Rightarrow>
          if HasFeature claims feature then Next r
          else Reject StatusPaymentRequired (''License does not include feature: '' @ feature))"

subsection \<open>Laws\<close>

lemma HasFeature_iff: "HasFeature c feature \<longleftrightarrow> feature \<in> set (lc_Features c)"
proof -
  have "HasFeature_loop fs feature \<longleftrightarrow> feature \<in> set fs" for fs by (induction fs) auto
  then show ?thesis by (simp add: HasFeature_def)
qed

lemma Decode_Encode:
  assumes "CHR ''.'' \<notin> set (lk_Payload k)"
  shows "Decode (Encode k) = Some k"
proof -
  have "Decode_loop seen (p @ CHR ''.'' # s) = Some \<lparr>lk_Payload = rev seen @ p, lk_Signature = s\<rparr>"
    if "CHR ''.'' \<notin> set p" for seen p s
    using that by (induction p arbitrary: seen) auto
  from this [OF assms, of "[]" "lk_Signature k"] show ?thesis by (simp add: Decode_def Encode_def)
qed

text \<open>What the code relies on: encodings are inverted, base64 has no point, and a signature verifies under its public key.\<close>

definition license_lib_ok :: "('priv, 'pub) license_lib \<Rightarrow> string \<Rightarrow> string \<Rightarrow> license_claims \<Rightarrow> bool" where
  "license_lib_ok lib privPEM pubPEM claims \<longleftrightarrow>
     (\<forall>s. ll_unb64 lib (ll_b64 lib s) = Some s \<and> CHR ''.'' \<notin> set (ll_b64 lib s)) \<and>
     ll_unjson lib (ll_json lib claims) = Some claims \<and>
     (\<exists>pub. ll_public lib pubPEM = Some pub \<and>
        (\<forall>priv h sig. ll_private lib privPEM = Some priv \<longrightarrow> ll_sign lib priv h = Some sig \<longrightarrow> ll_verify lib pub h sig))"

text \<open>
  C40: a signed license is accepted.  A key signed with the private key of the vendor, printed and put into the
  configuration, lets every request of the installation pass until it expires, with the claims that were signed;
  and once it has expired only the routes of the community edition are open.
\<close>

theorem license_roundtrip:
  assumes "license_lib_ok lib privPEM pubPEM claims" and "Sign lib claims privPEM = Some key"
    and "lcf_LicenseKey cfg = Encode key" "lcf_LicensePublicKey cfg \<noteq> []"
    and "ll_read lib (lcf_LicensePublicKey cfg) = Some pubPEM" "lcf_OnPrem cfg"
    and "lc_LicenseID claims \<noteq> []" "lc_CustomerID claims \<noteq> []" "lc_Plan claims \<in> {PlanPro, PlanEnterprise}"
  shows "LicenseValidation lib now cfg r =
    (if now \<le> lc_ExpiresAt claims then Next (r\<lparr>req_License := Some claims\<rparr>)
     else if isCommunityEditionRoute (req_Path r) then Next r
     else Reject StatusPaymentRequired ''License validation failed. Please contact support to renew your on-prem license.'')"
proof -
  obtain priv sig where k: "ll_private lib privPEM = Some priv" "ll_sign lib priv (ll_sha256 lib (ll_json lib claims)) = Some sig"
      "key = \<lparr>lk_Payload = ll_b64 lib (ll_json lib claims), lk_Signature = ll_b64 lib sig\<rparr>"
    using assms(2) by (auto simp: Sign_def Let_def split: option.splits)
  obtain pub where pub: "ll_public lib pubPEM = Some pub" "ll_verify lib pub (ll_sha256 lib (ll_json lib claims)) sig"
    using assms(1) k(1,2) by (auto simp: license_lib_ok_def)
  have b: "ll_unb64 lib (ll_b64 lib s) = Some s" "CHR ''.'' \<notin> set (ll_b64 lib s)" "ll_unjson lib (ll_json lib claims) = Some claims" for s
    using assms(1) by (simp_all add: license_lib_ok_def)
  have d: "Decode (Encode key) = Some key"
    by (rule Decode_Encode) (simp add: k(3) b)
  have "Encode key \<noteq> []" by (simp add: Encode_def)
  moreover have "Verify lib now key pubPEM = (if lc_ExpiresAt claims < now then Inl ErrExpiredLicense else Inr claims)"
    using assms(7-9) by (auto simp: Verify_def k(3) b pub Claims_Validate_def)
  ultimately have "validateOnPremLicense lib now (lcf_LicenseKey cfg) (lcf_LicensePublicKey cfg) =
      (if lc_ExpiresAt claims < now then Inl ErrExpiredLicense else Inr (Some claims))"
    using assms(3-5) d by (simp add: validateOnPremLicense_def loadLicensePublicKey_def)
  with assms(6) show ?thesis by (simp add: LicenseValidation_def)
qed

definition demo_claims :: license_claims where
  "demo_claims = \<lparr>lc_LicenseID = ''l'', lc_CustomerName = [], lc_CustomerID = ''c'', lc_Plan = PlanPro, lc_MaxSeats = 5,
     lc_MaxProjects = 5, lc_Features = [FeatureSSO], lc_IssuedAt = 0, lc_ExpiresAt = 10\<rparr>"

text \<open>An encoding without points, and keys that sign by copying.\<close>

definition demo_enc :: "string \<Rightarrow> string" where
  "demo_enc s = concat (map (\<lambda>c. if c = CHR ''.'' then ''aa'' else [CHR ''b'', c]) s)"

fun demo_dec :: "string \<Rightarrow> string option" where
  "demo_dec [] = Some []"
| "demo_dec [x] = None"
| "demo_dec (x # y # s) = map_option ((#) (if x = CHR ''a'' then CHR ''.'' else y)) (demo_dec s)"

lemma demo_enc_ok: "demo_dec (demo_enc s) = Some s \<and> CHR ''.'' \<notin> set (demo_enc s)"
  by (induction s) (auto simp: demo_enc_def)

definition demo_license_lib :: "(unit, unit) license_lib" where
  "demo_license_lib = \<lparr>ll_json = (\<lambda>c. ''j''), ll_unjson = (\<lambda>s. Some demo_claims), ll_b64 = demo_enc, ll_unb64 = demo_dec,
     ll_private = (\<lambda>p. Some ()), ll_public = (\<lambda>p. Some ()), ll_sha256 = (\<lambda>s. s), ll_sign = (\<lambda>k h. Some h),
     ll_verify = (\<lambda>k h sig. h = sig), ll_read = (\<lambda>p. Some ''pem'')\<rparr>"

theorem license_roundtrip_witness:
  "\<forall>r. LicenseValidation demo_license_lib 5
     \<lparr>lcf_OnPrem = True, lcf_LicenseKey = Encode \<lparr>lk_Payload = ''bj'', lk_Signature = ''bj''\<rparr>, lcf_LicensePublicKey = ''p''\<rparr> r =
   (if 5 \<le> lc_ExpiresAt demo_claims then Next (r\<lparr>req_License := Some demo_claims\<rparr>)
    else if isCommunityEditionRoute (req_Path r) then Next r
    else Reject StatusPaymentRequired ''License validation failed. Please contact support to renew your on-prem license.'')"
proof (rule allI, rule license_roundtrip [where privPEM = "''k''" and pubPEM = "''pem''"])
  show "license_lib_ok demo_license_lib ''k'' ''pem'' demo_claims"
    using demo_enc_ok by (simp add: license_lib_ok_def demo_license_lib_def)
  show "Sign demo_license_lib demo_claims ''k'' = Some \<lparr>lk_Payload = ''bj'', lk_Signature = ''bj''\<rparr>"
    by (simp add: Sign_def demo_license_lib_def demo_enc_def Let_def)
qed (simp_all add: demo_license_lib_def demo_claims_def)

text \<open>The lists name paths the router does not have: the IP allowlist and the custom roles are open without a license.\<close>

lemma enterprise_routes_open:
  "isCommunityEditionRoute ''/v1/ip-allowlist''" "isCommunityEditionRoute ''/v1/roles''"
  by (simp_all add: isCommunityEditionRoute_def communityPaths_def enterprisePaths_def)

end
