(* ===== verification/Routes.thy ===== *)
theory Routes
  imports OpsGates License
begin

text \<open>
  The route table of the server, \<open>server/internal/api/router.go\<close>: which middlewares stand before which handler.
  The table is data, written group by group as the code registers it; \<open>routes_of\<close> gives every route the stack of
  middlewares that is in force where it is registered.  Handlers are named by the expressions of the code.
\<close>

subsection \<open>Middlewares and groups\<close>

datatype mw =
    CORSMW | CompressMW | MaxBodyMW int | RequestIDMW | RealIPMW | LoggingMW | LicenseMW | RecovererMW | TracingMW
  | CacheMW string | JSONMW | RateLimitMW int | JWTMW | RoleMW "string list" | FeatureMW string | IPAllowlistMW
  | TrialMW | TierMW | TierRateMW | DomainMW string | AgentBodyMW

datatype node =
    Use mw
  | With "mw list" string string string
  | Group "node list"
  | Route string "node list"

abbreviation "Get \<equiv> With [] ''GET''"
abbreviation "Post \<equiv> With [] ''POST''"
abbreviation "Put \<equiv> With [] ''PUT''"
abbreviation "Patch \<equiv> With [] ''PATCH''"
abbreviation "Delete \<equiv> With [] ''DELETE''"

record route =
  rt_Chain :: "mw list"
  rt_Method :: string
  rt_Pattern :: string
  rt_Handler :: string

fun routes_of :: "mw list \<Rightarrow> string \<Rightarrow> node list \<Rightarrow> route list" where
  "routes_of chain prefix [] = []"
| "routes_of chain prefix (Use m # ns) = routes_of (chain @ [m]) prefix ns"
| "routes_of chain prefix (With ms method pattern h # ns) =
     \<lparr>rt_Chain = chain @ ms, rt_Method = method, rt_Pattern = prefix @ pattern, rt_Handler = h\<rparr> # routes_of chain prefix ns"
| "routes_of chain prefix (Group g # ns) = routes_of chain prefix g @ routes_of chain prefix ns"
| "routes_of chain prefix (Route p g # ns) = routes_of chain (prefix @ p) g @ routes_of chain prefix ns"

subsection \<open>The table\<close>

definition ownerAdmin :: "string list" where "ownerAdmin = [RoleOwner, RoleAdmin]"
definition writers :: "string list" where "writers = [RoleOwner, RoleAdmin, RoleDeveloper]"
definition allRoles :: "string list" where "allRoles = [RoleOwner, RoleAdmin, RoleDeveloper, RoleViewer]"

text \<open>What stands before every request.\<close>

definition root_chain :: "mw list" where
  "root_chain = [CORSMW, TracingMW, CompressMW, MaxBodyMW (2 ^ 20), RequestIDMW, RealIPMW, LoggingMW, LicenseMW, RecovererMW]"

definition agent_routes :: "node list" where
  "agent_routes =
     [Group
       [Use AgentBodyMW,
        Post ''/evaluate'' ''agentH.Evaluate'',
        Post ''/bulk-eval'' ''agentH.BulkEvaluate'',
        Get ''/flag/{key}'' ''agentH.GetFlag'',
        Post ''/create-flag'' ''agentH.CreateFlag'']]"

definition integration_routes :: "node list" where
  "integration_routes =
     [Get ''/'' ''integrationH.List'',
      Post ''/'' ''integrationH.Create'',
      Get ''/{integrationID}'' ''integrationH.Get'',
      Put ''/{integrationID}'' ''integrationH.Update'',
      Delete ''/{integrationID}'' ''integrationH.Delete'',
      Post ''/{integrationID}/test'' ''integrationH.Test'',
      Get ''/{integrationID}/deliveries'' ''integrationH.Deliveries'']"

definition docs_routes :: "node list" where
  "docs_routes =
     [With [CacheMW ''public, max-age=3600''] ''GET'' ''/docs'' ''docsH.Index'',
      With [CacheMW ''public, max-age=3600''] ''GET'' ''/docs/openapi.json'' ''docsH.OpenAPISpec'']"

definition swagger_routes :: "node list" where
  "swagger_routes =
     [Get ''/v1/docs'' ''docsH.SwaggerUI'',
      With [CacheMW ''public, max-age=3600''] ''GET'' ''/v1/openapi.json'' ''docsH.OpenAPISpec'']"

definition status_routes :: "node list" where
  "status_routes =
     [With [CacheMW ''public, max-age=30''] ''GET'' ''/v1/status'' ''statusHandler.HandleLocalStatus'',
      With [CacheMW ''public, max-age=30''] ''GET'' ''/v1/status/global'' ''statusHandler.HandleGlobalStatus'',
      With [CacheMW ''public, max-age=300''] ''GET'' ''/v1/status/history'' ''statusHandler.HandleStatusHistory'',
      With [CacheMW ''public, max-age=60''] ''GET'' ''/v1/status/sla'' ''statusHandler.HandleSLA'']"

definition sso_login_routes :: "node list" where
  "sso_login_routes =
     [Get ''/discovery/{orgSlug}'' ''ssoAuthH.Discovery'',
      Get ''/saml/metadata/{orgSlug}'' ''ssoAuthH.SAMLMetadata'',
      Get ''/saml/login/{orgSlug}'' ''ssoAuthH.SAMLLogin'',
      Post ''/saml/acs/{orgSlug}'' ''ssoAuthH.SAMLACS'',
      Get ''/oidc/authorize/{orgSlug}'' ''ssoAuthH.OIDCAuthorize'',
      Get ''/oidc/callback/{orgSlug}'' ''ssoAuthH.OIDCCallback'']"

definition sandbox_routes :: "node list" where
  "sandbox_routes =
     [Post ''/api/sandbox'' ''sandboxH.Create'',
      Get ''/api/sandbox/{id}'' ''sandboxH.Get'',
      Post ''/api/sandbox/{id}/claim'' ''sandboxH.Claim'']"

definition public_routes :: "node list" where
  "public_routes =
     [Use (CacheMW ''no-store''),
      With [RateLimitMW 1] ''POST'' ''/migration/preview'' ''publicH.MigrationPreview'',
      With [RateLimitMW 1] ''POST'' ''/calculator'' ''publicH.Calculator'',
      With [RateLimitMW 2] ''GET'' ''/evaluate/{flagKey}'' ''publicH.PublicEvaluate'',
      With [RateLimitMW 1] ''POST'' ''/migration/save'' ''publicH.MigrationSave'']"

definition login_routes :: "node list" where
  "login_routes =
     [Use (RateLimitMW 20),
      Post ''/auth/login'' ''authH.Login'',
      Post ''/auth/initiate-signup'' ''signupH.InitiateSignup'',
      Post ''/auth/complete-signup'' ''signupH.CompleteSignup'',
      Post ''/auth/resend-signup-otp'' ''signupH.ResendSignupOTP'',
      Post ''/auth/forgot-password'' ''authH.ForgotPassword'',
      Post ''/auth/reset-password'' ''authH.ResetPassword'',
      Get ''/auth/magic-link'' ''magicLinkH.Exchange'',
      Post ''/auth/refresh'' ''authH.Refresh'',
      Get ''/auth/verify-email'' ''authH.VerifyEmail'',
      Post ''/auth/token-exchange'' ''authH.TokenExchange'',
      Get ''/regions'' ''inline/regions'',
      Get ''/capabilities'' ''inline/capabilities'']"

definition callback_routes :: "node list" where
  "callback_routes =
     [Post ''/billing/payu/callback'' ''billingH.PayUCallback'',
      Post ''/billing/payu/failure'' ''billingH.PayUFailure'',
      Post ''/billing/stripe/webhook'' ''billingH.HandleStripeWebhook'']"

definition mfa_routes :: "node list" where
  "mfa_routes =
     [Use (FeatureMW FeatureMFA),
      Post ''/auth/mfa/enable'' ''mfaH.Enable'',
      Post ''/auth/mfa/verify'' ''mfaH.Verify'',
      Post ''/auth/mfa/disable'' ''mfaH.Disable'',
      Get ''/auth/mfa/status'' ''mfaH.Status'']"

definition session_routes :: "node list" where
  "session_routes =
     [Use JWTMW,
      Post ''/auth/send-verification-email'' ''authH.SendVerificationEmail'',
      Post ''/auth/logout'' ''authH.Logout'',
      Group mfa_routes]"

definition billing_routes :: "node list" where
  "billing_routes =
     [Use JWTMW,
      Post ''/billing/checkout'' ''billingH.CreateCheckout'',
      Get ''/billing/subscription'' ''billingH.GetSubscription'',
      Get ''/billing/usage'' ''billingH.GetUsage'',
      Post ''/billing/cancel'' ''billingH.CancelSubscription'',
      Post ''/billing/portal'' ''billingH.GetBillingPortalURL'',
      Put ''/billing/gateway'' ''billingH.UpdateGateway'',
      Get ''/billing/credits'' ''billingH.GetCredits'',
      Get ''/billing/credits/balance'' ''billingH.GetCreditBalance'',
      Get ''/billing/credits/history'' ''billingH.GetCreditHistory'',
      Post ''/billing/credits/purchase'' ''billingH.PurchaseCredits'',
      Get ''/onboarding'' ''onboardingH.GetState'',
      Patch ''/onboarding'' ''onboardingH.UpdateState'']"

definition evaluation_routes :: "node list" where
  "evaluation_routes =
     [Use (CacheMW ''no-store''),
      Post ''/evaluate'' ''evalH.Evaluate'',
      Post ''/evaluate/bulk'' ''evalH.BulkEvaluate'',
      Get ''/client/{envKey}/flags'' ''evalH.ClientFlags'',
      Get ''/stream/{envKey}'' ''evalH.Stream'',
      Post ''/track'' ''metricsH.TrackImpression'']"

definition features_routes :: "node list" where
  "features_routes =
     [Use (RoleMW allRoles),
      Get ''/features'' ''featuresH.List'']"

definition privacy_routes :: "node list" where
  "privacy_routes =
     [Use (RoleMW allRoles),
      Get ''/users/me/data'' ''userPrivacyH.ExportMyData'',
      Delete ''/users/me'' ''userPrivacyH.DeleteMyAccount'',
      Get ''/users/me/hints'' ''preferencesH.GetHints'',
      Post ''/users/me/hints'' ''preferencesH.DismissHint'',
      Put ''/users/me/email-preferences'' ''preferencesH.UpdateEmailPreferences'',
      Post ''/feedback'' ''feedbackH.Submit'']"

definition read_routes :: "node list" where
  "read_routes =
     [Use (RoleMW allRoles),
      Get ''/projects'' ''projectH.List'',
      Get ''/projects/{projectID}'' ''projectH.Get'',
      Get ''/projects/{projectID}/environments'' ''envH.List'',
      Get ''/projects/{projectID}/flags'' ''flagH.List'',
      Get ''/flags'' ''flagH.List'',
      Get ''/projects/{projectID}/flags/{flagKey}'' ''flagH.Get'',
      Get ''/projects/{projectID}/flags/{flagKey}/history'' ''flagHistoryH.ListVersions'',
      Get ''/projects/{projectID}/flags/{flagKey}/history/{version}'' ''flagHistoryH.GetVersion'',
      Post ''/projects/{projectID}/flags/{flagKey}/rollback'' ''flagHistoryH.Rollback'',
      Get ''/projects/{projectID}/flags/{flagKey}/environments/{envID}'' ''flagH.GetState'',
      Get ''/projects/{projectID}/environments/{envID}/flag-states'' ''flagH.ListFlagStates'',
      Get ''/projects/{projectID}/flags/compare-environments'' ''flagH.CompareEnvironments'',
      Get ''/projects/{projectID}/environments/{envID}/flag-insights'' ''insightsH.FlagInsights'',
      Get ''/projects/{projectID}/segments'' ''segmentH.List'',
      Get ''/projects/{projectID}/segments/{segmentKey}'' ''segmentH.Get'',
      Get ''/environments/{envID}/api-keys'' ''apiKeyH.List'',
      Get ''/audit'' ''auditH.List'',
      Get ''/projects/{projectID}/activity'' ''auditH.List'',
      Get ''/limits'' ''limitsH.Get'',
      Get ''/search'' ''searchH.Search'',
      Get ''/projects/{projectID}/pinned'' ''pinnedH.List'',
      Post ''/pinned'' ''pinnedH.Create'',
      Delete ''/pinned/{pinnedID}'' ''pinnedH.Delete'',
      Get ''/members'' ''teamH.List'',
      Get ''/members/{memberID}/permissions'' ''teamH.ListPermissions'']"

definition approval_read_routes :: "node list" where
  "approval_read_routes =
     [Use (RoleMW allRoles),
      Use (FeatureMW FeatureApprovals),
      Get ''/approvals'' ''approvalH.List'',
      Get ''/approvals/{approvalID}'' ''approvalH.Get'']"

definition audit_export_routes :: "node list" where
  "audit_export_routes =
     [Use (RoleMW ownerAdmin),
      Use (FeatureMW FeatureAuditExport),
      Get ''/audit/export'' ''auditExportH.Export'']"

definition data_export_routes :: "node list" where
  "data_export_routes =
     [Use (RoleMW ownerAdmin),
      Use (FeatureMW FeatureDataExport),
      Get ''/data/export'' ''dataExportH.Export'']"

definition write_routes :: "node list" where
  "write_routes =
     [Use (RoleMW writers),
      Post ''/projects'' ''projectH.Create'',
      Put ''/projects/{projectID}'' ''projectH.Update'',
      Post ''/projects/{projectID}/environments'' ''envH.Create'',
      Put ''/projects/{projectID}/environments/{envID}'' ''envH.Update'',
      Post ''/projects/{projectID}/flags'' ''flagH.Create'',
      Put ''/projects/{projectID}/flags/{flagKey}'' ''flagH.Update'',
      Delete ''/projects/{projectID}/flags/{flagKey}'' ''flagH.Delete'',
      Put ''/projects/{projectID}/flags/{flagKey}/environments/{envID}'' ''flagH.UpdateState'',
      Post ''/projects/{projectID}/flags/{flagKey}/promote'' ''flagH.Promote'',
      Post ''/projects/{projectID}/flags/{flagKey}/kill'' ''flagH.Kill'',
      Post ''/projects/{projectID}/flags/sync-environments'' ''flagH.SyncEnvironments'',
      Post ''/projects/{projectID}/environments/{envID}/inspect-entity'' ''insightsH.InspectEntity'',
      Post ''/projects/{projectID}/environments/{envID}/compare-entities'' ''insightsH.CompareEntities'',
      Post ''/projects/{projectID}/segments'' ''segmentH.Create'',
      Put ''/projects/{projectID}/segments/{segmentKey}'' ''segmentH.Update'',
      Delete ''/projects/{projectID}/segments/{segmentKey}'' ''segmentH.Delete'']"

definition approval_create_routes :: "node list" where
  "approval_create_routes =
     [Use (RoleMW writers),
      Use (FeatureMW FeatureApprovals),
      Post ''/approvals'' ''approvalH.Create'']"

definition admin_routes :: "node list" where
  "admin_routes =
     [Use (RoleMW ownerAdmin),
      Delete ''/projects/{projectID}'' ''projectH.Delete'',
      Delete ''/projects/{projectID}/environments/{envID}'' ''envH.Delete'',
      Post ''/environments/{envID}/api-keys'' ''apiKeyH.Create'',
      Delete ''/api-keys/{keyID}'' ''apiKeyH.Revoke'',
      Post ''/api-keys/{keyID}/rotate'' ''apiKeyH.Rotate'',
      Post ''/members/invite'' ''teamH.Invite'',
      Put ''/members/{memberID}'' ''teamH.UpdateRole'',
      Delete ''/members/{memberID}'' ''teamH.Remove'',
      Put ''/members/{memberID}/permissions'' ''teamH.UpdatePermissions'',
      Get ''/metrics/evaluations'' ''metricsH.Summary'',
      Post ''/metrics/evaluations/reset'' ''metricsH.Reset'',
      Get ''/metrics/impressions'' ''metricsH.ImpressionSummary'',
      Post ''/metrics/impressions/flush'' ''metricsH.FlushImpressions'',
      Get ''/analytics/overview'' ''analyticsH.Overview'']"

definition approval_review_routes :: "node list" where
  "approval_review_routes =
     [Use (RoleMW ownerAdmin),
      Use (FeatureMW FeatureApprovals),
      Post ''/approvals/{approvalID}/review'' ''approvalH.Review'']"

definition webhook_routes :: "node list" where
  "webhook_routes =
     [Use (RoleMW ownerAdmin),
      Use (FeatureMW FeatureWebhooks),
      Post ''/webhooks'' ''webhookH.Create'',
      Get ''/webhooks'' ''webhookH.List'',
      Get ''/webhooks/{webhookID}'' ''webhookH.Get'',
      Put ''/webhooks/{webhookID}'' ''webhookH.Update'',
      Delete ''/webhooks/{webhookID}'' ''webhookH.Delete'',
      Group [Use (RoleMW writers), Route ''/integrations'' integration_routes],
      Get ''/webhooks/{webhookID}/deliveries'' ''webhookH.ListDeliveries'']"

definition sso_config_routes :: "node list" where
  "sso_config_routes =
     [Use (RoleMW ownerAdmin),
      Use (FeatureMW FeatureSSO),
      Get ''/sso/config'' ''ssoH.Get'',
      Post ''/sso/config'' ''ssoH.Upsert'',
      Delete ''/sso/config'' ''ssoH.Delete'',
      Post ''/sso/config/test'' ''ssoH.TestConnection'']"

definition scim_routes :: "node list" where
  "scim_routes =
     [Use (RoleMW ownerAdmin),
      Use (FeatureMW FeatureSCIM),
      Get ''/scim/Users'' ''scimH.ListUsers'',
      Get ''/scim/Users/{userID}'' ''scimH.GetUser'',
      Post ''/scim/Users'' ''scimH.CreateUser'',
      Put ''/scim/Users/{userID}'' ''scimH.UpdateUser'',
      Delete ''/scim/Users/{userID}'' ''scimH.DeleteUser'']"

definition ip_allowlist_routes :: "node list" where
  "ip_allowlist_routes =
     [Use (RoleMW ownerAdmin),
      Use (FeatureMW FeatureIPAllowlist),
      Get ''/ip-allowlist'' ''ipAllowlistH.Get'',
      Put ''/ip-allowlist'' ''ipAllowlistH.Upsert'']"

definition custom_role_routes :: "node list" where
  "custom_role_routes =
     [Use (RoleMW ownerAdmin),
      Use (FeatureMW FeatureCustomRoles),
      Get ''/roles'' ''customRoleH.List'',
      Post ''/roles'' ''customRoleH.Create'',
      Get ''/roles/{roleID}'' ''customRoleH.Get'',
      Put ''/roles/{roleID}'' ''customRoleH.Update'',
      Delete ''/roles/{roleID}'' ''customRoleH.Delete'']"

definition janitor_routes :: "node list" where
  "janitor_routes =
     [Use JWTMW,
      Use (RoleMW ownerAdmin),
      Post ''/janitor/scan'' ''janitorH.Scan'',
      Post ''/janitor/scans/{id}/cancel'' ''janitorH.CancelScan'',
      Get ''/janitor/scans/{id}'' ''janitorH.GetScanStatus'',
      Get ''/janitor/flags'' ''janitorH.ListStaleFlags'',
      Post ''/janitor/flags/{flagKey}/dismiss'' ''janitorH.DismissFlag'',
      Post ''/janitor/flags/{flagKey}/generate-pr'' ''janitorH.GeneratePR'',
      Get ''/janitor/stats'' ''janitorH.GetStats'',
      Get ''/janitor/config'' ''janitorH.GetConfig'',
      Put ''/janitor/config'' ''janitorH.UpdateConfig'',
      Get ''/janitor/repositories'' ''janitorH.ListRepositories'',
      Post ''/janitor/repositories'' ''janitorH.ConnectRepository'',
      Delete ''/janitor/repositories/{id}'' ''janitorH.DisconnectRepository'']"

definition scan_event_routes :: "node list" where
  "scan_event_routes =
     [Use JWTMW,
      Use (RoleMW ownerAdmin),
      Get ''/v1/janitor/scans/{scanId}/events'' ''janitorH.ScanEvents'']"

definition ops_auth_routes :: "node list" where
  "ops_auth_routes =
     [Post ''/api/v1/ops/auth/login'' ''opsAuthH.Login'',
      Post ''/api/v1/ops/auth/refresh'' ''opsAuthH.Refresh'',
      Post ''/api/v1/ops/auth/logout'' ''opsAuthH.Logout'',
      Post ''/api/v1/ops/auth/forgot-password'' ''opsAuthH.ForgotPassword'']"

definition ops_page_routes :: "node list" where
  "ops_page_routes =
     [Use JWTMW,
      Use (DomainMW ''featuresignals.com''),
      Get ''/ops'' ''opsDashboardH.ServeDashboard'']"

definition ops_routes :: "node list" where
  "ops_routes =
     [Use JWTMW,
      Use (DomainMW ''featuresignals.com''),
      Get ''/auth/me'' ''opsAuthH.Me'',
      Get ''/licenses'' ''opsH.ListLicenses'',
      Get ''/licenses/{id}'' ''opsH.GetLicense'',
      Get ''/licenses/org/{org_id}'' ''opsH.GetLicenseByOrg'',
      Post ''/licenses'' ''opsH.CreateLicense'',
      Post ''/licenses/{id}/revoke'' ''opsH.RevokeLicense'',
      Post ''/licenses/{id}/quota-override'' ''opsH.OverrideLicenseQuota'',
      Post ''/licenses/{id}/reset-usage'' ''opsH.ResetLicenseUsage'',
      Get ''/users'' ''opsH.ListOpsUsers'',
      Get ''/users/{id}'' ''opsH.GetOpsUser'',
      Get ''/users/me'' ''opsH.GetMe'',
      Post ''/users'' ''opsH.CreateOpsUser'',
      Patch ''/users/{id}'' ''opsH.UpdateOpsUser'',
      Get ''/clusters'' ''opsDashboardH.ListClusters'',
      Get ''/clusters/{name}/health'' ''opsDashboardH.GetClusterHealth'']"


definition management_routes :: "node list" where
  "management_routes =
     [Use JWTMW, Use IPAllowlistMW, Use (CacheMW ''private, no-cache''), Use TrialMW, Use TierMW, Use TierRateMW,
      Group features_routes, Group privacy_routes, Group read_routes, Group approval_read_routes, Group audit_export_routes,
      Group data_export_routes, Group write_routes, Group approval_create_routes, Group admin_routes,
      Group approval_review_routes, Group webhook_routes, Group sso_config_routes, Group scim_routes,
      Group ip_allowlist_routes, Group custom_role_routes]"

definition v1_routes :: "node list" where
  "v1_routes =
     [Use JSONMW,
      With [CacheMW ''public, max-age=3600''] ''GET'' ''/pricing'' ''inline/pricing'',
      Group login_routes,
      Post ''/sales/inquiry'' ''salesH.SubmitInquiry'',
      Group callback_routes,
      Group session_routes,
      Group billing_routes,
      Group evaluation_routes,
      Route ''/agent'' agent_routes,
      Group management_routes,
      Group janitor_routes]"

text \<open>\<open>swagger\<close> and \<open>hasStatus\<close> say whether the documentation under \<open>/v1\<close> and a status handler are there.\<close>

definition router_with :: "bool \<Rightarrow> bool \<Rightarrow> node list" where
  "router_with swagger hasStatus =
     [Get ''/health'' ''inline/health''] @ docs_routes @
     (if swagger then swagger_routes else []) @
     (if hasStatus then status_routes else []) @
     [Route ''/v1/sso'' sso_login_routes] @ sandbox_routes @
     [Route ''/v1/public'' public_routes, Route ''/v1'' v1_routes, Group scan_event_routes] @ ops_auth_routes @
     [Group ops_page_routes, Route ''/api/v1/ops'' ops_routes]"

definition router :: "string \<Rightarrow> bool \<Rightarrow> node list" where
  "router deployMode hasStatus = router_with (deployMode = ''development'' \<or> deployMode = ''cloud'') hasStatus"

definition table :: "string \<Rightarrow> bool \<Rightarrow> route list" where
  "table deployMode hasStatus = routes_of [] [] (router deployMode hasStatus)"

end
