(* ===== verification/RouteLaws.thy ===== *)
theory RouteLaws
  imports Routes
begin

text \<open>
  What the route table guarantees: who reaches which handler.  \<open>serve\<close> runs the middlewares of the root, lets the
  multiplexer choosing a route and runs the middlewares of that route; it ends with the handler that is called and
  the request it is given.
\<close>

subsection \<open>Serving a request\<close>

text \<open>
  What the middlewares read: the token validator, the revocations, the organizations (as \<open>TrialExpiry\<close> and
  \<open>FeatureGate\<close> see them), the answers of the rate limiters, whose state is in \<open>RateLimit\<close>, and the address
  \<open>RealIP\<close> takes from the headers.
\<close>

record ('ip, 'priv, 'pub) web_env =
  web_now :: gotime
  web_validate :: "string \<Rightarrow> token_error + auth_claims"
  web_revoker :: "(string \<Rightarrow> bool answer) option"
  web_org :: "string \<Rightarrow> organization answer"
  web_tier :: tier_store
  web_net :: "'ip netlib"
  web_allowlist :: "string \<Rightarrow> (bool \<times> string list) answer"
  web_admits :: "mw \<Rightarrow> http_request \<Rightarrow> bool"
  web_realIP :: "http_request \<Rightarrow> string"
  web_license :: "('priv, 'pub) license_lib"
  web_licenseConfig :: license_config
  web_lower :: "string \<Rightarrow> string"
  web_opsDomain :: string

text \<open>\<open>CORS\<close> answers every preflight request itself.\<close>

definition CORS :: http_middleware where
  "CORS r = (if req_Method r = MethodOptions then Reject StatusNoContent [] else Next r)"

definition RequireJSON :: http_middleware where
  "RequireJSON r =
     (if req_Method r \<in> {MethodPost, MethodPut, MethodPatch} \<and>
         (req_Header r ''Content-Type'' = [] \<or> \<not> has_prefix (req_Header r ''Content-Type'') ''application/json'')
      then Reject StatusUnsupportedMediaType ''Content-Type must be application/json'' else Next r)"

fun gate_of :: "('ip, 'priv, 'pub) web_env \<Rightarrow> mw \<Rightarrow> http_middleware" where
  "gate_of env CORSMW r = CORS r"
| "gate_of env JSONMW r = RequireJSON r"
| "gate_of env RealIPMW r = Next (r\<lparr>req_RemoteAddr := web_realIP env r\<rparr>)"
| "gate_of env LicenseMW r = LicenseValidation (web_license env) (web_now env) (web_licenseConfig env) r"
| "gate_of env JWTMW r = JWTAuth (web_validate env) (web_revoker env) r"
| "gate_of env (RoleMW roles) r = RequireRole roles r"
| "gate_of env (FeatureMW feature) r = FeatureGate feature (web_org env) r"
| "gate_of env IPAllowlistMW r = IPAllowlist (web_net env) (web_allowlist env) r"
| "gate_of env TrialMW r = fst (TrialExpiry (web_now env) (\<lambda>i db. web_org env i) (\<lambda>i db. db) r ())"
| "gate_of env TierMW r = TierEnforce (web_tier env) r"
| "gate_of env (DomainMW d) r = RequireDomain (web_lower env) (web_opsDomain env) d None r"
| "gate_of env (RateLimitMW n) r =
     (if web_admits env (RateLimitMW n) r then Next r else Reject StatusTooManyRequests ''rate limit exceeded'')"
| "gate_of env TierRateMW r =
     (if web_admits env TierRateMW r then Next r else Reject StatusTooManyRequests ''rate limit exceeded'')"
| "gate_of env m r = Next r"

fun run_chain :: "('ip, 'priv, 'pub) web_env \<Rightarrow> mw list \<Rightarrow> http_middleware" where
  "run_chain env [] r = Next r"
| "run_chain env (m # ms) r = and_then (gate_of env m) (run_chain env ms) r"

datatype outcome = Refused nat string | NoRoute | Reached string http_request

text \<open>The choice of a route, with the parameters of its path, is the multiplexer's: \<open>select\<close>.\<close>

definition serve ::
    "(route list \<Rightarrow> http_request \<Rightarrow> (route \<times> (string \<times> string) list) option) \<Rightarrow> ('ip, 'priv, 'pub) web_env \<Rightarrow>
     route list \<Rightarrow> http_request \<Rightarrow> outcome" where
  "serve select env rs r =
     (case run_chain env root_chain r of
        Reject c m \<Rightarrow> Refused c m
      | Next r1 \<Rightarrow>
        (case select rs r1 of
           None \<Rightarrow> NoRoute
         | Some (rt, params) \<Rightarrow>
           (case run_chain env (rt_Chain rt) (r1\<lparr>req_URLParams := params\<rparr>) of
              Reject c m \<Rightarrow> Refused c m
            | Next r2 \<Rightarrow> Reached (rt_Handler rt) r2)))"

text \<open>The multiplexer chooses a route that was registered for the method of the request.\<close>

definition selects :: "(route list \<Rightarrow> http_request \<Rightarrow> (route \<times> (string \<times> string) list) option) \<Rightarrow> bool" where
  "selects select \<longleftrightarrow> (\<forall>rs r rt ps. select rs r = Some (rt, ps) \<longrightarrow> rt \<in> set rs \<and> rt_Method rt = req_Method r)"

subsection \<open>What the middlewares do to a request\<close>

text \<open>The method and the headers stay, and claims come from nothing but \<open>JWTAuth\<close>.\<close>

definition authorized :: "('ip, 'priv, 'pub) web_env \<Rightarrow> (string \<Rightarrow> string) \<Rightarrow> auth_claims \<Rightarrow> bool" where
  "authorized env header c \<longleftrightarrow>
     (\<exists>token. split2 (header ''Authorization'') = Some (''Bearer'', token) \<and> web_validate env token = Inr c \<and>
        \<not> (cl_ID c \<noteq> [] \<and> (case web_revoker env of None \<Rightarrow> False | Some f \<Rightarrow> f (cl_ID c) = Inr True)))"

lemma authorized_unique: "authorized env h c \<Longrightarrow> authorized env h c' \<Longrightarrow> c = c'"
  by (auto simp: authorized_def)

definition steady :: "http_request \<Rightarrow> http_request \<Rightarrow> bool" where
  "steady r r' \<longleftrightarrow> req_Method r' = req_Method r \<and> req_Header r' = req_Header r"

lemma JWTAuth_passes:
  assumes "JWTAuth validate revoker r = Next r'" "req_Method r \<noteq> MethodOptions"
  shows "\<exists>c. r' = r\<lparr>req_Claims := Some c\<rparr> \<and>
    (\<exists>token. split2 (req_Header r ''Authorization'') = Some (''Bearer'', token) \<and> validate token = Inr c \<and>
       \<not> (cl_ID c \<noteq> [] \<and> (case revoker of None \<Rightarrow> False | Some f \<Rightarrow> f (cl_ID c) = Inr True)))"
  using assms
  by (auto simp: JWTAuth_def Let_def split: if_splits option.splits prod.splits sum.splits token_error.splits)

lemma other_gates:
  assumes "gate_of env m r = Next r'" "m \<noteq> JWTMW"
  shows "steady r r' \<and> req_Claims r' = req_Claims r"
proof -
  have t: "tier_check r l k x = Next r' \<Longrightarrow> r' = r" for l k x
    by (auto simp: tier_check_def tierError_def split: if_splits)
  have "r' = r \<or> steady r r' \<and> req_Claims r' = req_Claims r"
    using assms
    by (cases m)
      (auto simp: steady_def CORS_def RequireJSON_def LicenseValidation_def RequireRole_def FeatureGate_def IPAllowlist_def
        TrialExpiry_def TierEnforce_def RequireDomain_def Let_def dest: t split: if_splits option.splits sum.splits prod.splits)
  then show ?thesis by (auto simp: steady_def)
qed

lemma gate_step:
  assumes "gate_of env m r = Next r'" "req_Method r \<noteq> MethodOptions"
  shows "steady r r'" and "m = JWTMW \<Longrightarrow> \<exists>c. authorized env (req_Header r) c \<and> req_Claims r' = Some c"
    and "m \<noteq> JWTMW \<Longrightarrow> req_Claims r' = req_Claims r"
proof -
  show "steady r r'"
    using other_gates [OF assms(1)] JWTAuth_passes [of "web_validate env" "web_revoker env" r r'] assms
    by (cases "m = JWTMW") (auto simp: steady_def)
  show "\<exists>c. authorized env (req_Header r) c \<and> req_Claims r' = Some c" if "m = JWTMW"
    using JWTAuth_passes [of "web_validate env" "web_revoker env" r r'] assms that by (auto simp: authorized_def)
  show "req_Claims r' = req_Claims r" if "m \<noteq> JWTMW" using other_gates [OF assms(1) that] by simp
qed

text \<open>Claims are absent or the caller's, all along a chain.\<close>

definition genuine :: "('ip, 'priv, 'pub) web_env \<Rightarrow> http_request \<Rightarrow> bool" where
  "genuine env r \<longleftrightarrow> (\<forall>c. req_Claims r = Some c \<longrightarrow> authorized env (req_Header r) c)"

lemma run_chain_cons:
  "run_chain env (m # ms) r = Next r' \<longleftrightarrow> (\<exists>r1. gate_of env m r = Next r1 \<and> run_chain env ms r1 = Next r')"
  by (auto simp: and_then_def split: gate.split)

lemma run_chain_append:
  "run_chain env (xs @ ys) r = Next r' \<longleftrightarrow> (\<exists>r1. run_chain env xs r = Next r1 \<and> run_chain env ys r1 = Next r')"
  by (induction xs arbitrary: r) (auto simp: run_chain_cons simp del: run_chain.simps(2))

lemma chain_keeps:
  assumes "run_chain env ms r = Next r'" "req_Method r \<noteq> MethodOptions" "genuine env r"
  shows "steady r r' \<and> genuine env r' \<and> (req_Claims r \<noteq> None \<longrightarrow> req_Claims r' = req_Claims r) \<and>
    (JWTMW \<in> set ms \<longrightarrow> req_Claims r' \<noteq> None)"
  using assms
proof (induction ms arbitrary: r)
  case (Cons m ms)
  from Cons.prems(1) obtain r1 where r1: "gate_of env m r = Next r1" "run_chain env ms r1 = Next r'"
    by (auto simp: run_chain_cons simp del: run_chain.simps(2))
  note g = gate_step [OF r1(1) Cons.prems(2)]
  have h: "req_Method r1 = req_Method r" "req_Header r1 = req_Header r" using g(1) by (simp_all add: steady_def)
  have gen: "genuine env r1"
    using g(2,3) Cons.prems(3) h by (cases "m = JWTMW") (auto simp: genuine_def)
  have keep: "req_Claims r \<noteq> None \<longrightarrow> req_Claims r1 = req_Claims r"
    using g(2,3) Cons.prems(3) by (cases "m = JWTMW") (auto simp: genuine_def dest: authorized_unique)
  have "m = JWTMW \<longrightarrow> req_Claims r1 \<noteq> None" using g(2) by auto
  with Cons.IH [OF r1(2) _ gen] Cons.prems(2) h keep show ?case by (auto simp: steady_def)
qed (simp add: steady_def)

text \<open>A gate of the chain has let the caller pass, with the claims the handler sees.\<close>

lemma chain_passed:
  assumes "run_chain env ms r = Next r'" "req_Method r \<noteq> MethodOptions" "genuine env r" "m \<in> set ms"
  shows "\<exists>r1 r2. gate_of env m r1 = Next r2 \<and> steady r r1 \<and> genuine env r1 \<and>
    (req_Claims r1 \<noteq> None \<longrightarrow> req_Claims r' = req_Claims r1)"
proof -
  obtain xs ys where ms: "ms = xs @ m # ys" using assms(4) by (auto simp: in_set_conv_decomp)
  from assms(1) obtain r1 r2 where r: "run_chain env xs r = Next r1" "gate_of env m r1 = Next r2" "run_chain env ys r2 = Next r'"
    by (auto simp: ms run_chain_append run_chain_cons simp del: run_chain.simps(2))
  note k1 = chain_keeps [OF r(1) assms(2,3)]
  then have o1: "req_Method r1 \<noteq> MethodOptions" using assms(2) by (simp add: steady_def)
  have k2: "run_chain env (m # ys) r1 = Next r'" using r(2,3) by (simp add: run_chain_cons del: run_chain.simps(2))
  from k1 have "genuine env r1" by simp
  from chain_keeps [OF k2 o1 this] k1 r(2) show ?thesis by blast
qed

subsection \<open>Who is behind which gate\<close>

text \<open>
  The handlers open to everyone, those that need a role, those that need a writer, those that need an owner or admin,
  those of the operations portal, and the gated features.
\<close>

definition public_handlers :: "string list" where
  "public_handlers =
     [''inline/health'', ''docsH.Index'', ''docsH.OpenAPISpec'', ''docsH.SwaggerUI'',
      ''statusHandler.HandleLocalStatus'', ''statusHandler.HandleGlobalStatus'',
      ''statusHandler.HandleStatusHistory'', ''statusHandler.HandleSLA'', ''ssoAuthH.Discovery'',
      ''ssoAuthH.SAMLMetadata'', ''ssoAuthH.SAMLLogin'', ''ssoAuthH.SAMLACS'', ''ssoAuthH.OIDCAuthorize'',
      ''ssoAuthH.OIDCCallback'', ''sandboxH.Create'', ''sandboxH.Get'', ''sandboxH.Claim'',
      ''publicH.MigrationPreview'', ''publicH.Calculator'', ''publicH.PublicEvaluate'',
      ''publicH.MigrationSave'', ''inline/pricing'', ''authH.Login'', ''signupH.InitiateSignup'',
      ''signupH.CompleteSignup'', ''signupH.ResendSignupOTP'', ''authH.ForgotPassword'',
      ''authH.ResetPassword'', ''magicLinkH.Exchange'', ''authH.Refresh'', ''authH.VerifyEmail'',
      ''authH.TokenExchange'', ''inline/regions'', ''inline/capabilities'', ''salesH.SubmitInquiry'',
      ''billingH.PayUCallback'', ''billingH.PayUFailure'', ''billingH.HandleStripeWebhook'',
      ''evalH.Evaluate'', ''evalH.BulkEvaluate'', ''evalH.ClientFlags'', ''evalH.Stream'',
      ''metricsH.TrackImpression'', ''agentH.Evaluate'', ''agentH.BulkEvaluate'', ''agentH.GetFlag'',
      ''agentH.CreateFlag'', ''opsAuthH.Login'', ''opsAuthH.Refresh'', ''opsAuthH.Logout'',
      ''opsAuthH.ForgotPassword'']"

definition write_handlers :: "string list" where
  "write_handlers =
     [''projectH.Create'', ''projectH.Update'', ''envH.Create'', ''envH.Update'', ''flagH.Create'',
      ''flagH.Update'', ''flagH.Delete'', ''flagH.UpdateState'', ''flagH.Promote'', ''flagH.Kill'',
      ''flagH.SyncEnvironments'', ''insightsH.InspectEntity'', ''insightsH.CompareEntities'',
      ''segmentH.Create'', ''segmentH.Update'', ''segmentH.Delete'', ''approvalH.Create'']"

definition admin_handlers :: "string list" where
  "admin_handlers =
     [''auditExportH.Export'', ''dataExportH.Export'', ''projectH.Delete'', ''envH.Delete'',
      ''apiKeyH.Create'', ''apiKeyH.Revoke'', ''apiKeyH.Rotate'', ''teamH.Invite'', ''teamH.UpdateRole'',
      ''teamH.Remove'', ''teamH.UpdatePermissions'', ''metricsH.Summary'', ''metricsH.Reset'',
      ''metricsH.ImpressionSummary'', ''metricsH.FlushImpressions'', ''analyticsH.Overview'',
      ''approvalH.Review'', ''webhookH.Create'', ''webhookH.List'', ''webhookH.Get'', ''webhookH.Update'',
      ''webhookH.Delete'', ''webhookH.ListDeliveries'', ''ssoH.Get'', ''ssoH.Upsert'', ''ssoH.Delete'',
      ''ssoH.TestConnection'', ''scimH.ListUsers'', ''scimH.GetUser'', ''scimH.CreateUser'',
      ''scimH.UpdateUser'', ''scimH.DeleteUser'', ''ipAllowlistH.Get'', ''ipAllowlistH.Upsert'',
      ''customRoleH.List'', ''customRoleH.Create'', ''customRoleH.Get'', ''customRoleH.Update'',
      ''customRoleH.Delete'', ''janitorH.Scan'', ''janitorH.CancelScan'', ''janitorH.GetScanStatus'',
      ''janitorH.ListStaleFlags'', ''janitorH.DismissFlag'', ''janitorH.GeneratePR'', ''janitorH.GetStats'',
      ''janitorH.GetConfig'', ''janitorH.UpdateConfig'', ''janitorH.ListRepositories'',
      ''janitorH.ConnectRepository'', ''janitorH.DisconnectRepository'', ''janitorH.ScanEvents'',
      ''integrationH.List'', ''integrationH.Create'', ''integrationH.Get'', ''integrationH.Update'',
      ''integrationH.Delete'', ''integrationH.Test'', ''integrationH.Deliveries'']"

definition member_handlers :: "string list" where
  "member_handlers =
     [''featuresH.List'', ''userPrivacyH.ExportMyData'', ''userPrivacyH.DeleteMyAccount'',
      ''preferencesH.GetHints'', ''preferencesH.DismissHint'',
      ''preferencesH.UpdateEmailPreferences'', ''feedbackH.Submit'', ''projectH.List'',
      ''projectH.Get'', ''envH.List'', ''flagH.List'', ''flagH.Get'', ''flagHistoryH.ListVersions'',
      ''flagHistoryH.GetVersion'', ''flagHistoryH.Rollback'', ''flagH.GetState'',
      ''flagH.ListFlagStates'', ''flagH.CompareEnvironments'', ''insightsH.FlagInsights'',
      ''segmentH.List'', ''segmentH.Get'', ''apiKeyH.List'', ''auditH.List'', ''limitsH.Get'',
      ''searchH.Search'', ''pinnedH.List'', ''pinnedH.Create'', ''pinnedH.Delete'', ''teamH.List'',
      ''teamH.ListPermissions'', ''approvalH.List'', ''approvalH.Get'']"

definition ops_handlers :: "string list" where
  "ops_handlers =
     [''opsDashboardH.ServeDashboard'', ''opsAuthH.Me'', ''opsH.ListLicenses'', ''opsH.GetLicense'',
      ''opsH.GetLicenseByOrg'', ''opsH.CreateLicense'', ''opsH.RevokeLicense'',
      ''opsH.OverrideLicenseQuota'', ''opsH.ResetLicenseUsage'', ''opsH.ListOpsUsers'',
      ''opsH.GetOpsUser'', ''opsH.GetMe'', ''opsH.CreateOpsUser'', ''opsH.UpdateOpsUser'',
      ''opsDashboardH.ListClusters'', ''opsDashboardH.GetClusterHealth'']"

definition feature_handlers :: "(string \<times> string list) list" where
  "feature_handlers =
     [(FeatureApprovals, [''approvalH.List'', ''approvalH.Get'', ''approvalH.Create'', ''approvalH.Review'']),
      (FeatureWebhooks, [''webhookH.Create'', ''webhookH.List'', ''webhookH.Get'', ''webhookH.Update'', ''webhookH.Delete'', ''webhookH.ListDeliveries'', ''integrationH.List'', ''integrationH.Create'', ''integrationH.Get'', ''integrationH.Update'', ''integrationH.Delete'', ''integrationH.Test'', ''integrationH.Deliveries'']),
      (FeatureSSO, [''ssoH.Get'', ''ssoH.Upsert'', ''ssoH.Delete'', ''ssoH.TestConnection'']),
      (FeatureSCIM, [''scimH.ListUsers'', ''scimH.GetUser'', ''scimH.CreateUser'', ''scimH.UpdateUser'', ''scimH.DeleteUser'']),
      (FeatureIPAllowlist, [''ipAllowlistH.Get'', ''ipAllowlistH.Upsert'']),
      (FeatureCustomRoles, [''customRoleH.List'', ''customRoleH.Create'', ''customRoleH.Get'', ''customRoleH.Update'', ''customRoleH.Delete'']),
      (FeatureAuditExport, [''auditExportH.Export'']),
      (FeatureDataExport, [''dataExportH.Export'']),
      (FeatureMFA, [''mfaH.Enable'', ''mfaH.Verify'', ''mfaH.Disable'', ''mfaH.Status''])]"

definition needs_token :: "route \<Rightarrow> bool" where
  "needs_token rt \<longleftrightarrow> JWTMW \<in> set (rt_Chain rt) \<or> rt_Handler rt \<in> set public_handlers"

definition needs_writer :: "route \<Rightarrow> bool" where
  "needs_writer rt \<longleftrightarrow> RoleMW writers \<in> set (rt_Chain rt) \<or> rt_Handler rt \<notin> set write_handlers"

definition needs_admin :: "route \<Rightarrow> bool" where
  "needs_admin rt \<longleftrightarrow> RoleMW ownerAdmin \<in> set (rt_Chain rt) \<or> rt_Handler rt \<notin> set admin_handlers"

definition needs_member :: "route \<Rightarrow> bool" where
  "needs_member rt \<longleftrightarrow> RoleMW allRoles \<in> set (rt_Chain rt) \<or> rt_Handler rt \<notin> set member_handlers"

definition needs_ops :: "route \<Rightarrow> bool" where
  "needs_ops rt \<longleftrightarrow> DomainMW ''featuresignals.com'' \<in> set (rt_Chain rt) \<or> rt_Handler rt \<notin> set ops_handlers"

definition needs_feature :: "route \<Rightarrow> bool" where
  "needs_feature rt \<longleftrightarrow> list_all (\<lambda>(f, hs). FeatureMW f \<in> set (rt_Chain rt) \<or> rt_Handler rt \<notin> set hs) feature_handlers"

text \<open>
  To tell the handlers apart their names are compared by a key, which is computed once for each name.  The groups
  are checked one by one, below any chain and prefix.
\<close>

fun name_key :: "nat \<Rightarrow> string \<Rightarrow> nat" where
  "name_key a [] = a"
| "name_key a (c # s) = name_key ((a * 31 + of_char c) mod 65536) s"

definition keys_guarded :: "mw list \<Rightarrow> nat \<Rightarrow> bool" where
  "keys_guarded ms k \<longleftrightarrow>
     (RoleMW writers \<in> set ms \<or> k \<notin> set (map (name_key 0) write_handlers)) \<and>
     (RoleMW ownerAdmin \<in> set ms \<or> k \<notin> set (map (name_key 0) admin_handlers)) \<and>
     (RoleMW allRoles \<in> set ms \<or> k \<notin> set (map (name_key 0) member_handlers)) \<and>
     (DomainMW ''featuresignals.com'' \<in> set ms \<or> k \<notin> set (map (name_key 0) ops_handlers)) \<and>
     list_all (\<lambda>(f, ks). FeatureMW f \<in> set ms \<or> k \<notin> set ks) (map (\<lambda>(f, hs). (f, map (name_key 0) hs)) feature_handlers)"

definition key_guarded :: "route \<Rightarrow> bool" where
  "key_guarded rt \<longleftrightarrow> keys_guarded (rt_Chain rt) (name_key 0 (rt_Handler rt))"

lemma key_guarded_names:
  assumes "key_guarded rt"
  shows "needs_writer rt" "needs_admin rt" "needs_member rt" "needs_ops rt" "needs_feature rt"
  using assms
  by (fastforce simp: key_guarded_def keys_guarded_def needs_writer_def needs_admin_def needs_member_def needs_ops_def
      needs_feature_def list_all_iff)+

lemma write_keys:
  "map (name_key 0) write_handlers =
     [62363, 35688, 7535, 46396, 42222, 15547, 35229, 21654, 18958, 37840, 44141, 22166, 21381, 36277, 9602, 29284, 17605]"
  by (simp add: write_handlers_def)

lemma admin_keys:
  "map (name_key 0) admin_handlers =
     [28841, 28216, 55370, 542, 23143, 51185, 38598, 62700, 48450, 48743, 64056, 62077, 12774, 60276, 51439, 32901, 39713, 24825, 19419, 6265, 63686, 17832, 4557, 20449, 35012, 62784, 39845, 8656, 36743, 55777, 49966, 53008, 59024, 49077, 43243, 47625, 55657, 20950, 40632, 5032, 7426, 64506, 34071, 28043, 5922, 10900, 56301, 8086, 60881, 17545, 37937, 33505, 4472, 13142, 43836, 52003, 6149, 42348, 38124]"
  by (simp add: admin_handlers_def)

lemma member_keys:
  "map (name_key 0) member_handlers =
     [19745, 61133, 59411, 18708, 6003, 51235, 1827, 7933, 22807, 44497, 2320, 24740, 1767, 21936, 59250, 14925, 18878, 59283, 32776, 30615, 34109, 51401, 22079, 16248, 54230, 7292, 36186, 29193, 37697, 9859, 45735, 43053]"
  by (simp add: member_handlers_def)

lemma ops_keys:
  "map (name_key 0) ops_handlers =
     [41677, 31640, 56904, 28995, 10122, 52077, 61091, 62427, 31895, 10348, 21151, 34646, 44233, 9308, 37119, 8648]"
  by (simp add: ops_handlers_def)

lemma feature_keys:
  "map (\<lambda>(f, hs). (f, map (name_key 0) hs)) feature_handlers =
     [(FeatureApprovals, [45735, 43053, 17605, 39713]),
      (FeatureWebhooks, [24825, 19419, 6265, 63686, 17832, 4557, 4472, 13142, 43836, 52003, 6149, 42348, 38124]),
      (FeatureSSO, [20449, 35012, 62784, 39845]),
      (FeatureSCIM, [8656, 36743, 55777, 49966, 53008]),
      (FeatureIPAllowlist, [59024, 49077]),
      (FeatureCustomRoles, [43243, 47625, 55657, 20950, 40632]),
      (FeatureAuditExport, [28841]),
      (FeatureDataExport, [28216]),
      (FeatureMFA, [37873, 63207, 33338, 15968])]"
  by (simp add: feature_handlers_def)

lemmas keys_evaluated = keys_guarded_def [unfolded write_keys admin_keys member_keys ops_keys feature_keys]

lemma leaf_guarded:
  "list_all key_guarded (routes_of c p docs_routes)"
  "list_all key_guarded (routes_of c p swagger_routes)"
  "list_all key_guarded (routes_of c p status_routes)"
  "list_all key_guarded (routes_of c p sso_login_routes)"
  "list_all key_guarded (routes_of c p sandbox_routes)"
  "list_all key_guarded (routes_of c p public_routes)"
  "list_all key_guarded (routes_of c p login_routes)"
  "list_all key_guarded (routes_of c p callback_routes)"
  "list_all key_guarded (routes_of c p mfa_routes)"
  "list_all key_guarded (routes_of c p billing_routes)"
  "list_all key_guarded (routes_of c p evaluation_routes)"
  "list_all key_guarded (routes_of c p agent_routes)"
  "list_all key_guarded (routes_of c p features_routes)"
  "list_all key_guarded (routes_of c p privacy_routes)"
  "list_all key_guarded (routes_of c p read_routes)"
  "list_all key_guarded (routes_of c p approval_read_routes)"
  "list_all key_guarded (routes_of c p audit_export_routes)"
  "list_all key_guarded (routes_of c p data_export_routes)"
  "list_all key_guarded (routes_of c p write_routes)"
  "list_all key_guarded (routes_of c p approval_create_routes)"
  "list_all key_guarded (routes_of c p admin_routes)"
  "list_all key_guarded (routes_of c p approval_review_routes)"
  "list_all key_guarded (routes_of c p sso_config_routes)"
  "list_all key_guarded (routes_of c p scim_routes)"
  "list_all key_guarded (routes_of c p ip_allowlist_routes)"
  "list_all key_guarded (routes_of c p custom_role_routes)"
  "list_all key_guarded (routes_of c p janitor_routes)"
  "list_all key_guarded (routes_of c p scan_event_routes)"
  "list_all key_guarded (routes_of c p ops_auth_routes)"
  "list_all key_guarded (routes_of c p ops_page_routes)"
  "list_all key_guarded (routes_of c p ops_routes)"
  by (simp_all add: key_guarded_def keys_evaluated docs_routes_def swagger_routes_def status_routes_def sso_login_routes_def sandbox_routes_def public_routes_def
    login_routes_def callback_routes_def mfa_routes_def billing_routes_def evaluation_routes_def agent_routes_def
    features_routes_def privacy_routes_def read_routes_def approval_read_routes_def audit_export_routes_def
    data_export_routes_def write_routes_def approval_create_routes_def admin_routes_def approval_review_routes_def sso_config_routes_def
    scim_routes_def ip_allowlist_routes_def custom_role_routes_def janitor_routes_def scan_event_routes_def ops_auth_routes_def
    ops_page_routes_def ops_routes_def)

lemma integration_guarded:
  "RoleMW ownerAdmin \<in> set c \<Longrightarrow> FeatureMW FeatureWebhooks \<in> set c \<Longrightarrow> list_all key_guarded (routes_of c p integration_routes)"
  by (simp add: key_guarded_def keys_evaluated integration_routes_def)

lemma webhook_guarded: "list_all key_guarded (routes_of c p webhook_routes)"
  by (simp add: webhook_routes_def integration_guarded) (simp add: key_guarded_def keys_evaluated)

lemma leaf_public:
  "list_all needs_token (routes_of c p docs_routes)"
  "list_all needs_token (routes_of c p swagger_routes)"
  "list_all needs_token (routes_of c p status_routes)"
  "list_all needs_token (routes_of c p sso_login_routes)"
  "list_all needs_token (routes_of c p sandbox_routes)"
  "list_all needs_token (routes_of c p public_routes)"
  "list_all needs_token (routes_of c p login_routes)"
  "list_all needs_token (routes_of c p callback_routes)"
  "list_all needs_token (routes_of c p evaluation_routes)"
  "list_all needs_token (routes_of c p agent_routes)"
  "list_all needs_token (routes_of c p ops_auth_routes)"
  by (simp_all add: needs_token_def public_handlers_def docs_routes_def swagger_routes_def status_routes_def
    sso_login_routes_def sandbox_routes_def public_routes_def login_routes_def callback_routes_def evaluation_routes_def
    agent_routes_def ops_auth_routes_def)

lemma chain_grows: "rt \<in> set (routes_of c p ns) \<Longrightarrow> set c \<subseteq> set (rt_Chain rt)"
proof (induction c p ns rule: routes_of.induct)
  case (2 chain prefix m ns)
  then have "set (chain @ [m]) \<subseteq> set (rt_Chain rt)" by simp
  then show ?case by simp
qed auto

lemma behind_token: "JWTMW \<in> set c \<Longrightarrow> list_all needs_token (routes_of c p ns)"
  using chain_grows by (fastforce simp: needs_token_def list_all_iff)

lemma uses_token:
  "list_all needs_token (routes_of c p (Use JWTMW # ns))"
  by (simp add: behind_token)

definition closed_nodes :: "node list \<Rightarrow> bool" where
  "closed_nodes ns \<longleftrightarrow> (\<forall>m. Use m \<notin> set ns)"

lemma routes_of_append [simp]:
  "closed_nodes xs \<Longrightarrow> routes_of chain prefix (xs @ ys) = routes_of chain prefix xs @ routes_of chain prefix ys"
proof (induction xs)
  case (Cons x xs)
  then have "closed_nodes xs" by (auto simp: closed_nodes_def)
  from Cons.IH [OF this] Cons.prems show ?case by (cases x) (auto simp: closed_nodes_def)
qed simp

lemma closed_groups [simp]:
  "closed_nodes docs_routes" "closed_nodes swagger_routes" "closed_nodes status_routes" "closed_nodes sandbox_routes"
  "closed_nodes ops_auth_routes" "closed_nodes []"
  by (simp_all add: closed_nodes_def docs_routes_def swagger_routes_def status_routes_def sandbox_routes_def ops_auth_routes_def)

lemma inner_guarded:
  "list_all key_guarded (routes_of c p session_routes)" "list_all key_guarded (routes_of c p management_routes)"
  "list_all key_guarded (routes_of c p v1_routes)"
  by (simp_all add: session_routes_def management_routes_def v1_routes_def leaf_guarded webhook_guarded)
    (simp_all add: key_guarded_def keys_evaluated)

lemma router_guarded: "list_all key_guarded (routes_of [] [] (router_with a b))"
  by (simp add: router_with_def leaf_guarded inner_guarded) (simp add: key_guarded_def keys_evaluated)

lemma inner_tokens:
  "list_all needs_token (routes_of c p session_routes)" "list_all needs_token (routes_of c p billing_routes)"
  "list_all needs_token (routes_of c p management_routes)" "list_all needs_token (routes_of c p janitor_routes)"
  "list_all needs_token (routes_of c p scan_event_routes)" "list_all needs_token (routes_of c p ops_page_routes)"
  "list_all needs_token (routes_of c p ops_routes)"
  unfolding session_routes_def billing_routes_def management_routes_def janitor_routes_def scan_event_routes_def
    ops_page_routes_def ops_routes_def
  by (rule uses_token)+

lemma router_tokens: "list_all needs_token (routes_of [] [] (router_with a b))"
  by (simp add: router_with_def v1_routes_def leaf_public inner_tokens) (simp add: needs_token_def public_handlers_def)

text \<open>A gate on a feature stands behind the check of the token.\<close>

definition is_feature :: "mw \<Rightarrow> bool" where
  "is_feature m \<longleftrightarrow> (case m of FeatureMW f \<Rightarrow> True | _ \<Rightarrow> False)"

definition token_first :: "mw list \<Rightarrow> bool" where
  "token_first ms \<longleftrightarrow> (\<forall>f. FeatureMW f \<notin> set (takeWhile (\<lambda>m. m \<noteq> JWTMW) ms))"

definition featureless :: "mw list \<Rightarrow> bool" where
  "featureless ms \<longleftrightarrow> (\<forall>f. FeatureMW f \<notin> set ms)"

lemma featureless_first: "featureless ms \<Longrightarrow> token_first (ms @ JWTMW # ns)"
proof -
  assume a: "featureless ms"
  have "set (takeWhile (\<lambda>m. m \<noteq> JWTMW) (ms @ JWTMW # ns)) \<subseteq> set ms"
    by (induction ms) auto
  with a show ?thesis by (auto simp: token_first_def featureless_def)
qed

lemma token_first_routes:
  "token_first (c @ JWTMW # d) \<Longrightarrow> rt \<in> set (routes_of (c @ JWTMW # d) p ns) \<Longrightarrow> token_first (rt_Chain rt)"
proof -
  assume a: "token_first (c @ JWTMW # d)" "rt \<in> set (routes_of (c @ JWTMW # d) p ns)"
  have "\<exists>e. rt_Chain rt = x @ e" if "rt \<in> set (routes_of x p ns)" for x
    using that by (induction x p ns rule: routes_of.induct) auto
  with a(2) obtain e where "rt_Chain rt = c @ JWTMW # d @ e" by fastforce
  moreover have "takeWhile (\<lambda>m. m \<noteq> JWTMW) (c @ JWTMW # d @ e) = takeWhile (\<lambda>m. m \<noteq> JWTMW) (c @ JWTMW # d)"
    by (induction c) auto
  ultimately show ?thesis using a(1) by (simp add: token_first_def)
qed

definition feature_ordered :: "route \<Rightarrow> bool" where
  "feature_ordered rt \<longleftrightarrow> token_first (rt_Chain rt)"

lemma uses_ordered: "featureless c \<Longrightarrow> list_all feature_ordered (routes_of c p (Use JWTMW # ns))"
  using token_first_routes [of c "[]"] featureless_first [of c "[]"] by (auto simp: list_all_iff feature_ordered_def)

lemma inner_ordered:
  assumes "featureless c"
  shows "list_all feature_ordered (routes_of c p session_routes)" "list_all feature_ordered (routes_of c p billing_routes)"
    "list_all feature_ordered (routes_of c p management_routes)" "list_all feature_ordered (routes_of c p janitor_routes)"
    "list_all feature_ordered (routes_of c p scan_event_routes)" "list_all feature_ordered (routes_of c p ops_page_routes)"
    "list_all feature_ordered (routes_of c p ops_routes)"
  using assms unfolding session_routes_def billing_routes_def management_routes_def janitor_routes_def scan_event_routes_def
    ops_page_routes_def ops_routes_def
  by (auto intro!: uses_ordered simp del: routes_of.simps)

lemma featureless_simps [simp]: "featureless []" "featureless (m # ms) \<longleftrightarrow> \<not> is_feature m \<and> featureless ms"
  by (auto simp: featureless_def is_feature_def split: mw.splits)

lemma featureless_ordered: "featureless ms \<Longrightarrow> token_first ms"
  by (auto simp: featureless_def token_first_def dest: set_takeWhileD)

lemma leaf_ordered:
  assumes "featureless c"
  shows
  "list_all feature_ordered (routes_of c p docs_routes)"
  "list_all feature_ordered (routes_of c p swagger_routes)"
  "list_all feature_ordered (routes_of c p status_routes)"
  "list_all feature_ordered (routes_of c p sso_login_routes)"
  "list_all feature_ordered (routes_of c p sandbox_routes)"
  "list_all feature_ordered (routes_of c p public_routes)"
  "list_all feature_ordered (routes_of c p login_routes)"
  "list_all feature_ordered (routes_of c p callback_routes)"
  "list_all feature_ordered (routes_of c p evaluation_routes)"
  "list_all feature_ordered (routes_of c p agent_routes)"
  "list_all feature_ordered (routes_of c p ops_auth_routes)"
  using assms
  by (auto simp: feature_ordered_def featureless_def docs_routes_def swagger_routes_def status_routes_def
    sso_login_routes_def sandbox_routes_def public_routes_def login_routes_def callback_routes_def evaluation_routes_def
    agent_routes_def ops_auth_routes_def intro!: featureless_ordered)

lemma router_ordered: "list_all feature_ordered (routes_of [] [] (router_with a b))"
  by (simp add: router_with_def v1_routes_def leaf_ordered inner_ordered is_feature_def)
    (simp add: feature_ordered_def featureless_ordered is_feature_def)

lemma table_guarded:
  assumes "rt \<in> set (table deployMode hasStatus)"
  shows "needs_token rt" "needs_writer rt" "needs_admin rt" "needs_member rt" "needs_ops rt" "needs_feature rt"
    "token_first (rt_Chain rt)"
proof -
  have "key_guarded rt" using assms router_guarded by (auto simp: table_def router_def list_all_iff)
  then show "needs_writer rt" "needs_admin rt" "needs_member rt" "needs_ops rt" "needs_feature rt"
    by (simp_all add: key_guarded_names)
  show "needs_token rt" using assms router_tokens by (auto simp: table_def router_def list_all_iff)
  show "token_first (rt_Chain rt)" using assms router_ordered by (auto simp: table_def router_def list_all_iff feature_ordered_def)
qed

subsection \<open>Reaching a handler\<close>

lemma reached:
  assumes "selects select" "serve select env rs r = Reached h r'" "req_Claims r = None"
  shows "\<exists>rt r1. rt \<in> set rs \<and> rt_Handler rt = h \<and> rt_Method rt = req_Method r \<and> run_chain env (rt_Chain rt) r1 = Next r' \<and>
    steady r r1 \<and> genuine env r1 \<and> req_Method r \<noteq> MethodOptions"
proof -
  obtain r0 where r0: "run_chain env root_chain r = Next r0"
    using assms(2) by (auto simp: serve_def split: gate.splits)
  have m: "req_Method r \<noteq> MethodOptions"
    using r0 by (auto simp: root_chain_def and_then_def CORS_def split: if_splits)
  have gen: "genuine env r" using assms(3) by (simp add: genuine_def)
  note k = chain_keeps [OF r0 m gen]
  obtain rt ps where s: "select rs r0 = Some (rt, ps)" "rt_Handler rt = h"
      "run_chain env (rt_Chain rt) (r0\<lparr>req_URLParams := ps\<rparr>) = Next r'"
    using assms(2) r0 by (auto simp: serve_def split: option.splits prod.splits gate.splits)
  have "rt \<in> set rs" "rt_Method rt = req_Method r0" using assms(1) s(1) by (auto simp: selects_def)
  with s m k show ?thesis
    by (intro exI [of _ rt] exI [of _ "r0\<lparr>req_URLParams := ps\<rparr>"]) (auto simp: steady_def genuine_def)
qed

text \<open>A gate of the feature lets through what it cannot find out about.\<close>

definition feature_open :: "('ip, 'priv, 'pub) web_env \<Rightarrow> string \<Rightarrow> auth_claims \<Rightarrow> bool" where
  "feature_open env f c \<longleftrightarrow>
     (cl_OrgID c = [] \<or> (case web_org env (cl_OrgID c) of Inl e \<Rightarrow> True | Inr org \<Rightarrow> IsFeatureEnabled (org_Plan org) f))"

lemma role_passed:
  assumes "run_chain env ms r = Next r'" "req_Method r \<noteq> MethodOptions" "genuine env r" "RoleMW roles \<in> set ms" "[] \<notin> set roles"
  shows "\<exists>c. req_Claims r' = Some c \<and> cl_Role c \<in> set roles"
proof -
  from chain_passed [OF assms(1-4)] obtain r1 r2 where r1: "RequireRole roles r1 = Next r2" "req_Claims r1 \<noteq> None \<longrightarrow> req_Claims r' = req_Claims r1"
    by auto
  then have "GetRole r1 \<in> set roles" by (auto simp: RequireRole_def split: if_splits)
  with assms(5) r1(2) show ?thesis by (auto simp: GetRole_def split: option.splits)
qed

text \<open>The addresses the operations portal is open to, as configured.\<close>

definition ops_open :: "('ip, 'priv, 'pub) web_env \<Rightarrow> auth_claims \<Rightarrow> bool" where
  "ops_open env c \<longleftrightarrow> web_opsDomain env = ''*'' \<or>
     (cl_Email c \<noteq> [] \<and> has_suffix (web_lower env (cl_Email c))
        (''@'' @ web_lower env (if web_opsDomain env \<noteq> [] then web_opsDomain env else ''featuresignals.com'')))"

lemma domain_passed:
  assumes "run_chain env ms r = Next r'" "req_Method r \<noteq> MethodOptions" "genuine env r"
    and "DomainMW ''featuresignals.com'' \<in> set ms" "req_Claims r' = Some c"
  shows "ops_open env c"
proof -
  from chain_passed [OF assms(1-4)] obtain r1 r2 where
    "RequireDomain (web_lower env) (web_opsDomain env) ''featuresignals.com'' None r1 = Next r2"
    "req_Claims r1 \<noteq> None \<longrightarrow> req_Claims r' = req_Claims r1"
    by auto
  with assms(5) show ?thesis
    by (auto simp: RequireDomain_def ops_open_def GetClaims_def Let_def split: if_splits option.splits)
qed

lemma feature_passed:
  assumes "run_chain env ms r = Next r'" "req_Method r \<noteq> MethodOptions" "genuine env r" "FeatureMW f \<in> set ms" "token_first ms"
  shows "\<exists>c. req_Claims r' = Some c \<and> feature_open env f c"
proof -
  obtain xs ys where ms: "ms = xs @ FeatureMW f # ys" using assms(4) by (auto simp: in_set_conv_decomp)
  have x: "JWTMW \<in> set xs"
  proof (rule ccontr)
    assume "JWTMW \<notin> set xs"
    then have "takeWhile (\<lambda>m. m \<noteq> JWTMW) ms = xs @ takeWhile (\<lambda>m. m \<noteq> JWTMW) (FeatureMW f # ys)"
      unfolding ms by (intro takeWhile_append2) auto
    with assms(5) show False by (auto simp: token_first_def)
  qed
  from assms(1) obtain r1 where r: "run_chain env xs r = Next r1" "run_chain env (FeatureMW f # ys) r1 = Next r'"
    by (auto simp: ms run_chain_append)
  note k1 = chain_keeps [OF r(1) assms(2,3)]
  with x obtain c where c: "req_Claims r1 = Some c" by auto
  have "req_Method r1 \<noteq> MethodOptions" using k1 assms(2) by (simp add: steady_def)
  with chain_keeps [OF r(2)] k1 c have "req_Claims r' = Some c" by simp
  moreover obtain r2 where "FeatureGate f (web_org env) r1 = Next r2"
    using r(2) by (auto simp: and_then_def split: gate.splits)
  with c have "feature_open env f c"
    by (auto simp: feature_open_def FeatureGate_def GetOrgID_def Let_def split: if_splits sum.splits)
  ultimately show ?thesis by blast
qed

text \<open>
  C38: nobody gets past the gates.  Whatever request arrives, whatever route the multiplexer chooses and whatever the
  stores answer: a handler that is not on the list of open ones is called only with the claims of a valid access
  token of the request that is not known to be revoked; a handler of the read routes only for one of the four roles;
  one that changes flags, states, segments, projects or environments only for an owner, admin or developer, and one
  that manages the organization only for an owner or admin; one of the operations portal only for an address of its
  domain; and one of a paid feature only if the plan of the organization includes it.  Two gates are open when their
  statement fails, and the property says no more: a token counts as not revoked when the revocation cannot be looked
  up (\<open>authorized\<close>), and every plan as sufficient when the organization cannot be read (\<open>feature_open\<close>).
\<close>

theorem handlers_guarded:
  assumes "selects select" and "req_Claims r = None"
    and "serve select env (table deployMode hasStatus) r = Reached h r'"
  shows "h \<in> set public_handlers \<or>
    (\<exists>c. authorized env (req_Header r) c \<and> req_Claims r' = Some c \<and>
       (h \<in> set write_handlers \<longrightarrow> cl_Role c \<in> {RoleOwner, RoleAdmin, RoleDeveloper}) \<and>
       (h \<in> set admin_handlers \<longrightarrow> cl_Role c \<in> {RoleOwner, RoleAdmin}) \<and>
       (h \<in> set member_handlers \<longrightarrow> cl_Role c \<in> {RoleOwner, RoleAdmin, RoleDeveloper, RoleViewer}) \<and>
       (h \<in> set ops_handlers \<longrightarrow> ops_open env c) \<and>
       (\<forall>(f, hs)\<in>set feature_handlers. h \<in> set hs \<longrightarrow> feature_open env f c))"
proof (cases "h \<in> set public_handlers")
  case False
  from reached [OF assms(1,3,2)] obtain rt r1 where rt: "rt \<in> set (table deployMode hasStatus)" "rt_Handler rt = h"
      and run: "run_chain env (rt_Chain rt) r1 = Next r'" and st: "steady r r1" "genuine env r1" "req_Method r \<noteq> MethodOptions"
    by blast
  have m: "req_Method r1 \<noteq> MethodOptions" using st by (simp add: steady_def)
  note g = table_guarded [OF rt(1)]
  have "JWTMW \<in> set (rt_Chain rt)" using g(1) rt(2) False by (simp add: needs_token_def)
  with chain_keeps [OF run m st(2)] obtain c where c: "req_Claims r' = Some c" "genuine env r'" "steady r1 r'" by auto
  then have "authorized env (req_Header r) c" using st(1) by (simp add: genuine_def steady_def)
  moreover have "cl_Role c \<in> {RoleOwner, RoleAdmin, RoleDeveloper}" if "h \<in> set write_handlers"
    using role_passed [OF run m st(2), of writers] g(2) rt(2) that c(1) by (auto simp: needs_writer_def writers_def)
  moreover have "cl_Role c \<in> {RoleOwner, RoleAdmin}" if "h \<in> set admin_handlers"
    using role_passed [OF run m st(2), of ownerAdmin] g(3) rt(2) that c(1) by (auto simp: needs_admin_def ownerAdmin_def)
  moreover have "cl_Role c \<in> {RoleOwner, RoleAdmin, RoleDeveloper, RoleViewer}" if "h \<in> set member_handlers"
    using role_passed [OF run m st(2), of allRoles] g(4) rt(2) that c(1) by (auto simp: needs_member_def allRoles_def)
  moreover have "ops_open env c" if "h \<in> set ops_handlers"
    using domain_passed [OF run m st(2) _ c(1)] g(5) rt(2) that by (auto simp: needs_ops_def)
  moreover have "feature_open env f c" if "(f, hs) \<in> set feature_handlers" "h \<in> set hs" for f hs
  proof -
    have "FeatureMW f \<in> set (rt_Chain rt)" using g(6) rt(2) that by (fastforce simp: needs_feature_def list_all_iff)
    from feature_passed [OF run m st(2) this g(7)] c(1) show ?thesis by simp
  qed
  ultimately show ?thesis using c(1) by blast
qed simp

subsection \<open>Two routes in the wrong place\<close>

definition wants_json :: "route \<Rightarrow> bool" where
  "wants_json rt \<longleftrightarrow> rt_Handler rt = ''billingH.PayUCallback'' \<longrightarrow> JSONMW \<in> set (rt_Chain rt) \<and> rt_Method rt = MethodPost"

lemma leaf_wants_json:
  "list_all wants_json (routes_of c p docs_routes)"
  "list_all wants_json (routes_of c p swagger_routes)"
  "list_all wants_json (routes_of c p status_routes)"
  "list_all wants_json (routes_of c p sso_login_routes)"
  "list_all wants_json (routes_of c p sandbox_routes)"
  "list_all wants_json (routes_of c p public_routes)"
  "list_all wants_json (routes_of c p login_routes)"
  "list_all wants_json (routes_of c p mfa_routes)"
  "list_all wants_json (routes_of c p billing_routes)"
  "list_all wants_json (routes_of c p evaluation_routes)"
  "list_all wants_json (routes_of c p agent_routes)"
  "list_all wants_json (routes_of c p integration_routes)"
  "list_all wants_json (routes_of c p features_routes)"
  "list_all wants_json (routes_of c p privacy_routes)"
  "list_all wants_json (routes_of c p read_routes)"
  "list_all wants_json (routes_of c p approval_read_routes)"
  "list_all wants_json (routes_of c p audit_export_routes)"
  "list_all wants_json (routes_of c p data_export_routes)"
  "list_all wants_json (routes_of c p write_routes)"
  "list_all wants_json (routes_of c p approval_create_routes)"
  "list_all wants_json (routes_of c p admin_routes)"
  "list_all wants_json (routes_of c p approval_review_routes)"
  "list_all wants_json (routes_of c p sso_config_routes)"
  "list_all wants_json (routes_of c p scim_routes)"
  "list_all wants_json (routes_of c p ip_allowlist_routes)"
  "list_all wants_json (routes_of c p custom_role_routes)"
  "list_all wants_json (routes_of c p janitor_routes)"
  "list_all wants_json (routes_of c p scan_event_routes)"
  "list_all wants_json (routes_of c p ops_auth_routes)"
  "list_all wants_json (routes_of c p ops_page_routes)"
  "list_all wants_json (routes_of c p ops_routes)"
  by (simp_all add: wants_json_def docs_routes_def swagger_routes_def status_routes_def sso_login_routes_def sandbox_routes_def public_routes_def
    login_routes_def mfa_routes_def billing_routes_def evaluation_routes_def agent_routes_def integration_routes_def
    features_routes_def privacy_routes_def read_routes_def approval_read_routes_def audit_export_routes_def data_export_routes_def
    write_routes_def approval_create_routes_def admin_routes_def approval_review_routes_def sso_config_routes_def scim_routes_def
    ip_allowlist_routes_def custom_role_routes_def janitor_routes_def scan_event_routes_def ops_auth_routes_def ops_page_routes_def
    ops_routes_def)

lemma callback_wants_json: "JSONMW \<in> set c \<Longrightarrow> list_all wants_json (routes_of c p callback_routes)"
  by (simp add: wants_json_def callback_routes_def)

lemma router_wants_json: "list_all wants_json (routes_of [] [] (router_with a b))"
  by (simp add: router_with_def v1_routes_def session_routes_def management_routes_def webhook_routes_def leaf_wants_json
      callback_wants_json) (simp add: wants_json_def)

text \<open>
  C39: the callback of PayU is behind a gate it cannot pass.  PayU posts a form, but the route is below
  \<open>RequireJSON\<close>: the handler is called for no request whose content type is not JSON.
\<close>

theorem payu_callback_wants_json:
  assumes "selects select" and "req_Claims r = None"
    and "serve select env (table deployMode hasStatus) r = Reached ''billingH.PayUCallback'' r'"
  shows "has_prefix (req_Header r ''Content-Type'') ''application/json''"
proof -
  from reached [OF assms(1,3,2)] obtain rt r1 where rt: "rt \<in> set (table deployMode hasStatus)" "rt_Handler rt = ''billingH.PayUCallback''"
      "rt_Method rt = req_Method r" and run: "run_chain env (rt_Chain rt) r1 = Next r'"
      and st: "steady r r1" "genuine env r1" "req_Method r \<noteq> MethodOptions"
    by blast
  have "wants_json rt" using rt(1) router_wants_json by (auto simp: table_def router_def list_all_iff)
  then have j: "JSONMW \<in> set (rt_Chain rt)" "req_Method r = MethodPost" using rt(2,3) by (simp_all add: wants_json_def)
  have "req_Method r1 \<noteq> MethodOptions" using st by (simp add: steady_def)
  from chain_passed [OF run this st(2) j(1)] obtain r2 r3 where "RequireJSON r2 = Next r3" "steady r1 r2" by auto
  with j(2) st(1) show ?thesis by (auto simp: RequireJSON_def steady_def split: if_splits)
qed

subsection \<open>Examples\<close>

definition demo_web :: "string \<Rightarrow> (unit, unit, unit) web_env" where
  "demo_web role = \<lparr>web_now = 5, web_validate = (\<lambda>t. Inr \<lparr>cl_UserID = ''u'', cl_OrgID = ''o'', cl_Role = role, cl_Email = [],
       cl_DataRegion = [], cl_ID = []\<rparr>), web_revoker = None, web_org = (\<lambda>i. Inr free_org),
     web_tier = \<lparr>ts_GetOrganization = (\<lambda>k. Inr free_org), ts_ListProjects = (\<lambda>k. Inr []), ts_ListEnvironments = (\<lambda>k. Inr []),
       ts_ListOrgMembers = (\<lambda>k. Inr [])\<rparr>,
     web_net = \<lparr>net_host = (\<lambda>a. None), net_parse = (\<lambda>a. None), net_contains = (\<lambda>c i. None)\<rparr>,
     web_allowlist = (\<lambda>i. Inr (False, [])), web_admits = (\<lambda>m r. True), web_realIP = req_RemoteAddr,
     web_license = demo_license_lib, web_licenseConfig = \<lparr>lcf_OnPrem = False, lcf_LicenseKey = [], lcf_LicensePublicKey = []\<rparr>,
     web_lower = id, web_opsDomain = []\<rparr>"

definition demo_incoming :: http_request where
  "demo_incoming = \<lparr>req_Method = MethodPost, req_Path = ''/v1/flags'', req_RemoteAddr = [],
     req_Header = (\<lambda>h. if h = ''Authorization'' then ''Bearer t'' else ''application/json''), req_URLParams = [],
     req_Claims = None, req_License = None\<rparr>"

text \<open>The choice of one given route.\<close>

definition choosing :: "route \<Rightarrow> route list \<Rightarrow> http_request \<Rightarrow> (route \<times> (string \<times> string) list) option" where
  "choosing rt rs r = (if rt \<in> set rs \<and> rt_Method rt = req_Method r then Some (rt, []) else None)"

lemma choosing_selects: "selects (choosing rt)"
  by (auto simp: selects_def choosing_def)

definition management_route :: "string list \<Rightarrow> string \<Rightarrow> string \<Rightarrow> route" where
  "management_route roles pattern h =
     \<lparr>rt_Chain = [JSONMW, JWTMW, IPAllowlistMW, CacheMW ''private, no-cache'', TrialMW, TierMW, TierRateMW, RoleMW roles],
      rt_Method = MethodPost, rt_Pattern = ''/v1'' @ pattern, rt_Handler = h\<rparr>"

lemma demo_served:
  assumes "management_route roles pattern h \<in> set rs" "role \<in> set roles"
  shows "\<exists>r'. serve (choosing (management_route roles pattern h)) (demo_web role) rs demo_incoming = Reached h r'"
  using assms
  by (simp add: serve_def root_chain_def and_then_def CORS_def LicenseValidation_def demo_web_def choosing_def demo_incoming_def
      management_route_def RequireJSON_def JWTAuth_def split2_def IPAllowlist_def ctx_getters TrialExpiry_def free_org_def
      TierEnforce_def isExactProjectCreate_def matchRoutePattern_def path_parts_def matchRoute_def trim_left_def
      trim_right_def trim_char_def RequireRole_def)

lemma kill_route: "management_route writers ''/projects/{projectID}/flags/{flagKey}/kill'' ''flagH.Kill'' \<in> set (table [] False)"
  by (simp add: table_def router_def router_with_def v1_routes_def management_routes_def write_routes_def management_route_def)

theorem handlers_guarded_witness:
  "\<exists>c. authorized (demo_web RoleAdmin) (req_Header demo_incoming) c \<and> cl_Role c \<in> {RoleOwner, RoleAdmin, RoleDeveloper}"
proof -
  obtain r' where "serve (choosing (management_route writers ''/projects/{projectID}/flags/{flagKey}/kill'' ''flagH.Kill''))
      (demo_web RoleAdmin) (table [] False) demo_incoming = Reached ''flagH.Kill'' r'"
    using demo_served [OF kill_route, of RoleAdmin] by (auto simp: writers_def)
  from handlers_guarded [OF choosing_selects _ this] show ?thesis
    by (auto simp: demo_incoming_def public_handlers_def write_handlers_def)
qed

definition callback_route :: route where
  "callback_route = \<lparr>rt_Chain = [JSONMW], rt_Method = MethodPost, rt_Pattern = ''/v1/billing/payu/callback'',
     rt_Handler = ''billingH.PayUCallback''\<rparr>"

theorem payu_callback_wants_json_witness:
  "has_prefix (req_Header demo_incoming ''Content-Type'') ''application/json''"
proof -
  have "callback_route \<in> set (table [] False)"
    by (simp add: table_def router_def router_with_def v1_routes_def callback_routes_def callback_route_def)
  then have "\<exists>r'. serve (choosing callback_route) (demo_web []) (table [] False) demo_incoming = Reached ''billingH.PayUCallback'' r'"
    by (simp add: serve_def root_chain_def and_then_def CORS_def LicenseValidation_def demo_web_def choosing_def demo_incoming_def
        RequireJSON_def) (simp add: callback_route_def and_then_def RequireJSON_def)
  then obtain r' where "serve (choosing callback_route) (demo_web []) (table [] False) demo_incoming = Reached ''billingH.PayUCallback'' r'"
    by blast
  from payu_callback_wants_json [OF choosing_selects _ this] show ?thesis by (simp add: demo_incoming_def)
qed

text \<open>A rollback is registered among the routes for reading, which viewers may use.\<close>

lemma rollback_open_to_viewers:
  "\<exists>r'. serve (choosing (management_route allRoles ''/projects/{projectID}/flags/{flagKey}/rollback'' ''flagHistoryH.Rollback''))
     (demo_web RoleViewer) (table [] False) demo_incoming = Reached ''flagHistoryH.Rollback'' r'"
  by (rule demo_served)
    (simp_all add: table_def router_def router_with_def v1_routes_def management_routes_def read_routes_def management_route_def
      allRoles_def)

end
