(* ===== verification/CreditHandlers.thy ===== *)
theory CreditHandlers
  imports Billing CreditLaws
begin

text \<open>
  The routes of the credit ledger, \<open>server/internal/api/handlers/credits.go\<close>: what an organization has and can
  buy, buying a pack, and the history.  Times of rows are left as they are, where the code prints them.  A pack is
  credited by the request itself, without a payment (\<open>purchase_unpaid\<close>).
\<close>

subsection \<open>Printing and paging\<close>

text \<open>\<open>\%d\<close> and \<open>\%02d\<close>, whose width counts the sign.\<close>

definition formatPaiseDisplay :: "int \<Rightarrow> string" where
  "formatPaiseDisplay paise =
     (let rupees = go_itoa (go_div paise 100); part = go_itoa (go_mod paise 100)
      in ''INR '' @ rupees @ ''.'' @ (if length part < 2 then CHR ''0'' # part else part))"

definition credits_parsePagination :: "(string \<Rightarrow> string) \<Rightarrow> int \<Rightarrow> int \<Rightarrow> int \<times> int" where
  "credits_parsePagination query defaultLimit maxLimit =
     (let limit = (case go_atoi_ok (query ''limit'') of
                     None \<Rightarrow> defaultLimit
                   | Some n \<Rightarrow> if 0 < n then (if maxLimit < n then maxLimit else n) else defaultLimit);
          offset = (case go_atoi_ok (query ''offset'') of None \<Rightarrow> 0 | Some n \<Rightarrow> if 0 < n then n else 0)
      in (limit, offset))"

subsection \<open>Handlers\<close>

record pack_json =
  pj_ID :: string
  pj_Name :: string
  pj_Credits :: int
  pj_PricePaise :: int
  pj_PriceDisplay :: string

record bearer_json =
  bj_ID :: string
  bj_DisplayName :: string
  bj_Description :: string
  bj_UnitName :: string
  bj_Balance :: int
  bj_IncludedPerMonth :: int
  bj_LifetimeUsed :: int
  bj_AvailablePacks :: "pack_json list"

definition pack_to_json :: "credit_pack \<Rightarrow> pack_json" where
  "pack_to_json p = \<lparr>pj_ID = pack_ID p, pj_Name = pack_Name p, pj_Credits = pack_Credits p,
     pj_PricePaise = pack_PricePaise p, pj_PriceDisplay = formatPaiseDisplay (pack_PricePaise p)\<rparr>"

text \<open>Errors while reading a balance or the packs of a bearer are ignored.\<close>

fun bearer_infos ::
    "faults \<Rightarrow> nat \<Rightarrow> gotime \<Rightarrow> string \<Rightarrow> string \<Rightarrow> credit_db \<Rightarrow> cost_bearer list \<Rightarrow> bearer_json list" where
  "bearer_infos flt n now orgID plan creds [] = []"
| "bearer_infos flt n now orgID plan creds (b # bs) =
     (let bal = GetCreditBalance (flt n) now creds (orgID, cb_ID b);
          packs = ListCreditPacks (flt (Suc n)) creds (cb_ID b)
      in \<lparr>bj_ID = cb_ID b, bj_DisplayName = cb_DisplayName b, bj_Description = cb_Description b,
          bj_UnitName = cb_UnitName b, bj_Balance = (case bal of Inl e \<Rightarrow> 0 | Inr x \<Rightarrow> bal_Balance x),
          bj_IncludedPerMonth =
            (if plan = PlanPro then cb_ProUnits b else if plan = PlanEnterprise then 10000 else cb_FreeUnits b),
          bj_LifetimeUsed = (case bal of Inl e \<Rightarrow> 0 | Inr x \<Rightarrow> bal_LifetimeUsed x),
          bj_AvailablePacks = map pack_to_json (or_none packs)\<rparr>
         # bearer_infos flt (Suc (Suc n)) now orgID plan creds bs)"

definition Credits_Get ::
    "bill_env \<Rightarrow> faults \<Rightarrow> http_request \<Rightarrow> bill_state \<Rightarrow> credit_db \<Rightarrow> bearer_json list response" where
  "Credits_Get env flt r s creds =
     (case ListCostBearers (flt 0) creds of
        Inl e \<Rightarrow> Refuse StatusInternalServerError ''failed to load credit information''
      | Inr bearers \<Rightarrow>
        (case GetOrganization (flt 1) (be_pg env) (GetOrgID r) (accounts s) of
           Inl e \<Rightarrow> Refuse StatusInternalServerError ''failed to load organization''
         | Inr org \<Rightarrow> Answer StatusOK (bearer_infos flt 2 (be_now env) (GetOrgID r) (org_Plan org) creds bearers)))"

record purchase_response =
  pp_Purchase :: credit_purchase
  pp_PriceDisplay :: string
  pp_NewBalance :: int

text \<open>\<open>seen\<close> are the tables when the pack is read; the calls of the store come first, then the one for the new balance.\<close>

definition Credits_Purchase ::
    "bill_env \<Rightarrow> faults \<Rightarrow> credit_db \<Rightarrow> http_request \<Rightarrow> string option \<Rightarrow> credit_db \<Rightarrow>
     purchase_response response \<times> credit_db" where
  "Credits_Purchase env flt seen r body creds =
     (case body of
        None \<Rightarrow> (Refuse StatusBadRequest ''invalid request body: pack_id is required'', creds)
      | Some packID \<Rightarrow>
        (if packID = [] then (Refuse StatusBadRequest ''pack_id is required'', creds)
         else
           (case PurchaseCredits flt seen (be_now env) (be_newID env 0) (GetOrgID r) packID creds of
              (Inl e, creds1) \<Rightarrow>
                (if e = ErrInvalidCreditPack then Refuse StatusBadRequest ''invalid or inactive credit pack''
                 else Refuse StatusInternalServerError ''failed to process purchase'', creds1)
            | (Inr p, creds1) \<Rightarrow>
                (Answer StatusOK \<lparr>pp_Purchase = p, pp_PriceDisplay = formatPaiseDisplay (pur_PricePaise p),
                   pp_NewBalance =
                     (case GetCreditBalance (flt 6) (be_now env) creds1 (GetOrgID r, pur_BearerID p) of
                        Inl e \<Rightarrow> 0 | Inr b \<Rightarrow> bal_Balance b)\<rparr>, creds1))))"

definition Credits_History ::
    "faults \<Rightarrow> http_request \<Rightarrow> (string \<Rightarrow> string) \<Rightarrow> credit_db \<Rightarrow>
     ((credit_purchase \<times> string) list \<times> credit_consumption list) response" where
  "Credits_History flt r query creds =
     (case credits_parsePagination query 50 100 of
        (limit, offset) \<Rightarrow>
          (case ListCreditPurchases (flt 0) creds (GetOrgID r) limit offset of
             Inl e \<Rightarrow> Refuse StatusInternalServerError ''failed to load purchase history''
           | Inr ps \<Rightarrow>
             (case ListCreditConsumptions (flt 1) creds (GetOrgID r) (query ''bearer_id'') limit offset of
                Inl e \<Rightarrow> Refuse StatusInternalServerError ''failed to load consumption history''
              | Inr cs \<Rightarrow> Answer StatusOK (map (\<lambda>p. (p, formatPaiseDisplay (pur_PricePaise p))) ps, cs))))"

definition Credits_Balances ::
    "faults \<Rightarrow> http_request \<Rightarrow> credit_db \<Rightarrow> (string \<times> int \<times> int) list response" where
  "Credits_Balances flt r creds =
     (case ListCreditBalances (flt 0) creds (GetOrgID r) of
        Inl e \<Rightarrow> Refuse StatusInternalServerError ''failed to load credit balances''
      | Inr bals \<Rightarrow> Answer StatusOK (map (\<lambda>b. (bal_BearerID b, bal_Balance b, bal_LifetimeUsed b)) bals))"

subsection \<open>Laws\<close>

lemma credits_page_bounds:
  "credits_parsePagination query 50 100 = (limit, offset) \<Longrightarrow> 1 \<le> limit \<and> limit \<le> 100 \<and> 0 \<le> offset"
  by (auto simp: credits_parsePagination_def Let_def split: option.splits if_splits)

text \<open>The route is a step of the ledger, or leaves it alone; so what the ledger keeps it keeps under the routes too.\<close>

lemma Credits_Purchase_step:
  assumes "catalogue_ok seen"
  shows "credit_step\<^sup>*\<^sup>* creds (snd (Credits_Purchase env flt seen r body creds))"
proof -
  have "credit_step creds (snd (PurchaseCredits flt seen now i o1 packID creds))" for now i o1 packID
    by (rule credit_step.purchase [OF assms prod.collapse [symmetric]])
  then show ?thesis
    by (auto simp: Credits_Purchase_def split_beta split: option.split sum.split)
qed

text \<open>
  A purchase is never paid for.  Without faults, every request of a member that names an active pack adds the credits
  of the pack to the balance of the organization, as long as the columns have room for them; nothing of the payment
  gateways, the plan or the subscription is looked at.
\<close>

lemma purchase_unpaid:
  assumes pack: "List.find (\<lambda>p. pack_ID p = packID \<and> pack_IsActive p) (db_Packs creds) = Some pack" "packID \<noteq> []"
    and ins: "sql_insert_purchase False
      \<lparr>pur_ID = be_newID env 0, pur_OrgID = GetOrgID r, pur_PackID = packID, pur_BearerID = pack_BearerID pack,
       pur_Credits = pack_Credits pack, pur_PricePaise = pack_PricePaise pack, pur_PurchasedAt = be_now env\<rparr> creds = Inr db1"
    and add: "sql_add_balance False (be_now env) (GetOrgID r, pack_BearerID pack) (pack_Credits pack) db1 = Inr db2"
  shows "\<exists>resp. Credits_Purchase env (\<lambda>n. False) creds r (Some packID) creds = (Answer StatusOK resp, db2)"
proof -
  have "pack_IsActive pack" using pack(1) by (auto simp: find_Some_iff)
  then have "PurchaseCredits (\<lambda>n. False) creds (be_now env) (be_newID env 0) (GetOrgID r) packID creds =
      (Inr \<lparr>pur_ID = be_newID env 0, pur_OrgID = GetOrgID r, pur_PackID = packID, pur_BearerID = pack_BearerID pack,
       pur_Credits = pack_Credits pack, pur_PricePaise = pack_PricePaise pack, pur_PurchasedAt = be_now env\<rparr>, db2)"
    using ins add by (simp add: PurchaseCredits_def GetCreditPack_def pack(1) Let_def tx_commit_def)
  with pack(2) show ?thesis by (simp add: Credits_Purchase_def)
qed

end
