(* ===== verification/Agents.thy ===== *)
theory Agents
  imports ApiKeys
begin

text \<open>
  The routes for agents, \<open>server/internal/api/handlers/agent.go\<close>, with the validators of
  \<open>api/middleware/security.go\<close> that they use.  Strings are the bytes of a Go string; \<open>utf8.ValidString\<close> and
  \<open>json.Marshal\<close> are parameters, log lines and timings are left out.  No middleware in front of these routes and
  none of their handlers asks for a token or an API key.
\<close>

subsection \<open>Validators\<close>

definition lower_letter :: "char \<Rightarrow> bool" where
  "lower_letter c \<longleftrightarrow> CHR ''a'' \<le> c \<and> c \<le> CHR ''z''"

definition key_char :: "char \<Rightarrow> bool" where
  "key_char c \<longleftrightarrow> lower_letter c \<or> go_digit c \<or> c = CHR ''-''"

text \<open>\<open>^[a-z][a-z0-9-]{0,254}$\<close>\<close>

definition FlagKeyPattern :: "string \<Rightarrow> bool" where
  "FlagKeyPattern s = (case s of [] \<Rightarrow> False | c # cs \<Rightarrow> lower_letter c \<and> length cs \<le> 254 \<and> list_all key_char cs)"

definition lower_hex :: "char \<Rightarrow> bool" where
  "lower_hex c \<longleftrightarrow> go_digit c \<or> CHR ''a'' \<le> c \<and> c \<le> CHR ''f''"

text \<open>Five groups of hexadecimal digits between hyphens.\<close>

definition UUIDPattern :: "string \<Rightarrow> bool" where
  "UUIDPattern s =
     (case split_on CHR ''-'' s of
        parts \<Rightarrow> map length parts = [8, 4, 4, 4, 12] \<and> list_all (list_all lower_hex) parts)"

text \<open>A validator answers the message of its error.\<close>

definition ValidateFlagKey :: "string \<Rightarrow> string option" where
  "ValidateFlagKey key =
     (if \<not> FlagKeyPattern key
      then Some ''flag_key: must start with a lowercase letter and contain only lowercase letters, numbers, and hyphens''
      else None)"

definition ValidateUUID :: "string \<Rightarrow> string option" where
  "ValidateUUID i = (if \<not> UUIDPattern i then Some ''id: invalid UUID format'' else None)"

definition ValidateString :: "(string \<Rightarrow> bool) \<Rightarrow> string \<Rightarrow> string \<Rightarrow> nat \<Rightarrow> string option" where
  "ValidateString utf8 s fieldName maxLength =
     (if maxLength < length s
      then Some (fieldName @ '': exceeds maximum length of '' @ decimal maxLength @ '' characters'')
      else if \<not> utf8 s then Some (fieldName @ '': contains invalid UTF-8 characters'')
      else None)"

subsection \<open>Handlers\<close>

record agent_flag_request =
  ag_Key :: string
  ag_Name :: string
  ag_Description :: string
  ag_Type :: string
  ag_DefaultValue :: "json option"
  ag_Tags :: "string list"
  ag_ProjectID :: string

definition agent_default :: "json option \<Rightarrow> json" where
  "agent_default v = (case v of None \<Rightarrow> JBool False | Some JNull \<Rightarrow> JBool False | Some x \<Rightarrow> x)"

definition agent_flag :: "agent_flag_request \<Rightarrow> string \<Rightarrow> string \<Rightarrow> flag" where
  "agent_flag req ty defaultJSON =
     zero_flag\<lparr>flag_Key := ag_Key req, flag_Name := ag_Name req, flag_Description := ag_Description req,
       flag_FlagType := ty, flag_DefaultValue := Some defaultJSON, flag_Tags := ag_Tags req,
       flag_ProjectID := ag_ProjectID req\<rparr>"

definition Agent_CreateFlag ::
    "api_env \<Rightarrow> (string \<Rightarrow> bool) \<Rightarrow> (json \<Rightarrow> string option) \<Rightarrow> faults \<Rightarrow> agent_flag_request option \<Rightarrow> flag_db \<Rightarrow>
     (string \<times> string \<times> string \<times> string \<times> string) response \<times> flag_db" where
  "Agent_CreateFlag env utf8 marshal flt body db =
     (case body of
        None \<Rightarrow> (Refuse StatusBadRequest ''invalid request body'', db)
      | Some req \<Rightarrow>
        (case ValidateFlagKey (ag_Key req) of Some e \<Rightarrow> (Refuse 422 e, db) | None \<Rightarrow>
        (case ValidateString utf8 (ag_Name req) ''name'' 255 of Some e \<Rightarrow> (Refuse 422 e, db) | None \<Rightarrow>
        (case (if ag_Description req \<noteq> [] then ValidateString utf8 (ag_Description req) ''description'' 1000 else None) of
           Some e \<Rightarrow> (Refuse 422 e, db) | None \<Rightarrow>
        (case ValidateUUID (ag_ProjectID req) of Some e \<Rightarrow> (Refuse 422 e, db) | None \<Rightarrow>
          (let ty = (if ag_Type req = [] then FlagTypeBoolean else ag_Type req)
           in if ty \<notin> {''boolean'', ''string'', ''number'', ''json''}
              then (Refuse 422 ''invalid flag type, must be one of: boolean, string, number, json'', db)
              else
                (case marshal (agent_default (ag_DefaultValue req)) of
                   None \<Rightarrow> (Refuse StatusBadRequest ''invalid default_value'', db)
                 | Some defaultJSON \<Rightarrow>
                   (case CreateFlag (flt 0) (ae_pg env) (ae_dbnow env) (ae_newID env 0) (agent_flag req ty defaultJSON) db of
                      (Inl e, db1) \<Rightarrow>
                        (if e = ErrConflict then Refuse StatusConflict ''flag with this key already exists''
                         else Refuse StatusInternalServerError ''failed to create flag'', db1)
                    | (Inr f, db1) \<Rightarrow>
                        (Answer StatusCreated (ag_Key req, ag_Name req, ag_Description req, ty, ag_ProjectID req), db1)))))))))"

text \<open>The ruleset is taken from the cache alone: an environment that is not cached is not found.\<close>

definition agent_ruleset :: "api_env \<Rightarrow> faults \<Rightarrow> string \<Rightarrow> string \<Rightarrow> flag_db \<Rightarrow> cache \<Rightarrow> (nat \<times> string) + ruleset" where
  "agent_ruleset env flt environment failure db c =
     (case GetEnvironment (flt 0) (ae_pg env) environment db of
        Inl e \<Rightarrow> Inl (StatusInternalServerError, failure)
      | Inr e \<Rightarrow>
        (case GetRuleset c (env_ID e) of
           None \<Rightarrow> Inl (StatusNotFound, ''ruleset not found'')
         | Some rs \<Rightarrow> Inr rs))"

definition Agent_Evaluate ::
    "api_env \<Rightarrow> faults \<Rightarrow> (string \<times> string \<times> eval_context) option \<Rightarrow> flag_db \<Rightarrow> cache \<Rightarrow> eval_result response" where
  "Agent_Evaluate env flt body db c =
     (case body of
        None \<Rightarrow> Refuse StatusBadRequest ''invalid request body''
      | Some (flagKey, environment, ctx) \<Rightarrow>
        (case ValidateFlagKey flagKey of
           Some e \<Rightarrow> Refuse 422 e
         | None \<Rightarrow>
           (if environment = [] then Refuse 422 ''environment is required''
            else
              (case agent_ruleset env flt environment ''failed to evaluate flag'' db c of
                 Inl (code, msg) \<Rightarrow> Refuse code msg
               | Inr rs \<Rightarrow> Answer StatusOK (Evaluate (ae_lib env) (ae_now env) flagKey ctx rs)))))"

definition Agent_BulkEvaluate ::
    "api_env \<Rightarrow> faults \<Rightarrow> (string list \<times> string \<times> eval_context) option \<Rightarrow> flag_db \<Rightarrow> cache \<Rightarrow> eval_result list response" where
  "Agent_BulkEvaluate env flt body db c =
     (case body of
        None \<Rightarrow> Refuse StatusBadRequest ''invalid request body''
      | Some (flagKeys, environment, ctx) \<Rightarrow>
        (if 50 < length flagKeys then Refuse 422 ''maximum 50 flags per bulk evaluation''
         else if environment = [] then Refuse 422 ''environment is required''
         else
           (case List.find (\<lambda>k. ValidateFlagKey k \<noteq> None) flagKeys of
              Some k \<Rightarrow> Refuse 422 (the (ValidateFlagKey k))
            | None \<Rightarrow>
              (case agent_ruleset env flt environment ''failed to evaluate flags'' db c of
                 Inl (code, msg) \<Rightarrow> Refuse code msg
               | Inr rs \<Rightarrow> Answer StatusOK (map (\<lambda>k. Evaluate (ae_lib env) (ae_now env) k ctx rs) flagKeys)))))"

record agent_flag_detail =
  ad_Key :: string
  ad_Name :: string
  ad_Description :: string
  ad_Type :: string
  ad_DefaultValue :: rawjson
  ad_Status :: string
  ad_Category :: string
  ad_Tags :: "string list"
  ad_CreatedAt :: gotime
  ad_UpdatedAt :: gotime

definition Agent_GetFlag ::
    "api_env \<Rightarrow> faults \<Rightarrow> http_request \<Rightarrow> (string \<Rightarrow> string) \<Rightarrow> flag_db \<Rightarrow> agent_flag_detail response" where
  "Agent_GetFlag env flt r query db =
     (let flagKey = URLParam r ''key''
      in case ValidateFlagKey flagKey of
           Some e \<Rightarrow> Refuse 422 e
         | None \<Rightarrow>
           (if query ''project_id'' = [] then Refuse 422 ''project_id query parameter is required''
            else
              (case GetFlag (flt 0) (ae_pg env) (query ''project_id'') flagKey db of
                 Inl e \<Rightarrow> (if e = ErrNotFound then Refuse StatusNotFound ''flag not found''
                           else Refuse StatusInternalServerError ''failed to get flag'')
               | Inr f \<Rightarrow>
                 Answer StatusOK \<lparr>ad_Key = flag_Key f, ad_Name = flag_Name f, ad_Description = flag_Description f,
                   ad_Type = flag_FlagType f, ad_DefaultValue = flag_DefaultValue f, ad_Status = flag_Status f,
                   ad_Category = flag_Category f, ad_Tags = flag_Tags f, ad_CreatedAt = flag_CreatedAt f,
                   ad_UpdatedAt = flag_UpdatedAt f\<rparr>)))"

subsection \<open>Laws\<close>

text \<open>
  Agents cannot create flags.  The flag has no organization, and an empty string is no identifier for the database, so
  every request is refused and changes nothing.
\<close>

lemma agent_creates_nothing:
  assumes "pg_uuid (ae_pg env) [] = None"
  shows "\<exists>code msg. Agent_CreateFlag env utf8 marshal flt body db = (Refuse code msg, db)"
proof -
  have "\<exists>e. CreateFlag fails (ae_pg env) now i (agent_flag req ty d) db = (Inl e, db)" for fails now i req ty d
    using assms by (auto simp: CreateFlag_def agent_flag_def zero_flag_def Let_def split: option.split)
  then obtain err where
    "\<And>fails now i req ty d. CreateFlag fails (ae_pg env) now i (agent_flag req ty d) db = (Inl (err fails now i req ty d), db)"
    by metis
  then show ?thesis
    by (simp add: Agent_CreateFlag_def Let_def split: option.split)
qed

text \<open>
  Everyone reads every flag.  Whoever sends a request, with whatever token or key or none: a stored flag with a key of
  the usual form, of whatever organization, is answered to anyone who names its project.
\<close>

lemma agent_reads_any_flag:
  assumes "f \<in> set (fdb_Flags db)" "FlagKeyPattern (flag_Key f)" "query ''project_id'' = flag_ProjectID f"
    and "pg_uuid (ae_pg env) (flag_ProjectID f) = Some (flag_ProjectID f)" "flag_ProjectID f \<noteq> []"
    and "URLParam r ''key'' = flag_Key f" "\<not> flt 0"
  shows "\<exists>d. Agent_GetFlag env flt r query db = Answer StatusOK d \<and> ad_Key d = flag_Key f"
proof -
  obtain g where g: "find (\<lambda>g. flag_ProjectID g = flag_ProjectID f \<and> flag_Key g = flag_Key f) (fdb_Flags db) = Some g"
    using assms(1) by (cases "find (\<lambda>g. flag_ProjectID g = flag_ProjectID f \<and> flag_Key g = flag_Key f) (fdb_Flags db)")
      (auto simp: find_None_iff)
  then have "flag_Key g = flag_Key f" by (auto simp: find_Some_iff)
  with g assms(2-7) show ?thesis
    by (simp add: Agent_GetFlag_def Let_def ValidateFlagKey_def GetFlag_def by_uuid_def flag_columns_def)
qed

end
