(* ===== verification/Spec2Isabelle.thy ===== *)
theory Spec2Isabelle
  imports EvalProps Validation OpsGates RateLimit RouterLaws CreditLaws Schedules ApprovalLaws WebhookDispatch Streams SessionLaws Team OrgLifecycle Relay ProjectLaws BillingLaws RouteLaws CreditHandlers Agents
begin

text \<open>
  FeatureSignals, a service for feature flags: the server in Go under \<open>server/\<close>, a router in front of it
  (\<open>deploy/global-router\<close>), a relay proxy (\<open>server/cmd/relay\<close>) and client libraries, of which the one in Go
  (\<open>sdks/go\<close>) is modelled.  Applications ask for the value of a flag for a user; members of an organization change
  flags, states, segments and projects through a management API; the database (PostgreSQL) notifies the servers of
  changes, which drop cached rulesets, tell clients by server-sent events and call webhooks; jobs apply schedules and
  end trials, subscriptions and deleted organizations; credits pay for the costly operations.

  Paths are below \<open>server/internal/\<close> unless they name another directory.  A definition has the name of the function,
  method or type it translates, with the handler as prefix where names would clash (\<open>Flag_Create\<close>, \<open>Segment_Create\<close>)
  and a suffix or prefix where a name is taken by the library.

  1. THE PARTS AND THEIR THEORIES

  Vocabulary.  \<open>GoPrelude\<close>: Go types, 64 bit wrap-around, durations, string functions, maps as lists with a key each
  (\<open>gomap\<close>, in the order an iteration happens to have), and the collections \<open>go_simps\<close> and \<open>inv_intros\<close>.
  \<open>FlagModel\<close>: the data of \<open>domain/\<close> (flags, states, segments, rulesets, contexts, results, JSON values, errors) and what
  the statements of \<open>store/postgres\<close> share (\<open>result\<close>, \<open>by_uuid\<close>, UUID and JSON columns).  \<open>HttpModel\<close>: requests, and
  middlewares as functions that refuse a request or pass it on (\<open>gate\<close>).

  Evaluation.  \<open>Murmur\<close> (\<open>eval/hash.go\<close>) is MurmurHash3 on 32 bit words, with the bounds of the buckets.  \<open>RuleMatch\<close>
  (\<open>eval/rules.go\<close>) has the operators and conditions, \<open>EvalEngine\<close> (\<open>eval/engine.go\<close>) segments, rules, variants, mutual
  exclusion and prerequisites as one mutually recursive evaluation, \<open>EvalSort\<close> the contract of \<open>sort.Slice\<close> and the stable
  sort that meets it, \<open>EvalMiddleware\<close> (\<open>eval/middleware.go\<close>) the decorators, \<open>Validation\<close> (\<open>domain/validate.go\<close>) the
  validators and what they give the evaluation, \<open>EvalProps\<close> the properties of an evaluation.

  Flags and their store.  \<open>FlagStore\<close> has the tables of \<open>store/postgres/store.go\<close> (projects, environments, flags,
  states, segments, versions, audit) as the record \<open>flag_db\<close>, each SQL statement a function on it, with the constraints
  and triggers of \<open>migrate/migrations\<close>; \<open>AuditLog\<close> (\<open>domain/audit.go\<close>) the hash chain; \<open>Paging\<close> (\<open>api/dto/pagination.go\<close>)
  pages.  \<open>FlagHandlers\<close> and \<open>StateHandlers\<close> are the handlers of \<open>api/handlers/flags.go\<close>, \<open>flag_history.go\<close> and
  \<open>orgguard.go\<close>; \<open>FlagLaws\<close>, \<open>FlagIsolation\<close>, \<open>FlagProps\<close> and \<open>HistoryLaws\<close> what they promise.  \<open>RulesetCache\<close> and
  \<open>CacheLaws\<close> are \<open>store/cache/inmemory.go\<close> beside the tables, as a transition system of commits, loads and notifications.
  \<open>Projects\<close> and \<open>ProjectLaws\<close> are \<open>projects.go\<close> and \<open>segments.go\<close>, \<open>Approvals\<close> and \<open>ApprovalLaws\<close> are \<open>approval.go\<close>,
  \<open>Schedules\<close> is the flag part of \<open>scheduler/scheduler.go\<close>.

  Consumers of changes.  \<open>Webhooks\<close> and \<open>WebhookDispatch\<close> (\<open>webhook/\<close>, \<open>retry/\<close>, \<open>api/handlers/webhook.go\<close>), \<open>Streams\<close>
  (\<open>sse/\<close>), \<open>SdkClient\<close> and \<open>SdkLaws\<close> (\<open>sdks/go\<close>), \<open>Relay\<close> (\<open>cmd/relay\<close>, \<open>events/redis.go\<close>).

  Access.  \<open>Access\<close>, \<open>OpsAccess\<close>, \<open>OpsGates\<close> and \<open>RateLimit\<close> are the middlewares of \<open>api/middleware\<close>; \<open>Plans\<close> is
  \<open>domain/features.go\<close>; \<open>License\<close> is \<open>license/\<close> with its middlewares.  \<open>Routes\<close> is the table of \<open>api/router.go\<close>, route
  by route with the middlewares in force, and \<open>RouteLaws\<close> runs a request through them.  \<open>ApiKeys\<close> has the keys
  (\<open>apikeys.go\<close>) and the evaluation routes (\<open>eval.go\<close>), \<open>Agents\<close> the routes of \<open>agent.go\<close>.  \<open>RouterLimits\<close> and
  \<open>RouterLaws\<close> are \<open>deploy/global-router\<close>; \<open>PerClient\<close> is the contract of the limiter in memory.

  Accounts and money.  \<open>Accounts\<close> has the tables of organizations, users, members and credentials as the record
  \<open>account_db\<close>; \<open>Sessions\<close> the tokens and the handlers of \<open>auth.go\<close>, \<open>signup.go\<close>, \<open>magic_link.go\<close> and \<open>mfa.go\<close>;
  \<open>Team\<close> is \<open>team.go\<close>; \<open>SessionLaws\<close> and \<open>AccountLaws\<close> say what protects an account.  \<open>OrgLifecycle\<close> has the hourly
  jobs of the scheduler.  \<open>Credits\<close>, \<open>CreditLaws\<close> and \<open>CreditHandlers\<close> are the ledger (\<open>store/postgres/credit_store.go\<close>,
  \<open>api/handlers/credits.go\<close>).  \<open>Money\<close> (\<open>domain/billing.go\<close>), \<open>Payments\<close> (\<open>payment/\<close>), \<open>Billing\<close> and \<open>BillingLaws\<close>
  (\<open>api/handlers/billing.go\<close>, \<open>onboarding.go\<close>) are amounts, gateways and subscriptions.

  2. HOW THE CODE IS MODELLED

  State is passed explicitly: a handler takes the request, an environment record with the clocks, new identifiers and
  parameters, and the tables, and returns the response with the tables afterwards.  Every call to the database can
  fail: \<open>flt n\<close> says whether the \<open>n\<close>-th call of the operation does, and all early returns, ignored errors and orders of
  writes are those of the code.  A handler or job is one step unless its theory says otherwise; what happens
  between its statements is modelled where it decides a property: \<open>ConsumeCredits\<close> takes what its reads outside
  the transaction saw as arguments; a review is split after its load (\<open>review_loaded\<close>), a login after its count
  (\<open>login_counted\<close>), a completed sign-up after its load (\<open>signup_loaded\<close>); a load of the cache that stores what it
  read before a change is shown to stay (\<open>stale_load_survives_kill\<close>); a tick writes rows that it read before.  Runs of many clients are the inductive
  relations \<open>credit_step\<close>, \<open>approval_step\<close>, \<open>cache_step\<close>, \<open>sse_step\<close>, \<open>key_step\<close>, \<open>login_step\<close>, \<open>signup_step\<close> and
  \<open>conn_step\<close>, with invariants by rule induction.

  What is not code of the repository is a parameter: JSON, UUID and regular expression parsing (\<open>golib\<close>, \<open>pglib\<close>),
  \<open>sort.Slice\<close>, hashes, signatures, JWT, bcrypt and TOTP libraries, HTTP, net addresses, the multiplexer, the clocks,
  random bytes, the iteration order of maps.  What is relied on is a hypothesis with a name (\<open>sorts_rules\<close>,
  \<open>jwt_sound\<close>, \<open>selects\<close>, \<open>canonical_ids\<close>), and each property with hypotheses is applied to a concrete run.

  Interfaces are locales, each interpreted on the model of the code: \<open>rule_sorter\<close> (what the evaluation needs of the
  sorting routine), \<open>observer\<close> (decorators that do not change an answer), \<open>state_table\<close> (the upsert and lookup of
  states), \<open>credit_ledger\<close> (what a step may do to balance, use and credit), \<open>passive_gate\<close> (middlewares that never
  change what they pass), \<open>per_client\<close> (limiters whose answers depend on one client's own requests).

  3. TERMINATION AND BOUNDS

  All functions are total.  The evaluation ends because a call that recurs adds a flag of the ruleset to the visited
  ones; the measure is the number of flags not visited yet.  Loops over rows are structural.  Loops of the code
  that run for ever (polling, streaming, cleanup, subscriptions) are modelled by the step they repeat and by runs of it;
  no fuel is used.  Integers that the code keeps at 32 or 64 bits are words or wrapped (\<open>wrap64\<close>); columns of type
  \<open>INT\<close> refuse values outside 32 bits (\<open>int32\<close>).

  4. WHAT IS SHOWN

  Evaluation: it is determined by flags, states and context alone; the lowest deciding priority decides; rollouts
  are sticky; variants partition the buckets; one flag of an exclusion group wins; prerequisites are enforced, and
  cycles of flags that default to false serve nothing.  Tables: the tenants' flags, states and segments are out
  of each other's reach, a flag is read back as it was created, a kill is effective down to the evaluation, in the
  cache after its notification and in every client after its next poll; pages are complete.  Change control: four
  eyes, and the race in which a request is both approved and rejected.  Deliveries: schedules, webhooks and streams do
  exactly what they should when undisturbed.  Ledger: never overspent, conserved, keys charged once, grants once.
  Accounts: typed tokens, factors of a login, bounds on guesses under any interleaving and failure, revoked keys.
  Organizations: active ones survive the jobs, deleted ones the grace time, unpaid ones end.  Billing: an event
  applies once and to one organization.  Routes: every handler behind its gates, the fail-open ones said.

  Where the code falls short of this, a lemma shows how and the text above it says so: for instance
  \<open>concurrent_guesses\<close>, \<open>concurrent_codes\<close>, \<open>eviction_renews_quota\<close>, \<open>cycle_with_true_default_served\<close>,
  \<open>diamond_prerequisite_fails\<close>, \<open>login_never_restores\<close>, \<open>refresh_never_rechecked\<close>, \<open>stale_load_survives_kill\<close>,
  \<open>approval_crosses_tenants\<close>, \<open>rollback_open_to_viewers\<close>, \<open>payu_never_credited\<close>, \<open>purchase_unpaid\<close>,
  \<open>agent_reads_any_flag\<close>.

  5. NOT MODELLED

  The code janitor and the clients of code hosts and language models (\<open>janitor/\<close>): calls to external systems around
  heuristics on source text.  Single sign-on, provisioning and custom roles (\<open>sso/\<close>, \<open>scim.go\<close>, \<open>custom_roles.go\<close>):
  the checks are those of SAML and OIDC libraries.  Mail, integrations and imports: clients and formats of external
  services; the dunning mails of the scheduler are left out with them.  The handlers of the operations portal,
  sandboxes, public calculators, search, insights, exports, limits and preferences: reads and single statements on
  rows of their own; their routes and gates are in the table.  Product events, log lines, metrics, tracing, status
  pages, compression and headers; start-up and configuration; the dashboards and the client libraries in other
  languages.  Of goroutines the effect is modelled where it touches state that a property is about (the cache, the
  streams, the limiters), not their scheduling.  The statements of a handler that is not listed in section 2 are
  not interleaved with those of others.
\<close>

end
